(* ===== verification/Prelude.thy ===== *)
theory Prelude
  imports Main "HOL-Library.Sublist" "HOL-Library.Char_ord" "HOL-Library.List_Lexorder"
begin

section \<open>Prelude: Python values, keyed tables and the collections of the development\<close>

text \<open>
  What every component shares: the exceptions of the source as a datatype, the reading of
  Python's truthiness and of \<open>int(x or 0)\<close> on nullable columns, text operations on UTF-8
  bytes, and tables as lists of rows with a key. The locale \<open>keyed_store\<close> states what a
  client may assume of a repository's lookup and write-back; each repository interprets it
  on its own functions.
\<close>

named_theorems op_defs "definitions of the repository operations"
named_theorems frame "which tables an operation leaves alone"

subsection \<open>Exceptions\<close>

datatype exn =
    ValueError string
  | TypeError
  | KeyError
  | LookupError string
  | OverflowError
  | RuntimeError string
  | IntegrityError

type_synonym 'a attempt = "exn + 'a"

definition bind_attempt :: "'a attempt \<Rightarrow> ('a \<Rightarrow> 'b attempt) \<Rightarrow> 'b attempt" where
  "bind_attempt m f = (case m of Inl e \<Rightarrow> Inl e | Inr x \<Rightarrow> f x)"

lemma bind_attempt_simps [simp]:
  "bind_attempt (Inl e) f = Inl e"
  "bind_attempt (Inr x) f = f x"
  by (simp_all add: bind_attempt_def)

lemma bind_attempt_Inr_iff: "bind_attempt m f = Inr y \<longleftrightarrow> (\<exists>x. m = Inr x \<and> f x = Inr y)"
  by (cases m) auto

subsection \<open>Truthiness of nullable columns\<close>

definition truthy_str :: "string option \<Rightarrow> bool" where
  "truthy_str s = (case s of None \<Rightarrow> False | Some t \<Rightarrow> t \<noteq> [])"

definition int_or_0 :: "int option \<Rightarrow> int" where
  \<comment> \<open>\<open>int(x or 0)\<close>\<close>
  "int_or_0 x = (case x of None \<Rightarrow> 0 | Some n \<Rightarrow> n)"

definition str_or :: "string option \<Rightarrow> string option \<Rightarrow> string option" where
  \<comment> \<open>\<open>x or y\<close> on nullable text\<close>
  "str_or x y = (if truthy_str x then x else y)"

lemma truthy_str_simps [simp]:
  "truthy_str None = False"
  "truthy_str (Some s) = (s \<noteq> [])"
  by (simp_all add: truthy_str_def)

lemma int_or_0_simps [simp]:
  "int_or_0 None = 0"
  "int_or_0 (Some n) = n"
  by (simp_all add: int_or_0_def)

subsection \<open>Text: UTF-8 bytes, counted and cut by code point\<close>

text \<open>
  A \<^typ>\<open>string\<close> holds the UTF-8 bytes of a Python \<open>str\<close>, so \<open>encode("utf-8")\<close> is the
  identity and byte order is code point order. Lengths and slices of the source count code
  points: a byte of the form 10xxxxxx continues the code point before it.
\<close>

definition continuation :: "char \<Rightarrow> bool" where
  "continuation c = (let n = of_char c :: nat in 128 \<le> n \<and> n < 192)"

definition py_len :: "string \<Rightarrow> nat" where
  "py_len s = length (filter (\<lambda>c. \<not> continuation c) s)"

fun py_take :: "nat \<Rightarrow> string \<Rightarrow> string" where
  "py_take n [] = []"
| "py_take n (c # cs) =
     (if continuation c then c # py_take n cs
      else (case n of 0 \<Rightarrow> [] | Suc m \<Rightarrow> c # py_take m cs))"

fun py_in :: "string \<Rightarrow> string \<Rightarrow> bool" where
  \<comment> \<open>\<open>needle in s\<close>\<close>
  "py_in needle [] = (needle = [])"
| "py_in needle (c # cs) = (prefix needle (c # cs) \<or> py_in needle cs)"

fun py_split :: "char \<Rightarrow> string \<Rightarrow> string list" where
  \<comment> \<open>\<open>text.split(sep)\<close>\<close>
  "py_split sep [] = [[]]"
| "py_split sep (c # cs) =
     (if c = sep then [] # py_split sep cs
      else (case py_split sep cs of [] \<Rightarrow> [[c]] | w # ws \<Rightarrow> (c # w) # ws))"

text \<open>Code points as UTF-8, for the texts of the source that are not ASCII.\<close>

definition utf8 :: "nat \<Rightarrow> nat list" where
  "utf8 n =
     (if n < 0x80 then [n]
      else if n < 0x800 then [0xC0 + n div 64, 0x80 + n mod 64]
      else if n < 0x10000 then [0xE0 + n div 4096, 0x80 + n div 64 mod 64, 0x80 + n mod 64]
      else [0xF0 + n div 262144, 0x80 + n div 4096 mod 64, 0x80 + n div 64 mod 64, 0x80 + n mod 64])"

definition text_of :: "nat list \<Rightarrow> string" where
  "text_of ns = map char_of (concat (map utf8 ns))"

definition spaces :: "string list" where
  \<comment> \<open>the code points \<open>str.isspace\<close> holds of\<close>
  "spaces = map (\<lambda>n. text_of [n])
     ([9, 10, 11, 12, 13, 28, 29, 30, 31, 32, 0x85, 0xA0, 0x1680] @ [0x2000..<0x200B] @
      [0x2028, 0x2029, 0x202F, 0x205F, 0x3000])"

lemma spaces_bytes [code]:
  "spaces =
     [[CHR 0x09], [CHR 0x0A], [CHR 0x0B], [CHR 0x0C], [CHR 0x0D], [CHR 0x1C], [CHR 0x1D],
      [CHR 0x1E], [CHR 0x1F], [CHR 0x20], [CHR 0xC2, CHR 0x85], [CHR 0xC2, CHR 0xA0],
      [CHR 0xE1, CHR 0x9A, CHR 0x80], [CHR 0xE2, CHR 0x80, CHR 0x80],
      [CHR 0xE2, CHR 0x80, CHR 0x81], [CHR 0xE2, CHR 0x80, CHR 0x82],
      [CHR 0xE2, CHR 0x80, CHR 0x83], [CHR 0xE2, CHR 0x80, CHR 0x84],
      [CHR 0xE2, CHR 0x80, CHR 0x85], [CHR 0xE2, CHR 0x80, CHR 0x86],
      [CHR 0xE2, CHR 0x80, CHR 0x87], [CHR 0xE2, CHR 0x80, CHR 0x88],
      [CHR 0xE2, CHR 0x80, CHR 0x89], [CHR 0xE2, CHR 0x80, CHR 0x8A],
      [CHR 0xE2, CHR 0x80, CHR 0xA8], [CHR 0xE2, CHR 0x80, CHR 0xA9],
      [CHR 0xE2, CHR 0x80, CHR 0xAF], [CHR 0xE2, CHR 0x81, CHR 0x9F],
      [CHR 0xE3, CHR 0x80, CHR 0x80]]"
  by (simp add: spaces_def text_of_def utf8_def upt_conv_Cons) code_simp

primrec strip_front :: "nat \<Rightarrow> string list \<Rightarrow> string \<Rightarrow> string" where
  \<comment> \<open>every round drops at least one byte, so as many rounds as bytes are enough\<close>
  "strip_front 0 ws s = s"
| "strip_front (Suc n) ws s =
     (case find (\<lambda>w. prefix w s) ws of None \<Rightarrow> s | Some w \<Rightarrow> strip_front n ws (drop (length w) s))"

definition py_strip :: "string \<Rightarrow> string" where
  "py_strip s =
     (let l = strip_front (length s) spaces s
      in rev (strip_front (length l) (map rev spaces) (rev l)))"

fun py_lower :: "string \<Rightarrow> string" where
  \<comment> \<open>ASCII letters, and the one code point outside ASCII whose lower case is an ASCII letter (the
     Kelvin sign); other letters outside ASCII are left as they are\<close>
  "py_lower [] = []"
| "py_lower (c # cs) =
     (let n = of_char c :: nat
      in if 65 \<le> n \<and> n \<le> 90 then char_of (n + 32) # py_lower cs
         else if prefix [CHR 0xE2, CHR 0x84, CHR 0xAA] (c # cs) then CHR ''k'' # py_lower (drop 2 cs)
         else c # py_lower cs)"

fun show_nat :: "nat \<Rightarrow> string" where
  "show_nat n = (if n < 10 then [char_of (48 + n)] else show_nat (n div 10) @ [char_of (48 + n mod 10)])"

declare show_nat.simps [simp del]

definition show_int :: "int \<Rightarrow> string" where
  \<comment> \<open>\<open>str(n)\<close>\<close>
  "show_int n = (if n < 0 then CHR ''-'' # show_nat (nat (- n)) else show_nat (nat n))"

lemma char_of_digit [simp]:
  "char_of (48::nat) = CHR ''0''" "char_of (49::nat) = CHR ''1''" "char_of (50::nat) = CHR ''2''"
  "char_of (51::nat) = CHR ''3''" "char_of (52::nat) = CHR ''4''" "char_of (53::nat) = CHR ''5''"
  "char_of (54::nat) = CHR ''6''" "char_of (55::nat) = CHR ''7''" "char_of (56::nat) = CHR ''8''"
  "char_of (57::nat) = CHR ''9''"
  by code_simp+

function chars_of :: "string \<Rightarrow> string list" where
  \<comment> \<open>the code points of a text\<close>
  "chars_of [] = []"
| "chars_of (c # cs) = (c # takeWhile continuation cs) # chars_of (dropWhile continuation cs)"
  by pat_completeness auto

termination by (relation "measure length") (simp_all add: le_imp_less_Suc length_dropWhile_le)

lemma py_len_py_take: "py_len (py_take n s) \<le> n"
  by (induction n s rule: py_take.induct) (auto simp: py_len_def split: nat.splits)

subsection \<open>Clock readings\<close>

text \<open>
  A naive \<open>datetime\<close> is its number of microseconds since 0001-01-01T00:00:00, the least
  value Python has. Additions with a user-chosen number of days go through \<open>dt_add\<close>, which
  raises as Python does when the sum leaves the years 1 to 9999.
\<close>

type_synonym datetime = int

record clock =
  now_local :: datetime  \<comment> \<open>\<open>datetime.now()\<close>\<close>
  now_utc :: datetime    \<comment> \<open>\<open>utcnow()\<close>\<close>

abbreviation second :: int where "second \<equiv> 1000000"

abbreviation day :: int where "day \<equiv> 86400000000"

abbreviation max_datetime :: datetime where "max_datetime \<equiv> 315537897599999999"

definition dt_add :: "datetime \<Rightarrow> int \<Rightarrow> datetime attempt" where
  "dt_add t d = (if 0 \<le> t + d \<and> t + d \<le> max_datetime then Inr (t + d) else Inl OverflowError)"

definition date_of :: "datetime \<Rightarrow> int" where
  "date_of t = t div day"

lemma dt_add_Inr: "dt_add t d = Inr u \<Longrightarrow> u = t + d"
  by (simp add: dt_add_def split: if_splits)

lemma dt_add_cases: "dt_add t d = Inl OverflowError \<or> dt_add t d = Inr (t + d)"
  by (simp add: dt_add_def)

subsection \<open>Tables\<close>

lemma length_filter_mono:
  "(\<And>x. P x \<Longrightarrow> Q x) \<Longrightarrow> length (filter P xs) \<le> length (filter Q xs)"
  by (induction xs) (auto intro: le_SucI)

text \<open>
  A table is the list of its rows. \<open>tbl_get\<close> is a query on a key followed by \<open>first()\<close>,
  \<open>tbl_put\<close> the write-back of a row that was read and changed, which the session does when
  the unit of work ends.
\<close>

definition tbl_get :: "('r \<Rightarrow> 'k) \<Rightarrow> 'k \<Rightarrow> 'r list \<Rightarrow> 'r option" where
  "tbl_get key k rs = find (\<lambda>r. key r = k) rs"

definition tbl_put :: "('r \<Rightarrow> 'k) \<Rightarrow> 'r \<Rightarrow> 'r list \<Rightarrow> 'r list" where
  "tbl_put key r rs = map (\<lambda>x. if key x = key r then r else x) rs"

definition tbl_del :: "('r \<Rightarrow> 'k) \<Rightarrow> 'k \<Rightarrow> 'r list \<Rightarrow> 'r list" where
  "tbl_del key k rs = filter (\<lambda>x. key x \<noteq> k) rs"

text \<open>A table with an auto-increment id hands out the next id on insertion.\<close>

record 'r auto_table =
  rows :: "'r list"
  next_id :: int

definition insert_auto :: "(int \<Rightarrow> 'r) \<Rightarrow> 'r auto_table \<Rightarrow> 'r auto_table" where
  "insert_auto mk t = t\<lparr>rows := rows t @ [mk (next_id t)], next_id := next_id t + 1\<rparr>"

definition ids_below :: "('r \<Rightarrow> int) \<Rightarrow> 'r auto_table \<Rightarrow> bool" where
  \<comment> \<open>the ids are distinct and the counter is ahead of them\<close>
  "ids_below key t = (distinct (map key (rows t)) \<and> (\<forall>r \<in> set (rows t). key r < next_id t))"

lemma rows_insert_auto [simp]: "rows (insert_auto mk t) = rows t @ [mk (next_id t)]"
  by (simp add: insert_auto_def)

lemma next_id_insert_auto [simp]: "next_id (insert_auto mk t) = next_id t + 1"
  by (simp add: insert_auto_def)

lemma ids_below_insert_auto:
  "ids_below key t \<Longrightarrow> (\<And>i. key (mk i) = i) \<Longrightarrow> ids_below key (insert_auto mk t)"
  by (force simp: ids_below_def)

lemma tbl_get_Nil [simp]: "tbl_get key k [] = None"
  by (simp add: tbl_get_def)

lemma tbl_get_Cons [simp]:
  "tbl_get key k (r # rs) = (if key r = k then Some r else tbl_get key k rs)"
  by (simp add: tbl_get_def)

lemma tbl_get_append:
  "tbl_get key k (rs @ ss) = (case tbl_get key k rs of None \<Rightarrow> tbl_get key k ss | Some r \<Rightarrow> Some r)"
  by (induction rs) auto

lemma tbl_get_key: "tbl_get key k rs = Some r \<Longrightarrow> key r = k"
  by (induction rs) (auto split: if_splits)

lemma tbl_get_mem: "tbl_get key k rs = Some r \<Longrightarrow> r \<in> set rs"
  by (induction rs) (auto split: if_splits)

lemma tbl_get_None: "tbl_get key k rs = None \<longleftrightarrow> k \<notin> key ` set rs"
  by (induction rs) auto

lemma tbl_get_distinct:
  "distinct (map key rs) \<Longrightarrow> r \<in> set rs \<Longrightarrow> tbl_get key (key r) rs = Some r"
  by (induction rs) force+

lemma map_key_tbl_put [simp]: "map key (tbl_put key r rs) = map key rs"
  by (simp add: tbl_put_def)

lemma tbl_put_Nil [simp]: "tbl_put key r [] = []"
  by (simp add: tbl_put_def)

lemma tbl_put_Cons [simp]:
  "tbl_put key r (x # rs) = (if key x = key r then r else x) # tbl_put key r rs"
  by (simp add: tbl_put_def)

lemma tbl_get_put_same:
  "tbl_get key (key r) rs \<noteq> None \<Longrightarrow> tbl_get key (key r) (tbl_put key r rs) = Some r"
  by (induction rs) auto

lemma tbl_get_put_other:
  "k \<noteq> key r \<Longrightarrow> tbl_get key k (tbl_put key r rs) = tbl_get key k rs"
  by (induction rs) auto

lemma tbl_put_absent: "tbl_get key (key r) rs = None \<Longrightarrow> tbl_put key r rs = rs"
  by (induction rs) (auto split: if_splits)

lemma length_tbl_put [simp]: "length (tbl_put key r rs) = length rs"
  by (simp add: tbl_put_def)

lemma set_tbl_put: "set (tbl_put key r rs) \<subseteq> insert r (set rs)"
  by (auto simp: tbl_put_def)

lemma tbl_put_mem:
  "x \<in> set rs \<Longrightarrow> key x = key r \<Longrightarrow> r \<in> set (tbl_put key r rs)"
  "x \<in> set rs \<Longrightarrow> key x \<noteq> key r \<Longrightarrow> x \<in> set (tbl_put key r rs)"
  by (force simp: tbl_put_def)+

lemma map_tbl_put:
  \<comment> \<open>a column that the written row keeps is kept by the table\<close>
  "distinct (map key rs) \<Longrightarrow> tbl_get key (key r) rs = Some r0 \<Longrightarrow> f r = f r0 \<Longrightarrow>
   map f (tbl_put key r rs) = map f rs"
  by (induction rs) (auto simp: tbl_put_absent tbl_get_None split: if_splits)

lemma tbl_get_del: "tbl_get key k (tbl_del key j rs) = (if k = j then None else tbl_get key k rs)"
  by (induction rs) (auto simp: tbl_del_def)

lemma distinct_tbl_del: "distinct (map key rs) \<Longrightarrow> distinct (map key (tbl_del key k rs))"
  by (simp add: tbl_del_def distinct_map_filter)

definition first_of :: "'a list \<Rightarrow> 'a option" where
  \<comment> \<open>\<open>first()\<close>\<close>
  "first_of xs = (case xs of [] \<Rightarrow> None | x # ys \<Rightarrow> Some x)"

subsection \<open>The contract of a keyed repository\<close>

text \<open>
  What a service relies on when it reads a row, changes it and lets the session write it
  back: the row it then finds is the one it wrote, and no other row has changed.
\<close>

locale keyed_store =
  fixes get :: "'k \<Rightarrow> 's \<Rightarrow> 'v option"
    and put :: "'v \<Rightarrow> 's \<Rightarrow> 's"
    and key :: "'v \<Rightarrow> 'k"
  assumes get_key: "get k s = Some v \<Longrightarrow> key v = k"
    and get_put_same: "get (key v) s \<noteq> None \<Longrightarrow> get (key v) (put v s) = Some v"
    and get_put_other: "k \<noteq> key v \<Longrightarrow> get k (put v s) = get k s"
    and put_absent: "get (key v) s = None \<Longrightarrow> put v s = s"
begin

lemma get_put:
  "get k (put v s) = (if k = key v \<and> get k s \<noteq> None then Some v else get k s)"
  using get_put_same [of v s] get_put_other [of k v s] put_absent [of v s]
  by (cases "k = key v"; cases "get k s") auto

lemma get_put_None [simp]: "get k (put v s) = None \<longleftrightarrow> get k s = None"
  by (auto simp: get_put)

lemma get_modified:
  "get k s = Some v \<Longrightarrow> key w = k \<Longrightarrow> get k (put w s) = Some w"
  by (simp add: get_put)

lemma get_put_twice: "get k (put v (put v s)) = get k (put v s)"
  by (auto simp: get_put)

lemma get_put_commute:
  "key v \<noteq> key w \<Longrightarrow> get k (put v (put w s)) = get k (put w (put v s))"
  by (auto simp: get_put)

end

text \<open>A repository that also inserts and deletes rows.\<close>

locale growing_store = keyed_store +
  fixes ins :: "'v \<Rightarrow> 's \<Rightarrow> 's"
    and del :: "'k \<Rightarrow> 's \<Rightarrow> 's"
  assumes get_ins: "get (key v) s = None \<Longrightarrow> get k (ins v s) = (if k = key v then Some v else get k s)"
    and get_del: "get k (del j s) = (if k = j then None else get k s)"
begin

lemma get_ins_new: "get (key v) s = None \<Longrightarrow> get (key v) (ins v s) = Some v"
  by (simp add: get_ins)

lemma get_del_ins:
  "get (key v) s = None \<Longrightarrow> get k (del (key v) (ins v s)) = get k s"
  by (simp add: get_ins get_del)

lemma get_put_ins:
  "get (key v) s = None \<Longrightarrow> key w = key v \<Longrightarrow> get k (put w (ins v s)) = get k (ins w s)"
  by (auto simp: get_ins get_put)

end

subsection \<open>Pages and ordering of query results\<close>

definition sql_page :: "int \<Rightarrow> int \<Rightarrow> 'a list \<Rightarrow> 'a list" where
  \<comment> \<open>\<open>.offset(o).limit(l)\<close>\<close>
  "sql_page off lim xs = take (nat lim) (drop (nat off) xs)"

lemma length_sql_page: "length (sql_page off lim xs) \<le> nat lim"
  by (simp add: sql_page_def)

lemma set_sql_page: "set (sql_page off lim xs) \<subseteq> set xs"
  unfolding sql_page_def by (meson order_trans set_drop_subset set_take_subset)

fun sql_like :: "string \<Rightarrow> string \<Rightarrow> bool" where
  \<comment> \<open>the \<open>LIKE\<close> operator: \<open>%\<close> any text, \<open>_\<close> one character, backslash quotes\<close>
  "sql_like [] s = (s = [])"
| "sql_like (p # ps) s =
     (if p = CHR ''%'' then
        sql_like ps s \<or> (case s of [] \<Rightarrow> False | c # cs \<Rightarrow> sql_like (p # ps) cs)
      else if p = CHR ''_'' then
        (case s of [] \<Rightarrow> False | c # cs \<Rightarrow> sql_like ps (dropWhile continuation cs))
      else if p = CHR 0x5C \<and> ps \<noteq> [] then
        (case s of [] \<Rightarrow> False | c # cs \<Rightarrow> c = hd ps \<and> sql_like (tl ps) cs)
      else (case s of [] \<Rightarrow> False | c # cs \<Rightarrow> c = p \<and> sql_like ps cs))"

declare sql_like.simps [simp del]

end
