(* ===== verification/Json.thy ===== *)
theory Json
  imports Prelude
begin

section \<open>JSON values and the calendar text of a datetime\<close>

text \<open>
  The services keep details, payloads and replayable results as JSON text. A JSON column is
  modelled by the value its text denotes: writing it is \<open>json_dumps\<close>, which does what
  \<open>json.dumps(..., default=str)\<close> does to values JSON lacks (a datetime becomes its
  \<open>str\<close>), and reading it back gives the stored value. Python's \<open>isoformat\<close> and \<open>str\<close> of a
  datetime are written out from the proleptic calendar.
\<close>

datatype jval =
    JNull
  | JBool bool
  | JInt int
  | JStr string
  | JTime datetime
  | JList "jval list"
  | JDict "(string \<times> jval) list"

type_synonym jdict = "(string \<times> jval) list"

abbreviation jopt_str :: "string option \<Rightarrow> jval" where
  "jopt_str x \<equiv> (case x of None \<Rightarrow> JNull | Some s \<Rightarrow> JStr s)"

abbreviation jopt_int :: "int option \<Rightarrow> jval" where
  "jopt_int x \<equiv> (case x of None \<Rightarrow> JNull | Some n \<Rightarrow> JInt n)"

abbreviation jopt_time :: "datetime option \<Rightarrow> jval" where
  "jopt_time x \<equiv> (case x of None \<Rightarrow> JNull | Some t \<Rightarrow> JTime t)"

abbreviation jopt :: "jval option \<Rightarrow> jval" where
  "jopt x \<equiv> (case x of None \<Rightarrow> JNull | Some v \<Rightarrow> v)"

fun jtruthy :: "jval \<Rightarrow> bool" where
  "jtruthy JNull = False"
| "jtruthy (JBool b) = b"
| "jtruthy (JInt n) = (n \<noteq> 0)"
| "jtruthy (JStr s) = (s \<noteq> [])"
| "jtruthy (JTime t) = True"
| "jtruthy (JList xs) = (xs \<noteq> [])"
| "jtruthy (JDict kvs) = (kvs \<noteq> [])"

fun jget :: "string \<Rightarrow> jval \<Rightarrow> jval option" where
  "jget k (JDict kvs) = map_of kvs k"
| "jget k _ = None"

subsection \<open>Calendar text\<close>

definition leap :: "int \<Rightarrow> bool" where
  "leap y = (y mod 4 = 0 \<and> (y mod 100 \<noteq> 0 \<or> y mod 400 = 0))"

definition days_in_months :: "int \<Rightarrow> int list" where
  "days_in_months y = [31, if leap y then 29 else 28, 31, 30, 31, 30, 31, 31, 30, 31, 30, 31]"

fun month_day :: "int list \<Rightarrow> int \<Rightarrow> int \<Rightarrow> int \<times> int" where
  "month_day [] m d = (m, d + 1)"
| "month_day (l # ls) m d = (if d < l then (m, d + 1) else month_day ls (m + 1) (d - l))"

definition civil :: "int \<Rightarrow> int \<times> int \<times> int" where
  \<comment> \<open>year, month and day of the day that comes \<open>n\<close> days after 0001-01-01\<close>
  "civil n =
     (let n400 = n div 146097; r400 = n mod 146097;
          n100 = r400 div 36524; r100 = r400 mod 36524;
          n4 = r100 div 1461; r4 = r100 mod 1461;
          n1 = r4 div 365; r1 = r4 mod 365;
          y = n400 * 400 + n100 * 100 + n4 * 4 + n1 + 1
      in if n1 = 4 \<or> n100 = 4 then (y - 1, 12, 31)
         else (y, month_day (days_in_months y) 1 r1))"

definition pad :: "nat \<Rightarrow> int \<Rightarrow> string" where
  "pad w n = (let s = show_int n in replicate (w - length s) (CHR ''0'') @ s)"

definition dt_text :: "char \<Rightarrow> datetime \<Rightarrow> string" where
  "dt_text sep t =
     (let (y, m, d) = civil (t div day);
          r = t mod day;
          us = r mod second; secs = r div second
      in pad 4 y @ ''-'' @ pad 2 m @ ''-'' @ pad 2 d @ [sep] @
         pad 2 (secs div 3600) @ '':'' @ pad 2 (secs div 60 mod 60) @ '':'' @ pad 2 (secs mod 60) @
         (if us = 0 then [] else ''.'' @ pad 6 us))"

definition isoformat :: "datetime \<Rightarrow> string" where
  "isoformat t = dt_text (CHR ''T'') t"

definition dt_str :: "datetime \<Rightarrow> string" where
  "dt_str t = dt_text (CHR '' '') t"

subsection \<open>Writing and reading JSON columns\<close>

primrec json_dumps :: "jval \<Rightarrow> jval" where
  "json_dumps JNull = JNull"
| "json_dumps (JBool b) = JBool b"
| "json_dumps (JInt n) = JInt n"
| "json_dumps (JStr s) = JStr s"
| "json_dumps (JTime t) = JStr (dt_str t)"
| "json_dumps (JList xs) = JList (map json_dumps xs)"
| "json_dumps (JDict kvs) = JDict (map (map_prod id json_dumps) kvs)"

lemma json_dumps_idem [simp]: "json_dumps (json_dumps v) = json_dumps v"
  by (induction v) (auto simp: map_prod_def)

lemma jtruthy_dumps: "(\<forall>t. dt_str t \<noteq> []) \<Longrightarrow> jtruthy (json_dumps v) = jtruthy v"
  by (cases v) auto

lemma map_of_map_prod: "map_of (map (map_prod id f) kvs) k = map_option f (map_of kvs k)"
  by (induction kvs) auto

lemma jget_dumps: "jget k (json_dumps (JDict kvs)) = map_option json_dumps (jget k (JDict kvs))"
  by (simp add: map_of_map_prod)

end
