(* ===== verification/Sha256.thy ===== *)
theory Sha256
  imports Prelude "HOL-Library.Word"
begin

section \<open>SHA-256 of the standard library's hashlib\<close>

text \<open>
  \<open>secret_fingerprint\<close> of \<open>bot/domain/security.py\<close> is \<open>sha256(...).hexdigest()\<close>. The digest
  is written out over 32-bit words (FIPS 180-4), so the fingerprints the services store are
  functions of the secret alone, with no parameter standing for the hash.
\<close>

unbundle bit_operations_syntax

type_synonym w32 = "32 word"

definition rotr32 :: "nat \<Rightarrow> w32 \<Rightarrow> w32" where
  "rotr32 n x = (drop_bit n x OR push_bit (32 - n) x)"

definition sha_k :: "w32 list" where
  "sha_k =
    [0x428A2F98, 0x71374491, 0xB5C0FBCF, 0xE9B5DBA5, 0x3956C25B, 0x59F111F1,
     0x923F82A4, 0xAB1C5ED5, 0xD807AA98, 0x12835B01, 0x243185BE, 0x550C7DC3,
     0x72BE5D74, 0x80DEB1FE, 0x9BDC06A7, 0xC19BF174, 0xE49B69C1, 0xEFBE4786,
     0x0FC19DC6, 0x240CA1CC, 0x2DE92C6F, 0x4A7484AA, 0x5CB0A9DC, 0x76F988DA,
     0x983E5152, 0xA831C66D, 0xB00327C8, 0xBF597FC7, 0xC6E00BF3, 0xD5A79147,
     0x06CA6351, 0x14292967, 0x27B70A85, 0x2E1B2138, 0x4D2C6DFC, 0x53380D13,
     0x650A7354, 0x766A0ABB, 0x81C2C92E, 0x92722C85, 0xA2BFE8A1, 0xA81A664B,
     0xC24B8B70, 0xC76C51A3, 0xD192E819, 0xD6990624, 0xF40E3585, 0x106AA070,
     0x19A4C116, 0x1E376C08, 0x2748774C, 0x34B0BCB5, 0x391C0CB3, 0x4ED8AA4A,
     0x5B9CCA4F, 0x682E6FF3, 0x748F82EE, 0x78A5636F, 0x84C87814, 0x8CC70208,
     0x90BEFFFA, 0xA4506CEB, 0xBEF9A3F7, 0xC67178F2]"

definition sha_init :: "w32 list" where
  "sha_init =
    [0x6A09E667, 0xBB67AE85, 0x3C6EF372, 0xA54FF53A, 0x510E527F, 0x9B05688C,
     0x1F83D9AB, 0x5BE0CD19]"

definition byte_at :: "nat \<Rightarrow> nat \<Rightarrow> nat" where
  \<comment> \<open>byte \<open>i\<close> of \<open>n\<close>, counted from the least significant one\<close>
  "byte_at i n = (n div 256 ^ i) mod 256"

definition sha_pad :: "nat list \<Rightarrow> nat list" where
  "sha_pad bs =
     (let n = length bs;
          z = (55 + 64 - n mod 64) mod 64
      in bs @ [128] @ replicate z 0 @ map (\<lambda>i. byte_at i (8 * n)) [7, 6, 5, 4, 3, 2, 1, 0])"

fun chunks :: "nat \<Rightarrow> 'a list \<Rightarrow> 'a list list" where
  "chunks n xs = (if xs = [] \<or> n = 0 then [] else take n xs # chunks n (drop n xs))"

declare chunks.simps [simp del]

definition word_of_bytes :: "nat list \<Rightarrow> w32" where
  "word_of_bytes bs = of_nat (foldl (\<lambda>a b. 256 * a + b) 0 bs)"

text \<open>The schedule is kept newest word first: \<open>w ! 15\<close> is sixteen words back.\<close>

definition sha_next :: "w32 list \<Rightarrow> w32" where
  "sha_next w =
     (let s0 = rotr32 7 (w ! 14) XOR rotr32 18 (w ! 14) XOR drop_bit 3 (w ! 14);
          s1 = rotr32 17 (w ! 1) XOR rotr32 19 (w ! 1) XOR drop_bit 10 (w ! 1)
      in w ! 15 + s0 + w ! 6 + s1)"

fun sha_schedule :: "nat \<Rightarrow> w32 list \<Rightarrow> w32 list" where
  "sha_schedule 0 w = rev w"
| "sha_schedule (Suc n) w = sha_schedule n (sha_next w # w)"

fun sha_round :: "w32 list \<Rightarrow> w32 \<times> w32 \<Rightarrow> w32 list" where
  "sha_round [a, b, c, d, e, f, g, h] (k, w) =
     (let s1 = rotr32 6 e XOR rotr32 11 e XOR rotr32 25 e;
          ch = (e AND f) XOR (NOT e AND g);
          t1 = h + s1 + ch + k + w;
          s0 = rotr32 2 a XOR rotr32 13 a XOR rotr32 22 a;
          maj = (a AND b) XOR (a AND c) XOR (b AND c)
      in [t1 + s0 + maj, a, b, c, d + t1, e, f, g])"
| "sha_round hs _ = hs"

definition sha_block :: "w32 list \<Rightarrow> nat list \<Rightarrow> w32 list" where
  "sha_block hs blk =
     (let ws = sha_schedule 48 (rev (map word_of_bytes (chunks 4 blk)))
      in map2 (+) hs (foldl sha_round hs (zip sha_k ws)))"

definition hex_digit :: "nat \<Rightarrow> char" where
  "hex_digit n = char_of (if n < 10 then 48 + n else 87 + n)"

definition hex_of_word :: "w32 \<Rightarrow> string" where
  "hex_of_word w = map (\<lambda>i. hex_digit ((unat w div 16 ^ i) mod 16)) [7, 6, 5, 4, 3, 2, 1, 0]"

definition sha256_hex :: "string \<Rightarrow> string" where
  "sha256_hex s =
     concat (map hex_of_word (foldl sha_block sha_init (chunks 64 (sha_pad (map of_char s)))))"

end
