(* ===== verification/Domain.thy ===== *)
theory Domain
  imports Json Sha256
begin

section \<open>Domain objects: actors, fingerprints and service results\<close>

text \<open>
  \<open>bot/domain/actor.py\<close>, \<open>bot/domain/security.py\<close> and \<open>bot/application/results.py\<close>. A
  service result travels through the idempotency table as JSON: \<open>to_dict\<close> turns the
  datetimes of its data into ISO text and \<open>from_dict\<close> rebuilds a result marked as replayed.
\<close>

record actor =
  actor_kind :: string
  actor_identifier :: string
  actor_display_name :: "string option"

definition actor_telegram :: "int \<Rightarrow> string option \<Rightarrow> actor" where
  "actor_telegram user_id display_name =
     \<lparr>actor_kind = ''telegram'', actor_identifier = show_int user_id,
      actor_display_name = display_name\<rparr>"

definition actor_web :: "int \<Rightarrow> string option \<Rightarrow> actor" where
  "actor_web user_id display_name =
     \<lparr>actor_kind = ''web'', actor_identifier = show_int user_id,
      actor_display_name = display_name\<rparr>"

definition actor_system :: "string \<Rightarrow> actor" where
  "actor_system name =
     \<lparr>actor_kind = ''system'', actor_identifier = name, actor_display_name = Some name\<rparr>"

definition secret_fingerprint :: "string \<Rightarrow> string" where
  "secret_fingerprint value = sha256_hex value"

record service_result =
  res_status :: string
  res_data :: jdict
  res_replayed :: bool

abbreviation result :: "string \<Rightarrow> jdict \<Rightarrow> service_result" where
  "result st d \<equiv> \<lparr>res_status = st, res_data = d, res_replayed = False\<rparr>"

definition res_ok :: "service_result \<Rightarrow> bool" where
  "res_ok r = (res_status r = ''ok'')"

fun iso_item :: "jval \<Rightarrow> jval" where
  "iso_item (JTime t) = JStr (isoformat t)"
| "iso_item v = v"

definition to_dict :: "service_result \<Rightarrow> jval" where
  "to_dict r =
     JDict [(''status'', JStr (res_status r)),
            (''data'', JDict (map (map_prod id iso_item) (res_data r))),
            (''replayed'', JBool (res_replayed r))]"

definition from_dict :: "jval \<Rightarrow> service_result attempt" where
  "from_dict v =
     (case jget ''status'' v of
        Some (JStr st) \<Rightarrow>
          Inr \<lparr>res_status = st,
               res_data = (case jget ''data'' v of Some (JDict d) \<Rightarrow> d | _ \<Rightarrow> []),
               res_replayed = True\<rparr>
      | _ \<Rightarrow> Inl KeyError)"

text \<open>What a stored result looks like when it is replayed.\<close>

definition replay_of :: "service_result \<Rightarrow> service_result" where
  "replay_of r =
     \<lparr>res_status = res_status r,
      res_data = map (map_prod id (json_dumps \<circ> iso_item)) (res_data r),
      res_replayed = True\<rparr>"

lemma from_dict_to_dict: "from_dict (json_dumps (to_dict r)) = Inr (replay_of r)"
  by (simp add: from_dict_def to_dict_def replay_of_def map_prod_def o_def split_def)

lemma jtruthy_to_dict [simp]: "jtruthy (json_dumps (to_dict r))"
  by (simp add: to_dict_def)

lemma res_status_replay_of [simp]: "res_status (replay_of r) = res_status r"
  by (simp add: replay_of_def)

lemma res_replayed_replay_of [simp]: "res_replayed (replay_of r)"
  by (simp add: replay_of_def)

lemma replay_of_data:
  "map_of (res_data (replay_of r)) k = map_option (json_dumps \<circ> iso_item) (map_of (res_data r) k)"
  by (simp add: replay_of_def map_of_map_prod)

end
