(* ===== verification/Schema.thy ===== *)
theory Schema
  imports Domain
begin

section \<open>The tables the services share\<close>

text \<open>
  One record per mapped class of \<open>bot/sql_helper\<close>, with the columns of the class, and the
  record \<open>core_db\<close> of the tables. A nullable column is an option; a JSON text column holds
  the value its text denotes. Every operation is stated over the extensible record
  \<open>'z core_db_scheme\<close>, so tables added later leave the theorems here as they are.
  \<open>integrity\<close> is the conjunction of the primary keys and unique constraints, which the
  database checks when a session is flushed.
\<close>

subsection \<open>Users, codes and partitions\<close>

record emby_row =
  emby_tg :: int
  emby_embyid :: "string option"
  emby_name :: "string option"
  emby_pwd :: "string option"
  emby_pwd2 :: "string option"
  emby_lv :: "string option"
  emby_cr :: "datetime option"
  emby_ex :: "datetime option"
  emby_us :: "int option"
  emby_iv :: "int option"
  emby_ch :: "datetime option"

definition new_emby :: "int \<Rightarrow> emby_row" where
  \<comment> \<open>\<open>Emby(tg=tg)\<close> with the column defaults\<close>
  "new_emby tg =
     \<lparr>emby_tg = tg, emby_embyid = None, emby_name = None, emby_pwd = None, emby_pwd2 = None,
      emby_lv = Some ''d'', emby_cr = None, emby_ex = None, emby_us = Some 0, emby_iv = Some 0,
      emby_ch = None\<rparr>"

record code_row =
  code_code :: string
  code_tg :: "int option"
  code_us :: "int option"
  code_used :: "int option"
  code_usedtime :: "datetime option"
  code_issuer_account_id :: "string option"
  code_used_by_account_id :: "string option"
  code_reserved_by_account_id :: "string option"
  code_reserved_until :: "datetime option"
  code_status :: "string option"
  code_expires_at :: "datetime option"

definition new_code :: "string \<Rightarrow> int \<Rightarrow> int \<Rightarrow> code_row" where
  \<comment> \<open>\<open>Code(code=value, tg=tg, us=days)\<close>\<close>
  "new_code value tg days =
     \<lparr>code_code = value, code_tg = Some tg, code_us = Some days, code_used = None,
      code_usedtime = None, code_issuer_account_id = None, code_used_by_account_id = None,
      code_reserved_by_account_id = None, code_reserved_until = None, code_status = None,
      code_expires_at = None\<rparr>"

record partition_code_row =
  pc_code :: string
  pc_partition :: string
  pc_duration_days :: int
  pc_created_by :: "int option"
  pc_status :: string
  pc_reserved_by :: "int option"
  pc_reserved_at :: "datetime option"
  pc_reservation_token :: "string option"
  pc_created_at :: "datetime option"

record partition_grant_row =
  pg_id :: int
  pg_tg :: int
  pg_embyid :: "string option"
  pg_embyname :: "string option"
  pg_partition :: string
  pg_expires_at :: datetime
  pg_status :: "string option"
  pg_code :: "string option"
  pg_created_at :: "datetime option"
  pg_updated_at :: "datetime option"

subsection \<open>Canonical accounts, wallets and their ledger\<close>

record account_row =
  acc_id :: string
  acc_legacy_tg :: int
  acc_display_name :: "string option"
  acc_status :: string
  acc_created_at :: datetime
  acc_updated_at :: datetime

record identity_row =
  idn_id :: string
  idn_account_id :: string
  idn_provider :: string
  idn_subject :: string
  idn_username :: "string option"
  idn_username_normalized :: "string option"
  idn_password_hash :: "string option"
  idn_verified_at :: "datetime option"
  idn_last_used_at :: "datetime option"
  idn_disabled :: bool
  idn_metadata :: "jval option"
  idn_created_at :: datetime
  idn_updated_at :: datetime

record wallet_row =
  wal_id :: int
  wal_account_id :: string
  wal_balance_type :: string
  wal_balance :: int
  wal_revision :: int
  wal_updated_at :: datetime

record ledger_row =
  led_id :: int
  led_source_transaction_id :: "int option"
  led_account_id :: string
  led_legacy_tg :: "int option"
  led_balance_type :: string
  led_amount :: int
  led_balance_after :: int
  led_reason :: string
  led_scope :: string
  led_idempotency_key :: "string option"
  led_actor_kind :: string
  led_actor_id :: string
  led_metadata :: "jval option"
  led_created_at :: datetime

subsection \<open>Idempotency, audit, transactions and events\<close>

record idempotency_row =
  idem_id :: int
  idem_scope :: string
  idem_key :: string
  idem_result :: "jval option"
  idem_created_at :: datetime
  idem_expires_at :: "datetime option"

record audit_row =
  aud_id :: int
  aud_request_id :: "string option"
  aud_actor_kind :: string
  aud_actor_id :: string
  aud_actor_name :: "string option"
  aud_action :: string
  aud_resource_type :: string
  aud_resource_id :: "string option"
  aud_outcome :: string
  aud_detail :: "jval option"
  aud_ip_address :: "string option"
  aud_user_agent :: "string option"
  aud_created_at :: datetime

record point_row =
  pt_id :: int
  pt_account_id :: "string option"
  pt_tg :: int
  pt_balance_type :: string
  pt_amount :: int
  pt_balance_after :: int
  pt_reason :: string
  pt_actor_kind :: string
  pt_actor_id :: string
  pt_idempotency_key :: "string option"
  pt_metadata :: "jval option"
  pt_created_at :: datetime

record event_row =
  ev_id :: int
  ev_type :: string
  ev_aggregate_type :: string
  ev_aggregate_id :: "string option"
  ev_payload :: "jval option"
  ev_created_at :: datetime
  ev_published_at :: "datetime option"

record security_row =
  sec_id :: int
  sec_event_type :: string
  sec_severity :: string
  sec_subject_kind :: "string option"
  sec_subject_id :: "string option"
  sec_ip_address :: "string option"
  sec_detail :: "jval option"
  sec_status :: string
  sec_assigned_to :: "int option"
  sec_resolution_note :: "string option"
  sec_resolved_by :: "int option"
  sec_resolved_at :: "datetime option"
  sec_created_at :: datetime
  sec_updated_at :: datetime

subsection \<open>Tasks, job runs, heartbeats and settings\<close>

record task_row =
  task_id :: string
  task_type :: string
  task_status :: string
  task_progress :: int
  task_owner_kind :: string
  task_owner_id :: string
  task_idempotency_key :: "string option"
  task_input :: "jval option"
  task_result :: "jval option"
  task_error_message :: "string option"
  task_retry_count :: int
  task_max_retries :: int
  task_next_run_at :: datetime
  task_locked_by :: "string option"
  task_lease_expires_at :: "datetime option"
  task_last_heartbeat_at :: "datetime option"
  task_cancel_requested :: bool
  task_created_at :: datetime
  task_started_at :: "datetime option"
  task_finished_at :: "datetime option"
  task_updated_at :: datetime

record job_row =
  job_id :: int
  job_name :: string
  job_trigger_kind :: string
  job_status :: string
  job_summary :: "jval option"
  job_error_message :: "string option"
  job_started_at :: datetime
  job_finished_at :: "datetime option"

record heartbeat_row =
  hb_worker_id :: string
  hb_worker_kind :: string
  hb_hostname :: string
  hb_process_id :: int
  hb_status :: string
  hb_current_task_id :: "string option"
  hb_metadata :: "jval option"
  hb_started_at :: datetime
  hb_last_seen_at :: datetime

record setting_row =
  set_key :: string
  set_value :: jval
  set_value_type :: string
  set_is_secret :: bool
  set_revision :: int
  set_updated_by_kind :: string
  set_updated_by_id :: string
  set_created_at :: datetime
  set_updated_at :: datetime

record revision_row =
  rev_id :: int
  rev_setting_key :: string
  rev_revision :: int
  rev_old_value :: "jval option"
  rev_new_value :: jval
  rev_actor_kind :: string
  rev_actor_id :: string
  rev_created_at :: datetime

subsection \<open>The database\<close>

record core_db =
  embys :: "emby_row list"
  codes :: "code_row list"
  partition_codes :: "partition_code_row list"
  partition_grants :: "partition_grant_row auto_table"
  accounts :: "account_row list"
  identities :: "identity_row list"
  wallets :: "wallet_row auto_table"
  ledger :: "ledger_row auto_table"
  idempotency :: "idempotency_row auto_table"
  audits :: "audit_row auto_table"
  points :: "point_row auto_table"
  events :: "event_row auto_table"
  securities :: "security_row auto_table"
  tasks :: "task_row list"
  jobs :: "job_row auto_table"
  heartbeats :: "heartbeat_row list"
  settings :: "setting_row list"
  revisions :: "revision_row auto_table"

abbreviation empty_table :: "'r auto_table" where
  "empty_table \<equiv> \<lparr>rows = [], next_id = 1\<rparr>"

definition empty_db :: core_db where
  "empty_db =
     \<lparr>embys = [], codes = [], partition_codes = [], partition_grants = empty_table,
      accounts = [], identities = [], wallets = empty_table, ledger = empty_table,
      idempotency = empty_table, audits = empty_table, points = empty_table,
      events = empty_table, securities = empty_table, tasks = [], jobs = empty_table,
      heartbeats = [], settings = [], revisions = empty_table\<rparr>"

text \<open>A unique constraint over nullable columns ignores the rows with a null in it.\<close>

definition unique_some :: "('r \<Rightarrow> 'k option) \<Rightarrow> 'r list \<Rightarrow> bool" where
  "unique_some key rs = distinct (map the (filter (\<lambda>k. k \<noteq> None) (map key rs)))"

definition ledger_scope_key :: "ledger_row \<Rightarrow> (string \<times> string) option" where
  "ledger_scope_key r = map_option (Pair (led_scope r)) (led_idempotency_key r)"

definition identity_user_key :: "identity_row \<Rightarrow> (string \<times> string) option" where
  "identity_user_key r = map_option (Pair (idn_provider r)) (idn_username_normalized r)"

definition integrity :: "'z core_db_scheme \<Rightarrow> bool" where
  "integrity db =
     (distinct (map emby_tg (embys db)) \<and>
      distinct (map code_code (codes db)) \<and>
      distinct (map pc_code (partition_codes db)) \<and>
      unique_some pc_reservation_token (partition_codes db) \<and>
      distinct (map acc_id (accounts db)) \<and>
      distinct (map acc_legacy_tg (accounts db)) \<and>
      distinct (map idn_id (identities db)) \<and>
      distinct (map (\<lambda>r. (idn_provider r, idn_subject r)) (identities db)) \<and>
      unique_some identity_user_key (identities db) \<and>
      distinct (map (\<lambda>r. (idn_account_id r, idn_provider r)) (identities db)) \<and>
      distinct (map (\<lambda>r. (wal_account_id r, wal_balance_type r)) (rows (wallets db))) \<and>
      unique_some ledger_scope_key (rows (ledger db)) \<and>
      unique_some led_source_transaction_id (rows (ledger db)) \<and>
      distinct (map (\<lambda>r. (idem_scope r, idem_key r)) (rows (idempotency db))) \<and>
      distinct (map task_id (tasks db)) \<and>
      unique_some task_idempotency_key (tasks db) \<and>
      distinct (map hb_worker_id (heartbeats db)) \<and>
      distinct (map set_key (settings db)))"

lemma unique_some_Nil [simp]: "unique_some key []"
  by (simp add: unique_some_def)

lemma the_image_some: "a \<in> the ` {x \<in> key ` S. \<exists>y. x = Some y} \<longleftrightarrow> Some a \<in> key ` S"
proof
  assume "Some a \<in> key ` S"
  then have "the (Some a) \<in> the ` {x \<in> key ` S. \<exists>y. x = Some y}" by blast
  then show "a \<in> the ` {x \<in> key ` S. \<exists>y. x = Some y}" by simp
qed (auto intro: rev_image_eqI)

lemma unique_some_Cons [simp]:
  "unique_some key (r # rs) =
     ((key r = None \<or> key r \<notin> key ` set rs) \<and> unique_some key rs)"
  by (cases "key r") (simp_all add: unique_some_def the_image_some)

lemma unique_some_append:
  "unique_some key (rs @ [r]) =
     (unique_some key rs \<and> (key r = None \<or> key r \<notin> key ` set rs))"
  by (induction rs) auto

lemma unique_some_cong: "map key rs = map key ss \<Longrightarrow> unique_some key rs = unique_some key ss"
  by (simp add: unique_some_def)

lemma integrity_empty [simp]: "integrity empty_db"
  by (simp add: integrity_def empty_db_def)

end
