(* ===== verification/Unit_Of_Work.thy ===== *)
theory Unit_Of_Work
  imports Schema
begin

section \<open>The unit of work: one transaction per business operation\<close>

text \<open>
  \<open>SqlAlchemyUnitOfWork\<close> of \<open>bot/repositories/unit_of_work.py\<close>. The body of a \<open>with\<close> block
  is a function from the database to an exception or a result and the changed database.
  \<open>__exit__\<close> commits when the body returned, early returns included, and rolls back when it
  raised; a commit that breaks a key or unique constraint raises and rolls back too. The
  sessions of the program are built with \<open>autoflush=False\<close>, and no body reads a table after
  having changed its keys, so checking the constraints once at the end gives the same
  outcome as checking them at each flush.
\<close>

type_synonym ('a, 's) outcome = "'a attempt \<times> 's"

definition run_uow ::
  "('z core_db_scheme \<Rightarrow> ('a \<times> 'z core_db_scheme) attempt) \<Rightarrow> 'z core_db_scheme \<Rightarrow>
   ('a, 'z core_db_scheme) outcome" where
  "run_uow body db =
     (case body db of
        Inl e \<Rightarrow> (Inl e, db)
      | Inr (x, db') \<Rightarrow> if integrity db' then (Inr x, db') else (Inl IntegrityError, db))"

lemma run_uow_rollback: "fst (run_uow body db) = Inl e \<Longrightarrow> snd (run_uow body db) = db"
  by (auto simp: run_uow_def split: sum.splits if_splits)

lemma run_uow_integrity: "integrity db \<Longrightarrow> integrity (snd (run_uow body db))"
  by (auto simp: run_uow_def split: sum.splits if_splits)

lemma run_uow_Inr:
  "run_uow body db = (Inr x, db') \<longleftrightarrow> body db = Inr (x, db') \<and> integrity db'"
  by (auto simp: run_uow_def split: sum.splits if_splits)

lemma run_uow_cases:
  "(\<exists>e. run_uow body db = (Inl e, db)) \<or>
   (\<exists>x db'. run_uow body db = (Inr x, db') \<and> body db = Inr (x, db') \<and> integrity db')"
  by (auto simp: run_uow_def split: sum.splits if_splits)

lemma run_uow_unchanged: "body db = Inr (x, db) \<Longrightarrow> integrity db \<Longrightarrow> run_uow body db = (Inr x, db)"
  by (simp add: run_uow_def)

text \<open>Guards in front of the unit of work answer without touching the database.\<close>

lemma guarded_atomic:
  "fst (if P then (Inr r, db) else f db) = Inl e \<Longrightarrow> (fst (f db) = Inl e \<Longrightarrow> snd (f db) = db) \<Longrightarrow>
   snd (if P then (Inr r, db) else f db) = db"
  by (auto split: if_splits)

lemma guarded_integrity:
  "integrity db \<Longrightarrow> integrity (snd (f db)) \<Longrightarrow> integrity (snd (if P then (Inr r, db) else f db))"
  by simp

subsection \<open>The contract of a transactional operation\<close>

text \<open>
  What callers of a service may assume of each of its operations: it is all or nothing, and
  it keeps what holds of every committed database. The client is any sequence of calls, with
  the exceptions handled by going on from the database the failed call left.
\<close>

locale transactional =
  fixes call :: "'i \<Rightarrow> 's \<Rightarrow> ('a, 's) outcome"
    and good :: "'s \<Rightarrow> bool"
  assumes atomic: "fst (call i s) = Inl e \<Longrightarrow> snd (call i s) = s"
    and keeps: "good s \<Longrightarrow> good (snd (call i s))"
begin

lemma calls_keep: "good s \<Longrightarrow> good (fold (\<lambda>i s. snd (call i s)) is s)"
  by (induction "is" arbitrary: s) (auto intro: keeps)

lemma failed_call_skipped:
  assumes "fst (call i s) = Inl e"
  shows "fold (\<lambda>i s. snd (call i s)) (i # is) s = fold (\<lambda>i s. snd (call i s)) is s"
  using atomic [OF assms] by simp

end

interpretation uow: transactional run_uow integrity
  by unfold_locales (auto intro: run_uow_rollback run_uow_integrity)

text \<open>The same over any extension of the tables, with the constraints of that extension.\<close>

definition commit_with :: "('s \<Rightarrow> bool) \<Rightarrow> ('s \<Rightarrow> ('a \<times> 's) attempt) \<Rightarrow> 's \<Rightarrow> ('a, 's) outcome" where
  "commit_with good body db =
     (case body db of
        Inl e \<Rightarrow> (Inl e, db)
      | Inr (x, db') \<Rightarrow> if good db' then (Inr x, db') else (Inl IntegrityError, db))"

lemma commit_with_Inr: "commit_with good body db = (Inr x, db') \<longleftrightarrow> body db = Inr (x, db') \<and> good db'"
  by (auto simp: commit_with_def split: sum.splits if_splits)

lemma commit_with_snd:
  assumes "P db" and "\<And>x db'. body db = Inr (x, db') \<Longrightarrow> good db' \<Longrightarrow> P db'"
  shows "P (snd (commit_with good body db))"
  using assms by (auto simp: commit_with_def split: sum.splits)

interpretation commit: transactional "commit_with good" good for good
  by unfold_locales (auto simp: commit_with_def split: sum.splits if_splits)

lemma run_uow_commit: "run_uow = commit_with integrity"
  by (intro ext) (simp add: run_uow_def commit_with_def)

end
