(* ===== verification/Repositories.thy ===== *)
theory Repositories
  imports Unit_Of_Work
begin

section \<open>Repositories of users, codes, partitions and accounts\<close>

text \<open>
  \<open>bot/repositories/users.py\<close>, \<open>codes.py\<close>, \<open>partitions.py\<close> and the lookups of
  \<open>accounts.py\<close> the services of this development use. \<open>get_for_update\<close> reads the row; the
  row lock has no effect of its own on one transaction. A service changes the row it got and
  the session writes it back, which the \<open>save\<close> operations do. Each repository interprets
  \<open>growing_store\<close>.
\<close>

subsection \<open>Users\<close>

definition users_get_for_update :: "int \<Rightarrow> 'z core_db_scheme \<Rightarrow> emby_row option" where
  [op_defs]: "users_get_for_update tg db = tbl_get emby_tg tg (embys db)"

definition users_save :: "emby_row \<Rightarrow> 'z core_db_scheme \<Rightarrow> 'z core_db_scheme" where
  [op_defs]: "users_save u db = db\<lparr>embys := tbl_put emby_tg u (embys db)\<rparr>"

definition users_insert :: "emby_row \<Rightarrow> 'z core_db_scheme \<Rightarrow> 'z core_db_scheme" where
  [op_defs]: "users_insert u db = db\<lparr>embys := embys db @ [u]\<rparr>"

definition users_delete :: "int \<Rightarrow> 'z core_db_scheme \<Rightarrow> 'z core_db_scheme" where
  [op_defs]: "users_delete tg db = db\<lparr>embys := tbl_del emby_tg tg (embys db)\<rparr>"

definition users_add_if_missing ::
  "int \<Rightarrow> 'z core_db_scheme \<Rightarrow> (emby_row \<times> bool) \<times> 'z core_db_scheme" where
  "users_add_if_missing tg db =
     (case users_get_for_update tg db of
        Some row \<Rightarrow> ((row, False), db)
      | None \<Rightarrow> ((new_emby tg, True), users_insert (new_emby tg) db))"

interpretation user_repo: growing_store users_get_for_update users_save emby_tg users_insert users_delete
  by unfold_locales
    (auto simp: op_defs tbl_get_put_same tbl_get_put_other tbl_put_absent tbl_get_append tbl_get_del
       dest: tbl_get_key split: option.splits)

subsection \<open>Codes\<close>

definition codes_get_for_update :: "string \<Rightarrow> 'z core_db_scheme \<Rightarrow> code_row option" where
  [op_defs]: "codes_get_for_update value db = tbl_get code_code value (codes db)"

definition codes_save :: "code_row \<Rightarrow> 'z core_db_scheme \<Rightarrow> 'z core_db_scheme" where
  [op_defs]: "codes_save c db = db\<lparr>codes := tbl_put code_code c (codes db)\<rparr>"

definition codes_add_rows :: "code_row list \<Rightarrow> 'z core_db_scheme \<Rightarrow> 'z core_db_scheme" where
  [op_defs]: "codes_add_rows rs db = db\<lparr>codes := codes db @ rs\<rparr>"

definition codes_add_many :: "string list \<Rightarrow> int \<Rightarrow> int \<Rightarrow> 'z core_db_scheme \<Rightarrow> 'z core_db_scheme" where
  [op_defs]: "codes_add_many values tg days db =
     codes_add_rows (map (\<lambda>value. new_code value tg days) values) db"

definition codes_delete :: "string \<Rightarrow> 'z core_db_scheme \<Rightarrow> 'z core_db_scheme" where
  [op_defs]: "codes_delete value db = db\<lparr>codes := tbl_del code_code value (codes db)\<rparr>"

interpretation code_repo: growing_store codes_get_for_update codes_save code_code
  "\<lambda>c. codes_add_rows [c]" codes_delete
  by unfold_locales
    (auto simp: op_defs tbl_get_put_same tbl_get_put_other tbl_put_absent tbl_get_append tbl_get_del
       dest: tbl_get_key split: option.splits)

fun kind_keyword :: "string \<Rightarrow> string" where
  "kind_keyword kind =
     (if kind = ''registration'' then ''Register''
      else if kind = ''renewal'' then ''Renew''
      else if kind = ''whitelist'' then ''Whitelist'' else kind)"

definition code_matches_status :: "datetime \<Rightarrow> string \<Rightarrow> code_row \<Rightarrow> bool" where
  "code_matches_status now status c =
     (if status = ''used'' then code_used c \<noteq> None
      else if status = ''unused'' then
        code_used c = None \<and>
        (code_status c = None \<or> code_status c = Some ''active'') \<and>
        (case code_expires_at c of None \<Rightarrow> True | Some t \<Rightarrow> now < t)
      else if status = ''expired'' then
        code_used c = None \<and>
        (code_status c = Some ''expired'' \<or>
         (case code_expires_at c of None \<Rightarrow> False | Some t \<Rightarrow> t \<le> now))
      else code_status c = Some status)"

text \<open>\<open>usedtime.desc(), code.asc()\<close>: in descending order the nulls come last.\<close>

definition order_codes :: "code_row list \<Rightarrow> code_row list" where
  "order_codes cs =
     (let by_code = sort_key code_code cs
      in sort_key (\<lambda>c. - the (code_usedtime c)) (filter (\<lambda>c. code_usedtime c \<noteq> None) by_code) @
         filter (\<lambda>c. code_usedtime c = None) by_code)"

definition codes_list ::
  "datetime \<Rightarrow> string option \<Rightarrow> string option \<Rightarrow> string option \<Rightarrow> int \<Rightarrow> int \<Rightarrow>
   'z core_db_scheme \<Rightarrow> code_row list \<times> int" where
  "codes_list now kind status search lim off db =
     (let q1 = (if truthy_str kind
                then filter (\<lambda>c. py_in (kind_keyword (the kind)) (code_code c)) (codes db)
                else codes db);
          q2 = (if truthy_str status then filter (code_matches_status now (the status)) q1 else q1);
          q3 = (if truthy_str search
                then filter (\<lambda>c. sql_like (''%'' @ py_strip (the search) @ ''%'') (code_code c)) q2
                else q2)
      in (sql_page off lim (order_codes q3), int (length q3)))"

subsection \<open>Partition codes and grants\<close>

definition partitions_get_code_for_update :: "string \<Rightarrow> 'z core_db_scheme \<Rightarrow> partition_code_row option" where
  [op_defs]: "partitions_get_code_for_update code db = tbl_get pc_code code (partition_codes db)"

definition partitions_get_reservation_for_update ::
  "string \<Rightarrow> 'z core_db_scheme \<Rightarrow> partition_code_row option" where
  [op_defs]: "partitions_get_reservation_for_update token db =
     tbl_get pc_reservation_token (Some token) (partition_codes db)"

definition partitions_save_code :: "partition_code_row \<Rightarrow> 'z core_db_scheme \<Rightarrow> 'z core_db_scheme" where
  [op_defs]: "partitions_save_code r db = db\<lparr>partition_codes := tbl_put pc_code r (partition_codes db)\<rparr>"

definition partitions_add_code :: "partition_code_row \<Rightarrow> 'z core_db_scheme \<Rightarrow> 'z core_db_scheme" where
  [op_defs]: "partitions_add_code r db = db\<lparr>partition_codes := partition_codes db @ [r]\<rparr>"

definition partitions_delete_code :: "string \<Rightarrow> 'z core_db_scheme \<Rightarrow> 'z core_db_scheme" where
  [op_defs]: "partitions_delete_code code db = db\<lparr>partition_codes := tbl_del pc_code code (partition_codes db)\<rparr>"

interpretation partition_repo: growing_store partitions_get_code_for_update partitions_save_code
  pc_code partitions_add_code partitions_delete_code
  by unfold_locales
    (auto simp: op_defs tbl_get_put_same tbl_get_put_other tbl_put_absent tbl_get_append tbl_get_del
       dest: tbl_get_key split: option.splits)

definition grant_key :: "partition_grant_row \<Rightarrow> int \<times> string" where
  "grant_key g = (pg_tg g, pg_partition g)"

definition partitions_get_grant_for_update ::
  "int \<Rightarrow> string \<Rightarrow> 'z core_db_scheme \<Rightarrow> partition_grant_row option" where
  [op_defs]: "partitions_get_grant_for_update tg part db =
     tbl_get grant_key (tg, part) (rows (partition_grants db))"

definition partitions_save_grant :: "partition_grant_row \<Rightarrow> 'z core_db_scheme \<Rightarrow> 'z core_db_scheme" where
  [op_defs]: "partitions_save_grant g db =
     db\<lparr>partition_grants := (partition_grants db)\<lparr>rows := tbl_put pg_id g (rows (partition_grants db))\<rparr>\<rparr>"

definition partitions_add_grant ::
  "(int \<Rightarrow> partition_grant_row) \<Rightarrow> 'z core_db_scheme \<Rightarrow> 'z core_db_scheme" where
  [op_defs]: "partitions_add_grant mk db =
     db\<lparr>partition_grants := insert_auto mk (partition_grants db)\<rparr>"

definition complete_grant ::
  "partition_code_row \<Rightarrow> int \<Rightarrow> string \<Rightarrow> string option \<Rightarrow> datetime \<Rightarrow> 'z core_db_scheme \<Rightarrow>
   (datetime \<times> 'z core_db_scheme) attempt" where
  "complete_grant record tg embyid embyname now db =
     (let grant = partitions_get_grant_for_update tg (pc_partition record) db;
          start_from = (case grant of
              None \<Rightarrow> now
            | Some g \<Rightarrow> if now < pg_expires_at g then pg_expires_at g else now)
      in bind_attempt (dt_add start_from (pc_duration_days record * day)) (\<lambda>expires_at.
           let db' = (case grant of
               Some g \<Rightarrow> partitions_save_grant
                 (g\<lparr>pg_embyid := Some embyid, pg_embyname := str_or embyname (pg_embyname g),
                    pg_expires_at := expires_at, pg_status := Some ''active'',
                    pg_code := Some (pc_code record), pg_updated_at := Some now\<rparr>) db
             | None \<Rightarrow> partitions_add_grant
                 (\<lambda>i. \<lparr>pg_id = i, pg_tg = tg, pg_embyid = Some embyid, pg_embyname = embyname,
                       pg_partition = pc_partition record, pg_expires_at = expires_at,
                       pg_status = Some ''active'', pg_code = Some (pc_code record),
                       pg_created_at = Some now, pg_updated_at = Some now\<rparr>) db)
           in Inr (expires_at, partitions_delete_code (pc_code record) db')))"

subsection \<open>Accounts\<close>

definition accounts_by_legacy_tg :: "int \<Rightarrow> 'z core_db_scheme \<Rightarrow> account_row option" where
  [op_defs]: "accounts_by_legacy_tg tg db = tbl_get acc_legacy_tg tg (accounts db)"

definition accounts_get :: "string \<Rightarrow> 'z core_db_scheme \<Rightarrow> account_row option" where
  [op_defs]: "accounts_get i db = tbl_get acc_id i (accounts db)"

definition accounts_identity :: "string \<Rightarrow> string \<Rightarrow> 'z core_db_scheme \<Rightarrow> identity_row option" where
  [op_defs]: "accounts_identity provider subject db =
     tbl_get (\<lambda>r. (idn_provider r, idn_subject r)) (provider, subject) (identities db)"

definition accounts_local_identity :: "string \<Rightarrow> 'z core_db_scheme \<Rightarrow> identity_row option" where
  [op_defs]: "accounts_local_identity name db =
     tbl_get (\<lambda>r. (idn_provider r, idn_username_normalized r)) (''local'', Some name) (identities db)"

definition accounts_identities :: "string \<Rightarrow> 'z core_db_scheme \<Rightarrow> identity_row list" where
  "accounts_identities i db = filter (\<lambda>r. idn_account_id r = i) (identities db)"

definition accounts_add_account :: "account_row \<Rightarrow> 'z core_db_scheme \<Rightarrow> 'z core_db_scheme" where
  [op_defs]: "accounts_add_account a db = db\<lparr>accounts := accounts db @ [a]\<rparr>"

definition accounts_add_identity :: "identity_row \<Rightarrow> 'z core_db_scheme \<Rightarrow> 'z core_db_scheme" where
  [op_defs]: "accounts_add_identity r db = db\<lparr>identities := identities db @ [r]\<rparr>"

definition accounts_next_local_legacy_key :: "'z core_db_scheme \<Rightarrow> int" where
  "accounts_next_local_legacy_key db =
     (case map acc_legacy_tg (accounts db) of
        [] \<Rightarrow> min (- 1) (0 - 1)
      | k # ks \<Rightarrow> min (- 1) (fold min ks k - 1))"

definition wallet_key :: "wallet_row \<Rightarrow> string \<times> string" where
  "wallet_key w = (wal_account_id w, wal_balance_type w)"

definition accounts_wallet :: "string \<Rightarrow> string \<Rightarrow> 'z core_db_scheme \<Rightarrow> wallet_row option" where
  [op_defs]: "accounts_wallet account balance_type db =
     tbl_get wallet_key (account, balance_type) (rows (wallets db))"

definition accounts_add_wallet :: "(int \<Rightarrow> wallet_row) \<Rightarrow> 'z core_db_scheme \<Rightarrow> 'z core_db_scheme" where
  [op_defs]: "accounts_add_wallet mk db = db\<lparr>wallets := insert_auto mk (wallets db)\<rparr>"

definition accounts_save_wallet :: "wallet_row \<Rightarrow> 'z core_db_scheme \<Rightarrow> 'z core_db_scheme" where
  [op_defs]: "accounts_save_wallet w db =
     db\<lparr>wallets := (wallets db)\<lparr>rows := tbl_put wallet_key w (rows (wallets db))\<rparr>\<rparr>"

interpretation wallet_repo: keyed_store
  "\<lambda>k. accounts_wallet (fst k) (snd k)" accounts_save_wallet wallet_key
  by unfold_locales
    (auto simp: op_defs tbl_get_put_same tbl_get_put_other tbl_put_absent dest: tbl_get_key)

definition accounts_add_ledger :: "(int \<Rightarrow> ledger_row) \<Rightarrow> 'z core_db_scheme \<Rightarrow> 'z core_db_scheme" where
  [op_defs]: "accounts_add_ledger mk db = db\<lparr>ledger := insert_auto mk (ledger db)\<rparr>"

definition accounts_list_ledger :: "string \<Rightarrow> int \<Rightarrow> int \<Rightarrow> 'z core_db_scheme \<Rightarrow> ledger_row list" where
  "accounts_list_ledger account lim off db =
     sql_page off lim
       (sort_key (\<lambda>r. - led_created_at r)
         (sort_key (\<lambda>r. - led_id r)
           (filter (\<lambda>r. led_account_id r = account) (rows (ledger db)))))"

end
