(* ===== verification/Operations_Repo.thy ===== *)
theory Operations_Repo
  imports Repositories
begin

section \<open>The operation repository: idempotency, audit, transactions, events, tasks\<close>

text \<open>
  \<open>bot/repositories/operations.py\<close>. Audit rows, events and point transactions are appended
  with the next id of their table; \<open>point_transaction\<close> also mirrors the balance into the
  wallet of the canonical account and appends a ledger entry. The queue of operation tasks
  is read and claimed here; the task service drives it.
\<close>

subsection \<open>Idempotent results\<close>

definition idem_pk :: "idempotency_row \<Rightarrow> string \<times> string" where
  "idem_pk r = (idem_scope r, idem_key r)"

definition get_idempotent_result :: "string \<Rightarrow> string option \<Rightarrow> 'z core_db_scheme \<Rightarrow> jval option" where
  "get_idempotent_result scope key db =
     (if \<not> truthy_str key then None
      else (case tbl_get idem_pk (scope, the key) (rows (idempotency db)) of
              None \<Rightarrow> None
            | Some row \<Rightarrow> idem_result row))"

definition save_idempotent_result ::
  "clock \<Rightarrow> string \<Rightarrow> string option \<Rightarrow> jval \<Rightarrow> 'z core_db_scheme \<Rightarrow> 'z core_db_scheme" where
  "save_idempotent_result clk scope key res db =
     (if \<not> truthy_str key then db
      else db\<lparr>idempotency := insert_auto
        (\<lambda>i. \<lparr>idem_id = i, idem_scope = scope, idem_key = the key,
              idem_result = Some (json_dumps res), idem_created_at = now_utc clk,
              idem_expires_at = None\<rparr>) (idempotency db)\<rparr>)"

subsection \<open>Audit and events\<close>

definition audit ::
  "clock \<Rightarrow> actor \<Rightarrow> string \<Rightarrow> string \<Rightarrow> string option \<Rightarrow> string \<Rightarrow> jval option \<Rightarrow> string option \<Rightarrow>
   'z core_db_scheme \<Rightarrow> 'z core_db_scheme" where
  "audit clk actor action resource_type resource_id outcome detail request_id db =
     db\<lparr>audits := insert_auto
       (\<lambda>i. \<lparr>aud_id = i, aud_request_id = request_id, aud_actor_kind = actor_kind actor,
             aud_actor_id = actor_identifier actor, aud_actor_name = actor_display_name actor,
             aud_action = action, aud_resource_type = resource_type,
             aud_resource_id = resource_id, aud_outcome = outcome,
             aud_detail = map_option json_dumps detail, aud_ip_address = None,
             aud_user_agent = None, aud_created_at = now_utc clk\<rparr>) (audits db)\<rparr>"

abbreviation audit_success ::
  "clock \<Rightarrow> actor \<Rightarrow> string \<Rightarrow> string \<Rightarrow> string option \<Rightarrow> jval option \<Rightarrow>
   'z core_db_scheme \<Rightarrow> 'z core_db_scheme" where
  "audit_success clk actor action resource_type resource_id detail \<equiv>
     audit clk actor action resource_type resource_id ''success'' detail None"

definition event ::
  "clock \<Rightarrow> string \<Rightarrow> string \<Rightarrow> string option \<Rightarrow> jval option \<Rightarrow> 'z core_db_scheme \<Rightarrow> 'z core_db_scheme" where
  "event clk event_type aggregate_type aggregate_id payload db =
     db\<lparr>events := insert_auto
       (\<lambda>i. \<lparr>ev_id = i, ev_type = event_type, ev_aggregate_type = aggregate_type,
             ev_aggregate_id = aggregate_id, ev_payload = map_option json_dumps payload,
             ev_created_at = now_utc clk, ev_published_at = None\<rparr>) (events db)\<rparr>"

definition security_event ::
  "clock \<Rightarrow> string \<Rightarrow> string \<Rightarrow> string option \<Rightarrow> string option \<Rightarrow> string option \<Rightarrow> jval option \<Rightarrow>
   'z core_db_scheme \<Rightarrow> 'z core_db_scheme" where
  "security_event clk event_type severity subject_kind subject_id ip_address detail db =
     event clk ''security.created'' ''security'' subject_id
       (Some (JDict [(''event_type'', JStr event_type), (''severity'', JStr severity),
                     (''subject_kind'', jopt_str subject_kind),
                     (''subject_id'', jopt_str subject_id)]))
       (db\<lparr>securities := insert_auto
          (\<lambda>i. \<lparr>sec_id = i, sec_event_type = event_type, sec_severity = severity,
                sec_subject_kind = subject_kind, sec_subject_id = subject_id,
                sec_ip_address = ip_address, sec_detail = map_option json_dumps detail,
                sec_status = ''open'', sec_assigned_to = None, sec_resolution_note = None,
                sec_resolved_by = None, sec_resolved_at = None,
                sec_created_at = now_utc clk, sec_updated_at = now_utc clk\<rparr>) (securities db)\<rparr>)"

definition get_security_event :: "int \<Rightarrow> 'z core_db_scheme \<Rightarrow> security_row option" where
  [op_defs]: "get_security_event i db = tbl_get sec_id i (rows (securities db))"

subsection \<open>Point transactions and the wallet mirror\<close>

definition point_transaction ::
  "clock \<Rightarrow> int \<Rightarrow> string \<Rightarrow> int \<Rightarrow> int \<Rightarrow> string \<Rightarrow> actor \<Rightarrow> string option \<Rightarrow> jval option \<Rightarrow>
   'z core_db_scheme \<Rightarrow> 'z core_db_scheme" where
  "point_transaction clk tg balance_type amount balance_after reason actor key metadata db =
     (let account_id = map_option acc_id (accounts_by_legacy_tg tg db);
          tid = next_id (points db);
          db1 = db\<lparr>points := insert_auto
            (\<lambda>i. \<lparr>pt_id = i, pt_account_id = account_id, pt_tg = tg,
                  pt_balance_type = balance_type, pt_amount = amount,
                  pt_balance_after = balance_after, pt_reason = reason,
                  pt_actor_kind = actor_kind actor, pt_actor_id = actor_identifier actor,
                  pt_idempotency_key = key, pt_metadata = map_option json_dumps metadata,
                  pt_created_at = now_utc clk\<rparr>) (points db)\<rparr>
      in if \<not> truthy_str account_id then db1
         else
           (let a = the account_id;
                db2 = (case accounts_wallet a balance_type db1 of
                    None \<Rightarrow> accounts_add_wallet
                      (\<lambda>i. \<lparr>wal_id = i, wal_account_id = a, wal_balance_type = balance_type,
                            wal_balance = balance_after, wal_revision = 1,
                            wal_updated_at = now_utc clk\<rparr>) db1
                  | Some w \<Rightarrow> accounts_save_wallet
                      (w\<lparr>wal_balance := balance_after, wal_revision := wal_revision w + 1,
                         wal_updated_at := now_utc clk\<rparr>) db1)
            in accounts_add_ledger
                 (\<lambda>i. \<lparr>led_id = i, led_source_transaction_id = Some tid, led_account_id = a,
                       led_legacy_tg = Some tg, led_balance_type = balance_type,
                       led_amount = amount, led_balance_after = balance_after,
                       led_reason = reason, led_scope = ''points.'' @ balance_type,
                       led_idempotency_key = key, led_actor_kind = actor_kind actor,
                       led_actor_id = actor_identifier actor,
                       led_metadata = map_option json_dumps metadata,
                       led_created_at = now_utc clk\<rparr>) db2))"

subsection \<open>Settings and their revisions\<close>

definition get_dynamic_setting :: "string \<Rightarrow> 'z core_db_scheme \<Rightarrow> setting_row option" where
  [op_defs]: "get_dynamic_setting key db = tbl_get set_key key (settings db)"

definition list_dynamic_settings :: "'z core_db_scheme \<Rightarrow> setting_row list" where
  "list_dynamic_settings db = settings db"

definition add_dynamic_setting :: "setting_row \<Rightarrow> 'z core_db_scheme \<Rightarrow> 'z core_db_scheme" where
  [op_defs]: "add_dynamic_setting row db = db\<lparr>settings := settings db @ [row]\<rparr>"

definition add_config_revision :: "(int \<Rightarrow> revision_row) \<Rightarrow> 'z core_db_scheme \<Rightarrow> 'z core_db_scheme" where
  [op_defs]: "add_config_revision mk db = db\<lparr>revisions := insert_auto mk (revisions db)\<rparr>"

definition list_config_revisions :: "string \<Rightarrow> int \<Rightarrow> 'z core_db_scheme \<Rightarrow> revision_row list" where
  "list_config_revisions key lim db =
     take (nat lim) (sort_key (\<lambda>r. - rev_revision r)
       (filter (\<lambda>r. rev_setting_key r = key) (rows (revisions db))))"

definition get_config_revision :: "string \<Rightarrow> int \<Rightarrow> 'z core_db_scheme \<Rightarrow> revision_row option" where
  "get_config_revision key revision db =
     tbl_get (\<lambda>r. (rev_setting_key r, rev_revision r)) (key, revision) (rows (revisions db))"

subsection \<open>Operation tasks\<close>

definition get_task :: "string \<Rightarrow> 'z core_db_scheme \<Rightarrow> task_row option" where
  [op_defs]: "get_task tid db = tbl_get task_id tid (tasks db)"

definition save_task :: "task_row \<Rightarrow> 'z core_db_scheme \<Rightarrow> 'z core_db_scheme" where
  [op_defs]: "save_task t db = db\<lparr>tasks := tbl_put task_id t (tasks db)\<rparr>"

definition add_task :: "task_row \<Rightarrow> 'z core_db_scheme \<Rightarrow> 'z core_db_scheme" where
  [op_defs]: "add_task t db = db\<lparr>tasks := tasks db @ [t]\<rparr>"

definition delete_task :: "string \<Rightarrow> 'z core_db_scheme \<Rightarrow> 'z core_db_scheme" where
  [op_defs]: "delete_task tid db = db\<lparr>tasks := tbl_del task_id tid (tasks db)\<rparr>"

interpretation task_repo: growing_store get_task save_task task_id add_task delete_task
  by unfold_locales
    (auto simp: op_defs tbl_get_put_same tbl_get_put_other tbl_put_absent tbl_get_append tbl_get_del
       dest: tbl_get_key split: option.splits)

definition get_task_by_idempotency_key :: "string option \<Rightarrow> 'z core_db_scheme \<Rightarrow> task_row option" where
  "get_task_by_idempotency_key key db =
     (if \<not> truthy_str key then None else tbl_get task_idempotency_key key (tasks db))"

definition list_tasks ::
  "string list option \<Rightarrow> string option \<Rightarrow> string option \<Rightarrow> int \<Rightarrow> int \<Rightarrow> 'z core_db_scheme \<Rightarrow>
   task_row list \<times> int" where
  "list_tasks statuses type owner lim off db =
     (let q1 = (case statuses of
            None \<Rightarrow> tasks db
          | Some ss \<Rightarrow> if ss = [] then tasks db else filter (\<lambda>t. task_status t \<in> set ss) (tasks db));
          q2 = (if truthy_str type then filter (\<lambda>t. Some (task_type t) = type) q1 else q1);
          q3 = (if truthy_str owner then filter (\<lambda>t. Some (task_owner_id t) = owner) q2 else q2)
      in (sql_page off lim (sort_key (\<lambda>t. - task_created_at t) q3), int (length q3)))"

definition lease_expired :: "datetime \<Rightarrow> task_row \<Rightarrow> bool" where
  "lease_expired now t =
     (task_status t = ''running'' \<and>
      (case task_lease_expires_at t of None \<Rightarrow> False | Some e \<Rightarrow> e < now))"

definition recover_expired_task_leases :: "datetime \<Rightarrow> 'z core_db_scheme \<Rightarrow> task_row list" where
  "recover_expired_task_leases now db = filter (lease_expired now) (tasks db)"

definition lease_free :: "datetime \<Rightarrow> task_row \<Rightarrow> bool" where
  "lease_free now t = (case task_lease_expires_at t of None \<Rightarrow> True | Some e \<Rightarrow> e < now)"

definition claimable :: "datetime \<Rightarrow> task_row \<Rightarrow> bool" where
  "claimable now t =
     (task_status t \<in> {''pending'', ''retrying''} \<and> task_next_run_at t \<le> now \<and>
      \<not> task_cancel_requested t \<and> lease_free now t)"

definition claim_candidates :: "datetime \<Rightarrow> 'z core_db_scheme \<Rightarrow> string list" where
  "claim_candidates now db =
     map task_id (take 10
       (sort_key task_next_run_at (sort_key task_created_at (filter (claimable now) (tasks db)))))"

definition claim_update :: "string \<Rightarrow> datetime \<Rightarrow> datetime \<Rightarrow> task_row \<Rightarrow> task_row" where
  "claim_update worker_id now lease t =
     t\<lparr>task_status := ''running'', task_locked_by := Some worker_id,
       task_lease_expires_at := Some lease, task_last_heartbeat_at := Some now,
       task_started_at := Some now, task_updated_at := now\<rparr>"

text \<open>The conditional update of one candidate: it counts a row only if the guard still holds.\<close>

definition still_claimable :: "datetime \<Rightarrow> task_row \<Rightarrow> bool" where
  "still_claimable now t =
     (task_status t \<in> {''pending'', ''retrying''} \<and> \<not> task_cancel_requested t \<and> lease_free now t)"

fun claim_first ::
  "string \<Rightarrow> datetime \<Rightarrow> datetime \<Rightarrow> string list \<Rightarrow> 'z core_db_scheme \<Rightarrow>
   task_row option \<times> 'z core_db_scheme" where
  "claim_first worker_id now lease [] db = (None, db)"
| "claim_first worker_id now lease (tid # tids) db =
     (case get_task tid db of
        Some t \<Rightarrow>
          if still_claimable now t
          then (Some (claim_update worker_id now lease t),
                save_task (claim_update worker_id now lease t) db)
          else claim_first worker_id now lease tids db
      | None \<Rightarrow> claim_first worker_id now lease tids db)"

definition claim_next_task ::
  "string \<Rightarrow> datetime \<Rightarrow> datetime \<Rightarrow> 'z core_db_scheme \<Rightarrow> task_row option \<times> 'z core_db_scheme" where
  "claim_next_task worker_id now lease db =
     claim_first worker_id now lease (claim_candidates now db) db"

subsection \<open>The event outbox\<close>

definition event_prefix_match :: "string list \<Rightarrow> event_row \<Rightarrow> bool" where
  "event_prefix_match event_prefixes e =
     list_ex (\<lambda>p. sql_like (p @ ''.%'') (ev_type e)) event_prefixes"

definition list_events_after ::
  "int \<Rightarrow> int \<Rightarrow> string option \<Rightarrow> string option \<Rightarrow> string list option \<Rightarrow> 'z core_db_scheme \<Rightarrow>
   event_row list" where
  "list_events_after after_id lim aggregate_type aggregate_id event_prefixes db =
     (let q1 = filter (\<lambda>e. after_id < ev_id e) (rows (events db));
          q2 = (if truthy_str aggregate_type
                then filter (\<lambda>e. Some (ev_aggregate_type e) = aggregate_type) q1 else q1);
          q3 = (if truthy_str aggregate_id
                then filter (\<lambda>e. ev_aggregate_id e = aggregate_id) q2 else q2)
      in (case event_prefixes of
            None \<Rightarrow> take (nat lim) (sort_key ev_id q3)
          | Some ps \<Rightarrow>
              if ps = [] then []
              else take (nat lim) (sort_key ev_id (filter (event_prefix_match ps) q3))))"

definition list_unpublished_events :: "int \<Rightarrow> 'z core_db_scheme \<Rightarrow> event_row list" where
  "list_unpublished_events lim db =
     take (nat lim) (sort_key ev_id (filter (\<lambda>e. ev_published_at e = None) (rows (events db))))"

definition mark_events_published ::
  "int list \<Rightarrow> datetime \<Rightarrow> 'z core_db_scheme \<Rightarrow> int \<times> 'z core_db_scheme" where
  "mark_events_published ids published_at db =
     (if ids = [] then (0, db)
      else
        (let hit = (\<lambda>e. ev_id e \<in> set ids \<and> ev_published_at e = None)
         in (int (length (filter hit (rows (events db)))),
             db\<lparr>events := (events db)\<lparr>rows :=
               map (\<lambda>e. if hit e then e\<lparr>ev_published_at := Some published_at\<rparr> else e)
                 (rows (events db))\<rparr>\<rparr>)))"

subsection \<open>Job runs and worker heartbeats\<close>

definition add_job_run :: "(int \<Rightarrow> job_row) \<Rightarrow> 'z core_db_scheme \<Rightarrow> 'z core_db_scheme" where
  "add_job_run mk db = db\<lparr>jobs := insert_auto mk (jobs db)\<rparr>"

definition list_job_runs :: "int \<Rightarrow> int \<Rightarrow> 'z core_db_scheme \<Rightarrow> job_row list \<times> int" where
  "list_job_runs lim off db =
     (sql_page off lim (sort_key (\<lambda>j. - job_started_at j) (rows (jobs db))),
      int (length (rows (jobs db))))"

definition upsert_worker_heartbeat ::
  "string \<Rightarrow> string \<Rightarrow> string \<Rightarrow> int \<Rightarrow> string \<Rightarrow> string option \<Rightarrow> jval option \<Rightarrow> datetime \<Rightarrow>
   'z core_db_scheme \<Rightarrow> 'z core_db_scheme" where
  "upsert_worker_heartbeat worker_id worker_kind hostname process_id status current_task_id metadata now db =
     (case tbl_get hb_worker_id worker_id (heartbeats db) of
        None \<Rightarrow> db\<lparr>heartbeats := heartbeats db @
          [\<lparr>hb_worker_id = worker_id, hb_worker_kind = worker_kind, hb_hostname = hostname,
            hb_process_id = process_id, hb_status = status, hb_current_task_id = current_task_id,
            hb_metadata = map_option json_dumps metadata, hb_started_at = now,
            hb_last_seen_at = now\<rparr>]\<rparr>
      | Some row \<Rightarrow> db\<lparr>heartbeats := tbl_put hb_worker_id
          (row\<lparr>hb_worker_kind := worker_kind, hb_hostname := hostname,
               hb_process_id := process_id, hb_status := status,
               hb_current_task_id := current_task_id,
               hb_metadata := map_option json_dumps metadata, hb_last_seen_at := now\<rparr>)
          (heartbeats db)\<rparr>)"

definition list_worker_heartbeats :: "'z core_db_scheme \<Rightarrow> heartbeat_row list" where
  "list_worker_heartbeats db = sort_key (\<lambda>h. - hb_last_seen_at h) (heartbeats db)"

end
