(* ===== verification/Frames.thy ===== *)
theory Frames
  imports Operations_Repo
begin

section \<open>What each repository operation leaves alone\<close>

text \<open>
  Frame lemmas: a table an operation does not write is the same after it. They are
  simplification rules, so a component proof sees through the bookkeeping (audit, events,
  transactions, idempotency) to the table it is about. The lemmas after them say what the
  bookkeeping does to its own tables.
\<close>

lemma audit_frame [simp, frame]:
  "embys (audit clk actor action resource_type resource_id outcome detail request_id db) = embys db"
  "codes (audit clk actor action resource_type resource_id outcome detail request_id db) = codes db"
  "partition_codes (audit clk actor action resource_type resource_id outcome detail request_id db) = partition_codes db"
  "partition_grants (audit clk actor action resource_type resource_id outcome detail request_id db) = partition_grants db"
  "accounts (audit clk actor action resource_type resource_id outcome detail request_id db) = accounts db"
  "identities (audit clk actor action resource_type resource_id outcome detail request_id db) = identities db"
  "wallets (audit clk actor action resource_type resource_id outcome detail request_id db) = wallets db"
  "ledger (audit clk actor action resource_type resource_id outcome detail request_id db) = ledger db"
  "idempotency (audit clk actor action resource_type resource_id outcome detail request_id db) = idempotency db"
  "points (audit clk actor action resource_type resource_id outcome detail request_id db) = points db"
  "events (audit clk actor action resource_type resource_id outcome detail request_id db) = events db"
  "securities (audit clk actor action resource_type resource_id outcome detail request_id db) = securities db"
  "tasks (audit clk actor action resource_type resource_id outcome detail request_id db) = tasks db"
  "jobs (audit clk actor action resource_type resource_id outcome detail request_id db) = jobs db"
  "heartbeats (audit clk actor action resource_type resource_id outcome detail request_id db) = heartbeats db"
  "settings (audit clk actor action resource_type resource_id outcome detail request_id db) = settings db"
  "revisions (audit clk actor action resource_type resource_id outcome detail request_id db) = revisions db"
  by (simp_all add: audit_def)

lemma event_frame [simp, frame]:
  "embys (event clk event_type aggregate_type aggregate_id payload db) = embys db"
  "codes (event clk event_type aggregate_type aggregate_id payload db) = codes db"
  "partition_codes (event clk event_type aggregate_type aggregate_id payload db) = partition_codes db"
  "partition_grants (event clk event_type aggregate_type aggregate_id payload db) = partition_grants db"
  "accounts (event clk event_type aggregate_type aggregate_id payload db) = accounts db"
  "identities (event clk event_type aggregate_type aggregate_id payload db) = identities db"
  "wallets (event clk event_type aggregate_type aggregate_id payload db) = wallets db"
  "ledger (event clk event_type aggregate_type aggregate_id payload db) = ledger db"
  "idempotency (event clk event_type aggregate_type aggregate_id payload db) = idempotency db"
  "audits (event clk event_type aggregate_type aggregate_id payload db) = audits db"
  "points (event clk event_type aggregate_type aggregate_id payload db) = points db"
  "securities (event clk event_type aggregate_type aggregate_id payload db) = securities db"
  "tasks (event clk event_type aggregate_type aggregate_id payload db) = tasks db"
  "jobs (event clk event_type aggregate_type aggregate_id payload db) = jobs db"
  "heartbeats (event clk event_type aggregate_type aggregate_id payload db) = heartbeats db"
  "settings (event clk event_type aggregate_type aggregate_id payload db) = settings db"
  "revisions (event clk event_type aggregate_type aggregate_id payload db) = revisions db"
  by (simp_all add: event_def)

lemma save_idempotent_result_frame [simp, frame]:
  "embys (save_idempotent_result clk scope key res db) = embys db"
  "codes (save_idempotent_result clk scope key res db) = codes db"
  "partition_codes (save_idempotent_result clk scope key res db) = partition_codes db"
  "partition_grants (save_idempotent_result clk scope key res db) = partition_grants db"
  "accounts (save_idempotent_result clk scope key res db) = accounts db"
  "identities (save_idempotent_result clk scope key res db) = identities db"
  "wallets (save_idempotent_result clk scope key res db) = wallets db"
  "ledger (save_idempotent_result clk scope key res db) = ledger db"
  "audits (save_idempotent_result clk scope key res db) = audits db"
  "points (save_idempotent_result clk scope key res db) = points db"
  "events (save_idempotent_result clk scope key res db) = events db"
  "securities (save_idempotent_result clk scope key res db) = securities db"
  "tasks (save_idempotent_result clk scope key res db) = tasks db"
  "jobs (save_idempotent_result clk scope key res db) = jobs db"
  "heartbeats (save_idempotent_result clk scope key res db) = heartbeats db"
  "settings (save_idempotent_result clk scope key res db) = settings db"
  "revisions (save_idempotent_result clk scope key res db) = revisions db"
  by (simp_all add: save_idempotent_result_def)

lemma point_transaction_frame [simp, frame]:
  "embys (point_transaction clk tg balance_type amount balance_after reason actor key metadata db) = embys db"
  "codes (point_transaction clk tg balance_type amount balance_after reason actor key metadata db) = codes db"
  "partition_codes (point_transaction clk tg balance_type amount balance_after reason actor key metadata db) = partition_codes db"
  "partition_grants (point_transaction clk tg balance_type amount balance_after reason actor key metadata db) = partition_grants db"
  "accounts (point_transaction clk tg balance_type amount balance_after reason actor key metadata db) = accounts db"
  "identities (point_transaction clk tg balance_type amount balance_after reason actor key metadata db) = identities db"
  "idempotency (point_transaction clk tg balance_type amount balance_after reason actor key metadata db) = idempotency db"
  "audits (point_transaction clk tg balance_type amount balance_after reason actor key metadata db) = audits db"
  "events (point_transaction clk tg balance_type amount balance_after reason actor key metadata db) = events db"
  "securities (point_transaction clk tg balance_type amount balance_after reason actor key metadata db) = securities db"
  "tasks (point_transaction clk tg balance_type amount balance_after reason actor key metadata db) = tasks db"
  "jobs (point_transaction clk tg balance_type amount balance_after reason actor key metadata db) = jobs db"
  "heartbeats (point_transaction clk tg balance_type amount balance_after reason actor key metadata db) = heartbeats db"
  "settings (point_transaction clk tg balance_type amount balance_after reason actor key metadata db) = settings db"
  "revisions (point_transaction clk tg balance_type amount balance_after reason actor key metadata db) = revisions db"
  by (simp_all add: point_transaction_def Let_def accounts_add_wallet_def accounts_save_wallet_def accounts_add_ledger_def split: option.splits)

lemma users_save_frame [simp, frame]:
  "codes (users_save u db) = codes db"
  "partition_codes (users_save u db) = partition_codes db"
  "partition_grants (users_save u db) = partition_grants db"
  "accounts (users_save u db) = accounts db"
  "identities (users_save u db) = identities db"
  "wallets (users_save u db) = wallets db"
  "ledger (users_save u db) = ledger db"
  "idempotency (users_save u db) = idempotency db"
  "audits (users_save u db) = audits db"
  "points (users_save u db) = points db"
  "events (users_save u db) = events db"
  "securities (users_save u db) = securities db"
  "tasks (users_save u db) = tasks db"
  "jobs (users_save u db) = jobs db"
  "heartbeats (users_save u db) = heartbeats db"
  "settings (users_save u db) = settings db"
  "revisions (users_save u db) = revisions db"
  by (simp_all add: users_save_def)

lemma users_insert_frame [simp, frame]:
  "codes (users_insert u db) = codes db"
  "partition_codes (users_insert u db) = partition_codes db"
  "partition_grants (users_insert u db) = partition_grants db"
  "accounts (users_insert u db) = accounts db"
  "identities (users_insert u db) = identities db"
  "wallets (users_insert u db) = wallets db"
  "ledger (users_insert u db) = ledger db"
  "idempotency (users_insert u db) = idempotency db"
  "audits (users_insert u db) = audits db"
  "points (users_insert u db) = points db"
  "events (users_insert u db) = events db"
  "securities (users_insert u db) = securities db"
  "tasks (users_insert u db) = tasks db"
  "jobs (users_insert u db) = jobs db"
  "heartbeats (users_insert u db) = heartbeats db"
  "settings (users_insert u db) = settings db"
  "revisions (users_insert u db) = revisions db"
  by (simp_all add: users_insert_def)

lemma codes_save_frame [simp, frame]:
  "embys (codes_save c db) = embys db"
  "partition_codes (codes_save c db) = partition_codes db"
  "partition_grants (codes_save c db) = partition_grants db"
  "accounts (codes_save c db) = accounts db"
  "identities (codes_save c db) = identities db"
  "wallets (codes_save c db) = wallets db"
  "ledger (codes_save c db) = ledger db"
  "idempotency (codes_save c db) = idempotency db"
  "audits (codes_save c db) = audits db"
  "points (codes_save c db) = points db"
  "events (codes_save c db) = events db"
  "securities (codes_save c db) = securities db"
  "tasks (codes_save c db) = tasks db"
  "jobs (codes_save c db) = jobs db"
  "heartbeats (codes_save c db) = heartbeats db"
  "settings (codes_save c db) = settings db"
  "revisions (codes_save c db) = revisions db"
  by (simp_all add: codes_save_def)

lemma codes_add_rows_frame [simp, frame]:
  "embys (codes_add_rows cs db) = embys db"
  "partition_codes (codes_add_rows cs db) = partition_codes db"
  "partition_grants (codes_add_rows cs db) = partition_grants db"
  "accounts (codes_add_rows cs db) = accounts db"
  "identities (codes_add_rows cs db) = identities db"
  "wallets (codes_add_rows cs db) = wallets db"
  "ledger (codes_add_rows cs db) = ledger db"
  "idempotency (codes_add_rows cs db) = idempotency db"
  "audits (codes_add_rows cs db) = audits db"
  "points (codes_add_rows cs db) = points db"
  "events (codes_add_rows cs db) = events db"
  "securities (codes_add_rows cs db) = securities db"
  "tasks (codes_add_rows cs db) = tasks db"
  "jobs (codes_add_rows cs db) = jobs db"
  "heartbeats (codes_add_rows cs db) = heartbeats db"
  "settings (codes_add_rows cs db) = settings db"
  "revisions (codes_add_rows cs db) = revisions db"
  by (simp_all add: codes_add_rows_def)

lemma codes_add_many_frame [simp, frame]:
  "embys (codes_add_many values tg days db) = embys db"
  "partition_codes (codes_add_many values tg days db) = partition_codes db"
  "partition_grants (codes_add_many values tg days db) = partition_grants db"
  "accounts (codes_add_many values tg days db) = accounts db"
  "identities (codes_add_many values tg days db) = identities db"
  "wallets (codes_add_many values tg days db) = wallets db"
  "ledger (codes_add_many values tg days db) = ledger db"
  "idempotency (codes_add_many values tg days db) = idempotency db"
  "audits (codes_add_many values tg days db) = audits db"
  "points (codes_add_many values tg days db) = points db"
  "events (codes_add_many values tg days db) = events db"
  "securities (codes_add_many values tg days db) = securities db"
  "tasks (codes_add_many values tg days db) = tasks db"
  "jobs (codes_add_many values tg days db) = jobs db"
  "heartbeats (codes_add_many values tg days db) = heartbeats db"
  "settings (codes_add_many values tg days db) = settings db"
  "revisions (codes_add_many values tg days db) = revisions db"
  by (simp_all add: codes_add_many_def codes_add_rows_def)

lemma save_task_frame [simp, frame]:
  "embys (save_task t db) = embys db"
  "codes (save_task t db) = codes db"
  "partition_codes (save_task t db) = partition_codes db"
  "partition_grants (save_task t db) = partition_grants db"
  "accounts (save_task t db) = accounts db"
  "identities (save_task t db) = identities db"
  "wallets (save_task t db) = wallets db"
  "ledger (save_task t db) = ledger db"
  "idempotency (save_task t db) = idempotency db"
  "audits (save_task t db) = audits db"
  "points (save_task t db) = points db"
  "events (save_task t db) = events db"
  "securities (save_task t db) = securities db"
  "jobs (save_task t db) = jobs db"
  "heartbeats (save_task t db) = heartbeats db"
  "settings (save_task t db) = settings db"
  "revisions (save_task t db) = revisions db"
  by (simp_all add: save_task_def)

lemma add_task_frame [simp, frame]:
  "embys (add_task t db) = embys db"
  "codes (add_task t db) = codes db"
  "partition_codes (add_task t db) = partition_codes db"
  "partition_grants (add_task t db) = partition_grants db"
  "accounts (add_task t db) = accounts db"
  "identities (add_task t db) = identities db"
  "wallets (add_task t db) = wallets db"
  "ledger (add_task t db) = ledger db"
  "idempotency (add_task t db) = idempotency db"
  "audits (add_task t db) = audits db"
  "points (add_task t db) = points db"
  "events (add_task t db) = events db"
  "securities (add_task t db) = securities db"
  "jobs (add_task t db) = jobs db"
  "heartbeats (add_task t db) = heartbeats db"
  "settings (add_task t db) = settings db"
  "revisions (add_task t db) = revisions db"
  by (simp_all add: add_task_def)

lemma partitions_save_code_frame [simp, frame]:
  "embys (partitions_save_code r db) = embys db"
  "codes (partitions_save_code r db) = codes db"
  "partition_grants (partitions_save_code r db) = partition_grants db"
  "accounts (partitions_save_code r db) = accounts db"
  "identities (partitions_save_code r db) = identities db"
  "wallets (partitions_save_code r db) = wallets db"
  "ledger (partitions_save_code r db) = ledger db"
  "idempotency (partitions_save_code r db) = idempotency db"
  "audits (partitions_save_code r db) = audits db"
  "points (partitions_save_code r db) = points db"
  "events (partitions_save_code r db) = events db"
  "securities (partitions_save_code r db) = securities db"
  "tasks (partitions_save_code r db) = tasks db"
  "jobs (partitions_save_code r db) = jobs db"
  "heartbeats (partitions_save_code r db) = heartbeats db"
  "settings (partitions_save_code r db) = settings db"
  "revisions (partitions_save_code r db) = revisions db"
  by (simp_all add: partitions_save_code_def)

lemma accounts_add_account_frame [simp, frame]:
  "embys (accounts_add_account a db) = embys db"
  "codes (accounts_add_account a db) = codes db"
  "partition_codes (accounts_add_account a db) = partition_codes db"
  "partition_grants (accounts_add_account a db) = partition_grants db"
  "identities (accounts_add_account a db) = identities db"
  "wallets (accounts_add_account a db) = wallets db"
  "ledger (accounts_add_account a db) = ledger db"
  "idempotency (accounts_add_account a db) = idempotency db"
  "audits (accounts_add_account a db) = audits db"
  "points (accounts_add_account a db) = points db"
  "events (accounts_add_account a db) = events db"
  "securities (accounts_add_account a db) = securities db"
  "tasks (accounts_add_account a db) = tasks db"
  "jobs (accounts_add_account a db) = jobs db"
  "heartbeats (accounts_add_account a db) = heartbeats db"
  "settings (accounts_add_account a db) = settings db"
  "revisions (accounts_add_account a db) = revisions db"
  by (simp_all add: accounts_add_account_def)

lemma accounts_add_identity_frame [simp, frame]:
  "embys (accounts_add_identity idn db) = embys db"
  "codes (accounts_add_identity idn db) = codes db"
  "partition_codes (accounts_add_identity idn db) = partition_codes db"
  "partition_grants (accounts_add_identity idn db) = partition_grants db"
  "accounts (accounts_add_identity idn db) = accounts db"
  "wallets (accounts_add_identity idn db) = wallets db"
  "ledger (accounts_add_identity idn db) = ledger db"
  "idempotency (accounts_add_identity idn db) = idempotency db"
  "audits (accounts_add_identity idn db) = audits db"
  "points (accounts_add_identity idn db) = points db"
  "events (accounts_add_identity idn db) = events db"
  "securities (accounts_add_identity idn db) = securities db"
  "tasks (accounts_add_identity idn db) = tasks db"
  "jobs (accounts_add_identity idn db) = jobs db"
  "heartbeats (accounts_add_identity idn db) = heartbeats db"
  "settings (accounts_add_identity idn db) = settings db"
  "revisions (accounts_add_identity idn db) = revisions db"
  by (simp_all add: accounts_add_identity_def)

lemma accounts_add_wallet_frame [simp, frame]:
  "embys (accounts_add_wallet mk db) = embys db"
  "codes (accounts_add_wallet mk db) = codes db"
  "partition_codes (accounts_add_wallet mk db) = partition_codes db"
  "partition_grants (accounts_add_wallet mk db) = partition_grants db"
  "accounts (accounts_add_wallet mk db) = accounts db"
  "identities (accounts_add_wallet mk db) = identities db"
  "ledger (accounts_add_wallet mk db) = ledger db"
  "idempotency (accounts_add_wallet mk db) = idempotency db"
  "audits (accounts_add_wallet mk db) = audits db"
  "points (accounts_add_wallet mk db) = points db"
  "events (accounts_add_wallet mk db) = events db"
  "securities (accounts_add_wallet mk db) = securities db"
  "tasks (accounts_add_wallet mk db) = tasks db"
  "jobs (accounts_add_wallet mk db) = jobs db"
  "heartbeats (accounts_add_wallet mk db) = heartbeats db"
  "settings (accounts_add_wallet mk db) = settings db"
  "revisions (accounts_add_wallet mk db) = revisions db"
  by (simp_all add: accounts_add_wallet_def)

lemma accounts_save_wallet_frame [simp, frame]:
  "embys (accounts_save_wallet w db) = embys db"
  "codes (accounts_save_wallet w db) = codes db"
  "partition_codes (accounts_save_wallet w db) = partition_codes db"
  "partition_grants (accounts_save_wallet w db) = partition_grants db"
  "accounts (accounts_save_wallet w db) = accounts db"
  "identities (accounts_save_wallet w db) = identities db"
  "ledger (accounts_save_wallet w db) = ledger db"
  "idempotency (accounts_save_wallet w db) = idempotency db"
  "audits (accounts_save_wallet w db) = audits db"
  "points (accounts_save_wallet w db) = points db"
  "events (accounts_save_wallet w db) = events db"
  "securities (accounts_save_wallet w db) = securities db"
  "tasks (accounts_save_wallet w db) = tasks db"
  "jobs (accounts_save_wallet w db) = jobs db"
  "heartbeats (accounts_save_wallet w db) = heartbeats db"
  "settings (accounts_save_wallet w db) = settings db"
  "revisions (accounts_save_wallet w db) = revisions db"
  by (simp_all add: accounts_save_wallet_def)

subsection \<open>Lookups through the bookkeeping\<close>

lemma users_get_cong: "embys db' = embys db \<Longrightarrow> users_get_for_update tg db' = users_get_for_update tg db"
  by (simp add: users_get_for_update_def)

lemma users_get_frame [simp]:
  "users_get_for_update tg (audit clk actor action resource_type resource_id outcome detail request_id db) =
   users_get_for_update tg db"
  "users_get_for_update tg (event clk event_type aggregate_type aggregate_id payload db) =
   users_get_for_update tg db"
  "users_get_for_update tg (save_idempotent_result clk scope key res db) = users_get_for_update tg db"
  "users_get_for_update tg (point_transaction clk tg' balance_type amount balance_after reason actor key metadata db) =
   users_get_for_update tg db"
  "users_get_for_update tg (codes_save c db) = users_get_for_update tg db"
  "users_get_for_update tg (codes_add_rows cs db) = users_get_for_update tg db"
  "users_get_for_update tg (codes_add_many values tg'' days db) = users_get_for_update tg db"
  by (simp_all add: users_get_for_update_def)

lemma codes_get_frame [simp]:
  "codes_get_for_update v (audit clk actor action resource_type resource_id outcome detail request_id db) =
   codes_get_for_update v db"
  "codes_get_for_update v (event clk event_type aggregate_type aggregate_id payload db) =
   codes_get_for_update v db"
  "codes_get_for_update v (save_idempotent_result clk scope key res db) = codes_get_for_update v db"
  "codes_get_for_update v (point_transaction clk tg' balance_type amount balance_after reason actor key metadata db) =
   codes_get_for_update v db"
  "codes_get_for_update v (users_save u db) = codes_get_for_update v db"
  by (simp_all add: codes_get_for_update_def)

lemma get_idempotent_frame [simp]:
  "get_idempotent_result scope key (audit clk actor action resource_type resource_id outcome detail request_id db) =
   get_idempotent_result scope key db"
  "get_idempotent_result scope key (event clk event_type aggregate_type aggregate_id payload db) =
   get_idempotent_result scope key db"
  "get_idempotent_result scope key (point_transaction clk tg' balance_type amount balance_after reason actor key' metadata db) =
   get_idempotent_result scope key db"
  "get_idempotent_result scope key (users_save u db) = get_idempotent_result scope key db"
  "get_idempotent_result scope key (codes_save c db) = get_idempotent_result scope key db"
  "get_idempotent_result scope key (codes_add_many values tg days db) = get_idempotent_result scope key db"
  by (simp_all add: get_idempotent_result_def)

subsection \<open>The idempotency table\<close>

lemma idem_pk_simp: "idem_pk r = (idem_scope r, idem_key r)"
  by (simp add: idem_pk_def)

lemma get_saved:
  assumes "truthy_str key" and "tbl_get idem_pk (scope, the key) (rows (idempotency db)) = None"
  shows "get_idempotent_result scope key (save_idempotent_result clk scope key res db) =
    Some (json_dumps res)"
  using assms
  by (simp add: get_idempotent_result_def save_idempotent_result_def tbl_get_append idem_pk_simp)

lemma get_saved_keep:
  "get_idempotent_result scope key db = Some v \<Longrightarrow>
   get_idempotent_result scope key (save_idempotent_result clk scope' key' res db) = Some v"
  by (auto simp: get_idempotent_result_def save_idempotent_result_def tbl_get_append
      split: if_splits option.splits)

subsection \<open>The point transactions\<close>

definition posted :: "int \<Rightarrow> string \<Rightarrow> 'z core_db_scheme \<Rightarrow> int" where
  \<comment> \<open>the sum of the amounts booked for one user and balance\<close>
  "posted tg bt db =
     sum_list (map pt_amount (filter (\<lambda>r. pt_tg r = tg \<and> pt_balance_type r = bt) (rows (points db))))"

lemma points_point_transaction:
  "rows (points (point_transaction clk tg bt amount bal reason actor key metadata db)) =
   rows (points db) @
     [\<lparr>pt_id = next_id (points db), pt_account_id = map_option acc_id (accounts_by_legacy_tg tg db),
       pt_tg = tg, pt_balance_type = bt, pt_amount = amount, pt_balance_after = bal,
       pt_reason = reason, pt_actor_kind = actor_kind actor, pt_actor_id = actor_identifier actor,
       pt_idempotency_key = key, pt_metadata = map_option json_dumps metadata,
       pt_created_at = now_utc clk\<rparr>]"
  by (simp add: point_transaction_def Let_def accounts_add_wallet_def accounts_save_wallet_def
      accounts_add_ledger_def split: option.splits)

lemma posted_point_transaction [simp]:
  "posted tg bt (point_transaction clk tg' bt' amount bal reason actor key metadata db) =
   posted tg bt db + (if tg = tg' \<and> bt = bt' then amount else 0)"
  by (auto simp: posted_def points_point_transaction)

lemma posted_frame [simp]:
  "posted tg bt (audit clk actor action resource_type resource_id outcome detail request_id db) = posted tg bt db"
  "posted tg bt (event clk event_type aggregate_type aggregate_id payload db) = posted tg bt db"
  "posted tg bt (save_idempotent_result clk scope key res db) = posted tg bt db"
  "posted tg bt (users_save u db) = posted tg bt db"
  "posted tg bt (users_insert u db) = posted tg bt db"
  "posted tg bt (codes_save c db) = posted tg bt db"
  "posted tg bt (codes_add_rows cs db) = posted tg bt db"
  "posted tg bt (codes_add_many values tg'' days db) = posted tg bt db"
  by (simp_all add: posted_def)

lemma bookkeeping_lengths [simp]:
  "length (rows (audits (audit clk actor action rtype rid outcome detail req db))) = Suc (length (rows (audits db)))"
  "length (rows (events (event clk etype rtype rid payload db))) = Suc (length (rows (events db)))"
  by (simp_all add: audit_def event_def)

end
