(* ===== verification/Contracts.thy ===== *)
theory Contracts
  imports Frames
begin

section \<open>The contracts the services share\<close>

text \<open>
  Two promises recur in \<open>bot/application\<close>: a call that carries an idempotency key takes
  effect once, and a balance changes only together with a booked transaction. Each is a
  locale over an abstract call; the services interpret it on their own operations and the
  facts about sequences of calls are proved here once.
\<close>

subsection \<open>Exactly once\<close>

text \<open>
  \<open>lookup i s\<close> is the stored answer to request \<open>i\<close>, \<open>keyed i\<close> says that the request
  carries a key, \<open>replay\<close> is what a stored answer looks like when it comes back.
\<close>

locale idempotent_service =
  fixes call :: "'i \<Rightarrow> 's \<Rightarrow> ('r, 's) outcome"
    and lookup :: "'i \<Rightarrow> 's \<Rightarrow> 'r option"
    and keyed :: "'i \<Rightarrow> bool"
    and succeeded :: "'r \<Rightarrow> bool"
    and replay :: "'r \<Rightarrow> 'r"
  assumes answers: "lookup i s = Some r \<Longrightarrow> call i s = (Inr r, s)"
    and records: "call i s = (Inr r, s') \<Longrightarrow> keyed i \<Longrightarrow> succeeded r \<Longrightarrow> lookup i s = None \<Longrightarrow>
      lookup i s' = Some (replay r)"
    and remembers: "lookup i s = Some r \<Longrightarrow> lookup i (snd (call j s)) = Some r"
begin

lemma remembers_calls:
  "lookup i s = Some r \<Longrightarrow> lookup i (fold (\<lambda>j s. snd (call j s)) js s) = Some r"
  by (induction js arbitrary: s) (auto intro: remembers)

lemma second_call_replays:
  assumes "call i s = (Inr r, s')" and "keyed i" and "succeeded r" and "lookup i s = None"
  shows "call i s' = (Inr (replay r), s')"
  by (rule answers) (rule records [OF assms])

lemma late_call_replays:
  assumes "call i s = (Inr r, s')" and "keyed i" and "succeeded r" and "lookup i s = None"
    and t: "t = fold (\<lambda>j s. snd (call j s)) js s'"
  shows "call i t = (Inr (replay r), t)"
  unfolding t by (rule answers, rule remembers_calls, rule records [OF assms(1-4)])

lemma repeats_are_one:
  assumes "call i s = (Inr r, s')" and "keyed i" and "succeeded r" and "lookup i s = None"
  shows "fold (\<lambda>j s. snd (call j s)) (replicate (Suc n) i) s = s'"
proof (induction n)
  case 0
  then show ?case using assms(1) by simp
next
  case (Suc n)
  have "fold (\<lambda>j s. snd (call j s)) (replicate (Suc (Suc n)) i) s =
    snd (call i (fold (\<lambda>j s. snd (call j s)) (replicate (Suc n) i) s))"
    by (simp add: replicate_append_same [symmetric] del: replicate.simps)
  then show ?case
    using Suc.IH second_call_replays [OF assms] by simp
qed

end

subsection \<open>Every balance change is booked\<close>

locale booked_service =
  fixes call :: "'i \<Rightarrow> 's \<Rightarrow> ('r, 's) outcome"
    and balance :: "'k \<Rightarrow> 's \<Rightarrow> int"
    and booked :: "'k \<Rightarrow> 's \<Rightarrow> int"
  assumes books: "balance k (snd (call i s)) - balance k s = booked k (snd (call i s)) - booked k s"
begin

lemma calls_book:
  "balance k (fold (\<lambda>i s. snd (call i s)) is s) - balance k s =
   booked k (fold (\<lambda>i s. snd (call i s)) is s) - booked k s"
proof (induction "is" arbitrary: s)
  case Nil
  then show ?case by simp
next
  case (Cons i "is")
  show ?case
    using Cons.IH [of "snd (call i s)"] books [of k i s] by simp
qed

lemma balance_explained:
  "balance k s = booked k s \<Longrightarrow>
   balance k (fold (\<lambda>i s. snd (call i s)) is s) = booked k (fold (\<lambda>i s. snd (call i s)) is s)"
  using calls_book [of k "is" s] by simp

end

subsection \<open>Replaying a stored result\<close>

text \<open>The check every keyed operation makes right after it has locked the user's row.\<close>

definition replay_or ::
  "string \<Rightarrow> string option \<Rightarrow> 'z core_db_scheme \<Rightarrow> (service_result \<times> 'z core_db_scheme) attempt \<Rightarrow>
   (service_result \<times> 'z core_db_scheme) attempt" where
  "replay_or scope key db k =
     (case get_idempotent_result scope key db of
        Some v \<Rightarrow> if jtruthy v then bind_attempt (from_dict v) (\<lambda>r. Inr (r, db)) else k
      | None \<Rightarrow> k)"

definition stored_answer :: "string \<Rightarrow> string option \<Rightarrow> 'z core_db_scheme \<Rightarrow> service_result option" where
  "stored_answer scope key db =
     (case get_idempotent_result scope key db of
        None \<Rightarrow> None
      | Some v \<Rightarrow>
          if jtruthy v then (case from_dict v of Inl e \<Rightarrow> None | Inr r \<Rightarrow> Some r) else None)"

lemma replay_or_stored: "stored_answer scope key db = Some r \<Longrightarrow> replay_or scope key db k = Inr (r, db)"
  by (auto simp: replay_or_def stored_answer_def split: option.splits if_splits sum.splits)

lemma replay_or_fresh: "get_idempotent_result scope key db = None \<Longrightarrow> replay_or scope key db k = k"
  by (simp add: replay_or_def)

lemma replay_or_Inr:
  "replay_or scope key db k = Inr (r, db') \<Longrightarrow>
   (stored_answer scope key db = Some r \<and> db' = db) \<or> (stored_answer scope key db = None \<and> k = Inr (r, db'))"
  by (auto simp: replay_or_def stored_answer_def bind_attempt_def
      split: option.splits if_splits sum.splits)

lemma stored_saved:
  assumes "truthy_str key" and "tbl_get idem_pk (scope, the key) (rows (idempotency db)) = None"
  shows "stored_answer scope key (save_idempotent_result clk scope key (to_dict r) db) = Some (replay_of r)"
  by (simp add: stored_answer_def get_saved [OF assms] from_dict_to_dict)

lemma stored_kept:
  "stored_answer scope key db = Some r \<Longrightarrow>
   stored_answer scope key (save_idempotent_result clk scope' key' res db) = Some r"
  by (auto simp: stored_answer_def get_saved_keep split: option.splits)

lemma stored_frame [simp]:
  "stored_answer scope key (audit clk actor action resource_type resource_id outcome detail request_id db) =
   stored_answer scope key db"
  "stored_answer scope key (event clk event_type aggregate_type aggregate_id payload db) =
   stored_answer scope key db"
  "stored_answer scope key (point_transaction clk tg' balance_type amount balance_after reason actor key' metadata db) =
   stored_answer scope key db"
  "stored_answer scope key (users_save u db) = stored_answer scope key db"
  "stored_answer scope key (codes_save c db) = stored_answer scope key db"
  "stored_answer scope key (codes_add_many values tg days db) = stored_answer scope key db"
  by (simp_all add: stored_answer_def)

text \<open>
  A commit that succeeds has stored its answer: had the key been taken, the unique constraint
  of the table would have failed the commit.
\<close>

lemma saved_row_new:
  assumes "integrity (save_idempotent_result clk scope key res db)" and "truthy_str key"
  shows "tbl_get idem_pk (scope, the key) (rows (idempotency db)) = None"
  using assms by (auto simp: integrity_def save_idempotent_result_def tbl_get_None idem_pk_def)

lemma stored_committed:
  assumes "integrity (save_idempotent_result clk scope key (to_dict r) db)" and "truthy_str key"
  shows "stored_answer scope key (save_idempotent_result clk scope key (to_dict r) db) = Some (replay_of r)"
  by (rule stored_saved [OF assms(2) saved_row_new [OF assms]])

subsection \<open>The shape of a keyed call\<close>

text \<open>
  The keyed operations on a user lock the row, replay, and only then run their guards and
  writes. The elimination rule splits what a returning call can have done.
\<close>

lemma keyed_call_cases:
  assumes "run_uow (\<lambda>db. case users_get_for_update tg db of
      None \<Rightarrow> Inr (nf, db)
    | Some u \<Rightarrow> replay_or scope key db (k u db)) db = (Inr r, db')"
  obtains (no_user) "users_get_for_update tg db = None" "r = nf" "db' = db"
    | (replayed) u where "users_get_for_update tg db = Some u" "stored_answer scope key db = Some r" "db' = db"
    | (fresh) u where "users_get_for_update tg db = Some u" "emby_tg u = tg"
        "stored_answer scope key db = None" "k u db = Inr (r, db')" "integrity db'"
proof (cases "users_get_for_update tg db")
  case None
  with assms have "r = nf \<and> db' = db" by (auto simp: run_uow_Inr)
  then show ?thesis using None by (intro that(1)) simp_all
next
  case (Some u)
  with assms have "replay_or scope key db (k u db) = Inr (r, db')" and ok: "integrity db'"
    by (simp_all add: run_uow_Inr)
  from replay_or_Inr [OF this(1)] show ?thesis
    using that(2) [OF Some] that(3) [OF Some user_repo.get_key [OF Some] _ _ ok] by blast
qed

lemma keyed_call_replays:
  assumes "users_get_for_update tg db = Some u" and "stored_answer scope key db = Some r"
    and "integrity db"
  shows "run_uow (\<lambda>db. case users_get_for_update tg db of
      None \<Rightarrow> Inr (nf, db)
    | Some u \<Rightarrow> replay_or scope key db (k u db)) db = (Inr r, db)"
  using assms by (simp add: run_uow_def replay_or_stored)

end
