(* ===== verification/Balances.thy ===== *)
theory Balances
  imports Contracts
begin

section \<open>Balances and the write every keyed operation ends in\<close>

text \<open>
  The balances of \<open>PointService.BALANCE_FIELDS\<close> and the relation \<open>service_write\<close>. The keyed
  operations of the point, code and user services all end in the same kind of write: the
  user's row, possibly one booked transaction, possibly changed codes, one audit row, one
  event and the stored answer. The lemmas about the relation carry the proofs about every
  operation that ends in it.
\<close>

datatype balance_field = IV | US

definition BALANCE_FIELDS :: "string \<Rightarrow> balance_field option" where
  "BALANCE_FIELDS balance_type =
     (if balance_type = ''coins'' then Some IV
      else if balance_type = ''registration_days'' then Some US else None)"

fun get_balance :: "balance_field \<Rightarrow> emby_row \<Rightarrow> int" where
  "get_balance IV u = int_or_0 (emby_iv u)"
| "get_balance US u = int_or_0 (emby_us u)"

fun set_balance :: "balance_field \<Rightarrow> int \<Rightarrow> emby_row \<Rightarrow> emby_row" where
  "set_balance IV n u = u\<lparr>emby_iv := Some n\<rparr>"
| "set_balance US n u = u\<lparr>emby_us := Some n\<rparr>"

definition balance_of :: "int \<Rightarrow> string \<Rightarrow> 'z core_db_scheme \<Rightarrow> int" where
  "balance_of tg bt db =
     (case BALANCE_FIELDS bt of
        None \<Rightarrow> 0
      | Some f \<Rightarrow> (case users_get_for_update tg db of None \<Rightarrow> 0 | Some u \<Rightarrow> get_balance f u))"

lemma emby_tg_set_balance [simp]: "emby_tg (set_balance f n u) = emby_tg u"
  by (cases f) auto

lemma get_set_balance [simp]: "get_balance f (set_balance g n u) = (if f = g then n else get_balance f u)"
  by (cases f; cases g) auto

lemma BALANCE_FIELDS_simps [simp]:
  "BALANCE_FIELDS ''coins'' = Some IV" "BALANCE_FIELDS ''registration_days'' = Some US"
  by (simp_all add: BALANCE_FIELDS_def)

lemma BALANCE_FIELDS_inj: "BALANCE_FIELDS bt = Some f \<Longrightarrow> BALANCE_FIELDS bt' = Some f \<Longrightarrow> bt = bt'"
  by (auto simp: BALANCE_FIELDS_def split: if_splits)

lemma other_balance: "(\<forall>g. g \<noteq> IV \<longrightarrow> P g) = P US" "(\<forall>g. g \<noteq> US \<longrightarrow> P g) = P IV"
  by (metis balance_field.distinct(1) balance_field.exhaust)+

lemma all_balances: "(\<forall>g. P g) = (P IV \<and> P US)"
  by (metis balance_field.exhaust)

lemma balance_of_cong:
  "(\<And>tg. users_get_for_update tg db' = users_get_for_update tg db) \<Longrightarrow>
   balance_of tg bt db' = balance_of tg bt db"
  by (simp add: balance_of_def split: option.split)

subsection \<open>The write\<close>

text \<open>A posting names the balance, the amount and the balance after it.\<close>

type_synonym posting = "(string \<times> int \<times> int) option"

fun post ::
  "clock \<Rightarrow> int \<Rightarrow> string \<Rightarrow> actor \<Rightarrow> string option \<Rightarrow> jval option \<Rightarrow> posting \<Rightarrow>
   'z core_db_scheme \<Rightarrow> 'z core_db_scheme" where
  "post clk tg reason actor key metadata None db = db"
| "post clk tg reason actor key metadata (Some (bt, amount, bal)) db =
     point_transaction clk tg bt amount bal reason actor key metadata db"

fun post_amount :: "posting \<Rightarrow> string \<Rightarrow> int" where
  "post_amount None bt = 0"
| "post_amount (Some (bt', amount, bal)) bt = (if bt = bt' then amount else 0)"

inductive service_write ::
  "clock \<Rightarrow> string \<Rightarrow> string option \<Rightarrow> posting \<Rightarrow> emby_row \<Rightarrow> code_row list \<Rightarrow> service_result \<Rightarrow>
   'z core_db_scheme \<Rightarrow> 'z core_db_scheme \<Rightarrow> bool" where
  service_write_intro:
    "db1 = post clk (emby_tg u) reason actor key metadata p (users_save u db) \<Longrightarrow>
     db' = save_idempotent_result clk scope key (to_dict r)
       (event clk etype rtype rid payload
         (audit clk actor action rtype rid ''success'' detail None (db1\<lparr>codes := cs\<rparr>))) \<Longrightarrow>
     service_write clk scope key p u cs r db db'"

inductive_cases service_writeE: "service_write clk scope key p u cs r db db'"

lemma service_writeI:
  assumes "emby_tg u = tg"
    and "(post clk tg reason actor key metadata p (users_save u db))\<lparr>codes := cs\<rparr> = db1"
  shows "service_write clk scope key p u cs r db
     (save_idempotent_result clk scope key (to_dict r)
       (event clk etype rtype rid payload
         (audit clk actor action rtype rid ''success'' detail None db1)))"
  by (rule service_write_intro [OF refl]) (simp add: assms(1) assms(2) [symmetric])

lemma post_frame [simp]:
  "embys (post clk tg reason actor key metadata p db) = embys db"
  "codes (post clk tg reason actor key metadata p db) = codes db"
  "accounts (post clk tg reason actor key metadata p db) = accounts db"
  "idempotency (post clk tg reason actor key metadata p db) = idempotency db"
  "audits (post clk tg reason actor key metadata p db) = audits db"
  "events (post clk tg reason actor key metadata p db) = events db"
  "posted tg' bt' (post clk tg reason actor key metadata p db) =
   posted tg' bt' db + (if tg' = tg then post_amount p bt' else 0)"
  by (cases p; auto)+

lemma codes_update_frame [simp]:
  "users_get_for_update tg (codes_update f db) = users_get_for_update tg db"
  "posted tg bt (codes_update f db) = posted tg bt db"
  "stored_answer scope key (codes_update f db) = stored_answer scope key db"
  "accounts_wallet i bt (codes_update f db) = accounts_wallet i bt db"
  "accounts_by_legacy_tg tg (codes_update f db) = accounts_by_legacy_tg tg db"
  by (simp_all add: users_get_for_update_def posted_def stored_answer_def get_idempotent_result_def
      accounts_wallet_def accounts_by_legacy_tg_def)

text \<open>Writes that leave the codes alone, or change them before the posting, have this shape too.\<close>

lemma codes_unchanged: "codes db = cs \<Longrightarrow> db\<lparr>codes := cs\<rparr> = db"
  by auto

lemma post_codes_update: "post clk tg reason actor key metadata p (codes_update f db) =
    codes_update f (post clk tg reason actor key metadata p db)"
proof (cases p)
  case (Some q)
  then show ?thesis
    by (cases q) (simp add: point_transaction_def Let_def accounts_by_legacy_tg_def accounts_wallet_def
      accounts_add_wallet_def accounts_save_wallet_def accounts_add_ledger_def split: option.splits)
qed simp

lemma service_write_posting:
  "emby_tg u = tg \<Longrightarrow> service_write clk scope key (Some (bt, amount, bal)) u (codes db) r db
     (save_idempotent_result clk scope key (to_dict r)
       (event clk etype rtype rid payload
         (audit clk actor action rtype rid ''success'' detail None
           (point_transaction clk tg bt amount bal reason actor key metadata (users_save u db)))))"
  using service_write_intro [OF refl refl, where p = "Some (bt, amount, bal)" and cs = "codes db"
      and clk = clk and u = u and reason = reason and actor = actor and key = key and metadata = metadata
      and db = db and scope = scope and r = r and etype = etype and rtype = rtype and rid = rid
      and payload = payload and action = action and detail = detail]
  by (simp add: codes_unchanged)

lemma service_write_users:
  "service_write clk scope key p u cs r db db' \<Longrightarrow>
   users_get_for_update tg db' = users_get_for_update tg (users_save u db)"
  by (elim service_writeE) (simp add: users_get_for_update_def)

lemma service_write_posted:
  "service_write clk scope key p u cs r db db' \<Longrightarrow>
   posted tg bt db' = posted tg bt db + (if tg = emby_tg u then post_amount p bt else 0)"
  by (elim service_writeE) simp

lemma service_write_stored:
  "service_write clk scope key p u cs r db db' \<Longrightarrow> integrity db' \<Longrightarrow> truthy_str key \<Longrightarrow>
   stored_answer scope key db' = Some (replay_of r)"
  by (elim service_writeE) (simp add: stored_committed)

lemma service_write_remembers:
  assumes "service_write clk scope key p u cs r db db'" and "stored_answer scope' key' db = Some a"
  shows "stored_answer scope' key' db' = Some a"
proof -
  from assms(1) obtain db1 reason actor metadata etype rtype rid payload action detail where
    db1: "db1 = post clk (emby_tg u) reason actor key metadata p (users_save u db)" and
    db': "db' = save_idempotent_result clk scope key (to_dict r)
       (event clk etype rtype rid payload
         (audit clk actor action rtype rid ''success'' detail None (db1\<lparr>codes := cs\<rparr>)))"
    by (elim service_writeE) blast
  have "stored_answer scope' key' db1 = stored_answer scope' key' db"
    unfolding db1 by (cases p) auto
  then show ?thesis
    unfolding db' using assms(2) by (intro stored_kept) simp
qed

lemma service_write_codes: "service_write clk scope key p u cs r db db' \<Longrightarrow> codes db' = cs"
  by (elim service_writeE) simp

lemma service_write_accounts: "service_write clk scope key p u cs r db db' \<Longrightarrow> accounts db' = accounts db"
  by (elim service_writeE) simp

lemma service_write_audits:
  "service_write clk scope key p u cs r db db' \<Longrightarrow> length (rows (audits db')) = Suc (length (rows (audits db)))"
  by (elim service_writeE) (simp add: audit_def)

lemma service_write_events:
  "service_write clk scope key p u cs r db db' \<Longrightarrow> length (rows (events db')) = Suc (length (rows (events db)))"
  by (elim service_writeE) (simp add: event_def)

subsection \<open>Writes that keep the books\<close>

text \<open>
  The user's row \<open>u0\<close> has become \<open>u\<close>, whose balances differ from the old ones by what the
  posting says, and the posting carries the balance of the new row.
\<close>

definition books ::
  "clock \<Rightarrow> string \<Rightarrow> string option \<Rightarrow> emby_row \<Rightarrow> emby_row \<Rightarrow> posting \<Rightarrow> code_row list \<Rightarrow> service_result \<Rightarrow>
   'z core_db_scheme \<Rightarrow> 'z core_db_scheme \<Rightarrow> bool" where
  "books clk scope key u0 u p cs r db db' =
     (users_get_for_update (emby_tg u) db = Some u0 \<and>
      (case p of
         None \<Rightarrow> \<forall>g. get_balance g u = get_balance g u0
       | Some (bt, amount, bal) \<Rightarrow>
           (\<exists>f. BALANCE_FIELDS bt = Some f \<and> bal = get_balance f u \<and>
              get_balance f u = get_balance f u0 + amount \<and>
              (\<forall>g. g \<noteq> f \<longrightarrow> get_balance g u = get_balance g u0))) \<and>
      integrity db' \<and> service_write clk scope key p u cs r db db')"

lemma books_write: "books clk scope key u0 u p cs r db db' \<Longrightarrow> service_write clk scope key p u cs r db db'"
  unfolding books_def by (elim conjE)

lemma books_integrity: "books clk scope key u0 u p cs r db db' \<Longrightarrow> integrity db'"
  unfolding books_def by (elim conjE)

lemma books_old: "books clk scope key u0 u p cs r db db' \<Longrightarrow> users_get_for_update (emby_tg u) db = Some u0"
  unfolding books_def by (elim conjE)

lemma books_users:
  assumes "books clk scope key u0 u p cs r db db'"
  shows "users_get_for_update tg db' = (if tg = emby_tg u then Some u else users_get_for_update tg db)"
  using service_write_users [OF books_write [OF assms]] books_old [OF assms]
  by (auto simp: user_repo.get_put)

lemma books_amount:
  assumes "books clk scope key u0 u p cs r db db'" and "BALANCE_FIELDS bt = Some f"
  shows "get_balance f u = get_balance f u0 + post_amount p bt"
proof (cases p)
  case None
  with assms show ?thesis by (simp add: books_def)
next
  case (Some q)
  obtain bt' amount bal where q: "q = (bt', amount, bal)" by (cases q)
  from assms(1) Some q obtain f' where f': "BALANCE_FIELDS bt' = Some f'"
      "get_balance f' u = get_balance f' u0 + amount" "\<And>g. g \<noteq> f' \<Longrightarrow> get_balance g u = get_balance g u0"
    by (auto simp: books_def)
  show ?thesis
    using f' assms(2) BALANCE_FIELDS_inj [of bt' f' bt] Some q by (cases "f = f'") auto
qed

lemma books_balance:
  assumes "books clk scope key u0 u p cs r db db'"
  shows "balance_of tg bt db' = balance_of tg bt db + (if tg = emby_tg u then (if BALANCE_FIELDS bt = None then 0 else post_amount p bt) else 0)"
  using books_users [OF assms] books_old [OF assms] books_amount [OF assms]
  by (auto simp: balance_of_def split: option.split)

lemma books_post_amount:
  assumes "books clk scope key u0 u p cs r db db'" and "BALANCE_FIELDS bt = None"
  shows "post_amount p bt = 0"
  using assms by (cases p) (auto simp: books_def)

lemma books_posted:
  "books clk scope key u0 u p cs r db db' \<Longrightarrow>
   posted tg bt db' = posted tg bt db + (if tg = emby_tg u then post_amount p bt else 0)"
  by (rule service_write_posted [OF books_write])

lemma books_explained:
  "books clk scope key u0 u p cs r db db' \<Longrightarrow>
   balance_of tg bt db' - balance_of tg bt db = posted tg bt db' - posted tg bt db"
  by (auto simp: books_balance books_posted books_post_amount)

lemma books_stored:
  "books clk scope key u0 u p cs r db db' \<Longrightarrow> truthy_str key \<Longrightarrow> stored_answer scope key db' = Some (replay_of r)"
  by (rule service_write_stored [OF books_write books_integrity])

lemma books_remembers:
  "books clk scope key u0 u p cs r db db' \<Longrightarrow> stored_answer scope' key' db = Some a \<Longrightarrow>
   stored_answer scope' key' db' = Some a"
  by (rule service_write_remembers [OF books_write])

end
