(* ===== verification/Wallet_Mirror.thy ===== *)
theory Wallet_Mirror
  imports Balances
begin

section \<open>Wallets mirror balances, and commits do not fail by accident\<close>

text \<open>
  Two facts about the bookkeeping behind every balance change. The wallet of a canonical
  account shows the balance of the user it belongs to (\<open>mirror_ok\<close>), and a booked write of a
  well-formed database breaks no constraint unless its idempotency key is already in the
  ledger under the balance's scope.
\<close>

subsection \<open>The mirror\<close>

definition mirror_ok :: "'z core_db_scheme \<Rightarrow> bool" where
  "mirror_ok db =
     (\<forall>a \<in> set (accounts db). acc_id a \<noteq> [] \<and>
        (\<forall>bt \<in> {''coins'', ''registration_days''}.
           case accounts_wallet (acc_id a) bt db of
             None \<Rightarrow> True
           | Some w \<Rightarrow>
               users_get_for_update (acc_legacy_tg a) db = None \<or>
               wal_balance w = balance_of (acc_legacy_tg a) bt db))"

lemma wallet_frame [simp]:
  "accounts_wallet i bt (audit clk actor action resource_type resource_id outcome detail request_id db) =
   accounts_wallet i bt db"
  "accounts_wallet i bt (event clk event_type aggregate_type aggregate_id payload db) = accounts_wallet i bt db"
  "accounts_wallet i bt (save_idempotent_result clk scope key res db) = accounts_wallet i bt db"
  "accounts_wallet i bt (users_save u db) = accounts_wallet i bt db"
  "accounts_wallet i bt (codes_save c db) = accounts_wallet i bt db"
  "accounts_wallet i bt (codes_add_many values tg days db) = accounts_wallet i bt db"
  "accounts_by_legacy_tg tg (users_save u db) = accounts_by_legacy_tg tg db"
  by (simp_all add: accounts_wallet_def accounts_by_legacy_tg_def)

lemma wallet_points_update [simp]:
  "accounts_wallet i bt (points_update f db) = accounts_wallet i bt db"
  "accounts_wallet i bt (ledger_update g db) = accounts_wallet i bt db"
  by (simp_all add: accounts_wallet_def)

text \<open>After a transaction the wallet of the user's account holds the new balance; no other
  wallet has changed.\<close>

lemma wallet_point_transaction:
  "map_option wal_balance (accounts_wallet i bt' (point_transaction clk tg bt amount bal reason actor key metadata db)) =
   (if (case accounts_by_legacy_tg tg db of None \<Rightarrow> False | Some a \<Rightarrow> acc_id a \<noteq> [] \<and> acc_id a = i \<and> bt' = bt)
    then Some bal else map_option wal_balance (accounts_wallet i bt' db))"
proof (cases "accounts_by_legacy_tg tg db")
  case None
  then show ?thesis by (simp add: point_transaction_def Let_def)
next
  case (Some a)
  show ?thesis
  proof (cases "accounts_wallet (acc_id a) bt db")
    case None
    then have "tbl_get wallet_key (acc_id a, bt) (rows (wallets db)) = None"
      by (simp add: accounts_wallet_def)
    with Some show ?thesis
      by (auto simp: point_transaction_def Let_def accounts_add_ledger_def accounts_wallet_def
          accounts_add_wallet_def tbl_get_append wallet_key_def split: option.splits)
  next
    case (Some w)
    then have key: "wallet_key w = (acc_id a, bt)"
      by (auto simp: accounts_wallet_def dest: tbl_get_key)
    define w' where "w' = w\<lparr>wal_balance := bal, wal_revision := wal_revision w + 1, wal_updated_at := now_utc clk\<rparr>"
    then have key': "wallet_key w' = (acc_id a, bt)" using key by (simp add: wallet_key_def)
    have "accounts_wallet i bt' (accounts_save_wallet w' db1) =
        (if (i, bt') = (acc_id a, bt) then Some w' else accounts_wallet i bt' db1)"
      if "accounts_wallet (acc_id a) bt db1 = Some w" for db1 :: "'a core_db_scheme"
      using wallet_repo.get_put [of "(i, bt')" w' db1] that key' by auto
    with Some \<open>accounts_by_legacy_tg tg db = Some a\<close> show ?thesis
      by (auto simp: point_transaction_def Let_def accounts_add_ledger_def w'_def [symmetric]) (simp_all add: w'_def)
  qed
qed

lemma service_write_wallet:
  assumes "service_write clk scope key p u cs r db db'"
  shows "map_option wal_balance (accounts_wallet i bt' db') =
    (case p of None \<Rightarrow> map_option wal_balance (accounts_wallet i bt' db)
     | Some (bt, amount, bal) \<Rightarrow>
        if (case accounts_by_legacy_tg (emby_tg u) db of None \<Rightarrow> False
            | Some a \<Rightarrow> acc_id a \<noteq> [] \<and> acc_id a = i \<and> bt' = bt)
        then Some bal else map_option wal_balance (accounts_wallet i bt' db))"
  using assms by (elim service_writeE) (cases p; auto simp: wallet_point_transaction)

text \<open>What the mirror says of one wallet, in the form the proofs use.\<close>

definition shows_balance :: "account_row \<Rightarrow> string \<Rightarrow> 'z core_db_scheme \<Rightarrow> bool" where
  "shows_balance a bt db =
     (\<forall>b. map_option wal_balance (accounts_wallet (acc_id a) bt db) = Some b \<longrightarrow>
        users_get_for_update (acc_legacy_tg a) db \<noteq> None \<longrightarrow> b = balance_of (acc_legacy_tg a) bt db)"

lemma wallet_case:
  "(case w of None \<Rightarrow> True | Some x \<Rightarrow> P \<or> wal_balance x = b) =
   (\<forall>c. map_option wal_balance w = Some c \<longrightarrow> \<not> P \<longrightarrow> c = b)"
  by (cases w) auto

lemma mirror_ok_alt:
  "mirror_ok db = (\<forall>a \<in> set (accounts db). acc_id a \<noteq> [] \<and>
     shows_balance a ''coins'' db \<and> shows_balance a ''registration_days'' db)"
  unfolding mirror_ok_def shows_balance_def wallet_case by simp

lemma account_unique:
  assumes "integrity db" and "a \<in> set (accounts db)" and "x \<in> set (accounts db)"
    and "acc_id x = acc_id a"
  shows "x = a"
  using assms tbl_get_distinct [of acc_id "accounts db" a] tbl_get_distinct [of acc_id "accounts db" x]
  by (simp add: integrity_def)

lemma account_by_tg:
  assumes "integrity db" and "a \<in> set (accounts db)"
  shows "accounts_by_legacy_tg (acc_legacy_tg a) db = Some a"
  using assms by (simp add: accounts_by_legacy_tg_def integrity_def tbl_get_distinct)

lemma books_shows_balance:
  assumes b: "books clk scope key u0 u p cs r db db'"
    and a: "a \<in> set (accounts db)" "acc_id a \<noteq> []" and good: "integrity db"
    and old: "shows_balance a bt' db"
  shows "shows_balance a bt' db'"
proof (cases "emby_tg u = acc_legacy_tg a")
  case True
  note u = books_users [OF b, of "acc_legacy_tg a"] books_balance [OF b, of "acc_legacy_tg a"]
  note w = service_write_wallet [OF books_write [OF b], of "acc_id a" bt']
  show ?thesis
  proof (cases p)
    case None
    with old True u w books_old [OF b] show ?thesis by (simp add: shows_balance_def)
  next
    case (Some q)
    obtain bt amount bal where q: "q = (bt, amount, bal)" by (cases q)
    obtain f where f: "BALANCE_FIELDS bt = Some f" "bal = get_balance f u"
      using b Some q by (auto simp: books_def)
    have "balance_of (acc_legacy_tg a) bt db' = bal"
      using u(1) f True by (simp add: balance_of_def)
    with old True u w books_old [OF b] Some q account_by_tg [OF good a(1)] a(2) show ?thesis
      by (auto simp: shows_balance_def)
  qed
next
  case False
  have "acc_id x \<noteq> acc_id a" if "accounts_by_legacy_tg (emby_tg u) db = Some x" for x
    using account_unique [OF good a(1), of x] tbl_get_mem tbl_get_key that False
    by (fastforce simp: accounts_by_legacy_tg_def)
  then have "map_option wal_balance (accounts_wallet (acc_id a) bt' db') =
      map_option wal_balance (accounts_wallet (acc_id a) bt' db)"
    using service_write_wallet [OF books_write [OF b], of "acc_id a" bt']
    by (auto split: option.splits)
  then show ?thesis
    using old False books_balance [OF b] books_users [OF b]
    by (simp add: shows_balance_def)
qed

lemma books_mirror:
  assumes "books clk scope key u0 u p cs r db db'" and "integrity db" and "mirror_ok db"
  shows "mirror_ok db'"
  using assms(3) service_write_accounts [OF books_write [OF assms(1)]]
    books_shows_balance [OF assms(1) _ _ assms(2)]
  by (simp add: mirror_ok_alt)

subsection \<open>When a booked write commits\<close>

definition sources_below :: "'z core_db_scheme \<Rightarrow> bool" where
  \<comment> \<open>the ledger refers only to transactions that exist\<close>
  "sources_below db =
     (\<forall>l \<in> set (rows (ledger db)). case led_source_transaction_id l of
        None \<Rightarrow> True | Some i \<Rightarrow> i < next_id (points db))"

definition ledger_key_free :: "string \<Rightarrow> string option \<Rightarrow> 'z core_db_scheme \<Rightarrow> bool" where
  "ledger_key_free bt key db =
     (case key of None \<Rightarrow> True
      | Some k \<Rightarrow> \<forall>l \<in> set (rows (ledger db)). ledger_scope_key l \<noteq> Some (''points.'' @ bt, k))"

lemma integrity_frame [simp]:
  "integrity (audit clk actor action resource_type resource_id outcome detail request_id db) = integrity db"
  "integrity (event clk event_type aggregate_type aggregate_id payload db) = integrity db"
  "integrity (users_save u db) = integrity db"
  "integrity (codes_save c db) = integrity db"
  by (simp_all add: integrity_def users_save_def codes_save_def)

lemma integrity_save_idempotent:
  assumes "integrity db"
    and "truthy_str key \<Longrightarrow> tbl_get idem_pk (scope, the key) (rows (idempotency db)) = None"
  shows "integrity (save_idempotent_result clk scope key res db)"
  using assms by (auto simp: integrity_def save_idempotent_result_def tbl_get_None idem_pk_def)

lemma integrity_points_update [simp]: "integrity (points_update f db) = integrity db"
  by (simp add: integrity_def)

lemma wallet_key_pair: "wallet_key = (\<lambda>r. (wal_account_id r, wal_balance_type r))"
  by (simp add: wallet_key_def fun_eq_iff)

lemma integrity_save_wallet [simp]: "integrity (accounts_save_wallet w db) = integrity db"
  using map_key_tbl_put [of wallet_key w "rows (wallets db)"]
  by (simp add: integrity_def accounts_save_wallet_def wallet_key_pair)

lemma integrity_add_wallet:
  assumes "integrity db" and "accounts_wallet a bt db = None" and "\<And>i. wallet_key (mk i) = (a, bt)"
  shows "integrity (accounts_add_wallet mk db)"
proof -
  have "(a, bt) \<notin> wallet_key ` set (rows (wallets db))"
    using assms(2) by (simp add: accounts_wallet_def tbl_get_None)
  moreover have "(wal_account_id (mk i), wal_balance_type (mk i)) = (a, bt)" for i
    using assms(3) [of i] by (simp add: wallet_key_def)
  ultimately show ?thesis
    using assms(1) by (simp add: integrity_def accounts_add_wallet_def wallet_key_pair)
qed

lemma integrity_add_ledger:
  assumes "integrity db"
    and "\<And>i. led_source_transaction_id (mk i) = Some tid"
    and "Some tid \<notin> led_source_transaction_id ` set (rows (ledger db))"
    and "\<And>i. ledger_scope_key (mk i) = None \<or> ledger_scope_key (mk i) \<notin> ledger_scope_key ` set (rows (ledger db))"
  shows "integrity (accounts_add_ledger mk db)"
  using assms by (simp add: integrity_def accounts_add_ledger_def unique_some_append)

lemma integrity_point_transaction:
  assumes good: "integrity db" and src: "sources_below db" and free: "ledger_key_free bt key db"
  shows "integrity (point_transaction clk tg bt amount bal reason actor key metadata db)"
proof -
  have fresh: "Some (next_id (points db)) \<notin> led_source_transaction_id ` set (rows (ledger db))"
    using src by (force simp: sources_below_def split: option.splits)
  have key: "ledger_scope_key r = None \<or> ledger_scope_key r \<notin> ledger_scope_key ` set (rows (ledger db))"
    if "led_scope r = ''points.'' @ bt" "led_idempotency_key r = key" for r
  proof -
    have "ledger_scope_key r = map_option (Pair (''points.'' @ bt)) key"
      using that by (simp add: ledger_scope_key_def)
    then show ?thesis using free by (cases key) (auto simp: ledger_key_free_def)
  qed
  define db1 where "db1 = db\<lparr>points := insert_auto
    (\<lambda>i. \<lparr>pt_id = i, pt_account_id = map_option acc_id (accounts_by_legacy_tg tg db), pt_tg = tg,
          pt_balance_type = bt, pt_amount = amount, pt_balance_after = bal, pt_reason = reason,
          pt_actor_kind = actor_kind actor, pt_actor_id = actor_identifier actor,
          pt_idempotency_key = key, pt_metadata = map_option json_dumps metadata,
          pt_created_at = now_utc clk\<rparr>) (points db)\<rparr>"
  have db1: "integrity db1" "ledger db1 = ledger db"
    by (simp_all add: db1_def good)
  define a where "a = the (map_option acc_id (accounts_by_legacy_tg tg db))"
  define db2 where "db2 = (case accounts_wallet a bt db1 of
      None \<Rightarrow> accounts_add_wallet (\<lambda>i. \<lparr>wal_id = i, wal_account_id = a, wal_balance_type = bt,
        wal_balance = bal, wal_revision = 1, wal_updated_at = now_utc clk\<rparr>) db1
    | Some w \<Rightarrow> accounts_save_wallet (w\<lparr>wal_balance := bal, wal_revision := wal_revision w + 1,
        wal_updated_at := now_utc clk\<rparr>) db1)"
  have db2: "integrity db2" "ledger db2 = ledger db"
    using db1 integrity_add_wallet [OF db1(1), of a bt]
    by (auto simp: db2_def wallet_key_def split: option.splits)
  show ?thesis
  proof (cases "truthy_str (map_option acc_id (accounts_by_legacy_tg tg db))")
    case False
    then have "point_transaction clk tg bt amount bal reason actor key metadata db = db1"
      by (simp add: point_transaction_def Let_def db1_def)
    then show ?thesis by (simp add: db1)
  next
    case True
    then have "point_transaction clk tg bt amount bal reason actor key metadata db =
      accounts_add_ledger (\<lambda>i.
        \<lparr>led_id = i, led_source_transaction_id = Some (next_id (points db)), led_account_id = a,
         led_legacy_tg = Some tg, led_balance_type = bt, led_amount = amount,
         led_balance_after = bal, led_reason = reason, led_scope = ''points.'' @ bt,
         led_idempotency_key = key, led_actor_kind = actor_kind actor,
         led_actor_id = actor_identifier actor, led_metadata = map_option json_dumps metadata,
         led_created_at = now_utc clk\<rparr>) db2"
      unfolding db2_def a_def db1_def point_transaction_def Let_def by simp
    moreover have "integrity \<dots>"
      by (rule integrity_add_ledger [OF db2(1), where tid = "next_id (points db)"])
        (simp_all only: ledger_row.select_convs db2(2) fresh key not_False_eq_True)
    ultimately show ?thesis by simp
  qed
qed

end
