(* ===== verification/Point_Service.thy ===== *)
theory Point_Service
  imports Wallet_Mirror
begin

section \<open>Points: adjustments, check-ins and level purchases\<close>

text \<open>
  \<open>PointService\<close> of \<open>bot/application/point_service.py\<close>. Each operation locks the user's row,
  replays a stored answer for its key, checks its guards in the order of the source, and then
  writes the balance, the transaction, the audit row, the event and the answer in one
  transaction.
\<close>

definition MAX_INT_VALUE :: int where "MAX_INT_VALUE = 2147483647"

definition MIN_INT_VALUE :: int where "MIN_INT_VALUE = - 2147483648"

definition adjust_scope :: "string \<Rightarrow> string" where
  "adjust_scope balance_type = ''points.adjust.'' @ balance_type"

definition purchase_level_scope :: "string \<Rightarrow> string" where
  "purchase_level_scope target_level = ''points.purchase_level.'' @ target_level"

definition adjust ::
  "clock \<Rightarrow> int \<Rightarrow> int \<Rightarrow> string \<Rightarrow> string \<Rightarrow> actor \<Rightarrow> bool \<Rightarrow> string option \<Rightarrow> jval option \<Rightarrow>
   'z core_db_scheme \<Rightarrow> (service_result, 'z core_db_scheme) outcome" where
  "adjust clk tg amount balance_type reason actor allow_negative key metadata db0 =
     (case BALANCE_FIELDS balance_type of
        None \<Rightarrow> (Inl (ValueError (''Unsupported balance type: '' @ balance_type)), db0)
      | Some field \<Rightarrow>
          let scope = adjust_scope balance_type in
          run_uow (\<lambda>db.
            case users_get_for_update tg db of
              None \<Rightarrow> Inr (result ''user_not_found'' [], db)
            | Some user \<Rightarrow> replay_or scope key db
                (let old_balance = get_balance field user;
                     new_balance = old_balance + amount
                 in if new_balance > MAX_INT_VALUE \<or> new_balance < MIN_INT_VALUE then
                      Inr (result ''overflow'' [(''balance'', JInt old_balance)], db)
                    else if \<not> allow_negative \<and> new_balance < 0 then
                      Inr (result ''insufficient_balance'' [(''balance'', JInt old_balance)], db)
                    else
                      let db1 = users_save (set_balance field new_balance user) db;
                          db2 = point_transaction clk tg balance_type amount new_balance reason
                                  actor key metadata db1;
                          db3 = audit_success clk actor ''points.adjust'' ''user'' (Some (show_int tg))
                                  (Some (JDict [(''balance_type'', JStr balance_type),
                                                (''amount'', JInt amount),
                                                (''balance_after'', JInt new_balance),
                                                (''reason'', JStr reason)])) db2;
                          db4 = event clk ''points.changed'' ''user'' (Some (show_int tg))
                                  (Some (JDict [(''tg'', JInt tg),
                                                (''balance_type'', JStr balance_type),
                                                (''amount'', JInt amount),
                                                (''balance_after'', JInt new_balance)])) db3;
                          r = result ''ok'' [(''balance'', JInt new_balance), (''amount'', JInt amount)]
                      in Inr (r, save_idempotent_result clk scope key (to_dict r) db4))) db0)"

definition level_above :: "string option \<Rightarrow> string \<Rightarrow> bool attempt" where
  \<comment> \<open>\<open>user.lv > maximum_level\<close>: comparing a null level raises\<close>
  "level_above lv m = (case lv of None \<Rightarrow> Inl TypeError | Some l \<Rightarrow> Inr (l > m))"

definition level_denied :: "emby_row \<Rightarrow> string option \<Rightarrow> bool attempt" where
  "level_denied user maximum_level =
     (if truthy_str maximum_level then level_above (emby_lv user) (the maximum_level) else Inr False)"

definition already_checked_in :: "emby_row \<Rightarrow> datetime \<Rightarrow> bool" where
  "already_checked_in user db_time =
     (case emby_ch user of None \<Rightarrow> False | Some ch \<Rightarrow> date_of ch \<ge> date_of db_time)"

definition check_in_scope :: string where
  "check_in_scope = ''points.check_in''"

definition check_in ::
  "clock \<Rightarrow> int \<Rightarrow> int \<Rightarrow> datetime \<Rightarrow> actor \<Rightarrow> string option \<Rightarrow> string option \<Rightarrow>
   'z core_db_scheme \<Rightarrow> (service_result, 'z core_db_scheme) outcome" where
  "check_in clk tg reward occurred_at actor maximum_level key db0 =
     (let scope = check_in_scope; db_time = occurred_at in
      run_uow (\<lambda>db.
        case users_get_for_update tg db of
          None \<Rightarrow> Inr (result ''user_not_found'' [], db)
        | Some user \<Rightarrow> replay_or scope key db
            (bind_attempt (level_denied user maximum_level) (\<lambda>denied.
                if denied then Inr (result ''level_denied'' [], db)
                else if already_checked_in user db_time then
                  Inr (result ''already_checked_in'' [(''checked_at'', jopt_time (emby_ch user))], db)
                else
                  let old_balance = int_or_0 (emby_iv user);
                      new_balance = old_balance + reward
                  in if new_balance > MAX_INT_VALUE then
                       Inr (result ''overflow'' [(''balance'', JInt old_balance)], db)
                     else
                       let db1 = users_save (user\<lparr>emby_iv := Some new_balance, emby_ch := Some db_time\<rparr>) db;
                           db2 = point_transaction clk tg ''coins'' reward new_balance
                                   ''daily_check_in'' actor key None db1;
                           db3 = audit_success clk actor ''points.check_in'' ''user'' (Some (show_int tg))
                                   (Some (JDict [(''reward'', JInt reward),
                                                 (''balance_after'', JInt new_balance)])) db2;
                           db4 = event clk ''points.changed'' ''user'' (Some (show_int tg))
                                   (Some (JDict [(''tg'', JInt tg), (''balance_type'', JStr ''coins''),
                                                 (''amount'', JInt reward),
                                                 (''balance_after'', JInt new_balance)])) db3;
                           r = result ''ok'' [(''balance'', JInt new_balance), (''reward'', JInt reward),
                                              (''checked_at'', JTime db_time)]
                       in Inr (r, save_idempotent_result clk scope key (to_dict r) db4)))) db0)"

definition purchase_level ::
  "clock \<Rightarrow> int \<Rightarrow> string \<Rightarrow> int \<Rightarrow> actor \<Rightarrow> string \<Rightarrow> string option \<Rightarrow>
   'z core_db_scheme \<Rightarrow> (service_result, 'z core_db_scheme) outcome" where
  "purchase_level clk tg target_level cost actor reason key db0 =
     (let scope = purchase_level_scope target_level in
      run_uow (\<lambda>db.
        case users_get_for_update tg db of
          None \<Rightarrow> Inr (result ''user_not_found'' [], db)
        | Some user \<Rightarrow> replay_or scope key db
            (if \<not> truthy_str (emby_embyid user) then Inr (result ''no_account'' [], db)
             else if emby_lv user = Some target_level then
               Inr (result ''already_owned'' [(''balance'', JInt (int_or_0 (emby_iv user)))], db)
             else
               let balance = int_or_0 (emby_iv user) in
               if balance < cost then
                 Inr (result ''insufficient_balance'' [(''balance'', JInt balance)], db)
               else
                 let new_balance = balance - cost;
                     db1 = users_save (user\<lparr>emby_iv := Some new_balance, emby_lv := Some target_level\<rparr>) db;
                     db2 = point_transaction clk tg ''coins'' (- cost) new_balance reason actor key None db1;
                     db3 = audit_success clk actor ''user.level.purchase'' ''user'' (Some (show_int tg))
                             (Some (JDict [(''target_level'', JStr target_level), (''cost'', JInt cost),
                                           (''balance_after'', JInt new_balance)])) db2;
                     db4 = event clk ''user.updated'' ''user'' (Some (show_int tg))
                             (Some (JDict [(''tg'', JInt tg),
                                           (''changed_fields'', JList [JStr ''lv'', JStr ''iv''])])) db3;
                     r = result ''ok'' [(''balance'', JInt new_balance), (''level'', JStr target_level)]
                 in Inr (r, save_idempotent_result clk scope key (to_dict r) db4))) db0)"

subsection \<open>What each operation does\<close>

text \<open>
  A returning call has either left the database alone, with a stored answer or a refusal, or
  passed every guard and made a write that keeps the books.
\<close>

lemma adjust_step:
  assumes call: "adjust clk tg amount bt reason actor allow_negative key metadata db = (Inr r, db')"
  shows "BALANCE_FIELDS bt \<noteq> None \<and>
    ((db' = db \<and> (users_get_for_update tg db \<noteq> None \<and> stored_answer (adjust_scope bt) key db = Some r \<or> \<not> res_ok r)) \<or>
    (\<exists>u f. emby_tg u = tg \<and> stored_answer (adjust_scope bt) key db = None \<and>
       get_balance f u + amount \<le> MAX_INT_VALUE \<and> MIN_INT_VALUE \<le> get_balance f u + amount \<and>
       (allow_negative \<or> 0 \<le> get_balance f u + amount) \<and>
       r = result ''ok'' [(''balance'', JInt (get_balance f u + amount)), (''amount'', JInt amount)] \<and>
       books clk (adjust_scope bt) key u (set_balance f (get_balance f u + amount) u)
         (Some (bt, amount, get_balance f u + amount)) (codes db) r db db'))"
proof (cases "BALANCE_FIELDS bt")
  case None
  with call show ?thesis by (simp add: adjust_def)
next
  case (Some f)
  show ?thesis
    using call [unfolded adjust_def Some option.case(2) Let_def]
  proof (cases rule: keyed_call_cases)
    case (fresh u)
    show ?thesis
    proof (cases "get_balance f u + amount > MAX_INT_VALUE \<or> get_balance f u + amount < MIN_INT_VALUE \<or>
        (\<not> allow_negative \<and> get_balance f u + amount < 0)")
      case True
      with fresh Some show ?thesis by (auto simp: res_ok_def split: if_splits)
    next
      case False
      have "books clk (adjust_scope bt) key u (set_balance f (get_balance f u + amount) u)
         (Some (bt, amount, get_balance f u + amount)) (codes db) r db db'"
        using fresh False Some
        by (auto simp: books_def intro!: service_write_posting split: if_splits)
      moreover have "r = result ''ok'' [(''balance'', JInt (get_balance f u + amount)), (''amount'', JInt amount)]"
        using fresh(4) False by (auto split: if_splits)
      moreover have "get_balance f u + amount \<le> MAX_INT_VALUE" "MIN_INT_VALUE \<le> get_balance f u + amount"
        "allow_negative \<or> 0 \<le> get_balance f u + amount" "BALANCE_FIELDS bt \<noteq> None"
        using False Some by auto
      ultimately show ?thesis using fresh(2,3) by blast
    qed
  qed (auto simp: res_ok_def Some)
qed

lemma check_in_step:
  assumes call: "check_in clk tg reward t actor maximum_level key db = (Inr r, db')"
  shows "(db' = db \<and> (users_get_for_update tg db \<noteq> None \<and> stored_answer check_in_scope key db = Some r \<or> \<not> res_ok r)) \<or>
    (\<exists>u. emby_tg u = tg \<and> stored_answer check_in_scope key db = None \<and>
       get_balance IV u + reward \<le> MAX_INT_VALUE \<and>
       level_denied u maximum_level = Inr False \<and> \<not> already_checked_in u t \<and>
       r = result ''ok'' [(''balance'', JInt (get_balance IV u + reward)),
                          (''reward'', JInt reward), (''checked_at'', JTime t)] \<and>
       books clk check_in_scope key u
         (u\<lparr>emby_iv := Some (get_balance IV u + reward), emby_ch := Some t\<rparr>)
         (Some (''coins'', reward, get_balance IV u + reward)) (codes db) r db db')"
  using call [unfolded check_in_def Let_def]
proof (cases rule: keyed_call_cases)
  case (fresh u)
  then show ?thesis
    by (auto simp: bind_attempt_Inr_iff res_ok_def books_def other_balance
        intro!: service_write_posting split: if_splits)
qed (auto simp: res_ok_def)

lemma purchase_level_step:
  assumes call: "purchase_level clk tg target cost actor reason key db = (Inr r, db')"
  shows "(db' = db \<and> (users_get_for_update tg db \<noteq> None \<and> stored_answer (purchase_level_scope target) key db = Some r \<or> \<not> res_ok r)) \<or>
    (\<exists>u. emby_tg u = tg \<and> stored_answer (purchase_level_scope target) key db = None \<and>
       truthy_str (emby_embyid u) \<and> emby_lv u \<noteq> Some target \<and> cost \<le> get_balance IV u \<and>
       r = result ''ok'' [(''balance'', JInt (get_balance IV u - cost)), (''level'', JStr target)] \<and>
       books clk (purchase_level_scope target) key u
         (u\<lparr>emby_iv := Some (get_balance IV u - cost), emby_lv := Some target\<rparr>)
         (Some (''coins'', - cost, get_balance IV u - cost)) (codes db) r db db')"
  using call [unfolded purchase_level_def Let_def]
proof (cases rule: keyed_call_cases)
  case (fresh u)
  then show ?thesis
    by (auto simp: res_ok_def books_def other_balance intro!: service_write_posting split: if_splits)
qed (auto simp: res_ok_def)

subsection \<open>The service as one call, and its two contracts\<close>

datatype point_request =
    Adjust clock int int string string actor bool "string option" "jval option"
  | CheckIn clock int int datetime actor "string option" "string option"
  | PurchaseLevel clock int string int actor string "string option"

fun point_call :: "point_request \<Rightarrow> 'z core_db_scheme \<Rightarrow> (service_result, 'z core_db_scheme) outcome" where
  "point_call (Adjust clk tg amount bt reason actor neg key meta) = adjust clk tg amount bt reason actor neg key meta"
| "point_call (CheckIn clk tg reward t actor lim key) = check_in clk tg reward t actor lim key"
| "point_call (PurchaseLevel clk tg target cost actor reason key) = purchase_level clk tg target cost actor reason key"

fun point_tg :: "point_request \<Rightarrow> int" where
  "point_tg (Adjust clk tg amount bt reason actor neg key meta) = tg"
| "point_tg (CheckIn clk tg reward t actor lim key) = tg"
| "point_tg (PurchaseLevel clk tg target cost actor reason key) = tg"

fun point_key :: "point_request \<Rightarrow> string option" where
  "point_key (Adjust clk tg amount bt reason actor neg key meta) = key"
| "point_key (CheckIn clk tg reward t actor lim key) = key"
| "point_key (PurchaseLevel clk tg target cost actor reason key) = key"

fun point_scope :: "point_request \<Rightarrow> string" where
  "point_scope (Adjust clk tg amount bt reason actor neg key meta) = adjust_scope bt"
| "point_scope (CheckIn clk tg reward t actor lim key) = check_in_scope"
| "point_scope (PurchaseLevel clk tg target cost actor reason key) = purchase_level_scope target"

fun point_valid :: "point_request \<Rightarrow> bool" where
  "point_valid (Adjust clk tg amount bt reason actor neg key meta) = (BALANCE_FIELDS bt \<noteq> None)"
| "point_valid _ = True"

definition point_answer :: "point_request \<Rightarrow> 'z core_db_scheme \<Rightarrow> service_result option" where
  "point_answer c db =
     (if point_valid c \<and> integrity db \<and> users_get_for_update (point_tg c) db \<noteq> None
      then stored_answer (point_scope c) (point_key c) db else None)"

lemma point_call_step:
  assumes "point_call c db = (Inr r, db')"
  shows "point_valid c \<and>
    ((db' = db \<and> (users_get_for_update (point_tg c) db \<noteq> None \<and>
         stored_answer (point_scope c) (point_key c) db = Some r \<or> \<not> res_ok r)) \<or>
     (\<exists>clk u0 u p cs. emby_tg u0 = point_tg c \<and> emby_tg u = emby_tg u0 \<and> stored_answer (point_scope c) (point_key c) db = None \<and>
        res_ok r \<and> books clk (point_scope c) (point_key c) u0 u p cs r db db'))"
proof (cases c)
  case (Adjust clk tg amount bt reason actor neg key meta)
  with assms have "adjust clk tg amount bt reason actor neg key meta db = (Inr r, db')" by simp
  from adjust_step [OF this] Adjust show ?thesis by (auto simp: res_ok_def)
next
  case (CheckIn clk tg reward t actor lim key)
  with assms have "check_in clk tg reward t actor lim key db = (Inr r, db')" by simp
  from check_in_step [OF this] CheckIn show ?thesis
    by (auto simp: res_ok_def)
next
  case (PurchaseLevel clk tg target cost actor reason key)
  with assms have "purchase_level clk tg target cost actor reason key db = (Inr r, db')" by simp
  from purchase_level_step [OF this] PurchaseLevel show ?thesis
    by (auto simp: res_ok_def)
qed

lemma point_call_failed: "fst (point_call c db) = Inl e \<Longrightarrow> snd (point_call c db) = db"
  by (cases c) (auto simp: adjust_def check_in_def purchase_level_def Let_def run_uow_rollback
      split: option.splits)

lemma point_call_integrity: "integrity db \<Longrightarrow> integrity (snd (point_call c db))"
  by (cases c) (auto simp: adjust_def check_in_def purchase_level_def Let_def run_uow_integrity
      split: option.splits)

lemma point_call_commit: "point_call c db = (Inr r, db') \<Longrightarrow> integrity db'"
  by (cases c) (auto simp: adjust_def check_in_def purchase_level_def Let_def run_uow_Inr
      split: option.splits)

interpretation point_tx: transactional point_call integrity
  by unfold_locales (auto intro: point_call_failed point_call_integrity)

text \<open>The cases of a call, returning or not, by its effect on the database.\<close>

lemma point_call_effect:
  obtains (unchanged) "snd (point_call c db) = db"
    | (booked) clk u0 u p cs r where "point_call c db = (Inr r, snd (point_call c db))"
        "emby_tg u0 = point_tg c" "emby_tg u = emby_tg u0" "res_ok r"
        "stored_answer (point_scope c) (point_key c) db = None"
        "books clk (point_scope c) (point_key c) u0 u p cs r db (snd (point_call c db))"
proof (cases "point_call c db")
  case (Pair x db')
  show ?thesis
  proof (cases x)
    case (Inl e)
    with Pair point_call_failed [of c db e] show ?thesis by (intro unchanged) simp
  next
    case (Inr r)
    with Pair have "point_call c db = (Inr r, db')" by simp
    from point_call_step [OF this] Pair Inr that show ?thesis by auto
  qed
qed

interpretation point_books: booked_service point_call
  "\<lambda>k. balance_of (fst k) (snd k)" "\<lambda>k. posted (fst k) (snd k)"
proof unfold_locales
  fix k and c and db :: "'z core_db_scheme"
  show "balance_of (fst k) (snd k) (snd (point_call c db)) - balance_of (fst k) (snd k) db =
    posted (fst k) (snd k) (snd (point_call c db)) - posted (fst k) (snd k) db"
    by (cases rule: point_call_effect [of c db]) (simp_all add: books_explained)
qed

lemma point_answer_replays: "point_answer c db = Some r \<Longrightarrow> point_call c db = (Inr r, db)"
  by (cases c)
    (auto simp: point_answer_def adjust_def check_in_def purchase_level_def Let_def keyed_call_replays
      split: if_splits)

lemma point_answer_remembers:
  assumes "point_answer c db = Some r"
  shows "point_answer c (snd (point_call d db)) = Some r"
proof (cases rule: point_call_effect [of d db])
  case unchanged
  with assms show ?thesis by simp
next
  case (booked clk u0 u p cs r')
  with assms books_remembers [OF booked(6)] show ?thesis
    by (auto simp: point_answer_def books_users [OF booked(6)] point_call_integrity split: if_splits)
qed

lemma point_answer_records:
  assumes call: "point_call c db = (Inr r, db')" and key: "truthy_str (point_key c)" and ok: "res_ok r"
    and none: "point_answer c db = None"
  shows "point_answer c db' = Some (replay_of r)"
proof -
  from point_call_step [OF call] ok none point_call_commit [OF call]
  obtain clk u0 u p cs where valid: "point_valid c" and tg: "emby_tg u0 = point_tg c" "emby_tg u = emby_tg u0"
    and b: "books clk (point_scope c) (point_key c) u0 u p cs r db db'"
    by (auto simp: point_answer_def split: if_splits)
  then show ?thesis
    using books_stored [OF b key] books_users [OF b] point_call_commit [OF call]
    by (simp add: point_answer_def)
qed

interpretation point_once: idempotent_service point_call point_answer "\<lambda>c. truthy_str (point_key c)" res_ok replay_of
  by unfold_locales (auto intro: point_answer_replays point_answer_records point_answer_remembers)

lemma point_call_mirror: "integrity db \<Longrightarrow> mirror_ok db \<Longrightarrow> mirror_ok (snd (point_call c db))"
  by (cases rule: point_call_effect [of c db]) (auto intro: books_mirror)

interpretation point_mirror: transactional point_call "\<lambda>db. integrity db \<and> mirror_ok db"
  by unfold_locales (auto intro: point_call_failed point_call_integrity point_call_mirror)

end
