(* ===== verification/Samples.thy ===== *)
theory Samples
  imports Domain Schema
begin

section \<open>Sample data\<close>

text \<open>The small databases on which the properties are instantiated.\<close>

definition sample_clock :: clock where
  "sample_clock = \<lparr>now_local = 1000 * day, now_utc = 1000 * day\<rparr>"

definition sample_actor :: actor where
  "sample_actor = \<lparr>actor_kind = ''telegram'', actor_identifier = ''7'', actor_display_name = None\<rparr>"

definition sample_user :: emby_row where
  "sample_user = (new_emby 7)\<lparr>emby_iv := Some 10\<rparr>"

definition sample_code :: code_row where
  "sample_code = (new_code ''S-30-Register_x'' 1 30)\<lparr>code_status := Some ''active''\<rparr>"

definition sample_account :: account_row where
  "sample_account =
     \<lparr>acc_id = ''a7'', acc_legacy_tg = 7, acc_display_name = None, acc_status = ''active'',
      acc_created_at = 0, acc_updated_at = 0\<rparr>"

definition sample_db :: core_db where
  "sample_db = empty_db\<lparr>embys := [sample_user], codes := [sample_code], accounts := [sample_account]\<rparr>"

lemmas sample_defs = sample_clock_def sample_actor_def sample_user_def sample_code_def
  sample_account_def sample_db_def empty_db_def new_emby_def new_code_def

end
