(* ===== verification/Point_Properties.thy ===== *)
theory Point_Properties
  imports Point_Service Samples
begin

section \<open>The properties of the point service\<close>

text \<open>
  When a call of the point service goes through, what it then does, and what sequences of
  calls keep.
\<close>

subsection \<open>When a call goes through\<close>

text \<open>
  \<open>ready\<close> says that the database is well formed and that neither the idempotency table nor
  the ledger holds the key of the call. It is all a booked call needs besides its guards.
\<close>

definition ready :: "string \<Rightarrow> string \<Rightarrow> string option \<Rightarrow> 'z core_db_scheme \<Rightarrow> bool" where
  "ready bt scope key db =
     (integrity db \<and> sources_below db \<and> ledger_key_free bt key db \<and>
      (truthy_str key \<longrightarrow> tbl_get idem_pk (scope, the key) (rows (idempotency db)) = None))"

lemma ready_fresh: "ready bt scope key db \<Longrightarrow> get_idempotent_result scope key db = None"
  by (simp add: ready_def get_idempotent_result_def)

lemma ready_stored: "ready bt scope key db \<Longrightarrow> stored_answer scope key db = None"
  by (simp add: stored_answer_def ready_fresh)

lemma ready_unkeyed: "integrity db \<Longrightarrow> sources_below db \<Longrightarrow> ready bt scope None db"
  by (simp add: ready_def ledger_key_free_def)

lemma users_save_ready [simp]:
  "sources_below (users_save u db) = sources_below db"
  "ledger_key_free bt key (users_save u db) = ledger_key_free bt key db"
  by (simp_all add: sources_below_def ledger_key_free_def split: option.split)

lemma ready_commits:
  assumes "ready bt scope key db"
  shows "integrity (save_idempotent_result clk scope key res (event clk etype rtype rid payload
    (audit clk actor action rtype rid outcome detail req
      (point_transaction clk tg bt amount bal reason actor' key metadata (users_save u db)))))"
proof -
  have "sources_below (users_save u db)" "ledger_key_free bt key (users_save u db)"
    using assms by (simp_all add: ready_def)
  then show ?thesis
    using assms by (intro integrity_save_idempotent)
      (simp_all add: ready_def integrity_point_transaction)
qed

lemma ready_runs:
  assumes "ready bt scope key db"
  shows "replay_or scope key db k = k" and "integrity db"
  using assms replay_or_fresh [OF ready_fresh [OF assms]] by (simp_all add: ready_def)


lemma sample_ready [simp]: "ready bt scope key sample_db"
  by (simp add: ready_def sample_defs integrity_def sources_below_def ledger_key_free_def split: option.split)

lemma sample_db_user [simp]: "users_get_for_update 7 sample_db = Some sample_user"
  by (simp add: op_defs sample_defs)

lemma sample_user_fields [simp]:
  "emby_tg sample_user = 7" "emby_iv sample_user = Some 10" "emby_us sample_user = Some 0"
  "emby_ch sample_user = None" "emby_lv sample_user = Some ''d''" "emby_embyid sample_user = None"
  by (simp_all add: sample_defs)


lemma check_in_runs:
  assumes "users_get_for_update tg db = Some u" and "ready ''coins'' check_in_scope key db"
    and "level_denied u m = Inr False" and "\<not> already_checked_in u t"
    and "get_balance IV u + reward \<le> MAX_INT_VALUE"
  shows "\<exists>db'. check_in clk tg reward t actor m key db =
      (Inr (result ''ok'' [(''balance'', JInt (get_balance IV u + reward)),
                          (''reward'', JInt reward), (''checked_at'', JTime t)]), db') \<and>
      users_get_for_update tg db' = Some (u\<lparr>emby_iv := Some (get_balance IV u + reward), emby_ch := Some t\<rparr>) \<and>
      integrity db'"
  using assms user_repo.get_key [OF assms(1)]
  by (simp add: check_in_def ready_runs [OF assms(2)] Let_def run_uow_def ready_commits [OF assms(2)]
      user_repo.get_put)

subsection \<open>One check-in a day\<close>

definition checked_day :: "int \<Rightarrow> 'z core_db_scheme \<Rightarrow> int option" where
  "checked_day tg db = Option.bind (users_get_for_update tg db) (\<lambda>u. map_option date_of (emby_ch u))"

lemma emby_ch_set_balance [simp]: "emby_ch (set_balance f n u) = emby_ch u"
  by (cases f) auto

lemma books_checked_day:
  assumes "books clk scope key u0 u p cs r db db'"
    and "\<And>d. map_option date_of (emby_ch u0) = Some d \<Longrightarrow> \<exists>d' \<ge> d. map_option date_of (emby_ch u) = Some d'"
    and "checked_day tg db = Some d"
  shows "\<exists>d' \<ge> d. checked_day tg db' = Some d'"
  using assms(2) [of d] assms(3) books_old [OF assms(1)]
  by (cases "tg = emby_tg u") (auto simp: checked_day_def books_users [OF assms(1)])

lemma point_call_checked_day:
  assumes "checked_day tg db = Some d"
  shows "\<exists>d' \<ge> d. checked_day tg (snd (point_call c db)) = Some d'"
proof (cases "point_call c db")
  case (Pair x db')
  show ?thesis
  proof (cases x)
    case (Inl e)
    with Pair point_call_failed [of c db e] assms show ?thesis by auto
  next
    case (Inr r)
    have "\<exists>d' \<ge> d. checked_day tg db' = Some d'"
    proof (cases c)
      case (Adjust clk tg' amount bt reason actor neg key meta)
      with Pair Inr have "adjust clk tg' amount bt reason actor neg key meta db = (Inr r, db')" by simp
      from adjust_step [OF this] assms show ?thesis
        by (elim conjE disjE exE) (auto elim: books_checked_day [OF _ _ assms])
    next
      case (CheckIn clk tg' reward t actor lim key)
      with Pair Inr have "check_in clk tg' reward t actor lim key db = (Inr r, db')" by simp
      from check_in_step [OF this] assms show ?thesis
        by (elim conjE disjE exE) (auto simp: already_checked_in_def elim!: books_checked_day [OF _ _ assms])
    next
      case (PurchaseLevel clk tg' target cost actor reason key)
      with Pair Inr have "purchase_level clk tg' target cost actor reason key db = (Inr r, db')" by simp
      from purchase_level_step [OF this] assms show ?thesis
        by (elim conjE disjE exE) (auto elim: books_checked_day [OF _ _ assms])
    qed
    with Pair show ?thesis by simp
  qed
qed

lemma point_calls_checked_day:
  "checked_day tg db = Some d \<Longrightarrow> \<exists>d' \<ge> d. checked_day tg (fold (\<lambda>c db. snd (point_call c db)) cs db) = Some d'"
proof (induction cs arbitrary: db d)
  case (Cons c cs)
  obtain d' where "d \<le> d'" "checked_day tg (snd (point_call c db)) = Some d'"
    using point_call_checked_day [OF Cons.prems] by blast
  with Cons.IH [of "snd (point_call c db)" d'] show ?case by (auto intro: order_trans)
qed simp

text \<open>After a successful check-in, and any calls of the service in between, every further
  check-in of the same user for that day or an earlier one that is not a replay is refused and
  changes nothing.\<close>

theorem check_in_once_a_day:
  assumes "check_in clk tg reward t actor m key db = (Inr r, db1)" and "res_ok r"
    and "stored_answer check_in_scope key db = None"
    and "db2 = fold (\<lambda>c db. snd (point_call c db)) cs db1"
    and "date_of t' \<le> date_of t"
    and "check_in clk' tg reward' t' actor' m' key' db2 = (Inr r', db3)"
    and "stored_answer check_in_scope key' db2 = None"
  shows "\<not> res_ok r' \<and> db3 = db2"
proof -
  from check_in_step [OF assms(1)] assms(2,3) obtain u bal where u: "emby_tg u = tg"
    and b: "books clk check_in_scope key u (u\<lparr>emby_iv := Some (get_balance IV u + reward), emby_ch := Some t\<rparr>)
       (Some (''coins'', reward, get_balance IV u + reward)) (codes db) r db db1"
    by auto
  have "checked_day tg db1 = Some (date_of t)"
    using books_users [OF b, of tg] u by (simp add: checked_day_def)
  from point_calls_checked_day [OF this, of cs] obtain d where d: "date_of t \<le> d" "checked_day tg db2 = Some d"
    unfolding assms(4) by blast
  have "already_checked_in v t'" if "users_get_for_update tg db2 = Some v" for v
    using d assms(5) that by (auto simp: checked_day_def already_checked_in_def)
  then show ?thesis
    using check_in_step [OF assms(6)] assms(7) by (auto dest: books_old)
qed

subsection \<open>One key, two operations\<close>

lemma point_transaction_ledger:
  assumes "accounts_by_legacy_tg tg db = Some a" and "acc_id a \<noteq> []"
  shows "\<exists>l. rows (ledger (point_transaction clk tg bt amount bal reason actor key metadata db)) =
       rows (ledger db) @ [l] \<and> ledger_scope_key l = map_option (Pair (''points.'' @ bt)) key"
  using assms by (auto simp: point_transaction_def Let_def accounts_add_ledger_def ledger_scope_key_def
      accounts_add_wallet_def accounts_save_wallet_def split: option.split)

text \<open>The ledger's unique constraint is on the balance and the key, while the idempotency table
  distinguishes the operations. A key under which another operation has booked coins fails the
  check-in of a user with a canonical account, at the commit, with nothing changed.\<close>

theorem ledger_key_collision:
  assumes "users_get_for_update tg db = Some u" and "accounts_by_legacy_tg tg db = Some a" and "acc_id a \<noteq> []"
    and "l \<in> set (rows (ledger db))" and "ledger_scope_key l = Some (''points.coins'', k)"
    and "get_idempotent_result check_in_scope (Some k) db = None"
    and "level_denied u m = Inr False" and "\<not> already_checked_in u t" and "get_balance IV u + reward \<le> MAX_INT_VALUE"
  shows "check_in clk tg reward t actor m (Some k) db = (Inl IntegrityError, db)"
proof -
  have no: "\<not> integrity (save_idempotent_result clk check_in_scope (Some k) res (event clk etype rtype rid payload
    (audit clk actor action rtype rid outcome detail req
      (point_transaction clk tg ''coins'' amount bal reason actor (Some k) metadata (users_save v db)))))"
    (is "\<not> integrity ?db") for res etype rtype rid payload action outcome detail req amount bal reason metadata v
  proof -
    have "accounts_by_legacy_tg tg (users_save v db) = Some a" using assms(2) by (simp add: accounts_by_legacy_tg_def)
    from point_transaction_ledger [OF this assms(3)] obtain l' where
      "rows (ledger ?db) = rows (ledger db) @ [l']" "ledger_scope_key l' = Some (''points.coins'', k)"
      by fastforce
    with assms(4,5) have "\<not> unique_some ledger_scope_key (rows (ledger ?db))"
      by (auto simp: unique_some_append intro: rev_image_eqI)
    then show ?thesis by (simp only: integrity_def simp_thms)
  qed
  show ?thesis
    using assms(1,7-9)
    by (simp add: check_in_def Let_def run_uow_def replay_or_fresh [OF assms(6)] no)
qed


text \<open>C1: A point operation that carries an idempotency key takes effect once. However often the
  call is repeated, the database is the one the first call left, and however late it is
  repeated, whatever other calls came in between, it returns the stored answer marked as a
  replay and changes nothing.\<close>

theorem point_call_exactly_once:
  assumes "point_call c db = (Inr r, db')" and "truthy_str (point_key c)" and "res_ok r"
    and "point_answer c db = None"
  shows "fold (\<lambda>c db. snd (point_call c db)) (replicate (Suc n) c) db = db' \<and>
    point_call c (fold (\<lambda>c db. snd (point_call c db)) others db') =
      (Inr (replay_of r), fold (\<lambda>c db. snd (point_call c db)) others db')"
  using point_once.repeats_are_one [OF assms] point_once.late_call_replays [OF assms refl] by blast

theorem point_call_exactly_once_witness:
  "\<exists>db'. fold (\<lambda>c db. snd (point_call c db))
       (replicate 3 (CheckIn sample_clock 7 5 (1000 * day) sample_actor None (Some ''k''))) sample_db = db' \<and>
     point_call (CheckIn sample_clock 7 5 (1000 * day) sample_actor None (Some ''k''))
       (snd (point_call (Adjust sample_clock 7 1 ''coins'' ''gift'' sample_actor False None None) db')) =
     (Inr (replay_of (result ''ok'' [(''balance'', JInt 15), (''reward'', JInt 5), (''checked_at'', JTime (1000 * day))])),
      snd (point_call (Adjust sample_clock 7 1 ''coins'' ''gift'' sample_actor False None None) db'))"
proof -
  let ?c = "CheckIn sample_clock 7 5 (1000 * day) sample_actor None (Some ''k'')"
  obtain db' where call: "point_call ?c sample_db =
      (Inr (result ''ok'' [(''balance'', JInt 15), (''reward'', JInt 5), (''checked_at'', JTime (1000 * day))]), db')"
    using check_in_runs [of 7 sample_db sample_user "Some ''k''" None "1000 * day" 5 sample_clock sample_actor]
    by (auto simp: level_denied_def already_checked_in_def MAX_INT_VALUE_def)
  show ?thesis
    using point_call_exactly_once [OF call, of 2 "[Adjust sample_clock 7 1 ''coins'' ''gift'' sample_actor False None None]"]
    by (simp add: res_ok_def point_answer_def ready_stored [OF sample_ready] numeral_3_eq_3 numeral_2_eq_2)
qed

theorem check_in_once_a_day_witness:
  "\<exists>db' r'. check_in sample_clock 7 5 (1000 * day) sample_actor None None
      (snd (check_in sample_clock 7 5 (1000 * day) sample_actor None None sample_db)) = (Inr r', db') \<and> \<not> res_ok r'"
proof -
  obtain db1 r where first: "check_in sample_clock 7 5 (1000 * day) sample_actor None None sample_db = (Inr r, db1)"
      "res_ok r" "integrity db1" "users_get_for_update 7 db1 = Some (sample_user\<lparr>emby_iv := Some 15, emby_ch := Some (1000 * day)\<rparr>)"
    using check_in_runs [of 7 sample_db sample_user None None "1000 * day" 5 sample_clock sample_actor]
    by (auto simp: level_denied_def already_checked_in_def MAX_INT_VALUE_def res_ok_def)
  have none: "stored_answer check_in_scope None db = None" for db :: core_db
    by (simp add: stored_answer_def get_idempotent_result_def)
  obtain r' db' where second: "check_in sample_clock 7 5 (1000 * day) sample_actor None None db1 = (Inr r', db')"
    using first by (simp add: check_in_def Let_def run_uow_def replay_or_def get_idempotent_result_def
        level_denied_def already_checked_in_def)
  show ?thesis
    using check_in_once_a_day [OF first(1,2) none, of db1 "[]" "1000 * day"] second none first(1) by auto
qed

definition sample_entry :: ledger_row where
  "sample_entry =
     \<lparr>led_id = 1, led_source_transaction_id = None, led_account_id = ''a7'', led_legacy_tg = Some 7,
      led_balance_type = ''coins'', led_amount = 1, led_balance_after = 1, led_reason = ''gift'',
      led_scope = ''points.coins'', led_idempotency_key = Some ''k'', led_actor_kind = ''system'',
      led_actor_id = ''scheduler'', led_metadata = None, led_created_at = 0\<rparr>"

theorem ledger_key_collision_witness:
  "check_in sample_clock 7 5 (1000 * day) sample_actor None (Some ''k'')
     (sample_db\<lparr>ledger := \<lparr>rows = [sample_entry], next_id = 2\<rparr>\<rparr>) =
   (Inl IntegrityError, sample_db\<lparr>ledger := \<lparr>rows = [sample_entry], next_id = 2\<rparr>\<rparr>)"
  by (rule ledger_key_collision [of _ _ sample_user sample_account sample_entry])
    (simp_all add: op_defs sample_defs sample_entry_def ledger_scope_key_def get_idempotent_result_def
      level_denied_def already_checked_in_def MAX_INT_VALUE_def)

subsection \<open>Bounds\<close>

definition within_bounds :: "'z core_db_scheme \<Rightarrow> bool" where
  "within_bounds db =
     (\<forall>tg u. users_get_for_update tg db = Some u \<longrightarrow> (\<forall>f. get_balance f u \<le> MAX_INT_VALUE))"

fun costs_nothing_negative :: "point_request \<Rightarrow> bool" where
  "costs_nothing_negative (PurchaseLevel clk tg target cost actor reason key) = (0 \<le> cost)"
| "costs_nothing_negative _ = True"

lemma books_within_bounds:
  assumes "books clk scope key u0 u p cs r db db'" and "within_bounds db"
    and "get_balance IV u0 \<le> MAX_INT_VALUE \<Longrightarrow> get_balance IV u \<le> MAX_INT_VALUE"
    and "get_balance US u0 \<le> MAX_INT_VALUE \<Longrightarrow> get_balance US u \<le> MAX_INT_VALUE"
  shows "within_bounds db'"
  using assms(2-4) books_old [OF assms(1)]
  by (auto simp: within_bounds_def all_balances books_users [OF assms(1)])

lemma point_call_within_bounds:
  assumes "costs_nothing_negative c" and "within_bounds db"
  shows "within_bounds (snd (point_call c db))"
proof (cases "point_call c db")
  case (Pair x db')
  show ?thesis
  proof (cases x)
    case (Inl e)
    with Pair point_call_failed [of c db e] assms show ?thesis by auto
  next
    case (Inr r)
    have "within_bounds db'"
    proof (cases c)
      case (Adjust clk tg amount bt reason actor neg key meta)
      with Pair Inr have "adjust clk tg amount bt reason actor neg key meta db = (Inr r, db')" by simp
      from adjust_step [OF this] assms show ?thesis
        by (elim conjE disjE exE) (auto elim!: books_within_bounds split: if_splits)
    next
      case (CheckIn clk tg reward t actor lim key)
      with Pair Inr have "check_in clk tg reward t actor lim key db = (Inr r, db')" by simp
      from check_in_step [OF this] assms show ?thesis
        by (elim conjE disjE exE) (auto elim!: books_within_bounds)
    next
      case (PurchaseLevel clk tg target cost actor reason key)
      with Pair Inr have "purchase_level clk tg target cost actor reason key db = (Inr r, db')" by simp
      from purchase_level_step [OF this] assms PurchaseLevel show ?thesis
        by (elim conjE disjE exE) (auto elim!: books_within_bounds)
    qed
    with Pair show ?thesis by simp
  qed
qed

text \<open>C11: No sequence of point operations whose level prices are not negative takes a balance
  of any user above the largest 32-bit integer.\<close>

theorem balances_stay_within_bounds:
  assumes "within_bounds db" and "\<forall>c \<in> set cs. costs_nothing_negative c"
  shows "within_bounds (fold (\<lambda>c db. snd (point_call c db)) cs db)"
  using assms by (induction cs arbitrary: db) (auto intro: point_call_within_bounds)

theorem balances_stay_within_bounds_witness:
  "within_bounds (fold (\<lambda>c db. snd (point_call c db))
     [Adjust sample_clock 7 2147483647 ''coins'' ''gift'' sample_actor False None None,
      PurchaseLevel sample_clock 7 ''b'' 1 sample_actor ''level'' None] sample_db)"
proof (rule balances_stay_within_bounds)
  show "within_bounds sample_db"
    by (simp add: within_bounds_def op_defs sample_defs all_balances MAX_INT_VALUE_def)
qed simp

text \<open>On a well-formed database a user with a media account, another level and enough coins
  buys a level: the result and the row show the balance less the cost and the new level, and one
  transaction of minus the cost is booked.\<close>

theorem purchase_level_outcome:
  assumes "users_get_for_update tg db = Some u" and "ready ''coins'' (purchase_level_scope target) key db"
    and "truthy_str (emby_embyid u)" and "emby_lv u \<noteq> Some target" and "cost \<le> get_balance IV u"
  shows "let (x, db') = purchase_level clk tg target cost actor reason key db;
             new = get_balance IV u - cost
         in x = Inr (result ''ok'' [(''balance'', JInt new), (''level'', JStr target)]) \<and>
            users_get_for_update tg db' = Some (u\<lparr>emby_iv := Some new, emby_lv := Some target\<rparr>) \<and>
            (\<forall>bt. posted tg bt db' = posted tg bt db - (if bt = ''coins'' then cost else 0)) \<and>
            (truthy_str key \<longrightarrow>
               fst (purchase_level clk tg target cost actor reason key db') =
               Inr (replay_of (result ''ok'' [(''balance'', JInt new), (''level'', JStr target)])))"
proof -
  let ?r = "result ''ok'' [(''balance'', JInt (get_balance IV u - cost)), (''level'', JStr target)]"
  have tg: "emby_tg u = tg" by (rule user_repo.get_key [OF assms(1)])
  obtain db' where call: "purchase_level clk tg target cost actor reason key db = (Inr ?r, db')"
    and u: "users_get_for_update tg db' = Some (u\<lparr>emby_iv := Some (get_balance IV u - cost), emby_lv := Some target\<rparr>)"
    and posts: "\<forall>bt. posted tg bt db' = posted tg bt db - (if bt = ''coins'' then cost else 0)"
    using assms tg
    by (simp add: purchase_level_def ready_runs [OF assms(2)] Let_def run_uow_def ready_commits [OF assms(2)]
      user_repo.get_put)
  have "fst (purchase_level clk tg target cost actor reason key db') = Inr (replay_of ?r)" if "truthy_str key"
    using point_once.second_call_replays [of "PurchaseLevel clk tg target cost actor reason key" db ?r db'] call that
    by (simp add: point_answer_def ready_stored [OF assms(2)] res_ok_def)
  with call u posts show ?thesis by simp
qed

theorem purchase_level_outcome_witness:
  "fst (purchase_level sample_clock 7 ''b'' 4 sample_actor ''level'' None
      (sample_db\<lparr>embys := [sample_user\<lparr>emby_embyid := Some ''e7''\<rparr>]\<rparr>)) =
   Inr (result ''ok'' [(''balance'', JInt 6), (''level'', JStr ''b'')])"
  using purchase_level_outcome [of 7 "sample_db\<lparr>embys := [sample_user\<lparr>emby_embyid := Some ''e7''\<rparr>]\<rparr>"
      "sample_user\<lparr>emby_embyid := Some ''e7''\<rparr>" "''b''" None 4 sample_clock sample_actor "''level''"]
  by (simp add: op_defs Let_def split_def ready_def sources_below_def ledger_key_free_def integrity_def)
     (simp add: sample_defs)

end
