(* ===== verification/Code_Service.thy ===== *)
theory Code_Service
  imports Point_Service
begin

section \<open>Codes: generation, revocation, redemption and purchase\<close>

text \<open>
  \<open>CodeService\<close> of \<open>bot/application/code_service.py\<close>. The random suffixes of new codes are
  an argument, one per index. Redemption is one operation with three kinds; it consumes the
  code and changes the user in the same transaction, and marks a code it finds past its
  expiry before it refuses it.
\<close>

definition code_kind :: "code_row \<Rightarrow> string" where
  "code_kind row =
     (if py_in ''Whitelist'' (code_code row) then ''whitelist''
      else if py_in ''Renew'' (code_code row) then ''renewal'' else ''registration'')"

definition code_state :: "datetime \<Rightarrow> code_row \<Rightarrow> string" where
  \<comment> \<open>the \<open>status\<close> the serializer shows\<close>
  "code_state now row =
     (if code_used row \<noteq> None then ''used''
      else if (case code_expires_at row of None \<Rightarrow> False | Some t \<Rightarrow> t \<le> now) then ''expired''
      else if truthy_str (code_status row) then the (code_status row)
      else ''active'')"

definition serialize_code :: "datetime \<Rightarrow> code_row \<Rightarrow> jval" where
  "serialize_code now row =
     JDict [(''code'', JStr (code_code row)),
            (''kind'', JStr (code_kind row)),
            (''days'', JInt (int_or_0 (code_us row))),
            (''status'', JStr (code_state now row)),
            (''issuer_tg'', jopt_int (code_tg row)),
            (''issuer_account_id'', jopt_str (code_issuer_account_id row)),
            (''used_by_tg'', jopt_int (code_used row)),
            (''used_by_account_id'', jopt_str (code_used_by_account_id row)),
            (''used_at'', jopt_time (code_usedtime row)),
            (''expires_at'', jopt_time (code_expires_at row))]"

fun jdict_of :: "jval \<Rightarrow> jdict" where
  "jdict_of (JDict d) = d"
| "jdict_of _ = []"

definition code_value :: "string \<Rightarrow> int \<Rightarrow> string \<Rightarrow> string \<Rightarrow> string" where
  "code_value kind days logo rnd =
     (if kind = ''whitelist'' then logo @ ''-Whitelist_'' @ rnd
      else if kind = ''renewal'' then logo @ ''-'' @ show_int days @ ''-Renew_'' @ rnd
      else logo @ ''-'' @ show_int days @ ''-Register_'' @ rnd)"

definition generate ::
  "clock \<Rightarrow> (nat \<Rightarrow> string) \<Rightarrow> string \<Rightarrow> int \<Rightarrow> int \<Rightarrow> string \<Rightarrow> int \<Rightarrow> string option \<Rightarrow> datetime option \<Rightarrow>
   actor \<Rightarrow> 'z core_db_scheme \<Rightarrow> (service_result, 'z core_db_scheme) outcome" where
  "generate clk rnd kind days count logo issuer_tg issuer_account_id expires_at actor db0 =
     (if kind \<notin> {''registration'', ''renewal'', ''whitelist''} then (Inr (result ''invalid_kind'' []), db0)
      else if count < 1 \<or> count > 500 \<or> (kind \<noteq> ''whitelist'' \<and> (days < 1 \<or> days > 3650)) then
        (Inr (result ''invalid_parameters'' []), db0)
      else
        let values = map (\<lambda>i. code_value kind days logo (rnd i)) [0..<nat count] in
        if list_ex (\<lambda>v. py_len v > 50) values then (Inr (result ''invalid_parameters'' []), db0)
        else run_uow (\<lambda>db.
          let rs = map (\<lambda>v. (new_code v issuer_tg (if kind = ''whitelist'' then 0 else days))
                \<lparr>code_issuer_account_id := issuer_account_id, code_status := Some ''active'',
                 code_expires_at := expires_at\<rparr>) values;
              db1 = codes_add_rows rs db;
              db2 = audit_success clk actor ''code.generate'' ''registration_code'' None
                      (Some (JDict [(''kind'', JStr kind), (''days'', JInt days),
                                    (''count'', JInt count), (''expires_at'', jopt_time expires_at)])) db1;
              db3 = event clk ''code.generated'' ''registration_code'' None
                      (Some (JDict [(''kind'', JStr kind), (''count'', JInt count)])) db2
          in Inr (result ''ok'' [(''items'', JList (map (serialize_code (now_local clk)) rs)),
                                 (''count'', JInt count)], db3)) db0)"

definition list_codes ::
  "clock \<Rightarrow> string option \<Rightarrow> string option \<Rightarrow> string option \<Rightarrow> int \<Rightarrow> int \<Rightarrow> 'z core_db_scheme \<Rightarrow> jdict" where
  "list_codes clk kind status search lim off db =
     (let (rs, total) = codes_list (now_local clk) kind status search lim off db
      in [(''items'', JList (map (serialize_code (now_local clk)) rs)), (''total'', JInt total)])"

definition revoke ::
  "clock \<Rightarrow> string \<Rightarrow> actor \<Rightarrow> 'z core_db_scheme \<Rightarrow> (service_result, 'z core_db_scheme) outcome" where
  "revoke clk value actor db0 =
     run_uow (\<lambda>db.
       case codes_get_for_update value db of
         None \<Rightarrow> Inr (result ''not_found'' [], db)
       | Some row \<Rightarrow>
           if code_used row \<noteq> None then Inr (result ''used'' [], db)
           else
             let row' = row\<lparr>code_status := Some ''revoked''\<rparr>;
                 db1 = codes_save row' db;
                 db2 = audit_success clk actor ''code.revoke'' ''registration_code''
                         (Some (secret_fingerprint value)) None db1;
                 db3 = event clk ''code.updated'' ''registration_code'' (Some (secret_fingerprint value))
                         (Some (JDict [(''status'', JStr ''revoked'')])) db2
             in Inr (result ''ok'' (jdict_of (serialize_code (now_local clk) row')), db3)) db0"

subsection \<open>Redemption\<close>

definition redeem_scope :: "string \<Rightarrow> string" where
  "redeem_scope kind = ''code.redeem.'' @ kind"

definition str_of_opt :: "string option \<Rightarrow> string" where
  \<comment> \<open>\<open>str(x)\<close> of an optional text\<close>
  "str_of_opt x = (case x of None \<Rightarrow> ''None'' | Some s \<Rightarrow> s)"

definition code_prefix :: "string \<Rightarrow> string" where
  \<comment> \<open>\<open>code_value.split("-")[0]\<close>\<close>
  "code_prefix value = takeWhile (\<lambda>c. c \<noteq> CHR ''-'') value"

text \<open>
  What the three kinds do to the user: the changed row, the data of the result, and for a
  registration code the days to book. A refusal is a result.
\<close>

datatype redemption =
    Refused service_result
  | Granted emby_row jdict "int option"

definition apply_kind ::
  "datetime \<Rightarrow> string \<Rightarrow> string \<Rightarrow> int \<Rightarrow> string option \<Rightarrow> code_row \<Rightarrow> emby_row \<Rightarrow> redemption attempt" where
  "apply_kind now kind value tg logo code user =
     (if kind = ''whitelist'' then
        (if emby_lv user = Some ''a'' then Inr (Refused (result ''already_wl'' []))
         else Inr (Granted (user\<lparr>emby_lv := Some ''a''\<rparr>) [(''issuer_tg'', jopt_int (code_tg code))] None))
      else if kind = ''registration'' then
        (if code_prefix value \<noteq> str_of_opt logo \<and> code_prefix value \<noteq> show_int tg then
           Inr (Refused (result ''forbidden'' []))
         else Inr (Granted
           (user\<lparr>emby_us := Some (int_or_0 (emby_us user) + int_or_0 (code_us code))\<rparr>)
           [(''issuer_tg'', jopt_int (code_tg code)), (''days'', jopt_int (code_us code))]
           (Some (int_or_0 (code_us code)))))
      else if kind = ''renewal'' then
        (let current_ex = (case emby_ex user of None \<Rightarrow> now | Some t \<Rightarrow> t);
             expired = now > current_ex
         in bind_attempt (dt_add (if expired then now else current_ex) (int_or_0 (code_us code) * day))
              (\<lambda>ex_new. Inr (Granted
                 ((if expired \<and> emby_lv user = Some ''c'' then user\<lparr>emby_lv := Some ''b''\<rparr> else user)
                    \<lparr>emby_ex := Some ex_new\<rparr>)
                 [(''issuer_tg'', jopt_int (code_tg code)), (''days'', jopt_int (code_us code)),
                  (''ex_new'', JTime ex_new), (''embyid'', jopt_str (emby_embyid user)),
                  (''restore_policy'', JBool expired)] None)))
      else Inl (ValueError (''Unsupported code kind: '' @ kind)))"

text \<open>The writes of a granted redemption, after which the code is spent.\<close>

definition consume ::
  "clock \<Rightarrow> string \<Rightarrow> string \<Rightarrow> int \<Rightarrow> actor \<Rightarrow> string option \<Rightarrow> code_row \<Rightarrow> emby_row \<Rightarrow> jdict \<Rightarrow>
   int option \<Rightarrow> 'z core_db_scheme \<Rightarrow> service_result \<times> 'z core_db_scheme" where
  "consume clk kind value tg actor key code user' data days db =
     (let db1 = users_save user' db;
          db2 = (case days of
              None \<Rightarrow> db1
            | Some d \<Rightarrow> point_transaction clk tg ''registration_days'' d
                (int_or_0 (emby_us user')) ''redeem_registration_code'' actor key
                (Some (JDict [(''code'', JStr (secret_fingerprint value))])) db1);
          db3 = codes_save (code\<lparr>code_used := Some tg, code_usedtime := Some (now_local clk),
                  code_used_by_account_id := map_option acc_id (accounts_by_legacy_tg tg db2),
                  code_status := Some ''used''\<rparr>) db2;
          db4 = audit_success clk actor (''code.redeem.'' @ kind) ''registration_code''
                  (Some (secret_fingerprint value))
                  (Some (JDict [(''tg'', JInt tg), (''issuer_tg'', jopt_int (code_tg code))])) db3;
          db5 = event clk ''code.redeemed'' ''registration_code''
                  (Some (secret_fingerprint value))
                  (Some (JDict [(''tg'', JInt tg), (''kind'', JStr kind)])) db4;
          r = result ''ok'' data
      in (r, save_idempotent_result clk (redeem_scope kind) key (to_dict r) db5))"

definition redeem ::
  "clock \<Rightarrow> string \<Rightarrow> string \<Rightarrow> int \<Rightarrow> actor \<Rightarrow> string option \<Rightarrow> string option \<Rightarrow>
   'z core_db_scheme \<Rightarrow> (service_result, 'z core_db_scheme) outcome" where
  "redeem clk kind value tg actor logo key db0 =
     (let scope = redeem_scope kind; now = now_local clk in
      run_uow (\<lambda>db.
        case users_get_for_update tg db of
          None \<Rightarrow> Inr (result ''no_user'' [], db)
        | Some user \<Rightarrow> replay_or scope key db
            (if kind \<in> {''whitelist'', ''renewal''} \<and> \<not> truthy_str (emby_embyid user) then
               Inr (result ''no_account'' [], db)
             else if kind = ''registration'' \<and> truthy_str (emby_embyid user) then
               Inr (result ''has_account'' [], db)
             else if kind = ''registration'' \<and> int_or_0 (emby_us user) > 0 then
               Inr (result ''already_qualified'' [], db)
             else (case codes_get_for_update value db of
               None \<Rightarrow> Inr (result ''invalid_code'' [], db)
             | Some code \<Rightarrow>
                 if code_used code \<noteq> None then
                   Inr (result ''used'' [(''used'', jopt_int (code_used code))], db)
                 else if code_status code \<notin> {None, Some ''active''} then
                   Inr (result ''invalid_code'' [], db)
                 else if (case code_expires_at code of None \<Rightarrow> False | Some t \<Rightarrow> t \<le> now) then
                   Inr (result ''invalid_code'' [], codes_save (code\<lparr>code_status := Some ''expired''\<rparr>) db)
                 else bind_attempt (apply_kind now kind value tg logo code user) (\<lambda>red.
                   case red of
                     Refused r \<Rightarrow> Inr (r, db)
                   | Granted user' data days \<Rightarrow>
                       Inr (consume clk kind value tg actor key code user' data days db))))) db0)"

definition redeem_whitelist ::
  "clock \<Rightarrow> string \<Rightarrow> int \<Rightarrow> actor \<Rightarrow> string option \<Rightarrow> 'z core_db_scheme \<Rightarrow> (service_result, 'z core_db_scheme) outcome" where
  "redeem_whitelist clk value tg actor key = redeem clk ''whitelist'' value tg actor None key"

definition redeem_registration ::
  "clock \<Rightarrow> string \<Rightarrow> int \<Rightarrow> string \<Rightarrow> actor \<Rightarrow> string option \<Rightarrow> 'z core_db_scheme \<Rightarrow>
   (service_result, 'z core_db_scheme) outcome" where
  "redeem_registration clk value tg logo actor key = redeem clk ''registration'' value tg actor (Some logo) key"

definition redeem_renewal ::
  "clock \<Rightarrow> string \<Rightarrow> int \<Rightarrow> actor \<Rightarrow> string option \<Rightarrow> 'z core_db_scheme \<Rightarrow> (service_result, 'z core_db_scheme) outcome" where
  "redeem_renewal clk value tg actor key = redeem clk ''renewal'' value tg actor None key"

subsection \<open>Buying registration codes\<close>

definition purchase_codes_scope :: string where
  "purchase_codes_scope = ''code.purchase.registration''"

definition purchase_registration_codes ::
  "clock \<Rightarrow> int \<Rightarrow> string list \<Rightarrow> int \<Rightarrow> int \<Rightarrow> string \<Rightarrow> actor \<Rightarrow> string option \<Rightarrow> 'z core_db_scheme \<Rightarrow>
   (service_result, 'z core_db_scheme) outcome" where
  "purchase_registration_codes clk tg new_codes days cost maximum_level actor key db0 =
     (let scope = purchase_codes_scope in
      run_uow (\<lambda>db.
        case users_get_for_update tg db of
          None \<Rightarrow> Inr (result ''no_user'' [], db)
        | Some user \<Rightarrow> replay_or scope key db
            (bind_attempt (level_above (emby_lv user) maximum_level) (\<lambda>denied.
               if denied then Inr (result ''level_denied'' [], db)
               else
                 let balance = int_or_0 (emby_iv user) in
                 if balance < cost then
                   Inr (result ''insufficient_balance'' [(''balance'', JInt balance)], db)
                 else
                   let new_balance = balance - cost;
                       db1 = users_save (user\<lparr>emby_iv := Some new_balance\<rparr>)
                               (codes_add_many new_codes tg days db);
                       db2 = point_transaction clk tg ''coins'' (- cost) new_balance
                               ''purchase_registration_codes'' actor key
                               (Some (JDict [(''count'', JInt (int (length new_codes))), (''days'', JInt days)])) db1;
                       db3 = audit_success clk actor ''code.purchase.registration'' ''user'' (Some (show_int tg))
                               (Some (JDict [(''count'', JInt (int (length new_codes))), (''days'', JInt days),
                                             (''cost'', JInt cost)])) db2;
                       db4 = event clk ''points.changed'' ''user'' (Some (show_int tg))
                               (Some (JDict [(''tg'', JInt tg), (''balance_type'', JStr ''coins''),
                                             (''amount'', JInt (- cost)),
                                             (''balance_after'', JInt new_balance)])) db3;
                       r = result ''ok'' [(''balance'', JInt new_balance),
                                          (''count'', JInt (int (length new_codes)))]
                   in Inr (r, save_idempotent_result clk scope key (to_dict r) db4)))) db0)"

subsection \<open>What redemption does\<close>

lemma users_save_codes_add:
  "users_save u (codes_add_many vs tg days db) = codes_add_many vs tg days (users_save u db)"
  by (simp add: users_save_def codes_add_many_def codes_add_rows_def)

lemma post_add_codes:
  "point_transaction clk tg bt amount bal reason actor key metadata (codes_add_many vs tg' days db) =
   codes_add_many vs tg' days (point_transaction clk tg bt amount bal reason actor key metadata db)"
  using post_codes_update [of clk tg reason actor key metadata "Some (bt, amount, bal)"]
  by (simp add: codes_add_many_def codes_add_rows_def)

lemma apply_kind_Granted:
  assumes "apply_kind now kind value tg logo code user = Inr (Granted user' data days)"
  shows "emby_tg user' = emby_tg user"
    and "get_balance IV user' = get_balance IV user"
    and "get_balance US user' = get_balance US user + (case days of None \<Rightarrow> 0 | Some d \<Rightarrow> d)"
  using assms
  by (auto simp: apply_kind_def Let_def bind_attempt_Inr_iff split: if_splits option.splits)

lemma apply_kind_Refused:
  "apply_kind now kind value tg logo code user = Inr (Refused r) \<Longrightarrow> \<not> res_ok r"
  by (auto simp: apply_kind_def Let_def bind_attempt_Inr_iff res_ok_def split: if_splits option.splits)

definition code_open :: "datetime \<Rightarrow> code_row \<Rightarrow> bool" where
  "code_open now c = (code_used c = None \<and> code_status c \<in> {None, Some ''active''} \<and>
     (case code_expires_at c of None \<Rightarrow> True | Some t \<Rightarrow> now < t))"

definition code_overdue :: "datetime \<Rightarrow> code_row \<Rightarrow> bool" where
  "code_overdue now c = (code_used c = None \<and> code_status c \<in> {None, Some ''active''} \<and>
     (case code_expires_at c of None \<Rightarrow> False | Some t \<Rightarrow> t \<le> now))"

definition mark_used :: "clock \<Rightarrow> int \<Rightarrow> 'z core_db_scheme \<Rightarrow> code_row \<Rightarrow> code_row" where
  "mark_used clk tg db c = c\<lparr>code_used := Some tg, code_usedtime := Some (now_local clk),
     code_used_by_account_id := map_option acc_id (accounts_by_legacy_tg tg db),
     code_status := Some ''used''\<rparr>"

lemma accounts_by_tg_frame [simp]:
  "accounts_by_legacy_tg tg (users_save u db) = accounts_by_legacy_tg tg db"
  "accounts_by_legacy_tg tg (point_transaction clk tg' bt amount bal reason actor key metadata db) =
   accounts_by_legacy_tg tg db"
  by (simp_all add: accounts_by_legacy_tg_def)

lemma books_days:
  assumes "users_get_for_update (emby_tg u) db = Some u0"
    and "get_balance IV u = get_balance IV u0"
    and "get_balance US u = get_balance US u0 + (case days of None \<Rightarrow> 0 | Some d \<Rightarrow> d)"
    and "integrity db'"
    and "service_write clk scope key
      (map_option (\<lambda>d. (''registration_days'', d, get_balance US u)) days) u cs r db db'"
  shows "books clk scope key u0 u (map_option (\<lambda>d. (''registration_days'', d, get_balance US u)) days) cs r db db'"
  using assms by (cases days) (auto simp: books_def all_balances other_balance simp del: get_balance.simps)

lemma consume_write:
  assumes "emby_tg u = tg"
  shows "fst (consume clk kind value tg actor key c u data days db) = result ''ok'' data"
    and "service_write clk (redeem_scope kind) key
      (map_option (\<lambda>d. (''registration_days'', d, get_balance US u)) days) u
      (tbl_put code_code (mark_used clk tg db c) (codes db)) (result ''ok'' data) db
      (snd (consume clk kind value tg actor key c u data days db))"
proof -
  define p where "p = map_option (\<lambda>d. (''registration_days'', d, get_balance US u)) days"
  define meta where "meta = Some (JDict [(''code'', JStr (secret_fingerprint value))])"
  have db2: "(case days of None \<Rightarrow> users_save u db
      | Some d \<Rightarrow> point_transaction clk tg ''registration_days'' d (int_or_0 (emby_us u))
          ''redeem_registration_code'' actor key meta (users_save u db)) =
      post clk tg ''redeem_registration_code'' actor key meta p (users_save u db)"
    by (cases days) (simp_all add: p_def)
  show "fst (consume clk kind value tg actor key c u data days db) = result ''ok'' data"
    by (simp add: consume_def Let_def)
  show "service_write clk (redeem_scope kind) key
      (map_option (\<lambda>d. (''registration_days'', d, get_balance US u)) days) u
      (tbl_put code_code (mark_used clk tg db c) (codes db)) (result ''ok'' data) db
      (snd (consume clk kind value tg actor key c u data days db))"
    unfolding consume_def Let_def snd_conv meta_def [symmetric] db2 p_def [symmetric]
    by (rule service_writeI [OF assms, where reason = "''redeem_registration_code''" and metadata = meta])
      (simp add: codes_save_def mark_used_def accounts_by_legacy_tg_def)
qed

lemma redeem_step:
  assumes call: "redeem clk kind value tg actor logo key db = (Inr r, db')"
  shows "(db' = db \<and> (users_get_for_update tg db \<noteq> None \<and> stored_answer (redeem_scope kind) key db = Some r \<or> \<not> res_ok r)) \<or>
    (\<exists>c. codes_get_for_update value db = Some c \<and> code_overdue (now_local clk) c \<and>
       r = result ''invalid_code'' [] \<and> db' = codes_save (c\<lparr>code_status := Some ''expired''\<rparr>) db) \<or>
    (\<exists>u c u' data days. emby_tg u = tg \<and> stored_answer (redeem_scope kind) key db = None \<and>
       codes_get_for_update value db = Some c \<and> code_open (now_local clk) c \<and>
       apply_kind (now_local clk) kind value tg logo c u = Inr (Granted u' data days) \<and>
       r = result ''ok'' data \<and>
       books clk (redeem_scope kind) key u u'
         (map_option (\<lambda>d. (''registration_days'', d, get_balance US u')) days)
         (tbl_put code_code (mark_used clk tg db c) (codes db)) r db db')"
  using call [unfolded redeem_def Let_def]
proof (cases rule: keyed_call_cases)
  case (fresh u)
  show ?thesis
  proof (cases "db' = db \<and> \<not> res_ok r")
    case False
    then obtain c where c: "codes_get_for_update value db = Some c"
      using fresh(4) by (auto simp: res_ok_def split: if_split_asm option.splits)
    show ?thesis
    proof (cases "code_overdue (now_local clk) c")
      case True
      with fresh(2-4) c False show ?thesis
        by (auto simp: res_ok_def code_overdue_def split: if_split_asm)
    next
      case over: False
      obtain u' data days where g: "code_open (now_local clk) c"
          "apply_kind (now_local clk) kind value tg logo c u = Inr (Granted u' data days)"
          "(r, db') = consume clk kind value tg actor key c u' data days db"
        using fresh(4) c over False apply_kind_Refused
        by (auto simp: res_ok_def code_overdue_def code_open_def bind_attempt_Inr_iff not_le
            split: if_split_asm option.splits redemption.splits)
      note keeps = apply_kind_Granted [OF g(2)]
      have tg: "emby_tg u' = tg" using keeps(1) fresh(2) by simp
      have w: "r = result ''ok'' data" "service_write clk (redeem_scope kind) key
          (map_option (\<lambda>d. (''registration_days'', d, get_balance US u')) days) u'
          (tbl_put code_code (mark_used clk tg db c) (codes db)) (result ''ok'' data) db db'"
        using consume_write [OF tg] g(3) by (metis fst_conv, metis snd_conv)
      have "books clk (redeem_scope kind) key u u'
         (map_option (\<lambda>d. (''registration_days'', d, get_balance US u')) days)
         (tbl_put code_code (mark_used clk tg db c) (codes db)) r db db'"
        using w fresh tg keeps by (intro books_days) auto
      with fresh(2,3) c g w show ?thesis by blast
    qed
  qed auto
qed (auto simp: res_ok_def)

subsection \<open>What the other operations do\<close>

lemma purchase_step:
  assumes call: "purchase_registration_codes clk tg new days cost m actor key db = (Inr r, db')"
  shows "(db' = db \<and> (users_get_for_update tg db \<noteq> None \<and> stored_answer purchase_codes_scope key db = Some r \<or> \<not> res_ok r)) \<or>
    (\<exists>u. emby_tg u = tg \<and> stored_answer purchase_codes_scope key db = None \<and>
       level_above (emby_lv u) m = Inr False \<and> cost \<le> get_balance IV u \<and>
       r = result ''ok'' [(''balance'', JInt (get_balance IV u - cost)), (''count'', JInt (int (length new)))] \<and>
       books clk purchase_codes_scope key u (u\<lparr>emby_iv := Some (get_balance IV u - cost)\<rparr>)
         (Some (''coins'', - cost, get_balance IV u - cost))
         (codes db @ map (\<lambda>v. new_code v tg days) new) r db db')"
  using call [unfolded purchase_registration_codes_def Let_def]
proof (cases rule: keyed_call_cases)
  case (fresh u)
  show ?thesis
  proof (cases "db' = db \<and> \<not> res_ok r")
    case False
    have step: "codes_add_many new tg days (point_transaction clk tg ''coins'' amount bal reason actor key metadata d) =
      (post clk tg reason actor key metadata (Some (''coins'', amount, bal)) d)
        \<lparr>codes := codes d @ map (\<lambda>v. new_code v tg days) new\<rparr>"
      for amount bal reason metadata and d :: "'a core_db_scheme"
      by (simp add: codes_add_many_def codes_add_rows_def)
    have "books clk purchase_codes_scope key u (u\<lparr>emby_iv := Some (get_balance IV u - cost)\<rparr>)
         (Some (''coins'', - cost, get_balance IV u - cost))
         (codes db @ map (\<lambda>v. new_code v tg days) new) r db db'"
      using fresh(1,2,4,5) False
      by (auto simp: res_ok_def bind_attempt_Inr_iff books_def other_balance users_save_codes_add
          post_add_codes step intro!: service_writeI split: if_split_asm)
    with fresh(2-4) False show ?thesis
      by (auto simp: res_ok_def bind_attempt_Inr_iff split: if_split_asm)
  qed auto
qed (auto simp: res_ok_def)

text \<open>Generation and revocation touch the codes, the audit trail and the events, nothing else.\<close>

definition only_codes :: "code_row list \<Rightarrow> 'z core_db_scheme \<Rightarrow> 'z core_db_scheme \<Rightarrow> bool" where
  "only_codes cs db db' = (\<exists>as es. db' = db\<lparr>codes := cs, audits := as, events := es\<rparr>)"

lemma only_codes_intro:
  "only_codes cs db (event clk etype rtype rid payload (audit clk actor action rtype rid' outcome detail req
     (db\<lparr>codes := cs\<rparr>)))"
  unfolding only_codes_def event_def audit_def by (intro exI) simp

lemma only_codes_frame:
  assumes "only_codes cs db db'"
  shows "codes db' = cs" and "accounts db' = accounts db"
    and "users_get_for_update tg db' = users_get_for_update tg db"
    and "posted tg bt db' = posted tg bt db"
    and "stored_answer scope key db' = stored_answer scope key db"
    and "accounts_wallet i bt db' = accounts_wallet i bt db"
  using assms
  by (auto simp: only_codes_def users_get_for_update_def posted_def stored_answer_def
      get_idempotent_result_def accounts_wallet_def)

lemma only_codes_mirror: "only_codes cs db db' \<Longrightarrow> mirror_ok db \<Longrightarrow> mirror_ok db'"
  by (simp add: mirror_ok_alt shows_balance_def only_codes_frame(2,3,6)
      balance_of_cong [OF only_codes_frame(3)])

definition issued :: "string \<Rightarrow> int \<Rightarrow> int \<Rightarrow> string option \<Rightarrow> datetime option \<Rightarrow> string list \<Rightarrow> code_row list" where
  "issued kind days issuer_tg issuer_account_id expires_at values =
     map (\<lambda>v. (new_code v issuer_tg (if kind = ''whitelist'' then 0 else days))
         \<lparr>code_issuer_account_id := issuer_account_id, code_status := Some ''active'',
          code_expires_at := expires_at\<rparr>) values"

lemma generate_step:
  assumes "generate clk rnd kind days count logo issuer_tg issuer_account_id expires_at actor db = (Inr r, db')"
  shows "(db' = db \<and> \<not> res_ok r) \<or>
    (kind \<in> {''registration'', ''renewal'', ''whitelist''} \<and> 1 \<le> count \<and> count \<le> 500 \<and>
     (kind \<noteq> ''whitelist'' \<longrightarrow> 1 \<le> days \<and> days \<le> 3650) \<and> res_ok r \<and> integrity db' \<and>
     only_codes (codes db @ issued kind days issuer_tg issuer_account_id expires_at
       (map (\<lambda>i. code_value kind days logo (rnd i)) [0..<nat count])) db db')"
proof (cases "db' = db \<and> \<not> res_ok r")
  case False
  define vs where "vs = map (\<lambda>i. code_value kind days logo (rnd i)) [0..<nat count]"
  note d = assms [unfolded generate_def Let_def, folded vs_def]
  have "kind \<in> {''registration'', ''renewal'', ''whitelist''}"
    using d False by (rule_tac ccontr) (auto simp: res_ok_def)
  moreover from this have "\<not> (count < 1 \<or> 500 < count \<or> kind \<noteq> ''whitelist'' \<and> (days < 1 \<or> 3650 < days))"
    using d False by (rule_tac notI) (auto simp: res_ok_def)
  moreover from calculation have "\<not> list_ex (\<lambda>v. 50 < py_len v) vs"
    using d False by (rule_tac notI) (auto simp: res_ok_def)
  moreover from calculation have "res_ok r" "integrity db'"
      "only_codes (codes db @ issued kind days issuer_tg issuer_account_id expires_at vs) db db'"
    using d by (auto simp only: if_False run_uow_Inr simp_thms not_not, auto simp: res_ok_def issued_def codes_add_rows_def only_codes_intro)
  ultimately show ?thesis unfolding vs_def by auto
qed simp

lemma revoke_step:
  assumes "revoke clk value actor db = (Inr r, db')"
  shows "(db' = db \<and> \<not> res_ok r) \<or>
    (\<exists>c. codes_get_for_update value db = Some c \<and> code_used c = None \<and> res_ok r \<and> integrity db' \<and>
       only_codes (tbl_put code_code (c\<lparr>code_status := Some ''revoked''\<rparr>) (codes db)) db db')"
  using assms
  by (auto simp: revoke_def Let_def run_uow_Inr res_ok_def codes_save_def intro!: only_codes_intro
      split: option.splits if_split_asm)

subsection \<open>The service as one call\<close>

datatype code_request =
    Generate clock "nat \<Rightarrow> string" string int int string int "string option" "datetime option" actor
  | Revoke clock string actor
  | Redeem clock string string int actor "string option" "string option"
  | PurchaseCodes clock int "string list" int int string actor "string option"

fun code_call :: "code_request \<Rightarrow> 'z core_db_scheme \<Rightarrow> (service_result, 'z core_db_scheme) outcome" where
  "code_call (Generate clk rnd kind days count logo tg acc ex actor) =
     generate clk rnd kind days count logo tg acc ex actor"
| "code_call (Revoke clk v actor) = revoke clk v actor"
| "code_call (Redeem clk kind v tg actor logo key) = redeem clk kind v tg actor logo key"
| "code_call (PurchaseCodes clk tg new days cost m actor key) =
     purchase_registration_codes clk tg new days cost m actor key"

fun code_user :: "code_request \<Rightarrow> int option" where
  "code_user (Redeem clk kind v tg actor logo key) = Some tg"
| "code_user (PurchaseCodes clk tg new days cost m actor key) = Some tg"
| "code_user _ = None"

fun code_scope_key :: "code_request \<Rightarrow> string \<times> string option" where
  "code_scope_key (Redeem clk kind v tg actor logo key) = (redeem_scope kind, key)"
| "code_scope_key (PurchaseCodes clk tg new days cost m actor key) = (purchase_codes_scope, key)"
| "code_scope_key _ = ([], None)"

definition code_answer :: "code_request \<Rightarrow> 'z core_db_scheme \<Rightarrow> service_result option" where
  "code_answer c db =
     (case code_user c of
        None \<Rightarrow> None
      | Some tg \<Rightarrow>
          if integrity db \<and> users_get_for_update tg db \<noteq> None
          then stored_answer (fst (code_scope_key c)) (snd (code_scope_key c)) db else None)"

lemma generate_failed:
  "fst (generate clk rnd kind days count logo tg acc ex actor db) = Inl e \<Longrightarrow>
   snd (generate clk rnd kind days count logo tg acc ex actor db) = db"
  unfolding generate_def Let_def by (elim guarded_atomic run_uow_rollback)

lemma generate_integrity:
  "integrity db \<Longrightarrow> integrity (snd (generate clk rnd kind days count logo tg acc ex actor db))"
  unfolding generate_def Let_def by (intro guarded_integrity run_uow_integrity)

lemma code_call_failed: "fst (code_call c db) = Inl e \<Longrightarrow> snd (code_call c db) = db"
  by (cases c) (auto simp: revoke_def redeem_def purchase_registration_codes_def Let_def
      intro: run_uow_rollback generate_failed)

lemma code_call_integrity: "integrity db \<Longrightarrow> integrity (snd (code_call c db))"
  by (cases c) (auto simp: revoke_def redeem_def purchase_registration_codes_def Let_def
      intro: run_uow_integrity generate_integrity)

interpretation code_tx: transactional code_call integrity
  by unfold_locales (auto intro: code_call_failed code_call_integrity)

text \<open>
  The changes a call can make to the codes table: new rows at the end, or one row redeemed,
  marked expired, or revoked.
\<close>

inductive codes_change :: "code_row list \<Rightarrow> code_row list \<Rightarrow> bool" where
  codes_added: "codes_change cs (cs @ new)"
| code_redeemed: "tbl_get code_code v cs = Some c \<Longrightarrow> code_open now c \<Longrightarrow> code_code c' = code_code c \<Longrightarrow>
     code_used c' = Some tg \<Longrightarrow> codes_change cs (tbl_put code_code c' cs)"
| code_expired: "tbl_get code_code v cs = Some c \<Longrightarrow> code_overdue now c \<Longrightarrow>
     codes_change cs (tbl_put code_code (c\<lparr>code_status := Some ''expired''\<rparr>) cs)"
| code_revoked: "tbl_get code_code v cs = Some c \<Longrightarrow> code_used c = None \<Longrightarrow>
     codes_change cs (tbl_put code_code (c\<lparr>code_status := Some ''revoked''\<rparr>) cs)"

inductive_cases codes_changeE: "codes_change cs cs'"

lemma codes_change_refl: "codes_change cs cs"
  using codes_added [of cs "[]"] by simp

text \<open>The cases of a call, returning or not, by its effect on the database.\<close>

inductive code_effect :: "code_request \<Rightarrow> service_result attempt \<Rightarrow> 'z core_db_scheme \<Rightarrow> 'z core_db_scheme \<Rightarrow> bool" where
  effect_raised: "code_effect c (Inl e) db db"
| effect_refused: "\<not> res_ok r \<Longrightarrow> code_effect c (Inr r) db db"
| effect_replayed: "code_user c = Some tg \<Longrightarrow> users_get_for_update tg db \<noteq> None \<Longrightarrow>
    stored_answer (fst (code_scope_key c)) (snd (code_scope_key c)) db = Some r \<Longrightarrow> code_effect c (Inr r) db db"
| effect_codes: "only_codes cs db db' \<Longrightarrow> codes_change (codes db) cs \<Longrightarrow> code_user c = None \<or> \<not> res_ok r \<Longrightarrow>
    code_effect c (Inr r) db db'"
| effect_booked: "code_user c = Some (emby_tg u0) \<Longrightarrow> emby_tg u = emby_tg u0 \<Longrightarrow> res_ok r \<Longrightarrow>
    codes_change (codes db) cs \<Longrightarrow>
    stored_answer (fst (code_scope_key c)) (snd (code_scope_key c)) db = None \<Longrightarrow>
    books clk (fst (code_scope_key c)) (snd (code_scope_key c)) u0 u p cs r db db' \<Longrightarrow>
    code_effect c (Inr r) db db'"

inductive_cases code_effectE: "code_effect c x db db'"

lemma redeem_effect:
  assumes "redeem clk kind v tg actor logo key db = (Inr r, db')"
  shows "code_effect (Redeem clk kind v tg actor logo key) (Inr r) db db'"
  using redeem_step [OF assms]
proof (elim disjE exE conjE)
  fix k assume k: "codes_get_for_update v db = Some k" "code_overdue (now_local clk) k"
    "r = result ''invalid_code'' []" "db' = codes_save (k\<lparr>code_status := Some ''expired''\<rparr>) db"
  show ?thesis
  proof (rule effect_codes)
    show "only_codes (tbl_put code_code (k\<lparr>code_status := Some ''expired''\<rparr>) (codes db)) db db'"
      unfolding only_codes_def k(4) by (intro exI [of _ "audits db"] exI [of _ "events db"]) (simp add: codes_save_def)
    show "codes_change (codes db) (tbl_put code_code (k\<lparr>code_status := Some ''expired''\<rparr>) (codes db))"
      using k by (intro code_expired) (auto simp: codes_get_for_update_def)
  qed (simp add: k(3) res_ok_def)
next
  fix u k u' data days
  assume k: "emby_tg u = tg" "stored_answer (redeem_scope kind) key db = None"
    "codes_get_for_update v db = Some k" "code_open (now_local clk) k"
    "apply_kind (now_local clk) kind v tg logo k u = Inr (Granted u' data days)" "r = result ''ok'' data"
    and b: "books clk (redeem_scope kind) key u u'
      (map_option (\<lambda>d. (''registration_days'', d, get_balance US u')) days)
      (tbl_put code_code (mark_used clk tg db k) (codes db)) r db db'"
  have "codes_change (codes db) (tbl_put code_code (mark_used clk tg db k) (codes db))"
    using k by (intro code_redeemed [where now = "now_local clk"])
      (auto simp: codes_get_for_update_def mark_used_def)
  with k b apply_kind_Granted(1) [OF k(5)] show ?thesis
    by (intro effect_booked [where u = u' and ?u0.0 = u]) (auto simp: res_ok_def)
qed (auto intro: effect_refused effect_replayed)

lemma purchase_effect:
  assumes "purchase_registration_codes clk tg new days cost m actor key db = (Inr r, db')"
  shows "code_effect (PurchaseCodes clk tg new days cost m actor key) (Inr r) db db'"
  using purchase_step [OF assms]
proof (elim disjE exE conjE)
  fix u
  assume "emby_tg u = tg" "stored_answer purchase_codes_scope key db = None"
    "r = result ''ok'' [(''balance'', JInt (get_balance IV u - cost)), (''count'', JInt (int (length new)))]"
    "books clk purchase_codes_scope key u (u\<lparr>emby_iv := Some (get_balance IV u - cost)\<rparr>)
         (Some (''coins'', - cost, get_balance IV u - cost))
         (codes db @ map (\<lambda>v. new_code v tg days) new) r db db'"
  then show ?thesis
    by (intro effect_booked [where u = "u\<lparr>emby_iv := Some (get_balance IV u - cost)\<rparr>" and ?u0.0 = u])
      (auto simp: res_ok_def intro: codes_added simp del: get_balance.simps)
qed (auto intro: effect_refused effect_replayed)

lemma generate_effect:
  assumes "generate clk rnd kind days count logo tg acc ex actor db = (Inr r, db')"
  shows "code_effect (Generate clk rnd kind days count logo tg acc ex actor) (Inr r) db db'"
  using generate_step [OF assms]
  by (elim disjE conjE) (simp add: effect_refused, rule effect_codes [OF _ codes_added], simp_all)

lemma revoke_effect:
  assumes "revoke clk v actor db = (Inr r, db')"
  shows "code_effect (Revoke clk v actor) (Inr r) db db'"
  using revoke_step [OF assms]
  by (elim disjE exE conjE)
    (simp add: effect_refused, rule effect_codes [OF _ code_revoked], simp_all add: codes_get_for_update_def)

lemma code_call_effect: "code_effect c (fst (code_call c db)) db (snd (code_call c db))"
proof (cases "fst (code_call c db)")
  case (Inl e)
  with code_call_failed [of c db e] show ?thesis by (simp add: effect_raised)
next
  case (Inr r)
  then have call: "code_call c db = (Inr r, snd (code_call c db))" by (metis prod.collapse)
  show ?thesis
  proof (cases c)
    case (Generate clk rnd kind days count logo tg acc ex actor)
    with call show ?thesis using generate_effect by (metis code_call.simps(1) fst_conv)
  next
    case (Revoke clk v actor)
    with call show ?thesis using revoke_effect by (metis code_call.simps(2) fst_conv)
  next
    case (Redeem clk kind v tg actor logo key)
    with call show ?thesis using redeem_effect by (metis code_call.simps(3) fst_conv)
  next
    case (PurchaseCodes clk tg new days cost m actor key)
    with call show ?thesis using purchase_effect by (metis code_call.simps(4) fst_conv)
  qed
qed

interpretation code_books: booked_service code_call
  "\<lambda>k. balance_of (fst k) (snd k)" "\<lambda>k. posted (fst k) (snd k)"
proof unfold_locales
  fix k and c and db :: "'z core_db_scheme"
  show "balance_of (fst k) (snd k) (snd (code_call c db)) - balance_of (fst k) (snd k) db =
    posted (fst k) (snd k) (snd (code_call c db)) - posted (fst k) (snd k) db"
    using code_call_effect [of c db]
    by cases (simp_all add: books_explained balance_of_cong [OF only_codes_frame(3)] only_codes_frame(4))
qed

lemma code_answer_replays: "code_answer c db = Some r \<Longrightarrow> code_call c db = (Inr r, db)"
  by (cases c)
    (auto simp: code_answer_def redeem_def purchase_registration_codes_def Let_def keyed_call_replays
      split: if_splits)

lemma code_answer_remembers:
  assumes "code_answer c db = Some r"
  shows "code_answer c (snd (code_call d db)) = Some r"
  using code_call_effect [of d db]
proof cases
  case (effect_codes cs r')
  with assms show ?thesis
    by (auto simp: code_answer_def only_codes_frame(3,5) code_call_integrity split: option.splits if_splits)
next
  case (effect_booked u0 u r' cs clk p)
  with assms books_remembers [OF effect_booked(7)] show ?thesis
    by (auto simp: code_answer_def books_users [OF effect_booked(7)] code_call_integrity
        split: option.splits if_splits)
qed (use assms in simp_all)

lemma code_answer_records:
  assumes call: "code_call c db = (Inr r, db')"
    and key: "code_user c \<noteq> None \<and> truthy_str (snd (code_scope_key c))" and ok: "res_ok r"
    and none: "code_answer c db = None"
  shows "code_answer c db' = Some (replay_of r)"
proof -
  have "integrity db'" using call key
    by (cases c) (auto simp: redeem_def purchase_registration_codes_def Let_def run_uow_Inr)
  moreover have "code_effect c (Inr r) db db'" using code_call_effect [of c db] call by simp
  then show ?thesis
  proof cases
    case (effect_booked u0 u cs clk p)
    then show ?thesis
      using books_stored [OF effect_booked(6)] books_users [OF effect_booked(6)] calculation key
      by (auto simp: code_answer_def)
  qed (use calculation key ok none in \<open>auto simp: code_answer_def\<close>)
qed

interpretation code_once: idempotent_service code_call code_answer
  "\<lambda>c. code_user c \<noteq> None \<and> truthy_str (snd (code_scope_key c))" res_ok replay_of
  by unfold_locales (auto intro: code_answer_replays code_answer_records code_answer_remembers)

lemma code_call_mirror: "integrity db \<Longrightarrow> mirror_ok db \<Longrightarrow> mirror_ok (snd (code_call c db))"
  using code_call_effect [of c db] by cases (auto intro: books_mirror only_codes_mirror)

interpretation code_mirror: transactional code_call "\<lambda>db. integrity db \<and> mirror_ok db"
  by unfold_locales (auto intro: code_call_failed code_call_integrity code_call_mirror)

lemma code_call_codes: "codes_change (codes db) (codes (snd (code_call c db)))"
  using code_call_effect [of c db]
  by cases (auto simp: codes_change_refl only_codes_frame(1) service_write_codes [OF books_write])

end
