(* ===== verification/Code_Lifecycle.thy ===== *)
theory Code_Lifecycle
  imports Code_Service Point_Properties
begin

section \<open>The life of a code, and the properties of the code service\<close>

text \<open>
  The codes table refines a three-state machine per code: every call of the service, and so
  every sequence of calls, moves each code along \<open>phase_step\<close> or leaves it. The properties
  of the code service follow.
\<close>

text \<open>
  The abstract state of a code: fresh, closed (revoked or expired), or redeemed by a user. A
  fresh code is redeemed or closed; nothing leads out of the other two.
\<close>

datatype phase = Fresh | Closed | Redeemed int

definition code_phase :: "code_row \<Rightarrow> phase" where
  "code_phase c =
     (case code_used c of
        Some tg \<Rightarrow> Redeemed tg
      | None \<Rightarrow> if code_status c = None \<or> code_status c = Some ''active'' then Fresh else Closed)"

inductive phase_step :: "phase \<Rightarrow> phase \<Rightarrow> bool" where
  phase_redeemed: "phase_step Fresh (Redeemed tg)"
| phase_closed: "phase_step Fresh Closed"

inductive_simps phase_step_simps [simp]:
  "phase_step (Redeemed tg) p" "phase_step Closed p" "phase_step p Fresh"

lemma final_phase: "phase_step\<^sup>*\<^sup>* p q \<Longrightarrow> p \<noteq> Fresh \<Longrightarrow> q = p"
  by (induction rule: rtranclp_induct) (auto elim: phase_step.cases)

definition phase_of :: "string \<Rightarrow> 'z core_db_scheme \<Rightarrow> phase option" where
  "phase_of v db = map_option code_phase (codes_get_for_update v db)"

lemma codes_change_phase:
  assumes "codes_change cs cs'" and "tbl_get code_code v cs = Some c"
  shows "\<exists>c'. tbl_get code_code v cs' = Some c' \<and> phase_step\<^sup>*\<^sup>* (code_phase c) (code_phase c')"
  using assms
proof cases
  case (codes_added new)
  with assms(2) show ?thesis by (simp add: tbl_get_append)
next
  case (code_redeemed v' c0 now c1 tg)
  have "code_code c0 = v'" by (rule tbl_get_key [OF code_redeemed(2)])
  moreover have "phase_step\<^sup>*\<^sup>* (code_phase c0) (code_phase c1)"
    using code_redeemed by (auto simp: code_phase_def code_open_def intro: phase_redeemed)
  ultimately show ?thesis
    using assms(2) code_redeemed tbl_get_put_same [of code_code c1 cs] tbl_get_put_other [of v code_code c1 cs]
    by (cases "v = v'") auto
next
  case (code_expired v' c0 now)
  define c1 where "c1 = c0\<lparr>code_status := Some ''expired''\<rparr>"
  have key: "code_code c1 = v'" using tbl_get_key [OF code_expired(2)] by (simp add: c1_def)
  have "phase_step\<^sup>*\<^sup>* (code_phase c0) (code_phase c1)"
    using code_expired by (auto simp: code_phase_def code_overdue_def c1_def intro: phase_closed)
  then show ?thesis
    using assms(2) code_expired key tbl_get_put_same [of code_code c1 cs] tbl_get_put_other [of v code_code c1 cs]
    unfolding c1_def [symmetric] by (cases "v = v'") auto
next
  case (code_revoked v' c0)
  define c1 where "c1 = c0\<lparr>code_status := Some ''revoked''\<rparr>"
  have key: "code_code c1 = v'" using tbl_get_key [OF code_revoked(2)] by (simp add: c1_def)
  have "phase_step\<^sup>*\<^sup>* (code_phase c0) (code_phase c1)"
    using code_revoked by (auto simp: code_phase_def c1_def intro: phase_closed)
  then show ?thesis
    using assms(2) code_revoked key tbl_get_put_same [of code_code c1 cs] tbl_get_put_other [of v code_code c1 cs]
    unfolding c1_def [symmetric] by (cases "v = v'") auto
qed

lemma code_call_phase:
  "phase_of v db = Some p \<Longrightarrow> \<exists>q. phase_of v (snd (code_call c db)) = Some q \<and> phase_step\<^sup>*\<^sup>* p q"
  using codes_change_phase [OF code_call_codes] by (fastforce simp: phase_of_def codes_get_for_update_def)

lemma code_calls_phase:
  "phase_of v db = Some p \<Longrightarrow>
   \<exists>q. phase_of v (fold (\<lambda>c db. snd (code_call c db)) cs db) = Some q \<and> phase_step\<^sup>*\<^sup>* p q"
proof (induction cs arbitrary: db p)
  case (Cons c cs)
  obtain q where "phase_of v (snd (code_call c db)) = Some q" "phase_step\<^sup>*\<^sup>* p q"
    using code_call_phase [OF Cons.prems] by blast
  with Cons.IH [of "snd (code_call c db)" q] show ?case by auto
qed simp

lemma redeemed_code_phase:
  assumes "redeem clk kind v tg actor logo key db = (Inr r, db')" and "res_ok r"
    and "stored_answer (redeem_scope kind) key db = None"
  shows "phase_of v db = Some Fresh" and "phase_of v db' = Some (Redeemed tg)"
proof -
  from redeem_step [OF assms(1)] assms(2,3) obtain u c u' data days where
    c: "codes_get_for_update v db = Some c" "code_open (now_local clk) c"
    and b: "books clk (redeem_scope kind) key u u' (map_option (\<lambda>d. (''registration_days'', d, get_balance US u')) days)
         (tbl_put code_code (mark_used clk tg db c) (codes db)) r db db'"
    by (auto simp: res_ok_def)
  show "phase_of v db = Some Fresh" using c by (auto simp: phase_of_def code_phase_def code_open_def)
  have "code_code (mark_used clk tg db c) = v" using code_repo.get_key [OF c(1)] by (simp add: mark_used_def)
  then show "phase_of v db' = Some (Redeemed tg)"
    using service_write_codes [OF books_write [OF b]] c(1) tbl_get_put_same [of code_code "mark_used clk tg db c" "codes db"]
    by (auto simp: phase_of_def codes_get_for_update_def code_phase_def mark_used_def)
qed

subsection \<open>Properties\<close>

text \<open>C2: A code is redeemed at most once. After a redemption that succeeded, and any sequence of
  calls of the service, the code is still held by the same user, and every further attempt to
  redeem it, of any kind, by anyone, leaves the database alone and succeeds only as the replay
  of a stored answer.\<close>

theorem redeemed_code_is_spent:
  assumes "redeem clk kind v tg actor logo key db = (Inr r, db1)" and "res_ok r"
    and "stored_answer (redeem_scope kind) key db = None"
    and "db2 = fold (\<lambda>c db. snd (code_call c db)) cs db1"
    and "redeem clk' kind' v tg' actor' logo' key' db2 = (Inr r', db3)"
  shows "phase_of v db2 = Some (Redeemed tg) \<and> db3 = db2 \<and>
    (res_ok r' \<longrightarrow> stored_answer (redeem_scope kind') key' db2 = Some r')"
proof -
  have p: "phase_of v db2 = Some (Redeemed tg)"
    using code_calls_phase [OF redeemed_code_phase(2) [OF assms(1-3)], of cs] final_phase assms(4) by fastforce
  then obtain c where "codes_get_for_update v db2 = Some c" "code_used c = Some tg"
    by (auto simp: phase_of_def code_phase_def split: option.splits if_splits)
  with redeem_step [OF assms(5)] p show ?thesis
    by (auto simp: code_overdue_def code_open_def)
qed

subsection \<open>When a redemption goes through\<close>

lemma integrity_codes_save_rows [simp]: "integrity (db\<lparr>codes := tbl_put code_code c (codes db)\<rparr>) = integrity db"
  by (simp add: integrity_def)

lemma consume_integrity:
  assumes "ready ''registration_days'' (redeem_scope kind) key db"
  shows "integrity (snd (consume clk kind v tg actor key c u data days db))"
proof -
  have "integrity (post clk tg reason actor key meta (map_option (\<lambda>d. (''registration_days'', d, b)) days) (users_save u db))"
    for reason meta b
    using assms by (cases days) (simp_all add: ready_def integrity_point_transaction)
  from this [of "''redeem_registration_code''" "Some (JDict [(''code'', JStr (secret_fingerprint v))])" "int_or_0 (emby_us u)"]
  have "integrity (case days of None \<Rightarrow> users_save u db
      | Some d \<Rightarrow> point_transaction clk tg ''registration_days'' d (int_or_0 (emby_us u))
          ''redeem_registration_code'' actor key (Some (JDict [(''code'', JStr (secret_fingerprint v))])) (users_save u db))"
    by (cases days) simp_all
  then show ?thesis
    unfolding consume_def Let_def snd_conv
    using assms by (intro integrity_save_idempotent) (auto simp: ready_def split: option.split)
qed

definition redeemable :: "string \<Rightarrow> emby_row \<Rightarrow> bool" where
  \<comment> \<open>what each kind asks of the user\<close>
  "redeemable kind u =
     ((kind \<in> {''whitelist'', ''renewal''} \<longrightarrow> truthy_str (emby_embyid u)) \<and>
      (kind = ''registration'' \<longrightarrow> \<not> truthy_str (emby_embyid u) \<and> int_or_0 (emby_us u) \<le> 0))"

lemma redeem_open:
  assumes "users_get_for_update tg db = Some u" and "ready ''registration_days'' (redeem_scope kind) key db"
    and "redeemable kind u" and "codes_get_for_update v db = Some c" and "code_open (now_local clk) c"
  shows "redeem clk kind v tg actor logo key db =
     (case apply_kind (now_local clk) kind v tg logo c u of
        Inl e \<Rightarrow> (Inl e, db)
      | Inr (Refused r) \<Rightarrow> (Inr r, db)
      | Inr (Granted u' data days) \<Rightarrow>
          (Inr (result ''ok'' data), snd (consume clk kind v tg actor key c u' data days db)))"
proof -
  have guards: "\<not> (kind \<in> {''whitelist'', ''renewal''} \<and> \<not> truthy_str (emby_embyid u))"
    "\<not> (kind = ''registration'' \<and> truthy_str (emby_embyid u))" "\<not> (kind = ''registration'' \<and> int_or_0 (emby_us u) > 0)"
    "\<not> (code_used c \<noteq> None)" "\<not> (code_status c \<notin> {None, Some ''active''})"
    "\<not> (case code_expires_at c of None \<Rightarrow> False | Some t \<Rightarrow> t \<le> now_local clk)"
    subgoal using assms(3) by (auto simp: redeemable_def)
    subgoal using assms(3) by (auto simp: redeemable_def)
    subgoal using assms(3) by (auto simp: redeemable_def)
    subgoal using assms(5) by (simp add: code_open_def)
    subgoal using assms(5) by (simp add: code_open_def)
    subgoal using assms(5) by (auto simp: code_open_def split: option.split)
    done
  note op = redeem_def Let_def run_uow_def assms(1,4) option.case ready_runs(1) [OF assms(2)]
    guards [THEN if_not_P] bind_attempt_simps sum.case redemption.case prod.case
  show ?thesis
  proof (cases "apply_kind (now_local clk) kind v tg logo c u")
    case (Inl e)
    show ?thesis unfolding op Inl ..
  next
    case (Inr red)
    show ?thesis
    proof (cases red)
      case (Refused r)
      show ?thesis unfolding op Inr Refused by (simp add: ready_runs [OF assms(2)])
    next
      case (Granted u' data days)
      have tg: "emby_tg u' = tg"
        using apply_kind_Granted(1) Inr Granted user_repo.get_key [OF assms(1)] by metis
      obtain db' where c: "consume clk kind v tg actor key c u' data days db = (result ''ok'' data, db')"
        using consume_write(1) [OF tg] by (metis prod.collapse)
      then have "integrity db'" using consume_integrity [OF assms(2)] by (metis snd_conv)
      then show ?thesis unfolding op Inr Granted c by simp
    qed
  qed
qed

lemma consume_user:
  assumes "emby_tg u' = tg" and "users_get_for_update tg db = Some u"
  shows "users_get_for_update tg (snd (consume clk kind v tg actor key c u' data days db)) = Some u'"
  using assms by (simp add: service_write_users [OF consume_write(2) [OF assms(1)]] user_repo.get_put)

lemma consume_phase:
  assumes "emby_tg u' = tg" and "codes_get_for_update v db = Some c"
  shows "phase_of v (snd (consume clk kind v' tg actor key c u' data days db)) = Some (Redeemed tg)"
proof -
  have "code_code (mark_used clk tg db c) = v" using code_repo.get_key [OF assms(2)] by (simp add: mark_used_def)
  then show ?thesis
    using assms(2) tbl_get_put_same [of code_code "mark_used clk tg db c" "codes db"]
    by (auto simp: service_write_codes [OF consume_write(2) [OF assms(1)]] phase_of_def
        codes_get_for_update_def code_phase_def mark_used_def)
qed

lemma consume_posted:
  assumes "emby_tg u' = tg"
  shows "posted tg ''registration_days'' (snd (consume clk kind v tg actor key c u' data days db)) =
    posted tg ''registration_days'' db + (case days of None \<Rightarrow> 0 | Some d \<Rightarrow> d)"
  using assms by (simp add: service_write_posted [OF consume_write(2) [OF assms]] split: option.split)

text \<open>Renewal with an open code. The new expiry is the code's days after the later of now and
  the old expiry, a user past the expiry whose level is \<open>c\<close> is restored to \<open>b\<close>, and the code is
  spent; an expiry beyond the calendar raises and changes nothing.\<close>

theorem renewal_outcome:
  assumes "users_get_for_update tg db = Some u" and "ready ''registration_days'' (redeem_scope ''renewal'') key db"
    and "truthy_str (emby_embyid u)" and "codes_get_for_update v db = Some c" and "code_open (now_local clk) c"
  shows "let now = now_local clk; old = (case emby_ex u of None \<Rightarrow> now | Some t \<Rightarrow> t);
             new = max now old + int_or_0 (code_us c) * day;
             (x, db') = redeem_renewal clk v tg actor key db
         in if 0 \<le> new \<and> new \<le> max_datetime
            then (\<exists>data. x = Inr (result ''ok'' data)) \<and> phase_of v db' = Some (Redeemed tg) \<and>
              (\<exists>u'. users_get_for_update tg db' = Some u' \<and> emby_ex u' = Some new \<and>
                 emby_lv u' = (if old < now \<and> emby_lv u = Some ''c'' then Some ''b'' else emby_lv u) \<and>
                 emby_us u' = emby_us u \<and> emby_iv u' = emby_iv u)
            else x = Inl OverflowError \<and> db' = db"
proof -
  define now old where "now = now_local clk" and "old = (case emby_ex u of None \<Rightarrow> now | Some t \<Rightarrow> t)"
  define new where "new = max now old + int_or_0 (code_us c) * day"
  have r: "redeemable ''renewal'' u" using assms(3) by (simp add: redeemable_def)
  have mx: "max now old = (if old < now then now else old)" by auto
  note op = redeem_open [OF assms(1,2) r assms(4,5)]
  show ?thesis
  proof (cases "0 \<le> new \<and> new \<le> max_datetime")
    case True
    define u' where "u' = (if old < now \<and> emby_lv u = Some ''c'' then u\<lparr>emby_lv := Some ''b''\<rparr> else u)\<lparr>emby_ex := Some new\<rparr>"
    obtain data where "apply_kind now ''renewal'' v tg None c u = Inr (Granted u' data None)"
      using True unfolding apply_kind_def Let_def old_def [symmetric]
      by (auto simp: dt_add_def u'_def new_def mx)
    moreover have "emby_tg u' = tg" using user_repo.get_key [OF assms(1)] by (simp add: u'_def)
    ultimately show ?thesis
      using True assms(1,4)
      by (simp add: redeem_renewal_def op now_def [symmetric] old_def [symmetric] new_def [symmetric] Let_def
          consume_user consume_phase) (auto simp: u'_def)
  next
    case False
    then have "apply_kind now ''renewal'' v tg None c u = Inl OverflowError"
      unfolding apply_kind_def Let_def old_def [symmetric] by (auto simp: dt_add_def new_def mx)
    with False show ?thesis
      by (simp add: redeem_renewal_def op now_def [symmetric] old_def [symmetric] new_def [symmetric] Let_def)
  qed
qed

text \<open>Registration with an open code, for a user without a media account and without
  registration days. A code whose prefix is neither the site's logo nor the user's own id is
  refused with nothing changed; any other gives the user the code's days, booked as one
  transaction, and is spent.\<close>

theorem registration_outcome:
  assumes "users_get_for_update tg db = Some u" and "ready ''registration_days'' (redeem_scope ''registration'') key db"
    and "\<not> truthy_str (emby_embyid u)" and "get_balance US u \<le> 0"
    and "codes_get_for_update v db = Some c" and "code_open (now_local clk) c"
  shows "let days = int_or_0 (code_us c); (x, db') = redeem_registration clk v tg logo actor key db
         in if code_prefix v \<noteq> logo \<and> code_prefix v \<noteq> show_int tg
            then x = Inr (result ''forbidden'' []) \<and> db' = db
            else x = Inr (result ''ok'' [(''issuer_tg'', jopt_int (code_tg c)), (''days'', jopt_int (code_us c))]) \<and>
              users_get_for_update tg db' = Some (u\<lparr>emby_us := Some (get_balance US u + days)\<rparr>) \<and>
              posted tg ''registration_days'' db' = posted tg ''registration_days'' db + days \<and>
              phase_of v db' = Some (Redeemed tg)"
proof -
  have r: "redeemable ''registration'' u" using assms(3,4) by (simp add: redeemable_def)
  note op = redeem_open [OF assms(1,2) r assms(5,6)]
  show ?thesis
    using assms(1,5) user_repo.get_key [OF assms(1)]
    by (simp add: redeem_registration_def op apply_kind_def str_of_opt_def Let_def
        consume_user consume_phase consume_posted)
qed

text \<open>C13: A code past its expiry is never redeemed: whatever the user and the kind, the answer is a
  refusal or a replay, and the only change an attempt makes is to mark the code expired, after
  which it is closed for good.\<close>

theorem overdue_code_refused:
  assumes "codes_get_for_update v db = Some c" and "code_overdue (now_local clk) c"
    and "redeem clk kind v tg actor logo key db = (Inr r, db1)"
    and "stored_answer (redeem_scope kind) key db = None"
    and "db2 = fold (\<lambda>c db. snd (code_call c db)) cs db1"
  shows "\<not> res_ok r \<and> (db1 = db \<or> db1 = codes_save (c\<lparr>code_status := Some ''expired''\<rparr>) db) \<and>
    (db1 \<noteq> db \<longrightarrow> phase_of v db2 = Some Closed)"
proof -
  have no: "\<not> code_open (now_local clk) c"
    using assms(2) by (auto simp: code_open_def code_overdue_def split: option.splits)
  have key: "code_code c = v" using code_repo.get_key [OF assms(1)] .
  have "phase_of v (codes_save (c\<lparr>code_status := Some ''expired''\<rparr>) db) = Some Closed"
    using code_repo.get_modified [OF assms(1), of "c\<lparr>code_status := Some ''expired''\<rparr>"] key assms(2)
    by (simp add: phase_of_def code_phase_def code_overdue_def)
  then have closed: "phase_of v db2 = Some Closed" if "db1 = codes_save (c\<lparr>code_status := Some ''expired''\<rparr>) db"
    using code_calls_phase [of v db1 Closed cs] final_phase that assms(5) by fastforce
  show ?thesis
    using redeem_step [OF assms(3)] assms(1,4) no closed by (auto simp: res_ok_def)
qed

text \<open>What generation promises. On success the requested number of codes has been appended,
  no two codes of the table are equal, and each new code is at most 50 characters long and
  fresh; a request whose kind, count or duration is out of range is refused with nothing
  changed.\<close>

theorem generate_outcome:
  assumes "generate clk rnd kind days count logo tg acc ex actor db = (Inr r, db')"
  shows "if kind \<in> {''registration'', ''renewal'', ''whitelist''} \<and> 1 \<le> count \<and> count \<le> 500 \<and>
            (kind \<noteq> ''whitelist'' \<longrightarrow> 1 \<le> days \<and> days \<le> 3650) \<and>
            (\<forall>i < nat count. py_len (code_value kind days logo (rnd i)) \<le> 50)
         then res_ok r \<and> distinct (map code_code (codes db')) \<and>
           (\<exists>new. codes db' = codes db @ new \<and> length new = nat count \<and>
             (\<forall>i < nat count. code_code (new ! i) = code_value kind days logo (rnd i) \<and>
                code_phase (new ! i) = Fresh \<and> py_len (code_code (new ! i)) \<le> 50))
         else \<not> res_ok r \<and> db' = db"
proof -
  define vs where "vs = map (\<lambda>i. code_value kind days logo (rnd i)) [0..<nat count]"
  have long: "list_ex (\<lambda>v. py_len v > 50) vs = (\<not> (\<forall>i < nat count. py_len (code_value kind days logo (rnd i)) \<le> 50))"
    by (auto simp: vs_def list_ex_iff not_le)
  note d = assms [unfolded generate_def Let_def, folded vs_def]
  show ?thesis (is "if ?ok then ?good else ?bad")
  proof (cases ?ok)
    case True
    then have run: "\<not> (kind \<notin> {''registration'', ''renewal'', ''whitelist''})"
      "\<not> (count < 1 \<or> 500 < count \<or> kind \<noteq> ''whitelist'' \<and> (days < 1 \<or> 3650 < days))"
      "\<not> list_ex (\<lambda>v. 50 < py_len v) vs" using long by auto
    have "res_ok r" "integrity db'" using d [unfolded run [THEN if_not_P]]
      by (auto simp: run_uow_Inr res_ok_def)
    moreover have cs: "codes db' = codes db @ issued kind days tg acc ex vs"
      using generate_step [OF assms] \<open>res_ok r\<close> only_codes_frame(1) vs_def by blast
    moreover have "code_code (issued kind days tg acc ex vs ! i) = code_value kind days logo (rnd i) \<and>
        code_phase (issued kind days tg acc ex vs ! i) = Fresh" if "i < nat count" for i
      using that by (simp add: issued_def vs_def new_code_def code_phase_def)
    moreover have "length (issued kind days tg acc ex vs) = nat count" by (simp add: issued_def vs_def)
    ultimately have ?good using True by (auto simp: integrity_def)
    with True show ?thesis by simp
  next
    case False
    have "\<not> res_ok r \<and> db' = db"
    proof (cases "kind \<notin> {''registration'', ''renewal'', ''whitelist''}")
      case True
      with d show ?thesis by (auto simp: res_ok_def)
    next
      case k: False
      show ?thesis
      proof (cases "count < 1 \<or> 500 < count \<or> kind \<noteq> ''whitelist'' \<and> (days < 1 \<or> 3650 < days)")
        case True
        then show ?thesis using d [unfolded k [THEN if_not_P] True [THEN if_P]] by (auto simp: res_ok_def)
      next
        case c: False
        then have "list_ex (\<lambda>v. 50 < py_len v) vs" using False k long by auto
        then show ?thesis using d [unfolded k [THEN if_not_P] c [THEN if_not_P]] by (auto simp: res_ok_def)
      qed
    qed
    with False show ?thesis by (simp only: if_False simp_thms)
  qed
qed

subsection \<open>The properties on sample data\<close>

lemma sample_code_found: "codes_get_for_update ''S-30-Register_x'' sample_db = Some sample_code"
  by (simp add: op_defs sample_defs)

lemma sample_code_open: "code_open (now_local sample_clock) sample_code"
  by (simp add: code_open_def sample_defs)

lemma sample_redeem:
  "\<exists>db1. redeem sample_clock ''registration'' ''S-30-Register_x'' 7 sample_actor (Some ''S'') None sample_db =
     (Inr (result ''ok'' [(''issuer_tg'', JInt 1), (''days'', JInt 30)]), db1) \<and> integrity db1 \<and>
     users_get_for_update 7 db1 = Some (sample_user\<lparr>emby_us := Some 30\<rparr>)"
proof -
  have r: "redeemable ''registration'' sample_user" by (simp add: redeemable_def)
  have a: "apply_kind (now_local sample_clock) ''registration'' ''S-30-Register_x'' 7 (Some ''S'') sample_code sample_user =
      Inr (Granted (sample_user\<lparr>emby_us := Some 30\<rparr>) [(''issuer_tg'', JInt 1), (''days'', JInt 30)] (Some 30))"
    by (simp add: apply_kind_def code_prefix_def str_of_opt_def sample_code_def new_code_def)
  show ?thesis
    using redeem_open [where clk = sample_clock and actor = sample_actor and logo = "Some ''S''",
        OF sample_db_user sample_ready r sample_code_found sample_code_open]
      consume_integrity [OF sample_ready] consume_user [OF _ sample_db_user]
    by (simp add: a)
qed

theorem registration_outcome_witness:
  "fst (redeem_registration sample_clock ''S-30-Register_x'' 7 ''S'' sample_actor None sample_db) =
     Inr (result ''ok'' [(''issuer_tg'', JInt 1), (''days'', JInt 30)])"
  using registration_outcome [of 7 sample_db sample_user None "''S-30-Register_x''" sample_code sample_clock "''S''" sample_actor]
  by (simp add: sample_code_found sample_code_open Let_def split_def code_prefix_def)
     (simp add: sample_defs)

theorem renewal_outcome_witness:
  "\<exists>data. fst (redeem_renewal sample_clock ''S-30-Register_x'' 7 sample_actor None
      (sample_db\<lparr>embys := [sample_user\<lparr>emby_embyid := Some ''e7''\<rparr>]\<rparr>)) = Inr (result ''ok'' data)"
  using renewal_outcome [of 7 "sample_db\<lparr>embys := [sample_user\<lparr>emby_embyid := Some ''e7''\<rparr>]\<rparr>"
      "sample_user\<lparr>emby_embyid := Some ''e7''\<rparr>" None "''S-30-Register_x''" sample_code sample_clock sample_actor]
  by (simp add: op_defs sample_code_open Let_def split_def ready_def sources_below_def ledger_key_free_def integrity_def)
     (simp add: sample_defs)

definition overdue_code :: code_row where
  "overdue_code = sample_code\<lparr>code_expires_at := Some (999 * day)\<rparr>"

theorem overdue_code_refused_witness:
  "\<exists>r db1. redeem sample_clock ''registration'' ''S-30-Register_x'' 7 sample_actor (Some ''S'') None
      (sample_db\<lparr>codes := [overdue_code]\<rparr>) = (Inr r, db1) \<and> \<not> res_ok r \<and>
      phase_of ''S-30-Register_x'' (snd (code_call (Revoke sample_clock ''S-30-Register_x'' sample_actor) db1)) = Some Closed"
proof -
  let ?db = "sample_db\<lparr>codes := [overdue_code]\<rparr>"
  have found: "codes_get_for_update ''S-30-Register_x'' ?db = Some overdue_code"
    by (simp add: op_defs overdue_code_def sample_defs)
  have over: "code_overdue (now_local sample_clock) overdue_code"
    by (simp add: code_overdue_def overdue_code_def sample_defs)
  obtain r db1 where call: "redeem sample_clock ''registration'' ''S-30-Register_x'' 7 sample_actor (Some ''S'') None ?db = (Inr r, db1)"
      "db1 = codes_save (overdue_code\<lparr>code_status := Some ''expired''\<rparr>) ?db"
    by (simp add: redeem_def Let_def run_uow_def replay_or_def get_idempotent_result_def found)
       (simp add: op_defs overdue_code_def sample_defs integrity_def)
  have "stored_answer (redeem_scope ''registration'') None ?db = None"
    by (simp add: stored_answer_def get_idempotent_result_def)
  moreover have "db1 \<noteq> ?db"
    by (simp add: call(2) codes_save_def overdue_code_def sample_defs)
  moreover have "\<not> res_ok r \<and> (db1 = ?db \<or> db1 = codes_save (overdue_code\<lparr>code_status := Some ''expired''\<rparr>) ?db) \<and>
      (db1 \<noteq> ?db \<longrightarrow> phase_of ''S-30-Register_x''
         (snd (code_call (Revoke sample_clock ''S-30-Register_x'' sample_actor) db1)) = Some Closed)"
    by (rule overdue_code_refused [OF found over call(1), of _ "[Revoke sample_clock ''S-30-Register_x'' sample_actor]"])
      (simp_all add: stored_answer_def get_idempotent_result_def)
  ultimately show ?thesis using call(1) by blast
qed

theorem redeemed_code_is_spent_witness:
  "\<exists>r db1 r' db3. redeem sample_clock ''registration'' ''S-30-Register_x'' 7 sample_actor (Some ''S'') None sample_db = (Inr r, db1) \<and>
     redeem sample_clock ''registration'' ''S-30-Register_x'' 7 sample_actor (Some ''S'') None db1 = (Inr r', db3) \<and>
     res_ok r \<and> \<not> res_ok r' \<and> db3 = db1"
proof -
  have none: "stored_answer scope None db = None" for scope and db :: core_db
    by (simp add: stored_answer_def get_idempotent_result_def)
  obtain db1 where first: "redeem sample_clock ''registration'' ''S-30-Register_x'' 7 sample_actor (Some ''S'') None sample_db =
     (Inr (result ''ok'' [(''issuer_tg'', JInt 1), (''days'', JInt 30)]), db1)" "integrity db1"
     "users_get_for_update 7 db1 = Some (sample_user\<lparr>emby_us := Some 30\<rparr>)"
    using sample_redeem by blast
  obtain r' db3 where second: "redeem sample_clock ''registration'' ''S-30-Register_x'' 7 sample_actor (Some ''S'') None db1 = (Inr r', db3)"
    using first(2,3) by (simp add: redeem_def Let_def run_uow_def replay_or_def get_idempotent_result_def)
  have ok: "res_ok (result ''ok'' [(''issuer_tg'', JInt 1), (''days'', JInt 30)])" by (simp add: res_ok_def)
  show ?thesis
    using redeemed_code_is_spent [OF first(1) ok none, of db1 "[]", OF _ second] first(1) second ok none by auto
qed

theorem generate_outcome_witness:
  "\<exists>r db'. generate sample_clock (\<lambda>i. if i = 0 then ''a'' else ''b'') ''registration'' 30 2 ''S'' 1 None None sample_actor sample_db =
     (Inr r, db') \<and> res_ok r \<and> distinct (map code_code (codes db'))"
proof -
  have days: "show_int 30 = ''30''" by code_simp
  obtain r db' where call: "generate sample_clock (\<lambda>i. if i = 0 then ''a'' else ''b'') ''registration'' 30 2 ''S'' 1
      None None sample_actor sample_db = (Inr r, db')"
    by (simp add: generate_def Let_def run_uow_def code_value_def days py_len_def
        continuation_def numeral_2_eq_2)
       (simp add: sample_defs codes_add_rows_def integrity_def)
  have "\<forall>i < nat 2. py_len (code_value ''registration'' 30 ''S'' (if i = 0 then ''a'' else ''b'')) \<le> 50"
    by (simp add: code_value_def days py_len_def continuation_def)
  with generate_outcome [OF call] show ?thesis using call by auto
qed

end
