(* ===== verification/Uuid.thy ===== *)
theory Uuid
  imports Sha256
begin

section \<open>Name-based UUIDs of the standard library\<close>

text \<open>
  \<open>uuid5\<close> is SHA-1 of the namespace's bytes and the name, cut to 16 bytes, with the version and
  variant bits set. The user service derives the ids of canonical accounts with it, so the id
  is a function of the Telegram id. \<open>uuid4\<close> is random: its result is an argument of the
  operations that use it.
\<close>

definition rotl32 :: "nat \<Rightarrow> w32 \<Rightarrow> w32" where
  "rotl32 n x = (push_bit n x OR drop_bit (32 - n) x)"

definition sha1_init :: "w32 list" where
  "sha1_init = [0x67452301, 0xEFCDAB89, 0x98BADCFE, 0x10325476, 0xC3D2E1F0]"

text \<open>The schedule is kept newest word first.\<close>

definition sha1_next :: "w32 list \<Rightarrow> w32" where
  "sha1_next w = rotl32 1 (w ! 2 XOR w ! 7 XOR w ! 13 XOR w ! 15)"

fun sha1_schedule :: "nat \<Rightarrow> w32 list \<Rightarrow> w32 list" where
  "sha1_schedule 0 w = rev w"
| "sha1_schedule (Suc n) w = sha1_schedule n (sha1_next w # w)"

definition sha1_f :: "nat \<Rightarrow> w32 \<Rightarrow> w32 \<Rightarrow> w32 \<Rightarrow> w32 \<times> w32" where
  "sha1_f i b c d =
     (if i < 20 then ((b AND c) OR (NOT b AND d), 0x5A827999)
      else if i < 40 then (b XOR c XOR d, 0x6ED9EBA1)
      else if i < 60 then ((b AND c) OR (b AND d) OR (c AND d), 0x8F1BBCDC)
      else (b XOR c XOR d, 0xCA62C1D6))"

fun sha1_round :: "w32 list \<Rightarrow> nat \<times> w32 \<Rightarrow> w32 list" where
  "sha1_round [a, b, c, d, e] (i, w) =
     (let (f, k) = sha1_f i b c d
      in [rotl32 5 a + f + e + k + w, a, rotl32 30 b, c, d])"
| "sha1_round hs _ = hs"

definition sha1_block :: "w32 list \<Rightarrow> nat list \<Rightarrow> w32 list" where
  "sha1_block hs blk =
     (let ws = sha1_schedule 64 (rev (map word_of_bytes (chunks 4 blk)))
      in map2 (+) hs (foldl sha1_round hs (enumerate 0 ws)))"

definition sha1_bytes :: "nat list \<Rightarrow> nat list" where
  "sha1_bytes bs =
     concat (map (\<lambda>w. map (\<lambda>i. byte_at i (unat w)) [3, 2, 1, 0])
       (foldl sha1_block sha1_init (chunks 64 (sha_pad bs))))"

definition NAMESPACE_URL :: "nat list" where
  "NAMESPACE_URL =
     [0x6b, 0xa7, 0xb8, 0x11, 0x9d, 0xad, 0x11, 0xd1, 0x80, 0xb4, 0x00, 0xc0, 0x4f, 0xd4, 0x30, 0xc8]"

definition hex_byte :: "nat \<Rightarrow> string" where
  "hex_byte n = [hex_digit (n div 16), hex_digit (n mod 16)]"

definition uuid_text :: "nat list \<Rightarrow> string" where
  "uuid_text bs =
     (let h = concat (map hex_byte bs)
      in take 8 h @ ''-'' @ take 4 (drop 8 h) @ ''-'' @ take 4 (drop 12 h) @ ''-'' @
         take 4 (drop 16 h) @ ''-'' @ drop 20 h)"

definition uuid5 :: "nat list \<Rightarrow> string \<Rightarrow> string" where
  "uuid5 namespace name =
     (let h = take 16 (sha1_bytes (namespace @ map of_char name));
          v = h[6 := h ! 6 mod 16 + 80, 8 := h ! 8 mod 64 + 128]
      in uuid_text v)"

lemma length_uuid_text: "length bs = 16 \<Longrightarrow> length (uuid_text bs) = 36"
proof -
  assume 16: "length bs = 16"
  have "length (concat (map hex_byte bs)) = 2 * length bs"
    by (induction bs) (simp_all add: hex_byte_def)
  with 16 show ?thesis by (simp add: uuid_text_def Let_def)
qed

text \<open>A derived id is never empty, so an account that has one counts as present.\<close>

lemma uuid5_nonempty [simp]: "uuid5 namespace name \<noteq> []"
  by (simp add: uuid5_def uuid_text_def Let_def)

end
