(* ===== verification/User_Service.thy ===== *)
theory User_Service
  imports Balances Uuid Samples
begin

section \<open>Users: creation, field updates and registration\<close>

text \<open>
  \<open>UserService\<close> of \<open>bot/application/user_service.py\<close>. \<open>ensure_user\<close> creates the legacy row and
  the canonical account with its Telegram identity and two wallets; \<open>update_user\<close> writes a
  dictionary of columns; \<open>complete_registration\<close> binds a media account and consumes the
  registration days.
\<close>

subsection \<open>Creation\<close>

definition account_id_of :: "int \<Rightarrow> string" where
  "account_id_of tg = uuid5 NAMESPACE_URL (''sakura-account:'' @ show_int tg)"

definition identity_id_of :: "int \<Rightarrow> string" where
  "identity_id_of tg = uuid5 NAMESPACE_URL (''sakura-identity:telegram:'' @ show_int tg)"

definition new_account :: "clock \<Rightarrow> int \<Rightarrow> account_row" where
  "new_account clk tg =
     \<lparr>acc_id = account_id_of tg, acc_legacy_tg = tg,
      acc_display_name = Some (''TG '' @ show_int tg), acc_status = ''active'',
      acc_created_at = now_utc clk, acc_updated_at = now_utc clk\<rparr>"

definition new_identity :: "clock \<Rightarrow> int \<Rightarrow> identity_row" where
  "new_identity clk tg =
     \<lparr>idn_id = identity_id_of tg, idn_account_id = account_id_of tg, idn_provider = ''telegram'',
      idn_subject = show_int tg, idn_username = None, idn_username_normalized = None,
      idn_password_hash = None, idn_verified_at = Some (now_utc clk), idn_last_used_at = None,
      idn_disabled = False, idn_metadata = None,
      idn_created_at = now_utc clk, idn_updated_at = now_utc clk\<rparr>"

definition new_wallet :: "clock \<Rightarrow> int \<Rightarrow> string \<Rightarrow> int option \<Rightarrow> int \<Rightarrow> wallet_row" where
  "new_wallet clk tg balance_type value i =
     \<lparr>wal_id = i, wal_account_id = account_id_of tg, wal_balance_type = balance_type,
      wal_balance = int_or_0 value, wal_revision = 1, wal_updated_at = now_utc clk\<rparr>"

definition add_canonical_account :: "clock \<Rightarrow> int \<Rightarrow> emby_row \<Rightarrow> 'z core_db_scheme \<Rightarrow> 'z core_db_scheme" where
  "add_canonical_account clk tg user db =
     (let db1 = accounts_add_account (new_account clk tg) db;
          db2 = accounts_add_identity (new_identity clk tg) db1;
          db3 = accounts_add_wallet (new_wallet clk tg ''coins'' (emby_iv user)) db2
      in accounts_add_wallet (new_wallet clk tg ''registration_days'' (emby_us user)) db3)"

definition ensure_user ::
  "clock \<Rightarrow> int \<Rightarrow> actor option \<Rightarrow> 'z core_db_scheme \<Rightarrow> (service_result, 'z core_db_scheme) outcome" where
  "ensure_user clk tg actor0 db0 =
     (let actor = (case actor0 of None \<Rightarrow> actor_system ''user-service'' | Some a \<Rightarrow> a) in
      run_uow (\<lambda>db.
        let ((user, created), db1) = users_add_if_missing tg db;
            account = accounts_by_legacy_tg tg db1;
            account_created = (account = None);
            db2 = (if account_created then add_canonical_account clk tg user db1 else db1);
            account_id = (case account of None \<Rightarrow> account_id_of tg | Some a \<Rightarrow> acc_id a)
        in if \<not> created \<and> \<not> account_created then
             Inr (result ''ok'' [(''tg'', JInt tg), (''account_id'', JStr account_id),
                                 (''created'', JBool False)], db2)
           else
             let db3 = audit_success clk actor
                   (if created then ''user.create'' else ''account.canonical.backfill'') ''user''
                   (Some (show_int tg))
                   (Some (JDict [(''source'', JStr (actor_kind actor)), (''account_id'', JStr account_id)])) db2;
                 db4 = (if created then
                     event clk ''user.created'' ''user'' (Some (show_int tg))
                       (Some (JDict [(''tg'', JInt tg), (''account_id'', JStr account_id)])) db3
                   else
                     event clk ''account.created'' ''account'' (Some account_id)
                       (Some (JDict [(''tg'', JInt tg), (''account_id'', JStr account_id),
                                     (''source'', JStr ''legacy-backfill'')])) db3)
             in Inr (result ''ok'' [(''tg'', JInt tg), (''account_id'', JStr account_id),
                                    (''created'', JBool created)], db4)) db0)"

subsection \<open>Field updates\<close>

text \<open>
  One entry of the \<open>changes\<close> dictionary: a column of \<open>MUTABLE_FIELDS\<close> with its new value, or
  a name that is not among them.
\<close>

datatype user_change =
    ChEmbyid "string option" | ChName "string option" | ChPwd "string option" | ChPwd2 "string option"
  | ChLv "string option" | ChCr "datetime option" | ChEx "datetime option"
  | ChUs "int option" | ChIv "int option" | ChCh "datetime option"
  | ChOther string

fun change_field :: "user_change \<Rightarrow> string" where
  "change_field (ChEmbyid x) = ''embyid''" | "change_field (ChName x) = ''name''"
| "change_field (ChPwd x) = ''pwd''" | "change_field (ChPwd2 x) = ''pwd2''"
| "change_field (ChLv x) = ''lv''" | "change_field (ChCr x) = ''cr''"
| "change_field (ChEx x) = ''ex''" | "change_field (ChUs x) = ''us''"
| "change_field (ChIv x) = ''iv''" | "change_field (ChCh x) = ''ch''"
| "change_field (ChOther f) = f"

fun is_mutable :: "user_change \<Rightarrow> bool" where
  "is_mutable (ChOther f) = False"
| "is_mutable _ = True"

fun set_field :: "user_change \<Rightarrow> emby_row \<Rightarrow> emby_row" where
  "set_field (ChEmbyid x) u = u\<lparr>emby_embyid := x\<rparr>"
| "set_field (ChName x) u = u\<lparr>emby_name := x\<rparr>"
| "set_field (ChPwd x) u = u\<lparr>emby_pwd := x\<rparr>"
| "set_field (ChPwd2 x) u = u\<lparr>emby_pwd2 := x\<rparr>"
| "set_field (ChLv x) u = u\<lparr>emby_lv := x\<rparr>"
| "set_field (ChCr x) u = u\<lparr>emby_cr := x\<rparr>"
| "set_field (ChEx x) u = u\<lparr>emby_ex := x\<rparr>"
| "set_field (ChUs x) u = u\<lparr>emby_us := x\<rparr>"
| "set_field (ChIv x) u = u\<lparr>emby_iv := x\<rparr>"
| "set_field (ChCh x) u = u\<lparr>emby_ch := x\<rparr>"
| "set_field (ChOther f) u = u"

text \<open>A column is written, and counted as changed, only when its value differs.\<close>

fun apply_changes :: "user_change list \<Rightarrow> emby_row \<Rightarrow> emby_row \<times> string list" where
  "apply_changes [] u = (u, [])"
| "apply_changes (c # cs) u =
     (if set_field c u \<noteq> u
      then (let (u', fs) = apply_changes cs (set_field c u) in (u', change_field c # fs))
      else apply_changes cs u)"

definition py_list_repr :: "string list \<Rightarrow> string" where
  \<comment> \<open>\<open>str\<close> of a list of identifiers\<close>
  "py_list_repr fs =
     ''['' @ concat (map (\<lambda>(i, f). (if i = 0 then [] else '', '') @ [CHR 0x27] @ f @ [CHR 0x27]) (enumerate 0 fs)) @ '']''"

definition update_user ::
  "clock \<Rightarrow> int \<Rightarrow> user_change list \<Rightarrow> actor \<Rightarrow> string \<Rightarrow> string option \<Rightarrow> 'z core_db_scheme \<Rightarrow>
   (service_result, 'z core_db_scheme) outcome" where
  "update_user clk tg changes actor action key db0 =
     (let invalid_fields = remdups (map change_field (filter (\<lambda>c. \<not> is_mutable c) changes)) in
      if invalid_fields \<noteq> [] then
        (Inl (ValueError (''Unsupported user fields: '' @ py_list_repr (sort invalid_fields))), db0)
      else
        run_uow (\<lambda>db.
          case users_get_for_update tg db of
            None \<Rightarrow> Inr (result ''user_not_found'' [], db)
          | Some user \<Rightarrow> replay_or action key db
              (let (user', changed_fields) = apply_changes changes user;
                   r = result ''ok'' [(''tg'', JInt tg), (''changed_fields'', JList (map JStr changed_fields))];
                   db1 = users_save user' db;
                   db2 = audit_success clk actor action ''user'' (Some (show_int tg))
                           (Some (JDict [(''changed_fields'', JList (map JStr changed_fields))])) db1;
                   db3 = (if changed_fields \<noteq> [] then
                       event clk ''user.updated'' ''user'' (Some (show_int tg))
                         (Some (JDict [(''tg'', JInt tg),
                                       (''changed_fields'', JList (map JStr changed_fields))])) db2
                     else db2)
               in Inr (r, save_idempotent_result clk action key (to_dict r) db3))) db0)"

subsection \<open>Registration\<close>

definition consume_key :: "int \<Rightarrow> string \<Rightarrow> string" where
  "consume_key tg embyid = ''registration-consume:'' @ show_int tg @ '':'' @ embyid"

definition complete_registration ::
  "clock \<Rightarrow> int \<Rightarrow> string \<Rightarrow> string \<Rightarrow> string \<Rightarrow> string \<Rightarrow> datetime \<Rightarrow> bool \<Rightarrow> actor \<Rightarrow>
   'z core_db_scheme \<Rightarrow> (service_result, 'z core_db_scheme) outcome" where
  "complete_registration clk tg embyid name pwd pwd2 expires_at consume_qualification actor db0 =
     run_uow (\<lambda>db.
       case users_get_for_update tg db of
         None \<Rightarrow> Inr (result ''user_not_found'' [], db)
       | Some user \<Rightarrow>
           if truthy_str (emby_embyid user) then Inr (result ''account_already_bound'' [], db)
           else if consume_qualification \<and> int_or_0 (emby_us user) \<le> 0 then
             Inr (result ''no_qualification'' [], db)
           else
             let bound = user\<lparr>emby_embyid := Some embyid, emby_name := Some name, emby_pwd := Some pwd,
                              emby_pwd2 := Some pwd2, emby_lv := Some ''b'',
                              emby_cr := Some (now_local clk), emby_ex := Some expires_at\<rparr>;
                 consumed_days = int_or_0 (emby_us user);
                 db1 = users_save (if consume_qualification then bound\<lparr>emby_us := Some 0\<rparr> else bound) db;
                 db2 = (if consume_qualification \<and> consumed_days \<noteq> 0 then
                     point_transaction clk tg ''registration_days'' (- consumed_days) 0
                       ''registration_qualification_consumed'' actor
                       (Some (consume_key tg embyid))
                       (Some (JDict [(''embyid'', JStr embyid)])) db1
                   else db1);
                 db3 = audit_success clk actor ''user.registration.complete'' ''user'' (Some (show_int tg))
                         (Some (JDict [(''embyid'', JStr embyid), (''name'', JStr name)])) db2;
                 db4 = event clk ''user.updated'' ''user'' (Some (show_int tg))
                         (Some (JDict [(''tg'', JInt tg),
                            (''changed_fields'', JList (map JStr [''embyid'', ''name'', ''lv'', ''cr'', ''ex'', ''us'']))])) db3
             in Inr (result ''ok'' [(''tg'', JInt tg), (''embyid'', JStr embyid)], db4)) db0"

end
