(* ===== verification/User_Properties.thy ===== *)
theory User_Properties
  imports User_Service Point_Properties
begin

section \<open>The properties of the user service\<close>

text \<open>
  What a field update and a registration do on every branch, and that a user's canonical
  account is created once, with wallets that show the balances.
\<close>

subsection \<open>Field updates\<close>

lemma apply_changes_tg: "emby_tg (fst (apply_changes cs u)) = emby_tg u"
proof (induction cs arbitrary: u)
  case (Cons c cs)
  have "emby_tg (set_field c u) = emby_tg u" by (cases c) simp_all
  with Cons.IH [of "set_field c u"] Cons.IH [of u] show ?case by (simp add: split_def Let_def)
qed simp

lemma apply_changes_fold: "fst (apply_changes cs u) = fold set_field cs u"
  by (induction cs arbitrary: u) (simp_all add: split_def Let_def)

lemma apply_changes_fields: "set (snd (apply_changes cs u)) \<subseteq> change_field ` set cs"
  by (induction cs arbitrary: u) (auto simp: split_def Let_def)

lemma apply_changes_none: "snd (apply_changes cs u) = [] \<Longrightarrow> fst (apply_changes cs u) = u"
  by (induction cs arbitrary: u) (auto simp: split_def Let_def split: if_splits)

text \<open>A field update either raises, because a name is not a mutable column, or returns. On a
  user that exists, and with a key that is new, it writes exactly the given values, names exactly
  fields it was given, appends one audit row, and appends an event only if something differed.
  It books nothing: a change of \<open>iv\<close> or \<open>us\<close> moves the balance but no ledger.\<close>

theorem update_user_outcome:
  assumes "users_get_for_update tg db = Some u" and "integrity db"
    and "truthy_str key \<longrightarrow> tbl_get idem_pk (action, the key) (rows (idempotency db)) = None"
  shows "let (x, db') = update_user clk tg changes actor action key db;
             fields = snd (apply_changes changes u)
         in if \<exists>c \<in> set changes. \<not> is_mutable c then (\<exists>m. x = Inl (ValueError m)) \<and> db' = db
            else x = Inr (result ''ok'' [(''tg'', JInt tg), (''changed_fields'', JList (map JStr fields))]) \<and>
              users_get_for_update tg db' = Some (fold set_field changes u) \<and>
              set fields \<subseteq> change_field ` set changes \<and>
              length (rows (audits db')) = Suc (length (rows (audits db))) \<and>
              length (rows (events db')) = length (rows (events db)) + (if fields = [] then 0 else 1) \<and>
              (\<forall>bt. posted tg bt db' = posted tg bt db)"
proof (cases "\<exists>c \<in> set changes. \<not> is_mutable c")
  case True
  then have "remdups (map change_field (filter (\<lambda>c. \<not> is_mutable c) changes)) \<noteq> []"
    by (auto simp: filter_empty_conv)
  with True show ?thesis by (auto simp: update_user_def Let_def)
next
  case False
  then have no: "filter (\<lambda>c. \<not> is_mutable c) changes = []" by (auto simp: filter_empty_conv)
  obtain u' fs where ap: "apply_changes changes u = (u', fs)" by fastforce
  have tg: "emby_tg u' = tg"
    using apply_changes_tg [of changes u] user_repo.get_key [OF assms(1)] ap by simp
  have fresh: "get_idempotent_result action key db = None"
    using assms(3) by (simp add: get_idempotent_result_def)
  have ok: "integrity (save_idempotent_result clk action key res (event clk et rt rid p (audit clk a ac rt' rid' oc det rq (users_save v db))))"
     "integrity (save_idempotent_result clk action key res (audit clk a ac rt' rid' oc det rq (users_save v db)))"
    for res et rt rid p a ac rt' rid' oc det rq v
    using assms(2,3) by (auto intro!: integrity_save_idempotent)
  show ?thesis
    using False assms(1) tg apply_changes_fields [of changes u] apply_changes_fold [of changes u] ap
    by (auto simp: update_user_def no Let_def run_uow_def replay_or_fresh [OF fresh] ok user_repo.get_put)
qed

subsection \<open>Registration\<close>

lemma complete_registration_writes:
  assumes "users_get_for_update tg db = Some u" and "integrity db" and "sources_below db"
    and "\<not> truthy_str (emby_embyid u)" and "consume \<longrightarrow> 0 < get_balance US u"
    and "ledger_key_free ''registration_days'' (Some (consume_key tg embyid)) db"
  shows "\<exists>db'. complete_registration clk tg embyid name pwd pwd2 ex consume actor db =
      (Inr (result ''ok'' [(''tg'', JInt tg), (''embyid'', JStr embyid)]), db') \<and> integrity db' \<and>
    (\<exists>u'. users_get_for_update tg db' = Some u' \<and> emby_embyid u' = Some embyid \<and> emby_lv u' = Some ''b'' \<and>
       emby_ex u' = Some ex \<and> get_balance US u' = (if consume then 0 else get_balance US u) \<and>
       get_balance IV u' = get_balance IV u) \<and>
    (\<forall>bt. posted tg bt db' = posted tg bt db -
       (if consume \<and> bt = ''registration_days'' then get_balance US u else 0))"
proof -
  have tg: "emby_tg u = tg" by (rule user_repo.get_key [OF assms(1)])
  have ok: "integrity (point_transaction clk (emby_tg u) ''registration_days'' am b rs act
      (Some (consume_key (emby_tg u) embyid)) md (users_save v db))" for v am b rs act md
    using assms(2,3,6) tg by (simp add: integrity_point_transaction)
  show ?thesis
    using assms(1,2,4,5) tg
    by (auto simp: complete_registration_def Let_def run_uow_def ok user_repo.get_put)
qed

text \<open>C8: Registration binds once. For a user without a media account, with days to consume where
  they are asked for, it returns ok, sets the account, level \<open>b\<close> and expiry, consumes the days
  down to zero and books exactly what it consumed; every further registration of that user is
  refused as already bound and changes nothing.\<close>

theorem registration_binds_once:
  assumes "users_get_for_update tg db = Some u" and "integrity db" and "sources_below db"
    and "\<not> truthy_str (emby_embyid u)" and "consume \<longrightarrow> 0 < get_balance US u" and "embyid \<noteq> []"
    and "ledger_key_free ''registration_days'' (Some (consume_key tg embyid)) db"
  shows "let (x, db') = complete_registration clk tg embyid name pwd pwd2 ex consume actor db
         in x = Inr (result ''ok'' [(''tg'', JInt tg), (''embyid'', JStr embyid)]) \<and>
           (\<exists>u'. users_get_for_update tg db' = Some u' \<and> emby_embyid u' = Some embyid \<and> emby_lv u' = Some ''b'' \<and>
              emby_ex u' = Some ex \<and> get_balance US u' = (if consume then 0 else get_balance US u) \<and>
              get_balance IV u' = get_balance IV u) \<and>
           (\<forall>bt. posted tg bt db' = posted tg bt db -
              (if consume \<and> bt = ''registration_days'' then get_balance US u else 0)) \<and>
           complete_registration clk' tg embyid' name' pwd' pwd2' ex' consume' actor' db' =
             (Inr (result ''account_already_bound'' []), db')"
proof -
  obtain db' where *: "complete_registration clk tg embyid name pwd pwd2 ex consume actor db =
      (Inr (result ''ok'' [(''tg'', JInt tg), (''embyid'', JStr embyid)]), db')" "integrity db'"
    "\<exists>u'. users_get_for_update tg db' = Some u' \<and> emby_embyid u' = Some embyid \<and> emby_lv u' = Some ''b'' \<and>
       emby_ex u' = Some ex \<and> get_balance US u' = (if consume then 0 else get_balance US u) \<and>
       get_balance IV u' = get_balance IV u"
    "\<forall>bt. posted tg bt db' = posted tg bt db -
       (if consume \<and> bt = ''registration_days'' then get_balance US u else 0)"
    using complete_registration_writes [OF assms(1-5,7)] by blast
  have "complete_registration clk' tg embyid' name' pwd' pwd2' ex' consume' actor' db' =
      (Inr (result ''account_already_bound'' []), db')"
    using *(2,3) assms(6) by (auto simp: complete_registration_def run_uow_def)
  with * show ?thesis by (simp only: Let_def prod.case simp_thms)
qed

theorem update_user_outcome_witness:
  "fst (update_user sample_clock 7 [ChIv (Some 10), ChUs (Some 3)] sample_actor ''user.update'' None sample_db) =
     Inr (result ''ok'' [(''tg'', JInt 7), (''changed_fields'', JList [JStr ''us''])])"
proof -
  have "apply_changes [ChIv (Some 10), ChUs (Some 3)] sample_user = (sample_user\<lparr>emby_us := Some 3\<rparr>, [''us''])"
    by (simp add: sample_defs)
  then show ?thesis
    using update_user_outcome [OF sample_db_user, of None "''user.update''" sample_clock
        "[ChIv (Some 10), ChUs (Some 3)]" sample_actor] sample_ready [of "''coins''" "''''" None]
    by (simp add: Let_def split_def ready_def)
qed

theorem registration_binds_once_witness:
  "fst (complete_registration sample_clock 7 ''e7'' ''n'' ''p'' ''q'' (2000 * day) False sample_actor sample_db) =
     Inr (result ''ok'' [(''tg'', JInt 7), (''embyid'', JStr ''e7'')])"
proof -
  have "ledger_key_free ''registration_days'' (Some (consume_key 7 ''e7'')) sample_db"
    by (simp add: ledger_key_free_def sample_db_def empty_db_def)
  then show ?thesis
    using registration_binds_once [OF sample_db_user, of False "''e7''" sample_clock "''n''" "''p''" "''q''" "2000 * day" sample_actor]
      sample_ready [of "''coins''" "''''" None]
    by (simp add: Let_def split_def ready_def)
qed

subsection \<open>Canonical accounts\<close>

text \<open>The derived ids of the user's account and identity are not taken by another one.\<close>

definition account_ids_free :: "int \<Rightarrow> 'z core_db_scheme \<Rightarrow> bool" where
  "account_ids_free tg db =
     (account_id_of tg \<notin> acc_id ` set (accounts db) \<and>
      identity_id_of tg \<notin> idn_id ` set (identities db) \<and>
      (''telegram'', show_int tg) \<notin> (\<lambda>r. (idn_provider r, idn_subject r)) ` set (identities db) \<and>
      (account_id_of tg, ''telegram'') \<notin> (\<lambda>r. (idn_account_id r, idn_provider r)) ` set (identities db) \<and>
      (\<forall>bt. accounts_wallet (account_id_of tg) bt db = None))"

lemma add_canonical_account_integrity:
  assumes "integrity db" and "accounts_by_legacy_tg tg db = None" and "account_ids_free tg db"
  shows "integrity (add_canonical_account clk tg u db)"
proof -
  define db2 where "db2 = accounts_add_identity (new_identity clk tg) (accounts_add_account (new_account clk tg) db)"
  have tg: "tg \<notin> acc_legacy_tg ` set (accounts db)"
    using assms(2) by (simp add: accounts_by_legacy_tg_def tbl_get_None)
  have 2: "integrity db2"
    using assms(1,3) tg
    by (simp add: db2_def integrity_def account_ids_free_def accounts_add_identity_def accounts_add_account_def
        new_identity_def new_account_def unique_some_append identity_user_key_def)
  have w: "accounts_wallet (account_id_of tg) bt db2 = None" for bt
    using assms(3) by (simp add: db2_def account_ids_free_def accounts_wallet_def accounts_add_identity_def accounts_add_account_def)
  have key: "wallet_key (new_wallet clk tg bt v i) = (account_id_of tg, bt)" for bt v i
    by (simp add: wallet_key_def new_wallet_def)
  have 3: "integrity (accounts_add_wallet (new_wallet clk tg ''coins'' v) db2)" for v
    by (rule integrity_add_wallet [OF 2 w key])
  have "accounts_wallet (account_id_of tg) ''registration_days'' (accounts_add_wallet (new_wallet clk tg ''coins'' v) db2) = None" for v
    using w [of "''registration_days''"] key
    by (auto simp: accounts_wallet_def accounts_add_wallet_def tbl_get_append split: option.split)
  then show ?thesis
    unfolding add_canonical_account_def Let_def db2_def [symmetric]
    by (intro integrity_add_wallet [OF 3 _ key])
qed

lemma add_canonical_account_wallet:
  assumes "account_ids_free tg db"
  shows "map_option wal_balance (accounts_wallet i bt (add_canonical_account clk tg u db)) =
    (if i = account_id_of tg \<and> bt = ''coins'' then Some (get_balance IV u)
     else if i = account_id_of tg \<and> bt = ''registration_days'' then Some (get_balance US u)
     else map_option wal_balance (accounts_wallet i bt db))"
  using assms
  by (auto simp: account_ids_free_def add_canonical_account_def Let_def accounts_wallet_def accounts_add_wallet_def
      accounts_add_identity_def accounts_add_account_def tbl_get_append wallet_key_def new_wallet_def split: option.splits)

lemma add_canonical_account_by_tg:
  "accounts_by_legacy_tg tg db = None \<Longrightarrow>
   accounts_by_legacy_tg tg (add_canonical_account clk tg u db) = Some (new_account clk tg)"
  by (simp add: add_canonical_account_def Let_def accounts_by_legacy_tg_def accounts_add_wallet_def
      accounts_add_identity_def accounts_add_account_def tbl_get_append new_account_def)

lemma add_canonical_account_users [simp]:
  "users_get_for_update tg' (add_canonical_account clk tg u db) = users_get_for_update tg' db"
  by (simp add: add_canonical_account_def Let_def users_get_for_update_def accounts_add_wallet_def
      accounts_add_identity_def accounts_add_account_def)

lemma users_insert_lookups [simp]:
  "accounts_by_legacy_tg tg (users_insert v db) = accounts_by_legacy_tg tg db"
  "accounts_wallet i bt (users_insert v db) = accounts_wallet i bt db"
  "account_ids_free tg (users_insert v db) = account_ids_free tg db"
  by (simp_all add: accounts_by_legacy_tg_def accounts_wallet_def account_ids_free_def)

lemma users_insert_integrity:
  "integrity db \<Longrightarrow> users_get_for_update tg db = None \<Longrightarrow> integrity (users_insert (new_emby tg) db)"
  by (auto simp: integrity_def users_insert_def users_get_for_update_def tbl_get_None new_emby_def)

lemma lookups_frame [simp]:
  "users_get_for_update tg (audit clk actor action rt rid oc det rq db) = users_get_for_update tg db"
  "users_get_for_update tg (event clk et rt rid p db) = users_get_for_update tg db"
  "accounts_by_legacy_tg tg (audit clk actor action rt rid oc det rq db) = accounts_by_legacy_tg tg db"
  "accounts_by_legacy_tg tg (event clk et rt rid p db) = accounts_by_legacy_tg tg db"
  by (simp_all add: users_get_for_update_def accounts_by_legacy_tg_def)

text \<open>Creating a user is idempotent and complete. On a well-formed database in which the ids
  derived from the Telegram id are free if the user has no account, \<open>ensure_user\<close> returns ok,
  and then the user and the account exist and the new account's wallets show the balances of
  the row; calling it again says so and changes nothing.\<close>

theorem ensure_user_once:
  assumes "integrity db" and "accounts_by_legacy_tg tg db = None \<longrightarrow> account_ids_free tg db"
  shows "let (x, db') = ensure_user clk tg actor db
         in (\<exists>r. x = Inr r \<and> res_ok r) \<and>
            (\<exists>u a. users_get_for_update tg db' = Some u \<and> accounts_by_legacy_tg tg db' = Some a \<and>
               (accounts_by_legacy_tg tg db = None \<longrightarrow>
                  map_option wal_balance (accounts_wallet (acc_id a) ''coins'' db') = Some (get_balance IV u) \<and>
                  map_option wal_balance (accounts_wallet (acc_id a) ''registration_days'' db') = Some (get_balance US u)) \<and>
               ensure_user clk' tg actor' db' =
                 (Inr (result ''ok'' [(''tg'', JInt tg), (''account_id'', JStr (acc_id a)), (''created'', JBool False)]), db'))"
proof -
  define db1 where "db1 = snd (users_add_if_missing tg db)"
  define u where "u = fst (fst (users_add_if_missing tg db))"
  have 1: "users_get_for_update tg db1 = Some u" "integrity db1" "accounts_by_legacy_tg tg db1 = accounts_by_legacy_tg tg db"
    "account_ids_free tg db1 = account_ids_free tg db"
    using assms(1) users_insert_integrity [OF assms(1), of tg] user_repo.get_ins [of "new_emby tg" db tg]
    by (auto simp: db1_def u_def users_add_if_missing_def new_emby_def split: option.split)
  define db2 where "db2 = (if accounts_by_legacy_tg tg db1 = None then add_canonical_account clk tg u db1 else db1)"
  have 2: "integrity db2" "users_get_for_update tg db2 = Some u"
    using add_canonical_account_integrity [OF 1(2), of tg clk u] assms(2) 1 by (auto simp: db2_def)
  obtain a where a: "accounts_by_legacy_tg tg db2 = Some a"
      "acc_id a = (case accounts_by_legacy_tg tg db1 of None \<Rightarrow> account_id_of tg | Some a \<Rightarrow> acc_id a)"
    by (cases "accounts_by_legacy_tg tg db1")
      (auto simp: db2_def add_canonical_account_by_tg new_account_def)
  have w: "accounts_by_legacy_tg tg db = None \<longrightarrow>
      map_option wal_balance (accounts_wallet (acc_id a) ''coins'' db2) = Some (get_balance IV u) \<and>
      map_option wal_balance (accounts_wallet (acc_id a) ''registration_days'' db2) = Some (get_balance US u)"
  proof (intro impI)
    assume "accounts_by_legacy_tg tg db = None"
    then have e: "acc_id a = account_id_of tg" "db2 = add_canonical_account clk tg u db1" "account_ids_free tg db1"
      using 1 assms(2) a(2) by (simp_all add: db2_def)
    show "map_option wal_balance (accounts_wallet (acc_id a) ''coins'' db2) = Some (get_balance IV u) \<and>
      map_option wal_balance (accounts_wallet (acc_id a) ''registration_days'' db2) = Some (get_balance US u)"
      unfolding e(1,2) add_canonical_account_wallet [OF e(3)] by simp
  qed
  obtain r db' where call: "ensure_user clk tg actor db = (Inr r, db')" and ok: "res_ok r"
    and same: "users_get_for_update tg db' = Some u" "accounts_by_legacy_tg tg db' = Some a" "integrity db'"
      "\<And>bt. accounts_wallet (acc_id a) bt db' = accounts_wallet (acc_id a) bt db2"
  proof -
    obtain created where add: "users_add_if_missing tg db = ((u, created), db1)"
      unfolding db1_def u_def by (metis prod.collapse)
    have acc: "(case accounts_by_legacy_tg tg db1 of None \<Rightarrow> account_id_of tg | Some a \<Rightarrow> acc_id a) = acc_id a"
      using a(2) by simp
    note run = ensure_user_def Let_def add run_uow_def db2_def [symmetric] acc prod.case
    have "\<exists>r db'. ensure_user clk tg actor db = (Inr r, db') \<and> res_ok r \<and> users_get_for_update tg db' = Some u \<and>
        accounts_by_legacy_tg tg db' = Some a \<and> integrity db' \<and>
        (\<forall>bt. accounts_wallet (acc_id a) bt db' = accounts_wallet (acc_id a) bt db2)"
    proof (cases "\<not> created \<and> \<not> (accounts_by_legacy_tg tg db1 = None)")
      case True
      show ?thesis unfolding run True [THEN if_P] using 2 a(1) by (simp add: res_ok_def)
    next
      case False
      show ?thesis unfolding run False [THEN if_not_P] using 2 a(1) by (cases created) (simp_all add: res_ok_def)
    qed
    with that show ?thesis by blast
  qed
  have again: "ensure_user clk' tg actor' db' =
      (Inr (result ''ok'' [(''tg'', JInt tg), (''account_id'', JStr (acc_id a)), (''created'', JBool False)]), db')"
    using same by (simp add: ensure_user_def Let_def run_uow_def users_add_if_missing_def)
  show ?thesis
    using call ok same again w by auto
qed

theorem ensure_user_once_witness:
  "\<exists>u a. users_get_for_update 9 (snd (ensure_user sample_clock 9 None empty_db)) = Some u \<and>
     accounts_by_legacy_tg 9 (snd (ensure_user sample_clock 9 None empty_db)) = Some a"
proof -
  have "account_ids_free 9 empty_db"
    by (simp add: account_ids_free_def empty_db_def accounts_wallet_def)
  then show ?thesis
    using ensure_user_once [of empty_db 9 sample_clock None sample_clock None]
    by (auto simp: Let_def split_def)
qed

end
