(* ===== verification/Partition_Service.thy ===== *)
theory Partition_Service
  imports Contracts
begin

section \<open>Partition codes: reserve, then redeem or release\<close>

text \<open>
  \<open>PartitionService\<close> of \<open>bot/application/partition_service.py\<close>. A code is reserved for five
  minutes before the media server is asked for access; a success redeems it into a grant and
  deletes it, a failure releases it. The token of a new reservation (\<open>uuid4\<close>) is an argument.
\<close>

definition RESERVATION_TTL :: int where "RESERVATION_TTL = 300 * second"

definition reservation_stale :: "datetime \<Rightarrow> partition_code_row \<Rightarrow> bool" where
  "reservation_stale now record =
     (case pc_reserved_at record of None \<Rightarrow> True | Some t \<Rightarrow> t \<le> now - RESERVATION_TTL)"

definition reservation_data :: "string option \<Rightarrow> partition_code_row \<Rightarrow> emby_row \<Rightarrow> jdict" where
  "reservation_data token record user =
     [(''reservation_token'', jopt_str token), (''partition'', JStr (pc_partition record)),
      (''embyid'', jopt_str (emby_embyid user)), (''embyname'', jopt_str (emby_name user))]"

definition reserve_code ::
  "clock \<Rightarrow> string \<Rightarrow> string \<Rightarrow> int \<Rightarrow> actor \<Rightarrow> datetime option \<Rightarrow> 'z core_db_scheme \<Rightarrow>
   (service_result, 'z core_db_scheme) outcome" where
  "reserve_code clk token code_value tg actor now0 db0 =
     (let now = (case now0 of None \<Rightarrow> now_local clk | Some t \<Rightarrow> t) in
      run_uow (\<lambda>db.
        case users_get_for_update tg db of
          None \<Rightarrow> Inr (result ''no_account'' [], db)
        | Some user \<Rightarrow>
            if \<not> truthy_str (emby_embyid user) then Inr (result ''no_account'' [], db)
            else (case partitions_get_code_for_update code_value db of
              None \<Rightarrow> Inr (result ''invalid_code'' [], db)
            | Some record \<Rightarrow>
                if pc_status record = ''reserved'' \<and> \<not> reservation_stale now record then
                  (if pc_reserved_by record = Some tg then
                     Inr (\<lparr>res_status = ''ok'',
                           res_data = reservation_data (pc_reservation_token record) record user,
                           res_replayed = True\<rparr>, db)
                   else Inr (result ''code_busy'' [], db))
                else
                  let record' = record\<lparr>pc_status := ''reserved'', pc_reserved_by := Some tg,
                                       pc_reserved_at := Some now, pc_reservation_token := Some token\<rparr>;
                      db1 = partitions_save_code record' db;
                      db2 = audit_success clk actor ''partition_code.reserve'' ''partition_code''
                              (Some (secret_fingerprint code_value))
                              (Some (JDict [(''tg'', JInt tg), (''partition'', JStr (pc_partition record))])) db1
                  in Inr (result ''ok'' (reservation_data (Some token) record user), db2))) db0)"

definition reservation_key :: "string \<Rightarrow> string" where
  "reservation_key token = ''reservation:'' @ token"

definition redeem_partition_scope :: string where
  "redeem_partition_scope = ''partition_code.redeem''"

definition complete_redemption ::
  "clock \<Rightarrow> string \<Rightarrow> int \<Rightarrow> actor \<Rightarrow> datetime option \<Rightarrow> 'z core_db_scheme \<Rightarrow>
   (service_result, 'z core_db_scheme) outcome" where
  "complete_redemption clk token tg actor now0 db0 =
     (let now = (case now0 of None \<Rightarrow> now_local clk | Some t \<Rightarrow> t);
          scope = redeem_partition_scope;
          key = Some (reservation_key token)
      in run_uow (\<lambda>db.
        case users_get_for_update tg db of
          None \<Rightarrow> Inr (result ''no_account'' [], db)
        | Some user \<Rightarrow>
            if \<not> truthy_str (emby_embyid user) then Inr (result ''no_account'' [], db)
            else replay_or scope key db
              (case partitions_get_reservation_for_update token db of
                 None \<Rightarrow> Inr (result ''reservation_invalid'' [], db)
               | Some record \<Rightarrow>
                   if pc_status record \<noteq> ''reserved'' \<or> pc_reserved_by record \<noteq> Some tg then
                     Inr (result ''reservation_invalid'' [], db)
                   else
                     bind_attempt (complete_grant record tg (the (emby_embyid user)) (emby_name user) now db)
                       (\<lambda>(expires_at, db1).
                         let part = pc_partition record;
                             db2 = audit_success clk actor ''partition_code.redeem'' ''partition_grant''
                                     (Some (show_int tg @ '':'' @ part))
                                     (Some (JDict [(''tg'', JInt tg), (''partition'', JStr part),
                                        (''code_fingerprint'', JStr (secret_fingerprint (pc_code record))),
                                        (''expires_at'', JTime expires_at)])) db1;
                             db3 = event clk ''partition.changed'' ''user'' (Some (show_int tg))
                                     (Some (JDict [(''tg'', JInt tg), (''partition'', JStr part),
                                        (''expires_at'', JTime expires_at)])) db2;
                             r = result ''ok'' [(''partition'', JStr part), (''expires_at'', JTime expires_at)]
                         in Inr (r, save_idempotent_result clk scope key (to_dict r) db3)))) db0)"

definition release_reservation ::
  "clock \<Rightarrow> string \<Rightarrow> int \<Rightarrow> actor \<Rightarrow> string \<Rightarrow> 'z core_db_scheme \<Rightarrow>
   (service_result, 'z core_db_scheme) outcome" where
  "release_reservation clk token tg actor reason db0 =
     run_uow (\<lambda>db.
       case partitions_get_reservation_for_update token db of
         None \<Rightarrow> Inr (result ''reservation_invalid'' [], db)
       | Some record \<Rightarrow>
           if pc_status record \<noteq> ''reserved'' \<or> pc_reserved_by record \<noteq> Some tg then
             Inr (result ''reservation_invalid'' [], db)
           else
             let record' = record\<lparr>pc_status := ''available'', pc_reserved_by := None,
                                  pc_reserved_at := None, pc_reservation_token := None\<rparr>;
                 db1 = partitions_save_code record' db;
                 db2 = audit clk actor ''partition_code.release'' ''partition_code''
                         (Some (secret_fingerprint (pc_code record))) ''failed''
                         (Some (JDict [(''tg'', JInt tg), (''reason'', JStr reason)])) None db1
             in Inr (result ''ok'' [], db2)) db0"

end
