(* ===== verification/Partition_Properties.thy ===== *)
theory Partition_Properties
  imports Partition_Service Point_Properties
begin

section \<open>The properties of the partition service\<close>

text \<open>
  A reservation excludes every other user, releasing undoes it, and redeeming spends the code
  and extends the grant, once.
\<close>

subsection \<open>Lookups and the bookkeeping\<close>

lemma partitions_frame [simp]:
  "partitions_get_code_for_update c (audit clk actor action rt rid oc det rq db) = partitions_get_code_for_update c db"
  "partitions_get_code_for_update c (event clk et rt rid p db) = partitions_get_code_for_update c db"
  "partitions_get_code_for_update c (save_idempotent_result clk scope key res db) = partitions_get_code_for_update c db"
  "partitions_get_reservation_for_update t (audit clk actor action rt rid oc det rq db) =
   partitions_get_reservation_for_update t db"
  "partitions_get_grant_for_update tg part (audit clk actor action rt rid oc det rq db) =
   partitions_get_grant_for_update tg part db"
  "partitions_get_grant_for_update tg part (event clk et rt rid p db) = partitions_get_grant_for_update tg part db"
  "partitions_get_grant_for_update tg part (save_idempotent_result clk scope key res db) =
   partitions_get_grant_for_update tg part db"
  by (simp_all add: partitions_get_code_for_update_def partitions_get_reservation_for_update_def
      partitions_get_grant_for_update_def)

text \<open>A token names one reservation: the constraint on tokens makes the row found by the token
  the row it was read from.\<close>

lemma reservation_by_token:
  assumes "integrity db" and "partitions_get_code_for_update c db = Some r" and "pc_reservation_token r = Some t"
  shows "partitions_get_reservation_for_update t db = Some r"
proof -
  have "unique_some pc_reservation_token rs \<Longrightarrow> r \<in> set rs \<Longrightarrow> tbl_get pc_reservation_token (Some t) rs = Some r" for rs
    using assms(3) by (induction rs) (auto simp: image_iff)
  then show ?thesis
    using assms(1) tbl_get_mem [OF assms(2) [unfolded partitions_get_code_for_update_def]]
    by (simp add: integrity_def partitions_get_reservation_for_update_def)
qed

lemma tbl_get_put_id:
  \<comment> \<open>a lookup by another column after a write that keeps that column\<close>
  assumes "distinct (map pk rs)" and "tbl_get key k rs = Some r0" and "pk r = pk r0" and "key r = k"
  shows "tbl_get key k (tbl_put pk r rs) = Some r"
  using assms
  by (induction rs) (auto simp: tbl_put_absent tbl_get_None dest: tbl_get_mem split: if_splits)

subsection \<open>The grant\<close>

definition grant_start :: "datetime \<Rightarrow> partition_grant_row option \<Rightarrow> datetime" where
  "grant_start now g = (case g of None \<Rightarrow> now | Some g \<Rightarrow> max now (pg_expires_at g))"

definition grant_write :: "partition_code_row \<Rightarrow> int \<Rightarrow> string \<Rightarrow> string option \<Rightarrow> datetime \<Rightarrow> datetime \<Rightarrow>
  'z core_db_scheme \<Rightarrow> 'z core_db_scheme" where
  "grant_write r tg embyid embyname now e db =
     (case partitions_get_grant_for_update tg (pc_partition r) db of
        Some g \<Rightarrow> partitions_save_grant
          (g\<lparr>pg_embyid := Some embyid, pg_embyname := str_or embyname (pg_embyname g), pg_expires_at := e,
             pg_status := Some ''active'', pg_code := Some (pc_code r), pg_updated_at := Some now\<rparr>) db
      | None \<Rightarrow> partitions_add_grant
          (\<lambda>i. \<lparr>pg_id = i, pg_tg = tg, pg_embyid = Some embyid, pg_embyname = embyname,
                pg_partition = pc_partition r, pg_expires_at = e, pg_status = Some ''active'',
                pg_code = Some (pc_code r), pg_created_at = Some now, pg_updated_at = Some now\<rparr>) db)"

lemma complete_grant_alt:
  "complete_grant r tg embyid embyname now db =
     bind_attempt (dt_add (grant_start now (partitions_get_grant_for_update tg (pc_partition r) db)) (pc_duration_days r * day))
       (\<lambda>e. Inr (e, partitions_delete_code (pc_code r) (grant_write r tg embyid embyname now e db)))"
proof -
  have mx: "(if now < t then t else now) = max now t" for t :: int by auto
  show ?thesis
    unfolding complete_grant_def Let_def grant_write_def grant_start_def mx by (rule refl)
qed

lemma grant_write_frame:
  "\<exists>gs. grant_write r tg embyid embyname now e db = db\<lparr>partition_grants := gs\<rparr>"
  by (auto simp: grant_write_def partitions_save_grant_def partitions_add_grant_def split: option.split)

lemma grant_write_get:
  assumes "ids_below pg_id (partition_grants db)"
  shows "\<exists>g. partitions_get_grant_for_update tg (pc_partition r) (grant_write r tg embyid embyname now e db) = Some g \<and>
    pg_expires_at g = e \<and> pg_status g = Some ''active'' \<and> pg_embyid g = Some embyid \<and> pg_code g = Some (pc_code r)"
proof (cases "partitions_get_grant_for_update tg (pc_partition r) db")
  case None
  then show ?thesis
    by (simp add: grant_write_def partitions_get_grant_for_update_def partitions_add_grant_def tbl_get_append grant_key_def)
next
  case (Some g)
  define g' where "g' = g\<lparr>pg_embyid := Some embyid, pg_embyname := str_or embyname (pg_embyname g), pg_expires_at := e,
    pg_status := Some ''active'', pg_code := Some (pc_code r), pg_updated_at := Some now\<rparr>"
  have "grant_key g = (tg, pc_partition r)"
    using Some by (auto simp: partitions_get_grant_for_update_def dest: tbl_get_key)
  then have "tbl_get grant_key (tg, pc_partition r) (tbl_put pg_id g' (rows (partition_grants db))) = Some g'"
    using tbl_get_put_id [of pg_id "rows (partition_grants db)" grant_key "(tg, pc_partition r)" g g'] Some assms
    by (simp add: partitions_get_grant_for_update_def ids_below_def grant_key_def g'_def)
  then have "partitions_get_grant_for_update tg (pc_partition r) (partitions_save_grant g' db) = Some g'"
    by (simp add: partitions_get_grant_for_update_def partitions_save_grant_def)
  then show ?thesis
    by (simp add: grant_write_def Some g'_def [symmetric]) (simp add: g'_def)
qed


subsection \<open>Constraints\<close>

lemma unique_some_put:
  "unique_some key rs \<Longrightarrow> key r = None \<or> key r \<notin> key ` set rs \<Longrightarrow> distinct (map pk rs) \<Longrightarrow>
   unique_some key (tbl_put pk r rs)"
  by (induction rs) (auto simp: tbl_put_def image_iff split: if_splits)

lemma unique_some_del: "unique_some key rs \<Longrightarrow> unique_some key (tbl_del pk k rs)"
  by (induction rs) (auto simp: tbl_del_def)

lemma save_code_integrity:
  assumes "integrity db" and "pc_reservation_token r = None \<or>
    pc_reservation_token r \<notin> pc_reservation_token ` set (partition_codes db)"
  shows "integrity (partitions_save_code r db)"
  using assms unique_some_put [of pc_reservation_token "partition_codes db" r pc_code]
  by (simp add: integrity_def partitions_save_code_def)

lemma granted_integrity:
  assumes "integrity db"
  shows "integrity (partitions_delete_code c (grant_write r tg embyid embyname now e db))"
proof -
  obtain gs where g: "grant_write r tg embyid embyname now e db = db\<lparr>partition_grants := gs\<rparr>"
    using grant_write_frame by blast
  show ?thesis
    unfolding g using assms unique_some_del [of pc_reservation_token "partition_codes db" pc_code c]
      distinct_tbl_del [of pc_code "partition_codes db" c]
    by (simp add: integrity_def partitions_delete_code_def)
qed

lemma granted_users [simp]:
  "users_get_for_update i (partitions_delete_code c (grant_write r tg embyid embyname now e db)) = users_get_for_update i db"
  "idempotency (partitions_delete_code c (grant_write r tg embyid embyname now e db)) = idempotency db"
proof -
  obtain gs where g: "grant_write r tg embyid embyname now e db = db\<lparr>partition_grants := gs\<rparr>"
    using grant_write_frame by blast
  show "users_get_for_update i (partitions_delete_code c (grant_write r tg embyid embyname now e db)) = users_get_for_update i db"
    "idempotency (partitions_delete_code c (grant_write r tg embyid embyname now e db)) = idempotency db"
    unfolding g by (simp_all add: users_get_for_update_def partitions_delete_code_def)
qed

lemma granted_codes:
  "partitions_get_code_for_update k (partitions_delete_code c (grant_write r tg embyid embyname now e db)) =
   (if k = c then None else partitions_get_code_for_update k db)"
proof -
  obtain gs where g: "grant_write r tg embyid embyname now e db = db\<lparr>partition_grants := gs\<rparr>"
    using grant_write_frame by blast
  show ?thesis
    unfolding g by (simp add: partitions_get_code_for_update_def partitions_delete_code_def tbl_get_del)
qed

lemma granted_grant:
  "partitions_get_grant_for_update i part (partitions_delete_code c db) = partitions_get_grant_for_update i part db"
  by (simp add: partitions_get_grant_for_update_def partitions_delete_code_def)

subsection \<open>Properties\<close>

definition has_media :: "int \<Rightarrow> 'z core_db_scheme \<Rightarrow> bool" where
  "has_media tg db = (case users_get_for_update tg db of None \<Rightarrow> False | Some u \<Rightarrow> truthy_str (emby_embyid u))"

definition held_by :: "int \<Rightarrow> string \<Rightarrow> datetime \<Rightarrow> partition_code_row \<Rightarrow> bool" where
  \<comment> \<open>reserved by the user under the token since the time\<close>
  "held_by tg t since r =
     (pc_status r = ''reserved'' \<and> pc_reserved_by r = Some tg \<and> pc_reservation_token r = Some t \<and>
      pc_reserved_at r = Some since)"

lemma has_mediaE:
  assumes "has_media tg db"
  obtains u e where "users_get_for_update tg db = Some u" "emby_embyid u = Some e" "e \<noteq> []"
  using assms by (auto simp: has_media_def truthy_str_def split: option.splits)

text \<open>What the two phases do to a code that is available, and to one that the user holds.\<close>

definition reserved_row :: "int \<Rightarrow> string \<Rightarrow> datetime \<Rightarrow> partition_code_row \<Rightarrow> partition_code_row" where
  "reserved_row tg t at r = r\<lparr>pc_status := ''reserved'', pc_reserved_by := Some tg,
     pc_reserved_at := Some at, pc_reservation_token := Some t\<rparr>"

lemma held_by_reserved_row [simp]: "held_by tg t at (reserved_row tg t at r)"
  by (simp add: held_by_def reserved_row_def)

lemma reserve_available:
  assumes "integrity db" and "partitions_get_code_for_update c db = Some r"
    and "users_get_for_update tg db = Some u" and "truthy_str (emby_embyid u)"
    and "pc_status r = ''available''" and "Some t \<notin> pc_reservation_token ` set (partition_codes db)"
    and at_def: "at = (case now of None \<Rightarrow> now_local clk | Some t \<Rightarrow> t)"
  obtains db1 where "reserve_code clk t c tg actor now db = (Inr (result ''ok'' (reservation_data (Some t) r u)), db1)"
    and "db1 = audit clk actor ''partition_code.reserve'' ''partition_code'' (Some (secret_fingerprint c))
      ''success'' (Some (JDict [(''tg'', JInt tg), (''partition'', JStr (pc_partition r))])) None
      (partitions_save_code (reserved_row tg t at r) db)"
    and "integrity db1" and "partitions_get_code_for_update c db1 = Some (reserved_row tg t at r)"
proof -
  define db1 where "db1 = audit clk actor ''partition_code.reserve'' ''partition_code'' (Some (secret_fingerprint c))
    ''success'' (Some (JDict [(''tg'', JInt tg), (''partition'', JStr (pc_partition r))])) None
    (partitions_save_code (reserved_row tg t at r) db)"
  have key: "pc_code r = c" by (rule partition_repo.get_key [OF assms(2)])
  have "integrity (partitions_save_code (reserved_row tg t at r) db)"
    using save_code_integrity [OF assms(1), of "reserved_row tg t at r"] assms(6) by (simp add: reserved_row_def)
  then have i: "integrity db1" by (simp add: db1_def)
  have "reserve_code clk t c tg actor now db = (Inr (result ''ok'' (reservation_data (Some t) r u)), db1)"
    using assms(2-5) i
    by (simp add: reserve_code_def Let_def run_uow_def at_def [symmetric] db1_def reserved_row_def)
  moreover have "partitions_get_code_for_update c db1 = Some (reserved_row tg t at r)"
    using partition_repo.get_modified [OF assms(2), of "reserved_row tg t at r"] key by (simp add: db1_def reserved_row_def)
  ultimately show thesis using that i db1_def by blast
qed

lemma complete_held:
  assumes "integrity db" and "partitions_get_code_for_update c db = Some r" and "held_by tg t since r"
    and "users_get_for_update tg db = Some u" and "emby_embyid u = Some m" and "m \<noteq> []"
    and "tbl_get idem_pk (redeem_partition_scope, reservation_key t) (rows (idempotency db)) = None"
    and "e = grant_start now (partitions_get_grant_for_update tg (pc_partition r) db) + pc_duration_days r * day"
  shows "\<not> (0 \<le> e \<and> e \<le> max_datetime) \<Longrightarrow> complete_redemption clk t tg actor (Some now) db = (Inl OverflowError, db)"
    and "0 \<le> e \<Longrightarrow> e \<le> max_datetime \<Longrightarrow>
      \<exists>db'. complete_redemption clk t tg actor (Some now) db =
          (Inr (result ''ok'' [(''partition'', JStr (pc_partition r)), (''expires_at'', JTime e)]), db') \<and>
        integrity db' \<and> users_get_for_update tg db' = Some u \<and>
        partition_codes db' = tbl_del pc_code c (partition_codes db) \<and>
        partition_grants db' = partition_grants (grant_write r tg m (emby_name u) now e db) \<and>
        stored_answer redeem_partition_scope (Some (reservation_key t)) db' =
          Some (replay_of (result ''ok'' [(''partition'', JStr (pc_partition r)), (''expires_at'', JTime e)]))"
proof -
  have token: "partitions_get_reservation_for_update t db = Some r"
    using reservation_by_token [OF assms(1,2)] assms(3) by (simp add: held_by_def)
  have code: "pc_code r = c" by (rule partition_repo.get_key [OF assms(2)])
  have fresh: "get_idempotent_result redeem_partition_scope (Some (reservation_key t)) db = None"
    using assms(7) by (simp add: get_idempotent_result_def)
  note h = assms(3) [unfolded held_by_def]
  show "complete_redemption clk t tg actor (Some now) db = (Inl OverflowError, db)"
    if "\<not> (0 \<le> e \<and> e \<le> max_datetime)"
  proof -
    have "complete_grant r tg m (emby_name u) now db = Inl OverflowError"
      using that by (auto simp: complete_grant_alt dt_add_def assms(8))
    then show ?thesis
      using h token assms(4-6) by (auto simp: complete_redemption_def Let_def run_uow_def replay_or_fresh [OF fresh])
  qed
  assume range: "0 \<le> e" "e \<le> max_datetime"
  define db1 where "db1 = partitions_delete_code c (grant_write r tg m (emby_name u) now e db)"
  let ?ok = "result ''ok'' [(''partition'', JStr (pc_partition r)), (''expires_at'', JTime e)]"
  let ?db' = "save_idempotent_result clk redeem_partition_scope (Some (reservation_key t)) (to_dict ?ok)
    (event clk ''partition.changed'' ''user'' (Some (show_int tg))
       (Some (JDict [(''tg'', JInt tg), (''partition'', JStr (pc_partition r)), (''expires_at'', JTime e)]))
      (audit_success clk actor ''partition_code.redeem'' ''partition_grant''
         (Some (show_int tg @ '':'' @ pc_partition r))
         (Some (JDict [(''tg'', JInt tg), (''partition'', JStr (pc_partition r)),
            (''code_fingerprint'', JStr (secret_fingerprint (pc_code r))), (''expires_at'', JTime e)])) db1))"
  have grant: "complete_grant r tg m (emby_name u) now db = Inr (e, db1)"
    using range by (simp add: complete_grant_alt dt_add_def assms(8) db1_def code)
  have i: "integrity ?db'"
    using granted_integrity [OF assms(1)] assms(7)
    by (intro integrity_save_idempotent) (simp_all add: db1_def)
  have "complete_redemption clk t tg actor (Some now) db = (Inr ?ok, ?db')"
    using assms(4-6) h token i
    by (simp add: complete_redemption_def Let_def run_uow_def replay_or_fresh [OF fresh] grant)
  moreover have "users_get_for_update tg ?db' = Some u"
    using assms(4) by (simp add: db1_def)
  moreover obtain gs where "grant_write r tg m (emby_name u) now e db = db\<lparr>partition_grants := gs\<rparr>"
    using grant_write_frame by blast
  then have "partition_codes ?db' = tbl_del pc_code c (partition_codes db)"
    "partition_grants ?db' = partition_grants (grant_write r tg m (emby_name u) now e db)"
    by (simp_all add: db1_def partitions_delete_code_def)
  moreover have "stored_answer redeem_partition_scope (Some (reservation_key t)) ?db' = Some (replay_of ?ok)"
    using stored_committed [OF i] by (simp add: reservation_key_def)
  ultimately show "\<exists>db'. complete_redemption clk t tg actor (Some now) db = (Inr ?ok, db') \<and>
        integrity db' \<and> users_get_for_update tg db' = Some u \<and>
        partition_codes db' = tbl_del pc_code c (partition_codes db) \<and>
        partition_grants db' = partition_grants (grant_write r tg m (emby_name u) now e db) \<and>
        stored_answer redeem_partition_scope (Some (reservation_key t)) db' = Some (replay_of ?ok)"
    using i by blast
qed

text \<open>C5: A reservation excludes. While a code is held by one user and the five minutes have not
  passed, another user's attempt to reserve it is told that the code is busy, and attempts to
  redeem or release it with the holder's token are told that the reservation is invalid; all
  three change nothing. The holder asking again gets the same token back.\<close>

theorem reservation_excludes:
  assumes "integrity db" and "partitions_get_code_for_update c db = Some r" and "held_by tg t since r"
    and "has_media tg db" and "has_media tg2 db" and "tg2 \<noteq> tg" and "now < since + RESERVATION_TTL"
    and "get_idempotent_result redeem_partition_scope (Some (reservation_key t)) db = None"
  shows "reserve_code clk t2 c tg2 actor (Some now) db = (Inr (result ''code_busy'' []), db) \<and>
    complete_redemption clk t tg2 actor (Some now) db = (Inr (result ''reservation_invalid'' []), db) \<and>
    release_reservation clk t tg2 actor reason db = (Inr (result ''reservation_invalid'' []), db) \<and>
    (\<exists>d. reserve_code clk t2 c tg actor (Some now) db =
       (Inr \<lparr>res_status = ''ok'', res_data = (''reservation_token'', JStr t) # d, res_replayed = True\<rparr>, db))"
proof -
  have token: "partitions_get_reservation_for_update t db = Some r"
    using reservation_by_token [OF assms(1,2)] assms(3) by (simp add: held_by_def)
  have fresh: "\<not> reservation_stale now r"
    using assms(3,7) by (simp add: held_by_def reservation_stale_def)
  note h = assms(3) [unfolded held_by_def]
  obtain u e where u: "users_get_for_update tg db = Some u" "emby_embyid u = Some e" "e \<noteq> []"
    using has_mediaE [OF assms(4)] .
  obtain u2 e2 where u2: "users_get_for_update tg2 db = Some u2" "emby_embyid u2 = Some e2" "e2 \<noteq> []"
    using has_mediaE [OF assms(5)] .
  show ?thesis
    using assms(1,2,6) h u u2 token fresh
    by (simp add: reserve_code_def complete_redemption_def release_reservation_def Let_def run_uow_def
        replay_or_fresh [OF assms(8)] reservation_data_def)
qed

text \<open>C12: Reserving and releasing is a round trip. A user with a media account reserves an
  available code under a new token, and the release with that token leaves the partition codes
  as they were.\<close>

theorem reserve_release_roundtrip:
  assumes "integrity db" and "partitions_get_code_for_update c db = Some r" and "has_media tg db"
    and "pc_status r = ''available''" and "pc_reserved_by r = None" and "pc_reserved_at r = None"
    and "pc_reservation_token r = None" and "Some t \<notin> pc_reservation_token ` set (partition_codes db)"
  shows "let (x, db1) = reserve_code clk t c tg actor now db;
             (y, db2) = release_reservation clk t tg actor reason db1
         in (\<exists>d. x = Inr (result ''ok'' ((''reservation_token'', JStr t) # d))) \<and>
            (\<exists>r1 since. partitions_get_code_for_update c db1 = Some r1 \<and> held_by tg t since r1) \<and>
            y = Inr (result ''ok'' []) \<and> partition_codes db2 = partition_codes db"
proof -
  define at where "at = (case now of None \<Rightarrow> now_local clk | Some t \<Rightarrow> t)"
  define r1 where "r1 = reserved_row tg t at r"
  obtain u e where u: "users_get_for_update tg db = Some u" "emby_embyid u = Some e" "e \<noteq> []"
    using has_mediaE [OF assms(3)] .
  have key: "pc_code r = c" by (rule partition_repo.get_key [OF assms(2)])
  obtain db1 where first: "reserve_code clk t c tg actor now db = (Inr (result ''ok'' (reservation_data (Some t) r u)), db1)"
    and db1: "db1 = audit clk actor ''partition_code.reserve'' ''partition_code'' (Some (secret_fingerprint c))
      ''success'' (Some (JDict [(''tg'', JInt tg), (''partition'', JStr (pc_partition r))])) None (partitions_save_code r1 db)"
    and i1: "integrity db1" and got: "partitions_get_code_for_update c db1 = Some r1"
    using reserve_available [OF assms(1,2) u(1) _ assms(4,8) at_def, where actor = actor] u r1_def by auto
  have token: "partitions_get_reservation_for_update t db1 = Some r1"
    by (rule reservation_by_token [OF i1 got]) (simp add: r1_def reserved_row_def)
  define r2 where "r2 = r1\<lparr>pc_status := ''available'', pc_reserved_by := None, pc_reserved_at := None, pc_reservation_token := None\<rparr>"
  have r2: "r2 = r" using assms(4-7) by (simp add: r1_def r2_def reserved_row_def)
  have restore: "tbl_put pc_code r (tbl_put pc_code r1 rs) = rs"
    if "tbl_get pc_code c rs = Some r" "distinct (map pc_code rs)" for rs
  proof -
    have "r = x" if "x \<in> set rs" "pc_code x = c" for x
      using tbl_get_distinct [of pc_code rs x] that \<open>tbl_get pc_code c rs = Some r\<close> \<open>distinct (map pc_code rs)\<close> by simp
    then show ?thesis using key by (auto simp: tbl_put_def r1_def reserved_row_def intro!: map_idI)
  qed
  obtain y db2 where second: "release_reservation clk t tg actor reason db1 = (y, db2)" by fastforce
  have y: "y = Inr (result ''ok'' []) \<and> partition_codes db2 = partition_codes db"
  proof -
    have "integrity (partitions_save_code r db1)"
      using save_code_integrity [OF i1, of r] assms(7) by simp
    then have "release_reservation clk t tg actor reason db1 = (Inr (result ''ok'' []),
      audit clk actor ''partition_code.release'' ''partition_code'' (Some (secret_fingerprint (pc_code r1))) ''failed''
         (Some (JDict [(''tg'', JInt tg), (''reason'', JStr reason)])) None (partitions_save_code r db1))"
      using token r2 by (simp add: release_reservation_def Let_def run_uow_def r2_def [symmetric]) (simp add: r1_def reserved_row_def)
    moreover have "partition_codes (partitions_save_code r db1) = partition_codes db"
      using restore [of "partition_codes db"] assms(1,2)
      by (simp add: db1 partitions_save_code_def partitions_get_code_for_update_def integrity_def)
    ultimately show ?thesis using second by auto
  qed
  have "held_by tg t at r1" by (simp add: r1_def)
  with first second y got show ?thesis by (auto simp: reservation_data_def)
qed


text \<open>Redemption spends the code and extends the grant. With a valid reservation, the new expiry
  is the code's days after the later of now and the expiry of the grant the user already has;
  the code is gone, so nobody can reserve it again, the grant is active until the new expiry,
  and completing again replays the answer. An expiry beyond the calendar raises and changes
  nothing.\<close>

theorem redemption_outcome:
  assumes "integrity db" and "ids_below pg_id (partition_grants db)" and "has_media tg db"
    and "partitions_get_code_for_update c db = Some r" and "held_by tg t since r"
    and "tbl_get idem_pk (redeem_partition_scope, reservation_key t) (rows (idempotency db)) = None"
    and "e = grant_start now (partitions_get_grant_for_update tg (pc_partition r) db) + pc_duration_days r * day"
  shows "let (x, db') = complete_redemption clk t tg actor (Some now) db;
             ok = result ''ok'' [(''partition'', JStr (pc_partition r)), (''expires_at'', JTime e)]
         in if 0 \<le> e \<and> e \<le> max_datetime
            then x = Inr ok \<and>
              (\<exists>g. partitions_get_grant_for_update tg (pc_partition r) db' = Some g \<and> pg_expires_at g = e \<and>
                 pg_status g = Some ''active'') \<and>
              reserve_code clk' t' c tg actor' now' db' = (Inr (result ''invalid_code'' []), db') \<and>
              complete_redemption clk' t tg actor' now' db' = (Inr (replay_of ok), db')
            else x = Inl OverflowError \<and> db' = db"
proof -
  obtain u m where u: "users_get_for_update tg db = Some u" "emby_embyid u = Some m" "m \<noteq> []"
    using has_mediaE [OF assms(3)] .
  note held = complete_held [OF assms(1,4,5) u assms(6,7), of clk actor]
  show ?thesis
  proof (cases "0 \<le> e \<and> e \<le> max_datetime")
    case True
    then obtain db' where first: "complete_redemption clk t tg actor (Some now) db =
          (Inr (result ''ok'' [(''partition'', JStr (pc_partition r)), (''expires_at'', JTime e)]), db')"
      and db': "integrity db'" "users_get_for_update tg db' = Some u" "partition_codes db' = tbl_del pc_code c (partition_codes db)"
        "partition_grants db' = partition_grants (grant_write r tg m (emby_name u) now e db)"
      and stored: "stored_answer redeem_partition_scope (Some (reservation_key t)) db' =
          Some (replay_of (result ''ok'' [(''partition'', JStr (pc_partition r)), (''expires_at'', JTime e)]))"
      using held(2) by blast
    have "partitions_get_code_for_update c db' = None"
      by (simp add: partitions_get_code_for_update_def db'(3) tbl_get_del)
    then have "reserve_code clk' t' c tg actor' now' db' = (Inr (result ''invalid_code'' []), db')"
      using db' u by (simp add: reserve_code_def Let_def run_uow_def)
    moreover have "complete_redemption clk' t tg actor' now' db' =
        (Inr (replay_of (result ''ok'' [(''partition'', JStr (pc_partition r)), (''expires_at'', JTime e)])), db')"
      using db' u stored by (simp add: complete_redemption_def Let_def run_uow_def replay_or_stored)
    ultimately show ?thesis
      using True first grant_write_get [OF assms(2), of tg r m "emby_name u" now e]
      by (simp add: partitions_get_grant_for_update_def db'(4)) metis
  qed (use held(1) in auto)
qed


subsection \<open>The properties on sample data\<close>

definition sample_partition_code :: partition_code_row where
  "sample_partition_code =
     \<lparr>pc_code = ''P'', pc_partition = ''anime'', pc_duration_days = 30, pc_created_by = Some 1,
      pc_status = ''available'', pc_reserved_by = None, pc_reserved_at = None,
      pc_reservation_token = None, pc_created_at = None\<rparr>"

definition sample_partition_db :: core_db where
  "sample_partition_db =
     sample_db\<lparr>embys := [sample_user\<lparr>emby_embyid := Some ''e7''\<rparr>, (new_emby 8)\<lparr>emby_embyid := Some ''e8''\<rparr>],
               partition_codes := [sample_partition_code]\<rparr>"

definition sample_reserved :: partition_code_row where
  "sample_reserved = sample_partition_code\<lparr>pc_status := ''reserved'', pc_reserved_by := Some 7,
     pc_reserved_at := Some (1000 * day), pc_reservation_token := Some ''t''\<rparr>"

definition sample_reserved_db :: core_db where
  "sample_reserved_db = sample_partition_db\<lparr>partition_codes := [sample_reserved]\<rparr>"

lemmas sample_partition_defs = sample_partition_code_def sample_partition_db_def sample_reserved_def
  sample_reserved_db_def sample_defs

theorem reservation_excludes_witness:
  "reserve_code sample_clock ''s'' ''P'' 8 sample_actor (Some (1000 * day)) sample_reserved_db =
     (Inr (result ''code_busy'' []), sample_reserved_db)"
proof -
  have "integrity sample_reserved_db" "partitions_get_code_for_update ''P'' sample_reserved_db = Some sample_reserved"
    "held_by 7 ''t'' (1000 * day) sample_reserved" "has_media 7 sample_reserved_db" "has_media 8 sample_reserved_db"
    "get_idempotent_result redeem_partition_scope (Some (reservation_key ''t'')) sample_reserved_db = None"
    by (simp_all add: sample_partition_defs integrity_def op_defs held_by_def has_media_def get_idempotent_result_def)
  then show ?thesis
    using reservation_excludes [of sample_reserved_db "''P''" sample_reserved 7 "''t''" "1000 * day" 8 "1000 * day"
        sample_clock "''s''" sample_actor]
    by (simp add: RESERVATION_TTL_def)
qed

theorem reserve_release_roundtrip_witness:
  "partition_codes (snd (release_reservation sample_clock ''t'' 7 sample_actor ''emby''
     (snd (reserve_code sample_clock ''t'' ''P'' 7 sample_actor None sample_partition_db)))) = [sample_partition_code]"
proof -
  have "integrity sample_partition_db" "partitions_get_code_for_update ''P'' sample_partition_db = Some sample_partition_code"
    "has_media 7 sample_partition_db" "partition_codes sample_partition_db = [sample_partition_code]"
    by (simp_all add: sample_partition_defs integrity_def op_defs has_media_def)
  then show ?thesis
    using reserve_release_roundtrip [of sample_partition_db "''P''" sample_partition_code 7 "''t''" sample_clock sample_actor None "''emby''"]
    by (simp add: Let_def split_def) (simp add: sample_partition_code_def)
qed

theorem redemption_outcome_witness:
  "fst (complete_redemption sample_clock ''t'' 7 sample_actor (Some (1000 * day)) sample_reserved_db) =
     Inr (result ''ok'' [(''partition'', JStr ''anime''), (''expires_at'', JTime (1030 * day))])"
proof -
  have "integrity sample_reserved_db" "partitions_get_code_for_update ''P'' sample_reserved_db = Some sample_reserved"
    "held_by 7 ''t'' (1000 * day) sample_reserved" "has_media 7 sample_reserved_db"
    "ids_below pg_id (partition_grants sample_reserved_db)"
    "tbl_get idem_pk (redeem_partition_scope, reservation_key ''t'') (rows (idempotency sample_reserved_db)) = None"
    by (simp_all add: sample_partition_defs integrity_def op_defs held_by_def has_media_def ids_below_def)
  moreover have "1030 * day = grant_start (1000 * day) (partitions_get_grant_for_update 7 (pc_partition sample_reserved)
      sample_reserved_db) + pc_duration_days sample_reserved * day"
    by (simp add: grant_start_def op_defs sample_partition_defs)
  ultimately show ?thesis
    using redemption_outcome [of sample_reserved_db 7 "''P''" sample_reserved "''t''" "1000 * day" "1030 * day"
        "1000 * day" sample_clock sample_actor sample_clock "''s''" sample_actor None]
    by (simp add: Let_def split_def) (simp add: sample_reserved_def sample_partition_code_def)
qed

end
