(* ===== verification/Task_Definitions.thy ===== *)
theory Task_Definitions
  imports Domain
begin

section \<open>The catalogue of task types\<close>

text \<open>
  \<open>TASK_DEFINITIONS\<close> of \<open>bot/application/task_service.py\<close>. Labels and descriptions are
  given by their Unicode code points and encoded as the UTF-8 bytes the development keeps
  text in.
\<close>

record task_definition =
  td_task_type :: string
  td_label :: string
  td_description :: string
  td_risk :: string
  td_timeout_seconds :: int
  td_max_retries :: int
  td_admin_exposed :: bool

abbreviation task_def :: "string \<Rightarrow> string \<Rightarrow> string \<Rightarrow> string \<Rightarrow> int \<Rightarrow> int \<Rightarrow> bool \<Rightarrow> task_definition" where
  "task_def tt label description risk timeout retries exposed \<equiv>
     \<lparr>td_task_type = tt, td_label = label, td_description = description, td_risk = risk,
      td_timeout_seconds = timeout, td_max_retries = retries, td_admin_exposed = exposed\<rparr>"

definition TASK_DEFINITIONS :: "task_definition list" where
  "TASK_DEFINITIONS = [
    task_def ''sync.favorites''
      (text_of [
        0x540c, 0x6b65, 0x20, 0x45, 0x6d, 0x62, 0x79, 0x20, 0x6536, 0x85cf])
      (text_of [
        0x4ece, 0x20, 0x45, 0x6d, 0x62, 0x79, 0x20, 0x62c9, 0x53d6, 0x5168, 0x90e8, 0x7528,
        0x6237, 0x6536, 0x85cf, 0x5e76, 0x540c, 0x6b65, 0x5230, 0x672c, 0x5730, 0x6570,
        0x636e, 0x5e93, 0x3002])
      ''normal'' 1800 2 True,
    task_def ''sync.moviepilot''
      (text_of [
        0x540c, 0x6b65, 0x20, 0x4d, 0x6f, 0x76, 0x69, 0x65, 0x50, 0x69, 0x6c, 0x6f, 0x74,
        0x20, 0x72b6, 0x6001])
      (text_of [
        0x5237, 0x65b0, 0x4e0b, 0x8f7d, 0x548c, 0x5165, 0x5e93, 0x4efb, 0x52a1, 0x72b6,
        0x6001, 0x3002])
      ''normal'' 600 3 True,
    task_def ''sync.core_operations''
      (text_of [
        0x540c, 0x6b65, 0x591a, 0x20, 0x45, 0x6d, 0x62, 0x79, 0x20, 0x64ad, 0x653e, 0x4f1a,
        0x8bdd])
      (text_of [
        0x6c47, 0x603b, 0x6240, 0x6709, 0x542f, 0x7528, 0x20, 0x45, 0x6d, 0x62, 0x79, 0x20,
        0x5b9e, 0x4f8b, 0x7684, 0x5728, 0x7ebf, 0x4f1a, 0x8bdd, 0x3001, 0x64ad, 0x653e,
        0x5386, 0x53f2, 0x548c, 0x8bbe, 0x5907, 0x753b, 0x50cf, 0x3002])
      ''normal'' 300 2 False,
    task_def ''maintenance.partition_access''
      (text_of [
        0x68c0, 0x67e5, 0x5206, 0x533a, 0x6388, 0x6743])
      (text_of [
        0x56de, 0x6536, 0x5df2, 0x5230, 0x671f, 0x5206, 0x533a, 0x6388, 0x6743, 0x5e76,
        0x901a, 0x77e5, 0x53d7, 0x5f71, 0x54cd, 0x7528, 0x6237, 0x3002])
      ''warning'' 900 2 True,
    task_def ''maintenance.expired_accounts''
      (text_of [
        0x68c0, 0x67e5, 0x5230, 0x671f, 0x8d26, 0x6237])
      (text_of [
        0x6267, 0x884c, 0x8d26, 0x6237, 0x7eed, 0x671f, 0x3001, 0x51bb, 0x7ed3, 0x53ca, 0x20,
        0x45, 0x6d, 0x62, 0x79, 0x20, 0x7b56, 0x7565, 0x66f4, 0x65b0, 0x3002])
      ''danger'' 1800 1 True,
    task_def ''maintenance.backup_database''
      (text_of [
        0x5907, 0x4efd, 0x6570, 0x636e, 0x5e93])
      (text_of [
        0x521b, 0x5efa, 0x6570, 0x636e, 0x5e93, 0x5907, 0x4efd, 0x5e76, 0x6309, 0x4fdd,
        0x7559, 0x7b56, 0x7565, 0x6e05, 0x7406, 0x65e7, 0x6587, 0x4ef6, 0x3002])
      ''warning'' 1800 1 True,
    task_def ''registration.account''
      (text_of [
        0x521b, 0x5efa, 0x20, 0x45, 0x6d, 0x62, 0x79, 0x20, 0x8d26, 0x53f7])
      (text_of [
        0x901a, 0x8fc7, 0x5171, 0x4eab, 0x6ce8, 0x518c, 0x961f, 0x5217, 0x521b, 0x5efa,
        0x8d26, 0x53f7, 0x5e76, 0x5199, 0x5165, 0x7528, 0x6237, 0x8d44, 0x6599, 0x3002])
      ''normal'' 180 0 False,
    task_def ''monitor.diagnostics''
      (text_of [
        0x8fd0, 0x884c, 0x7cfb, 0x7edf, 0x8bca, 0x65ad])
      (text_of [
        0x63a2, 0x6d4b, 0x6570, 0x636e, 0x5e93, 0x3001, 0x45, 0x6d, 0x62, 0x79, 0x3001, 0x54,
        0x65, 0x6c, 0x65, 0x67, 0x72, 0x61, 0x6d, 0x20, 0x4e0e, 0x5df2, 0x542f, 0x7528,
        0x5916, 0x90e8, 0x670d, 0x52a1, 0xff0c, 0x5e76, 0x6267, 0x884c, 0x98ce, 0x9669,
        0x89c4, 0x5219, 0x3002])
      ''normal'' 120 1 True,
    task_def ''alert.telegram''
      (text_of [
        0x53d1, 0x9001, 0x20, 0x54, 0x65, 0x6c, 0x65, 0x67, 0x72, 0x61, 0x6d, 0x20, 0x544a,
        0x8b66])
      (text_of [
        0x5411, 0x914d, 0x7f6e, 0x7684, 0x5b89, 0x5168, 0x7ba1, 0x7406, 0x5458, 0x53d1,
        0x9001, 0x98ce, 0x9669, 0x4e8b, 0x4ef6, 0x544a, 0x8b66, 0x3002])
      ''normal'' 60 3 False,
    task_def ''notification.telegram''
      (text_of [
        0x53d1, 0x9001, 0x20, 0x54, 0x65, 0x6c, 0x65, 0x67, 0x72, 0x61, 0x6d, 0x20, 0x4e1a,
        0x52a1, 0x901a, 0x77e5])
      (text_of [
        0x6309, 0x7167, 0x7528, 0x6237, 0x901a, 0x77e5, 0x504f, 0x597d, 0x53d1, 0x9001,
        0x4e1a, 0x52a1, 0x72b6, 0x6001, 0x901a, 0x77e5, 0x3002])
      ''normal'' 60 3 False,
    task_def ''users.batch''
      (text_of [
        0x6279, 0x91cf, 0x8d26, 0x53f7, 0x8fd0, 0x8425])
      (text_of [
        0x6279, 0x91cf, 0x6267, 0x884c, 0x8d26, 0x53f7, 0x6682, 0x505c, 0x3001, 0x6062,
        0x590d, 0x3001, 0x5ef6, 0x671f, 0x3001, 0x6743, 0x76ca, 0x8c03, 0x6574, 0x6216,
        0x901a, 0x77e5, 0x3002])
      ''danger'' 3600 0 False,
    task_def ''automation.evaluate''
      (text_of [
        0x6267, 0x884c, 0x81ea, 0x52a8, 0x5316, 0x89c4, 0x5219])
      (text_of [
        0x6d88, 0x8d39, 0x7cfb, 0x7edf, 0x4e8b, 0x4ef6, 0x5e76, 0x6267, 0x884c, 0x5df2,
        0x542f, 0x7528, 0x7684, 0x5b89, 0x5168, 0x52a8, 0x4f5c, 0x3002])
      ''normal'' 300 1 False,
    task_def ''monitor.emby_instances''
      (text_of [
        0x63a2, 0x6d4b, 0x591a, 0x20, 0x45, 0x6d, 0x62, 0x79, 0x20, 0x5b9e, 0x4f8b])
      (text_of [
        0x68c0, 0x67e5, 0x6240, 0x6709, 0x542f, 0x7528, 0x7684, 0x20, 0x45, 0x6d, 0x62, 0x79,
        0x20, 0x5b9e, 0x4f8b, 0x3001, 0x51ed, 0x636e, 0x548c, 0x20, 0x41, 0x50, 0x49, 0x20,
        0x54cd, 0x5e94, 0x3002])
      ''normal'' 300 1 False]"

definition find_definition :: "string \<Rightarrow> task_definition option" where
  \<comment> \<open>\<open>TASK_DEFINITIONS.get(task_type)\<close>\<close>
  "find_definition tt = find (\<lambda>d. td_task_type d = tt) TASK_DEFINITIONS"

definition definitions :: "jval list" where
  "definitions =
     map (\<lambda>d. JDict [(''task_type'', JStr (td_task_type d)), (''label'', JStr (td_label d)),
                     (''description'', JStr (td_description d)), (''risk'', JStr (td_risk d)),
                     (''timeout_seconds'', JInt (td_timeout_seconds d)),
                     (''max_retries'', JInt (td_max_retries d))])
       (filter td_admin_exposed TASK_DEFINITIONS)"

lemma task_types_distinct: "distinct (map td_task_type TASK_DEFINITIONS)"
  by (simp add: TASK_DEFINITIONS_def)

lemma task_retries: "list_all (\<lambda>d. 0 \<le> td_max_retries d) TASK_DEFINITIONS"
  by (simp add: TASK_DEFINITIONS_def)

lemma definition_retries: "find_definition tt = Some d \<Longrightarrow> 0 \<le> td_max_retries d"
  using task_retries unfolding find_definition_def find_Some_iff list_all_length by blast

end
