(* ===== verification/Task_Service.thy ===== *)
theory Task_Service
  imports Task_Definitions Contracts
begin

section \<open>The task queue\<close>

text \<open>
  \<open>TaskService\<close> of \<open>bot/application/task_service.py\<close>. Workers claim tasks under a lease,
  renew it, and complete or fail them; a claim first takes back the tasks whose lease has run
  out. The id of a new task (\<open>uuid4\<close>) is an argument, and \<open>enqueue\<close> takes what other sessions
  commit between its lookup and its insert as the argument \<open>race\<close>.
\<close>

subsection \<open>Serialisation\<close>

definition sensitive_keys :: "string list" where
  "sensitive_keys = [''safety_code'', ''registration_code'', ''emby_password'']"

definition masked_text :: jval where
  "masked_text = JStr ''********''"

definition sanitized_task_data :: "string \<Rightarrow> jval \<Rightarrow> bool \<Rightarrow> jval" where
  "sanitized_task_data tt v include_sensitive =
     (if include_sensitive \<or> tt \<notin> {''registration.account'', ''notification.telegram''} then v
      else (case v of
          JDict kvs \<Rightarrow> JDict (map (\<lambda>(k, x).
            if k \<in> set sensitive_keys \<or> (tt = ''notification.telegram'' \<and> k = ''body'')
            then (k, masked_text) else (k, x)) kvs)
        | _ \<Rightarrow> v))"

definition serialize_task :: "bool \<Rightarrow> task_row \<Rightarrow> jdict" where
  "serialize_task include_sensitive row =
     [(''id'', JStr (task_id row)),
      (''task_type'', JStr (task_type row)),
      (''label'', JStr (case find_definition (task_type row) of None \<Rightarrow> task_type row | Some d \<Rightarrow> td_label d)),
      (''status'', JStr (task_status row)),
      (''progress'', JInt (task_progress row)),
      (''owner_kind'', JStr (task_owner_kind row)),
      (''owner_id'', JStr (task_owner_id row)),
      (''input'', sanitized_task_data (task_type row) (jopt (task_input row)) include_sensitive),
      (''result'', sanitized_task_data (task_type row) (jopt (task_result row)) include_sensitive),
      (''error_message'', jopt_str (task_error_message row)),
      (''retry_count'', JInt (task_retry_count row)),
      (''max_retries'', JInt (task_max_retries row)),
      (''next_run_at'', JTime (task_next_run_at row)),
      (''locked_by'', jopt_str (task_locked_by row)),
      (''cancel_requested'', JBool (task_cancel_requested row)),
      (''created_at'', JTime (task_created_at row)),
      (''started_at'', jopt_time (task_started_at row)),
      (''finished_at'', jopt_time (task_finished_at row)),
      (''updated_at'', JTime (task_updated_at row))]"

subsection \<open>Enqueueing\<close>

definition task_event :: "clock \<Rightarrow> string \<Rightarrow> string \<Rightarrow> jdict \<Rightarrow> 'z core_db_scheme \<Rightarrow> 'z core_db_scheme" where
  "task_event clk etype tid payload db = event clk etype ''operation_task'' (Some tid) (Some (JDict payload)) db"

definition new_task :: "clock \<Rightarrow> string \<Rightarrow> task_definition \<Rightarrow> jdict option \<Rightarrow> actor \<Rightarrow> string option \<Rightarrow> task_row" where
  "new_task clk new_id d payload actor key =
     \<lparr>task_id = new_id, task_type = td_task_type d, task_status = ''pending'', task_progress = 0,
      task_owner_kind = actor_kind actor, task_owner_id = actor_identifier actor,
      task_idempotency_key = key,
      task_input = Some (json_dumps (JDict (case payload of None \<Rightarrow> [] | Some p \<Rightarrow> p))),
      task_result = None, task_error_message = None, task_retry_count = 0,
      task_max_retries = td_max_retries d, task_next_run_at = now_utc clk, task_locked_by = None,
      task_lease_expires_at = None, task_last_heartbeat_at = None, task_cancel_requested = False,
      task_created_at = now_utc clk, task_started_at = None, task_finished_at = None,
      task_updated_at = now_utc clk\<rparr>"

definition insert_task ::
  "clock \<Rightarrow> task_row \<Rightarrow> actor \<Rightarrow> 'z core_db_scheme \<Rightarrow> (service_result \<times> 'z core_db_scheme) attempt" where
  "insert_task clk task actor db =
     (let db1 = add_task task db;
          db2 = audit_success clk actor ''task.enqueue'' ''operation_task'' (Some (task_id task))
                  (Some (JDict [(''task_type'', JStr (task_type task))])) db1;
          db3 = task_event clk ''task.created'' (task_id task)
                  [(''task_id'', JStr (task_id task)), (''task_type'', JStr (task_type task)),
                   (''status'', JStr ''pending'')] db2
      in Inr (result ''ok'' (serialize_task False task), db3))"

definition enqueue ::
  "clock \<Rightarrow> string \<Rightarrow> string \<Rightarrow> jdict option \<Rightarrow> actor \<Rightarrow> string option \<Rightarrow>
   ('z core_db_scheme \<Rightarrow> 'z core_db_scheme) \<Rightarrow> 'z core_db_scheme \<Rightarrow>
   (service_result, 'z core_db_scheme) outcome" where
  "enqueue clk new_id tt payload actor key race db =
     (case find_definition tt of
        None \<Rightarrow> (Inr (result ''unsupported_task'' []), db)
      | Some d \<Rightarrow>
          (case get_task_by_idempotency_key key db of
             Some existing \<Rightarrow> (Inr (result ''ok'' (serialize_task False existing)), db)
           | None \<Rightarrow>
               (case run_uow (insert_task clk (new_task clk new_id d payload actor key) actor) (race db) of
                  (Inl IntegrityError, db1) \<Rightarrow>
                    if \<not> truthy_str key then (Inl IntegrityError, db1)
                    else (case get_task_by_idempotency_key key db1 of
                        Some existing \<Rightarrow> (Inr (result ''ok'' (serialize_task False existing)), db1)
                      | None \<Rightarrow> (Inl IntegrityError, db1))
                | outcome \<Rightarrow> outcome)))"

subsection \<open>Reading\<close>

definition get_task_view :: "string \<Rightarrow> 'z core_db_scheme \<Rightarrow> jdict option" where
  "get_task_view tid db = map_option (serialize_task False) (get_task tid db)"

definition list_task_views ::
  "string list option \<Rightarrow> string option \<Rightarrow> string option \<Rightarrow> int \<Rightarrow> int \<Rightarrow> 'z core_db_scheme \<Rightarrow> jdict" where
  "list_task_views statuses tt owner lim off db =
     (let (rs, total) = list_tasks statuses tt owner lim off db
      in [(''items'', JList (map (\<lambda>t. JDict (serialize_task False t)) rs)), (''total'', JInt total),
          (''limit'', JInt lim), (''offset'', JInt off)])"

subsection \<open>Cancelling and retrying\<close>

definition terminal_statuses :: "string list" where
  "terminal_statuses = [''succeeded'', ''failed'', ''canceled'']"

definition cancel_row :: "datetime \<Rightarrow> task_row \<Rightarrow> task_row" where
  "cancel_row now t =
     (let t1 = t\<lparr>task_cancel_requested := True\<rparr>;
          t2 = (if task_status t \<in> {''pending'', ''retrying''}
                then t1\<lparr>task_status := ''canceled'', task_finished_at := Some now, task_progress := 100\<rparr>
                else t1)
      in t2\<lparr>task_updated_at := now\<rparr>)"

definition cancel ::
  "clock \<Rightarrow> string \<Rightarrow> actor \<Rightarrow> 'z core_db_scheme \<Rightarrow> (service_result, 'z core_db_scheme) outcome" where
  "cancel clk tid actor db0 =
     run_uow (\<lambda>db.
       case get_task tid db of
         None \<Rightarrow> Inr (result ''not_found'' [], db)
       | Some t \<Rightarrow>
           if task_status t \<in> set terminal_statuses then
             Inr (result ''terminal'' (serialize_task False t), db)
           else
             let t' = cancel_row (now_utc clk) t;
                 db1 = save_task t' db;
                 db2 = audit_success clk actor ''task.cancel'' ''operation_task'' (Some (task_id t'))
                         (Some (JDict [(''status'', JStr (task_status t'))])) db1;
                 db3 = task_event clk ''task.updated'' (task_id t')
                         [(''task_id'', JStr (task_id t')), (''status'', JStr (task_status t')),
                          (''cancel_requested'', JBool True)] db2
             in Inr (result ''ok'' (serialize_task False t'), db3)) db0"

definition retry_row :: "datetime \<Rightarrow> task_row \<Rightarrow> task_row" where
  "retry_row now t =
     t\<lparr>task_status := ''pending'', task_progress := 0, task_retry_count := 0,
       task_error_message := None, task_result := None, task_next_run_at := now,
       task_locked_by := None, task_lease_expires_at := None, task_last_heartbeat_at := None,
       task_cancel_requested := False, task_started_at := None, task_finished_at := None,
       task_updated_at := now\<rparr>"

definition retry ::
  "clock \<Rightarrow> string \<Rightarrow> actor \<Rightarrow> 'z core_db_scheme \<Rightarrow> (service_result, 'z core_db_scheme) outcome" where
  "retry clk tid actor db0 =
     run_uow (\<lambda>db.
       case get_task tid db of
         None \<Rightarrow> Inr (result ''not_found'' [], db)
       | Some t \<Rightarrow>
           if task_status t \<notin> {''failed'', ''canceled''} then
             Inr (result ''not_retryable'' (serialize_task False t), db)
           else
             let t' = retry_row (now_utc clk) t;
                 db1 = save_task t' db;
                 db2 = audit_success clk actor ''task.retry'' ''operation_task'' (Some (task_id t')) None db1;
                 db3 = task_event clk ''task.updated'' (task_id t')
                         [(''task_id'', JStr (task_id t')), (''status'', JStr ''pending'')] db2
             in Inr (result ''ok'' (serialize_task False t'), db3)) db0"

subsection \<open>Claiming\<close>

definition backoff_seconds :: "int \<Rightarrow> int" where
  "backoff_seconds retry_count = min 300 (5 * 2 ^ nat (max 0 (retry_count - 1)))"

definition recover_row :: "datetime \<Rightarrow> task_row \<Rightarrow> task_row" where
  "recover_row now t =
     (let t1 = t\<lparr>task_locked_by := None, task_lease_expires_at := None, task_last_heartbeat_at := None,
                 task_retry_count := task_retry_count t + 1\<rparr>;
          t2 = (if task_cancel_requested t1 then
                  t1\<lparr>task_status := ''canceled'', task_finished_at := Some now\<rparr>
                else if task_retry_count t1 \<le> task_max_retries t1 then
                  t1\<lparr>task_status := ''retrying'',
                     task_next_run_at := now + backoff_seconds (task_retry_count t1) * second,
                     task_error_message := Some ''Worker lease expired; task scheduled for retry''\<rparr>
                else
                  t1\<lparr>task_status := ''failed'', task_finished_at := Some now,
                     task_error_message := Some ''Worker lease expired and retry limit was reached''\<rparr>)
      in t2\<lparr>task_updated_at := now\<rparr>)"

definition recover_task :: "clock \<Rightarrow> task_row \<Rightarrow> 'z core_db_scheme \<Rightarrow> 'z core_db_scheme" where
  "recover_task clk t db =
     (let t' = recover_row (now_utc clk) t
      in task_event clk ''task.updated'' (task_id t')
           [(''task_id'', JStr (task_id t')), (''status'', JStr (task_status t'))] (save_task t' db))"

definition claim ::
  "clock \<Rightarrow> string \<Rightarrow> int \<Rightarrow> 'z core_db_scheme \<Rightarrow> (jdict option, 'z core_db_scheme) outcome" where
  "claim clk worker_id lease_seconds db0 =
     (let now = now_utc clk in
      run_uow (\<lambda>db.
        let db1 = fold (recover_task clk) (recover_expired_task_leases now db) db;
            (row, db2) = claim_next_task worker_id now (now + lease_seconds * second) db1
        in (case row of
              None \<Rightarrow> Inr (None, db2)
            | Some t \<Rightarrow>
                Inr (Some (serialize_task True t),
                     task_event clk ''task.updated'' (task_id t)
                       [(''task_id'', JStr (task_id t)), (''status'', JStr ''running'')] db2))) db0)"

subsection \<open>Working under the lease\<close>

definition holds :: "string \<Rightarrow> task_row \<Rightarrow> bool" where
  "holds worker_id t = (task_status t = ''running'' \<and> task_locked_by t = Some worker_id)"

definition heartbeat ::
  "clock \<Rightarrow> string \<Rightarrow> string \<Rightarrow> int \<Rightarrow> 'z core_db_scheme \<Rightarrow> (bool, 'z core_db_scheme) outcome" where
  "heartbeat clk tid worker_id lease_seconds db0 =
     (let now = now_utc clk in
      run_uow (\<lambda>db.
        case get_task tid db of
          None \<Rightarrow> Inr (False, db)
        | Some t \<Rightarrow>
            if \<not> holds worker_id t then Inr (False, db)
            else Inr (\<not> task_cancel_requested t,
                      save_task (t\<lparr>task_last_heartbeat_at := Some now,
                                   task_lease_expires_at := Some (now + lease_seconds * second),
                                   task_updated_at := now\<rparr>) db)) db0)"

definition complete_row :: "datetime \<Rightarrow> jval \<Rightarrow> task_row \<Rightarrow> task_row" where
  "complete_row now res t =
     t\<lparr>task_status := (if task_cancel_requested t then ''canceled'' else ''succeeded''),
       task_progress := 100, task_result := Some (json_dumps (if jtruthy res then res else JDict [])),
       task_error_message := None, task_locked_by := None, task_lease_expires_at := None,
       task_finished_at := Some now, task_updated_at := now\<rparr>"

definition complete ::
  "clock \<Rightarrow> string \<Rightarrow> string \<Rightarrow> jval \<Rightarrow> 'z core_db_scheme \<Rightarrow> (bool, 'z core_db_scheme) outcome" where
  "complete clk tid worker_id res db0 =
     run_uow (\<lambda>db.
       case get_task tid db of
         None \<Rightarrow> Inr (False, db)
       | Some t \<Rightarrow>
           if \<not> holds worker_id t then Inr (False, db)
           else
             let t' = complete_row (now_utc clk) res t
             in Inr (True, task_event clk ''task.updated'' (task_id t')
                  [(''task_id'', JStr (task_id t')), (''task_type'', JStr (task_type t')),
                   (''status'', JStr (task_status t'))] (save_task t' db))) db0"

definition fail_row :: "datetime \<Rightarrow> string \<Rightarrow> task_row \<Rightarrow> task_row" where
  "fail_row now error t =
     (let t1 = t\<lparr>task_retry_count := task_retry_count t + 1, task_error_message := Some (py_take 4000 error),
                 task_locked_by := None, task_lease_expires_at := None, task_last_heartbeat_at := None\<rparr>;
          t2 = (if task_cancel_requested t1 then
                  t1\<lparr>task_status := ''canceled'', task_finished_at := Some now, task_progress := 100\<rparr>
                else if task_retry_count t1 \<le> task_max_retries t1 then
                  t1\<lparr>task_status := ''retrying'',
                     task_next_run_at := now + backoff_seconds (task_retry_count t1) * second\<rparr>
                else t1\<lparr>task_status := ''failed'', task_finished_at := Some now\<rparr>)
      in t2\<lparr>task_updated_at := now\<rparr>)"

definition fail ::
  "clock \<Rightarrow> string \<Rightarrow> string \<Rightarrow> string \<Rightarrow> 'z core_db_scheme \<Rightarrow> (bool, 'z core_db_scheme) outcome" where
  "fail clk tid worker_id error db0 =
     run_uow (\<lambda>db.
       case get_task tid db of
         None \<Rightarrow> Inr (False, db)
       | Some t \<Rightarrow>
           if \<not> holds worker_id t then Inr (False, db)
           else
             let t' = fail_row (now_utc clk) error t
             in Inr (True, task_event clk ''task.updated'' (task_id t')
                  [(''task_id'', JStr (task_id t')), (''task_type'', JStr (task_type t')),
                   (''status'', JStr (task_status t')), (''retry_count'', JInt (task_retry_count t'))]
                  (save_task t' db))) db0"

subsection \<open>Job runs\<close>

definition record_job_run ::
  "clock \<Rightarrow> string \<Rightarrow> string \<Rightarrow> string \<Rightarrow> datetime option \<Rightarrow> jdict option \<Rightarrow> string option \<Rightarrow>
   'z core_db_scheme \<Rightarrow> (unit, 'z core_db_scheme) outcome" where
  "record_job_run clk name trigger status started summary error db0 =
     run_uow (\<lambda>db. Inr ((), add_job_run
       (\<lambda>i. \<lparr>job_id = i, job_name = name, job_trigger_kind = trigger, job_status = status,
             job_summary = Some (json_dumps (JDict (case summary of None \<Rightarrow> [] | Some s \<Rightarrow> s))),
             job_error_message = (if truthy_str error then Some (py_take 4000 (the error)) else None),
             job_started_at = (case started of None \<Rightarrow> now_utc clk | Some t \<Rightarrow> t),
             job_finished_at = Some (now_utc clk)\<rparr>) db)) db0"

definition list_job_run_views :: "int \<Rightarrow> int \<Rightarrow> 'z core_db_scheme \<Rightarrow> jdict" where
  "list_job_run_views lim off db =
     (let (rs, total) = list_job_runs lim off db
      in [(''items'', JList (map (\<lambda>j. JDict
            [(''id'', JInt (job_id j)), (''job_name'', JStr (job_name j)),
             (''trigger_kind'', JStr (job_trigger_kind j)), (''status'', JStr (job_status j)),
             (''summary'', jopt (job_summary j)), (''error_message'', jopt_str (job_error_message j)),
             (''started_at'', JTime (job_started_at j)), (''finished_at'', jopt_time (job_finished_at j))]) rs)),
          (''total'', JInt total), (''limit'', JInt lim), (''offset'', JInt off)])"

end
