(* ===== verification/Task_Lifecycle.thy ===== *)
theory Task_Lifecycle
  imports Task_Service Point_Properties
begin

section \<open>The life of a task\<close>

text \<open>
  Every operation of the queue moves a task row along the relation \<open>task_step\<close> or leaves it.
  The invariant \<open>task_wf\<close> ties the lock, the lease, the times and the retry counter to the
  status; it and the finality of success hold along every sequence of calls.
\<close>

subsection \<open>Rows and constraints\<close>

lemma get_task_frame [simp]:
  "get_task tid (audit clk actor action rt rid oc det rq db) = get_task tid db"
  "get_task tid (event clk et rt rid p db) = get_task tid db"
  "get_task tid (task_event clk et i q db) = get_task tid db"
  "get_task tid (add_job_run mk db) = get_task tid db"
  by (simp_all add: get_task_def task_event_def add_job_run_def)

lemma task_event_frame [simp]:
  "tasks (task_event clk et i p db) = tasks db"
  "integrity (task_event clk et i p db) = integrity db"
  by (simp_all add: task_event_def)

lemma row_ids [simp]:
  "task_id (cancel_row now t) = task_id t" "task_id (retry_row now t) = task_id t"
  "task_id (recover_row now t) = task_id t" "task_id (complete_row now res t) = task_id t"
  "task_id (fail_row now err t) = task_id t" "task_id (claim_update w now lease t) = task_id t"
  "task_idempotency_key (cancel_row now t) = task_idempotency_key t"
  "task_idempotency_key (retry_row now t) = task_idempotency_key t"
  "task_idempotency_key (recover_row now t) = task_idempotency_key t"
  "task_idempotency_key (complete_row now res t) = task_idempotency_key t"
  "task_idempotency_key (fail_row now err t) = task_idempotency_key t"
  "task_idempotency_key (claim_update w now lease t) = task_idempotency_key t"
  by (simp_all add: cancel_row_def retry_row_def recover_row_def complete_row_def fail_row_def
      claim_update_def Let_def)

lemma save_task_integrity:
  assumes "integrity db" and "get_task (task_id t) db = Some t0"
    and "task_idempotency_key t = task_idempotency_key t0"
  shows "integrity (save_task t db)"
proof -
  have "map task_idempotency_key (tbl_put task_id t (tasks db)) = map task_idempotency_key (tasks db)"
    using assms by (intro map_tbl_put [of _ _ _ t0]) (simp_all add: integrity_def get_task_def)
  then show ?thesis
    using assms(1) unique_some_cong [of task_idempotency_key "tbl_put task_id t (tasks db)" "tasks db"]
    by (simp add: integrity_def save_task_def)
qed

lemma get_saved_task:
  assumes "get_task tid db = Some t" and "task_id t' = task_id t"
  shows "get_task i (save_task t' db) = (if i = tid then Some t' else get_task i db)"
  using assms task_repo.get_key [OF assms(1)] by (auto simp: task_repo.get_put)

subsection \<open>Recovering expired leases\<close>

lemma fold_tbl_put:
  assumes "\<And>x. key (f x) = key x" and "distinct (map key rs)" and "distinct (map key ts)" and "set ts \<subseteq> set rs"
  shows "fold (\<lambda>t. tbl_put key (f t)) ts rs = map (\<lambda>x. if x \<in> set ts then f x else x) rs"
  using assms(2-4)
proof (induction ts arbitrary: rs)
  case (Cons t ts)
  let ?rs = "tbl_put key (f t) rs"
  have keys: "map key ?rs = map key rs" by simp
  have same: "x = t" if "x \<in> set rs" "key x = key t" for x
    using tbl_get_distinct [of key rs x] tbl_get_distinct [of key rs t] Cons.prems that by simp
  have notin: "key t \<notin> key ` set ts" using Cons.prems by simp
  have sub: "set ts \<subseteq> set ?rs"
  proof
    fix x assume "x \<in> set ts"
    with Cons.prems notin show "x \<in> set ?rs"
      by (auto simp: tbl_put_def assms(1) image_iff intro!: bexI [of _ x])
  qed
  have "fold (\<lambda>t. tbl_put key (f t)) (t # ts) rs = map (\<lambda>x. if x \<in> set ts then f x else x) ?rs"
    using Cons.IH [of ?rs] Cons.prems sub keys by simp
  also have "\<dots> = map (\<lambda>x. if x \<in> set (t # ts) then f x else x) rs"
    using notin same assms(1) by (auto simp: tbl_put_def image_iff)
  finally show ?case .
qed simp

lemma tasks_recover: "tasks (recover_task clk t db) = tbl_put task_id (recover_row (now_utc clk) t) (tasks db)"
  by (simp add: recover_task_def Let_def save_task_def)

lemma tasks_recover_all:
  assumes "integrity db"
  shows "tasks (fold (recover_task clk) (recover_expired_task_leases (now_utc clk) db) db) =
    map (\<lambda>t. if lease_expired (now_utc clk) t then recover_row (now_utc clk) t else t) (tasks db)"
proof -
  have step: "tasks (fold (recover_task clk) ts db) =
      fold (\<lambda>t. tbl_put task_id (recover_row (now_utc clk) t)) ts (tasks db)" for ts and db :: "'a core_db_scheme"
    by (induction ts arbitrary: db) (simp_all add: tasks_recover)
  have d: "distinct (map task_id (tasks db))" using assms by (simp add: integrity_def)
  then have "distinct (map task_id (filter (lease_expired (now_utc clk)) (tasks db)))"
    by (simp add: distinct_map_filter)
  with d show ?thesis
    unfolding step recover_expired_task_leases_def
    by (subst fold_tbl_put) auto
qed

lemma find_map: "(\<And>x. key (f x) = key x) \<Longrightarrow> tbl_get key k (map f rs) = map_option f (tbl_get key k rs)"
  by (induction rs) auto

lemma get_recover_all:
  assumes "integrity db"
  shows "get_task tid (fold (recover_task clk) (recover_expired_task_leases (now_utc clk) db) db) =
    map_option (\<lambda>t. if lease_expired (now_utc clk) t then recover_row (now_utc clk) t else t) (get_task tid db)"
  unfolding get_task_def tasks_recover_all [OF assms] by (rule find_map) simp

lemma recover_integrity:
  assumes "integrity db"
  shows "integrity (fold (recover_task clk) (recover_expired_task_leases (now_utc clk) db) db)"
proof -
  let ?db = "fold (recover_task clk) (recover_expired_task_leases (now_utc clk) db) db"
  have other: "\<exists>es ts. fold (recover_task clk) ts' d = d\<lparr>tasks := ts, events := es\<rparr>" for ts' and d :: "'a core_db_scheme"
  proof (induction ts' arbitrary: d)
    case Nil
    show ?case by (intro exI [of _ "events d"] exI [of _ "tasks d"]) simp
  next
    case (Cons t ts')
    obtain es ts where "recover_task clk t d = d\<lparr>tasks := ts, events := es\<rparr>"
      by (simp add: recover_task_def Let_def task_event_def event_def save_task_def)
    with Cons.IH [of "recover_task clk t d"] show ?case by auto
  qed
  obtain es ts where db': "?db = db\<lparr>tasks := ts, events := es\<rparr>" using other by blast
  have ts: "ts = map (\<lambda>t. if lease_expired (now_utc clk) t then recover_row (now_utc clk) t else t) (tasks db)"
    using tasks_recover_all [OF assms, of clk] unfolding db' by simp
  have "map task_id ts = map task_id (tasks db)" "map task_idempotency_key ts = map task_idempotency_key (tasks db)"
    unfolding ts by auto
  then show ?thesis
    using assms unique_some_cong [of task_idempotency_key ts "tasks db"] unfolding db' by (simp add: integrity_def)
qed

subsection \<open>Claiming one candidate\<close>

lemma claim_first_cases:
  assumes "claim_first w now lease tids db = (row, db')"
  obtains (none) "row = None" "db' = db"
      "\<And>tid t. tid \<in> set tids \<Longrightarrow> get_task tid db = Some t \<Longrightarrow> \<not> still_claimable now t"
    | (claimed) ys tid zs t where "tids = ys @ tid # zs" "get_task tid db = Some t" "still_claimable now t"
        "row = Some (claim_update w now lease t)" "db' = save_task (claim_update w now lease t) db"
        "\<And>i u. i \<in> set ys \<Longrightarrow> get_task i db = Some u \<Longrightarrow> \<not> still_claimable now u"
  using assms
proof (induction tids arbitrary: thesis)
  case Nil
  then show ?case by simp
next
  case (Cons tid tids)
  show ?case
  proof (cases "\<exists>t. get_task tid db = Some t \<and> still_claimable now t")
    case True
    then obtain t where "get_task tid db = Some t" "still_claimable now t" by blast
    with Cons.prems(3) show ?thesis by (intro Cons.prems(2) [of "[]" tid tids t]) auto
  next
    case False
    then have rest: "claim_first w now lease tids db = (row, db')"
      using Cons.prems(3) by (auto split: option.splits if_splits)
    show ?thesis
    proof (rule Cons.IH [OF _ _ rest])
      assume "row = None" "db' = db" "\<And>i t. i \<in> set tids \<Longrightarrow> get_task i db = Some t \<Longrightarrow> \<not> still_claimable now t"
      with False show thesis by (intro Cons.prems(1)) auto
    next
      fix ys i zs t
      assume "tids = ys @ i # zs" "get_task i db = Some t" "still_claimable now t"
        "row = Some (claim_update w now lease t)" "db' = save_task (claim_update w now lease t) db"
        "\<And>j u. j \<in> set ys \<Longrightarrow> get_task j db = Some u \<Longrightarrow> \<not> still_claimable now u"
      with False show thesis by (intro Cons.prems(2) [of "tid # ys" i zs t]) auto
    qed
  qed
qed

subsection \<open>The step relation\<close>

inductive task_step :: "task_row \<Rightarrow> task_row \<Rightarrow> bool" where
  step_claim: "still_claimable now t \<Longrightarrow> task_step t (claim_update w now lease t)"
| step_cancel: "task_status t \<notin> set terminal_statuses \<Longrightarrow> task_step t (cancel_row now t)"
| step_retry: "task_status t \<in> {''failed'', ''canceled''} \<Longrightarrow> task_step t (retry_row now t)"
| step_recover: "lease_expired now t \<Longrightarrow> task_step t (recover_row now t)"
| step_beat: "holds w t \<Longrightarrow>
    task_step t (t\<lparr>task_last_heartbeat_at := Some now, task_lease_expires_at := Some lease, task_updated_at := now\<rparr>)"
| step_complete: "holds w t \<Longrightarrow> task_step t (complete_row now res t)"
| step_fail: "holds w t \<Longrightarrow> task_step t (fail_row now err t)"

inductive_cases task_stepE: "task_step t t'"

lemma succeeded_final: "task_step t t' \<Longrightarrow> task_status t \<noteq> ''succeeded''"
  by (elim task_stepE) (auto simp: still_claimable_def terminal_statuses_def lease_expired_def holds_def)

lemma succeeded_stays: "task_step\<^sup>*\<^sup>* t t' \<Longrightarrow> task_status t = ''succeeded'' \<Longrightarrow> t' = t"
  by (induction rule: rtranclp_induct) (auto dest: succeeded_final)

text \<open>What stays of a task for its whole life.\<close>

lemma step_fixed:
  "task_step t t' \<Longrightarrow> task_id t' = task_id t \<and> task_type t' = task_type t \<and> task_input t' = task_input t \<and>
     task_idempotency_key t' = task_idempotency_key t \<and> task_max_retries t' = task_max_retries t"
  by (elim task_stepE) (simp_all add: claim_update_def cancel_row_def retry_row_def recover_row_def
      complete_row_def fail_row_def Let_def)

subsection \<open>The invariant\<close>

definition task_wf :: "task_row \<Rightarrow> bool" where
  "task_wf t =
     (task_status t \<in> {''pending'', ''retrying'', ''running'', ''succeeded'', ''failed'', ''canceled''} \<and>
      (task_status t = ''running'') = (task_locked_by t \<noteq> None) \<and>
      (task_status t = ''running'') = (task_lease_expires_at t \<noteq> None) \<and>
      (task_status t \<in> set terminal_statuses) = (task_finished_at t \<noteq> None) \<and>
      0 \<le> task_max_retries t \<and>
      0 \<le> task_retry_count t \<and> task_retry_count t \<le> task_max_retries t + 1 \<and>
      (task_status t \<in> {''pending'', ''retrying'', ''running''} \<longrightarrow> task_retry_count t \<le> task_max_retries t) \<and>
      (task_status t \<in> {''pending'', ''retrying''} \<longrightarrow> \<not> task_cancel_requested t))"

text \<open>The invariant read off at each status.\<close>

lemma wf_waiting:
  "task_status t = ''pending'' \<or> task_status t = ''retrying'' \<Longrightarrow>
   task_wf t = (task_locked_by t = None \<and> task_lease_expires_at t = None \<and> task_finished_at t = None \<and>
     0 \<le> task_retry_count t \<and> task_retry_count t \<le> task_max_retries t \<and> \<not> task_cancel_requested t)"
  by (elim disjE) (simp_all add: task_wf_def terminal_statuses_def, auto)

lemma wf_running:
  "task_status t = ''running'' \<Longrightarrow>
   task_wf t = (task_locked_by t \<noteq> None \<and> task_lease_expires_at t \<noteq> None \<and> task_finished_at t = None \<and>
     0 \<le> task_retry_count t \<and> task_retry_count t \<le> task_max_retries t)"
  by (simp add: task_wf_def terminal_statuses_def) auto

lemma wf_terminal:
  "task_status t = ''succeeded'' \<or> task_status t = ''failed'' \<or> task_status t = ''canceled'' \<Longrightarrow>
   task_wf t = (task_locked_by t = None \<and> task_lease_expires_at t = None \<and> task_finished_at t \<noteq> None \<and>
     0 \<le> task_max_retries t \<and> 0 \<le> task_retry_count t \<and> task_retry_count t \<le> task_max_retries t + 1)"
  by (elim disjE) (simp_all add: task_wf_def terminal_statuses_def)

lemma wf_statuses:
  "task_wf t \<Longrightarrow> (task_status t = ''pending'' \<or> task_status t = ''retrying'') \<or> task_status t = ''running'' \<or>
     (task_status t = ''succeeded'' \<or> task_status t = ''failed'' \<or> task_status t = ''canceled'')"
  by (simp add: task_wf_def) blast

lemma claim_wf: "still_claimable now t \<Longrightarrow> task_wf t \<Longrightarrow> task_wf (claim_update w now lease t)"
  using wf_waiting [of t] wf_running [of "claim_update w now lease t"]
  by (simp add: still_claimable_def claim_update_def)

lemma cancel_wf:
  assumes "task_status t \<notin> set terminal_statuses" and "task_wf t"
  shows "task_wf (cancel_row now t)"
  using wf_statuses [OF assms(2)]
proof (elim disjE)
  assume "task_status t = ''pending''"
  then show ?thesis
    using wf_waiting [of t] wf_terminal [of "cancel_row now t"] assms(2) by (simp add: cancel_row_def)
next
  assume "task_status t = ''retrying''"
  then show ?thesis
    using wf_waiting [of t] wf_terminal [of "cancel_row now t"] assms(2) by (simp add: cancel_row_def)
next
  assume "task_status t = ''running''"
  then show ?thesis
    using wf_running [of t] wf_running [of "cancel_row now t"] assms(2) by (simp add: cancel_row_def)
qed (use assms(1) in \<open>simp_all add: terminal_statuses_def\<close>)

lemma retry_wf: "task_status t \<in> {''failed'', ''canceled''} \<Longrightarrow> task_wf t \<Longrightarrow> task_wf (retry_row now t)"
  using wf_terminal [of t] wf_waiting [of "retry_row now t"] by (simp add: retry_row_def)

lemma recover_wf: "lease_expired now t \<Longrightarrow> task_wf t \<Longrightarrow> task_wf (recover_row now t)"
  using wf_running [of t] wf_waiting [of "recover_row now t"] wf_terminal [of "recover_row now t"]
  by (cases "task_cancel_requested t"; cases "task_retry_count t + 1 \<le> task_max_retries t")
    (simp_all add: lease_expired_def recover_row_def Let_def)

lemma complete_wf: "holds w t \<Longrightarrow> task_wf t \<Longrightarrow> task_wf (complete_row now res t)"
  using wf_running [of t] wf_terminal [of "complete_row now res t"]
  by (cases "task_cancel_requested t") (simp_all add: holds_def complete_row_def)

lemma fail_wf: "holds w t \<Longrightarrow> task_wf t \<Longrightarrow> task_wf (fail_row now err t)"
  using wf_running [of t] wf_waiting [of "fail_row now err t"] wf_terminal [of "fail_row now err t"]
  by (cases "task_cancel_requested t"; cases "task_retry_count t + 1 \<le> task_max_retries t")
    (simp_all add: holds_def fail_row_def Let_def)

lemma beat_wf:
  "holds w t \<Longrightarrow> task_wf t \<Longrightarrow>
   task_wf (t\<lparr>task_last_heartbeat_at := Some now, task_lease_expires_at := Some lease, task_updated_at := now\<rparr>)"
  using wf_running [of t]
    wf_running [of "t\<lparr>task_last_heartbeat_at := Some now, task_lease_expires_at := Some lease, task_updated_at := now\<rparr>"]
  by (simp add: holds_def)

lemma step_wf: "task_step t t' \<Longrightarrow> task_wf t \<Longrightarrow> task_wf t'"
  by (elim task_stepE) (simp_all add: claim_wf cancel_wf retry_wf recover_wf beat_wf complete_wf fail_wf)

lemma steps_wf: "task_step\<^sup>*\<^sup>* t t' \<Longrightarrow> task_wf t \<Longrightarrow> task_wf t'"
  by (induction rule: rtranclp_induct) (auto intro: step_wf)

lemma new_task_wf: "find_definition tt = Some d \<Longrightarrow> task_wf (new_task clk new_id d payload actor key)"
  using definition_retries [of tt d] by (simp add: task_wf_def new_task_def terminal_statuses_def)

subsection \<open>The service as one call\<close>

datatype task_reply = RResult service_result | RBool bool | RTask "jdict option" | RDone

datatype task_request =
    TEnqueue clock string string "jdict option" actor "string option"
  | TCancel clock string actor
  | TRetry clock string actor
  | TClaim clock string int
  | THeartbeat clock string string int
  | TComplete clock string string jval
  | TFail clock string string string
  | TJobRun clock string string string "datetime option" "jdict option" "string option"

fun task_call :: "task_request \<Rightarrow> 'z core_db_scheme \<Rightarrow> (task_reply, 'z core_db_scheme) outcome" where
  "task_call (TEnqueue clk new_id tt payload actor key) db =
     map_prod (map_sum id RResult) id (enqueue clk new_id tt payload actor key id db)"
| "task_call (TCancel clk tid actor) db = map_prod (map_sum id RResult) id (cancel clk tid actor db)"
| "task_call (TRetry clk tid actor) db = map_prod (map_sum id RResult) id (retry clk tid actor db)"
| "task_call (TClaim clk w lease) db = map_prod (map_sum id RTask) id (claim clk w lease db)"
| "task_call (THeartbeat clk tid w lease) db = map_prod (map_sum id RBool) id (heartbeat clk tid w lease db)"
| "task_call (TComplete clk tid w res) db = map_prod (map_sum id RBool) id (complete clk tid w res db)"
| "task_call (TFail clk tid w err) db = map_prod (map_sum id RBool) id (fail clk tid w err db)"
| "task_call (TJobRun clk name trig st started summary err) db =
     map_prod (map_sum id (\<lambda>_. RDone)) id (record_job_run clk name trig st started summary err db)"

text \<open>One row changed by one step, and possibly other tables.\<close>

lemma row_step:
  assumes "get_task tid db = Some t" and "task_step t t'" and "\<And>i. get_task i db' = get_task i (save_task t' db)"
    and "get_task j db = Some u"
  shows "\<exists>u'. get_task j db' = Some u' \<and> task_step\<^sup>*\<^sup>* u u'"
  using assms(1,2,4) get_saved_task [OF assms(1), of t' j] step_fixed [OF assms(2)]
  by (cases "j = tid") (auto simp: assms(3) intro: r_into_rtranclp)

lemma guarded_row:
  assumes "run_uow (\<lambda>db. case get_task tid db of None \<Rightarrow> Inr (nf, db)
      | Some t \<Rightarrow> if P t then Inr (g t, db) else Inr (r t, h t (save_task (f t) db))) db = (x, db')"
    and "\<And>t. \<not> P t \<Longrightarrow> task_step t (f t)" and "\<And>t i d. get_task i (h t d) = get_task i d"
    and "get_task j db = Some u"
  shows "\<exists>u'. get_task j db' = Some u' \<and> task_step\<^sup>*\<^sup>* u u'"
proof (cases "\<exists>t. get_task tid db = Some t \<and> \<not> P t \<and> db' = h t (save_task (f t) db)")
  case True
  then obtain t where "get_task tid db = Some t" "task_step t (f t)" "db' = h t (save_task (f t) db)"
    using assms(2) by blast
  then show ?thesis by (intro row_step [OF _ _ _ assms(4)]) (simp_all add: assms(3))
next
  case False
  then have "db' = db" using assms(1) by (auto simp: run_uow_def split: option.splits if_splits)
  with assms(4) show ?thesis by blast
qed

text \<open>What a call does to the rows: the old ones step, a new one is well formed.\<close>

definition rows_step :: "'z core_db_scheme \<Rightarrow> 'z core_db_scheme \<Rightarrow> bool" where
  "rows_step db db' =
     ((\<forall>tid t. get_task tid db = Some t \<longrightarrow> (\<exists>t'. get_task tid db' = Some t' \<and> task_step\<^sup>*\<^sup>* t t')) \<and>
      (\<forall>tid t'. get_task tid db = None \<longrightarrow> get_task tid db' = Some t' \<longrightarrow> task_wf t'))"

lemma rows_step_refl [simp]: "rows_step db db"
  by (auto simp: rows_step_def)

lemma rows_step_save:
  assumes "get_task tid db = Some t" and "task_step t t'" and "\<And>i. get_task i db' = get_task i (save_task t' db)"
  shows "rows_step db db'"
proof -
  have "get_task i db' = None" if "get_task i db = None" for i
    using that by (simp add: assms(3))
  with row_step [OF assms] show ?thesis by (auto simp: rows_step_def)
qed

lemma guarded_step:
  assumes "\<And>t. \<not> P t \<Longrightarrow> task_step t (f t)" and "\<And>t i d. get_task i (h t d) = get_task i d"
  shows "rows_step db (snd (run_uow (\<lambda>db. case get_task tid db of None \<Rightarrow> Inr (nf, db)
      | Some t \<Rightarrow> if P t then Inr (g t, db) else Inr (r t, h t (save_task (f t) db))) db))"
proof (cases "get_task tid db")
  case None
  then show ?thesis by (simp add: run_uow_def)
next
  case (Some t)
  show ?thesis
  proof (cases "P t")
    case True
    with Some show ?thesis by (simp add: run_uow_def)
  next
    case False
    have "rows_step db (h t (save_task (f t) db))"
      by (rule rows_step_save [OF Some assms(1) [OF False]]) (rule assms(2))
    with Some False show ?thesis by (simp add: run_uow_def)
  qed
qed

lemma cancel_step: "rows_step db (snd (cancel clk tid actor db))"
  unfolding cancel_def Let_def by (rule guarded_step) (auto intro: step_cancel)

lemma retry_step: "rows_step db (snd (retry clk tid actor db))"
  unfolding retry_def Let_def by (rule guarded_step) (auto intro: step_retry)

lemma heartbeat_step: "rows_step db (snd (heartbeat clk tid w lease db))"
  unfolding heartbeat_def Let_def by (rule guarded_step [where h = "\<lambda>t d. d"]) (auto intro: step_beat)

lemma complete_step: "rows_step db (snd (complete clk tid w res db))"
  unfolding complete_def Let_def by (rule guarded_step) (auto intro: step_complete)

lemma fail_step: "rows_step db (snd (fail clk tid w err db))"
  unfolding fail_def Let_def by (rule guarded_step) (auto intro: step_fail)

lemma job_run_step: "rows_step db (snd (record_job_run clk name trig st started summary err db))"
  by (auto simp: record_job_run_def run_uow_def rows_step_def)

lemma insert_task_rows:
  assumes "insert_task clk task actor db = Inr (r, db')" and "task_wf task"
  shows "rows_step db db'"
proof -
  have "get_task i db' = get_task i (add_task task db)" for i
    using assms(1) by (auto simp: insert_task_def Let_def)
  moreover have "get_task i (add_task task db) =
      (case get_task i db of None \<Rightarrow> if task_id task = i then Some task else None | Some t \<Rightarrow> Some t)" for i
    by (auto simp: get_task_def add_task_def tbl_get_append split: option.split)
  ultimately show ?thesis using assms(2) by (auto simp: rows_step_def split: if_splits)
qed

lemma enqueue_step: "rows_step db (snd (enqueue clk new_id tt payload actor key id db))"
proof (cases "find_definition tt")
  case None
  then show ?thesis by (simp add: enqueue_def)
next
  case (Some d)
  note wf = new_task_wf [OF Some, of clk new_id payload actor key]
  show ?thesis
  proof (cases rule: disjE [OF run_uow_cases [of "insert_task clk (new_task clk new_id d payload actor key) actor" db]])
    case 1
    then show ?thesis by (auto simp: enqueue_def Some split: option.split exn.split)
  next
    case 2
    then show ?thesis
      using insert_task_rows [OF _ wf] by (auto simp: enqueue_def Some split: option.split)
  qed
qed

subsection \<open>Claims\<close>

definition recovered :: "clock \<Rightarrow> 'z core_db_scheme \<Rightarrow> 'z core_db_scheme" where
  "recovered clk db = fold (recover_task clk) (recover_expired_task_leases (now_utc clk) db) db"

lemma recovered_get:
  "integrity db \<Longrightarrow> get_task tid (recovered clk db) =
    map_option (\<lambda>t. if lease_expired (now_utc clk) t then recover_row (now_utc clk) t else t) (get_task tid db)"
  unfolding recovered_def by (rule get_recover_all)

lemma recovered_integrity: "integrity db \<Longrightarrow> integrity (recovered clk db)"
  unfolding recovered_def by (rule recover_integrity)

lemma backoff_bounds: "5 \<le> backoff_seconds n" "backoff_seconds n \<le> 300"
proof -
  have "(1::int) \<le> 2 ^ k" for k :: nat by simp
  then show "5 \<le> backoff_seconds n" "backoff_seconds n \<le> 300" by (simp_all add: backoff_seconds_def)
qed

text \<open>A recovered task is not a candidate of the same claim: it is terminal, or its next run lies
  in the future. So it does not matter that the session writes it back after the candidates
  have been read.\<close>

lemma recovered_not_claimable: "lease_expired now t \<Longrightarrow> \<not> claimable now (recover_row now t)"
  using backoff_bounds(1) [of "task_retry_count t + 1"]
  by (cases "task_cancel_requested t"; cases "task_retry_count t + 1 \<le> task_max_retries t")
    (simp_all add: recover_row_def Let_def claimable_def)

lemma expired_not_claimable: "lease_expired now t \<Longrightarrow> \<not> claimable now t"
  by (simp add: lease_expired_def claimable_def)

lemma recovered_candidates:
  assumes "integrity db"
  shows "claim_candidates (now_utc clk) (recovered clk db) = claim_candidates (now_utc clk) db"
proof -
  have "filter (claimable now) (map (\<lambda>t. if lease_expired now t then recover_row now t else t) ts) =
      filter (claimable now) ts" for now ts
    by (induction ts) (simp_all add: recovered_not_claimable expired_not_claimable)
  then show ?thesis by (simp add: claim_candidates_def recovered_def tasks_recover_all [OF assms])
qed

lemma candidate_row:
  assumes "integrity db" and "tid \<in> set (claim_candidates now db)"
  obtains t where "get_task tid db = Some t" "claimable now t"
proof -
  from assms(2) obtain t where t: "t \<in> set (tasks db)" "claimable now t" "task_id t = tid"
    unfolding claim_candidates_def by (auto dest!: in_set_takeD)
  with assms(1) have "get_task tid db = Some t"
    using tbl_get_distinct [of task_id "tasks db" t] by (simp add: get_task_def integrity_def)
  with t that show thesis by blast
qed

lemma claimable_still: "claimable now t \<Longrightarrow> still_claimable now t \<and> \<not> lease_expired now t"
  by (auto simp: claimable_def still_claimable_def lease_expired_def)

lemma claim_result:
  assumes "integrity db" and now_def: "now = now_utc clk"
  shows "claim clk w lease db =
    (case claim_candidates now db of
       [] \<Rightarrow> (Inr None, recovered clk db)
     | tid # tids \<Rightarrow>
         let t' = claim_update w now (now + lease * second) (the (get_task tid db))
         in (Inr (Some (serialize_task True t')),
             task_event clk ''task.updated'' tid [(''task_id'', JStr tid), (''status'', JStr ''running'')]
               (save_task t' (recovered clk db))))"
proof (cases "claim_candidates now db")
  case Nil
  then show ?thesis
    using recovered_candidates [OF assms(1), of clk] recovered_integrity [OF assms(1), of clk]
    by (simp add: claim_def Let_def run_uow_def claim_next_task_def recovered_def now_def)
next
  case (Cons tid tids)
  obtain t where t: "get_task tid db = Some t" "claimable now t"
    using candidate_row [OF assms(1), of tid now] Cons by auto
  define t' where "t' = claim_update w now (now + lease * second) t"
  have got: "get_task tid (recovered clk db) = Some t"
    using recovered_get [OF assms(1), of tid clk] t claimable_still [OF t(2)] by (simp add: now_def)
  have id: "task_id t' = tid" using task_repo.get_key [OF t(1)] by (simp add: t'_def)
  have ok: "integrity (save_task t' (recovered clk db))"
    using save_task_integrity [OF recovered_integrity [OF assms(1)], of t' clk t] got id by (simp add: t'_def)
  have cand: "claim_candidates (now_utc clk) (recovered clk db) = tid # tids"
    using recovered_candidates [OF assms(1), of clk] Cons by (simp add: now_def)
  have "claim_next_task w now (now + lease * second) (recovered clk db) = (Some t', save_task t' (recovered clk db))"
    unfolding claim_next_task_def now_def cand
    using got claimable_still [OF t(2)] by (simp add: t'_def now_def)
  moreover have "fold (recover_task clk) (recover_expired_task_leases now db) db = recovered clk db"
    by (simp add: recovered_def now_def)
  ultimately show ?thesis
    using ok id by (simp add: claim_def run_uow_def Cons t(1) Let_def now_def [symmetric] t'_def [symmetric])
qed

lemma claim_step:
  assumes "integrity db"
  shows "rows_step db (snd (claim clk w lease db))"
proof -
  define now where "now = now_utc clk"
  have rec: "rows_step db (recovered clk db)"
    using recovered_get [OF assms, of _ clk] by (auto simp: rows_step_def intro: r_into_rtranclp step_recover)
  show ?thesis
  proof (cases "claim_candidates now db")
    case Nil
    with rec show ?thesis by (simp add: claim_result [OF assms now_def] now_def)
  next
    case (Cons tid tids)
    obtain t where t: "get_task tid db = Some t" "claimable now t"
      using candidate_row [OF assms, of tid now] Cons by auto
    let ?t' = "claim_update w now (now + lease * second) t"
    have got: "get_task tid (recovered clk db) = Some t"
      using recovered_get [OF assms, of tid clk] t claimable_still [OF t(2)] by (simp add: now_def)
    have "get_task i (snd (claim clk w lease db)) = (if i = tid then Some ?t' else get_task i (recovered clk db))" for i
      using get_saved_task [OF got, of ?t' i] Cons t(1) by (simp add: claim_result [OF assms now_def] now_def Let_def)
    moreover have "task_step t ?t'" using claimable_still [OF t(2)] by (auto intro: step_claim)
    ultimately show ?thesis
      using rec t(1) unfolding rows_step_def by (auto intro: r_into_rtranclp split: if_splits)
  qed
qed

lemma task_call_step: "integrity db \<Longrightarrow> rows_step db (snd (task_call c db))"
  by (cases c) (simp_all add: enqueue_step cancel_step retry_step claim_step heartbeat_step complete_step
      fail_step job_run_step)

end
