(* ===== verification/Task_Properties.thy ===== *)
theory Task_Properties
  imports Task_Lifecycle
begin

section \<open>The properties of the task queue\<close>

text \<open>
  The queue's invariant along sequences of calls, the persistence of tasks and the finality of
  success, the fencing by the lease, the order of claims, the retry policy, one task per key
  under races, and the masking of secrets.
\<close>

subsection \<open>Sequences of calls\<close>

definition queue_wf :: "'z core_db_scheme \<Rightarrow> bool" where
  "queue_wf db = (\<forall>tid t. get_task tid db = Some t \<longrightarrow> task_wf t)"

lemma rows_step_wf: "rows_step db db' \<Longrightarrow> queue_wf db \<Longrightarrow> queue_wf db'"
  unfolding rows_step_def queue_wf_def
  by (metis option.exhaust option.inject steps_wf)

lemma enqueue_failed: "fst (enqueue clk new_id tt payload actor key id db) = Inl e \<Longrightarrow>
    snd (enqueue clk new_id tt payload actor key id db) = db"
  using run_uow_rollback [of "insert_task clk (new_task clk new_id (the (find_definition tt)) payload actor key) actor" db]
  by (auto simp: enqueue_def run_uow_def split: option.splits sum.splits exn.splits if_splits)

lemma enqueue_integrity: "integrity db \<Longrightarrow> integrity (snd (enqueue clk new_id tt payload actor key id db))"
  by (auto simp: enqueue_def run_uow_def split: option.split sum.split exn.split)

lemma task_call_failed: "fst (task_call c db) = Inl e \<Longrightarrow> snd (task_call c db) = db"
  by (cases c) (auto simp: cancel_def retry_def claim_def heartbeat_def complete_def fail_def record_job_run_def
      Let_def map_sum_def split: sum.splits intro: run_uow_rollback enqueue_failed)

lemma task_call_integrity: "integrity db \<Longrightarrow> integrity (snd (task_call c db))"
  by (cases c) (auto simp: cancel_def retry_def claim_def heartbeat_def complete_def fail_def record_job_run_def
      Let_def intro: run_uow_integrity enqueue_integrity)

interpretation task_tx: transactional task_call "\<lambda>db. integrity db \<and> queue_wf db"
  by unfold_locales (auto intro: task_call_failed task_call_integrity rows_step_wf [OF task_call_step])

lemma rows_step_trans:
  assumes "rows_step a b" and "rows_step b c"
  shows "get_task tid a = Some t \<Longrightarrow> \<exists>t'. get_task tid c = Some t' \<and> task_step\<^sup>*\<^sup>* t t'"
  using assms unfolding rows_step_def by (meson rtranclp_trans)

lemma task_calls_rows:
  "integrity db \<Longrightarrow> get_task tid db = Some t \<Longrightarrow>
   \<exists>t'. get_task tid (fold (\<lambda>c db. snd (task_call c db)) cs db) = Some t' \<and> task_step\<^sup>*\<^sup>* t t'"
proof (induction cs arbitrary: db t)
  case (Cons c cs)
  obtain t1 where "get_task tid (snd (task_call c db)) = Some t1" "task_step\<^sup>*\<^sup>* t t1"
    using task_call_step [OF Cons.prems(1), of c] Cons.prems(2) unfolding rows_step_def by blast
  with Cons.IH [of "snd (task_call c db)" t1] task_call_integrity [OF Cons.prems(1), of c] show ?case
    by (auto intro: rtranclp_trans)
qed auto

text \<open>C3: The queue's invariant holds along every sequence of calls. A task is in one of the six
  states; it has a lock and a lease exactly while it runs and a finishing time exactly when it is
  terminal; a waiting task has no pending cancellation; and its retry counter stays between zero
  and the limit, one more than the limit only when it has failed or been canceled.\<close>

theorem queue_invariant:
  assumes "integrity db" and "\<forall>tid t. get_task tid db = Some t \<longrightarrow> task_wf t"
    and "get_task tid (fold (\<lambda>c db. snd (task_call c db)) cs db) = Some t"
  shows "task_wf t"
  using task_tx.calls_keep [of db cs] assms unfolding queue_wf_def by blast

text \<open>Nothing is lost and success is final. Every task of the queue is still there after any
  sequence of calls, with the type, input, key and retry limit it was created with, and a task
  that has succeeded is not touched again.\<close>

theorem tasks_persist:
  assumes "integrity db" and "get_task tid db = Some t"
  shows "\<exists>t'. get_task tid (fold (\<lambda>c db. snd (task_call c db)) cs db) = Some t' \<and>
    task_type t' = task_type t \<and> task_input t' = task_input t \<and>
    task_idempotency_key t' = task_idempotency_key t \<and> task_max_retries t' = task_max_retries t \<and>
    (task_status t = ''succeeded'' \<longrightarrow> t' = t)"
proof -
  obtain t' where t': "get_task tid (fold (\<lambda>c db. snd (task_call c db)) cs db) = Some t'" "task_step\<^sup>*\<^sup>* t t'"
    using task_calls_rows [OF assms] by blast
  have "task_type t' = task_type t \<and> task_input t' = task_input t \<and>
      task_idempotency_key t' = task_idempotency_key t \<and> task_max_retries t' = task_max_retries t"
    using t'(2) by (induction rule: rtranclp_induct) (auto dest: step_fixed)
  with t' succeeded_stays [OF t'(2)] show ?thesis by blast
qed

lemma claim_leaves:
  assumes "integrity db" and "get_task tid db = Some t" and "\<not> claimable (now_utc clk) t" and "\<not> lease_expired (now_utc clk) t"
  shows "get_task tid (snd (claim clk w secs db)) = Some t"
    and "\<exists>x. fst (claim clk w secs db) = Inr x \<and> (\<forall>view. x = Some view \<longrightarrow> map_of view ''id'' \<noteq> Some (JStr tid))"
proof -
  have kept: "get_task tid (recovered clk db) = Some t"
    using recovered_get [OF assms(1), of tid clk] assms(2,4) by simp
  note cr = claim_result [OF assms(1) refl, of clk w secs]
  have both: "get_task tid (snd (claim clk w secs db)) = Some t \<and>
    (\<exists>x. fst (claim clk w secs db) = Inr x \<and> (\<forall>view. x = Some view \<longrightarrow> map_of view ''id'' \<noteq> Some (JStr tid)))"
  proof (cases "claim_candidates (now_utc clk) db")
    case Nil
    with kept show ?thesis by (simp add: cr)
  next
    case (Cons i js)
    obtain u where u: "get_task i db = Some u" "claimable (now_utc clk) u"
      using candidate_row [OF assms(1), of i "now_utc clk"] Cons by auto
    then have neq: "i \<noteq> tid" using assms(2,3) by auto
    define u' where "u' = claim_update w (now_utc clk) (now_utc clk + secs * second) u"
    have id: "task_id u' = i" using task_repo.get_key [OF u(1)] by (simp add: u'_def)
    have "claim clk w secs db = (Inr (Some (serialize_task True u')),
        task_event clk ''task.updated'' i [(''task_id'', JStr i), (''status'', JStr ''running'')]
          (save_task u' (recovered clk db)))"
      by (simp add: cr Cons u(1) Let_def u'_def)
    moreover have "get_task tid (save_task u' (recovered clk db)) = Some t"
      using kept neq id by (simp add: task_repo.get_put)
    moreover have "map_of (serialize_task True u') ''id'' \<noteq> Some (JStr tid)"
      using id neq by (simp add: serialize_task_def)
    ultimately show ?thesis by simp
  qed
  show "get_task tid (snd (claim clk w secs db)) = Some t" using both ..
  show "\<exists>x. fst (claim clk w secs db) = Inr x \<and> (\<forall>view. x = Some view \<longrightarrow> map_of view ''id'' \<noteq> Some (JStr tid))"
    using both ..
qed

text \<open>C4: The lease fences. While a worker holds a task under a lease that has not run out, the
  heartbeat, completion or failure of any other worker returns false and changes nothing, and a
  claim by anybody neither returns the task nor changes its row.\<close>

theorem lease_fences:
  assumes "integrity db" and "get_task tid db = Some t" and "holds w t"
    and "task_lease_expires_at t = Some lease" and "now_utc clk \<le> lease" and "w' \<noteq> w"
  shows "heartbeat clk tid w' secs db = (Inr False, db) \<and> complete clk tid w' res db = (Inr False, db) \<and>
    fail clk tid w' err db = (Inr False, db) \<and>
    get_task tid (snd (claim clk v secs db)) = Some t \<and>
    (\<exists>x. fst (claim clk v secs db) = Inr x \<and> (\<forall>view. x = Some view \<longrightarrow> map_of view ''id'' \<noteq> Some (JStr tid)))"
proof -
  have "\<not> holds w' t" using assms(3,6) by (simp add: holds_def)
  then have "heartbeat clk tid w' secs db = (Inr False, db)" "complete clk tid w' res db = (Inr False, db)"
    "fail clk tid w' err db = (Inr False, db)"
    using assms(1,2) by (simp_all add: heartbeat_def complete_def fail_def Let_def run_uow_def)
  moreover have "\<not> claimable (now_utc clk) t" "\<not> lease_expired (now_utc clk) t"
    using assms(3-5) by (simp_all add: claimable_def holds_def lease_expired_def)
  ultimately show ?thesis using claim_leaves [OF assms(1,2)] by blast
qed

lemma sort_key_first:
  fixes f g :: "'a \<Rightarrow> int"
  assumes "sort_key f (sort_key g xs) = t # ts" and "u \<in> set xs"
  shows "f t < f u \<or> f t = f u \<and> g t \<le> g u"
proof -
  have "sorted (map f (t # ts))" using assms(1) by (metis sorted_sort_key)
  moreover have mem: "u \<in> set (t # ts)" using assms by (metis set_sort)
  ultimately have le: "f t \<le> f u" by auto
  have "g t \<le> g u" if "f u = f t"
  proof -
    have "filter (\<lambda>y. f y = f t) (sort_key g xs) = filter (\<lambda>y. f y = f t) (t # ts)"
      using sort_key_stable [of f "f t" "sort_key g xs"] assms(1) by simp
    moreover have "sorted (map g (filter (\<lambda>y. f y = f t) (sort_key g xs)))"
      by (rule sorted_filter) simp
    ultimately have "sorted (map g (t # filter (\<lambda>y. f y = f t) ts))" by simp
    moreover have "u \<in> set (t # filter (\<lambda>y. f y = f t) ts)" using mem that by auto
    ultimately show ?thesis by auto
  qed
  with le show ?thesis by fastforce
qed

text \<open>C7: A claim serves the queue in order. It returns nothing only when no task is due; otherwise
  it returns a due task that no due task precedes in the order of next run and creation, which is
  then running, locked by the claimer until the end of its lease.\<close>

theorem claim_serves_in_order:
  assumes "integrity db" and "now = now_utc clk"
  shows "case claim clk w secs db of
      (Inr None, db') \<Rightarrow> \<forall>t \<in> set (tasks db). \<not> claimable now t
    | (Inr (Some view), db') \<Rightarrow>
        (\<exists>t. t \<in> set (tasks db) \<and> claimable now t \<and> view = serialize_task True (claim_update w now (now + secs * second) t) \<and>
           (\<forall>u \<in> set (tasks db). claimable now u \<longrightarrow> task_next_run_at t < task_next_run_at u \<or>
              task_next_run_at t = task_next_run_at u \<and> task_created_at t \<le> task_created_at u) \<and>
           get_task (task_id t) db' = Some (claim_update w now (now + secs * second) t))
    | (Inl e, db') \<Rightarrow> False"
proof -
  define due where "due = filter (claimable now) (tasks db)"
  define queue where "queue = sort_key task_next_run_at (sort_key task_created_at due)"
  have cand: "claim_candidates now db = map task_id (take 10 queue)"
    by (simp add: claim_candidates_def queue_def due_def)
  have set_queue: "set queue = {t \<in> set (tasks db). claimable now t}" by (auto simp: queue_def due_def)
  show ?thesis
  proof (cases queue)
    case Nil
    then show ?thesis
      using set_queue by (auto simp: claim_result [OF assms] cand)
  next
    case (Cons t ts)
    have t: "t \<in> set (tasks db)" "claimable now t" using set_queue Cons by auto
    have got: "get_task (task_id t) db = Some t"
      using t(1) assms(1) by (simp add: get_task_def integrity_def tbl_get_distinct)
    have first: "task_next_run_at t < task_next_run_at u \<or>
        task_next_run_at t = task_next_run_at u \<and> task_created_at t \<le> task_created_at u"
      if "u \<in> set (tasks db)" "claimable now u" for u
      using sort_key_first [OF Cons [unfolded queue_def], of u] that by (simp add: due_def)
    define t' where "t' = claim_update w now (now + secs * second) t"
    have "get_task (task_id t) (save_task t' (recovered clk db)) = Some t'"
      using recovered_get [OF assms(1), of "task_id t" clk] got task_repo.get_modified [of "task_id t" "recovered clk db" _ t']
      by (simp add: t'_def)
    moreover have "claim clk w secs db = (Inr (Some (serialize_task True t')),
        task_event clk ''task.updated'' (task_id t) [(''task_id'', JStr (task_id t)), (''status'', JStr ''running'')]
          (save_task t' (recovered clk db)))"
      using got by (simp add: claim_result [OF assms] cand Cons Let_def t'_def)
    ultimately show ?thesis
      using t first by (simp only: prod.case sum.case option.case get_task_frame) (intro exI [of _ t], auto simp: t'_def)
  qed
qed


text \<open>C10: The retry policy. A failure reported by the holder counts one attempt, releases the lock and
  keeps at most 4000 characters of the error. A task whose cancellation was requested is then
  canceled; one within its retry limit waits for the next run after five seconds, doubled with
  every attempt and never more than five minutes; one beyond its limit has failed.\<close>

theorem failure_policy:
  assumes "integrity db" and "get_task tid db = Some t" and "holds w t"
  shows "\<exists>t' db'. fail clk tid w err db = (Inr True, db') \<and> get_task tid db' = Some t' \<and>
    task_retry_count t' = task_retry_count t + 1 \<and> task_locked_by t' = None \<and> task_lease_expires_at t' = None \<and>
    (\<exists>m. task_error_message t' = Some m \<and> py_len m \<le> 4000) \<and>
    (if task_cancel_requested t then task_status t' = ''canceled'' \<and> task_finished_at t' = Some (now_utc clk)
     else if task_retry_count t < task_max_retries t
     then task_status t' = ''retrying'' \<and>
       task_next_run_at t' = now_utc clk + min 300 (5 * 2 ^ nat (task_retry_count t)) * second \<and>
       task_next_run_at t' \<le> now_utc clk + 300 * second
     else task_status t' = ''failed'' \<and> task_finished_at t' = Some (now_utc clk))"
proof -
  let ?t' = "fail_row (now_utc clk) err t"
  have ok: "integrity (save_task ?t' db)"
    using save_task_integrity [OF assms(1), of ?t' t] task_repo.get_key [OF assms(2)] assms(2) by simp
  have got: "get_task tid (save_task ?t' db) = Some ?t'"
    using get_saved_task [OF assms(2), of ?t' tid] by simp
  have nn: "nat (max 0 n) = nat n" for n :: int by (simp add: max_def)
  obtain db' where "fail clk tid w err db = (Inr True, db')" "get_task tid db' = Some ?t'"
    using assms(2,3) ok got by (simp add: fail_def Let_def run_uow_def)
  moreover have "\<exists>m. task_error_message ?t' = Some m \<and> py_len m \<le> 4000"
    using py_len_py_take [of 4000 err] by (simp add: fail_row_def Let_def)
  moreover have "task_retry_count ?t' = task_retry_count t + 1 \<and> task_locked_by ?t' = None \<and> task_lease_expires_at ?t' = None"
    by (simp add: fail_row_def Let_def)
  moreover have "if task_cancel_requested t then task_status ?t' = ''canceled'' \<and> task_finished_at ?t' = Some (now_utc clk)
     else if task_retry_count t < task_max_retries t
     then task_status ?t' = ''retrying'' \<and>
       task_next_run_at ?t' = now_utc clk + min 300 (5 * 2 ^ nat (task_retry_count t)) * second \<and>
       task_next_run_at ?t' \<le> now_utc clk + 300 * second
     else task_status ?t' = ''failed'' \<and> task_finished_at ?t' = Some (now_utc clk)"
    by (cases "task_cancel_requested t"; cases "task_retry_count t < task_max_retries t")
      (simp_all add: fail_row_def Let_def backoff_seconds_def nn)
  ultimately show ?thesis by blast
qed

lemma unique_count:
  "unique_some key rs \<Longrightarrow> t \<in> set rs \<Longrightarrow> key t = Some k \<Longrightarrow> length (filter (\<lambda>u. key u = Some k) rs) = 1"
proof (induction rs)
  case (Cons r rs)
  show ?case
  proof (cases "key r = Some k")
    case True
    then have "filter (\<lambda>u. key u = Some k) rs = []" using Cons.prems(1) by (auto simp: filter_empty_conv image_iff)
    with True show ?thesis by simp
  next
    case False
    with Cons show ?thesis by auto
  qed
qed simp

lemma task_by_key:
  assumes "get_task_by_idempotency_key key db = Some t" and "integrity db"
  shows "t \<in> set (tasks db) \<and> task_idempotency_key t = key \<and>
    length (filter (\<lambda>u. task_idempotency_key u = key) (tasks db)) = 1"
proof -
  have t: "tbl_get task_idempotency_key key (tasks db) = Some t" "truthy_str key"
    using assms(1) by (auto simp: get_task_by_idempotency_key_def split: if_splits)
  then obtain k where "key = Some k" by (cases key) auto
  then show ?thesis
    using tbl_get_mem [OF t(1)] tbl_get_key [OF t(1)] unique_count [of task_idempotency_key "tasks db" t k] assms(2)
    by (simp add: integrity_def)
qed

lemma insert_task_result:
  assumes "integrity db" and "truthy_str (task_idempotency_key task)" and "get_task (task_id task) db = None"
  shows "if get_task_by_idempotency_key (task_idempotency_key task) db = None
    then \<exists>db'. run_uow (insert_task clk task actor) db = (Inr (result ''ok'' (serialize_task False task)), db') \<and>
      integrity db' \<and> tasks db' = tasks db @ [task]
    else run_uow (insert_task clk task actor) db = (Inl IntegrityError, db)"
proof -
  obtain k where k: "task_idempotency_key task = Some k" "k \<noteq> []" using assms(2) by (cases "task_idempotency_key task") auto
  have "integrity (add_task task db) = (get_task_by_idempotency_key (task_idempotency_key task) db = None)"
    using assms k
    by (auto simp: integrity_def add_task_def get_task_by_idempotency_key_def unique_some_append get_task_def tbl_get_None)
  then show ?thesis
    by (auto simp: insert_task_def Let_def run_uow_def add_task_def)
qed

text \<open>C9: One task per idempotency key, even in a race. Whatever the other sessions commit between the
  lookup and the insert, as long as the database stays well formed and the new id is not taken,
  an enqueue of a known type under a key returns the row of the one task that has the key: the
  one that was there, the one that won the race, or the new one.\<close>

theorem enqueue_once_per_key:
  assumes "integrity db" and "integrity (race db)" and "truthy_str key" and "find_definition tt = Some d"
    and "get_task new_id (race db) = None"
  shows "\<exists>t db'. enqueue clk new_id tt payload actor key race db = (Inr (result ''ok'' (serialize_task False t)), db') \<and>
    t \<in> set (tasks db') \<and> task_idempotency_key t = key \<and> integrity db' \<and>
    length (filter (\<lambda>u. task_idempotency_key u = key) (tasks db')) = 1 \<and>
    (get_task_by_idempotency_key key db = None \<and> get_task_by_idempotency_key key (race db) = None \<longrightarrow>
       t = new_task clk new_id d payload actor key)"
proof (cases "get_task_by_idempotency_key key db")
  case (Some t)
  with task_by_key [OF Some assms(1)] assms(1,4) show ?thesis by (auto simp: enqueue_def)
next
  case None
  let ?n = "new_task clk new_id d payload actor key"
  have n: "task_idempotency_key ?n = key" "task_id ?n = new_id" by (simp_all add: new_task_def)
  have ins: "if get_task_by_idempotency_key key (race db) = None
    then \<exists>db'. run_uow (insert_task clk ?n actor) (race db) = (Inr (result ''ok'' (serialize_task False ?n)), db') \<and>
      integrity db' \<and> tasks db' = tasks (race db) @ [?n]
    else run_uow (insert_task clk ?n actor) (race db) = (Inl IntegrityError, race db)"
    using insert_task_result [OF assms(2), of ?n clk actor] n assms(3,5) by simp
  show ?thesis
  proof (cases "get_task_by_idempotency_key key (race db)")
    case (Some t)
    with ins None assms(2-4) task_by_key [OF Some assms(2)] show ?thesis by (auto simp: enqueue_def)
  next
    case none: None
    with ins obtain db' where db': "run_uow (insert_task clk ?n actor) (race db) = (Inr (result ''ok'' (serialize_task False ?n)), db')"
      "integrity db'" "tasks db' = tasks (race db) @ [?n]" by auto
    obtain k where k: "key = Some k" using assms(3) by (cases key) auto
    have "length (filter (\<lambda>u. task_idempotency_key u = key) (tasks db')) = 1"
      using unique_count [of task_idempotency_key "tasks db'" ?n k] db' n k by (simp add: integrity_def)
    with db' None n assms(4) show ?thesis by (auto simp: enqueue_def)
  qed
qed

text \<open>Task views never show a secret. In the view of a registration or notification task that is
  not meant for the worker, the safety code, the registration code, the Emby password and the
  body of a notification are masked, in the input and in the result.\<close>

theorem views_mask_secrets:
  assumes "task_type t = ''registration.account'' \<or> task_type t = ''notification.telegram''"
    and "k \<in> {''safety_code'', ''registration_code'', ''emby_password''} \<or>
      task_type t = ''notification.telegram'' \<and> k = ''body''"
    and "field = ''input'' \<or> field = ''result''"
    and "map_of (serialize_task False t) field = Some data" and "jget k data = Some v"
  shows "v = JStr ''********''"
proof -
  have "map_of (map (\<lambda>(k, x). if P k then (k, m) else (k, x)) kvs) k = Some v \<Longrightarrow> P k \<Longrightarrow> v = m"
    for P m and kvs :: jdict
    by (induction kvs) (auto split: if_splits)
  from this [of "\<lambda>k. k \<in> set sensitive_keys \<or> task_type t = ''notification.telegram'' \<and> k = ''body''" masked_text]
  have masked: "jget k (sanitized_task_data (task_type t) x False) = Some v \<Longrightarrow> v = masked_text" for x
    using assms(1,2) by (cases x) (auto simp: sanitized_task_data_def sensitive_keys_def)
  from assms(3,4) have "data = sanitized_task_data (task_type t) (jopt (task_input t)) False \<or>
      data = sanitized_task_data (task_type t) (jopt (task_result t)) False"
    by (auto simp: serialize_task_def)
  with masked assms(5) show ?thesis by (auto simp: masked_text_def)
qed


subsection \<open>The properties on sample data\<close>

definition sample_task :: task_row where
  "sample_task =
     \<lparr>task_id = ''t1'', task_type = ''registration.account'', task_status = ''running'', task_progress = 0,
      task_owner_kind = ''web'', task_owner_id = ''7'', task_idempotency_key = Some ''k'',
      task_input = Some (JDict [(''safety_code'', JStr ''1234'')]), task_result = None, task_error_message = None,
      task_retry_count = 0, task_max_retries = 2, task_next_run_at = 0, task_locked_by = Some ''w1'',
      task_lease_expires_at = Some (1001 * day), task_last_heartbeat_at = None, task_cancel_requested = False,
      task_created_at = 0, task_started_at = Some 0, task_finished_at = None, task_updated_at = 0\<rparr>"

definition sample_waiting :: task_row where
  "sample_waiting = sample_task\<lparr>task_id := ''t2'', task_status := ''pending'', task_idempotency_key := None,
     task_locked_by := None, task_lease_expires_at := None\<rparr>"

definition sample_queue :: core_db where
  "sample_queue = empty_db\<lparr>tasks := [sample_task, sample_waiting]\<rparr>"

lemmas sample_queue_defs = sample_queue_def sample_task_def sample_waiting_def sample_defs

lemma sample_queue_ok [simp]: "integrity sample_queue"
  by (simp add: sample_queue_defs integrity_def)

lemma sample_queue_get: "get_task ''t1'' sample_queue = Some sample_task"
  by (simp add: sample_queue_defs get_task_def)

theorem queue_invariant_witness:
  "case get_task ''t1'' (fold (\<lambda>c db. snd (task_call c db)) [TFail sample_clock ''t1'' ''w1'' ''boom'',
      TCancel sample_clock ''t1'' sample_actor] sample_queue) of None \<Rightarrow> True | Some t \<Rightarrow> task_wf t"
proof -
  have "\<forall>tid t. get_task tid sample_queue = Some t \<longrightarrow> task_wf t"
    by (auto simp: get_task_def sample_queue_defs task_wf_def terminal_statuses_def)
  then show ?thesis
    using queue_invariant [OF sample_queue_ok, of "''t1''" "[TFail sample_clock ''t1'' ''w1'' ''boom'', TCancel sample_clock ''t1'' sample_actor]"]
    by (auto split: option.split)
qed

theorem tasks_persist_witness:
  "\<exists>t'. get_task ''t1'' (fold (\<lambda>c db. snd (task_call c db)) [TComplete sample_clock ''t1'' ''w1'' JNull,
      TRetry sample_clock ''t1'' sample_actor] sample_queue) = Some t' \<and> task_max_retries t' = 2"
  using tasks_persist [OF sample_queue_ok sample_queue_get] by (fastforce simp: sample_task_def)

theorem lease_fences_witness:
  "heartbeat sample_clock ''t1'' ''w2'' 60 sample_queue = (Inr False, sample_queue) \<and>
   get_task ''t1'' (snd (claim sample_clock ''w2'' 60 sample_queue)) = Some sample_task"
  using lease_fences [OF sample_queue_ok sample_queue_get, of "''w1''" "1001 * day" sample_clock "''w2''" 60]
  by (simp add: holds_def sample_queue_defs)

theorem claim_serves_in_order_witness:
  "\<exists>view db'. claim sample_clock ''w2'' 60 sample_queue = (Inr (Some view), db')"
proof -
  have "claimable (now_utc sample_clock) sample_waiting" "sample_waiting \<in> set (tasks sample_queue)"
    by (simp_all add: claimable_def sample_queue_defs lease_free_def)
  then show ?thesis
    using claim_serves_in_order [OF sample_queue_ok refl, of sample_clock "''w2''" 60]
    by (auto split: prod.splits sum.splits option.splits)
qed

theorem failure_policy_witness:
  "\<exists>t' db'. fail sample_clock ''t1'' ''w1'' ''boom'' sample_queue = (Inr True, db') \<and>
     get_task ''t1'' db' = Some t' \<and> task_status t' = ''retrying'' \<and> task_next_run_at t' = 1000 * day + 5 * second"
  using failure_policy [OF sample_queue_ok sample_queue_get, of "''w1''" sample_clock "''boom''"]
  by (auto simp: holds_def sample_queue_defs)

theorem enqueue_once_per_key_witness:
  "\<exists>t db'. enqueue sample_clock ''t3'' ''registration.account'' None sample_actor (Some ''k'') (\<lambda>db. sample_queue) empty_db =
     (Inr (result ''ok'' (serialize_task False t)), db') \<and> task_idempotency_key t = Some ''k'' \<and>
     length (filter (\<lambda>u. task_idempotency_key u = Some ''k'') (tasks db')) = 1"
proof -
  have "find_definition ''registration.account'' \<noteq> None"
    by (simp add: find_definition_def TASK_DEFINITIONS_def)
  then obtain d where d: "find_definition ''registration.account'' = Some d" by blast
  have "get_task ''t3'' sample_queue = None" by (simp add: get_task_def sample_queue_defs)
  then show ?thesis
    using enqueue_once_per_key [OF integrity_empty, of "\<lambda>db. sample_queue" "Some ''k''", OF _ _ d, of "''t3''" sample_clock None sample_actor]
    by auto
qed

theorem views_mask_secrets_witness:
  "Option.bind (map_of (serialize_task False sample_task) ''input'') (jget ''safety_code'') = Some (JStr ''********'')"
proof -
  obtain data where input: "map_of (serialize_task False sample_task) ''input'' = Some data"
    by (simp add: serialize_task_def)
  then obtain v where v: "jget ''safety_code'' data = Some v"
    by (auto simp: serialize_task_def sample_task_def sanitized_task_data_def sensitive_keys_def)
  have "v = JStr ''********''"
    using views_mask_secrets [OF _ _ _ input v] by (simp add: sample_task_def)
  then show ?thesis using input v by simp
qed

end
