(* ===== verification/Reliability_Service.thy ===== *)
theory Reliability_Service
  imports Task_Service Samples
begin

section \<open>Reliability: the outbox, heartbeats, status and cleanup\<close>

text \<open>
  \<open>ReliabilityService\<close> of \<open>bot/application/reliability_service.py\<close>. The outbox publishes the
  events that committed operations have left, in the order of their ids; the status summarises
  the workers' heartbeats and the queue; the cleanup deletes what is old and finished. The host
  name and the process id of a heartbeat are arguments.
\<close>

definition serialize_event :: "event_row \<Rightarrow> jdict" where
  "serialize_event row =
     [(''id'', JInt (ev_id row)), (''event_type'', JStr (ev_type row)),
      (''aggregate_type'', JStr (ev_aggregate_type row)),
      (''aggregate_id'', jopt_str (ev_aggregate_id row)),
      (''payload'', jopt (ev_payload row)), (''created_at'', JTime (ev_created_at row))]"

definition events_after ::
  "int \<Rightarrow> int \<Rightarrow> int option \<Rightarrow> string list option \<Rightarrow> 'z core_db_scheme \<Rightarrow> jdict list" where
  "events_after after_id lim user_tg event_prefixes db =
     map serialize_event
       (list_events_after after_id lim
         (case user_tg of None \<Rightarrow> None | Some tg \<Rightarrow> Some ''user'')
         (case user_tg of None \<Rightarrow> None | Some tg \<Rightarrow> Some (show_int tg)) event_prefixes db)"

definition dispatch_outbox ::
  "clock \<Rightarrow> int \<Rightarrow> 'z core_db_scheme \<Rightarrow> (jdict list, 'z core_db_scheme) outcome" where
  "dispatch_outbox clk lim db0 =
     run_uow (\<lambda>db.
       let rs = list_unpublished_events lim db;
           es = map serialize_event rs;
           (n, db') = mark_events_published (map ev_id rs) (now_utc clk) db
       in Inr (es, db')) db0"

definition latest_event_id :: "int option \<Rightarrow> string list option \<Rightarrow> 'z core_db_scheme \<Rightarrow> int" where
  "latest_event_id user_tg event_prefixes db =
     (let q1 = (case user_tg of
            None \<Rightarrow> rows (events db)
          | Some tg \<Rightarrow> filter (\<lambda>e. ev_aggregate_type e = ''user'' \<and> ev_aggregate_id e = Some (show_int tg))
              (rows (events db)));
          largest = (\<lambda>es. case map ev_id es of [] \<Rightarrow> 0 | i # is' \<Rightarrow> fold max is' i)
      in (case event_prefixes of
            None \<Rightarrow> largest q1
          | Some ps \<Rightarrow> if ps = [] then 0 else largest (filter (event_prefix_match ps) q1)))"

definition worker_heartbeat ::
  "clock \<Rightarrow> string \<Rightarrow> int \<Rightarrow> string \<Rightarrow> string \<Rightarrow> string \<Rightarrow> string option \<Rightarrow> jval option \<Rightarrow>
   'z core_db_scheme \<Rightarrow> (unit, 'z core_db_scheme) outcome" where
  "worker_heartbeat clk hostname pid worker_id worker_kind status current_task_id metadata db0 =
     run_uow (\<lambda>db. Inr ((),
       upsert_worker_heartbeat worker_id worker_kind hostname pid status current_task_id metadata (now_utc clk) db)) db0"

subsection \<open>Status\<close>

definition worker_stale :: "datetime \<Rightarrow> heartbeat_row \<Rightarrow> bool" where
  "worker_stale stale_before row = (hb_last_seen_at row < stale_before)"

definition worker_status :: "datetime \<Rightarrow> heartbeat_row \<Rightarrow> string" where
  "worker_status stale_before row = (if worker_stale stale_before row then ''stale'' else hb_status row)"

definition worker_view :: "datetime \<Rightarrow> heartbeat_row \<Rightarrow> jval" where
  "worker_view stale_before row =
     JDict [(''worker_id'', JStr (hb_worker_id row)), (''worker_kind'', JStr (hb_worker_kind row)),
            (''hostname'', JStr (hb_hostname row)), (''process_id'', JInt (hb_process_id row)),
            (''status'', JStr (worker_status stale_before row)),
            (''current_task_id'', jopt_str (hb_current_task_id row)),
            (''metadata'', jopt (hb_metadata row)), (''started_at'', JTime (hb_started_at row)),
            (''last_seen_at'', JTime (hb_last_seen_at row)),
            (''stale'', JBool (worker_stale stale_before row))]"

definition worker_active :: "datetime \<Rightarrow> heartbeat_row \<Rightarrow> bool" where
  "worker_active stale_before row =
     (\<not> worker_stale stale_before row \<and> worker_status stale_before row \<noteq> ''stopped'')"

definition component_health :: "datetime \<Rightarrow> string \<Rightarrow> 'z core_db_scheme \<Rightarrow> string" where
  "component_health stale_before kind db =
     (if filter (\<lambda>h. worker_active stale_before h \<and> hb_worker_kind h = kind) (list_worker_heartbeats db) \<noteq> []
      then ''healthy'' else ''degraded'')"

definition count_status :: "string \<Rightarrow> 'z core_db_scheme \<Rightarrow> int" where
  "count_status st db = int (length (filter (\<lambda>t. task_status t = st) (tasks db)))"

definition oldest_pending :: "'z core_db_scheme \<Rightarrow> datetime option" where
  "oldest_pending db =
     (case map task_created_at (filter (\<lambda>t. task_status t \<in> {''pending'', ''retrying''}) (tasks db)) of
        [] \<Rightarrow> None
      | t # ts \<Rightarrow> Some (fold min ts t))"

definition overall_status :: "datetime \<Rightarrow> 'z core_db_scheme \<Rightarrow> string" where
  "overall_status stale_before db =
     (if component_health stale_before ''task-worker'' db = ''healthy'' \<and>
         component_health stale_before ''event-relay'' db = ''healthy''
      then ''healthy'' else ''degraded'')"

definition status :: "clock \<Rightarrow> int \<Rightarrow> 'z core_db_scheme \<Rightarrow> jdict" where
  "status clk stale_after_seconds db =
     (let now = now_utc clk;
          stale_before = now - stale_after_seconds * second
      in [(''status'', JStr (overall_status stale_before db)),
          (''components'', JDict
             [(''task_worker'', JStr (component_health stale_before ''task-worker'' db)),
              (''event_relay'', JStr (component_health stale_before ''event-relay'' db))]),
          (''workers'', JList (map (worker_view stale_before) (list_worker_heartbeats db))),
          (''task_counts'', JDict (map (\<lambda>s. (s, JInt (count_status s db)))
             [''pending'', ''retrying'', ''running'', ''succeeded'', ''failed'', ''canceled''])),
          (''oldest_pending_at'', jopt_time (oldest_pending db)),
          (''checked_at'', JTime now)])"

subsection \<open>Cleanup\<close>

definition event_done :: "datetime \<Rightarrow> int \<Rightarrow> event_row \<Rightarrow> bool" where
  "event_done now days e = (ev_published_at e \<noteq> None \<and> ev_created_at e < now - days * day)"

definition task_done :: "datetime \<Rightarrow> int \<Rightarrow> task_row \<Rightarrow> bool" where
  "task_done now days t =
     (task_status t \<in> {''succeeded'', ''canceled''} \<and>
      (case task_finished_at t of None \<Rightarrow> False | Some f \<Rightarrow> f < now - days * day))"

definition job_done :: "datetime \<Rightarrow> int \<Rightarrow> job_row \<Rightarrow> bool" where
  "job_done now days j = (case job_finished_at j of None \<Rightarrow> False | Some f \<Rightarrow> f < now - days * day)"

definition heartbeat_done :: "datetime \<Rightarrow> int \<Rightarrow> heartbeat_row \<Rightarrow> bool" where
  "heartbeat_done now days h = (hb_last_seen_at h < now - days * day)"

definition idempotency_done :: "datetime \<Rightarrow> idempotency_row \<Rightarrow> bool" where
  "idempotency_done now r = (case idem_expires_at r of None \<Rightarrow> False | Some e \<Rightarrow> e < now)"

definition delete_rows :: "('r \<Rightarrow> bool) \<Rightarrow> 'r auto_table \<Rightarrow> 'r auto_table" where
  "delete_rows P t = t\<lparr>rows := filter (\<lambda>r. \<not> P r) (rows t)\<rparr>"

definition count_rows :: "('r \<Rightarrow> bool) \<Rightarrow> 'r list \<Rightarrow> jval" where
  "count_rows P rs = JInt (int (length (filter P rs)))"

definition cleanup ::
  "clock \<Rightarrow> int \<Rightarrow> int \<Rightarrow> int \<Rightarrow> int \<Rightarrow> 'z core_db_scheme \<Rightarrow> (jdict, 'z core_db_scheme) outcome" where
  "cleanup clk event_days completed_task_days job_run_days heartbeat_days db0 =
     (let now = now_utc clk in
      run_uow (\<lambda>db. Inr (
        [(''events'', count_rows (event_done now event_days) (rows (events db))),
         (''tasks'', count_rows (task_done now completed_task_days) (tasks db)),
         (''job_runs'', count_rows (job_done now job_run_days) (rows (jobs db))),
         (''heartbeats'', count_rows (heartbeat_done now heartbeat_days) (heartbeats db)),
         (''idempotency_records'', count_rows (idempotency_done now) (rows (idempotency db)))],
        db\<lparr>events := delete_rows (event_done now event_days) (events db),
           tasks := filter (\<lambda>t. \<not> task_done now completed_task_days t) (tasks db),
           jobs := delete_rows (job_done now job_run_days) (jobs db),
           heartbeats := filter (\<lambda>h. \<not> heartbeat_done now heartbeat_days h) (heartbeats db),
           idempotency := delete_rows (idempotency_done now) (idempotency db)\<rparr>)) db0)"

end
