(* ===== verification/Event_Stream.thy ===== *)
theory Event_Stream
  imports Reliability_Service Frames
begin

section \<open>The event stream and the outbox at work\<close>

text \<open>
  One pass of the loop of \<open>_stream_events\<close> in \<open>backend/api/tasks.py\<close>, and runs in which
  services emit events, the relay of \<open>backend/event_relay.py\<close> dispatches the outbox and a client
  polls its stream, in any order.
\<close>

definition event_message :: "jdict \<Rightarrow> jdict" where
  \<comment> \<open>\<open>_event_message\<close>: the id, the type and the data of the frame\<close>
  "event_message e =
     [(''id'', the (map_of e ''id'')), (''event'', the (map_of e ''event_type'')),
      (''data'', json_dumps (JDict e))]"

definition event_id_of :: "jdict \<Rightarrow> int" where
  "event_id_of e = (case map_of e ''id'' of Some (JInt i) \<Rightarrow> i | _ \<Rightarrow> 0)"

definition stream_poll ::
  "int option \<Rightarrow> string list option \<Rightarrow> int \<Rightarrow> 'z core_db_scheme \<Rightarrow> jdict list \<times> int" where
  "stream_poll user_tg event_prefixes after_id db =
     (let es = events_after after_id 100 user_tg event_prefixes db
      in (map event_message es, fold (\<lambda>e c. max c (event_id_of e)) es after_id))"

definition after_event_id :: "string option \<Rightarrow> int \<Rightarrow> int" where
  \<comment> \<open>\<open>_after_event_id\<close>; the header is given by the digits it holds, if it is a number\<close>
  "after_event_id header after =
     (case header of
        None \<Rightarrow> after
      | Some ds \<Rightarrow>
          if ds \<noteq> [] \<and> list_all (\<lambda>c. of_char c \<in> {48..(57::nat)}) ds
          then max after (fold (\<lambda>c n. 10 * n + (of_char c - 48)) ds 0) else after)"

definition stream_start :: "string option \<Rightarrow> int \<Rightarrow> bool \<Rightarrow> int option \<Rightarrow> string list option \<Rightarrow> 'z core_db_scheme \<Rightarrow> int" where
  \<comment> \<open>the cursor \<open>user_event_stream\<close> and \<open>admin_event_stream\<close> start from\<close>
  "stream_start header after replay user_tg event_prefixes db =
     (let cursor = after_event_id header after
      in if cursor = 0 \<and> \<not> replay then latest_event_id user_tg event_prefixes db else cursor)"

subsection \<open>Tables in the order of their ids\<close>

definition id_ordered :: "event_row list \<Rightarrow> bool" where
  "id_ordered es = sorted_wrt (<) (map ev_id es)"

definition events_ok :: "'z core_db_scheme \<Rightarrow> bool" where
  "events_ok db = (id_ordered (rows (events db)) \<and> (\<forall>e \<in> set (rows (events db)). ev_id e < next_id (events db)))"

lemma sort_key_ordered:
  assumes "id_ordered es"
  shows "sort_key ev_id es = es"
proof (rule sort_key_id_if_sorted)
  show "sorted (map ev_id es)"
    using assms by (simp add: id_ordered_def strict_sorted_imp_sorted)
qed

lemma id_ordered_filter: "id_ordered es \<Longrightarrow> id_ordered (filter P es)"
  by (simp add: id_ordered_def sorted_wrt_map sorted_wrt_filter)

lemma id_ordered_append:
  "id_ordered (es @ fs) \<longleftrightarrow> id_ordered es \<and> id_ordered fs \<and> (\<forall>e \<in> set es. \<forall>f \<in> set fs. ev_id e < ev_id f)"
  by (auto simp: id_ordered_def sorted_wrt_append)

lemma take_up_to_cursor:
  assumes "id_ordered es" and "\<forall>e \<in> set es. c < ev_id e"
  shows "filter (\<lambda>e. ev_id e \<le> fold (\<lambda>e c. max c (ev_id e)) (take n es) c) es = take n es"
  using assms
proof (induction es arbitrary: n c)
  case (Cons e es)
  show ?case
  proof (cases n)
    case 0
    then show ?thesis using Cons.prems by (auto simp: filter_empty_conv)
  next
    case (Suc m)
    have tail: "id_ordered es" "\<forall>f \<in> set es. ev_id e < ev_id f"
      using Cons.prems by (auto simp: id_ordered_def)
    have "ev_id e \<le> fold (\<lambda>e c. max c (ev_id e)) fs (ev_id e)" for fs
    proof (induction fs rule: rev_induct)
      case (snoc f fs)
      then show ?case by simp
    qed simp
    then show ?thesis using Suc Cons.IH [OF tail, of m] Cons.prems by simp
  qed
qed simp

definition selects :: "int option \<Rightarrow> string list option \<Rightarrow> event_row \<Rightarrow> bool" where
  \<comment> \<open>the events a stream is about\<close>
  "selects user_tg event_prefixes e =
     ((case user_tg of None \<Rightarrow> True
       | Some tg \<Rightarrow> ev_aggregate_type e = ''user'' \<and> ev_aggregate_id e = Some (show_int tg)) \<and>
      (case event_prefixes of None \<Rightarrow> True | Some ps \<Rightarrow> event_prefix_match ps e))"

lemma show_nat_nonempty [simp]: "show_nat n \<noteq> []"
  by (subst show_nat.simps) simp

lemma show_int_nonempty [simp]: "show_int n \<noteq> []"
  by (simp add: show_int_def)

lemma list_events_after_selects:
  "list_events_after a lim (case tg of None \<Rightarrow> None | Some tg \<Rightarrow> Some ''user'')
     (case tg of None \<Rightarrow> None | Some tg \<Rightarrow> Some (show_int tg)) ps db =
   take (nat lim) (sort_key ev_id (filter (\<lambda>e. a < ev_id e \<and> selects tg ps e) (rows (events db))))"
proof (cases ps)
  case None
  then show ?thesis
    by (cases tg) (auto simp: list_events_after_def selects_def truthy_str_def Let_def intro!: arg_cong [where f = "take _"] arg_cong [where f = "sort_key ev_id"] filter_cong)
next
  case (Some qs)
  then show ?thesis
    by (cases tg) (auto simp: list_events_after_def selects_def truthy_str_def Let_def event_prefix_match_def intro!: arg_cong [where f = "take _"] arg_cong [where f = "sort_key ev_id"] filter_cong)
qed

lemma events_after_ordered:
  assumes "events_ok db"
  shows "events_after a lim tg ps db =
    map serialize_event (take (nat lim) (filter (\<lambda>e. a < ev_id e \<and> selects tg ps e) (rows (events db))))"
  using assms by (simp add: events_after_def list_events_after_selects events_ok_def sort_key_ordered id_ordered_filter)

lemma event_id_of_serialized [simp]: "event_id_of (serialize_event e) = ev_id e"
  by (simp add: serialize_event_def event_id_of_def)

subsection \<open>Runs of services, relay and client\<close>

record 'd stream_state =
  ss_db :: 'd
  ss_cursor :: int
  ss_frames :: "jdict list"
  ss_relayed :: "jdict list"

datatype stream_step =
    Emit clock string string "string option" "jval option"
  | Relay clock int
  | Poll

fun step_stream ::
  "int option \<Rightarrow> string list option \<Rightarrow> stream_step \<Rightarrow> 'z core_db_scheme stream_state \<Rightarrow>
   'z core_db_scheme stream_state" where
  "step_stream tg ps (Emit clk ty aggregate aid payload) s =
     s\<lparr>ss_db := event clk ty aggregate aid payload (ss_db s)\<rparr>"
| "step_stream tg ps (Relay clk lim) s =
     (case dispatch_outbox clk lim (ss_db s) of
        (Inl e, db) \<Rightarrow> s\<lparr>ss_db := db\<rparr>
      | (Inr es, db) \<Rightarrow> s\<lparr>ss_db := db, ss_relayed := ss_relayed s @ es\<rparr>)"
| "step_stream tg ps Poll s =
     (let (frames, cursor) = stream_poll tg ps (ss_cursor s) (ss_db s)
      in s\<lparr>ss_cursor := cursor, ss_frames := ss_frames s @ frames\<rparr>)"

definition stream_run ::
  "int option \<Rightarrow> string list option \<Rightarrow> stream_step list \<Rightarrow> 'z core_db_scheme stream_state \<Rightarrow>
   'z core_db_scheme stream_state" where
  "stream_run tg ps steps s = fold (step_stream tg ps) steps s"

definition start_stream :: "int \<Rightarrow> 'z core_db_scheme \<Rightarrow> 'z core_db_scheme stream_state" where
  "start_stream after db = \<lparr>ss_db = db, ss_cursor = after, ss_frames = [], ss_relayed = []\<rparr>"

definition frame :: "event_row \<Rightarrow> jdict" where
  "frame e = event_message (serialize_event e)"

definition pending :: "'z core_db_scheme \<Rightarrow> event_row list" where
  "pending db = filter (\<lambda>e. ev_published_at e = None) (rows (events db))"

lemma frame_published [simp]: "frame (e\<lparr>ev_published_at := t\<rparr>) = frame e"
  by (simp add: frame_def event_message_def serialize_event_def)

lemma serialize_published [simp]: "serialize_event (e\<lparr>ev_published_at := t\<rparr>) = serialize_event e"
  by (simp add: serialize_event_def)

lemma selects_published [simp]: "selects tg ps (e\<lparr>ev_published_at := t\<rparr>) = selects tg ps e"
  by (simp add: selects_def event_prefix_match_def split: option.split)

lemma filter_not_taken:
  assumes "distinct (map key xs)"
  shows "filter (\<lambda>x. key x \<notin> key ` set (take n xs)) xs = drop n xs"
proof -
  have "distinct (map key (take n xs @ drop n xs))" using assms by simp
  then have apart: "key ` set (take n xs) \<inter> key ` set (drop n xs) = {}"
    by (simp only: map_append distinct_append set_map)
  then have "filter (\<lambda>x. key x \<notin> key ` set (take n xs)) (take n xs @ drop n xs) = drop n xs"
    unfolding filter_append by (auto simp: filter_empty_conv filter_id_conv)
  then show ?thesis by simp
qed

lemma id_ordered_distinct: "id_ordered es \<Longrightarrow> distinct (map ev_id es)"
  by (simp add: id_ordered_def strict_sorted_iff)

lemma unpublished_marked:
  "filter (\<lambda>e. ev_published_at e = None)
     (map (\<lambda>e. if P e \<and> ev_published_at e = None then e\<lparr>ev_published_at := Some t\<rparr> else e) es) =
   filter (\<lambda>e. \<not> P e) (filter (\<lambda>e. ev_published_at e = None) es)"
  by (induction es) auto

lemma integrity_events [simp]: "integrity (db\<lparr>events := es\<rparr>) = integrity db"
  by (simp add: integrity_def)

text \<open>The relay publishes the first pending events and changes nothing else.\<close>

lemma dispatch_outbox_effect:
  assumes "integrity db" and "events_ok db"
  obtains f where "dispatch_outbox clk lim db =
      (Inr (map serialize_event (take (nat lim) (pending db))), db\<lparr>events := (events db)\<lparr>rows := map f (rows (events db))\<rparr>\<rparr>)"
    and "\<And>e. f e = e \<or> f e = e\<lparr>ev_published_at := Some (now_utc clk)\<rparr>"
    and "filter (\<lambda>e. ev_published_at e = None) (map f (rows (events db))) = drop (nat lim) (pending db)"
proof -
  let ?batch = "take (nat lim) (pending db)"
  let ?f = "\<lambda>e. if ev_id e \<in> ev_id ` set ?batch \<and> ev_published_at e = None
    then e\<lparr>ev_published_at := Some (now_utc clk)\<rparr> else e"
  have order: "id_ordered (pending db)"
    using assms(2) by (simp add: events_ok_def pending_def id_ordered_filter)
  then have listed: "list_unpublished_events lim db = ?batch"
    by (simp add: list_unpublished_events_def sort_key_ordered flip: pending_def)
  have "snd (mark_events_published (map ev_id ?batch) (now_utc clk) db) =
      db\<lparr>events := (events db)\<lparr>rows := map ?f (rows (events db))\<rparr>\<rparr>"
    by (simp add: mark_events_published_def Let_def)
  then have "dispatch_outbox clk lim db =
      (Inr (map serialize_event ?batch), db\<lparr>events := (events db)\<lparr>rows := map ?f (rows (events db))\<rparr>\<rparr>)"
    using assms(1) by (auto simp: dispatch_outbox_def run_uow_def listed Let_def split: prod.split)
  moreover have "filter (\<lambda>e. ev_published_at e = None) (map ?f (rows (events db))) = drop (nat lim) (pending db)"
    unfolding unpublished_marked pending_def [symmetric]
    by (rule filter_not_taken) (rule id_ordered_distinct [OF order])
  ultimately show thesis by (intro that [of ?f]) auto
qed

lemma rows_event:
  "rows (events (event clk ty aggregate aid payload db)) = rows (events db) @
     [\<lparr>ev_id = next_id (events db), ev_type = ty, ev_aggregate_type = aggregate, ev_aggregate_id = aid,
       ev_payload = map_option json_dumps payload, ev_created_at = now_utc clk, ev_published_at = None\<rparr>]"
  "next_id (events (event clk ty aggregate aid payload db)) = next_id (events db) + 1"
  by (simp_all add: event_def)

lemma pending_event:
  "pending (event clk ty aggregate aid payload db) = pending db @
     [\<lparr>ev_id = next_id (events db), ev_type = ty, ev_aggregate_type = aggregate, ev_aggregate_id = aid,
       ev_payload = map_option json_dumps payload, ev_created_at = now_utc clk, ev_published_at = None\<rparr>]"
  by (simp add: pending_def rows_event)

lemma integrity_event: "integrity (event clk ty aggregate aid payload db) = integrity db"
  by (simp add: event_def)

lemma events_ok_marked:
  "(\<And>e. ev_id (f e) = ev_id e) \<Longrightarrow> events_ok (db\<lparr>events := (events db)\<lparr>rows := map f (rows (events db))\<rparr>\<rparr>) = events_ok db"
  by (simp add: events_ok_def id_ordered_def comp_def)

lemma events_ok_event:
  "events_ok db \<Longrightarrow> events_ok (event clk ty aggregate aid payload db)"
  by (force simp: events_ok_def event_def id_ordered_def sorted_wrt_append)

subsection \<open>What runs keep\<close>

lemma filter_split_take:
  assumes "filter P es = take n es"
  shows "filter (\<lambda>e. \<not> P e) es = drop n es"
proof -
  have all: "\<forall>e \<in> set (take n es). P e"
    using arg_cong [OF assms, of set] by auto
  have "filter P (take n es) @ filter P (drop n es) = take n es"
    using assms by (metis append_take_drop_id filter_append)
  then have none: "filter P (drop n es) = []"
    using all by (simp add: filter_True)
  have "filter (\<lambda>e. \<not> P e) (take n es @ drop n es) = drop n es"
    unfolding filter_append using all none by (auto simp: filter_empty_conv filter_id_conv)
  then show ?thesis by simp
qed

definition relay_inv :: "'z core_db_scheme \<Rightarrow> 'z core_db_scheme stream_state \<Rightarrow> bool" where
  "relay_inv db s =
     (integrity (ss_db s) \<and> events_ok (ss_db s) \<and> length (rows (events db)) \<le> length (rows (events (ss_db s))) \<and>
      ss_relayed s @ map serialize_event (pending (ss_db s)) =
        map serialize_event (pending db @ drop (length (rows (events db))) (rows (events (ss_db s)))))"

definition todo :: "int option \<Rightarrow> string list option \<Rightarrow> 'z core_db_scheme stream_state \<Rightarrow> event_row list" where
  "todo tg ps s = filter (\<lambda>e. ss_cursor s < ev_id e \<and> selects tg ps e) (rows (events (ss_db s)))"

definition client_inv ::
  "int option \<Rightarrow> string list option \<Rightarrow> int \<Rightarrow> 'z core_db_scheme stream_state \<Rightarrow> bool" where
  "client_inv tg ps c0 s =
     (c0 \<le> ss_cursor s \<and> (ss_cursor s = c0 \<or> ss_cursor s < next_id (events (ss_db s))) \<and>
      ss_frames s = map frame (filter (\<lambda>e. c0 < ev_id e \<and> ev_id e \<le> ss_cursor s \<and> selects tg ps e)
        (rows (events (ss_db s)))))"

lemma fold_max_serialized:
  "fold (\<lambda>e c. max c (event_id_of e)) (map serialize_event es) c = fold (\<lambda>e c. max c (ev_id e)) es c"
  by (induction es arbitrary: c) simp_all

lemma fold_max_bounds:
  "c \<le> fold (\<lambda>e c. max c (ev_id e)) es c \<and>
   (fold (\<lambda>e c. max c (ev_id e)) es c = c \<or> (\<exists>e \<in> set es. fold (\<lambda>e c. max c (ev_id e)) es c = ev_id e))"
proof (induction es rule: rev_induct)
  case (snoc e es)
  then show ?case by (auto simp: max_def)
qed simp

text \<open>A poll sends the next selected events and moves the cursor just past them.\<close>

lemma poll_effect:
  fixes s :: "'z core_db_scheme stream_state" and tg ps
  assumes "events_ok (ss_db s)"
  defines "s' \<equiv> step_stream tg ps Poll s"
  shows "ss_db s' = ss_db s" and "ss_relayed s' = ss_relayed s"
    and "ss_frames s' = ss_frames s @ map frame (take 100 (todo tg ps s))"
    and "ss_cursor s \<le> ss_cursor s'"
    and "ss_cursor s' = ss_cursor s \<or> ss_cursor s' < next_id (events (ss_db s))"
    and "filter (\<lambda>e. ev_id e \<le> ss_cursor s') (todo tg ps s) = take 100 (todo tg ps s)"
    and "todo tg ps s' = drop 100 (todo tg ps s)"
proof -
  let ?batch = "take 100 (todo tg ps s)"
  let ?c = "fold (\<lambda>e c. max c (ev_id e)) ?batch (ss_cursor s)"
  have poll: "stream_poll tg ps (ss_cursor s) (ss_db s) = (map frame ?batch, ?c)"
    by (simp add: stream_poll_def events_after_ordered [OF assms(1)] todo_def fold_max_serialized frame_def)
  have s': "s' = s\<lparr>ss_cursor := ?c, ss_frames := ss_frames s @ map frame ?batch\<rparr>"
    by (simp add: s'_def poll)
  show "ss_db s' = ss_db s" "ss_relayed s' = ss_relayed s" "ss_frames s' = ss_frames s @ map frame ?batch"
    by (simp_all add: s')
  show up: "ss_cursor s \<le> ss_cursor s'" using fold_max_bounds [of "ss_cursor s" ?batch] by (simp add: s')
  have "set ?batch \<subseteq> set (rows (events (ss_db s)))"
    by (auto simp: todo_def dest: in_set_takeD)
  then show "ss_cursor s' = ss_cursor s \<or> ss_cursor s' < next_id (events (ss_db s))"
    using fold_max_bounds [of "ss_cursor s" ?batch] assms(1) by (auto simp: s' events_ok_def)
  have order: "id_ordered (todo tg ps s)"
    using assms(1) by (simp add: events_ok_def todo_def id_ordered_filter)
  show low: "filter (\<lambda>e. ev_id e \<le> ss_cursor s') (todo tg ps s) = ?batch"
    using take_up_to_cursor [OF order, of "ss_cursor s" 100] by (simp add: s' todo_def)
  have "todo tg ps s' = filter (\<lambda>e. \<not> ev_id e \<le> ss_cursor s') (todo tg ps s)"
    using up by (auto simp: todo_def s' intro!: filter_cong)
  then show "todo tg ps s' = drop 100 (todo tg ps s)"
    using filter_split_take [OF low] by simp
qed

lemma step_relay_inv:
  assumes "relay_inv db s"
  shows "relay_inv db (step_stream tg ps a s)"
proof (cases a)
  case (Emit clk ty aggregate aid payload)
  then show ?thesis
    using assms by (simp add: relay_inv_def events_ok_event pending_event rows_event integrity_event)
next
  case (Relay clk lim)
  have ok: "integrity (ss_db s)" "events_ok (ss_db s)" using assms by (simp_all add: relay_inv_def)
  obtain f where d: "dispatch_outbox clk lim (ss_db s) =
      (Inr (map serialize_event (take (nat lim) (pending (ss_db s)))),
       (ss_db s)\<lparr>events := (events (ss_db s))\<lparr>rows := map f (rows (events (ss_db s)))\<rparr>\<rparr>)"
    and f: "\<And>e. f e = e \<or> f e = e\<lparr>ev_published_at := Some (now_utc clk)\<rparr>"
    and left: "filter (\<lambda>e. ev_published_at e = None) (map f (rows (events (ss_db s)))) = drop (nat lim) (pending (ss_db s))"
    by (rule dispatch_outbox_effect [OF ok, of clk lim]) blast
  have ser: "serialize_event (f e) = serialize_event e" "ev_id (f e) = ev_id e" for e
    using f [of e] by auto
  have parts: "map serialize_event (take (nat lim) (pending (ss_db s))) @
      map serialize_event (drop (nat lim) (pending (ss_db s))) = map serialize_event (pending (ss_db s))"
    by (metis append_take_drop_id map_append)
  show ?thesis
    using assms Relay parts
    by (simp add: relay_inv_def d events_ok_marked ser pending_def left [unfolded pending_def] drop_map comp_def)
next
  case Poll
  then show ?thesis
    using assms poll_effect(1,2) [of s tg ps] by (simp add: relay_inv_def del: step_stream.simps)
qed

lemma run_relay_inv: "relay_inv db s \<Longrightarrow> relay_inv db (stream_run tg ps steps s)"
  unfolding stream_run_def by (induction steps arbitrary: s) (auto simp del: step_stream.simps intro: step_relay_inv)

lemma start_relay_inv: "integrity db \<Longrightarrow> events_ok db \<Longrightarrow> relay_inv db (start_stream c db)"
  by (simp add: relay_inv_def start_stream_def)

lemma split_by_cursor:
  assumes "id_ordered es" and "c0 \<le> c" and "c \<le> (d::int)"
  shows "filter (\<lambda>e. c0 < ev_id e \<and> ev_id e \<le> d \<and> P e) es =
    filter (\<lambda>e. c0 < ev_id e \<and> ev_id e \<le> c \<and> P e) es @ filter (\<lambda>e. ev_id e \<le> d) (filter (\<lambda>e. c < ev_id e \<and> P e) es)"
  using assms(1)
proof (induction es)
  case (Cons e es)
  have es: "id_ordered es" "\<forall>f \<in> set es. ev_id e < ev_id f"
    using Cons.prems by (auto simp: id_ordered_def)
  have "filter (\<lambda>f. c0 < ev_id f \<and> ev_id f \<le> c \<and> P f) es = []" if "c < ev_id e"
    using es(2) that by (force simp: filter_empty_conv)
  then show ?case using Cons.IH [OF es(1)] assms(2,3) by auto
qed simp

lemma step_client_inv:
  assumes ok: "events_ok (ss_db s)" "integrity (ss_db s)" and inv: "client_inv tg ps c0 s"
  shows "client_inv tg ps c0 (step_stream tg ps a s)"
proof (cases a)
  case (Emit clk ty aggregate aid payload)
  have "\<not> (c0 < next_id (events (ss_db s)) \<and> next_id (events (ss_db s)) \<le> ss_cursor s)"
    using inv by (auto simp: client_inv_def)
  then show ?thesis
    using inv Emit by (auto simp: client_inv_def rows_event)
next
  case (Relay clk lim)
  obtain f where d: "dispatch_outbox clk lim (ss_db s) =
      (Inr (map serialize_event (take (nat lim) (pending (ss_db s)))),
       (ss_db s)\<lparr>events := (events (ss_db s))\<lparr>rows := map f (rows (events (ss_db s)))\<rparr>\<rparr>)"
    and f: "\<And>e. f e = e \<or> f e = e\<lparr>ev_published_at := Some (now_utc clk)\<rparr>"
    by (rule dispatch_outbox_effect [OF ok(2,1), of clk lim]) blast
  have same: "frame (f e) = frame e" "ev_id (f e) = ev_id e" "selects tg ps (f e) = selects tg ps e" for e
    using f [of e] by auto
  show ?thesis
    using inv Relay by (simp add: client_inv_def d filter_map comp_def same)
next
  case Poll
  note p = poll_effect [OF ok(1), of tg ps]
  let ?s' = "step_stream tg ps Poll s" and ?rows = "rows (events (ss_db s))"
  have "filter (\<lambda>e. c0 < ev_id e \<and> ev_id e \<le> ss_cursor ?s' \<and> selects tg ps e) ?rows =
      filter (\<lambda>e. c0 < ev_id e \<and> ev_id e \<le> ss_cursor s \<and> selects tg ps e) ?rows @
      filter (\<lambda>e. ev_id e \<le> ss_cursor ?s') (todo tg ps s)"
    using split_by_cursor [of "?rows" c0 "ss_cursor s" "ss_cursor ?s'" "selects tg ps"] ok(1) inv p(4)
    by (simp add: events_ok_def client_inv_def todo_def conj_ac)
  then have "ss_frames ?s' = map frame (filter (\<lambda>e. c0 < ev_id e \<and> ev_id e \<le> ss_cursor ?s' \<and> selects tg ps e) ?rows)"
    using inv by (simp add: p(3) client_inv_def p(6) del: step_stream.simps)
  then show ?thesis
    using inv p(1,4,5) Poll by (auto simp: client_inv_def simp del: step_stream.simps)
qed

lemma run_inv:
  "relay_inv db s \<Longrightarrow> client_inv tg ps c0 s \<Longrightarrow>
   relay_inv db (stream_run tg ps steps s) \<and> client_inv tg ps c0 (stream_run tg ps steps s)"
  unfolding stream_run_def
proof (induction steps arbitrary: s)
  case (Cons a steps)
  have "client_inv tg ps c0 (step_stream tg ps a s)"
    using Cons.prems by (intro step_client_inv) (auto simp: relay_inv_def)
  then show ?case using Cons step_relay_inv [of db s tg ps a] by (simp del: step_stream.simps)
qed simp

lemma start_client_inv: "events_ok db \<Longrightarrow> client_inv tg ps c (start_stream c db)"
  by (simp add: client_inv_def start_stream_def)

lemma polls_drain:
  "relay_inv db s \<Longrightarrow> ss_db (stream_run tg ps (replicate k Poll) s) = ss_db s \<and>
   todo tg ps (stream_run tg ps (replicate k Poll) s) = drop (100 * k) (todo tg ps s)"
proof (induction k arbitrary: s)
  case (Suc k)
  have ok: "events_ok (ss_db s)" using Suc.prems by (simp add: relay_inv_def)
  show ?case
    using Suc.IH [OF step_relay_inv [OF Suc.prems, of tg ps Poll]] poll_effect(1,7) [OF ok, of tg ps]
    by (simp add: stream_run_def add.commute del: step_stream.simps)
qed (simp add: stream_run_def)

lemma relays_drain:
  assumes "relay_inv db s"
  shows "length (pending (ss_db (stream_run tg ps (replicate k (Relay clk lim)) s))) =
    length (pending (ss_db s)) - k * nat lim"
  using assms
proof (induction k arbitrary: s)
  case (Suc k)
  have ok: "integrity (ss_db s)" "events_ok (ss_db s)" using Suc.prems by (simp_all add: relay_inv_def)
  obtain f where d: "dispatch_outbox clk lim (ss_db s) =
      (Inr (map serialize_event (take (nat lim) (pending (ss_db s)))),
       (ss_db s)\<lparr>events := (events (ss_db s))\<lparr>rows := map f (rows (events (ss_db s)))\<rparr>\<rparr>)"
    and left: "filter (\<lambda>e. ev_published_at e = None) (map f (rows (events (ss_db s)))) = drop (nat lim) (pending (ss_db s))"
    by (rule dispatch_outbox_effect [OF ok, of clk lim]) blast
  have "pending (ss_db (step_stream tg ps (Relay clk lim) s)) = drop (nat lim) (pending (ss_db s))"
    by (simp add: d) (simp add: pending_def left [unfolded pending_def])
  then show ?case
    using Suc.IH [OF step_relay_inv [OF Suc.prems, of tg ps "Relay clk lim"]]
    by (simp add: stream_run_def del: step_stream.simps)
qed (simp add: stream_run_def)

end
