(* ===== verification/Reliability_Properties.thy ===== *)
theory Reliability_Properties
  imports Event_Stream
begin

section \<open>What the outbox, the stream, the status and the cleanup promise\<close>



lemma healthy_component:
  "component_health since kind db = ''healthy'' \<longleftrightarrow>
   (\<exists>h \<in> set (heartbeats db). hb_worker_kind h = kind \<and> since \<le> hb_last_seen_at h \<and> hb_status h \<noteq> ''stopped'')"
  by (auto simp: component_health_def list_worker_heartbeats_def worker_active_def worker_status_def
      worker_stale_def filter_empty_conv)

lemma upsert_heartbeat_reported:
  fixes db :: "'z core_db_scheme"
  defines "db' \<equiv> \<lambda>w k h p st t m now (db :: 'z core_db_scheme). upsert_worker_heartbeat w k h p st t m now db"
  shows "integrity db \<Longrightarrow> integrity (db' w k h p st t m now db)"
    and "\<exists>r \<in> set (heartbeats (db' w k h p st t m now db)).
      hb_worker_kind r = k \<and> hb_last_seen_at r = now \<and> hb_status r = st"
proof -
  show "integrity db \<Longrightarrow> integrity (db' w k h p st t m now db)"
    by (auto simp: db'_def upsert_worker_heartbeat_def integrity_def tbl_get_None split: option.split)
  show "\<exists>r \<in> set (heartbeats (db' w k h p st t m now db)).
      hb_worker_kind r = k \<and> hb_last_seen_at r = now \<and> hb_status r = st"
  proof (cases "tbl_get hb_worker_id w (heartbeats db)")
    case (Some r)
    let ?r = "r\<lparr>hb_worker_kind := k, hb_hostname := h, hb_process_id := p, hb_status := st,
      hb_current_task_id := t, hb_metadata := map_option json_dumps m, hb_last_seen_at := now\<rparr>"
    have "hb_worker_id ?r = w" using tbl_get_key [OF Some] by simp
    then have "tbl_get hb_worker_id w (tbl_put hb_worker_id ?r (heartbeats db)) = Some ?r"
      using tbl_get_put_same [of hb_worker_id ?r "heartbeats db"] Some by simp
    then have "?r \<in> set (heartbeats (db' w k h p st t m now db))"
      using tbl_get_mem Some by (fastforce simp: db'_def upsert_worker_heartbeat_def)
    then show ?thesis by (intro bexI [of _ ?r]) simp_all
  qed (simp add: db'_def upsert_worker_heartbeat_def)
qed

text \<open>What the health view means. It says healthy exactly when, for each of the task worker and
  the event relay, some worker of that kind has been seen since the deadline and has not reported
  that it stopped; and a worker that has just reported any other status is among them.\<close>

theorem health_means_live_workers:
  "(map_of (status clk secs db) ''status'' = Some (JStr ''healthy'') \<longleftrightarrow>
      (\<forall>kind \<in> {''task-worker'', ''event-relay''}. \<exists>h \<in> set (heartbeats db). hb_worker_kind h = kind \<and>
         now_utc clk - secs * second \<le> hb_last_seen_at h \<and> hb_status h \<noteq> ''stopped'')) \<and>
   (integrity db \<and> st \<noteq> ''stopped'' \<and> now_utc clk \<le> now_utc clk0 + secs * second \<longrightarrow>
      (\<exists>db'. worker_heartbeat clk0 host pid w kind st task meta db = (Inr (), db') \<and>
         component_health (now_utc clk - secs * second) kind db' = ''healthy''))"
proof
  show "map_of (status clk secs db) ''status'' = Some (JStr ''healthy'') \<longleftrightarrow>
      (\<forall>kind \<in> {''task-worker'', ''event-relay''}. \<exists>h \<in> set (heartbeats db). hb_worker_kind h = kind \<and>
         now_utc clk - secs * second \<le> hb_last_seen_at h \<and> hb_status h \<noteq> ''stopped'')"
    by (simp add: status_def Let_def overall_status_def healthy_component)
  let ?db' = "upsert_worker_heartbeat w kind host pid st task meta (now_utc clk0) db"
  show "integrity db \<and> st \<noteq> ''stopped'' \<and> now_utc clk \<le> now_utc clk0 + secs * second \<longrightarrow>
      (\<exists>db'. worker_heartbeat clk0 host pid w kind st task meta db = (Inr (), db') \<and>
         component_health (now_utc clk - secs * second) kind db' = ''healthy'')"
  proof (intro impI exI conjI; elim conjE)
    assume "integrity db"
    then show "worker_heartbeat clk0 host pid w kind st task meta db = (Inr (), ?db')"
      by (simp add: worker_heartbeat_def run_uow_def upsert_heartbeat_reported(1))
  next
    assume "st \<noteq> ''stopped''" and "now_utc clk \<le> now_utc clk0 + secs * second"
    then show "component_health (now_utc clk - secs * second) kind ?db' = ''healthy''"
      using upsert_heartbeat_reported(2) [where k = kind and now = "now_utc clk0" and st = st and w = w and h = host and p = pid and t = task and m = meta and db = db]
      by (force simp: healthy_component)
  qed
qed

lemma unique_some_filter: "unique_some key rs \<Longrightarrow> unique_some key (filter P rs)"
  by (induction rs) auto

lemma integrity_cleaned:
  "integrity db \<Longrightarrow> integrity (db\<lparr>events := es, tasks := filter P (tasks db), jobs := js,
     heartbeats := filter Q (heartbeats db), idempotency := delete_rows R (idempotency db)\<rparr>)"
  by (simp add: integrity_def unique_some_filter delete_rows_def distinct_map_filter)

text \<open>The cleanup deletes what is finished and old, and nothing else. It removes exactly the
  succeeded or canceled tasks whose finishing time is before the deadline, so no waiting, running or
  failed task; it removes no event the outbox has not published, and no stored answer without an
  expiry; it reports how many rows it removed; and done again at the same time it removes nothing.\<close>

theorem cleanup_outcome:
  assumes "integrity db"
  shows "let (x, db') = cleanup clk ed td jd hbd db
         in x = Inr [(''events'', JInt (int (length (rows (events db))) - int (length (rows (events db'))))),
                     (''tasks'', JInt (int (length (tasks db)) - int (length (tasks db')))),
                     (''job_runs'', JInt (int (length (rows (jobs db))) - int (length (rows (jobs db'))))),
                     (''heartbeats'', JInt (int (length (heartbeats db)) - int (length (heartbeats db')))),
                     (''idempotency_records'', JInt (int (length (rows (idempotency db))) - int (length (rows (idempotency db')))))] \<and>
            (\<forall>t. t \<in> set (tasks db') \<longleftrightarrow> t \<in> set (tasks db) \<and> \<not> ((task_status t = ''succeeded'' \<or> task_status t = ''canceled'') \<and>
               (\<exists>f. task_finished_at t = Some f \<and> f < now_utc clk - td * day))) \<and>
            pending db' = pending db \<and>
            (\<forall>r \<in> set (rows (idempotency db)). idem_expires_at r = None \<longrightarrow> r \<in> set (rows (idempotency db'))) \<and>
            snd (cleanup clk ed td jd hbd db') = db'"
proof -
  let ?now = "now_utc clk"
  let ?db' = "db\<lparr>events := delete_rows (event_done ?now ed) (events db),
           tasks := filter (\<lambda>t. \<not> task_done ?now td t) (tasks db),
           jobs := delete_rows (job_done ?now jd) (jobs db),
           heartbeats := filter (\<lambda>h. \<not> heartbeat_done ?now hbd h) (heartbeats db),
           idempotency := delete_rows (idempotency_done ?now) (idempotency db)\<rparr>"
  have ok: "integrity ?db'" by (rule integrity_cleaned [OF assms])
  have counted: "count_rows P xs = JInt (int (length xs) - int (length (filter (\<lambda>x. \<not> P x) xs)))" for P and xs :: "'x list"
    using sum_length_filter_compl [of P xs] by (simp add: count_rows_def)
  have twice: "delete_rows P (delete_rows P t) = delete_rows P t" for P and t :: "'r auto_table"
    by (simp add: delete_rows_def)
  have "cleanup clk ed td jd hbd db = (Inr [(''events'', count_rows (event_done ?now ed) (rows (events db))),
         (''tasks'', count_rows (task_done ?now td) (tasks db)),
         (''job_runs'', count_rows (job_done ?now jd) (rows (jobs db))),
         (''heartbeats'', count_rows (heartbeat_done ?now hbd) (heartbeats db)),
         (''idempotency_records'', count_rows (idempotency_done ?now) (rows (idempotency db)))], ?db')"
    using ok by (simp add: cleanup_def run_uow_def Let_def)
  moreover have "snd (cleanup clk ed td jd hbd ?db') = ?db'"
    using ok by (simp add: cleanup_def run_uow_def Let_def twice)
  moreover have "pending ?db' = pending db"
    by (auto simp: pending_def delete_rows_def event_done_def intro: filter_cong)
  moreover have "task_done ?now td t \<longleftrightarrow> (task_status t = ''succeeded'' \<or> task_status t = ''canceled'') \<and>
               (\<exists>f. task_finished_at t = Some f \<and> f < ?now - td * day)" for t
    by (auto simp: task_done_def split: option.split)
  ultimately show ?thesis
    by (auto simp: counted delete_rows_def idempotency_done_def)
qed

subsection \<open>Witnesses\<close>








theorem health_means_live_workers_witness:
  "\<exists>db'. worker_heartbeat sample_clock ''host'' 1 ''w1'' ''task-worker'' ''idle'' None None empty_db = (Inr (), db') \<and>
     component_health (now_utc sample_clock - 45 * second) ''task-worker'' db' = ''healthy''"
  using conjunct2 [OF health_means_live_workers [of sample_clock 45 empty_db "''idle''" sample_clock "''host''" 1 "''w1''" "''task-worker''" None None]]
  by simp

theorem cleanup_outcome_witness:
  "pending (snd (cleanup sample_clock 7 30 90 7 (event sample_clock ''a'' ''b'' None None empty_db))) =
     pending (event sample_clock ''a'' ''b'' None None empty_db)"
  using cleanup_outcome [of "event sample_clock ''a'' ''b'' None None empty_db" sample_clock 7 30 90 7]
  by (auto simp: integrity_event Let_def split: prod.splits)

end
