(* ===== verification/Legacy_Partition.thy ===== *)
theory Legacy_Partition
  imports Partition_Properties
begin

section \<open>The older partition helpers\<close>

text \<open>
  \<open>bot/sql_helper/sql_partition.py\<close>. These functions open a session of their own, commit at the
  end, and turn every exception into a rollback and a default answer. An \<open>expires_at\<close> among the
  columns of a new code, or any other name the table does not have, raises in the constructor.
\<close>

definition legacy_session ::
  "'a \<Rightarrow> ('z core_db_scheme \<Rightarrow> ('a \<times> 'z core_db_scheme) attempt) \<Rightarrow> 'z core_db_scheme \<Rightarrow> 'a \<times> 'z core_db_scheme" where
  \<comment> \<open>\<open>try: ... session.commit() ... except: session.rollback(); return on_error\<close>\<close>
  "legacy_session on_error body db =
     (case run_uow body db of (Inl e, db') \<Rightarrow> (on_error, db') | (Inr x, db') \<Rightarrow> (x, db'))"

lemma legacy_session_integrity: "integrity db \<Longrightarrow> integrity (snd (legacy_session d body db))"
  using run_uow_integrity [of db body] by (auto simp: legacy_session_def split: prod.splits sum.splits)

lemma legacy_session_Inr:
  "body db = Inr (x, db') \<Longrightarrow> legacy_session d body db = (if integrity db' then (x, db') else (d, db))"
  by (simp add: legacy_session_def run_uow_def)

lemma legacy_session_Inl: "body db = Inl e \<Longrightarrow> legacy_session d body db = (d, db)"
  by (simp add: legacy_session_def run_uow_def)

record partition_item =
  pi_code :: string
  pi_partition :: string
  pi_duration_days :: int
  pi_created_by :: "int option"
  pi_unknown :: "string list"

definition partition_code_of :: "clock \<Rightarrow> partition_item \<Rightarrow> partition_code_row attempt" where
  "partition_code_of clk it =
     (if pi_unknown it \<noteq> [] then Inl TypeError
      else Inr \<lparr>pc_code = pi_code it, pc_partition = pi_partition it, pc_duration_days = pi_duration_days it,
                pc_created_by = pi_created_by it, pc_status = ''available'', pc_reserved_by = None,
                pc_reserved_at = None, pc_reservation_token = None, pc_created_at = Some (now_local clk)\<rparr>)"

fun partition_codes_of :: "clock \<Rightarrow> partition_item list \<Rightarrow> partition_code_row list attempt" where
  "partition_codes_of clk [] = Inr []"
| "partition_codes_of clk (it # its) =
     bind_attempt (partition_code_of clk it) (\<lambda>r. bind_attempt (partition_codes_of clk its) (\<lambda>rs. Inr (r # rs)))"

definition sql_add_partition_codes ::
  "clock \<Rightarrow> partition_item list \<Rightarrow> 'z core_db_scheme \<Rightarrow> bool \<times> 'z core_db_scheme" where
  "sql_add_partition_codes clk items db0 =
     legacy_session False (\<lambda>db. bind_attempt (partition_codes_of clk items) (\<lambda>rs.
       Inr (True, db\<lparr>partition_codes := partition_codes db @ rs\<rparr>))) db0"

definition sql_get_partition_code :: "string \<Rightarrow> 'z core_db_scheme \<Rightarrow> partition_code_row option" where
  "sql_get_partition_code code db = tbl_get pc_code code (partition_codes db)"

definition sql_delete_partition_code :: "string \<Rightarrow> 'z core_db_scheme \<Rightarrow> bool \<times> 'z core_db_scheme" where
  "sql_delete_partition_code code db0 =
     legacy_session False (\<lambda>db. case sql_get_partition_code code db of
         None \<Rightarrow> Inr (False, db)
       | Some row \<Rightarrow> Inr (True, partitions_delete_code (pc_code row) db)) db0"

definition sql_upsert_partition_grant ::
  "clock \<Rightarrow> int \<Rightarrow> string \<Rightarrow> string \<Rightarrow> datetime \<Rightarrow> string option \<Rightarrow> string option \<Rightarrow> 'z core_db_scheme \<Rightarrow>
   bool \<times> 'z core_db_scheme" where
  "sql_upsert_partition_grant clk tg embyid part expires_at code embyname db0 =
     legacy_session False (\<lambda>db. Inr (True,
       case partitions_get_grant_for_update tg part db of
         Some grant \<Rightarrow> partitions_save_grant
           (grant\<lparr>pg_expires_at := (if pg_expires_at grant < expires_at then expires_at else pg_expires_at grant),
                  pg_status := Some ''active'', pg_code := str_or code (pg_code grant),
                  pg_embyname := str_or embyname (pg_embyname grant), pg_updated_at := Some (now_local clk)\<rparr>) db
       | None \<Rightarrow> partitions_add_grant
           (\<lambda>i. \<lparr>pg_id = i, pg_tg = tg, pg_embyid = Some embyid, pg_embyname = embyname, pg_partition = part,
                 pg_expires_at = expires_at, pg_status = Some ''active'', pg_code = code,
                 pg_created_at = Some (now_local clk), pg_updated_at = Some (now_local clk)\<rparr>) db)) db0"

definition sql_get_active_grants_by_user :: "int \<Rightarrow> datetime \<Rightarrow> 'z core_db_scheme \<Rightarrow> partition_grant_row list" where
  "sql_get_active_grants_by_user tg now db =
     filter (\<lambda>g. pg_tg g = tg \<and> pg_status g = Some ''active'' \<and> now < pg_expires_at g) (rows (partition_grants db))"

definition sql_get_active_grants_for_users ::
  "int list \<Rightarrow> datetime \<Rightarrow> 'z core_db_scheme \<Rightarrow> (int \<times> partition_grant_row list) list" where
  \<comment> \<open>\<open>result.setdefault(row.tg, []).append(row)\<close>, in the order the users are first met\<close>
  "sql_get_active_grants_for_users user_ids now db =
     (let hits = filter (\<lambda>g. pg_tg g \<in> set user_ids \<and> pg_status g = Some ''active'' \<and> now < pg_expires_at g)
                   (rows (partition_grants db))
      in map (\<lambda>tg. (tg, filter (\<lambda>g. pg_tg g = tg) hits)) (rev (remdups (rev (map pg_tg hits)))))"

definition sql_get_expired_grants :: "datetime \<Rightarrow> 'z core_db_scheme \<Rightarrow> partition_grant_row list" where
  "sql_get_expired_grants now db =
     filter (\<lambda>g. pg_status g = Some ''active'' \<and> pg_expires_at g \<le> now) (rows (partition_grants db))"

definition sql_mark_grants_expired :: "clock \<Rightarrow> int list \<Rightarrow> 'z core_db_scheme \<Rightarrow> unit \<times> 'z core_db_scheme" where
  "sql_mark_grants_expired clk ids db0 =
     (if ids = [] then ((), db0)
      else legacy_session () (\<lambda>db. Inr ((), db\<lparr>partition_grants := (partition_grants db)\<lparr>rows :=
        map (\<lambda>g. if pg_id g \<in> set ids
                 then g\<lparr>pg_status := Some ''expired'', pg_updated_at := Some (now_local clk)\<rparr> else g)
          (rows (partition_grants db))\<rparr>\<rparr>)) db0)"

definition newest_first :: "('r \<Rightarrow> datetime option) \<Rightarrow> 'r list \<Rightarrow> 'r list" where
  \<comment> \<open>descending order puts the nulls last\<close>
  "newest_first at rs =
     sort_key (\<lambda>r. - the (at r)) (filter (\<lambda>r. at r \<noteq> None) rs) @ filter (\<lambda>r. at r = None) rs"

definition sql_list_partition_codes :: "int \<Rightarrow> int \<Rightarrow> 'z core_db_scheme \<Rightarrow> partition_code_row list" where
  "sql_list_partition_codes lim off db = sql_page off lim (newest_first pc_created_at (partition_codes db))"

definition sql_list_partition_grants :: "int \<Rightarrow> int \<Rightarrow> 'z core_db_scheme \<Rightarrow> partition_grant_row list" where
  "sql_list_partition_grants lim off db = sql_page off lim (newest_first pg_created_at (rows (partition_grants db)))"

definition sql_count_partition_codes :: "'z core_db_scheme \<Rightarrow> int" where
  "sql_count_partition_codes db = int (length (partition_codes db))"

definition sql_count_partition_grants :: "'z core_db_scheme \<Rightarrow> int" where
  "sql_count_partition_grants db = int (length (rows (partition_grants db)))"

definition grant_over :: "datetime \<Rightarrow> partition_grant_row \<Rightarrow> bool" where
  \<comment> \<open>\<open>(status != "active") | (expires_at <= now)\<close>; a null status is not unequal to anything\<close>
  "grant_over now g =
     ((case pg_status g of None \<Rightarrow> False | Some s \<Rightarrow> s \<noteq> ''active'') \<or> pg_expires_at g \<le> now)"

definition delete_grants :: "(partition_grant_row \<Rightarrow> bool) \<Rightarrow> 'z core_db_scheme \<Rightarrow> int \<times> 'z core_db_scheme" where
  "delete_grants P db =
     (int (length (filter P (rows (partition_grants db)))),
      db\<lparr>partition_grants := (partition_grants db)\<lparr>rows := filter (\<lambda>g. \<not> P g) (rows (partition_grants db))\<rparr>\<rparr>)"

definition delete_partition_codes :: "(partition_code_row \<Rightarrow> bool) \<Rightarrow> 'z core_db_scheme \<Rightarrow> int \<times> 'z core_db_scheme" where
  "delete_partition_codes P db =
     (int (length (filter P (partition_codes db))),
      db\<lparr>partition_codes := filter (\<lambda>c. \<not> P c) (partition_codes db)\<rparr>)"

definition sql_delete_partition_code_or_grant_by_code ::
  "clock \<Rightarrow> string \<Rightarrow> 'z core_db_scheme \<Rightarrow> (int \<times> int) \<times> 'z core_db_scheme" where
  "sql_delete_partition_code_or_grant_by_code clk code db0 =
     legacy_session (0, 0) (\<lambda>db.
       let (unused, db1) = delete_partition_codes (\<lambda>c. pc_code c = code) db;
           (used, db2) = delete_grants (\<lambda>g. pg_code g = Some code \<and> grant_over (now_local clk) g) db1
       in Inr ((unused, used), db2)) db0"

definition sql_clear_unused_partition_codes :: "'z core_db_scheme \<Rightarrow> int \<times> 'z core_db_scheme" where
  "sql_clear_unused_partition_codes db0 =
     legacy_session 0 (\<lambda>db. Inr (delete_partition_codes (\<lambda>c. True) db)) db0"

definition sql_clear_used_partition_grants :: "clock \<Rightarrow> 'z core_db_scheme \<Rightarrow> int \<times> 'z core_db_scheme" where
  "sql_clear_used_partition_grants clk db0 =
     legacy_session 0 (\<lambda>db. Inr (delete_grants (grant_over (now_local clk)) db)) db0"

definition sql_clear_all_partition_data :: "'z core_db_scheme \<Rightarrow> int \<times> 'z core_db_scheme" where
  "sql_clear_all_partition_data db0 =
     legacy_session 0 (\<lambda>db.
       let (code_count, db1) = delete_partition_codes (\<lambda>c. True) db;
           (grant_count, db2) = delete_grants (\<lambda>g. True) db1
       in Inr (code_count + grant_count, db2)) db0"


subsection \<open>The atomic redemption and the two-phase service\<close>







lemma tbl_del_id: "tbl_get key k rs = None \<Longrightarrow> tbl_del key k rs = rs"
  by (induction rs) (auto simp: tbl_del_def split: if_splits)




end
