(* ===== verification/Legacy_Users.thy ===== *)
theory Legacy_Users
  imports Legacy_Partition User_Properties
begin

section \<open>The older helpers for users\<close>

text \<open>
  \<open>bot/sql_helper/sql_emby.py\<close>. \<open>sql_get_emby\<close> compares its argument with the id, the name and
  the media id of a row; how the database compares a text column with a number is an argument,
  \<open>same\<close>. A bulk update whose key has no row raises or not depending on the driver, \<open>strict\<close>.
\<close>

datatype lookup = ByInt int | ByText string

definition sql_add_emby :: "int \<Rightarrow> 'z core_db_scheme \<Rightarrow> unit \<times> 'z core_db_scheme" where
  "sql_add_emby tg db0 = legacy_session () (\<lambda>db. Inr ((), users_insert (new_emby tg) db)) db0"

definition sql_delete_emby_by_tg :: "int \<Rightarrow> 'z core_db_scheme \<Rightarrow> bool \<times> 'z core_db_scheme" where
  "sql_delete_emby_by_tg tg db0 =
     legacy_session False (\<lambda>db. case users_get_for_update tg db of
         None \<Rightarrow> Inr (False, db)
       | Some u \<Rightarrow> Inr (True, users_delete (emby_tg u) db)) db0"

definition sql_clear_emby_iv :: "'z core_db_scheme \<Rightarrow> bool \<times> 'z core_db_scheme" where
  "sql_clear_emby_iv db0 =
     legacy_session False (\<lambda>db. Inr (True, db\<lparr>embys := map (\<lambda>u. u\<lparr>emby_iv := Some 0\<rparr>) (embys db)\<rparr>)) db0"

definition matches_any :: "int option \<Rightarrow> string option \<Rightarrow> string option \<Rightarrow> emby_row \<Rightarrow> bool" where
  \<comment> \<open>\<open>or_\<close> of the conditions whose argument is given\<close>
  "matches_any tg embyid name u =
     ((tg \<noteq> None \<and> Some (emby_tg u) = tg) \<or> (embyid \<noteq> None \<and> emby_embyid u = embyid) \<or>
      (name \<noteq> None \<and> emby_name u = name))"

definition sql_delete_emby ::
  "int option \<Rightarrow> string option \<Rightarrow> string option \<Rightarrow> 'z core_db_scheme \<Rightarrow> bool \<times> 'z core_db_scheme" where
  "sql_delete_emby tg embyid name db0 =
     legacy_session False (\<lambda>db.
       if tg = None \<and> embyid = None \<and> name = None then Inr (False, db)
       else (case find (matches_any tg embyid name) (embys db) of
           None \<Rightarrow> Inr (False, db)
         | Some u \<Rightarrow> Inr (True, users_delete (emby_tg u) db))) db0"

datatype bulk = BulkIv "(int \<times> int) list" | BulkEx "(int \<times> datetime option) list"
  | BulkBind "(int \<times> string option \<times> string option) list"

fun bulk_rows :: "bulk \<Rightarrow> (int \<times> user_change list) list" where
  "bulk_rows (BulkIv ms) = map (\<lambda>(tg, iv). (tg, [ChIv (Some iv)])) ms"
| "bulk_rows (BulkEx ms) = map (\<lambda>(tg, ex). (tg, [ChEx ex])) ms"
| "bulk_rows (BulkBind ms) = map (\<lambda>(tg, name, embyid). (tg, [ChName name, ChEmbyid embyid])) ms"

fun bulk_update :: "bool \<Rightarrow> (int \<times> user_change list) list \<Rightarrow> 'z core_db_scheme \<Rightarrow> 'z core_db_scheme attempt" where
  "bulk_update strict [] db = Inr db"
| "bulk_update strict ((tg, cs) # ms) db =
     (case users_get_for_update tg db of
        None \<Rightarrow> if strict then Inl (RuntimeError ''StaleDataError'') else bulk_update strict ms db
      | Some u \<Rightarrow> bulk_update strict ms (users_save (fold set_field cs u) db))"

definition sql_update_embys :: "bool \<Rightarrow> bulk \<Rightarrow> 'z core_db_scheme \<Rightarrow> bool \<times> 'z core_db_scheme" where
  "sql_update_embys strict some_list db0 =
     legacy_session False (\<lambda>db. bind_attempt (bulk_update strict (bulk_rows some_list) db) (\<lambda>db'. Inr (True, db'))) db0"

fun lookup_matches :: "(string \<Rightarrow> int \<Rightarrow> bool) \<Rightarrow> lookup \<Rightarrow> emby_row \<Rightarrow> bool" where
  "lookup_matches same (ByInt n) u =
     (emby_tg u = n \<or> (\<exists>s \<in> set_option (emby_name u). same s n) \<or> (\<exists>s \<in> set_option (emby_embyid u). same s n))"
| "lookup_matches same (ByText s) u =
     (same s (emby_tg u) \<or> emby_name u = Some s \<or> emby_embyid u = Some s)"

definition sql_get_emby :: "(string \<Rightarrow> int \<Rightarrow> bool) \<Rightarrow> lookup \<Rightarrow> 'z core_db_scheme \<Rightarrow> emby_row option" where
  "sql_get_emby same tg db = find (lookup_matches same tg) (embys db)"

definition get_all_emby :: "(emby_row \<Rightarrow> bool) \<Rightarrow> 'z core_db_scheme \<Rightarrow> emby_row list" where
  "get_all_emby condition db = filter condition (embys db)"

definition sql_update_emby :: "(emby_row \<Rightarrow> bool) \<Rightarrow> user_change list \<Rightarrow> 'z core_db_scheme \<Rightarrow> bool \<times> 'z core_db_scheme" where
  "sql_update_emby condition changes db0 =
     legacy_session False (\<lambda>db. case find condition (embys db) of
         None \<Rightarrow> Inr (False, db)
       | Some u \<Rightarrow> Inr (True, users_save (fold set_field changes u) db)) db0"

definition sql_count_emby :: "'z core_db_scheme \<Rightarrow> int \<times> int \<times> int" where
  "sql_count_emby db =
     (int (length (embys db)),
      int (length (filter (\<lambda>u. emby_embyid u \<noteq> None) (embys db))),
      int (length (filter (\<lambda>u. emby_lv u = Some ''a'') (embys db))))"

end
