(* ===== verification/Register_Queue.thy ===== *)
theory Register_Queue
  imports Legacy_Users
begin

section \<open>The registration queue\<close>

text \<open>
  \<open>RegisterQueueManager\<close> of \<open>bot/func_helper/register_queue.py\<close>: jobs wait in a queue, a pool of
  workers takes them out, and three counters under one lock decide what is admitted. Each block
  under the lock is one step; between taking a job and counting it as active a worker awaits the
  lock, so that is a step of its own. The remote account creation and whatever other tasks do to
  the database while a worker awaits are arguments.
\<close>

record register_job =
  job_user_id :: int
  job_username :: string
  job_pwd2 :: string
  job_stats :: bool
  job_days :: int

datatype job_end =
    NotRecorded | AlreadyBound | NoQualification | SlotsGone | CreationFailed
  | StateChanged string | WriteFailed string | Registered string
  \<comment> \<open>the last three carry the id of the remote account; the first two of them roll it back\<close>

record open_settings =
  open_tem :: int
  open_all_user :: int
  open_stat :: bool
  open_worker_count :: "int option"
  open_queue_limit :: "int option"

definition configured_worker_count :: "open_settings \<Rightarrow> int" where
  "configured_worker_count cfg =
     max 1 (case open_worker_count cfg of None \<Rightarrow> 5 | Some n \<Rightarrow> if n = 0 then 5 else n)"

definition configured_queue_limit :: "open_settings \<Rightarrow> int" where
  "configured_queue_limit cfg =
     max 1 (case open_queue_limit cfg of None \<Rightarrow> 100 | Some n \<Rightarrow> if n = 0 then 100 else n)"

definition remaining_slot_count :: "open_settings \<Rightarrow> int" where
  "remaining_slot_count cfg = max 0 (open_all_user cfg - open_tem cfg)"

definition max_waiting_queue_size :: "open_settings \<Rightarrow> int \<Rightarrow> int" where
  "max_waiting_queue_size cfg active_jobs =
     max 0 (min (configured_queue_limit cfg) (remaining_slot_count cfg - active_jobs))"

definition tem_adduser :: "open_settings \<Rightarrow> open_settings" where
  "tem_adduser cfg =
     (let cfg' = cfg\<lparr>open_tem := open_tem cfg + 1\<rparr>
      in if open_tem cfg' \<ge> open_all_user cfg' then cfg'\<lparr>open_stat := False\<rparr> else cfg')"

definition tem_deluser :: "open_settings \<Rightarrow> open_settings" where
  "tem_deluser cfg = cfg\<lparr>open_tem := open_tem cfg - 1\<rparr>"

subsection \<open>Admission\<close>

record queue_state =
  rq_open :: open_settings
  rq_queue :: "register_job list"
  rq_busy_users :: "int set"
  rq_reserved_slots :: int
  rq_active_jobs :: int

definition is_user_busy :: "int \<Rightarrow> 'q queue_state_scheme \<Rightarrow> bool" where
  "is_user_busy user_id s = (user_id \<in> rq_busy_users s)"

definition enqueue_job ::
  "register_job \<Rightarrow> 'q queue_state_scheme \<Rightarrow> (bool \<times> string \<times> int option) \<times> 'q queue_state_scheme" where
  "enqueue_job job s =
     (if job_user_id job \<in> rq_busy_users s then ((False, ''duplicate'', None), s)
      else if open_tem (rq_open s) + rq_reserved_slots s \<ge> open_all_user (rq_open s) then
        ((False, ''slot_full'', None), s)
      else if int (length (rq_queue s)) \<ge> max_waiting_queue_size (rq_open s) (rq_active_jobs s) then
        ((False, ''queue_full'', None), s)
      else
        let ahead = rq_active_jobs s + int (length (rq_queue s))
        in ((True, ''queued'', Some (ahead + 1)),
            s\<lparr>rq_busy_users := insert (job_user_id job) (rq_busy_users s),
              rq_reserved_slots := rq_reserved_slots s + 1, rq_queue := rq_queue s @ [job]\<rparr>))"

subsection \<open>Processing a job\<close>

definition precheck ::
  "(string \<Rightarrow> int \<Rightarrow> bool) \<Rightarrow> register_job \<Rightarrow> open_settings \<Rightarrow> 'z core_db_scheme \<Rightarrow> job_end option" where
  \<comment> \<open>\<open>_process_job\<close> up to the remote creation\<close>
  "precheck same job cfg db =
     (case sql_get_emby same (ByInt (job_user_id job)) db of
        None \<Rightarrow> Some NotRecorded
      | Some current \<Rightarrow>
          if truthy_str (emby_embyid current) then Some AlreadyBound
          else if \<not> job_stats job \<and> int_or_0 (emby_us current) \<le> 0 then Some NoQualification
          else if open_tem cfg \<ge> open_all_user cfg then Some SlotsGone
          else None)"

definition registration_changes :: "clock \<Rightarrow> register_job \<Rightarrow> string \<Rightarrow> string \<Rightarrow> datetime \<Rightarrow> user_change list" where
  "registration_changes clk job eid pwd ex =
     [ChEmbyid (Some eid), ChName (Some (job_username job)), ChPwd (Some pwd), ChPwd2 (Some (job_pwd2 job)),
      ChLv (Some ''b''), ChCr (Some (now_local clk)), ChEx (Some ex)] @
     (if job_stats job then [] else [ChUs (Some 0)])"

definition finish_creation ::
  "clock \<Rightarrow> (string \<Rightarrow> int \<Rightarrow> bool) \<Rightarrow> register_job \<Rightarrow> (string \<times> string \<times> datetime) option \<Rightarrow>
   open_settings \<Rightarrow> 'z core_db_scheme \<Rightarrow> job_end \<times> open_settings \<times> 'z core_db_scheme" where
  \<comment> \<open>\<open>_process_job\<close> from the answer of \<open>emby_create\<close> on; there is no await between the second read
     of the row and the write\<close>
  "finish_creation clk same job data cfg db =
     (case data of
        None \<Rightarrow> (CreationFailed, cfg, db)
      | Some (eid, pwd, ex) \<Rightarrow>
          (case sql_get_emby same (ByInt (job_user_id job)) db of
             None \<Rightarrow> (StateChanged eid, cfg, db)
           | Some refreshed \<Rightarrow>
               if truthy_str (emby_embyid refreshed) then (StateChanged eid, cfg, db)
               else
                 let (updated, db') = sql_update_emby (\<lambda>u. emby_tg u = job_user_id job)
                       (registration_changes clk job eid pwd ex) db
                 in if \<not> updated then (WriteFailed eid, cfg, db')
                    else (Registered eid, tem_adduser cfg, db')))"

fun rolled_back :: "job_end \<Rightarrow> string option" where
  \<comment> \<open>the account \<open>_rollback_created_account\<close> asks the server to delete\<close>
  "rolled_back (StateChanged eid) = Some eid"
| "rolled_back (WriteFailed eid) = Some eid"
| "rolled_back _ = None"

definition process_job ::
  "clock \<Rightarrow> (string \<Rightarrow> int \<Rightarrow> bool) \<Rightarrow> register_job \<Rightarrow> (string \<times> string \<times> datetime) option \<Rightarrow>
   (open_settings \<times> 'z core_db_scheme \<Rightarrow> open_settings \<times> 'z core_db_scheme) \<Rightarrow>
   open_settings \<Rightarrow> 'z core_db_scheme \<Rightarrow> job_end \<times> open_settings \<times> 'z core_db_scheme" where
  "process_job clk same job data others cfg db =
     (case precheck same job cfg db of
        Some e \<Rightarrow> (e, cfg, db)
      | None \<Rightarrow> (case others (cfg, db) of (cfg', db') \<Rightarrow> finish_creation clk same job data cfg' db'))"

subsection \<open>The workers\<close>

datatype job_phase = Started | Creating | Ended job_end

record 'd worker_state = queue_state +
  rq_taken :: "register_job list"
  rq_running :: "(register_job \<times> job_phase) list"
  rq_workers :: nat
  rq_db :: 'd

definition ensure_started :: "'d worker_state \<Rightarrow> 'd worker_state" where
  \<comment> \<open>the worker loops never return, so none of the tasks is ever done\<close>
  "ensure_started s =
     s\<lparr>rq_workers := max (rq_workers s) (nat (configured_worker_count (rq_open s)))\<rparr>"

definition enqueue_call :: "register_job \<Rightarrow> 'd worker_state \<Rightarrow> (bool \<times> string \<times> int option) \<times> 'd worker_state" where
  "enqueue_call job s = enqueue_job job (ensure_started s)"

definition finish_counters :: "register_job \<Rightarrow> 'q queue_state_scheme \<Rightarrow> 'q queue_state_scheme" where
  \<comment> \<open>the \<open>finally\<close> block of \<open>_worker_loop\<close>\<close>
  "finish_counters job s =
     s\<lparr>rq_active_jobs := max 0 (rq_active_jobs s - 1), rq_busy_users := rq_busy_users s - {job_user_id job},
       rq_reserved_slots := max 0 (rq_reserved_slots s - 1)\<rparr>"

inductive queue_step ::
  "(string \<Rightarrow> int \<Rightarrow> bool) \<Rightarrow> 'z core_db_scheme worker_state \<Rightarrow> 'z core_db_scheme worker_state \<Rightarrow> bool"
  for same where
  Enqueue: "queue_step same s (snd (enqueue_call job s))"
| Take: "rq_queue s = job # rest \<Longrightarrow> length (rq_taken s) + length (rq_running s) < rq_workers s \<Longrightarrow>
    queue_step same s (s\<lparr>rq_queue := rest, rq_taken := rq_taken s @ [job]\<rparr>)"
| Activate: "rq_taken s = xs @ job # ys \<Longrightarrow>
    queue_step same s (s\<lparr>rq_taken := xs @ ys, rq_active_jobs := rq_active_jobs s + 1,
      rq_running := rq_running s @ [(job, Started)]\<rparr>)"
| Check: "rq_running s = xs @ (job, Started) # ys \<Longrightarrow>
    phase = (case precheck same job (rq_open s) (rq_db s) of None \<Rightarrow> Creating | Some e \<Rightarrow> Ended e) \<Longrightarrow>
    queue_step same s (s\<lparr>rq_running := xs @ (job, phase) # ys\<rparr>)"
| Create: "rq_running s = xs @ (job, Creating) # ys \<Longrightarrow>
    finish_creation clk same job data (rq_open s) (rq_db s) = (e, cfg, db) \<Longrightarrow>
    queue_step same s (s\<lparr>rq_running := xs @ (job, Ended e) # ys, rq_open := cfg, rq_db := db\<rparr>)"
| Raised: "rq_running s = xs @ (job, phase) # ys \<Longrightarrow> phase = Started \<or> phase = Creating \<Longrightarrow>
    \<comment> \<open>an exception out of \<open>_process_job\<close> before the account counts\<close>
    queue_step same s (s\<lparr>rq_running := xs @ (job, Ended CreationFailed) # ys\<rparr>)"
| Finish: "rq_running s = xs @ (job, Ended e) # ys \<Longrightarrow>
    queue_step same s (finish_counters job (s\<lparr>rq_running := xs @ ys\<rparr>))"
| Others: "open_tem cfg \<le> open_tem (rq_open s) \<Longrightarrow> open_all_user (rq_open s) \<le> open_all_user cfg \<Longrightarrow>
    \<comment> \<open>accounts are deleted, the limit is raised, other services write the database\<close>
    queue_step same s (s\<lparr>rq_open := cfg, rq_db := db\<rparr>)"

subsection \<open>The invariant of the counters\<close>

definition pending_jobs :: "'d worker_state \<Rightarrow> register_job list" where
  "pending_jobs s = rq_queue s @ rq_taken s @ map fst (rq_running s)"

fun counted :: "job_phase \<Rightarrow> bool" where
  \<comment> \<open>the account of the job is already in \<open>tem\<close>\<close>
  "counted (Ended (Registered eid)) = True"
| "counted _ = False"

definition uncounted_jobs :: "'d worker_state \<Rightarrow> int" where
  "uncounted_jobs s =
     int (length (rq_queue s)) + int (length (rq_taken s)) + int (length (filter (\<lambda>(j, p). \<not> counted p) (rq_running s)))"

definition queue_inv :: "'d worker_state \<Rightarrow> bool" where
  "queue_inv s =
     (distinct (map job_user_id (pending_jobs s)) \<and> rq_busy_users s = job_user_id ` set (pending_jobs s) \<and>
      rq_reserved_slots s = int (length (pending_jobs s)) \<and> rq_active_jobs s = int (length (rq_running s)) \<and>
      length (rq_taken s) + length (rq_running s) \<le> rq_workers s \<and>
      open_tem (rq_open s) + uncounted_jobs s \<le> open_all_user (rq_open s))"

definition idle :: "'d worker_state \<Rightarrow> bool" where
  "idle s = (rq_queue s = [] \<and> rq_taken s = [] \<and> rq_running s = [] \<and> rq_busy_users s = {} \<and>
     rq_reserved_slots s = 0 \<and> rq_active_jobs s = 0)"

lemma idle_inv: "idle s \<Longrightarrow> open_tem (rq_open s) \<le> open_all_user (rq_open s) \<Longrightarrow> queue_inv s"
  by (simp add: idle_def queue_inv_def pending_jobs_def uncounted_jobs_def)

lemma ensure_started_inv: "queue_inv s \<Longrightarrow> queue_inv (ensure_started s)"
  by (auto simp: queue_inv_def ensure_started_def pending_jobs_def uncounted_jobs_def)

lemma uncounted_le: "uncounted_jobs s \<le> int (length (pending_jobs s))"
  by (simp add: uncounted_jobs_def pending_jobs_def)

lemma enqueue_job_inv:
  assumes "queue_inv s"
  shows "queue_inv (snd (enqueue_job job s))"
proof (cases "job_user_id job \<in> rq_busy_users s \<or> open_tem (rq_open s) + rq_reserved_slots s \<ge> open_all_user (rq_open s) \<or>
    int (length (rq_queue s)) \<ge> max_waiting_queue_size (rq_open s) (rq_active_jobs s)")
  case True
  then show ?thesis using assms by (auto simp: enqueue_job_def)
next
  case False
  let ?s' = "s\<lparr>rq_busy_users := insert (job_user_id job) (rq_busy_users s),
    rq_reserved_slots := rq_reserved_slots s + 1, rq_queue := rq_queue s @ [job]\<rparr>"
  have "snd (enqueue_job job s) = ?s'"
    using False by (simp add: enqueue_job_def Let_def)
  moreover have "open_tem (rq_open s) + (uncounted_jobs s + 1) \<le> open_all_user (rq_open s)"
    using False uncounted_le [of s] assms by (simp add: queue_inv_def)
  then have "queue_inv ?s'"
    using assms False by (auto simp: queue_inv_def pending_jobs_def uncounted_jobs_def)
  ultimately show ?thesis by simp
qed

lemma finish_creation_slots:
  "finish_creation clk same job data cfg db = (e, cfg', db') \<Longrightarrow>
   open_all_user cfg' = open_all_user cfg \<and>
   open_tem cfg' = open_tem cfg + (if counted (Ended e) then 1 else 0)"
  by (auto simp: finish_creation_def tem_adduser_def Let_def split: option.splits prod.splits if_splits)

lemma queue_step_inv:
  assumes "queue_step same s s'" and "queue_inv s"
  shows "queue_inv s'"
  using assms
proof (induction rule: queue_step.induct)
  case (Enqueue s job)
  then show ?case unfolding enqueue_call_def by (intro enqueue_job_inv ensure_started_inv)
next
  case (Take s job rest)
  then show ?case by (auto simp: queue_inv_def pending_jobs_def uncounted_jobs_def)
next
  case (Activate s xs job ys)
  then show ?case by (auto simp: queue_inv_def pending_jobs_def uncounted_jobs_def)
next
  case (Check s xs job ys phase)
  have "\<not> counted phase"
    using Check.hyps(2) by (auto simp: precheck_def split: option.splits if_splits)
  then show ?case using Check by (auto simp: queue_inv_def pending_jobs_def uncounted_jobs_def)
next
  case (Create s xs job ys clk data e cfg db)
  then show ?case
    using finish_creation_slots [OF Create.hyps(2)] by (auto simp: queue_inv_def pending_jobs_def uncounted_jobs_def)
next
  case (Raised s xs job phase ys)
  then show ?case by (auto simp: queue_inv_def pending_jobs_def uncounted_jobs_def)
next
  case (Finish s xs job e ys)
  let ?s' = "s\<lparr>rq_running := xs @ ys\<rparr>"
  have ids: "job_user_id job \<notin> job_user_id ` set (pending_jobs ?s')" "distinct (map job_user_id (pending_jobs ?s'))"
    using Finish by (auto simp: queue_inv_def pending_jobs_def image_Un)
  have "set (pending_jobs s) = insert job (set (pending_jobs ?s'))"
    using Finish.hyps by (auto simp: pending_jobs_def)
  then have busy: "rq_busy_users s - {job_user_id job} = job_user_id ` set (pending_jobs ?s')"
    using Finish.prems ids(1) by (auto simp: queue_inv_def)
  have "uncounted_jobs ?s' \<le> uncounted_jobs s"
    using Finish.hyps by (simp add: uncounted_jobs_def)
  moreover have "length (pending_jobs s) = Suc (length (pending_jobs ?s'))"
    using Finish.hyps by (simp add: pending_jobs_def)
  ultimately show ?case
    using Finish ids busy by (simp add: queue_inv_def finish_counters_def pending_jobs_def uncounted_jobs_def)
next
  case (Others cfg s db)
  then show ?case by (auto simp: queue_inv_def pending_jobs_def uncounted_jobs_def)
qed

lemma reachable_inv: "(queue_step same)\<^sup>*\<^sup>* s0 s \<Longrightarrow> queue_inv s0 \<Longrightarrow> queue_inv s"
  by (induction rule: rtranclp_induct) (auto intro: queue_step_inv)

end
