(* ===== verification/Register_Properties.thy ===== *)
theory Register_Properties
  imports Register_Queue
begin

section \<open>What the registration queue promises\<close>

lemma slots_bound: "queue_inv s \<Longrightarrow> open_tem (rq_open s) \<le> open_all_user (rq_open s)"
proof -
  assume "queue_inv s"
  moreover have "0 \<le> uncounted_jobs s" by (simp add: uncounted_jobs_def)
  ultimately show ?thesis unfolding queue_inv_def by linarith
qed


text \<open>What a submission answers. A user with a job is refused as a duplicate; otherwise, when the
  accounts and the jobs together fill the limit, as out of slots; otherwise, when the waiting jobs
  reach the smaller of the configured length and the slots left beside the active jobs, as a full
  queue; otherwise the job waits last and its position counts the active and waiting jobs before it.
  A refusal changes nothing but the number of workers.\<close>

theorem submission_outcome:
  assumes "idle s0" and "open_tem (rq_open s0) \<le> open_all_user (rq_open s0)" and "(queue_step same)\<^sup>*\<^sup>* s0 s"
  shows "let (answer, s') = enqueue_call job s; cfg = rq_open s; waiting = int (length (rq_queue s));
             room = min (configured_queue_limit cfg) (open_all_user cfg - open_tem cfg - int (length (rq_running s)))
         in if job_user_id job \<in> job_user_id ` set (pending_jobs s)
            then answer = (False, ''duplicate'', None) \<and> s' = ensure_started s
            else if open_all_user cfg \<le> open_tem cfg + int (length (pending_jobs s))
            then answer = (False, ''slot_full'', None) \<and> s' = ensure_started s
            else if room \<le> waiting
            then answer = (False, ''queue_full'', None) \<and> s' = ensure_started s
            else answer = (True, ''queued'', Some (int (length (rq_running s)) + waiting + 1)) \<and>
              rq_queue s' = rq_queue s @ [job] \<and> int (length (rq_queue s')) \<le> configured_queue_limit cfg"
proof -
  have inv: "queue_inv (ensure_started s)"
    by (rule ensure_started_inv [OF reachable_inv [OF assms(3) idle_inv [OF assms(1,2)]]])
  have room: "max_waiting_queue_size cfg n \<le> w \<longleftrightarrow> min (configured_queue_limit cfg) (open_all_user cfg - open_tem cfg - n) \<le> w"
    if "open_tem cfg \<le> open_all_user cfg" "0 \<le> w" for cfg n w
    using that by (auto simp: max_waiting_queue_size_def remaining_slot_count_def)
  have same: "rq_queue (ensure_started s) = rq_queue s" "pending_jobs (ensure_started s) = pending_jobs s"
    "rq_open (ensure_started s) = rq_open s" "rq_running (ensure_started s) = rq_running s"
    by (simp_all add: ensure_started_def pending_jobs_def)
  have counts: "rq_busy_users (ensure_started s) = job_user_id ` set (pending_jobs s)"
    "rq_reserved_slots (ensure_started s) = int (length (pending_jobs s))"
    "rq_active_jobs (ensure_started s) = int (length (rq_running s))"
    using inv by (simp_all add: queue_inv_def same)
  have "open_tem (rq_open s) \<le> open_all_user (rq_open s)"
    using slots_bound [OF inv] by (simp add: same)
  then show ?thesis
    by (auto simp: enqueue_call_def enqueue_job_def Let_def counts same room)
qed

subsection \<open>The workers drain the queue\<close>

fun phase_weight :: "job_phase \<Rightarrow> nat" where
  "phase_weight Started = 3" | "phase_weight Creating = 2" | "phase_weight (Ended e) = 1"

definition work_left :: "'d worker_state \<Rightarrow> nat" where
  "work_left s = 5 * length (rq_queue s) + 4 * length (rq_taken s) + sum_list (map (phase_weight \<circ> snd) (rq_running s))"

lemma worker_progress:
  fixes s :: "'z core_db_scheme worker_state"
  assumes "queue_inv s" and "pending_jobs s \<noteq> []" and "0 < rq_workers s"
  shows "\<exists>s'. queue_step same s s' \<and> work_left s' < work_left s \<and> rq_workers s' = rq_workers s"
proof (cases "rq_taken s")
  case (Cons job rest)
  show ?thesis
    by (rule exI, rule conjI, rule queue_step.Activate [of s "[]" job rest]) (simp_all add: Cons work_left_def)
next
  case Nil
  note taken = this
  show ?thesis
  proof (cases "rq_running s")
    case (Cons r rest)
    obtain job phase where r: "r = (job, phase)" by (cases r)
    have running: "rq_running s = [] @ (job, phase) # rest" by (simp add: Cons r)
    show ?thesis
    proof (cases phase)
      case Started
      have "phase_weight (case precheck same job (rq_open s) (rq_db s) of None \<Rightarrow> Creating | Some e \<Rightarrow> Ended e) < 3"
        by (simp split: option.split)
      then show ?thesis
        by - (rule exI, rule conjI [OF queue_step.Check [OF running [unfolded Started] refl, of same]], simp add: Cons r Started work_left_def)
    next
      case Creating
      obtain e cfg db where f: "finish_creation undefined same job None (rq_open s) (rq_db s) = (e, cfg, db)"
        by (metis prod_cases3)
      show ?thesis
        by (rule exI, rule conjI [OF queue_step.Create [OF running [unfolded Creating] f]]) (simp add: Cons r Creating work_left_def)
    next
      case (Ended e)
      show ?thesis
        by (rule exI, rule conjI [OF queue_step.Finish [OF running [unfolded Ended], of same]])
          (simp add: Cons r Ended work_left_def finish_counters_def)
    qed
  next
    case Nil
    then obtain job rest where queue: "rq_queue s = job # rest"
      using assms(2) taken by (cases "rq_queue s") (auto simp: pending_jobs_def)
    have free: "length (rq_taken s) + length (rq_running s) < rq_workers s"
      using assms(3) taken Nil by simp
    show ?thesis
      by (rule exI, rule conjI [OF queue_step.Take [OF queue free, of same]]) (simp add: queue taken work_left_def)
  qed
qed

lemma drains:
  assumes "queue_inv s" and "0 < rq_workers s"
  shows "\<exists>s'. (queue_step same)\<^sup>*\<^sup>* s s' \<and> idle s'"
  using assms
proof (induction "work_left s" arbitrary: s rule: less_induct)
  case less
  show ?case
  proof (cases "pending_jobs s = []")
    case True
    then have "idle s"
      using less.prems(1) by (auto simp: idle_def queue_inv_def pending_jobs_def)
    then show ?thesis by blast
  next
    case False
    then obtain s1 where s1: "queue_step same s s1" "work_left s1 < work_left s" "rq_workers s1 = rq_workers s"
      using worker_progress [OF less.prems(1) _ less.prems(2)] by blast
    moreover obtain s2 where "(queue_step same)\<^sup>*\<^sup>* s1 s2" "idle s2"
      using less.hyps [OF s1(2) queue_step_inv [OF s1(1) less.prems(1)]] s1(3) less.prems(2) by auto
    ultimately show ?thesis by (meson converse_rtranclp_into_rtranclp)
  qed
qed

text \<open>C17: The queue cannot get stuck. Whatever has happened since it was idle, once a worker has been
  started there are steps of the workers after which no job is left, no user is busy and no slot is
  reserved; so a user can register again and no slot leaks.\<close>

theorem queue_drains:
  assumes "idle s0" and "open_tem (rq_open s0) \<le> open_all_user (rq_open s0)" and "(queue_step same)\<^sup>*\<^sup>* s0 s"
    and "0 < rq_workers s"
  shows "\<exists>s'. (queue_step same)\<^sup>*\<^sup>* s s' \<and> idle s'"
  by (rule drains [OF reachable_inv [OF assms(3) idle_inv [OF assms(1,2)]] assms(4)])

subsection \<open>One job\<close>

lemma find_user: "find (\<lambda>u. emby_tg u = tg) (embys db) = users_get_for_update tg db"
proof -
  have "find (\<lambda>u. emby_tg u = tg) us = tbl_get emby_tg tg us" for us by (induction us) auto
  then show ?thesis by (simp add: users_get_for_update_def)
qed

lemma tg_fold_set_field [simp]: "emby_tg (fold set_field cs u) = emby_tg u"
proof (induction cs arbitrary: u)
  case (Cons c cs)
  then show ?case by (cases c) simp_all
qed simp

lemma sql_update_user_cases:
  obtains (updated) u where "users_get_for_update tg db = Some u"
      and "sql_update_emby (\<lambda>u. emby_tg u = tg) cs db = (True, users_save (fold set_field cs u) db)"
  | (refused) "sql_update_emby (\<lambda>u. emby_tg u = tg) cs db = (False, db)"
proof (cases "users_get_for_update tg db")
  case None
  then show thesis
    by (intro refused) (simp add: sql_update_emby_def legacy_session_def run_uow_def find_user)
next
  case (Some u)
  then show thesis
    using updated [OF Some] refused
    by (cases "integrity (users_save (fold set_field cs u) db)")
      (simp_all add: sql_update_emby_def legacy_session_def run_uow_def find_user)
qed

text \<open>A job leaves no orphan and no half-written row. If it ends as registered, its checks passed,
  the remote account was created, the user's row now carries that account with level \<open>b\<close> and its
  expiry (and no registration days unless the site is open), and one more account is counted. In
  every other case the database and the count are as the other tasks left them; and a remote account
  that was created without being bound is rolled back.\<close>

theorem job_leaves_no_orphan:
  "let (e, cfg', db') = process_job clk same job data others cfg db;
       (cfg1, db1) = (if precheck same job cfg db = None then others (cfg, db) else (cfg, db))
   in (case e of
         Registered eid \<Rightarrow>
           precheck same job cfg db = None \<and> open_tem cfg' = open_tem cfg1 + 1 \<and>
           (\<exists>u pwd ex. data = Some (eid, pwd, ex) \<and> users_get_for_update (job_user_id job) db1 = Some u \<and>
              (\<exists>u'. users_get_for_update (job_user_id job) db' = Some u' \<and> emby_embyid u' = Some eid \<and>
                 emby_name u' = Some (job_username job) \<and> emby_lv u' = Some ''b'' \<and> emby_ex u' = Some ex \<and>
                 emby_us u' = (if job_stats job then emby_us u else Some 0) \<and> emby_iv u' = emby_iv u))
       | _ \<Rightarrow> cfg' = cfg1 \<and> db' = db1) \<and>
      (\<forall>eid pwd ex. precheck same job cfg db = None \<and> data = Some (eid, pwd, ex) \<longrightarrow>
         e = Registered eid \<or> rolled_back e = Some eid)"
proof (cases "precheck same job cfg db")
  case (Some e)
  then have "\<And>eid. e \<noteq> Registered eid"
    by (auto simp: precheck_def split: option.splits if_splits)
  then show ?thesis using Some by (auto simp: process_job_def split: job_end.split)
next
  case None
  obtain cfg1 db1 where o: "others (cfg, db) = (cfg1, db1)" by fastforce
  have p: "process_job clk same job x others cfg db = finish_creation clk same job x cfg1 db1" for x
    by (simp add: process_job_def None o)
  show ?thesis
  proof (cases data)
    case (Some d)
    obtain eid pwd ex where d: "data = Some (eid, pwd, ex)" using Some by (cases d) auto
    let ?cs = "registration_changes clk job eid pwd ex"
    show ?thesis
    proof (cases "sql_get_emby same (ByInt (job_user_id job)) db1")
      case (Some r)
      show ?thesis
      proof (cases "truthy_str (emby_embyid r)")
        case False
        show ?thesis
        proof (rule sql_update_user_cases [of "job_user_id job" db1 ?cs])
          fix u
          assume u: "users_get_for_update (job_user_id job) db1 = Some u"
            and up: "sql_update_emby (\<lambda>u. emby_tg u = job_user_id job) ?cs db1 = (True, users_save (fold set_field ?cs u) db1)"
          have "emby_tg (fold set_field ?cs u) = job_user_id job"
            using user_repo.get_key [OF u] by simp
          then have row: "users_get_for_update (job_user_id job) (users_save (fold set_field ?cs u) db1) = Some (fold set_field ?cs u)"
            by (rule user_repo.get_modified [OF u])
          have bound: "emby_embyid (fold set_field ?cs u) = Some eid" "emby_name (fold set_field ?cs u) = Some (job_username job)"
            "emby_lv (fold set_field ?cs u) = Some ''b''" "emby_ex (fold set_field ?cs u) = Some ex"
            "emby_us (fold set_field ?cs u) = (if job_stats job then emby_us u else Some 0)" "emby_iv (fold set_field ?cs u) = emby_iv u"
            by (simp_all add: registration_changes_def)
          have "process_job clk same job data others cfg db = (Registered eid, tem_adduser cfg1, users_save (fold set_field ?cs u) db1)"
            using Some False by (simp add: p d finish_creation_def up)
          then show ?thesis
            using u row bound by (simp add: None o d tem_adduser_def Let_def)
        next
          assume "sql_update_emby (\<lambda>u. emby_tg u = job_user_id job) ?cs db1 = (False, db1)"
          then show ?thesis using Some False by (simp add: None o p finish_creation_def d)
        qed
      qed (simp add: None o p finish_creation_def d Some)
    qed (simp add: None o p finish_creation_def d)
  qed (simp add: None o p finish_creation_def)
qed

subsection \<open>Witnesses\<close>

definition sample_job :: register_job where
  "sample_job = \<lparr>job_user_id = 7, job_username = ''neko'', job_pwd2 = ''1234'', job_stats = True, job_days = 30\<rparr>"

definition sample_queue_state :: "core_db worker_state" where
  "sample_queue_state =
     \<lparr>rq_open = \<lparr>open_tem = 0, open_all_user = 1, open_stat = True, open_worker_count = None, open_queue_limit = None\<rparr>,
      rq_queue = [], rq_busy_users = {}, rq_reserved_slots = 0, rq_active_jobs = 0, rq_taken = [], rq_running = [],
      rq_workers = 0, rq_db = sample_db\<rparr>"

lemma sample_idle: "idle sample_queue_state" "open_tem (rq_open sample_queue_state) \<le> open_all_user (rq_open sample_queue_state)"
  by (simp_all add: idle_def sample_queue_state_def)

lemma sample_submitted:
  "(queue_step (\<lambda>s n. False))\<^sup>*\<^sup>* sample_queue_state (snd (enqueue_call sample_job sample_queue_state))"
  by (rule r_into_rtranclp) (rule queue_step.Enqueue)


theorem submission_outcome_witness:
  "fst (enqueue_call sample_job sample_queue_state) = (True, ''queued'', Some 1)"
  using submission_outcome [OF sample_idle rtranclp.rtrancl_refl, of sample_job]
  by (simp add: Let_def sample_queue_state_def pending_jobs_def configured_queue_limit_def split: prod.splits)

theorem queue_drains_witness:
  "\<exists>s'. (queue_step (\<lambda>s n. False))\<^sup>*\<^sup>* (snd (enqueue_call sample_job sample_queue_state)) s' \<and> idle s'"
  using queue_drains [OF sample_idle sample_submitted]
  by (simp add: enqueue_call_def ensure_started_def enqueue_job_def sample_queue_state_def configured_worker_count_def)

lemma sample_registered:
  "precheck (\<lambda>s n. False) sample_job (rq_open sample_queue_state) sample_db = None"
  "fst (process_job sample_clock (\<lambda>s n. False) sample_job (Some (''e1'', ''pw'', 1030 * day)) id (rq_open sample_queue_state) sample_db) = Registered ''e1''"
  by (simp_all add: process_job_def precheck_def finish_creation_def sql_get_emby_def sql_update_emby_def legacy_session_def
      run_uow_def integrity_def registration_changes_def users_save_def sample_job_def sample_queue_state_def sample_defs)

theorem job_leaves_no_orphan_witness:
  "\<exists>u'. users_get_for_update 7 (snd (snd (process_job sample_clock (\<lambda>s n. False) sample_job (Some (''e1'', ''pw'', 1030 * day)) id
     (rq_open sample_queue_state) sample_db))) = Some u' \<and> emby_embyid u' = Some ''e1''"
proof -
  obtain cfg' db' where run: "process_job sample_clock (\<lambda>s n. False) sample_job (Some (''e1'', ''pw'', 1030 * day)) id
     (rq_open sample_queue_state) sample_db = (Registered ''e1'', cfg', db')"
    using sample_registered(2) by (metis prod.collapse)
  have "job_user_id sample_job = 7" by (simp add: sample_job_def)
  then show ?thesis
    using job_leaves_no_orphan [of sample_clock "\<lambda>s n. False" sample_job "Some (''e1'', ''pw'', 1030 * day)" id "rq_open sample_queue_state" sample_db]
    unfolding run sample_registered(1) by auto
qed

end
