(* ===== verification/Legacy_Codes.thy ===== *)
theory Legacy_Codes
  imports "HOL-Library.Multiset" Legacy_Partition Code_Service Task_Definitions
begin

section \<open>The older helpers for codes\<close>

text \<open>
  \<open>bot/sql_helper/sql_code.py\<close>: adding, updating and deleting codes, their counts, and the pages
  of lines the panels show. Rows that a query's ordering does not tell apart are taken in the order
  of the table.
\<close>

definition sql_add_code :: "string list \<Rightarrow> int \<Rightarrow> int \<Rightarrow> 'z core_db_scheme \<Rightarrow> bool \<times> 'z core_db_scheme" where
  "sql_add_code code_list tg us db0 =
     legacy_session False (\<lambda>db. Inr (True, codes_add_rows (map (\<lambda>c. new_code c tg us) code_list) db)) db0"

definition sql_update_code :: "string \<Rightarrow> int \<Rightarrow> datetime option \<Rightarrow> 'z core_db_scheme \<Rightarrow> bool \<times> 'z core_db_scheme" where
  "sql_update_code code used usedtime db0 =
     legacy_session False (\<lambda>db. case codes_get_for_update code db of
         None \<Rightarrow> Inr (False, db)
       | Some c \<Rightarrow> Inr (True, codes_save (c\<lparr>code_used := Some used, code_usedtime := usedtime\<rparr>) db)) db0"

definition sql_get_code :: "string \<Rightarrow> 'z core_db_scheme \<Rightarrow> code_row option" where
  "sql_get_code code db = codes_get_for_update code db"

subsection \<open>Counts\<close>

definition count_codes :: "(code_row \<Rightarrow> bool) \<Rightarrow> 'z core_db_scheme \<Rightarrow> int" where
  "count_codes P db = int (length (filter P (codes db)))"

definition issued_by :: "int option \<Rightarrow> code_row \<Rightarrow> bool" where
  \<comment> \<open>the filter on \<open>Code.tg\<close>, if there is one\<close>
  "issued_by tg c = (tg = None \<or> code_tg c = tg)"

definition sql_count_code :: "int option \<Rightarrow> 'z core_db_scheme \<Rightarrow> int \<times> int \<times> int \<times> int \<times> int \<times> int" where
  "sql_count_code tg db =
     (let unused_of = (\<lambda>us. count_codes (\<lambda>c. code_used c = None \<and> code_us c = Some us \<and> issued_by tg c) db)
      in (count_codes (\<lambda>c. code_used c \<noteq> None \<and> issued_by tg c) db,
          unused_of 30, unused_of 90, unused_of 180, unused_of 365,
          count_codes (\<lambda>c. code_used c = None \<and> issued_by tg c) db))"

definition count_by_keyword :: "int option \<Rightarrow> string \<Rightarrow> bool option \<Rightarrow> 'z core_db_scheme \<Rightarrow> int" where
  "count_by_keyword tg keyword used db =
     count_codes (\<lambda>c. issued_by tg c \<and> sql_like (''%'' @ keyword @ ''%'') (code_code c) \<and>
       (case used of None \<Rightarrow> True | Some u \<Rightarrow> (code_used c \<noteq> None) = u)) db"

definition sql_count_code_types :: "int option \<Rightarrow> 'z core_db_scheme \<Rightarrow> jval" where
  "sql_count_code_types tg db =
     (let group = (\<lambda>keyword. JDict
        [(''total'', JInt (count_by_keyword tg keyword None db)),
         (''used'', JInt (count_by_keyword tg keyword (Some True) db)),
         (''unused'', JInt (count_by_keyword tg keyword (Some False) db))])
      in JDict [(''register'', group ''Register''), (''renew'', group ''Renew''), (''whitelist'', group ''Whitelist'')])"

subsection \<open>Pages\<close>

definition py_str_int :: "int option \<Rightarrow> string" where
  "py_str_int x = (case x of None \<Rightarrow> ''None'' | Some n \<Rightarrow> show_int n)"

definition py_str_time :: "datetime option \<Rightarrow> string" where
  "py_str_time x = (case x of None \<Rightarrow> ''None'' | Some t \<Rightarrow> dt_str t)"

definition newline :: string where "newline = [CHR 0x0A]"

definition code_entry :: "nat \<Rightarrow> code_row \<Rightarrow> string" where
  \<comment> \<open>number and code, in backquotes\<close>
  "code_entry e link = show_nat e @ ''. '' @ [CHR 0x60] @ code_code link @ [CHR 0x60] @ newline"

definition used_code_entry :: "nat \<Rightarrow> code_row \<Rightarrow> string" where
  "used_code_entry e link =
     code_entry e link @ text_of [0x1F381] @ '' '' @ py_str_int (code_us link) @ ''d - ['' @
     py_str_int (code_used link) @ ''](tg://user?id='' @ py_str_int (code_tg link) @ '')(__'' @
     py_str_time (code_usedtime link) @ ''__)'' @ newline"

definition user_code_entry :: "nat \<Rightarrow> code_row \<Rightarrow> string" where
  "user_code_entry e link =
     code_entry e link @ text_of [0x1F381, 0xFF1A] @ '' '' @ py_str_int (code_us link) @ '' '' @ text_of [0x5929] @
     '' | '' @ text_of [0x1F464] @ ''['' @ py_str_int (code_used link) @ ''](tg://user?id='' @
     py_str_int (code_used link) @ '')'' @ newline @ text_of [0x1F30F, 0xFF1A] @
     py_str_time (code_usedtime link) @ newline @ newline"

fun number_entries :: "(nat \<Rightarrow> code_row \<Rightarrow> string) \<Rightarrow> nat \<Rightarrow> code_row list \<Rightarrow> string" where
  "number_entries entry e [] = []"
| "number_entries entry e (link # links) = entry e link @ number_entries entry (Suc e) links"

definition code_page :: "(nat \<Rightarrow> code_row \<Rightarrow> string) \<Rightarrow> nat \<Rightarrow> code_row list \<Rightarrow> nat \<Rightarrow> string" where
  \<comment> \<open>the page \<open>b\<close> of the loop, counted from zero: \<open>limit(sz).offset(b * sz)\<close>\<close>
  "code_page entry sz rs b = number_entries entry (b * sz + 1) (take sz (drop (b * sz) rs))"

definition code_pages ::
  "(nat \<Rightarrow> code_row \<Rightarrow> string) \<Rightarrow> nat \<Rightarrow> nat \<Rightarrow> code_row list \<Rightarrow> string list option \<times> nat" where
  \<comment> \<open>for the count \<open>p\<close> and the rows of the query\<close>
  "code_pages entry sz p rs =
     (if p = 0 then (None, 1)
      else let i = (p + sz - 1) div sz in (Some (map (code_page entry sz rs) [0..<i]), i))"

definition by_days :: "code_row list \<Rightarrow> code_row list" where
  \<comment> \<open>\<open>order_by(Code.us.asc())\<close>: the nulls come first\<close>
  "by_days cs = filter (\<lambda>c. code_us c = None) cs @ sort_key (\<lambda>c. the (code_us c)) (filter (\<lambda>c. code_us c \<noteq> None) cs)"

definition p_code_counted :: "int \<Rightarrow> int \<Rightarrow> code_row \<Rightarrow> bool" where
  \<comment> \<open>the rows \<open>p\<close> counts\<close>
  "p_code_counted tg_id us c =
     ((if us = 0 then code_used c \<noteq> None else if us = -1 then code_used c = None else code_us c = Some us) \<and>
      code_tg c = Some tg_id)"

definition p_code_listed :: "int \<Rightarrow> int \<Rightarrow> code_row \<Rightarrow> bool" where
  \<comment> \<open>the rows the pages are cut from\<close>
  "p_code_listed tg_id us c =
     ((if us = -1 then code_used c = None else if us \<noteq> 0 then code_us c = Some us \<and> code_used c = None
       else code_used c \<noteq> None) \<and> code_tg c = Some tg_id)"

definition sql_count_p_code :: "int \<Rightarrow> int \<Rightarrow> 'z core_db_scheme \<Rightarrow> string list option \<times> nat" where
  "sql_count_p_code tg_id us db =
     (let p = length (filter (p_code_counted tg_id us) (codes db));
          hits = filter (p_code_listed tg_id us) (codes db);
          result = (if us = -1 then by_days hits else newest_first code_usedtime hits)
      in code_pages (if us = 0 then used_code_entry else code_entry) 30 p result)"

definition sql_count_c_code :: "int \<Rightarrow> 'z core_db_scheme \<Rightarrow> string list option \<times> nat" where
  "sql_count_c_code tg_id db =
     (let hits = filter (\<lambda>c. code_tg c = Some tg_id) (codes db)
      in code_pages user_code_entry 5 (length hits) (newest_first code_usedtime hits))"

subsection \<open>Deletions\<close>

definition unused_match :: "int option \<Rightarrow> string option \<Rightarrow> code_row \<Rightarrow> bool" where
  "unused_match user_id code_keyword c =
     (code_used c = None \<and> issued_by user_id c \<and>
      (case code_keyword of None \<Rightarrow> True | Some k \<Rightarrow> sql_like (''%'' @ k @ ''%'') (code_code c)))"

definition delete_codes :: "(code_row \<Rightarrow> bool) \<Rightarrow> 'z core_db_scheme \<Rightarrow> int \<times> 'z core_db_scheme" where
  "delete_codes P db0 =
     legacy_session 0 (\<lambda>db. Inr (count_codes P db, db\<lparr>codes := filter (\<lambda>c. \<not> P c) (codes db)\<rparr>)) db0"

definition sql_delete_unused_by_days ::
  "int list \<Rightarrow> int option \<Rightarrow> string option \<Rightarrow> 'z core_db_scheme \<Rightarrow> int \<times> 'z core_db_scheme" where
  "sql_delete_unused_by_days days user_id code_keyword db =
     delete_codes (\<lambda>c. unused_match user_id code_keyword c \<and> (\<exists>us \<in> set days. code_us c = Some us)) db"

definition sql_delete_all_unused :: "int option \<Rightarrow> string option \<Rightarrow> 'z core_db_scheme \<Rightarrow> int \<times> 'z core_db_scheme" where
  "sql_delete_all_unused user_id code_keyword db = delete_codes (unused_match user_id code_keyword) db"

subsection \<open>Properties\<close>

lemma length_by_days [simp]: "length (by_days cs) = length cs"
  using sum_length_filter_compl [of "\<lambda>c. code_us c = None" cs] by (simp add: by_days_def)

lemma length_newest_first [simp]: "length (newest_first at rs) = length rs"
  using sum_length_filter_compl [of "\<lambda>r. at r = None" rs] by (simp add: newest_first_def)

lemma mset_split: "mset (filter P cs) + mset (filter (\<lambda>c. \<not> P c) cs) = mset cs"
  by (induction cs) auto

lemma mset_by_days [simp]: "mset (by_days cs) = mset cs"
  using mset_split [of "\<lambda>c. code_us c = None" cs] by (simp add: by_days_def del: mset_filter)

lemma mset_newest_first [simp]: "mset (newest_first at rs) = mset rs"
  using mset_split [of "\<lambda>r. at r = None" rs] by (simp add: newest_first_def add.commute del: mset_filter)

lemma number_entries_append:
  "number_entries entry e (xs @ ys) = number_entries entry e xs @ number_entries entry (e + length xs) ys"
  by (induction xs arbitrary: e) simp_all

text \<open>The pages are the numbered listing, cut: read one after the other they give every row once,
  under its number.\<close>

lemma code_pages_whole:
  assumes "0 < sz" and "length rs \<le> p" and "0 < p"
  shows "\<exists>ps. code_pages entry sz p rs = (Some ps, (p + sz - 1) div sz) \<and> length ps = (p + sz - 1) div sz \<and>
    concat ps = number_entries entry 1 rs"
proof -
  let ?n = "(p + sz - 1) div sz"
  have whole: "concat (map (code_page entry sz rs) [0..<n]) = number_entries entry 1 (take (n * sz) rs)" for n
  proof (induction n)
    case (Suc n)
    have "take (Suc n * sz) rs = take (n * sz) rs @ take sz (drop (n * sz) rs)"
      using take_add [of "n * sz" sz rs] by (simp add: add.commute)
    moreover have "take sz (drop (n * sz) rs) = [] \<or> length (take (n * sz) rs) = n * sz"
      by (cases "n * sz \<le> length rs") auto
    ultimately show ?case
      using Suc by (auto simp: number_entries_append code_page_def)
  qed simp
  have "p \<le> ?n * sz"
  proof -
    have "p + sz - 1 = ?n * sz + (p + sz - 1) mod sz" by (metis div_mult_mod_eq)
    moreover have "(p + sz - 1) mod sz < sz" using assms(1) by simp
    ultimately show ?thesis by linarith
  qed
  then have "take (?n * sz) rs = rs" using assms(2) by simp
  then show ?thesis
    using assms(3) whole [of ?n] by (simp add: code_pages_def Let_def)
qed

lemma listing_pages:
  assumes "us = 0 \<or> us = -1" and "\<exists>c \<in> set (codes db). p_code_listed tg us c"
  obtains ps rs where "sql_count_p_code tg us db = (Some ps, length ps)" and "length ps = (length rs + 29) div 30"
    and "mset rs = mset (filter (p_code_listed tg us) (codes db))"
    and "concat ps = number_entries (if us = 0 then used_code_entry else code_entry) 1 rs"
proof -
  let ?hits = "filter (p_code_listed tg us) (codes db)"
  let ?rs = "if us = -1 then by_days ?hits else newest_first code_usedtime ?hits"
  have same: "filter (p_code_counted tg us) (codes db) = ?hits"
    using assms(1) by (auto simp: p_code_counted_def p_code_listed_def intro: filter_cong)
  have "mset ?rs = mset ?hits" by simp
  moreover have len: "length ?rs = length ?hits" by simp
  moreover have "?hits \<noteq> []" using assms(2) by (auto simp: filter_empty_conv)
  then obtain ps where "code_pages (if us = 0 then used_code_entry else code_entry) 30 (length ?hits) ?rs = (Some ps, (length ?hits + 30 - 1) div 30)"
    "length ps = (length ?hits + 30 - 1) div 30" "concat ps = number_entries (if us = 0 then used_code_entry else code_entry) 1 ?rs"
    using code_pages_whole [of 30 ?rs "length ?hits" "if us = 0 then used_code_entry else code_entry"] len by auto
  ultimately show thesis
    using that [of ps ?rs] by (simp add: sql_count_p_code_def same Let_def)
qed

text \<open>The pages of the unused codes of one duration are miscounted. Their number is computed from
  all codes of the issuer with that duration, the used ones included, while only the unused ones are
  listed; when every such code has been used, the panel is given a positive number of pages, all of
  them empty, instead of the answer that there is nothing to show.\<close>

theorem empty_pages_announced:
  assumes "us \<noteq> 0" and "us \<noteq> -1" and "\<exists>c \<in> set (codes db). code_tg c = Some tg \<and> code_us c = Some us"
    and "\<forall>c \<in> set (codes db). code_tg c = Some tg \<and> code_us c = Some us \<longrightarrow> code_used c \<noteq> None"
  shows "\<exists>n > 0. sql_count_p_code tg us db = (Some (replicate n []), n)"
proof -
  let ?p = "length (filter (p_code_counted tg us) (codes db))"
  have none: "filter (p_code_listed tg us) (codes db) = []"
    using assms(1,2,4) by (auto simp: filter_empty_conv p_code_listed_def)
  have "0 < ?p"
    using assms(1-3) by (auto simp: p_code_counted_def filter_empty_conv)
  then have "30 \<le> ?p + 29" by (simp add: Suc_le_eq)
  then have "0 < (?p + 29) div 30" by (simp only: div_greater_zero_iff zero_less_numeral simp_thms)
  moreover have "map (code_page code_entry 30 []) [0..<n] = replicate n []" for n
    by (rule nth_equalityI) (simp_all add: code_page_def)
  ultimately show ?thesis
    using assms(1,2) \<open>0 < ?p\<close> by (simp add: sql_count_p_code_def none newest_first_def code_pages_def Let_def)
qed

theorem empty_pages_announced_witness:
  "\<exists>n > 0. sql_count_p_code 1 30 (sample_db\<lparr>codes := [sample_code\<lparr>code_used := Some 7\<rparr>]\<rparr>) = (Some (replicate n []), n)"
  by (rule empty_pages_announced) (simp_all add: sample_defs)

text \<open>Deleting unused codes never deletes a used one, and says how many it deleted.\<close>

lemma delete_codes_effect:
  assumes "integrity db"
  shows "delete_codes P db = (count_codes P db, db\<lparr>codes := filter (\<lambda>c. \<not> P c) (codes db)\<rparr>)"
proof -
  have "integrity (db\<lparr>codes := filter (\<lambda>c. \<not> P c) (codes db)\<rparr>)"
    using assms by (simp add: integrity_def distinct_map_filter)
  then show ?thesis by (simp add: delete_codes_def legacy_session_def run_uow_def)
qed

lemma deletion_keeps_used:
  assumes "integrity db" and "c \<in> set (codes db)" and "code_used c \<noteq> None"
  shows "c \<in> set (codes (snd (sql_delete_all_unused uid kw db)))"
    and "c \<in> set (codes (snd (sql_delete_unused_by_days days uid kw db)))"
  using assms by (simp_all add: sql_delete_all_unused_def sql_delete_unused_by_days_def delete_codes_effect unused_match_def)

end
