(* ===== verification/Auth_Schema.thy ===== *)
theory Auth_Schema
  imports Unit_Of_Work Operations_Repo Frames
begin

section \<open>Login requests, sessions and roles\<close>

text \<open>
  The tables \<open>WebLoginRequest\<close>, \<open>WebSession\<close>, \<open>WebRole\<close> and \<open>WebRoleMember\<close> beside those of the core,
  and \<open>AuthRepository\<close> of \<open>bot/repositories/auth.py\<close>. A unit of work over them also checks their
  keys at the commit.
\<close>

record login_request_row =
  lr_id :: string
  lr_token_hash :: string
  lr_purpose :: string
  lr_status :: string
  lr_requested_tg :: "int option"
  lr_approved_tg :: "int option"
  lr_ip_address :: "string option"
  lr_claimed_at :: "datetime option"
  lr_created_at :: datetime
  lr_expires_at :: datetime
  lr_approved_at :: "datetime option"
  lr_consumed_at :: "datetime option"

record session_row =
  ses_id :: string
  ses_account_id :: "string option"
  ses_tg :: int
  ses_token_hash :: string
  ses_csrf_hash :: string
  ses_auth_method :: string
  ses_purpose :: string
  ses_ip_address :: "string option"
  ses_user_agent :: "string option"
  ses_created_at :: datetime
  ses_last_seen_at :: datetime
  ses_expires_at :: datetime
  ses_revoked_at :: "datetime option"

record role_row =
  role_id :: int
  role_name :: string
  role_permissions :: jval
  role_is_system :: bool
  role_created_at :: datetime
  role_updated_at :: datetime

record role_member_row =
  mem_id :: int
  mem_role_id :: int
  mem_tg :: int
  mem_created_by :: "int option"
  mem_created_at :: datetime

record auth_db = core_db +
  login_requests :: "login_request_row list"
  sessions :: "session_row list"
  roles :: "role_row auto_table"
  role_members :: "role_member_row auto_table"

definition auth_integrity :: "'z auth_db_scheme \<Rightarrow> bool" where
  "auth_integrity db =
     (integrity db \<and>
      distinct (map lr_id (login_requests db)) \<and> distinct (map lr_token_hash (login_requests db)) \<and>
      distinct (map ses_id (sessions db)) \<and> distinct (map ses_token_hash (sessions db)) \<and>
      distinct (map role_id (rows (roles db))) \<and> distinct (map role_name (rows (roles db))) \<and>
      distinct (map (\<lambda>m. (mem_role_id m, mem_tg m)) (rows (role_members db))))"

definition auth_uow ::
  "('z auth_db_scheme \<Rightarrow> ('a \<times> 'z auth_db_scheme) attempt) \<Rightarrow> 'z auth_db_scheme \<Rightarrow> ('a, 'z auth_db_scheme) outcome" where
  "auth_uow body db =
     (case body db of
        Inl e \<Rightarrow> (Inl e, db)
      | Inr (x, db') \<Rightarrow> if auth_integrity db' then (Inr x, db') else (Inl IntegrityError, db))"

lemma auth_uow_rollback: "fst (auth_uow body db) = Inl e \<Longrightarrow> snd (auth_uow body db) = db"
  by (auto simp: auth_uow_def split: sum.splits if_splits)

lemma auth_uow_integrity: "auth_integrity db \<Longrightarrow> auth_integrity (snd (auth_uow body db))"
  by (auto simp: auth_uow_def split: sum.splits if_splits)

lemma auth_uow_Inr: "auth_uow body db = (Inr x, db') \<longleftrightarrow> body db = Inr (x, db') \<and> auth_integrity db'"
  by (auto simp: auth_uow_def split: sum.splits if_splits)

interpretation auth: transactional auth_uow auth_integrity
  by unfold_locales (auto intro: auth_uow_rollback auth_uow_integrity)

subsection \<open>Login requests\<close>

definition add_login_request :: "login_request_row \<Rightarrow> 'z auth_db_scheme \<Rightarrow> 'z auth_db_scheme" where
  [op_defs]: "add_login_request r db = db\<lparr>login_requests := login_requests db @ [r]\<rparr>"

definition get_login_request_by_hash :: "string \<Rightarrow> 'z auth_db_scheme \<Rightarrow> login_request_row option" where
  [op_defs]: "get_login_request_by_hash h db = tbl_get lr_token_hash h (login_requests db)"

definition get_login_request_by_id :: "string \<Rightarrow> 'z auth_db_scheme \<Rightarrow> login_request_row option" where
  [op_defs]: "get_login_request_by_id i db = tbl_get lr_id i (login_requests db)"

definition save_login_request :: "login_request_row \<Rightarrow> 'z auth_db_scheme \<Rightarrow> 'z auth_db_scheme" where
  [op_defs]: "save_login_request r db = db\<lparr>login_requests := tbl_put lr_id r (login_requests db)\<rparr>"

definition delete_login_request :: "string \<Rightarrow> 'z auth_db_scheme \<Rightarrow> 'z auth_db_scheme" where
  [op_defs]: "delete_login_request i db = db\<lparr>login_requests := tbl_del lr_id i (login_requests db)\<rparr>"

interpretation login_repo: growing_store get_login_request_by_id save_login_request lr_id
  add_login_request delete_login_request
  by unfold_locales
    (auto simp: op_defs tbl_get_put_same tbl_get_put_other tbl_put_absent tbl_get_append tbl_get_del
       dest: tbl_get_key split: option.splits)

definition recent_login_request_count :: "string \<Rightarrow> datetime \<Rightarrow> 'z auth_db_scheme \<Rightarrow> int" where
  "recent_login_request_count ip_address since db =
     int (length (filter (\<lambda>r. lr_ip_address r = Some ip_address \<and> since \<le> lr_created_at r) (login_requests db)))"

subsection \<open>Sessions\<close>

definition add_session :: "session_row \<Rightarrow> 'z auth_db_scheme \<Rightarrow> 'z auth_db_scheme" where
  [op_defs]: "add_session s db = db\<lparr>sessions := sessions db @ [s]\<rparr>"

definition get_session_by_hash :: "string \<Rightarrow> 'z auth_db_scheme \<Rightarrow> session_row option" where
  [op_defs]: "get_session_by_hash h db = tbl_get ses_token_hash h (sessions db)"

definition get_session_by_id :: "string \<Rightarrow> 'z auth_db_scheme \<Rightarrow> session_row option" where
  [op_defs]: "get_session_by_id i db = tbl_get ses_id i (sessions db)"

definition save_session :: "session_row \<Rightarrow> 'z auth_db_scheme \<Rightarrow> 'z auth_db_scheme" where
  [op_defs]: "save_session s db = db\<lparr>sessions := tbl_put ses_id s (sessions db)\<rparr>"

definition delete_session :: "string \<Rightarrow> 'z auth_db_scheme \<Rightarrow> 'z auth_db_scheme" where
  [op_defs]: "delete_session i db = db\<lparr>sessions := tbl_del ses_id i (sessions db)\<rparr>"

interpretation session_repo: growing_store get_session_by_id save_session ses_id add_session delete_session
  by unfold_locales
    (auto simp: op_defs tbl_get_put_same tbl_get_put_other tbl_put_absent tbl_get_append tbl_get_del
       dest: tbl_get_key split: option.splits)

definition revoke_sessions :: "(session_row \<Rightarrow> bool) \<Rightarrow> datetime \<Rightarrow> 'z auth_db_scheme \<Rightarrow> int \<times> 'z auth_db_scheme" where
  "revoke_sessions P revoked_at db =
     (let hit = (\<lambda>s. P s \<and> ses_revoked_at s = None)
      in (int (length (filter hit (sessions db))),
          db\<lparr>sessions := map (\<lambda>s. if hit s then s\<lparr>ses_revoked_at := Some revoked_at\<rparr> else s) (sessions db)\<rparr>))"

definition revoke_user_sessions :: "int \<Rightarrow> datetime \<Rightarrow> 'z auth_db_scheme \<Rightarrow> int \<times> 'z auth_db_scheme" where
  "revoke_user_sessions tg revoked_at db = revoke_sessions (\<lambda>s. ses_tg s = tg) revoked_at db"

definition revoke_account_sessions :: "string \<Rightarrow> datetime \<Rightarrow> 'z auth_db_scheme \<Rightarrow> int \<times> 'z auth_db_scheme" where
  "revoke_account_sessions account_id revoked_at db =
     revoke_sessions (\<lambda>s. ses_account_id s = Some account_id) revoked_at db"

subsection \<open>Roles\<close>

definition get_roles_for_user :: "int \<Rightarrow> 'z auth_db_scheme \<Rightarrow> role_row list" where
  "get_roles_for_user tg db =
     filter (\<lambda>r. \<exists>m \<in> set (rows (role_members db)). mem_role_id m = role_id r \<and> mem_tg m = tg) (rows (roles db))"

definition auth_list_roles :: "'z auth_db_scheme \<Rightarrow> role_row list" where
  "auth_list_roles db = sort_key role_id (rows (roles db))"

definition get_role :: "int \<Rightarrow> 'z auth_db_scheme \<Rightarrow> role_row option" where
  "get_role i db = tbl_get role_id i (rows (roles db))"

definition get_role_by_name :: "string \<Rightarrow> 'z auth_db_scheme \<Rightarrow> role_row option" where
  "get_role_by_name name db = tbl_get role_name name (rows (roles db))"

definition add_role :: "(int \<Rightarrow> role_row) \<Rightarrow> 'z auth_db_scheme \<Rightarrow> 'z auth_db_scheme" where
  "add_role mk db = db\<lparr>roles := insert_auto mk (roles db)\<rparr>"

definition save_role :: "role_row \<Rightarrow> 'z auth_db_scheme \<Rightarrow> 'z auth_db_scheme" where
  "save_role r db = db\<lparr>roles := (roles db)\<lparr>rows := tbl_put role_id r (rows (roles db))\<rparr>\<rparr>"

definition auth_delete_role :: "int \<Rightarrow> 'z auth_db_scheme \<Rightarrow> 'z auth_db_scheme" where
  "auth_delete_role i db = db\<lparr>roles := (roles db)\<lparr>rows := tbl_del role_id i (rows (roles db))\<rparr>\<rparr>"

definition role_member_tgs :: "int \<Rightarrow> 'z auth_db_scheme \<Rightarrow> int set" where
  "role_member_tgs i db = mem_tg ` set (filter (\<lambda>m. mem_role_id m = i) (rows (role_members db)))"

definition role_member_count :: "int \<Rightarrow> 'z auth_db_scheme \<Rightarrow> int" where
  "role_member_count i db = int (length (filter (\<lambda>m. mem_role_id m = i) (rows (role_members db))))"

definition has_role :: "int \<Rightarrow> int \<Rightarrow> 'z auth_db_scheme \<Rightarrow> bool" where
  "has_role tg i db = (\<exists>m \<in> set (rows (role_members db)). mem_tg m = tg \<and> mem_role_id m = i)"

definition add_role_member :: "clock \<Rightarrow> int \<Rightarrow> int \<Rightarrow> int \<Rightarrow> 'z auth_db_scheme \<Rightarrow> 'z auth_db_scheme" where
  "add_role_member clk tg i created_by db =
     db\<lparr>role_members := insert_auto
       (\<lambda>n. \<lparr>mem_id = n, mem_role_id = i, mem_tg = tg, mem_created_by = Some created_by,
             mem_created_at = now_utc clk\<rparr>) (role_members db)\<rparr>"

definition remove_role_member :: "int \<Rightarrow> int \<Rightarrow> 'z auth_db_scheme \<Rightarrow> 'z auth_db_scheme" where
  "remove_role_member tg i db =
     db\<lparr>role_members := (role_members db)\<lparr>rows :=
       filter (\<lambda>m. \<not> (mem_tg m = tg \<and> mem_role_id m = i)) (rows (role_members db))\<rparr>\<rparr>"

subsection \<open>Security events\<close>

definition recent_security_event_count :: "string \<Rightarrow> string \<Rightarrow> datetime \<Rightarrow> 'z core_db_scheme \<Rightarrow> int" where
  "recent_security_event_count event_type ip_address since db =
     int (length (filter (\<lambda>e. sec_event_type e = event_type \<and> sec_ip_address e = Some ip_address \<and>
       since \<le> sec_created_at e) (rows (securities db))))"

subsection \<open>The audit log and the point transactions\<close>

definition audit_search :: "string \<Rightarrow> audit_row \<Rightarrow> bool" where
  \<comment> \<open>a null column matches no pattern\<close>
  "audit_search pattern r =
     (sql_like pattern (aud_action r) \<or> sql_like pattern (aud_actor_id r) \<or>
      sql_like pattern (aud_resource_type r) \<or>
      (case aud_resource_id r of None \<Rightarrow> False | Some i \<Rightarrow> sql_like pattern i) \<or>
      (case aud_request_id r of None \<Rightarrow> False | Some i \<Rightarrow> sql_like pattern i))"

record audit_query =
  q_search :: "string option"
  q_actor_kind :: "string option"
  q_actor_id :: "string option"
  q_action :: "string option"
  q_resource_type :: "string option"
  q_outcome :: "string option"
  q_date_from :: "datetime option"
  q_date_to :: "datetime option"

definition audit_match :: "audit_query \<Rightarrow> audit_row \<Rightarrow> bool" where
  "audit_match q r =
     ((truthy_str (q_search q) \<longrightarrow> audit_search (''%'' @ py_strip (the (q_search q)) @ ''%'') r) \<and>
      (truthy_str (q_actor_kind q) \<longrightarrow> Some (aud_actor_kind r) = q_actor_kind q) \<and>
      (truthy_str (q_actor_id q) \<longrightarrow> Some (aud_actor_id r) = q_actor_id q) \<and>
      (truthy_str (q_action q) \<longrightarrow> Some (aud_action r) = q_action q) \<and>
      (truthy_str (q_resource_type q) \<longrightarrow> Some (aud_resource_type r) = q_resource_type q) \<and>
      (truthy_str (q_outcome q) \<longrightarrow> Some (aud_outcome r) = q_outcome q) \<and>
      (case q_date_from q of None \<Rightarrow> True | Some t \<Rightarrow> t \<le> aud_created_at r) \<and>
      (case q_date_to q of None \<Rightarrow> True | Some t \<Rightarrow> aud_created_at r \<le> t))"

definition list_audit_logs :: "audit_query \<Rightarrow> int \<Rightarrow> int \<Rightarrow> 'z core_db_scheme \<Rightarrow> audit_row list \<times> int" where
  "list_audit_logs q lim off db =
     (let hits = filter (audit_match q) (rows (audits db))
      in (sql_page off lim (sort_key (\<lambda>r. - aud_created_at r) hits), int (length hits)))"

definition list_point_transactions :: "int \<Rightarrow> int \<Rightarrow> int \<Rightarrow> 'z core_db_scheme \<Rightarrow> point_row list" where
  "list_point_transactions tg lim off db =
     sql_page off lim (sort_key (\<lambda>r. - pt_created_at r) (filter (\<lambda>r. pt_tg r = tg) (rows (points db))))"

subsection \<open>What the operations of the core leave alone\<close>

lemma auth_bookkeeping [simp, frame]:
  fixes db :: "'z auth_db_scheme"
  shows "login_requests (audit clk actor action rt rid oc detail rq db) = login_requests db"
    "sessions (audit clk actor action rt rid oc detail rq db) = sessions db"
    "roles (audit clk actor action rt rid oc detail rq db) = roles db"
    "role_members (audit clk actor action rt rid oc detail rq db) = role_members db"
    "login_requests (event clk et rt rid payload db) = login_requests db"
    "sessions (event clk et rt rid payload db) = sessions db"
    "roles (event clk et rt rid payload db) = roles db"
    "role_members (event clk et rt rid payload db) = role_members db"
    "login_requests (security_event clk et sv sk rid ip detail db) = login_requests db"
    "sessions (security_event clk et sv sk rid ip detail db) = sessions db"
    "roles (security_event clk et sv sk rid ip detail db) = roles db"
    "role_members (security_event clk et sv sk rid ip detail db) = role_members db"
  by (simp_all add: audit_def event_def security_event_def)

lemma auth_tables [simp, frame]:
  fixes db :: "'z auth_db_scheme"
  shows "login_requests (save_session s db) = login_requests db" "roles (save_session s db) = roles db"
    "role_members (save_session s db) = role_members db" "securities (save_session s db) = securities db"
    "sessions (save_login_request r db) = sessions db" "roles (save_login_request r db) = roles db"
    "role_members (save_login_request r db) = role_members db" "securities (save_login_request r db) = securities db"
    "sessions (add_login_request r db) = sessions db" "roles (add_login_request r db) = roles db"
    "role_members (add_login_request r db) = role_members db" "securities (add_login_request r db) = securities db"
    "sessions (users_insert u db) = sessions db" "login_requests (users_insert u db) = login_requests db"
    "roles (users_insert u db) = roles db" "role_members (users_insert u db) = role_members db"
    "login_requests (snd (users_add_if_missing tg db)) = login_requests db"
    "sessions (snd (users_add_if_missing tg db)) = sessions db"
    "roles (snd (users_add_if_missing tg db)) = roles db"
    "role_members (snd (users_add_if_missing tg db)) = role_members db"
    "securities (snd (users_add_if_missing tg db)) = securities db"
    "login_requests (snd (revoke_sessions P t db)) = login_requests db"
    "roles (snd (revoke_sessions P t db)) = roles db"
    "role_members (snd (revoke_sessions P t db)) = role_members db"
    "securities (snd (revoke_sessions P t db)) = securities db"
    "login_requests (save_role ro db) = login_requests db" "sessions (save_role ro db) = sessions db"
    "role_members (save_role ro db) = role_members db" "securities (save_role ro db) = securities db"
    "login_requests (add_role mk db) = login_requests db" "sessions (add_role mk db) = sessions db"
    "role_members (add_role mk db) = role_members db" "securities (add_role mk db) = securities db"
    "login_requests (auth_delete_role i db) = login_requests db" "sessions (auth_delete_role i db) = sessions db"
    "role_members (auth_delete_role i db) = role_members db" "securities (auth_delete_role i db) = securities db"
    "login_requests (add_role_member clk tg i b db) = login_requests db"
    "sessions (add_role_member clk tg i b db) = sessions db"
    "roles (add_role_member clk tg i b db) = roles db" "securities (add_role_member clk tg i b db) = securities db"
    "login_requests (remove_role_member tg i db) = login_requests db"
    "sessions (remove_role_member tg i db) = sessions db"
    "roles (remove_role_member tg i db) = roles db" "securities (remove_role_member tg i db) = securities db"
  by (simp_all add: save_session_def save_login_request_def add_login_request_def users_insert_def
      users_add_if_missing_def revoke_sessions_def save_role_def add_role_def auth_delete_role_def
      add_role_member_def remove_role_member_def Let_def split: option.splits)

end
