(* ===== verification/Auth_Permissions.thy ===== *)
theory Auth_Permissions
  imports Prelude
begin

section \<open>Roles and permissions\<close>

text \<open>
  The tables at the head of \<open>bot/application/auth_service.py\<close>: the permissions a role has by
  default, and the catalogue of permissions an administrator can choose from, with its labels as
  Unicode code points.
\<close>

definition DEFAULT_ROLE_PERMISSIONS :: "(string \<times> string list) list" where
  "DEFAULT_ROLE_PERMISSIONS =
    [(''owner'',
      [''*'']),
     (''admin'',
      [''users:*'', ''codes:*'', ''partitions:*'', ''tasks:*'', ''audit:read'',
       ''security:read'', ''settings:read'', ''roles:read'', ''dashboard:read'',
       ''playback:*'', ''devices:*'', ''lines:*'', ''billing:*'', ''tickets:*'',
       ''requests:*'', ''reviews:*'', ''notifications:*'', ''roles:manage'', ''audit:export'',
       ''security:manage'', ''settings:manage'', ''integrations:*'', ''automation:*'',
       ''api:*'', ''backups:*'', ''media:*'']),
     (''operator'',
      [''users:read'', ''users:update'', ''codes:*'', ''partitions:*'', ''tasks:read'',
       ''dashboard:read'', ''playback:read'', ''playback:stop'', ''devices:read'',
       ''devices:update'', ''lines:read'', ''billing:read'', ''billing:update'',
       ''tickets:*'', ''requests:*'', ''reviews:*'', ''notifications:read'',
       ''notifications:send'', ''security:read'', ''integrations:read'',
       ''integrations:manage'', ''automation:read'', ''automation:manage'', ''api:read'',
       ''backups:read'', ''media:read'']),
     (''auditor'',
      [''users:read'', ''tasks:read'', ''audit:read'', ''security:read'', ''dashboard:read'',
       ''playback:read'', ''devices:read'', ''lines:read'', ''billing:read'',
       ''tickets:read'', ''requests:read'', ''reviews:read'', ''notifications:read'',
       ''integrations:read'', ''automation:read'', ''api:read'', ''backups:read'',
       ''media:read'']),
     (''user'',
      [''self:*''])]"

definition PERMISSION_CATALOG :: "(string \<times> (string \<times> string) list) list" where
  "PERMISSION_CATALOG =
    [(text_of [0x7528, 0x6237, 0x8FD0, 0x8425],
      [(''users:*'', text_of [0x7528, 0x6237, 0x5168, 0x90E8, 0x6743, 0x9650]),
       (''users:read'', text_of [0x67E5, 0x770B, 0x7528, 0x6237]),
       (''users:update'', text_of [0x8C03, 0x6574, 0x7528, 0x6237]),
       (''playback:*'', text_of [0x64AD, 0x653E, 0x5168, 0x90E8, 0x6743, 0x9650]),
       (''playback:read'', text_of [0x67E5, 0x770B, 0x64AD, 0x653E]),
       (''playback:stop'', text_of [0x7EC8, 0x6B62, 0x64AD, 0x653E]),
       (''devices:*'', text_of [0x8BBE, 0x5907, 0x5168, 0x90E8, 0x6743, 0x9650]),
       (''devices:read'', text_of [0x67E5, 0x770B, 0x8BBE, 0x5907]),
       (''devices:update'', text_of [0x7BA1, 0x7406, 0x8BBE, 0x5907])]),
     (text_of [0x4E1A, 0x52A1, 0x8FD0, 0x8425],
      [(''codes:*'', text_of [0x5151, 0x6362, 0x7801, 0x7BA1, 0x7406]),
       (''codes:read'', text_of [0x67E5, 0x770B, 0x9080, 0x8BF7, 0x7801]),
       (''codes:create'', text_of [0x751F, 0x6210, 0x9080, 0x8BF7, 0x7801]),
       (''codes:revoke'', text_of [0x4F5C, 0x5E9F, 0x9080, 0x8BF7, 0x7801]),
       (''codes:export'', text_of [0x5BFC, 0x51FA, 0x9080, 0x8BF7, 0x7801]),
       (''partitions:*'', text_of [0x5206, 0x533A, 0x7BA1, 0x7406]),
       (''billing:*'', text_of [0x4EA4, 0x6613, 0x5168, 0x90E8, 0x6743, 0x9650]),
       (''billing:read'', text_of [0x67E5, 0x770B, 0x4EA4, 0x6613]),
       (''billing:update'', text_of [0x5904, 0x7406, 0x4EA4, 0x6613]),
       (''tickets:*'', text_of [0x5DE5, 0x5355, 0x5168, 0x90E8, 0x6743, 0x9650]),
       (''tickets:read'', text_of [0x67E5, 0x770B, 0x5DE5, 0x5355]),
       (''tickets:update'', text_of [0x5904, 0x7406, 0x5DE5, 0x5355]),
       (''requests:*'', text_of [0x6C42, 0x7247, 0x5168, 0x90E8, 0x6743, 0x9650]),
       (''requests:read'', text_of [0x67E5, 0x770B, 0x6C42, 0x7247]),
       (''requests:update'', text_of [0x5904, 0x7406, 0x6C42, 0x7247]),
       (''reviews:*'', text_of [0x5F71, 0x8BC4, 0x5168, 0x90E8, 0x6743, 0x9650]),
       (''reviews:read'', text_of [0x67E5, 0x770B, 0x5F71, 0x8BC4]),
       (''reviews:update'', text_of [0x5BA1, 0x6838, 0x5F71, 0x8BC4]),
       (''notifications:*'', text_of [0x901A, 0x77E5, 0x5168, 0x90E8, 0x6743, 0x9650]),
       (''notifications:read'', text_of [0x67E5, 0x770B, 0x901A, 0x77E5]),
       (''notifications:send'', text_of [0x53D1, 0x9001, 0x901A, 0x77E5])]),
     (text_of [0x7CFB, 0x7EDF, 0x4E0E, 0x5B89, 0x5168],
      [(''dashboard:read'', text_of [0x67E5, 0x770B, 0x4EEA, 0x8868, 0x76D8]),
       (''lines:*'', text_of [0x7EBF, 0x8DEF, 0x5168, 0x90E8, 0x6743, 0x9650]),
       (''lines:read'', text_of [0x67E5, 0x770B, 0x7EBF, 0x8DEF]),
       (''lines:update'', text_of [0x7BA1, 0x7406, 0x7EBF, 0x8DEF]),
       (''tasks:read'', text_of [0x67E5, 0x770B, 0x4EFB, 0x52A1]),
       (''tasks:update'', text_of [0x6267, 0x884C, 0x4EFB, 0x52A1]),
       (''tasks:*'', text_of [0x7BA1, 0x7406, 0x4EFB, 0x52A1]),
       (''audit:read'', text_of [0x67E5, 0x770B, 0x5BA1, 0x8BA1]),
       (''audit:export'', text_of [0x5BFC, 0x51FA, 0x5BA1, 0x8BA1]),
       (''security:read'', text_of [0x67E5, 0x770B, 0x5B89, 0x5168, 0x4E8B, 0x4EF6]),
       (''security:manage'', text_of [0x5904, 0x7F6E, 0x5B89, 0x5168, 0x4E8B, 0x4EF6]),
       (''roles:read'', text_of [0x67E5, 0x770B, 0x89D2, 0x8272]),
       (''roles:manage'', text_of [0x7BA1, 0x7406, 0x89D2, 0x8272]),
       (''settings:read'', text_of [0x67E5, 0x770B, 0x8BBE, 0x7F6E]),
       (''settings:manage'', text_of [0x4FEE, 0x6539, 0x8BBE, 0x7F6E])]),
     (text_of [0x5E73, 0x53F0, 0x96C6, 0x6210],
      [(''integrations:*'', text_of [0x96C6, 0x6210, 0x5168, 0x90E8, 0x6743, 0x9650]),
       (''integrations:read'', text_of [0x67E5, 0x770B, 0x96C6, 0x6210, 0x4E0E, 0x20, 0x45, 0x6D, 0x62, 0x79, 0x20, 0x5B9E, 0x4F8B]),
       (''integrations:manage'', text_of [0x7BA1, 0x7406, 0x96C6, 0x6210, 0x3001, 0x5B9E, 0x4F8B, 0x4E0E, 0x51ED, 0x636E]),
       (''automation:*'', text_of [0x81EA, 0x52A8, 0x5316, 0x5168, 0x90E8, 0x6743, 0x9650]),
       (''automation:read'', text_of [0x67E5, 0x770B, 0x81EA, 0x52A8, 0x5316]),
       (''automation:manage'', text_of [0x7BA1, 0x7406, 0x81EA, 0x52A8, 0x5316]),
       (''api:*'', text_of [0x5F00, 0x653E, 0x20, 0x41, 0x50, 0x49, 0x20, 0x5168, 0x90E8, 0x6743, 0x9650]),
       (''api:read'', text_of [0x67E5, 0x770B, 0x5F00, 0x653E, 0x20, 0x41, 0x50, 0x49, 0x20, 0x5BA2, 0x6237, 0x7AEF]),
       (''api:manage'', text_of [0x7BA1, 0x7406, 0x5F00, 0x653E, 0x20, 0x41, 0x50, 0x49, 0x20, 0x5BA2, 0x6237, 0x7AEF]),
       (''backups:*'', text_of [0x5907, 0x4EFD, 0x5168, 0x90E8, 0x6743, 0x9650]),
       (''backups:read'', text_of [0x67E5, 0x770B, 0x4E0E, 0x4E0B, 0x8F7D, 0x5907, 0x4EFD]),
       (''backups:manage'', text_of [0x521B, 0x5EFA, 0x5907, 0x4EFD]),
       (''media:*'', text_of [0x5F71, 0x7247, 0x4E2D, 0x5FC3, 0x5168, 0x90E8, 0x6743, 0x9650]),
       (''media:read'', text_of [0x67E5, 0x770B, 0x5F71, 0x7247, 0x4E2D, 0x5FC3]),
       (''media:manage'', text_of [0x7BA1, 0x7406, 0x5F71, 0x7247, 0x4E0E, 0x5916, 0x90E8, 0x8054, 0x52A8])])]"

definition KNOWN_PERMISSIONS :: "string list" where
  "KNOWN_PERMISSIONS = concat (map (\<lambda>(group, permissions). map fst permissions) PERMISSION_CATALOG)"

definition default_permissions :: "string \<Rightarrow> string list" where
  "default_permissions name =
     (case map_of DEFAULT_ROLE_PERMISSIONS name of None \<Rightarrow> [] | Some ps \<Rightarrow> ps)"

definition permission_namespace :: "string \<Rightarrow> string" where
  \<comment> \<open>\<open>required.split(":", 1)[0]\<close>\<close>
  "permission_namespace required = takeWhile (\<lambda>c. c \<noteq> CHR '':'') required"

definition grants :: "string set \<Rightarrow> string \<Rightarrow> bool" where
  \<comment> \<open>\<open>WebIdentity.has_permission\<close> on the permissions of the identity\<close>
  "grants permissions required =
     (''*'' \<in> permissions \<or> required \<in> permissions \<or>
      permission_namespace required @ '':*'' \<in> permissions)"

end
