(* ===== verification/Hmac.thy ===== *)
theory Hmac
  imports Sha256
begin

unbundle bit_operations_syntax

section \<open>HMAC-SHA256\<close>

text \<open>
  \<open>hmac.new(key, message, sha256).hexdigest()\<close>: the keyed hash the token codec stores instead of a
  token, over the SHA-256 of \<open>Sha256\<close>.
\<close>

definition bytes_of_word :: "w32 \<Rightarrow> nat list" where
  "bytes_of_word w = map (\<lambda>i. byte_at i (unat w)) [3, 2, 1, 0]"

definition sha256_words :: "nat list \<Rightarrow> w32 list" where
  "sha256_words bs = foldl sha_block sha_init (chunks 64 (sha_pad bs))"

definition sha256_bytes :: "nat list \<Rightarrow> nat list" where
  "sha256_bytes bs = concat (map bytes_of_word (sha256_words bs))"

definition hmac_key :: "nat list \<Rightarrow> nat list" where
  "hmac_key key =
     (let k = (if 64 < length key then sha256_bytes key else key)
      in k @ replicate (64 - length k) 0)"

definition xor_pad :: "nat \<Rightarrow> nat list \<Rightarrow> nat list" where
  "xor_pad p = map (\<lambda>b. b XOR p)"

definition hmac_sha256_hex :: "string \<Rightarrow> string \<Rightarrow> string" where
  "hmac_sha256_hex key message =
     (let k = hmac_key (map of_char key);
          inner = sha256_bytes (xor_pad 0x36 k @ map of_char message)
      in concat (map hex_of_word (sha256_words (xor_pad 0x5C k @ inner))))"

end
