(* ===== verification/Password_Hasher.thy ===== *)
theory Password_Hasher
  imports Prelude
begin

section \<open>Password hashes\<close>

text \<open>
  \<open>PasswordHasher\<close> of \<open>bot/application/account_service.py\<close>. The function \<open>scrypt\<close> of the cryptographic
  library is an argument, from a password, a salt and its three costs to 32 bytes or an exception;
  the salt is an argument too. The text around it is modelled: URL-safe base64, the fields between
  dollar signs, and the number parser (of ASCII digits, signs and underscores).
\<close>

subsection \<open>URL-safe base64\<close>

definition b64_digit :: "nat \<Rightarrow> char" where
  "b64_digit n =
     char_of (if n < 26 then n + 65 else if n < 52 then n + 71 else if n < 62 then n - 4
              else if n = 62 then 45 else 95)"

fun b64_encode :: "nat list \<Rightarrow> string" where
  "b64_encode [] = []"
| "b64_encode [a] = [b64_digit (a div 4), b64_digit (a mod 4 * 16), CHR ''='', CHR ''='']"
| "b64_encode [a, b] =
     [b64_digit (a div 4), b64_digit (a mod 4 * 16 + b div 16), b64_digit (b mod 16 * 4), CHR ''='']"
| "b64_encode (a # b # c # rest) =
     b64_digit (a div 4) # b64_digit (a mod 4 * 16 + b div 16) #
     b64_digit (b mod 16 * 4 + c div 64) # b64_digit (c mod 64) # b64_encode rest"

definition b64_value :: "char \<Rightarrow> nat option" where
  \<comment> \<open>after \<open>-_\<close> have been translated to \<open>+/\<close>, which are accepted as they are too\<close>
  "b64_value ch =
     (let n = of_char ch :: nat
      in if 65 \<le> n \<and> n \<le> 90 then Some (n - 65)
         else if 97 \<le> n \<and> n \<le> 122 then Some (n - 71)
         else if 48 \<le> n \<and> n \<le> 57 then Some (n + 4)
         else if n = 45 \<or> n = 43 then Some 62
         else if n = 95 \<or> n = 47 then Some 63 else None)"

fun b64_scan :: "nat \<Rightarrow> nat \<Rightarrow> nat \<Rightarrow> string \<Rightarrow> nat list option" where
  \<comment> \<open>the lenient decoder: position in the group of four, bits left over, paddings seen; characters
     outside the alphabet are skipped, and a completed padding ends the text\<close>
  "b64_scan q left pads [] = (if q = 0 then Some [] else None)"
| "b64_scan q left pads (ch # cs) =
     (if ch = CHR ''='' then
        (if 2 \<le> q then (if 4 \<le> q + pads + 1 then Some [] else b64_scan q left (pads + 1) cs)
         else b64_scan q left pads cs)
      else (case b64_value ch of
          None \<Rightarrow> b64_scan q left pads cs
        | Some v \<Rightarrow>
            if q = 0 then b64_scan 1 v 0 cs
            else if q = 1 then map_option ((#) (left * 4 + v div 16)) (b64_scan 2 (v mod 16) 0 cs)
            else if q = 2 then map_option ((#) (left * 16 + v div 4)) (b64_scan 3 (v mod 4) 0 cs)
            else map_option ((#) (left * 64 + v)) (b64_scan 0 0 0 cs)))"

definition b64_decode :: "string \<Rightarrow> nat list option" where
  "b64_decode s = b64_scan 0 0 0 s"

lemma b64_code:
  "n < 64 \<Longrightarrow> of_char (b64_digit n) =
     (if n < 26 then n + 65 else if n < 52 then n + 71 else if n < 62 then n - 4
      else if n = 62 then 45 else (95 :: nat))"
  by (simp add: b64_digit_def)

lemma b64_value_digit [simp]: "n < 64 \<Longrightarrow> b64_value (b64_digit n) = Some n"
  unfolding b64_value_def Let_def by (auto simp: b64_code)

lemma b64_digit_neq [simp]:
  assumes "n < 64"
  shows "b64_digit n \<noteq> CHR ''=''" and "b64_digit n \<noteq> CHR ''$''" and "CHR ''$'' \<noteq> b64_digit n"
proof -
  have "of_char (b64_digit n) \<noteq> (61 :: nat)" "of_char (b64_digit n) \<noteq> (36 :: nat)"
    using assms by (auto simp: b64_code)
  then show "b64_digit n \<noteq> CHR ''=''" and dollar: "b64_digit n \<noteq> CHR ''$''"
    by auto
  from dollar show "CHR ''$'' \<noteq> b64_digit n" by metis
qed

lemma b64_sextets:
  "a < 256 \<Longrightarrow> a div 4 < 64" "a mod 4 * 16 < (64 :: nat)"
  "b < 256 \<Longrightarrow> a mod 4 * 16 + b div 16 < (64 :: nat)" "b mod 16 * 4 < (64 :: nat)"
  "c < 256 \<Longrightarrow> b mod 16 * 4 + c div 64 < (64 :: nat)" "c mod 64 < (64 :: nat)"
  by auto

lemma b64_bytes:
  "b < 256 \<Longrightarrow> b div 16 div 16 = (0 :: nat)" "c < 256 \<Longrightarrow> c div 64 div 4 = (0 :: nat)"
  "b < 256 \<Longrightarrow> b div 16 mod 16 * 16 + b mod 16 = (b :: nat)"
  "c < 256 \<Longrightarrow> c div 64 mod 4 * 64 + c mod 64 = (c :: nat)"
proof -
  assume "b < 256"
  then have "b div 16 < 16" by simp
  then show "b div 16 div 16 = 0" "b div 16 mod 16 * 16 + b mod 16 = b"
    by (simp_all add: div_mult_mod_eq)
next
  assume "c < 256"
  then have "c div 64 < 4" by simp
  then show "c div 64 div 4 = 0" "c div 64 mod 4 * 64 + c mod 64 = c"
    by (simp_all add: div_mult_mod_eq)
qed

lemma b64_roundtrip: "\<forall>b \<in> set bs. b < 256 \<Longrightarrow> b64_decode (b64_encode bs) = Some bs"
  unfolding b64_decode_def by (induction bs rule: b64_encode.induct) (simp_all add: b64_sextets b64_bytes)

lemma no_dollar_b64: "\<forall>b \<in> set bs. b < 256 \<Longrightarrow> CHR ''$'' \<notin> set (b64_encode bs)"
  by (induction bs rule: b64_encode.induct) (simp_all add: b64_sextets)

subsection \<open>Numbers and fields\<close>

fun digits_value :: "nat \<Rightarrow> string \<Rightarrow> nat option" where
  \<comment> \<open>decimal digits, with single underscores between them\<close>
  "digits_value acc [] = Some acc"
| "digits_value acc (ch # cs) =
     (let n = of_char ch :: nat
      in if 48 \<le> n \<and> n \<le> 57 then digits_value (acc * 10 + (n - 48)) cs
         else if ch = CHR ''_'' \<and> cs \<noteq> [] \<and> hd cs \<noteq> CHR ''_'' then digits_value acc cs else None)"

definition py_int :: "string \<Rightarrow> int option" where
  \<comment> \<open>\<open>int(text)\<close>; None where it raises ValueError\<close>
  "py_int text =
     (let s = py_strip text;
          negative = (prefix ''-'' s);
          ds = (if negative \<or> prefix ''+'' s then tl s else s)
      in if ds = [] \<or> hd ds = CHR ''_'' \<or> 4300 < int (length (filter (\<lambda>c. c \<noteq> CHR ''_'') ds)) then None
         else map_option (\<lambda>n. if negative then - int n else int n) (digits_value 0 ds))"

fun split_dollar :: "nat \<Rightarrow> string \<Rightarrow> string list" where
  \<comment> \<open>\<open>text.split("$", n)\<close>\<close>
  "split_dollar 0 s = [s]"
| "split_dollar (Suc n) s =
     (if CHR ''$'' \<in> set s
      then takeWhile (\<lambda>c. c \<noteq> CHR ''$'') s # split_dollar n (tl (dropWhile (\<lambda>c. c \<noteq> CHR ''$'') s))
      else [s])"

subsection \<open>Validation, hashing and verification\<close>

type_synonym scrypt_fun = "string \<Rightarrow> nat list \<Rightarrow> int \<Rightarrow> int \<Rightarrow> int \<Rightarrow> nat list attempt"
  \<comment> \<open>the password, the salt and the costs \<open>n\<close>, \<open>r\<close> and \<open>p\<close>\<close>

definition password_length_message :: string where
  "password_length_message = text_of [0x5BC6, 0x7801, 0x957F, 0x5EA6, 0x5FC5, 0x987B, 0x4E3A, 0x20, 0x31, 0x30, 0x20, 0x5230, 0x20, 0x31, 0x32, 0x38, 0x20, 0x4E2A, 0x5B57, 0x7B26]"

definition password_space_message :: string where
  "password_space_message = text_of [0x5BC6, 0x7801, 0x9996, 0x5C3E, 0x4E0D, 0x80FD, 0x5305, 0x542B, 0x7A7A, 0x683C]"

definition validate_password :: "string \<Rightarrow> unit attempt" where
  "validate_password password =
     (if py_len password < 10 \<or> 128 < py_len password then Inl (ValueError password_length_message)
      else if py_strip password \<noteq> password then Inl (ValueError password_space_message)
      else Inr ())"

definition encode_hash :: "int \<Rightarrow> int \<Rightarrow> int \<Rightarrow> nat list \<Rightarrow> nat list \<Rightarrow> string" where
  "encode_hash n r p salt digest =
     ''scrypt'' @ ''$'' @ show_int n @ ''$'' @ show_int r @ ''$'' @ show_int p @ ''$'' @
     b64_encode salt @ ''$'' @ b64_encode digest"

definition hash_password :: "scrypt_fun \<Rightarrow> nat list \<Rightarrow> string \<Rightarrow> string attempt" where
  "hash_password scrypt salt password =
     bind_attempt (validate_password password) (\<lambda>_.
     bind_attempt (scrypt password salt (2 ^ 14) 8 1) (\<lambda>digest.
       Inr (encode_hash (2 ^ 14) 8 1 salt digest)))"

definition verify_password :: "scrypt_fun \<Rightarrow> string \<Rightarrow> string \<Rightarrow> bool attempt" where
  \<comment> \<open>\<open>ValueError\<close> and \<open>TypeError\<close> answer False, another exception of \<open>scrypt\<close> goes on\<close>
  "verify_password scrypt password encoded =
     (case split_dollar 5 encoded of
        [algorithm, n, r, p, salt, expected] \<Rightarrow>
          if algorithm \<noteq> ''scrypt'' then Inr False
          else (case (b64_decode salt, py_int n, py_int r, py_int p) of
              (Some salt, Some n, Some r, Some p) \<Rightarrow>
                (case scrypt password salt n r p of
                   Inl (ValueError m) \<Rightarrow> Inr False
                 | Inl TypeError \<Rightarrow> Inr False
                 | Inl e \<Rightarrow> Inl e
                 | Inr digest \<Rightarrow> Inr (b64_encode digest = expected))
            | _ \<Rightarrow> Inr False)
      | _ \<Rightarrow> Inr False)"

lemma split_dollar_Suc:
  "CHR ''$'' \<notin> set a \<Longrightarrow> split_dollar (Suc n) (a @ CHR ''$'' # rest) = a # split_dollar n rest"
  by (induction a) auto

lemma b64_encode_inj:
  assumes "\<forall>b \<in> set bs. b < 256" and "\<forall>b \<in> set cs. b < 256"
  shows "b64_encode bs = b64_encode cs \<longleftrightarrow> bs = cs"
  using b64_roundtrip [OF assms(1)] b64_roundtrip [OF assms(2)] by (metis option.inject)

lemma cost_texts:
  "show_int 16384 = ''16384''" "show_int 8 = ''8''" "show_int 1 = ''1''"
  by (simp_all add: show_int_def show_nat.simps)

lemma cost_values:
  "py_int ''16384'' = Some 16384" "py_int ''8'' = Some 8" "py_int ''1'' = Some 1"
  by (simp_all add: py_int_def py_strip_def spaces_bytes)

lemma split_six:
  assumes "CHR ''$'' \<notin> set a" "CHR ''$'' \<notin> set b" "CHR ''$'' \<notin> set c" "CHR ''$'' \<notin> set d"
    "CHR ''$'' \<notin> set e"
  shows "split_dollar 5 (a @ ''$'' @ b @ ''$'' @ c @ ''$'' @ d @ ''$'' @ e @ ''$'' @ f) = [a, b, c, d, e, f]"
  using assms by (simp add: eval_nat_numeral split_dollar_Suc del: split_dollar.simps(2))

lemma split_encoded:
  assumes "\<forall>b \<in> set salt. b < 256"
  shows "split_dollar 5 (encode_hash 16384 8 1 salt digest) =
    [''scrypt'', ''16384'', ''8'', ''1'', b64_encode salt, b64_encode digest]"
  unfolding encode_hash_def cost_texts by (rule split_six) (simp_all add: no_dollar_b64 [OF assms])

lemma verify_encoded:
  assumes "\<forall>b \<in> set salt. b < 256" and "\<forall>b \<in> set digest. b < 256"
    and "scrypt q salt 16384 8 1 = Inr d" and "\<forall>b \<in> set d. b < 256"
  shows "verify_password scrypt q (encode_hash 16384 8 1 salt digest) = Inr (d = digest)"
  using assms
  by (simp add: verify_password_def split_encoded cost_values b64_roundtrip b64_encode_inj)

text \<open>C22: A stored password verifies exactly itself. Hashing an accepted password with any salt
  stores a text which the password verifies, and another password verifies it only if \<open>scrypt\<close>
  gives both the same digest; a password that is too short, too long or padded with spaces is
  refused with ValueError and never stored.\<close>

theorem password_roundtrip:
  assumes "\<And>q s n r p d b. scrypt q s n r p = Inr d \<Longrightarrow> b \<in> set d \<Longrightarrow> b < 256"
    and "\<forall>b \<in> set salt. b < 256"
    and "scrypt password salt 16384 8 1 = Inr digest" and "scrypt other salt 16384 8 1 = Inr digest'"
  shows "case hash_password scrypt salt password of
      Inr stored \<Rightarrow> 10 \<le> py_len password \<and> py_len password \<le> 128 \<and> py_strip password = password \<and>
        verify_password scrypt password stored = Inr True \<and>
        verify_password scrypt other stored = Inr (digest' = digest)
    | Inl e \<Rightarrow> (\<exists>m. e = ValueError m) \<and>
        (py_len password < 10 \<or> 128 < py_len password \<or> py_strip password \<noteq> password)"
proof -
  have bytes: "\<forall>b \<in> set digest. b < 256" "\<forall>b \<in> set digest'. b < 256"
    using assms(1) [OF assms(3)] assms(1) [OF assms(4)] by auto
  show ?thesis
    using assms(2-4) bytes verify_encoded [of salt digest scrypt password digest]
      verify_encoded [of salt digest scrypt other digest']
    by (simp add: hash_password_def validate_password_def)
qed

text \<open>Here \<open>scrypt\<close> is a toy that keeps one byte of the password.\<close>

definition toy_scrypt :: scrypt_fun where
  "toy_scrypt password salt n r p = Inr [length password mod 256]"

lemma password_roundtrip_witness:
  "verify_password toy_scrypt ''secret-secret'' (encode_hash 16384 8 1 [1, 2] [13]) = Inr True \<and>
   (case hash_password toy_scrypt [1, 2] ''secret-secret'' of
      Inr stored \<Rightarrow> verify_password toy_scrypt ''secret-secret'' stored = Inr True \<and>
        verify_password toy_scrypt ''other-password'' stored = Inr False
    | Inl e \<Rightarrow> False)"
proof -
  have h: "hash_password toy_scrypt [1, 2] ''secret-secret'' = Inr (encode_hash 16384 8 1 [1, 2] [13])"
    by (simp add: hash_password_def validate_password_def toy_scrypt_def py_strip_def spaces_bytes
        py_len_def continuation_def)
  have toy: "toy_scrypt q s n r p = Inr d \<Longrightarrow> b \<in> set d \<Longrightarrow> b < 256" for q s n r p d b
    by (auto simp: toy_scrypt_def)
  have salt: "\<forall>b \<in> set [1, 2]. b < (256 :: nat)" by simp
  have digests: "toy_scrypt ''secret-secret'' [1, 2] 16384 8 1 = Inr [13]"
    "toy_scrypt ''other-password'' [1, 2] 16384 8 1 = Inr [14]" by (simp_all add: toy_scrypt_def)
  show ?thesis
    using password_roundtrip [where scrypt = toy_scrypt, OF toy salt digests] by (simp add: h del: One_nat_def)
qed

end
