(* ===== verification/Auth_Service.thy ===== *)
theory Auth_Service
  imports Auth_Schema Auth_Permissions Hmac Password_Hasher User_Service
begin

section \<open>The authentication service\<close>

text \<open>
  \<open>WebAuthService\<close> of \<open>bot/application/auth_service.py\<close>: Telegram login requests and their
  exchange for a session, sessions from media and local credentials, authentication, logout, and
  roles. The random tokens and ids a call draws are arguments, as are the hash \<open>scrypt\<close> and the
  Unicode data of \<open>str.casefold\<close>; the token digest is the keyed hash of \<open>Hmac\<close>.
\<close>

record auth_config =
  cfg_secret :: string
  cfg_owner_tg :: int
  cfg_admin_tg_ids :: "int list"
  cfg_session_ttl :: int
  cfg_login_ttl :: int

definition token_codec :: "string \<Rightarrow> string attempt" where
  \<comment> \<open>\<open>TokenCodec.__init__\<close>: the secret it keeps\<close>
  "token_codec secret =
     (if py_len secret < 24
      then Inl (ValueError ''Web session secret must contain at least 24 characters'')
      else Inr secret)"

definition digest :: "auth_config \<Rightarrow> string \<Rightarrow> string" where
  "digest cfg raw_value = hmac_sha256_hex (cfg_secret cfg) raw_value"

definition codec_verify :: "auth_config \<Rightarrow> string \<Rightarrow> string \<Rightarrow> bool" where
  "codec_verify cfg raw_value expected_digest = (digest cfg raw_value = expected_digest)"

record web_identity =
  wi_session_id :: string
  wi_tg :: int
  wi_auth_method :: string
  wi_roles :: "string list"
  wi_permissions :: "string set"
  wi_csrf_hash :: string
  wi_account_id :: string
  wi_purpose :: string

definition is_owner :: "web_identity \<Rightarrow> bool" where
  "is_owner i = (''owner'' \<in> set (wi_roles i))"

definition has_permission :: "web_identity \<Rightarrow> string \<Rightarrow> bool" where
  "has_permission i required = grants (wi_permissions i) required"

abbreviation minutes :: "int \<Rightarrow> int" where
  "minutes n \<equiv> n * 60 * second"

subsection \<open>The canonical account of a Telegram user\<close>

definition auth_ensure_account ::
  "clock \<Rightarrow> int \<Rightarrow> string option \<Rightarrow> 'z core_db_scheme \<Rightarrow> account_row \<times> 'z core_db_scheme" where
  "auth_ensure_account clk tg display_name db =
     (case accounts_by_legacy_tg tg db of
        Some account \<Rightarrow> (account, db)
      | None \<Rightarrow>
          let name = (if truthy_str display_name then the display_name else ''TG '' @ show_int tg);
              account = (new_account clk tg)\<lparr>acc_display_name := Some (py_take 255 name)\<rparr>;
              db1 = accounts_add_account account db;
              db2 = accounts_add_identity (new_identity clk tg) db1;
              ((user, created), db3) = users_add_if_missing tg db2;
              db4 = accounts_add_wallet (new_wallet clk tg ''coins'' (emby_iv user)) db3
          in (account, accounts_add_wallet (new_wallet clk tg ''registration_days'' (emby_us user)) db4))"

subsection \<open>Telegram login requests\<close>

definition create_telegram_login ::
  "auth_config \<Rightarrow> clock \<Rightarrow> string \<Rightarrow> string \<Rightarrow> string \<Rightarrow> int option \<Rightarrow> string \<Rightarrow> 'z auth_db_scheme \<Rightarrow>
   (service_result, 'z auth_db_scheme) outcome" where
  "create_telegram_login cfg clk raw_token request_id ip_address requested_tg purpose db0 =
     (if purpose \<notin> {''login'', ''registration''} then
        (Inl (ValueError ''Unsupported Telegram verification purpose''), db0)
      else
        let now = now_utc clk in
        auth_uow (\<lambda>db.
          let recent_count = recent_login_request_count ip_address (now - minutes 10) db in
          if recent_count \<ge> 10 then
            Inr (result ''rate_limited'' [],
                 security_event clk ''auth.telegram.rate_limited'' ''warning'' (Some ''ip'')
                   (Some ip_address) (Some ip_address) None db)
          else
            let expires_at = now + cfg_login_ttl cfg;
                request = \<lparr>lr_id = request_id, lr_token_hash = digest cfg raw_token,
                  lr_purpose = purpose, lr_status = ''pending'', lr_requested_tg = requested_tg,
                  lr_approved_tg = None, lr_ip_address = Some ip_address, lr_claimed_at = None,
                  lr_created_at = now, lr_expires_at = expires_at, lr_approved_at = None,
                  lr_consumed_at = None\<rparr>
            in Inr (result ''ok'' [(''request_id'', JStr request_id), (''request_token'', JStr raw_token),
                                   (''expires_at'', JTime expires_at), (''purpose'', JStr purpose)],
                    add_login_request request db)) db0)"

definition claim_telegram_login ::
  "auth_config \<Rightarrow> clock \<Rightarrow> string \<Rightarrow> int \<Rightarrow> string option \<Rightarrow> string \<Rightarrow> 'z auth_db_scheme \<Rightarrow>
   (service_result, 'z auth_db_scheme) outcome" where
  "claim_telegram_login cfg clk raw_token tg display_name expected_purpose db0 =
     (let now = now_utc clk in
      auth_uow (\<lambda>db.
        case get_login_request_by_hash (digest cfg raw_token) db of
          None \<Rightarrow> Inr (result ''invalid_request'' [], db)
        | Some request \<Rightarrow>
            if lr_purpose request \<noteq> expected_purpose then Inr (result ''purpose_mismatch'' [], db)
            else if lr_expires_at request \<le> now then
              Inr (result ''expired'' [], save_login_request (request\<lparr>lr_status := ''expired''\<rparr>) db)
            else if lr_status request \<notin> {''pending'', ''claimed''} then
              Inr (result (lr_status request) [], db)
            else if int_or_0 (lr_requested_tg request) \<noteq> 0 \<and> lr_requested_tg request \<noteq> Some tg then
              Inr (result ''identity_mismatch'' [],
                   security_event clk ''auth.telegram.identity_mismatch'' ''warning'' (Some ''telegram'')
                     (Some (show_int tg)) (lr_ip_address request)
                     (Some (JDict [(''request_id'', JStr (lr_id request))])) db)
            else
              let user = users_get_for_update tg db in
              if user = None \<and> expected_purpose \<noteq> ''registration'' \<and> tg \<noteq> cfg_owner_tg cfg \<and>
                 tg \<notin> set (cfg_admin_tg_ids cfg) then Inr (result ''user_not_found'' [], db)
              else
                let actor = actor_telegram tg display_name;
                    db1 = (if user = None \<and> expected_purpose = ''registration'' then
                        (let ((_, created), d) = users_add_if_missing tg db in
                         if created then
                           event clk ''user.created'' ''user'' (Some (show_int tg))
                             (Some (JDict [(''tg'', JInt tg), (''source'', JStr ''web-registration'')]))
                             (audit_success clk actor ''user.create'' ''user'' (Some (show_int tg))
                                (Some (JDict [(''source'', JStr ''web-registration'')])) d)
                         else d)
                      else db);
                    (account, db2) = auth_ensure_account clk tg display_name db1;
                    db3 = save_login_request (request\<lparr>lr_requested_tg := Some tg, lr_status := ''claimed'',
                            lr_claimed_at := Some now\<rparr>) db2
                in Inr (result ''ok'' [(''request_id'', JStr (lr_id request)),
                                       (''purpose'', JStr (lr_purpose request))],
                        audit_success clk actor ''auth.telegram.claim'' ''web_login_request''
                          (Some (lr_id request)) None db3)) db0)"

definition decide_telegram_login ::
  "clock \<Rightarrow> string \<Rightarrow> int \<Rightarrow> bool \<Rightarrow> string option \<Rightarrow> 'z auth_db_scheme \<Rightarrow>
   (service_result, 'z auth_db_scheme) outcome" where
  "decide_telegram_login clk request_id tg approve display_name db0 =
     (let now = now_utc clk in
      auth_uow (\<lambda>db.
        case get_login_request_by_id request_id db of
          None \<Rightarrow> Inr (result ''invalid_request'' [], db)
        | Some request \<Rightarrow>
            if lr_expires_at request \<le> now then
              Inr (result ''expired'' [], save_login_request (request\<lparr>lr_status := ''expired''\<rparr>) db)
            else if lr_requested_tg request \<noteq> Some tg then Inr (result ''identity_mismatch'' [], db)
            else if lr_status request \<notin> {''claimed'', ''pending''} then
              Inr (result (lr_status request) [], db)
            else
              let db1 = save_login_request (request\<lparr>
                    lr_status := (if approve then ''approved'' else ''rejected''),
                    lr_approved_tg := (if approve then Some tg else None),
                    lr_approved_at := (if approve then Some now else None)\<rparr>) db
              in Inr (result ''ok'' [(''approved'', JBool approve)],
                      audit_success clk (actor_telegram tg display_name)
                        (if approve then ''auth.telegram.approve'' else ''auth.telegram.reject'')
                        ''web_login_request'' (Some (lr_id request)) None db1)) db0)"

definition telegram_login_status ::
  "auth_config \<Rightarrow> clock \<Rightarrow> string \<Rightarrow> 'z auth_db_scheme \<Rightarrow> (service_result, 'z auth_db_scheme) outcome" where
  "telegram_login_status cfg clk raw_token db0 =
     (let now = now_utc clk in
      auth_uow (\<lambda>db.
        case get_login_request_by_hash (digest cfg raw_token) db of
          None \<Rightarrow> Inr (result ''invalid_request'' [], db)
        | Some request \<Rightarrow>
            let request' = (if lr_expires_at request \<le> now \<and> lr_status request \<notin> {''consumed'', ''rejected''}
                            then request\<lparr>lr_status := ''expired''\<rparr> else request)
            in Inr (result ''ok'' [(''status'', JStr (lr_status request')),
                                   (''expires_at'', JTime (lr_expires_at request')),
                                   (''purpose'', JStr (lr_purpose request'))],
                    save_login_request request' db)) db0)"

subsection \<open>Sessions\<close>

record session_tokens =
  \<comment> \<open>what one \<open>_create_session\<close> draws: two tokens and an id\<close>
  tok_session :: string
  tok_csrf :: string
  tok_session_id :: string

definition session_expiry :: "auth_config \<Rightarrow> string \<Rightarrow> datetime \<Rightarrow> datetime" where
  "session_expiry cfg purpose now =
     now + (if purpose = ''registration'' then min (cfg_session_ttl cfg) (minutes 15) else cfg_session_ttl cfg)"

definition new_session ::
  "auth_config \<Rightarrow> session_tokens \<Rightarrow> int \<Rightarrow> string option \<Rightarrow> string \<Rightarrow> string option \<Rightarrow> string \<Rightarrow> datetime \<Rightarrow>
   string \<Rightarrow> session_row" where
  "new_session cfg tok tg account_id auth_method user_agent ip_address now purpose =
     \<lparr>ses_id = tok_session_id tok, ses_account_id = account_id, ses_tg = tg,
      ses_token_hash = digest cfg (tok_session tok), ses_csrf_hash = digest cfg (tok_csrf tok),
      ses_auth_method = auth_method, ses_purpose = purpose, ses_ip_address = Some ip_address,
      ses_user_agent = Some (py_take 512 (case user_agent of None \<Rightarrow> [] | Some u \<Rightarrow> u)),
      ses_created_at = now, ses_last_seen_at = now, ses_expires_at = session_expiry cfg purpose now,
      ses_revoked_at = None\<rparr>"

definition create_session ::
  "auth_config \<Rightarrow> session_tokens \<Rightarrow> int \<Rightarrow> string option \<Rightarrow> string \<Rightarrow> string option \<Rightarrow> string \<Rightarrow> datetime \<Rightarrow>
   string \<Rightarrow> 'z auth_db_scheme \<Rightarrow> service_result \<times> 'z auth_db_scheme" where
  "create_session cfg tok tg account_id auth_method user_agent ip_address now purpose db =
     (result ''ok'' [(''session_id'', JStr (tok_session_id tok)),
                     (''session_token'', JStr (tok_session tok)),
                     (''csrf_token'', JStr (tok_csrf tok)),
                     (''expires_at'', JTime (session_expiry cfg purpose now)),
                     (''account_id'', jopt_str account_id), (''tg'', JInt tg),
                     (''auth_method'', JStr auth_method)],
      add_session (new_session cfg tok tg account_id auth_method user_agent ip_address now purpose) db)"

definition audit_session ::
  "clock \<Rightarrow> actor \<Rightarrow> session_tokens \<Rightarrow> string \<Rightarrow> 'z core_db_scheme \<Rightarrow> 'z core_db_scheme" where
  "audit_session clk actor tok auth_method =
     audit_success clk actor ''auth.session.create'' ''web_session'' (Some (tok_session_id tok))
       (Some (JDict [(''auth_method'', JStr auth_method)]))"

definition exchange_telegram_login ::
  "auth_config \<Rightarrow> clock \<Rightarrow> session_tokens \<Rightarrow> string \<Rightarrow> string option \<Rightarrow> string \<Rightarrow> string \<Rightarrow>
   'z auth_db_scheme \<Rightarrow> (service_result, 'z auth_db_scheme) outcome" where
  "exchange_telegram_login cfg clk tok raw_token user_agent ip_address expected_purpose db0 =
     (let now = now_utc clk in
      auth_uow (\<lambda>db.
        case get_login_request_by_hash (digest cfg raw_token) db of
          None \<Rightarrow> Inr (result ''invalid_request'' [], db)
        | Some request \<Rightarrow>
            if lr_purpose request \<noteq> expected_purpose then Inr (result ''purpose_mismatch'' [], db)
            else if lr_expires_at request \<le> now then
              Inr (result ''expired'' [], save_login_request (request\<lparr>lr_status := ''expired''\<rparr>) db)
            else if lr_status request = ''consumed'' then Inr (result ''already_consumed'' [], db)
            else if lr_status request \<noteq> ''approved'' \<or> int_or_0 (lr_approved_tg request) = 0 then
              Inr (result ''not_approved'' [], db)
            else
              let tg = the (lr_approved_tg request);
                  (account, db1) = auth_ensure_account clk tg None db;
                  (r, db2) = create_session cfg tok tg (Some (acc_id account)) ''telegram'' user_agent
                               ip_address now expected_purpose db1;
                  db3 = save_login_request (request\<lparr>lr_status := ''consumed'',
                          lr_consumed_at := Some now\<rparr>) db2
              in Inr (r, audit_session clk (actor_telegram tg None) tok ''telegram'' db3)) db0)"

definition create_emby_session ::
  "auth_config \<Rightarrow> clock \<Rightarrow> session_tokens \<Rightarrow> string \<Rightarrow> string \<Rightarrow> string option \<Rightarrow> string \<Rightarrow>
   'z auth_db_scheme \<Rightarrow> (service_result, 'z auth_db_scheme) outcome" where
  "create_emby_session cfg clk tok embyid username user_agent ip_address db0 =
     (let now = now_utc clk in
      auth_uow (\<lambda>db.
        case tbl_get emby_embyid (Some embyid) (embys db) of
          None \<Rightarrow> Inr (result ''user_not_found'' [], db)
        | Some user \<Rightarrow>
            if emby_name user \<noteq> Some username then Inr (result ''user_not_found'' [], db)
            else
              let (account, db1) = auth_ensure_account clk (emby_tg user) (Some username) db;
                  (r, db2) = create_session cfg tok (emby_tg user) (Some (acc_id account)) ''emby''
                               user_agent ip_address now ''login'' db1
              in Inr (r, audit_session clk
                   \<lparr>actor_kind = ''emby'', actor_identifier = show_int (emby_tg user),
                    actor_display_name = Some username\<rparr> tok ''emby'' db2)) db0)"

definition accounts_save_identity :: "identity_row \<Rightarrow> 'z core_db_scheme \<Rightarrow> 'z core_db_scheme" where
  "accounts_save_identity i db = db\<lparr>identities := tbl_put idn_id i (identities db)\<rparr>"

definition touch_identity :: "datetime \<Rightarrow> identity_row \<Rightarrow> identity_row" where
  \<comment> \<open>a row that changes also gets the time of its column's \<open>onupdate\<close>\<close>
  "touch_identity now i = i\<lparr>idn_last_used_at := Some now, idn_updated_at := now\<rparr>"

definition password_accepted :: "scrypt_fun \<Rightarrow> string \<Rightarrow> identity_row option \<Rightarrow> bool attempt" where
  \<comment> \<open>the negation of the guard of \<open>create_local_session\<close>, evaluated in its order\<close>
  "password_accepted scrypt password identity =
     (case identity of
        None \<Rightarrow> Inr False
      | Some i \<Rightarrow>
          if idn_disabled i \<or> \<not> truthy_str (idn_password_hash i) then Inr False
          else verify_password scrypt password (the (idn_password_hash i)))"

definition create_local_session ::
  "auth_config \<Rightarrow> scrypt_fun \<Rightarrow> (string \<Rightarrow> string) \<Rightarrow> clock \<Rightarrow> session_tokens \<Rightarrow> string option \<Rightarrow> string \<Rightarrow>
   string option \<Rightarrow> string \<Rightarrow> string \<Rightarrow> 'z auth_db_scheme \<Rightarrow> (service_result, 'z auth_db_scheme) outcome" where
  "create_local_session cfg scrypt casefold clk tok username password user_agent ip_address purpose db0 =
     (let now = now_utc clk;
          normalized = casefold (py_strip (case username of None \<Rightarrow> [] | Some u \<Rightarrow> u)) in
      auth_uow (\<lambda>db.
        if recent_security_event_count ''auth.local.failed'' ip_address (now - minutes 10) db \<ge> 10 then
          Inr (result ''rate_limited'' [], db)
        else
          let identity = accounts_local_identity normalized db in
          bind_attempt (password_accepted scrypt password identity) (\<lambda>accepted.
            if \<not> accepted then
              Inr (result ''invalid_credentials'' [],
                   security_event clk ''auth.local.failed'' ''warning'' (Some ''local_username'')
                     (Some (take 16 (sha256_hex normalized))) (Some ip_address) None db)
            else
              let i = the identity in
              (case accounts_get (idn_account_id i) db of
                 None \<Rightarrow> Inr (result ''account_disabled'' [], db)
               | Some account \<Rightarrow>
                   if acc_status account \<notin> {''active'', ''suspended''} then
                     Inr (result ''account_disabled'' [], db)
                   else
                     let db1 = accounts_save_identity (touch_identity now i) db;
                         (r, db2) = create_session cfg tok (acc_legacy_tg account) (Some (acc_id account))
                                      ''local'' user_agent ip_address now purpose db1
                     in Inr (r, audit_session clk
                          \<lparr>actor_kind = ''account'', actor_identifier = acc_id account,
                           actor_display_name = idn_username i\<rparr> tok ''local'' db2)))) db0)"

definition create_account_session ::
  "auth_config \<Rightarrow> clock \<Rightarrow> session_tokens \<Rightarrow> string \<Rightarrow> string option \<Rightarrow> string \<Rightarrow> string \<Rightarrow>
   'z auth_db_scheme \<Rightarrow> (service_result, 'z auth_db_scheme) outcome" where
  "create_account_session cfg clk tok account_id user_agent ip_address purpose db0 =
     auth_uow (\<lambda>db.
       case accounts_get account_id db of
         None \<Rightarrow> Inr (result ''account_disabled'' [], db)
       | Some account \<Rightarrow>
           if acc_status account \<noteq> ''active'' then Inr (result ''account_disabled'' [], db)
           else Inr (create_session cfg tok (acc_legacy_tg account) (Some (acc_id account)) ''local''
                       user_agent ip_address (now_utc clk) purpose db)) db0"

definition record_emby_login_failure ::
  "clock \<Rightarrow> string \<Rightarrow> string \<Rightarrow> 'z auth_db_scheme \<Rightarrow> (service_result, 'z auth_db_scheme) outcome" where
  "record_emby_login_failure clk ip_address username_fingerprint db0 =
     (let now = now_utc clk in
      auth_uow (\<lambda>db.
        if recent_security_event_count ''auth.emby.failed'' ip_address (now - minutes 10) db \<ge> 5 then
          Inr (result ''rate_limited'' [], db)
        else
          Inr (result ''ok'' [],
               security_event clk ''auth.emby.failed'' ''warning'' (Some ''emby_username'')
                 (Some username_fingerprint) (Some ip_address) None db)) db0)"

definition emby_login_allowed :: "clock \<Rightarrow> string \<Rightarrow> 'z auth_db_scheme \<Rightarrow> bool" where
  "emby_login_allowed clk ip_address db =
     (recent_security_event_count ''auth.emby.failed'' ip_address (now_utc clk - minutes 10) db < 5)"

subsection \<open>Roles and permissions\<close>

fun strings_of :: "jval list \<Rightarrow> string list option" where
  \<comment> \<open>the texts of a list all of whose items are text\<close>
  "strings_of [] = Some []"
| "strings_of (JStr s # xs) = map_option ((#) s) (strings_of xs)"
| "strings_of (_ # xs) = None"

definition permissions_for_role :: "role_row \<Rightarrow> string set" where
  \<comment> \<open>a text that is no JSON counts as \<open>JNull\<close>, as the handler of the source has it\<close>
  "permissions_for_role role =
     (case role_permissions role of
        JList xs \<Rightarrow> (case strings_of xs of
            Some ps \<Rightarrow> set ps
          | None \<Rightarrow> set (default_permissions (role_name role)))
      | _ \<Rightarrow> set (default_permissions (role_name role)))"

definition admin_role_of :: "role_row list \<Rightarrow> 'z auth_db_scheme \<Rightarrow> role_row option" where
  "admin_role_of assigned_roles db =
     (case find (\<lambda>r. role_name r = ''admin'') assigned_roles of
        Some r \<Rightarrow> Some r
      | None \<Rightarrow> get_role_by_name ''admin'' db)"

definition resolve_roles :: "auth_config \<Rightarrow> int \<Rightarrow> 'z auth_db_scheme \<Rightarrow> string set \<times> string set" where
  "resolve_roles cfg tg db =
     (let owner = (tg = cfg_owner_tg cfg);
          admin = (tg \<in> set (cfg_admin_tg_ids cfg));
          assigned_roles = get_roles_for_user tg db
      in ({''user''} \<union> (if owner then {''owner''} else {}) \<union> (if admin then {''admin''} else {}) \<union>
            role_name ` set assigned_roles,
          set (default_permissions ''user'') \<union> (if owner then {''*''} else {}) \<union>
            (if admin then (case admin_role_of assigned_roles db of
                 Some r \<Rightarrow> permissions_for_role r
               | None \<Rightarrow> set (default_permissions ''admin''))
             else {}) \<union>
            (\<Union>r \<in> set assigned_roles. permissions_for_role r)))"

definition roles_for_user :: "auth_config \<Rightarrow> int \<Rightarrow> 'z auth_db_scheme \<Rightarrow> string list" where
  "roles_for_user cfg tg db = sorted_list_of_set (fst (resolve_roles cfg tg db))"

definition permission_catalog :: jval where
  "permission_catalog =
     JList (map (\<lambda>(group, permissions).
       JDict [(''group'', JStr group),
              (''items'', JList (map (\<lambda>(permission, label).
                 JDict [(''permission'', JStr permission), (''label'', JStr label)]) permissions))])
       PERMISSION_CATALOG)"

record role_view =
  rv_id :: int
  rv_name :: string
  rv_permissions :: "string list"
  rv_is_system :: bool
  rv_member_count :: int

definition role_members_of :: "auth_config \<Rightarrow> role_row \<Rightarrow> 'z auth_db_scheme \<Rightarrow> int set" where
  "role_members_of cfg role db =
     (let members = role_member_tgs (role_id role) db;
          registered_users = emby_tg ` set (embys db)
      in if role_name role = ''owner'' then insert (cfg_owner_tg cfg) members
         else if role_name role = ''admin'' then members \<union> set (cfg_admin_tg_ids cfg)
         else if role_name role = ''user'' then
           members \<union> registered_users \<union> {cfg_owner_tg cfg} \<union> set (cfg_admin_tg_ids cfg)
         else members)"

definition list_roles :: "auth_config \<Rightarrow> 'z auth_db_scheme \<Rightarrow> role_view list" where
  "list_roles cfg db =
     map (\<lambda>role. \<lparr>rv_id = role_id role, rv_name = role_name role,
            rv_permissions = sorted_list_of_set (permissions_for_role role),
            rv_is_system = role_is_system role,
            rv_member_count = int (card (role_members_of cfg role db))\<rparr>) (auth_list_roles db)"

fun name_char :: "char \<Rightarrow> bool" where
  "name_char c =
     (let n = of_char c :: nat
      in (97 \<le> n \<and> n \<le> 122) \<or> (48 \<le> n \<and> n \<le> 57) \<or> c = CHR ''_'' \<or> c = CHR ''-'')"

definition role_name_ok :: "string \<Rightarrow> bool" where
  \<comment> \<open>\<open>re.fullmatch(r"[a-z][a-z0-9_-]{2,31}", name)\<close>\<close>
  "role_name_ok s =
     (case s of
        [] \<Rightarrow> False
      | c # cs \<Rightarrow>
          (let n = of_char c :: nat in 97 \<le> n \<and> n \<le> 122) \<and>
          2 \<le> length cs \<and> length cs \<le> 31 \<and> list_all name_char cs)"

definition dedupe :: "'a list \<Rightarrow> 'a list" where
  \<comment> \<open>\<open>list(dict.fromkeys(xs))\<close>: the first occurrences, in order\<close>
  "dedupe xs = rev (remdups (rev xs))"

definition permissions_json :: "string list \<Rightarrow> jval" where
  "permissions_json permissions = json_dumps (JList (map JStr (dedupe permissions)))"

definition create_role ::
  "clock \<Rightarrow> string \<Rightarrow> string list \<Rightarrow> int \<Rightarrow> 'z auth_db_scheme \<Rightarrow> (service_result, 'z auth_db_scheme) outcome" where
  "create_role clk name permissions actor_tg db0 =
     (let normalized = py_lower (py_strip name) in
      if \<not> role_name_ok normalized then (Inr (result ''invalid_name'' []), db0)
      else if \<not> set permissions \<subseteq> set KNOWN_PERMISSIONS then (Inr (result ''invalid_permissions'' []), db0)
      else auth_uow (\<lambda>db.
        if get_role_by_name normalized db \<noteq> None then Inr (result ''role_exists'' [], db)
        else
          let i = next_id (roles db);
              db1 = add_role (\<lambda>n. \<lparr>role_id = n, role_name = normalized,
                      role_permissions = permissions_json permissions, role_is_system = False,
                      role_created_at = now_utc clk, role_updated_at = now_utc clk\<rparr>) db
          in Inr (result ''ok'' [(''id'', JInt i), (''name'', JStr normalized)],
                  audit_success clk (actor_web actor_tg None) ''role.create'' ''web_role''
                    (Some (show_int i))
                    (Some (JDict [(''name'', JStr normalized),
                                  (''permissions'', JList (map JStr permissions))])) db1)) db0)"

definition update_role ::
  "clock \<Rightarrow> int \<Rightarrow> string list \<Rightarrow> int \<Rightarrow> 'z auth_db_scheme \<Rightarrow> (service_result, 'z auth_db_scheme) outcome" where
  "update_role clk rid permissions actor_tg db0 =
     (if \<not> set permissions \<subseteq> set KNOWN_PERMISSIONS then (Inr (result ''invalid_permissions'' []), db0)
      else auth_uow (\<lambda>db.
        case get_role rid db of
          None \<Rightarrow> Inr (result ''role_not_found'' [], db)
        | Some role \<Rightarrow>
            if role_name role \<in> {''owner'', ''user''} then Inr (result ''protected_role'' [], db)
            else Inr (result ''ok'' [(''id'', JInt (role_id role)), (''name'', JStr (role_name role))],
                   audit_success clk (actor_web actor_tg None) ''role.update'' ''web_role''
                     (Some (show_int (role_id role)))
                     (Some (JDict [(''name'', JStr (role_name role)),
                                   (''permissions'', JList (map JStr permissions))]))
                     (save_role (role\<lparr>role_permissions := permissions_json permissions,
                        role_updated_at := now_utc clk\<rparr>) db))) db0)"

definition delete_role ::
  "clock \<Rightarrow> int \<Rightarrow> int \<Rightarrow> 'z auth_db_scheme \<Rightarrow> (service_result, 'z auth_db_scheme) outcome" where
  "delete_role clk rid actor_tg db0 =
     auth_uow (\<lambda>db.
       case get_role rid db of
         None \<Rightarrow> Inr (result ''role_not_found'' [], db)
       | Some role \<Rightarrow>
           if role_is_system role then Inr (result ''protected_role'' [], db)
           else
             let members = role_member_count (role_id role) db in
             if members \<noteq> 0 then
               Inr (result ''role_in_use'' [(''member_count'', JInt members)], db)
             else Inr (result ''ok'' [(''name'', JStr (role_name role))],
                    audit_success clk (actor_web actor_tg None) ''role.delete'' ''web_role''
                      (Some (show_int rid)) (Some (JDict [(''name'', JStr (role_name role))]))
                      (auth_delete_role rid db))) db0"

definition set_role ::
  "clock \<Rightarrow> int \<Rightarrow> string \<Rightarrow> bool \<Rightarrow> int \<Rightarrow> 'z auth_db_scheme \<Rightarrow> (service_result, 'z auth_db_scheme) outcome" where
  "set_role clk target_tg rname enabled actor_tg db0 =
     auth_uow (\<lambda>db.
       if users_get_for_update target_tg db = None then Inr (result ''user_not_found'' [], db)
       else
         (case get_role_by_name rname db of
            None \<Rightarrow> Inr (result ''invalid_role'' [], db)
          | Some role \<Rightarrow>
              if rname \<in> {''owner'', ''user''} then Inr (result ''invalid_role'' [], db)
              else
                let present = has_role target_tg (role_id role) db;
                    db1 = (if enabled \<and> \<not> present then add_role_member clk target_tg (role_id role) actor_tg db
                           else if \<not> enabled \<and> present then remove_role_member target_tg (role_id role) db
                           else db)
                in Inr (result ''ok'' [(''changed'', JBool (present \<noteq> enabled))],
                        audit_success clk (actor_web actor_tg None)
                          (if enabled then ''role.assign'' else ''role.remove'') ''user''
                          (Some (show_int target_tg)) (Some (JDict [(''role'', JStr rname)])) db1))) db0"

subsection \<open>Authentication and logout\<close>

definition session_account ::
  "clock \<Rightarrow> session_row \<Rightarrow> 'z auth_db_scheme \<Rightarrow> account_row option \<times> 'z auth_db_scheme" where
  "session_account clk s db =
     (if truthy_str (ses_account_id s) then (accounts_get (the (ses_account_id s)) db, db)
      else (let (account, db') = auth_ensure_account clk (ses_tg s) None db in (Some account, db')))"

definition touch_session :: "datetime \<Rightarrow> account_row \<Rightarrow> session_row \<Rightarrow> session_row" where
  "touch_session now account s =
     (let s1 = (if truthy_str (ses_account_id s) then s else s\<lparr>ses_account_id := Some (acc_id account)\<rparr>)
      in if ses_last_seen_at s1 \<le> now - minutes 5 then s1\<lparr>ses_last_seen_at := now\<rparr> else s1)"

definition authenticate ::
  "auth_config \<Rightarrow> clock \<Rightarrow> string \<Rightarrow> 'z auth_db_scheme \<Rightarrow> (web_identity option, 'z auth_db_scheme) outcome" where
  "authenticate cfg clk raw_session db0 =
     (let now = now_utc clk in
      auth_uow (\<lambda>db.
        case get_session_by_hash (digest cfg raw_session) db of
          None \<Rightarrow> Inr (None, db)
        | Some s \<Rightarrow>
            if ses_revoked_at s \<noteq> None \<or> ses_expires_at s \<le> now then Inr (None, db)
            else
              (case session_account clk s db of
                 (None, db1) \<Rightarrow> Inr (None, db1)
               | (Some account, db1) \<Rightarrow>
                   if acc_status account \<notin> {''active'', ''suspended''} then Inr (None, db1)
                   else
                     let s' = touch_session now account s;
                         (rs, ps) = (if ses_purpose s = ''registration'' then ({''member''}, {})
                                     else resolve_roles cfg (ses_tg s) db1)
                     in Inr (Some \<lparr>wi_session_id = ses_id s, wi_tg = ses_tg s,
                           wi_auth_method = ses_auth_method s, wi_roles = sorted_list_of_set rs,
                           wi_permissions = ps, wi_csrf_hash = ses_csrf_hash s,
                           wi_account_id = acc_id account, wi_purpose = ses_purpose s\<rparr>,
                         save_session s' db1))) db0)"

definition verify_csrf :: "auth_config \<Rightarrow> web_identity \<Rightarrow> string \<Rightarrow> bool" where
  "verify_csrf cfg i raw_csrf = (raw_csrf \<noteq> [] \<and> codec_verify cfg raw_csrf (wi_csrf_hash i))"

definition logout ::
  "clock \<Rightarrow> string \<Rightarrow> actor \<Rightarrow> 'z auth_db_scheme \<Rightarrow> (bool, 'z auth_db_scheme) outcome" where
  "logout clk session_id actor db0 =
     auth_uow (\<lambda>db.
       case get_session_by_id session_id db of
         None \<Rightarrow> Inr (False, db)
       | Some s \<Rightarrow>
           if ses_revoked_at s \<noteq> None then Inr (False, db)
           else Inr (True, audit_success clk actor ''auth.session.revoke'' ''web_session'' (Some session_id) None
                  (save_session (s\<lparr>ses_revoked_at := Some (now_utc clk)\<rparr>) db))) db0"

definition logout_all ::
  "clock \<Rightarrow> int \<Rightarrow> actor \<Rightarrow> 'z auth_db_scheme \<Rightarrow> (int, 'z auth_db_scheme) outcome" where
  "logout_all clk tg actor db0 =
     auth_uow (\<lambda>db.
       let (revoked, db1) = (case accounts_by_legacy_tg tg db of
               Some account \<Rightarrow> revoke_account_sessions (acc_id account) (now_utc clk) db
             | None \<Rightarrow> revoke_user_sessions tg (now_utc clk) db)
       in Inr (revoked, audit_success clk actor ''auth.session.revoke_all'' ''user'' (Some (show_int tg))
                 (Some (JDict [(''revoked_sessions'', JInt revoked)])) db1)) db0"


subsection \<open>What the bookkeeping leaves alone\<close>

lemma auth_ensure_account_tables [simp]:
  "login_requests (snd (auth_ensure_account clk tg n db)) = login_requests db"
  "sessions (snd (auth_ensure_account clk tg n db)) = sessions db"
  "roles (snd (auth_ensure_account clk tg n db)) = roles db"
  "role_members (snd (auth_ensure_account clk tg n db)) = role_members db"
  "securities (snd (auth_ensure_account clk tg n db)) = securities db"
  by (auto simp: auth_ensure_account_def users_add_if_missing_def op_defs Let_def split: option.splits prod.splits)

lemma audit_session_tables [simp]:
  "login_requests (audit_session clk actor tok m db) = login_requests db"
  "sessions (audit_session clk actor tok m db) = sessions db"
  "roles (audit_session clk actor tok m db) = roles db"
  "role_members (audit_session clk actor tok m db) = role_members db"
  "securities (audit_session clk actor tok m db) = securities db"
  by (simp_all add: audit_session_def)

lemma create_session_tables [simp]:
  "login_requests (snd (create_session cfg tok tg acc m ua ip now p db)) = login_requests db"
  "roles (snd (create_session cfg tok tg acc m ua ip now p db)) = roles db"
  "role_members (snd (create_session cfg tok tg acc m ua ip now p db)) = role_members db"
  "securities (snd (create_session cfg tok tg acc m ua ip now p db)) = securities db"
  by (simp_all add: create_session_def Let_def add_session_def)

end
