(* ===== verification/Auth_Calls.thy ===== *)
theory Auth_Calls
  imports Auth_Service
begin

section \<open>Sequences of calls and the login protocol\<close>

text \<open>
  The calls a client can make of the authentication service, as a datatype, and the protocol a
  login request goes through, as step relations. Every call is shown to be one step of the protocol
  on the table of login requests.
\<close>

record auth_env =
  env_cfg :: auth_config
  env_scrypt :: scrypt_fun
  env_casefold :: "string \<Rightarrow> string"

datatype auth_call =
    CreateLogin clock string string string "int option" string
  | ClaimLogin clock string int "string option" string
  | DecideLogin clock string int bool "string option"
  | LoginStatus clock string
  | ExchangeLogin clock session_tokens string "string option" string string
  | EmbySession clock session_tokens string string "string option" string
  | LocalSession clock session_tokens "string option" string "string option" string string
  | AccountSession clock session_tokens string "string option" string string
  | EmbyFailure clock string string
  | Authenticate clock string
  | Logout clock string actor
  | LogoutAll clock int actor
  | CreateRole clock string "string list" int
  | UpdateRole clock int "string list" int
  | DeleteRole clock int int
  | SetRole clock int string bool int

fun auth_after :: "auth_env \<Rightarrow> auth_call \<Rightarrow> 'z auth_db_scheme \<Rightarrow> 'z auth_db_scheme" where
  "auth_after env (CreateLogin clk raw i ip tg p) db = snd (create_telegram_login (env_cfg env) clk raw i ip tg p db)"
| "auth_after env (ClaimLogin clk raw tg n p) db = snd (claim_telegram_login (env_cfg env) clk raw tg n p db)"
| "auth_after env (DecideLogin clk i tg b n) db = snd (decide_telegram_login clk i tg b n db)"
| "auth_after env (LoginStatus clk raw) db = snd (telegram_login_status (env_cfg env) clk raw db)"
| "auth_after env (ExchangeLogin clk tok raw ua ip p) db =
     snd (exchange_telegram_login (env_cfg env) clk tok raw ua ip p db)"
| "auth_after env (EmbySession clk tok e u ua ip) db = snd (create_emby_session (env_cfg env) clk tok e u ua ip db)"
| "auth_after env (LocalSession clk tok u pw ua ip p) db =
     snd (create_local_session (env_cfg env) (env_scrypt env) (env_casefold env) clk tok u pw ua ip p db)"
| "auth_after env (AccountSession clk tok a ua ip p) db =
     snd (create_account_session (env_cfg env) clk tok a ua ip p db)"
| "auth_after env (EmbyFailure clk ip f) db = snd (record_emby_login_failure clk ip f db)"
| "auth_after env (Authenticate clk raw) db = snd (authenticate (env_cfg env) clk raw db)"
| "auth_after env (Logout clk i a) db = snd (logout clk i a db)"
| "auth_after env (LogoutAll clk tg a) db = snd (logout_all clk tg a db)"
| "auth_after env (CreateRole clk n ps a) db = snd (create_role clk n ps a db)"
| "auth_after env (UpdateRole clk i ps a) db = snd (update_role clk i ps a db)"
| "auth_after env (DeleteRole clk i a) db = snd (delete_role clk i a db)"
| "auth_after env (SetRole clk tg n b a) db = snd (set_role clk tg n b a db)"

fun call_time :: "auth_call \<Rightarrow> datetime" where
  "call_time (CreateLogin clk _ _ _ _ _) = now_utc clk" | "call_time (ClaimLogin clk _ _ _ _) = now_utc clk"
| "call_time (DecideLogin clk _ _ _ _) = now_utc clk" | "call_time (LoginStatus clk _) = now_utc clk"
| "call_time (ExchangeLogin clk _ _ _ _ _) = now_utc clk" | "call_time (EmbySession clk _ _ _ _ _) = now_utc clk"
| "call_time (LocalSession clk _ _ _ _ _ _) = now_utc clk" | "call_time (AccountSession clk _ _ _ _ _) = now_utc clk"
| "call_time (EmbyFailure clk _ _) = now_utc clk" | "call_time (Authenticate clk _) = now_utc clk"
| "call_time (Logout clk _ _) = now_utc clk" | "call_time (LogoutAll clk _ _) = now_utc clk"
| "call_time (CreateRole clk _ _ _) = now_utc clk" | "call_time (UpdateRole clk _ _ _) = now_utc clk"
| "call_time (DeleteRole clk _ _) = now_utc clk" | "call_time (SetRole clk _ _ _ _) = now_utc clk"

definition auth_run :: "auth_env \<Rightarrow> auth_call list \<Rightarrow> 'z auth_db_scheme \<Rightarrow> 'z auth_db_scheme" where
  "auth_run env calls db = fold (auth_after env) calls db"

lemma auth_run_simps [simp]:
  "auth_run env [] db = db"
  "auth_run env (c # cs) db = auth_run env cs (auth_after env c db)"
  by (simp_all add: auth_run_def)

lemmas auth_ops = create_telegram_login_def claim_telegram_login_def decide_telegram_login_def
  telegram_login_status_def exchange_telegram_login_def create_emby_session_def create_local_session_def
  create_account_session_def record_emby_login_failure_def authenticate_def logout_def logout_all_def
  create_role_def update_role_def delete_role_def set_role_def

lemma auth_after_integrity: "auth_integrity db \<Longrightarrow> auth_integrity (auth_after env c db)"
  by (cases c) (simp_all add: auth_ops Let_def auth_uow_integrity)

text \<open>A property of tables that every body keeps is kept by the call.\<close>

lemma auth_uow_snd:
  assumes "P db" and "\<And>x db'. body db = Inr (x, db') \<Longrightarrow> P db'"
  shows "P (snd (auth_uow body db))"
  using assms by (auto simp: auth_uow_def split: sum.splits)

subsection \<open>The protocol of a login request\<close>

text \<open>What may happen to one request; \<open>t\<close> is the time of the step.\<close>

inductive request_step :: "login_request_row \<Rightarrow> login_request_row \<Rightarrow> bool" where
  keep: "request_step r r"
| expire: "request_step r (r\<lparr>lr_status := ''expired''\<rparr>)"
| claim: "lr_status r \<in> {''pending'', ''claimed''} \<Longrightarrow>
    int_or_0 (lr_requested_tg r) = 0 \<or> lr_requested_tg r = Some tg \<Longrightarrow>
    request_step r (r\<lparr>lr_requested_tg := Some tg, lr_status := ''claimed'', lr_claimed_at := Some t\<rparr>)"
| approve: "lr_status r \<in> {''pending'', ''claimed''} \<Longrightarrow> lr_requested_tg r = Some tg \<Longrightarrow>
    request_step r (r\<lparr>lr_status := ''approved'', lr_approved_tg := Some tg, lr_approved_at := Some t\<rparr>)"
| reject: "lr_status r \<in> {''pending'', ''claimed''} \<Longrightarrow>
    request_step r (r\<lparr>lr_status := ''rejected'', lr_approved_tg := None, lr_approved_at := None\<rparr>)"
| consume: "lr_status r = ''approved'' \<Longrightarrow> t < lr_expires_at r \<Longrightarrow>
    request_step r (r\<lparr>lr_status := ''consumed'', lr_consumed_at := Some t\<rparr>)"

text \<open>
  What may happen to the table at the time \<open>now\<close>: a request is added, if its address asked for fewer
  than ten in the last ten minutes, or one is stepped.
\<close>

inductive requests_step :: "datetime \<Rightarrow> login_request_row list \<Rightarrow> login_request_row list \<Rightarrow> bool" for now where
  none: "requests_step now rs rs"
| add: "lr_status r = ''pending'' \<Longrightarrow> lr_approved_tg r = None \<Longrightarrow> lr_created_at r = now \<Longrightarrow>
    length (filter (\<lambda>q. lr_ip_address q = lr_ip_address r \<and> now - minutes 10 \<le> lr_created_at q) rs) < 10 \<Longrightarrow>
    requests_step now rs (rs @ [r])"
| step: "tbl_get lr_id (lr_id r) rs = Some r \<Longrightarrow> request_step r r' \<Longrightarrow>
    requests_step now rs (tbl_put lr_id r' rs)"

lemma request_step_identity:
  "request_step r r' \<Longrightarrow> lr_id r' = lr_id r \<and> lr_token_hash r' = lr_token_hash r \<and>
     lr_purpose r' = lr_purpose r \<and> lr_expires_at r' = lr_expires_at r \<and>
     lr_ip_address r' = lr_ip_address r \<and> lr_created_at r' = lr_created_at r"
  by (induction rule: request_step.induct) auto

text \<open>A final status stays final.\<close>

abbreviation final_login :: "string set" where
  "final_login \<equiv> {''consumed'', ''rejected'', ''expired''}"

lemma request_step_final: "request_step r r' \<Longrightarrow> lr_status r \<in> final_login \<Longrightarrow> lr_status r' \<in> final_login"
  by (induction rule: request_step.induct) auto

text \<open>A request that is approved was approved by the user it is bound to.\<close>

definition bound_approval :: "login_request_row \<Rightarrow> bool" where
  "bound_approval r = (lr_status r = ''approved'' \<longrightarrow>
     (\<exists>tg. lr_approved_tg r = Some tg \<and> lr_requested_tg r = Some tg))"

lemma request_step_bound: "request_step r r' \<Longrightarrow> bound_approval r \<Longrightarrow> bound_approval r'"
  by (induction rule: request_step.induct) (auto simp: bound_approval_def)

lemma requests_step_all:
  assumes "requests_step now rs rs'" and "\<forall>r \<in> set rs. P r"
    and "\<And>r. lr_status r = ''pending'' \<Longrightarrow> lr_approved_tg r = None \<Longrightarrow> P r"
    and "\<And>r r'. request_step r r' \<Longrightarrow> P r \<Longrightarrow> P r'"
  shows "\<forall>r \<in> set rs'. P r"
  using assms(1,2)
proof (cases rule: requests_step.cases)
  case (add r)
  with assms(2,3) show ?thesis by auto
next
  case (step r r')
  then have "P r'" using assms(2,4) tbl_get_mem by metis
  with step assms(2) set_tbl_put [of lr_id r' rs] show ?thesis by auto
qed auto

lemma requests_step_trace:
  \<comment> \<open>a request is still there after a step, changed by a step of its own\<close>
  assumes "requests_step now rs rs'" and "distinct (map lr_id rs)" and "r \<in> set rs"
  shows "\<exists>r' \<in> set rs'. request_step r r'"
  using assms
proof (cases rule: requests_step.cases)
  case (step q q')
  have key: "lr_id q' = lr_id q" using request_step_identity [OF step(3)] by simp
  show ?thesis
  proof (cases "lr_id r = lr_id q")
    case True
    then have "r = q" using tbl_get_distinct [OF assms(2,3)] step(2) by (metis option.inject)
    moreover have "q' \<in> set rs'" unfolding step(1) using tbl_put_mem(1) [OF assms(3)] True key by metis
    ultimately show ?thesis using step(3) by blast
  next
    case False
    then have "r \<in> set rs'" unfolding step(1) using assms(3) key by (intro tbl_put_mem(2)) simp_all
    then show ?thesis using request_step.keep by blast
  qed
qed (auto intro: request_step.keep)

subsection \<open>Every call is a step of the protocol\<close>

lemma requests_step_save:
  assumes "auth_integrity db" and "r \<in> set (login_requests db)" and "request_step r r'"
  shows "requests_step now (login_requests db) (tbl_put lr_id r' (login_requests db))"
  using assms by (auto intro!: requests_step.step tbl_get_distinct simp: auth_integrity_def)

lemma login_requests_save [simp]: "login_requests (save_login_request r db) = tbl_put lr_id r (login_requests db)"
  by (simp add: save_login_request_def)

lemma request_by_hash:
  "get_login_request_by_hash h db = Some r \<Longrightarrow> r \<in> set (login_requests db) \<and> lr_token_hash r = h"
  by (auto simp: get_login_request_by_hash_def dest: tbl_get_mem tbl_get_key)

lemma request_by_id:
  "get_login_request_by_id i db = Some r \<Longrightarrow> r \<in> set (login_requests db) \<and> lr_id r = i"
  by (auto simp: get_login_request_by_id_def dest: tbl_get_mem tbl_get_key)

lemma requests_none: "login_requests db' = login_requests db \<Longrightarrow> requests_step now (login_requests db) (login_requests db')"
  by (simp add: requests_step.none)

lemma create_login_protocol:
  "requests_step (now_utc clk) (login_requests db) (login_requests (snd (create_telegram_login cfg clk raw i ip tg p db)))"
  unfolding create_telegram_login_def Let_def
  by (auto intro!: auth_uow_snd [where P = "\<lambda>d. requests_step (now_utc clk) (login_requests db) (login_requests d)"] requests_step.intros
      simp: add_login_request_def recent_login_request_count_def split: if_splits)

lemma claim_login_protocol:
  assumes "auth_integrity db"
  shows "requests_step (now_utc clk) (login_requests db) (login_requests (snd (claim_telegram_login cfg clk raw tg n p db)))"
  unfolding claim_telegram_login_def Let_def
  by (auto intro!: auth_uow_snd [where P = "\<lambda>d. requests_step (now_utc clk) (login_requests db) (login_requests d)"] requests_step.none
      requests_step_save [OF assms] request_step.intros
      simp: split_def dest: request_by_hash split: if_splits option.splits)

lemma decide_login_protocol:
  assumes "auth_integrity db"
  shows "requests_step (now_utc clk) (login_requests db) (login_requests (snd (decide_telegram_login clk i tg b n db)))"
  unfolding decide_telegram_login_def Let_def
  by (auto intro!: auth_uow_snd [where P = "\<lambda>d. requests_step (now_utc clk) (login_requests db) (login_requests d)"] requests_step.none
      requests_step_save [OF assms] request_step.intros
      simp: split_def dest: request_by_id split: if_splits option.splits)

lemma login_status_protocol:
  assumes "auth_integrity db"
  shows "requests_step (now_utc clk) (login_requests db) (login_requests (snd (telegram_login_status cfg clk raw db)))"
  unfolding telegram_login_status_def Let_def
  by (auto intro!: auth_uow_snd [where P = "\<lambda>d. requests_step (now_utc clk) (login_requests db) (login_requests d)"] requests_step.none
      requests_step_save [OF assms] request_step.intros
      simp: split_def dest: request_by_hash split: if_splits option.splits)

lemma exchange_login_protocol:
  assumes "auth_integrity db"
  shows "requests_step (now_utc clk) (login_requests db) (login_requests (snd (exchange_telegram_login cfg clk tok raw ua ip p db)))"
  unfolding exchange_telegram_login_def Let_def
  by (auto intro!: auth_uow_snd [where P = "\<lambda>d. requests_step (now_utc clk) (login_requests db) (login_requests d)"] requests_step.none
      requests_step_save [OF assms] request_step.intros
      simp: split_def dest: request_by_hash split: if_splits option.splits)

lemma session_account_tables [simp]:
  "login_requests (snd (session_account clk s db)) = login_requests db"
  "sessions (snd (session_account clk s db)) = sessions db"
  "roles (snd (session_account clk s db)) = roles db"
  "role_members (snd (session_account clk s db)) = role_members db"
  "securities (snd (session_account clk s db)) = securities db"
  by (simp_all add: session_account_def split_def Let_def)

lemma save_identity_tables [simp]:
  "login_requests (accounts_save_identity i db) = login_requests db"
  "sessions (accounts_save_identity i db) = sessions db"
  "roles (accounts_save_identity i db) = roles db"
  "role_members (accounts_save_identity i db) = role_members db"
  "securities (accounts_save_identity i db) = securities db"
  by (simp_all add: accounts_save_identity_def)

lemma create_session_keeps:
  "create_session cfg tok tg acc m ua ip now p db = (x, db') \<Longrightarrow>
     login_requests db' = login_requests db \<and> roles db' = roles db \<and> role_members db' = role_members db \<and>
     securities db' = securities db"
  using create_session_tables [of cfg tok tg acc m ua ip now p db] by simp

lemma session_calls_requests:
  "login_requests (snd (create_emby_session cfg clk tok e u ua ip db)) = login_requests db"
  "login_requests (snd (create_local_session cfg scrypt cf clk tok uo pw ua ip p db)) = login_requests db"
  "login_requests (snd (create_account_session cfg clk tok a ua ip p db)) = login_requests db"
  "login_requests (snd (record_emby_login_failure clk ip f db)) = login_requests db"
  "login_requests (snd (authenticate cfg clk raw db)) = login_requests db"
  "login_requests (snd (logout clk i ac db)) = login_requests db"
  "login_requests (snd (logout_all clk tg ac db)) = login_requests db"
  unfolding auth_ops Let_def
  by (auto intro!: auth_uow_snd [where P = "\<lambda>d. login_requests d = login_requests db"]
      dest!: create_session_keeps simp: split_def bind_attempt_Inr_iff revoke_user_sessions_def revoke_account_sessions_def
      split: if_splits option.splits prod.splits)

lemma role_calls_requests:
  "login_requests (snd (create_role clk rn ps a db)) = login_requests db"
  "login_requests (snd (update_role clk i ps a db)) = login_requests db"
  "login_requests (snd (delete_role clk i a db)) = login_requests db"
  "login_requests (snd (set_role clk tg rn b a db)) = login_requests db"
  unfolding auth_ops Let_def
  by (auto intro!: auth_uow_snd [where P = "\<lambda>d. login_requests d = login_requests db"]
      simp: split_def split: if_splits option.splits)

lemma auth_after_protocol:
  assumes "auth_integrity db"
  shows "requests_step (call_time c) (login_requests db) (login_requests (auth_after env c db))"
  using assms
  by (cases c)
    (auto intro: create_login_protocol claim_login_protocol decide_login_protocol login_status_protocol
       exchange_login_protocol requests_none simp: session_calls_requests role_calls_requests)

end
