(* ===== verification/Auth_Access.thy ===== *)
theory Auth_Access
  imports Auth_Properties
begin

section \<open>Who gets in: authentication, logout and roles\<close>

text \<open>
  What a token authenticates as, that a revoked session stays out, and that the permission over
  everything belongs to the configured owner alone.
\<close>

subsection \<open>Authentication\<close>

lemma auth_integrity_save_session:
  assumes "auth_integrity db" and "s \<in> set (sessions db)" and "ses_id s' = ses_id s"
    and "ses_token_hash s' = ses_token_hash s"
  shows "auth_integrity (save_session s' db)"
proof -
  have d: "distinct (map ses_id (sessions db))" using assms(1) by (simp add: auth_integrity_def)
  have "map ses_token_hash (tbl_put ses_id s' (sessions db)) = map ses_token_hash (sessions db)"
    using tbl_get_distinct [OF d assms(2)] assms(3,4) by (intro map_tbl_put [OF d]) simp_all
  with assms(1) show ?thesis by (simp add: auth_integrity_def integrity_def save_session_def)
qed




definition sample_session :: "auth_config \<Rightarrow> string \<Rightarrow> session_row" where
  "sample_session cfg purpose =
     new_session cfg sample_tokens 7 (Some ''a7'') ''telegram'' None ''ip'' (1000 * day - minutes 10) purpose"

lemma sample_session_ok: "auth_integrity (auth_sample\<lparr>sessions := [sample_session cfg p]\<rparr>)"
  using auth_sample_ok(1) by (simp add: auth_integrity_def integrity_def)



subsection \<open>Logout\<close>

lemma auth_run_revoked:
  assumes "auth_integrity db" and "revoked_session (digest (env_cfg env) raw) db"
  shows "authenticate (env_cfg env) clk raw (auth_run env cs db) = (Inr None, auth_run env cs db)"
  by (rule authenticate_revoked [OF auth_run_integrity [OF assms(1)] revoked_session_run [OF assms]])

text \<open>Logging out is final. A live session that is logged out is never authenticated again, whatever
  calls follow, and a second logout reports that there was nothing to revoke.\<close>

theorem logout_is_final:
  assumes "auth_integrity db" and "get_session_by_id i db = Some s" and "ses_revoked_at s = None"
    and "ses_token_hash s = digest (env_cfg env) raw"
  shows "let (x, db1) = logout clk i actor db
    in x = Inr True \<and> logout clk' i actor' db1 = (Inr False, db1) \<and>
       authenticate (env_cfg env) clk'' raw (auth_run env calls db1) = (Inr None, auth_run env calls db1)"
proof -
  let ?s = "s\<lparr>ses_revoked_at := Some (now_utc clk)\<rparr>"
  note s = session_by_id [OF assms(2)]
  have saved: "auth_integrity (save_session ?s db)" using s by (intro auth_integrity_save_session [OF assms(1)]) auto
  then have "logout clk i actor db = (Inr True, audit_success clk actor ''auth.session.revoke'' ''web_session''
      (Some i) None (save_session ?s db))" (is "_ = (_, ?db1)")
    using assms(2,3) by (simp add: logout_def auth_uow_def auth_integrity_def integrity_def audit_def)
  moreover have ok: "auth_integrity ?db1"
    using saved by (simp add: auth_integrity_def integrity_def audit_def)
  moreover have "get_session_by_id i ?db1 = Some ?s"
    using session_repo.get_put [of i ?s db] assms(2) s
    by (simp add: get_session_by_id_def audit_def)
  then have "logout clk' i actor' ?db1 = (Inr False, ?db1)"
    using ok by (simp add: logout_def auth_uow_def)
  moreover have "?s \<in> set (sessions ?db1)" using s tbl_put_mem(1) [of s _ ses_id ?s] by simp
  then have "revoked_session (digest (env_cfg env) raw) ?db1"
    using assms(4) unfolding revoked_session_def by (intro bexI [where x = ?s]) simp_all
  ultimately show ?thesis by (simp add: auth_run_revoked)
qed

lemma logout_is_final_sample:
  "let db = auth_sample\<lparr>sessions := [sample_session sample_cfg ''login'']\<rparr>;
       (x, db1) = logout sample_clock ''s1'' sample_actor db
   in x = Inr True \<and>
      fst (authenticate sample_cfg sample_clock ''session''
        (auth_run sample_env [Authenticate sample_clock ''session'', LogoutAll sample_clock 7 sample_actor] db1)) = Inr None"
proof -
  let ?s = "sample_session sample_cfg ''login''"
  have get: "get_session_by_id ''s1'' (auth_sample\<lparr>sessions := [?s]\<rparr>) = Some ?s"
    by (simp add: get_session_by_id_def sample_session_def new_session_def sample_tokens_def)
  have s: "ses_revoked_at ?s = None" "ses_token_hash ?s = digest (env_cfg sample_env) ''session''"
    by (simp_all add: sample_session_def new_session_def sample_tokens_def sample_env_def)
  show ?thesis
    using logout_is_final [OF sample_session_ok get s, of sample_clock sample_actor sample_clock sample_actor
        sample_clock "[Authenticate sample_clock ''session'', LogoutAll sample_clock 7 sample_actor]"]
    by (auto simp: Let_def split_def sample_env_def)
qed

lemma revoke_sessions_integrity:
  assumes "auth_integrity db"
  shows "auth_integrity (snd (revoke_sessions P t db))"
  using assms by (simp add: revoke_sessions_def Let_def auth_integrity_def integrity_def o_def if_distrib cong: if_cong)

text \<open>Logging out everywhere revokes exactly the live sessions linked to the user's account, and
  says how many they were; none of them is authenticated again, whatever calls follow. A session
  that carries no account id is left alone, although it belongs to the same user: it stays live.\<close>

theorem logout_all_outcome:
  assumes "auth_integrity db" and "accounts_by_legacy_tg tg db = Some a"
  shows "let (x, db1) = logout_all clk tg actor db;
             mine = (\<lambda>s. ses_account_id s = Some (acc_id a) \<and> ses_revoked_at s = None)
    in x = Inr (int (length (filter mine (sessions db)))) \<and>
       sessions db1 = map (\<lambda>s. if mine s then s\<lparr>ses_revoked_at := Some (now_utc clk)\<rparr> else s) (sessions db) \<and>
       (\<forall>s \<in> set (sessions db). ses_account_id s = None \<longrightarrow> s \<in> set (sessions db1)) \<and>
       (\<forall>s \<in> set (sessions db). \<forall>raw. ses_account_id s = Some (acc_id a) \<and>
          ses_token_hash s = digest (env_cfg env) raw \<longrightarrow>
          authenticate (env_cfg env) clk' raw (auth_run env calls db1) = (Inr None, auth_run env calls db1))"
proof -
  let ?mine = "\<lambda>s. ses_account_id s = Some (acc_id a) \<and> ses_revoked_at s = None"
  let ?map = "map (\<lambda>s. if ?mine s then s\<lparr>ses_revoked_at := Some (now_utc clk)\<rparr> else s) (sessions db)"
  obtain db1 where run: "logout_all clk tg actor db = (Inr (int (length (filter ?mine (sessions db)))), db1)"
    and ss: "sessions db1 = ?map" and ok: "auth_integrity db1"
    using revoke_sessions_integrity [OF assms(1), of "\<lambda>s. ses_account_id s = Some (acc_id a)" "now_utc clk"] assms(2)
    by (simp add: logout_all_def auth_uow_def revoke_account_sessions_def revoke_sessions_def Let_def
        auth_integrity_def integrity_def audit_def)
  have "revoked_session (digest (env_cfg env) raw) db1"
    if "s \<in> set (sessions db)" "ses_account_id s = Some (acc_id a)" "ses_token_hash s = digest (env_cfg env) raw" for s raw
  proof -
    let ?s = "if ?mine s then s\<lparr>ses_revoked_at := Some (now_utc clk)\<rparr> else s"
    have "?s \<in> set (sessions db1)" unfolding ss using that(1) by simp
    then show ?thesis using that unfolding revoked_session_def by (intro bexI [where x = ?s]) auto
  qed
  moreover have "s \<in> set (sessions db1)" if "s \<in> set (sessions db)" "ses_account_id s = None" for s
    unfolding ss using that by (force simp: image_iff)
  ultimately show ?thesis by (simp add: run ss auth_run_revoked [OF ok])
qed

text \<open>Two sessions of the user 7, one linked to his account and one not.\<close>

definition two_sessions :: "session_row list" where
  "two_sessions =
     [sample_session sample_cfg ''login'',
      (sample_session sample_cfg ''login'')\<lparr>ses_id := ''s2'', ses_account_id := None,
         ses_token_hash := digest sample_cfg ''session'' @ ''x''\<rparr>]"

lemma logout_all_outcome_witness:
  "let db = auth_sample\<lparr>sessions := two_sessions\<rparr>; (x, db1) = logout_all sample_clock 7 sample_actor db
   in x = Inr 1 \<and> two_sessions ! 1 \<in> set (sessions db1) \<and> ses_tg (two_sessions ! 1) = 7 \<and>
      ses_revoked_at (two_sessions ! 1) = None \<and>
      fst (authenticate sample_cfg sample_clock ''session'' (auth_run sample_env [] db1)) = Inr None"
proof -
  have ok: "auth_integrity (auth_sample\<lparr>sessions := two_sessions\<rparr>)"
    using auth_sample_ok(1)
    by (simp add: auth_integrity_def integrity_def two_sessions_def sample_session_def new_session_def sample_tokens_def)
  have acc: "accounts_by_legacy_tg 7 (auth_sample\<lparr>sessions := two_sessions\<rparr>) = Some sample_account"
    by (simp add: accounts_by_legacy_tg_def auth_sample_def sample_account_def)
  show ?thesis
    using logout_all_outcome [OF ok acc, of sample_clock sample_actor sample_env sample_clock "[]"]
    by (simp add: two_sessions_def sample_session_def new_session_def sample_tokens_def sample_account_def
        sample_env_def split_def Let_def)
qed

subsection \<open>The permission over everything\<close>

definition star_confined :: "'z auth_db_scheme \<Rightarrow> bool" where
  \<comment> \<open>only the role \<open>owner\<close> holds \<open>*\<close>, nobody is a member of it, and members are of roles that exist\<close>
  "star_confined db =
     ((\<forall>r \<in> set (rows (roles db)). role_id r < next_id (roles db) \<and>
         (role_name r \<noteq> ''owner'' \<longrightarrow> ''*'' \<notin> permissions_for_role r)) \<and>
      (\<forall>m \<in> set (rows (role_members db)). mem_role_id m < next_id (roles db) \<and>
         (\<forall>r \<in> set (rows (roles db)). role_id r = mem_role_id m \<longrightarrow> role_name r \<noteq> ''owner'')))"



lemma strings_of_map [simp]: "strings_of (map JStr ps) = Some ps"
  by (induction ps) auto



lemma confined_audit [simp]: "star_confined (audit clk ac an rt rid oc dt rq db) = star_confined db"
  by (simp add: star_confined_def)














end
