(* ===== verification/Account_Schema.thy ===== *)
theory Account_Schema
  imports Auth_Service
begin

section \<open>Membership plans, memberships and tags\<close>

text \<open>
  The tables \<open>MembershipPlan\<close>, \<open>AccountMembership\<close>, \<open>AccountTag\<close> and \<open>AccountTagAssignment\<close>, the rest
  of \<open>AccountRepository\<close> in \<open>bot/repositories/accounts.py\<close>, and the unit of work over them.
\<close>

record plan_row =
  pl_id :: int
  pl_code :: string
  pl_name :: string
  pl_description :: "string option"
  pl_duration_days :: int
  pl_legacy_level :: string
  pl_entitlements :: jval
  pl_enabled :: bool
  pl_is_default :: bool
  pl_sort_order :: int
  pl_revision :: int
  pl_created_at :: datetime
  pl_updated_at :: datetime

record membership_row =
  mb_id :: string
  mb_account_id :: string
  mb_plan_id :: int
  mb_status :: string
  mb_starts_at :: datetime
  mb_expires_at :: "datetime option"
  mb_source :: string
  mb_created_by_kind :: string
  mb_created_by_id :: string
  mb_created_at :: datetime
  mb_updated_at :: datetime

record tag_row =
  tg_id :: int
  tg_name :: string
  tg_color :: string
  tg_description :: "string option"
  tg_created_at :: datetime
  tg_updated_at :: datetime

record assignment_row =
  asg_id :: int
  asg_account_id :: string
  asg_tag_id :: int
  asg_by_kind :: string
  asg_by_id :: string
  asg_created_at :: datetime

record account_db = auth_db +
  plans :: "plan_row auto_table"
  memberships :: "membership_row list"
  tags :: "tag_row auto_table"
  assignments :: "assignment_row auto_table"

definition asg_key :: "assignment_row \<Rightarrow> string \<times> int" where
  "asg_key a = (asg_account_id a, asg_tag_id a)"

definition account_integrity :: "'z account_db_scheme \<Rightarrow> bool" where
  "account_integrity db =
     (auth_integrity db \<and>
      distinct (map pl_id (rows (plans db))) \<and> distinct (map pl_code (rows (plans db))) \<and>
      distinct (map mb_id (memberships db)) \<and>
      distinct (map tg_id (rows (tags db))) \<and> distinct (map tg_name (rows (tags db))) \<and>
      distinct (map asg_key (rows (assignments db))))"

subsection \<open>Plans\<close>

definition default_plan :: "'z account_db_scheme \<Rightarrow> plan_row option" where
  "default_plan db =
     (case sort_key pl_sort_order (filter (\<lambda>p. pl_enabled p \<and> pl_is_default p) (rows (plans db))) of
        [] \<Rightarrow> None | p # _ \<Rightarrow> Some p)"

definition get_plan :: "int \<Rightarrow> 'z account_db_scheme \<Rightarrow> plan_row option" where
  [op_defs]: "get_plan i db = tbl_get pl_id i (rows (plans db))"

definition save_plan :: "plan_row \<Rightarrow> 'z account_db_scheme \<Rightarrow> 'z account_db_scheme" where
  [op_defs]: "save_plan p db = db\<lparr>plans := (plans db)\<lparr>rows := tbl_put pl_id p (rows (plans db))\<rparr>\<rparr>"

definition accounts_list_plans :: "bool \<Rightarrow> 'z account_db_scheme \<Rightarrow> plan_row list" where
  "accounts_list_plans enabled_only db =
     sort_key pl_sort_order (sort_key pl_id
       (if enabled_only then filter pl_enabled (rows (plans db)) else rows (plans db)))"

definition add_plan :: "(int \<Rightarrow> plan_row) \<Rightarrow> 'z account_db_scheme \<Rightarrow> 'z account_db_scheme" where
  "add_plan mk db = db\<lparr>plans := insert_auto mk (plans db)\<rparr>"

interpretation plan_repo: keyed_store get_plan save_plan pl_id
  by unfold_locales
    (auto simp: op_defs tbl_get_put_same tbl_get_put_other tbl_put_absent dest: tbl_get_key)

subsection \<open>Memberships\<close>

definition open_membership :: "string \<Rightarrow> membership_row \<Rightarrow> bool" where
  "open_membership account_id m = (mb_account_id m = account_id \<and> mb_status m \<in> {''active'', ''suspended''})"

definition active_membership :: "string \<Rightarrow> 'z account_db_scheme \<Rightarrow> membership_row option" where
  "active_membership account_id db =
     (case sort_key (\<lambda>m. - mb_created_at m) (filter (open_membership account_id) (memberships db)) of
        [] \<Rightarrow> None | m # _ \<Rightarrow> Some m)"

definition add_membership :: "membership_row \<Rightarrow> 'z account_db_scheme \<Rightarrow> 'z account_db_scheme" where
  "add_membership m db = db\<lparr>memberships := memberships db @ [m]\<rparr>"

definition save_membership :: "membership_row \<Rightarrow> 'z account_db_scheme \<Rightarrow> 'z account_db_scheme" where
  "save_membership m db = db\<lparr>memberships := tbl_put mb_id m (memberships db)\<rparr>"

subsection \<open>Tags\<close>

definition accounts_list_tags :: "'z account_db_scheme \<Rightarrow> tag_row list" where
  "accounts_list_tags db = sort_key tg_name (rows (tags db))"

definition get_tag :: "int \<Rightarrow> 'z account_db_scheme \<Rightarrow> tag_row option" where
  "get_tag i db = tbl_get tg_id i (rows (tags db))"

definition get_tag_by_name :: "string \<Rightarrow> 'z account_db_scheme \<Rightarrow> tag_row option" where
  "get_tag_by_name name db = find (\<lambda>t. py_lower (tg_name t) = py_lower name) (rows (tags db))"

definition add_tag :: "(int \<Rightarrow> tag_row) \<Rightarrow> 'z account_db_scheme \<Rightarrow> 'z account_db_scheme" where
  "add_tag mk db = db\<lparr>tags := insert_auto mk (tags db)\<rparr>"

definition accounts_delete_tag :: "int \<Rightarrow> 'z account_db_scheme \<Rightarrow> 'z account_db_scheme" where
  "accounts_delete_tag i db =
     db\<lparr>assignments := (assignments db)\<lparr>rows := filter (\<lambda>a. asg_tag_id a \<noteq> i) (rows (assignments db))\<rparr>,
        tags := (tags db)\<lparr>rows := tbl_del tg_id i (rows (tags db))\<rparr>\<rparr>"

definition get_assignment :: "string \<Rightarrow> int \<Rightarrow> 'z account_db_scheme \<Rightarrow> assignment_row option" where
  "get_assignment account_id i db = tbl_get asg_key (account_id, i) (rows (assignments db))"

definition add_assignment :: "(int \<Rightarrow> assignment_row) \<Rightarrow> 'z account_db_scheme \<Rightarrow> 'z account_db_scheme" where
  "add_assignment mk db = db\<lparr>assignments := insert_auto mk (assignments db)\<rparr>"

definition remove_assignment :: "string \<Rightarrow> int \<Rightarrow> 'z account_db_scheme \<Rightarrow> int \<times> 'z account_db_scheme" where
  "remove_assignment account_id i db =
     (int (length (filter (\<lambda>a. asg_key a = (account_id, i)) (rows (assignments db)))),
      db\<lparr>assignments := (assignments db)\<lparr>rows := tbl_del asg_key (account_id, i) (rows (assignments db))\<rparr>\<rparr>)"

definition tags_for_account :: "string \<Rightarrow> 'z account_db_scheme \<Rightarrow> tag_row list" where
  "tags_for_account account_id db =
     sort_key tg_name (filter (\<lambda>t. \<exists>a \<in> set (rows (assignments db)).
       asg_account_id a = account_id \<and> asg_tag_id a = tg_id t) (rows (tags db)))"

subsection \<open>The search for accounts\<close>

definition like_null :: "string \<Rightarrow> string option \<Rightarrow> bool" where
  \<comment> \<open>a null matches no pattern\<close>
  "like_null pattern x = (case x of None \<Rightarrow> False | Some s \<Rightarrow> sql_like pattern s)"

definition account_match ::
  "string option \<Rightarrow> string option \<Rightarrow> int option \<Rightarrow> 'z account_db_scheme \<Rightarrow> account_row \<Rightarrow> bool" where
  "account_match search status tag db r =
     ((truthy_str search \<longrightarrow>
         (let pattern = ''%'' @ py_strip (the search) @ ''%''
          in like_null pattern (acc_display_name r) \<or>
             (\<exists>i \<in> set (identities db). idn_account_id i = acc_id r \<and>
                (like_null pattern (idn_username i) \<or> sql_like pattern (idn_subject i))))) \<and>
      (truthy_str status \<longrightarrow> Some (acc_status r) = status) \<and>
      (int_or_0 tag \<noteq> 0 \<longrightarrow>
         (\<exists>a \<in> set (rows (assignments db)). asg_account_id a = acc_id r \<and> Some (asg_tag_id a) = tag)))"

definition accounts_list_accounts ::
  "string option \<Rightarrow> string option \<Rightarrow> int option \<Rightarrow> int \<Rightarrow> int \<Rightarrow> 'z account_db_scheme \<Rightarrow>
   account_row list \<times> int" where
  "accounts_list_accounts search status tag lim off db =
     (let hits = filter (account_match search status tag db) (accounts db)
      in (sql_page off lim (sort_key (\<lambda>r. - acc_created_at r) hits), int (length hits)))"

end
