(* ===== verification/Account_Service.thy ===== *)
theory Account_Service
  imports Account_Schema
begin

section \<open>The account service\<close>

text \<open>
  \<open>AccountService\<close> of \<open>bot/application/account_service.py\<close>: Telegram and local accounts, membership
  plans and their assignment, and tags. Salts, generated ids, \<open>scrypt\<close> and the data of
  \<open>str.casefold\<close> are arguments. The sessions of the program do not flush before a query, so an
  answer built inside a unit of work does not see the rows that were only added: where that
  happens the model reads from the database without them.
\<close>

abbreviation account_uow ::
  "('z account_db_scheme \<Rightarrow> ('a \<times> 'z account_db_scheme) attempt) \<Rightarrow> 'z account_db_scheme \<Rightarrow>
   ('a, 'z account_db_scheme) outcome" where
  "account_uow \<equiv> commit_with account_integrity"

definition or_taken :: "(service_result, 's) outcome \<Rightarrow> (service_result, 's) outcome" where
  \<comment> \<open>\<open>except IntegrityError: return ServiceResult("username_taken")\<close>\<close>
  "or_taken x = (if fst x = Inl IntegrityError then (Inr (result ''username_taken'' []), snd x) else x)"

subsection \<open>Views\<close>

definition serialize_plan :: "plan_row \<Rightarrow> jval" where
  "serialize_plan p =
     JDict [(''id'', JInt (pl_id p)), (''code'', JStr (pl_code p)), (''name'', JStr (pl_name p)),
            (''description'', jopt_str (pl_description p)),
            (''duration_days'', JInt (pl_duration_days p)),
            (''legacy_level'', JStr (pl_legacy_level p)),
            (''entitlements'', pl_entitlements p), (''enabled'', JBool (pl_enabled p)),
            (''is_default'', JBool (pl_is_default p)), (''sort_order'', JInt (pl_sort_order p)),
            (''revision'', JInt (pl_revision p)), (''created_at'', JTime (pl_created_at p)),
            (''updated_at'', JTime (pl_updated_at p))]"

definition serialize_tag :: "tag_row \<Rightarrow> jdict" where
  "serialize_tag t =
     [(''id'', JInt (tg_id t)), (''name'', JStr (tg_name t)), (''color'', JStr (tg_color t)),
      (''description'', jopt_str (tg_description t)), (''created_at'', JTime (tg_created_at t)),
      (''updated_at'', JTime (tg_updated_at t))]"

definition identity_view :: "identity_row \<Rightarrow> jval" where
  "identity_view i =
     JDict [(''provider'', JStr (idn_provider i)),
            (''subject'', if idn_provider i \<noteq> ''local'' then JStr (idn_subject i) else JNull),
            (''username'', jopt_str (idn_username i)), (''verified_at'', jopt_time (idn_verified_at i)),
            (''last_used_at'', jopt_time (idn_last_used_at i))]"

definition telegram_id :: "identity_row list \<Rightarrow> jval attempt" where
  "telegram_id ids =
     (case find (\<lambda>i. idn_provider i = ''telegram'') ids of
        None \<Rightarrow> Inr JNull
      | Some i \<Rightarrow> (case py_int (idn_subject i) of
            None \<Rightarrow> Inl (ValueError (''invalid literal for int() with base 10: '' @ idn_subject i))
          | Some n \<Rightarrow> Inr (JInt n)))"

definition wallet_balance_of :: "string \<Rightarrow> string \<Rightarrow> 'z core_db_scheme \<Rightarrow> int" where
  "wallet_balance_of account_id balance_type db =
     (case accounts_wallet account_id balance_type db of None \<Rightarrow> 0 | Some w \<Rightarrow> wal_balance w)"

definition membership_view :: "string \<Rightarrow> 'z account_db_scheme \<Rightarrow> jval" where
  "membership_view account_id db =
     (case active_membership account_id db of
        None \<Rightarrow> JNull
      | Some m \<Rightarrow> (case get_plan (mb_plan_id m) db of
            None \<Rightarrow> JNull
          | Some p \<Rightarrow> JDict [(''id'', JStr (mb_id m)), (''status'', JStr (mb_status m)),
              (''starts_at'', JTime (mb_starts_at m)), (''expires_at'', jopt_time (mb_expires_at m)),
              (''plan'', serialize_plan p)]))"

definition emby_view :: "int \<Rightarrow> 'z core_db_scheme \<Rightarrow> jval" where
  "emby_view tg db =
     (case users_get_for_update tg db of
        None \<Rightarrow> JNull
      | Some u \<Rightarrow> JDict [(''id'', jopt_str (emby_embyid u)), (''username'', jopt_str (emby_name u)),
            (''level'', jopt_str (emby_lv u)), (''expires_at'', jopt_time (emby_ex u))])"

definition serialize_account :: "account_row \<Rightarrow> 'z account_db_scheme \<Rightarrow> jdict attempt" where
  "serialize_account a db =
     bind_attempt (telegram_id (accounts_identities (acc_id a) db)) (\<lambda>tg. Inr
       [(''id'', JStr (acc_id a)), (''account_id'', JStr (acc_id a)),
        (''legacy_tg'', JInt (acc_legacy_tg a)), (''tg'', tg),
        (''display_name'', jopt_str (acc_display_name a)), (''status'', JStr (acc_status a)),
        (''identities'', JList (map identity_view (accounts_identities (acc_id a) db))),
        (''membership'', membership_view (acc_id a) db),
        (''tags'', JList (map (JDict \<circ> serialize_tag) (tags_for_account (acc_id a) db))),
        (''wallets'', JDict (map (\<lambda>bt. (bt, JInt (wallet_balance_of (acc_id a) bt db)))
           [''coins'', ''registration_days''])),
        (''emby'', emby_view (acc_legacy_tg a) db),
        (''created_at'', JTime (acc_created_at a)), (''updated_at'', JTime (acc_updated_at a))])"

subsection \<open>Names, wallets and Telegram accounts\<close>

definition username_message :: string where
  "username_message = text_of [0x767B, 0x5F55, 0x540D, 0x9700, 0x8981, 0x20, 0x33, 0x2D, 0x33, 0x32, 0x20,
     0x4E2A, 0x5B57, 0x7B26, 0xFF0C, 0x4E0D, 0x80FD, 0x5305, 0x542B, 0x7A7A, 0x683C, 0x3001, 0x659C, 0x6760,
     0x6216, 0x5C16, 0x62EC, 0x53F7]"

definition username_ok :: "string \<Rightarrow> bool" where
  \<comment> \<open>\<open>LOCAL_USERNAME_PATTERN\<close>: 3 to 32 code points, no space, slash, backslash or angle bracket\<close>
  "username_ok s =
     (3 \<le> py_len s \<and> py_len s \<le> 32 \<and> list_all (\<lambda>c. c \<notin> {CHR ''/'', CHR 0x5C, CHR ''<'', CHR ''>''}) s \<and>
      list_all (\<lambda>w. \<not> py_in w s) spaces)"

definition normalize_username :: "(string \<Rightarrow> string) \<Rightarrow> string \<Rightarrow> (string \<times> string) attempt" where
  "normalize_username casefold v =
     (let username = py_strip v
      in if username_ok username then Inr (username, casefold username)
         else Inl (ValueError username_message))"

definition ensure_wallet :: "clock \<Rightarrow> string \<Rightarrow> string \<Rightarrow> int option \<Rightarrow> 'z core_db_scheme \<Rightarrow> 'z core_db_scheme" where
  "ensure_wallet clk account_id balance_type v db =
     (if accounts_wallet account_id balance_type db = None
      then accounts_add_wallet (\<lambda>i. \<lparr>wal_id = i, wal_account_id = account_id, wal_balance_type = balance_type,
             wal_balance = int_or_0 v, wal_revision = 1, wal_updated_at = now_utc clk\<rparr>) db
      else db)"

definition ensure_wallets :: "clock \<Rightarrow> string \<Rightarrow> emby_row \<Rightarrow> 'z core_db_scheme \<Rightarrow> 'z core_db_scheme" where
  "ensure_wallets clk account_id legacy db =
     ensure_wallet clk account_id ''registration_days'' (emby_us legacy)
       (ensure_wallet clk account_id ''coins'' (emby_iv legacy) db)"

definition accounts_save_account :: "account_row \<Rightarrow> 'z core_db_scheme \<Rightarrow> 'z core_db_scheme" where
  "accounts_save_account a db = db\<lparr>accounts := tbl_put acc_id a (accounts db)\<rparr>"

definition ensure_telegram_account ::
  "clock \<Rightarrow> int \<Rightarrow> string option \<Rightarrow> 'z account_db_scheme \<Rightarrow> (jdict, 'z account_db_scheme) outcome" where
  "ensure_telegram_account clk tg display_name db0 =
     account_uow (\<lambda>db.
       case accounts_by_legacy_tg tg db of
         None \<Rightarrow>
           let name = (if truthy_str display_name then the display_name else ''TG '' @ show_int tg);
               row = (new_account clk tg)\<lparr>acc_display_name := Some (py_take 255 name)\<rparr>;
               ((legacy, _), db1) = users_add_if_missing tg (accounts_add_account row db);
               legacy' = (if truthy_str display_name \<and> \<not> truthy_str (emby_name legacy)
                          then legacy\<lparr>emby_name := Some (py_take 255 (the display_name))\<rparr> else legacy);
               db2 = users_save legacy' db1;
               db3 = ensure_wallets clk (acc_id row) legacy' (accounts_add_identity (new_identity clk tg) db2)
           in bind_attempt (serialize_account row db2) (\<lambda>view. Inr (view, db3))
       | Some row \<Rightarrow>
           let row' = (if truthy_str display_name \<and> \<not> truthy_str (acc_display_name row)
                       then row\<lparr>acc_display_name := Some (py_take 255 (the display_name)),
                                acc_updated_at := now_utc clk\<rparr> else row);
               db1 = accounts_save_account row' db
           in bind_attempt (serialize_account row' db1) (\<lambda>view. Inr (view, db1))) db0"

subsection \<open>Local accounts\<close>

definition local_identity_row ::
  "clock \<Rightarrow> string \<Rightarrow> string \<Rightarrow> string \<Rightarrow> string \<Rightarrow> string \<Rightarrow> identity_row" where
  "local_identity_row clk identity_id account_id username normalized password_hash =
     \<lparr>idn_id = identity_id, idn_account_id = account_id, idn_provider = ''local'',
      idn_subject = normalized, idn_username = Some username, idn_username_normalized = Some normalized,
      idn_password_hash = Some password_hash, idn_verified_at = Some (now_utc clk),
      idn_last_used_at = None, idn_disabled = False, idn_metadata = None,
      idn_created_at = now_utc clk, idn_updated_at = now_utc clk\<rparr>"

record account_env =
  \<comment> \<open>what the calls take from outside the program\<close>
  ae_scrypt :: scrypt_fun
  ae_casefold :: "string \<Rightarrow> string"
  ae_salt :: "nat list"
  ae_account_id :: string
  ae_identity_id :: string

definition credentials :: "account_env \<Rightarrow> string \<Rightarrow> string \<Rightarrow> (string \<times> string \<times> string) attempt" where
  \<comment> \<open>\<open>normalize_username\<close>, then \<open>PasswordHasher.hash\<close>\<close>
  "credentials env username password =
     bind_attempt (normalize_username (ae_casefold env) username) (\<lambda>(u, normalized).
     bind_attempt (hash_password (ae_scrypt env) (ae_salt env) password) (\<lambda>h. Inr (u, normalized, h)))"

definition create_local ::
  "account_env \<Rightarrow> clock \<Rightarrow> string \<Rightarrow> string \<Rightarrow> string option \<Rightarrow> actor \<Rightarrow> string option \<Rightarrow> int \<Rightarrow>
   'z account_db_scheme \<Rightarrow> (service_result, 'z account_db_scheme) outcome" where
  "create_local env clk username0 password display_name actor ip_address hourly_limit db0 =
     (case credentials env username0 password of
        Inl e \<Rightarrow> (Inl e, db0)
      | Inr (username, normalized, password_hash) \<Rightarrow>
          or_taken (account_uow (\<lambda>db.
            if truthy_str ip_address \<and>
               recent_security_event_count ''registration.local.created'' (the ip_address)
                 (now_utc clk - 60 * minutes 1) db \<ge> max 1 hourly_limit then
              Inr (result ''rate_limited'' [], db)
            else if accounts_local_identity normalized db \<noteq> None then Inr (result ''username_taken'' [], db)
            else
              let legacy_tg = accounts_next_local_legacy_key db;
                  account_id = ae_account_id env;
                  account = \<lparr>acc_id = account_id, acc_legacy_tg = legacy_tg,
                    acc_display_name = Some (py_take 255 (py_strip
                      (if truthy_str display_name then the display_name else username))),
                    acc_status = ''active'', acc_created_at = now_utc clk, acc_updated_at = now_utc clk\<rparr>;
                  legacy = new_emby legacy_tg;
                  db1 = accounts_add_account account db;
                  db2 = accounts_add_identity (local_identity_row clk (ae_identity_id env) account_id
                          username normalized password_hash) db1;
                  db3 = ensure_wallets clk account_id legacy (users_insert legacy db2);
                  db4 = audit_success clk actor ''account.local.create'' ''account'' (Some account_id)
                          (Some (JDict [(''username'', JStr username)])) db3;
                  db5 = event clk ''account.created'' ''account'' (Some account_id)
                          (Some (JDict [(''account_id'', JStr account_id), (''legacy_tg'', JInt legacy_tg),
                                        (''provider'', JStr ''local'')])) db4;
                  db6 = (if truthy_str ip_address then
                      security_event clk ''registration.local.created'' ''info'' (Some ''account'')
                        (Some account_id) ip_address None db5
                    else db5)
              in bind_attempt (serialize_account account db6) (\<lambda>view. Inr (result ''ok'' view, db6))) db0))"

definition own_local :: "string \<Rightarrow> 'z core_db_scheme \<Rightarrow> identity_row option" where
  "own_local account_id db = find (\<lambda>i. idn_provider i = ''local'') (accounts_identities account_id db)"

definition bootstrap_owner ::
  "account_env \<Rightarrow> clock \<Rightarrow> int \<Rightarrow> string \<Rightarrow> string \<Rightarrow> 'z account_db_scheme \<Rightarrow>
   (service_result, 'z account_db_scheme) outcome" where
  "bootstrap_owner env clk owner_tg username0 password db0 =
     (case credentials env username0 password of
        Inl e \<Rightarrow> (Inl e, db0)
      | Inr (username, normalized, password_hash) \<Rightarrow>
          (case ensure_telegram_account clk owner_tg (Some ''Sakura Owner'') db0 of
             (Inl e, d) \<Rightarrow> (Inl e, d)
           | (Inr _, d) \<Rightarrow>
               or_taken (account_uow (\<lambda>db.
                 case accounts_by_legacy_tg owner_tg db of
                   None \<Rightarrow> Inr (result ''account_not_found'' [], db)
                 | Some account \<Rightarrow>
                     (case own_local (acc_id account) db of
                        Some own \<Rightarrow> Inr (result ''already_configured''
                          [(''account_id'', JStr (acc_id account)), (''username'', jopt_str (idn_username own))], db)
                      | None \<Rightarrow>
                          if accounts_local_identity normalized db \<noteq> None then
                            Inr (result ''username_taken'' [], db)
                          else
                            let db1 = accounts_add_identity (local_identity_row clk (ae_identity_id env)
                                  (acc_id account) username normalized password_hash) db
                            in Inr (result ''ok'' [(''account_id'', JStr (acc_id account)),
                                                   (''username'', JStr username)],
                                    audit_success clk (actor_system ''web-owner-bootstrap'')
                                      ''account.owner.bootstrap'' ''account'' (Some (acc_id account))
                                      (Some (JDict [(''username'', JStr username)])) db1))) d)))"

definition add_local_identity ::
  "account_env \<Rightarrow> clock \<Rightarrow> string \<Rightarrow> string \<Rightarrow> string \<Rightarrow> actor \<Rightarrow> 'z account_db_scheme \<Rightarrow>
   (service_result, 'z account_db_scheme) outcome" where
  "add_local_identity env clk account_id username0 password actor db0 =
     (case credentials env username0 password of
        Inl e \<Rightarrow> (Inl e, db0)
      | Inr (username, normalized, password_hash) \<Rightarrow>
          or_taken (account_uow (\<lambda>db.
            if accounts_get account_id db = None then Inr (result ''account_not_found'' [], db)
            else if (case accounts_local_identity normalized db of
                       None \<Rightarrow> False | Some i \<Rightarrow> idn_account_id i \<noteq> account_id) then
              Inr (result ''username_taken'' [], db)
            else
              let db1 = (case own_local account_id db of
                  Some own \<Rightarrow> accounts_save_identity (own\<lparr>idn_subject := normalized,
                      idn_username := Some username, idn_username_normalized := Some normalized,
                      idn_password_hash := Some password_hash, idn_disabled := False,
                      idn_updated_at := now_utc clk\<rparr>) db
                | None \<Rightarrow> accounts_add_identity (local_identity_row clk (ae_identity_id env) account_id
                      username normalized password_hash) db)
              in Inr (result ''ok'' [(''account_id'', JStr account_id), (''username'', JStr username)],
                      audit_success clk actor ''account.local_identity.update'' ''account'' (Some account_id)
                        (Some (JDict [(''username'', JStr username)])) db1)) db0))"

definition authenticate_local ::
  "account_env \<Rightarrow> clock \<Rightarrow> string \<Rightarrow> string \<Rightarrow> 'z account_db_scheme \<Rightarrow>
   (service_result, 'z account_db_scheme) outcome" where
  "authenticate_local env clk username password db0 =
     (case normalize_username (ae_casefold env) username of
        Inl e \<Rightarrow> (Inr (result ''invalid_credentials'' []), db0)
      | Inr (_, normalized) \<Rightarrow>
          account_uow (\<lambda>db.
            let identity = accounts_local_identity normalized db in
            bind_attempt (password_accepted (ae_scrypt env) password identity) (\<lambda>accepted.
              if \<not> accepted then Inr (result ''invalid_credentials'' [], db)
              else
                (case accounts_get (idn_account_id (the identity)) db of
                   None \<Rightarrow> Inr (result ''account_disabled'' [], db)
                 | Some account \<Rightarrow>
                     if acc_status account \<notin> {''active'', ''suspended''} then
                       Inr (result ''account_disabled'' [], db)
                     else
                       let db1 = accounts_save_identity
                             (touch_identity (now_utc clk) (the identity)) db
                       in bind_attempt (serialize_account account db1) (\<lambda>view.
                            Inr (result ''ok'' view, db1))))) db0)"

subsection \<open>Lookups and listings\<close>

definition account_by_legacy_tg :: "int \<Rightarrow> 'z account_db_scheme \<Rightarrow> jdict option attempt" where
  "account_by_legacy_tg tg db =
     (case accounts_by_legacy_tg tg db of
        None \<Rightarrow> Inr None
      | Some row \<Rightarrow> bind_attempt (serialize_account row db) (\<lambda>view. Inr (Some view)))"

definition account_get :: "string \<Rightarrow> 'z account_db_scheme \<Rightarrow> jdict option attempt" where
  "account_get account_id db =
     (case accounts_get account_id db of
        None \<Rightarrow> Inr None
      | Some row \<Rightarrow> bind_attempt (serialize_account row db) (\<lambda>view. Inr (Some view)))"

fun attempt_all :: "('a \<Rightarrow> 'b attempt) \<Rightarrow> 'a list \<Rightarrow> 'b list attempt" where
  "attempt_all f [] = Inr []"
| "attempt_all f (x # xs) =
     bind_attempt (f x) (\<lambda>y. bind_attempt (attempt_all f xs) (\<lambda>ys. Inr (y # ys)))"

definition list_accounts ::
  "string option \<Rightarrow> string option \<Rightarrow> int option \<Rightarrow> int \<Rightarrow> int \<Rightarrow> 'z account_db_scheme \<Rightarrow>
   (jdict list \<times> int) attempt" where
  "list_accounts search status tag lim off db =
     (let (found, total) = accounts_list_accounts search status tag lim off db
      in bind_attempt (attempt_all (\<lambda>row. serialize_account row db) found) (\<lambda>views. Inr (views, total)))"

definition ledger_item :: "ledger_row \<Rightarrow> jval" where
  "ledger_item r =
     JDict [(''id'', JInt (led_id r)), (''source_transaction_id'', jopt_int (led_source_transaction_id r)),
            (''account_id'', JStr (led_account_id r)), (''tg'', jopt_int (led_legacy_tg r)),
            (''balance_type'', JStr (led_balance_type r)), (''amount'', JInt (led_amount r)),
            (''balance_after'', JInt (led_balance_after r)), (''reason'', JStr (led_reason r)),
            (''actor_kind'', JStr (led_actor_kind r)), (''actor_id'', JStr (led_actor_id r)),
            (''metadata'', jopt (led_metadata r)), (''created_at'', JTime (led_created_at r))]"

definition account_ledger :: "string \<Rightarrow> int \<Rightarrow> int \<Rightarrow> 'z account_db_scheme \<Rightarrow> jdict option" where
  "account_ledger account_id lim off db =
     (if accounts_get account_id db = None then None
      else Some [(''items'', JList (map ledger_item (accounts_list_ledger account_id lim off db))),
                 (''limit'', JInt lim), (''offset'', JInt off)])"

definition list_plans :: "bool \<Rightarrow> 'z account_db_scheme \<Rightarrow> jval list \<times> int" where
  "list_plans enabled_only db =
     (let found = accounts_list_plans enabled_only db in (map serialize_plan found, int (length found)))"

definition list_tags :: "'z account_db_scheme \<Rightarrow> jdict list \<times> int" where
  "list_tags db = (let found = accounts_list_tags db in (map serialize_tag found, int (length found)))"

subsection \<open>Membership plans\<close>

record plan_form =
  \<comment> \<open>the dictionary of \<open>create_plan\<close>; the fields a caller may leave out are options\<close>
  pf_code :: string
  pf_name :: string
  pf_description :: "string option"
  pf_duration_days :: "int option"
  pf_legacy_level :: "string option"
  pf_entitlements :: "jval option"
  pf_enabled :: "bool option"
  pf_is_default :: "bool option"
  pf_sort_order :: "int option"

definition opt_or :: "'a option \<Rightarrow> 'a \<Rightarrow> 'a" where
  "opt_or x d = (case x of None \<Rightarrow> d | Some y \<Rightarrow> y)"

definition or_empty :: "jval option \<Rightarrow> jval" where
  \<comment> \<open>\<open>x or {}\<close>\<close>
  "or_empty x = (case x of None \<Rightarrow> JDict [] | Some v \<Rightarrow> if jtruthy v then v else JDict [])"

definition strip_or_none :: "string option \<Rightarrow> string option" where
  \<comment> \<open>\<open>(x or "").strip() or None\<close>\<close>
  "strip_or_none x = (let s = py_strip (opt_or x []) in if s = [] then None else Some s)"

definition clear_default :: "clock \<Rightarrow> plan_row \<Rightarrow> plan_row" where
  \<comment> \<open>a row that changes also gets the time of its column's \<open>onupdate\<close>\<close>
  "clear_default clk p = (if pl_is_default p then p\<lparr>pl_is_default := False, pl_updated_at := now_utc clk\<rparr> else p)"

definition clear_defaults :: "clock \<Rightarrow> int option \<Rightarrow> 'z account_db_scheme \<Rightarrow> 'z account_db_scheme" where
  \<comment> \<open>every plan but the given one stops being the default\<close>
  "clear_defaults clk except db =
     db\<lparr>plans := (plans db)\<lparr>rows := map (\<lambda>p. if Some (pl_id p) = except then p else clear_default clk p)
         (rows (plans db))\<rparr>\<rparr>"

definition new_plan :: "clock \<Rightarrow> plan_form \<Rightarrow> int \<Rightarrow> plan_row" where
  "new_plan clk f i =
     \<lparr>pl_id = i, pl_code = py_lower (py_strip (pf_code f)), pl_name = py_strip (pf_name f),
      pl_description = strip_or_none (pf_description f),
      pl_duration_days = opt_or (pf_duration_days f) 30, pl_legacy_level = opt_or (pf_legacy_level f) ''b'',
      pl_entitlements = json_dumps (or_empty (pf_entitlements f)),
      pl_enabled = (opt_or (pf_enabled f) True \<or> opt_or (pf_is_default f) False),
      pl_is_default = opt_or (pf_is_default f) False, pl_sort_order = opt_or (pf_sort_order f) 0,
      pl_revision = 1, pl_created_at = now_utc clk, pl_updated_at = now_utc clk\<rparr>"

definition create_plan ::
  "clock \<Rightarrow> plan_form \<Rightarrow> actor \<Rightarrow> 'z account_db_scheme \<Rightarrow> (jval, 'z account_db_scheme) outcome" where
  "create_plan clk f actor db0 =
     account_uow (\<lambda>db.
       let row = new_plan clk f (next_id (plans db));
           db1 = (if pl_is_default row then clear_defaults clk None db else db);
           db2 = add_plan (new_plan clk f) db1
       in Inr (serialize_plan row,
               audit_success clk actor ''membership.plan.create'' ''membership_plan''
                 (Some (show_int (pl_id row))) (Some (JDict [(''code'', JStr (pl_code row))])) db2)) db0"

record plan_patch =
  \<comment> \<open>the dictionary of \<open>update_plan\<close>; None where a key is missing\<close>
  pp_revision :: "int option"
  pp_name :: "string option"
  pp_description :: "string option option"
  pp_duration_days :: "int option"
  pp_legacy_level :: "string option"
  pp_enabled :: "bool option"
  pp_is_default :: "bool option"
  pp_sort_order :: "int option"
  pp_entitlements :: "jval option"

definition patch_dict :: "plan_patch \<Rightarrow> jdict" where
  \<comment> \<open>without the revision, which is taken out first\<close>
  "patch_dict pt =
     concat [case pp_name pt of None \<Rightarrow> [] | Some x \<Rightarrow> [(''name'', JStr x)],
       case pp_description pt of None \<Rightarrow> [] | Some x \<Rightarrow> [(''description'', jopt_str x)],
       case pp_duration_days pt of None \<Rightarrow> [] | Some x \<Rightarrow> [(''duration_days'', JInt x)],
       case pp_legacy_level pt of None \<Rightarrow> [] | Some x \<Rightarrow> [(''legacy_level'', JStr x)],
       case pp_enabled pt of None \<Rightarrow> [] | Some x \<Rightarrow> [(''enabled'', JBool x)],
       case pp_is_default pt of None \<Rightarrow> [] | Some x \<Rightarrow> [(''is_default'', JBool x)],
       case pp_sort_order pt of None \<Rightarrow> [] | Some x \<Rightarrow> [(''sort_order'', JInt x)],
       case pp_entitlements pt of None \<Rightarrow> [] | Some x \<Rightarrow> [(''entitlements'', x)]]"

definition patch_plan :: "clock \<Rightarrow> plan_patch \<Rightarrow> plan_row \<Rightarrow> plan_row" where
  "patch_plan clk pt p =
     p\<lparr>pl_name := opt_or (pp_name pt) (pl_name p),
       pl_description := opt_or (pp_description pt) (pl_description p),
       pl_duration_days := opt_or (pp_duration_days pt) (pl_duration_days p),
       pl_legacy_level := opt_or (pp_legacy_level pt) (pl_legacy_level p),
       pl_entitlements := (case pp_entitlements pt of None \<Rightarrow> pl_entitlements p
                           | Some e \<Rightarrow> json_dumps (or_empty (Some e))),
       pl_enabled := (opt_or (pp_enabled pt) (pl_enabled p) \<or> opt_or (pp_is_default pt) (pl_is_default p)),
       pl_is_default := opt_or (pp_is_default pt) (pl_is_default p),
       pl_sort_order := opt_or (pp_sort_order pt) (pl_sort_order p),
       pl_revision := pl_revision p + 1, pl_updated_at := now_utc clk\<rparr>"

definition stale_plan_message :: string where
  "stale_plan_message = text_of [0x4F1A, 0x5458, 0x65B9, 0x6848, 0x5DF2, 0x88AB, 0x5176, 0x4ED6, 0x7BA1,
     0x7406, 0x5458, 0x4FEE, 0x6539, 0xFF0C, 0x8BF7, 0x5237, 0x65B0, 0x540E, 0x91CD, 0x8BD5]"

definition default_plan_message :: string where
  "default_plan_message = text_of [0x9ED8, 0x8BA4, 0x4F1A, 0x5458, 0x65B9, 0x6848, 0x4E0D, 0x80FD, 0x505C,
     0x7528, 0xFF0C, 0x8BF7, 0x5148, 0x8BBE, 0x7F6E, 0x65B0, 0x7684, 0x9ED8, 0x8BA4, 0x65B9, 0x6848]"

definition update_plan ::
  "clock \<Rightarrow> int \<Rightarrow> plan_patch \<Rightarrow> actor \<Rightarrow> 'z account_db_scheme \<Rightarrow> (jval option, 'z account_db_scheme) outcome" where
  "update_plan clk plan pt actor db0 =
     account_uow (\<lambda>db.
       case get_plan plan db of
         None \<Rightarrow> Inr (None, db)
       | Some row \<Rightarrow>
           if pp_revision pt \<noteq> None \<and> pp_revision pt \<noteq> Some (pl_revision row) then
             Inl (RuntimeError stale_plan_message)
           else if pl_is_default row \<and> pp_enabled pt = Some False then
             Inl (RuntimeError default_plan_message)
           else
             let row' = patch_plan clk pt row;
                 db1 = save_plan row' db;
                 db2 = (if pl_is_default row' then clear_defaults clk (Some (pl_id row')) db1 else db1)
             in Inr (Some (serialize_plan row'),
                     audit_success clk actor ''membership.plan.update'' ''membership_plan''
                       (Some (show_int (pl_id row'))) (Some (JDict (patch_dict pt))) db2)) db0"

definition assign_plan ::
  "clock \<Rightarrow> string \<Rightarrow> string \<Rightarrow> int \<Rightarrow> int option \<Rightarrow> actor \<Rightarrow> 'z account_db_scheme \<Rightarrow>
   (service_result, 'z account_db_scheme) outcome" where
  "assign_plan clk membership_id account_id plan_id duration_days actor db0 =
     (let now = now_utc clk in
      account_uow (\<lambda>db.
        case (accounts_get account_id db, get_plan plan_id db) of
          (Some account, Some plan) \<Rightarrow>
            if \<not> pl_enabled plan then Inr (result ''not_found'' [], db)
            else
              let db1 = (case active_membership account_id db of
                    None \<Rightarrow> db
                  | Some current \<Rightarrow> save_membership (current\<lparr>mb_status := ''replaced'', mb_updated_at := now\<rparr>) db);
                  days = (if int_or_0 duration_days \<noteq> 0 then int_or_0 duration_days else pl_duration_days plan)
              in bind_attempt (if 0 < days then map_sum id Some (dt_add now (days * day)) else Inr None)
                   (\<lambda>expires_at.
                     let membership = \<lparr>mb_id = membership_id, mb_account_id = account_id,
                           mb_plan_id = pl_id plan, mb_status = ''active'', mb_starts_at = now,
                           mb_expires_at = expires_at, mb_source = ''admin'',
                           mb_created_by_kind = actor_kind actor, mb_created_by_id = actor_identifier actor,
                           mb_created_at = now, mb_updated_at = now\<rparr>;
                         db2 = add_membership membership db1;
                         db3 = (case users_get_for_update (acc_legacy_tg account) db2 of
                             None \<Rightarrow> db2
                           | Some legacy \<Rightarrow> users_save (legacy\<lparr>emby_lv := Some (pl_legacy_level plan),
                               emby_ex := expires_at\<rparr>) db2);
                         db4 = audit_success clk actor ''membership.assign'' ''account'' (Some account_id)
                                 (Some (JDict [(''plan_id'', JInt (pl_id plan)), (''days'', JInt days)])) db3;
                         db5 = event clk ''membership.updated'' ''account'' (Some account_id)
                                 (Some (JDict [(''account_id'', JStr account_id), (''plan_id'', JInt (pl_id plan)),
                                               (''expires_at'', jopt_time expires_at)])) db4
                     in Inr (result ''ok'' [(''account_id'', JStr account_id),
                               (''membership_id'', JStr membership_id), (''plan'', serialize_plan plan),
                               (''expires_at'', jopt_time expires_at)], db5))
        | _ \<Rightarrow> Inr (result ''not_found'' [], db)) db0)"

definition assign_default_plan ::
  "clock \<Rightarrow> string \<Rightarrow> string \<Rightarrow> int option \<Rightarrow> actor \<Rightarrow> 'z account_db_scheme \<Rightarrow>
   (service_result, 'z account_db_scheme) outcome" where
  "assign_default_plan clk membership_id account_id duration_days actor db =
     (case default_plan db of
        None \<Rightarrow> (Inr (result ''not_found'' []), db)
      | Some p \<Rightarrow> assign_plan clk membership_id account_id (pl_id p) duration_days actor db)"

subsection \<open>Tags\<close>

definition hex_char :: "char \<Rightarrow> bool" where
  "hex_char c =
     (let n = of_char c :: nat in (48 \<le> n \<and> n \<le> 57) \<or> (65 \<le> n \<and> n \<le> 70) \<or> (97 \<le> n \<and> n \<le> 102))"

definition tag_color_ok :: "string \<Rightarrow> bool" where
  \<comment> \<open>\<open>#[0-9a-fA-F]{6}\<close>\<close>
  "tag_color_ok s = (length s = 7 \<and> hd s = CHR ''#'' \<and> list_all hex_char (tl s))"

definition create_tag ::
  "clock \<Rightarrow> string \<Rightarrow> string \<Rightarrow> string option \<Rightarrow> actor \<Rightarrow> 'z account_db_scheme \<Rightarrow>
   (service_result, 'z account_db_scheme) outcome" where
  "create_tag clk name0 color description actor db0 =
     (let name = py_strip name0 in
      if name = [] \<or> 64 < py_len name \<or> \<not> tag_color_ok color then (Inr (result ''invalid'' []), db0)
      else account_uow (\<lambda>db.
        if get_tag_by_name name db \<noteq> None then Inr (result ''exists'' [], db)
        else
          let mk = (\<lambda>i. \<lparr>tg_id = i, tg_name = name, tg_color = color,
                  tg_description = strip_or_none description, tg_created_at = now_utc clk,
                  tg_updated_at = now_utc clk\<rparr>);
              i = next_id (tags db)
          in Inr (result ''ok'' (serialize_tag (mk i)),
                  audit_success clk actor ''account.tag.create'' ''account_tag'' (Some (show_int i))
                    (Some (JDict [(''name'', JStr name)])) (add_tag mk db))) db0)"

definition delete_tag ::
  "clock \<Rightarrow> int \<Rightarrow> actor \<Rightarrow> 'z account_db_scheme \<Rightarrow> (bool, 'z account_db_scheme) outcome" where
  "delete_tag clk i actor db0 =
     account_uow (\<lambda>db.
       case get_tag i db of
         None \<Rightarrow> Inr (False, db)
       | Some row \<Rightarrow> Inr (True, audit_success clk actor ''account.tag.delete'' ''account_tag'' (Some (show_int i))
                      (Some (JDict [(''name'', JStr (tg_name row))])) (accounts_delete_tag i db))) db0"

fun remove_tags :: "string \<Rightarrow> int list \<Rightarrow> int \<times> 'z account_db_scheme \<Rightarrow> int \<times> 'z account_db_scheme" where
  "remove_tags account_id [] s = s"
| "remove_tags account_id (i # ts) (changed, db) =
     (let (n, db') = remove_assignment account_id i db in remove_tags account_id ts (changed + n, db'))"

fun add_tags :: "clock \<Rightarrow> actor \<Rightarrow> string \<Rightarrow> int list \<Rightarrow> int \<times> 'z account_db_scheme \<Rightarrow> int \<times> 'z account_db_scheme" where
  "add_tags clk actor account_id [] s = s"
| "add_tags clk actor account_id (i # ts) (changed, db) =
     (if get_assignment account_id i db \<noteq> None then add_tags clk actor account_id ts (changed, db)
      else add_tags clk actor account_id ts (changed + 1,
        add_assignment (\<lambda>k. \<lparr>asg_id = k, asg_account_id = account_id, asg_tag_id = i,
          asg_by_kind = actor_kind actor, asg_by_id = actor_identifier actor,
          asg_created_at = now_utc clk\<rparr>) db))"

fun assign_accounts ::
  "clock \<Rightarrow> actor \<Rightarrow> string \<Rightarrow> int list \<Rightarrow> string list \<Rightarrow> int \<times> 'z account_db_scheme \<Rightarrow> int \<times> 'z account_db_scheme" where
  "assign_accounts clk actor mode valid_tags [] s = s"
| "assign_accounts clk actor mode valid_tags (account_id # ids) (changed, db) =
     (if accounts_get account_id db = None then assign_accounts clk actor mode valid_tags ids (changed, db)
      else
        let current = map tg_id (tags_for_account account_id db);
            remove = (if mode = ''replace'' then current else if mode = ''remove'' then valid_tags else []);
            add = (if mode \<in> {''add'', ''replace''} then valid_tags else [])
        in assign_accounts clk actor mode valid_tags ids
             (add_tags clk actor account_id add (remove_tags account_id remove (changed, db))))"

definition assign_tags ::
  "clock \<Rightarrow> string list \<Rightarrow> int list \<Rightarrow> string \<Rightarrow> actor \<Rightarrow> 'z account_db_scheme \<Rightarrow>
   (int, 'z account_db_scheme) outcome" where
  "assign_tags clk account_ids tag_ids mode actor db0 =
     (if mode \<notin> {''add'', ''remove'', ''replace''} then
        (Inl (ValueError ''Unsupported tag assignment mode''), db0)
      else account_uow (\<lambda>db.
        let valid_tags = sort (filter (\<lambda>i. i \<in> set tag_ids) (map tg_id (accounts_list_tags db)));
            (changed, db1) = assign_accounts clk actor mode valid_tags (dedupe account_ids) (0, db);
            db2 = audit_success clk actor ''account.tags.batch'' ''account'' None
                    (Some (JDict [(''account_count'', JInt (int (length account_ids))),
                                  (''tag_ids'', JList (map JInt valid_tags)), (''mode'', JStr mode),
                                  (''changed'', JInt changed)])) db1
        in Inr (changed, event clk ''account.tags.updated'' ''account'' None
                  (Some (JDict [(''account_ids'', JList (map JStr account_ids)),
                                (''tag_ids'', JList (map JInt valid_tags)), (''mode'', JStr mode)])) db2)) db0)"

end
