(* ===== verification/Account_Properties.thy ===== *)
theory Account_Properties
  imports Account_Service Auth_Properties
begin

section \<open>The properties of the account service\<close>

text \<open>
  Along any sequence of calls there is at most one default plan and it is enabled, every account has
  at most one open membership, and tags are only assigned while they exist; a local account logs in
  with the password it was created with.
\<close>

subsection \<open>Calls\<close>

datatype account_call =
    EnsureTelegram clock int "string option"
  | CreateLocal account_env clock string string "string option" actor "string option" int
  | BootstrapOwner account_env clock int string string
  | AddLocalIdentity account_env clock string string string actor
  | AuthenticateLocal account_env clock string string
  | CreatePlan clock plan_form actor
  | UpdatePlan clock int plan_patch actor
  | AssignPlan clock string string int "int option" actor
  | AssignDefaultPlan clock string string "int option" actor
  | CreateTag clock string string "string option" actor
  | DeleteTag clock int actor
  | AssignTags clock "string list" "int list" string actor

fun account_after :: "account_call \<Rightarrow> 'z account_db_scheme \<Rightarrow> 'z account_db_scheme" where
  "account_after (EnsureTelegram clk tg n) db = snd (ensure_telegram_account clk tg n db)"
| "account_after (CreateLocal env clk u p n a ip k) db = snd (create_local env clk u p n a ip k db)"
| "account_after (BootstrapOwner env clk tg u p) db = snd (bootstrap_owner env clk tg u p db)"
| "account_after (AddLocalIdentity env clk i u p a) db = snd (add_local_identity env clk i u p a db)"
| "account_after (AuthenticateLocal env clk u p) db = snd (authenticate_local env clk u p db)"
| "account_after (CreatePlan clk f a) db = snd (create_plan clk f a db)"
| "account_after (UpdatePlan clk i pt a) db = snd (update_plan clk i pt a db)"
| "account_after (AssignPlan clk m i p d a) db = snd (assign_plan clk m i p d a db)"
| "account_after (AssignDefaultPlan clk m i d a) db = snd (assign_default_plan clk m i d a db)"
| "account_after (CreateTag clk n c d a) db = snd (create_tag clk n c d a db)"
| "account_after (DeleteTag clk i a) db = snd (delete_tag clk i a db)"
| "account_after (AssignTags clk ids ts m a) db = snd (assign_tags clk ids ts m a db)"

definition account_run :: "account_call list \<Rightarrow> 'z account_db_scheme \<Rightarrow> 'z account_db_scheme" where
  "account_run calls db = fold account_after calls db"

lemma or_taken_snd [simp]: "snd (or_taken x) = snd x"
  by (simp add: or_taken_def)

lemmas account_uow_keeps = commit.keeps [where good = account_integrity]

lemma ensure_telegram_integrity:
  "account_integrity db \<Longrightarrow> account_integrity (snd (ensure_telegram_account clk tg n db))"
  unfolding ensure_telegram_account_def by (rule account_uow_keeps)

lemma bootstrap_integrity: "account_integrity db \<Longrightarrow> account_integrity (snd (bootstrap_owner env clk tg u p db))"
proof -
  assume ok: "account_integrity db"
  obtain x d where e: "ensure_telegram_account clk tg (Some ''Sakura Owner'') db = (x, d)" by fastforce
  have "account_integrity d"
    using ensure_telegram_integrity [OF ok, of clk tg "Some ''Sakura Owner''"] e by simp
  with ok show ?thesis
    unfolding bootstrap_owner_def e by (auto intro: account_uow_keeps split: sum.splits)
qed

lemma account_after_integrity: "account_integrity db \<Longrightarrow> account_integrity (account_after c db)"
  by (cases c)
    (auto simp: ensure_telegram_account_def create_local_def add_local_identity_def authenticate_local_def
       create_plan_def update_plan_def assign_plan_def assign_default_plan_def create_tag_def delete_tag_def
       assign_tags_def Let_def bootstrap_integrity
       intro: account_uow_keeps split: sum.splits option.splits)

subsection \<open>What the bookkeeping leaves alone\<close>

lemma account_bookkeeping [simp, frame]:
  fixes db :: "'z account_db_scheme"
  shows "plans (audit clk actor action rt rid oc detail rq db) = plans db"
    "memberships (audit clk actor action rt rid oc detail rq db) = memberships db"
    "tags (audit clk actor action rt rid oc detail rq db) = tags db"
    "assignments (audit clk actor action rt rid oc detail rq db) = assignments db"
    "plans (event clk et rt rid payload db) = plans db"
    "memberships (event clk et rt rid payload db) = memberships db"
    "tags (event clk et rt rid payload db) = tags db"
    "assignments (event clk et rt rid payload db) = assignments db"
    "plans (security_event clk et sv sk rid ip detail db) = plans db"
    "memberships (security_event clk et sv sk rid ip detail db) = memberships db"
    "tags (security_event clk et sv sk rid ip detail db) = tags db"
    "assignments (security_event clk et sv sk rid ip detail db) = assignments db"
  by (simp_all add: audit_def event_def security_event_def)

definition same_account_tables :: "'z account_db_scheme \<Rightarrow> 'z account_db_scheme \<Rightarrow> bool" where
  "same_account_tables db db' =
     (plans db' = plans db \<and> memberships db' = memberships db \<and> tags db' = tags db \<and>
      assignments db' = assignments db)"

lemma core_writes [simp]:
  "same_account_tables db0 (users_save u db) = same_account_tables db0 db"
  "same_account_tables db0 (users_insert u db) = same_account_tables db0 db"
  "same_account_tables db0 (snd (users_add_if_missing tg db)) = same_account_tables db0 db"
  "same_account_tables db0 (accounts_add_account a db) = same_account_tables db0 db"
  "same_account_tables db0 (accounts_save_account a db) = same_account_tables db0 db"
  "same_account_tables db0 (accounts_add_identity i db) = same_account_tables db0 db"
  "same_account_tables db0 (accounts_save_identity i db) = same_account_tables db0 db"
  "same_account_tables db0 (ensure_wallets clk acc u db) = same_account_tables db0 db"
  "same_account_tables db0 (audit clk actor action rt rid oc detail rq db) = same_account_tables db0 db"
  "same_account_tables db0 (event clk et rt rid payload db) = same_account_tables db0 db"
  "same_account_tables db0 (security_event clk et sv sk rid ip dt db) = same_account_tables db0 db"
  "same_account_tables db0 db0"
  by (simp_all add: same_account_tables_def users_save_def users_insert_def users_add_if_missing_def
      accounts_add_account_def accounts_save_account_def accounts_add_identity_def accounts_save_identity_def
      ensure_wallets_def ensure_wallet_def accounts_add_wallet_def split: option.splits)

lemma account_calls_tables:
  "same_account_tables db (snd (ensure_telegram_account clk tg n db))"
  "same_account_tables db (snd (create_local env clk u p dn a ip k db))"
  "same_account_tables db (snd (add_local_identity env clk i u p a db))"
  "same_account_tables db (snd (authenticate_local env clk u p db))"
  unfolding ensure_telegram_account_def create_local_def add_local_identity_def authenticate_local_def Let_def
  by (auto intro!: commit_with_snd [where P = "same_account_tables db"]
      simp: bind_attempt_Inr_iff split_def split: sum.splits option.splits if_splits)

lemma same_account_tables_trans:
  "same_account_tables a b \<Longrightarrow> same_account_tables b c \<Longrightarrow> same_account_tables a c"
  by (simp add: same_account_tables_def)

lemma bootstrap_tables: "same_account_tables db (snd (bootstrap_owner env clk tg u p db))"
proof -
  obtain x d where e: "ensure_telegram_account clk tg (Some ''Sakura Owner'') db = (x, d)" by fastforce
  have "same_account_tables db d" using account_calls_tables(1) [of db clk tg "Some ''Sakura Owner''"] e by simp
  then show ?thesis
    unfolding bootstrap_owner_def e Let_def
    by (auto intro!: commit_with_snd [where P = "same_account_tables db"] split: sum.splits option.splits if_splits)
qed

subsection \<open>One default plan\<close>

definition one_default :: "plan_row list \<Rightarrow> bool" where
  "one_default ps = (length (filter pl_is_default ps) \<le> 1 \<and> (\<forall>p \<in> set ps. pl_is_default p \<longrightarrow> pl_enabled p))"

lemma clear_default_off [simp]: "\<not> pl_is_default (clear_default clk p)" "pl_id (clear_default clk p) = pl_id p"
  by (simp_all add: clear_default_def)

lemma unique_key_filter: "distinct (map key xs) \<Longrightarrow> length (filter (\<lambda>x. key x = k) xs) \<le> 1"
  by (induction xs) (auto simp: filter_empty_conv, metis imageI)

lemma tbl_put_filter_le:
  assumes "\<not> P r"
  shows "length (filter P (tbl_put key r xs)) \<le> length (filter P xs)"
  using assms by (induction xs) auto

lemma one_default_create:
  assumes "one_default (rows (plans db))"
  shows "one_default (rows (plans (snd (create_plan clk f a db))))"
  unfolding create_plan_def Let_def
  using assms
  by (intro commit_with_snd [where P = "\<lambda>d. one_default (rows (plans d))"])
     (auto simp: one_default_def add_plan_def clear_defaults_def new_plan_def filter_map o_def split: if_splits)

lemma one_default_others:
  assumes "distinct (map pl_id ps)" and "p \<in> set ps" and "pl_is_default p \<longrightarrow> pl_enabled p"
  shows "one_default (map (\<lambda>q. if Some (pl_id q) = Some (pl_id p) then q else clear_default clk q) ps)"
proof -
  let ?f = "\<lambda>q. if Some (pl_id q) = Some (pl_id p) then q else clear_default clk q"
  have "length (filter pl_is_default (map ?f ps)) \<le> length (filter (\<lambda>q. pl_id q = pl_id p) ps)"
    unfolding filter_map length_map by (rule length_filter_mono) (auto split: if_splits)
  also have "\<dots> \<le> 1" by (rule unique_key_filter [OF assms(1)])
  finally have "length (filter pl_is_default (map ?f ps)) \<le> 1" .
  moreover have "q = p" if "q \<in> set ps" "pl_id q = pl_id p" for q
    using that assms(1,2) by (auto simp: distinct_map dest: inj_onD)
  ultimately show ?thesis using assms(3) by (auto simp: one_default_def)
qed

lemma one_default_update:
  assumes "account_integrity db" and "one_default (rows (plans db))"
  shows "one_default (rows (plans (snd (update_plan clk i pt a db))))"
  unfolding update_plan_def Let_def
proof (rule commit_with_snd [where P = "\<lambda>d. one_default (rows (plans d))"], rule assms(2))
  fix x db'
  assume run: "(case get_plan i db of None \<Rightarrow> Inr (None, db)
       | Some row \<Rightarrow>
           if pp_revision pt \<noteq> None \<and> pp_revision pt \<noteq> Some (pl_revision row) then
             Inl (RuntimeError stale_plan_message)
           else if pl_is_default row \<and> pp_enabled pt = Some False then
             Inl (RuntimeError default_plan_message)
           else Inr (Some (serialize_plan (patch_plan clk pt row)),
               audit_success clk a ''membership.plan.update'' ''membership_plan''
                 (Some (show_int (pl_id (patch_plan clk pt row)))) (Some (JDict (patch_dict pt)))
                 (if pl_is_default (patch_plan clk pt row)
                  then clear_defaults clk (Some (pl_id (patch_plan clk pt row))) (save_plan (patch_plan clk pt row) db)
                  else save_plan (patch_plan clk pt row) db))) = Inr (x, db')"
  show "one_default (rows (plans db'))"
  proof (cases "get_plan i db")
    case None
    then show ?thesis using run assms(2) by simp
  next
    case (Some row)
    let ?row = "patch_plan clk pt row"
    let ?ps = "tbl_put pl_id ?row (rows (plans db))"
    have id: "pl_id ?row = pl_id row" and on: "pl_is_default ?row \<longrightarrow> pl_enabled ?row"
      by (simp_all add: patch_plan_def)
    have "distinct (map pl_id ?ps)" using assms(1) by (simp add: account_integrity_def)
    moreover have "row \<in> set (rows (plans db))" using Some by (auto simp: get_plan_def dest: tbl_get_mem)
    then have "?row \<in> set ?ps" using tbl_put_mem(1) id by metis
    ultimately have *: "one_default (map (\<lambda>q. if Some (pl_id q) = Some (pl_id ?row) then q else clear_default clk q) ?ps)"
      using on by (rule one_default_others)
    have "one_default ?ps" if "\<not> pl_is_default ?row"
      using assms(2) tbl_put_filter_le [of pl_is_default ?row pl_id "rows (plans db)"] that
        set_tbl_put [of pl_id ?row "rows (plans db)"]
      by (force simp: one_default_def)
    with * show ?thesis using run Some
      by (auto simp: save_plan_def clear_defaults_def split: if_splits)
  qed
qed

subsection \<open>One open membership\<close>

definition one_open :: "membership_row list \<Rightarrow> bool" where
  "one_open ms = (\<forall>account. length (filter (open_membership account) ms) \<le> 1)"

lemma single_filter:
  "length (filter P xs) \<le> 1 \<Longrightarrow> x \<in> set xs \<Longrightarrow> P x \<Longrightarrow> y \<in> set xs \<Longrightarrow> P y \<Longrightarrow> x = y"
  by (induction xs) (auto simp: filter_empty_conv split: if_splits)

lemma sorted_head: "sort_key f xs = y # ys \<Longrightarrow> y \<in> set xs"
  by (metis list.set_intros(1) set_sort)

lemma sorted_empty: "sort_key f xs = [] \<longleftrightarrow> xs = []"
  by (metis length_0_conv length_sort)

lemma active_membership_Some:
  "active_membership acc db = Some m \<Longrightarrow> m \<in> set (memberships db) \<and> open_membership acc m"
  by (auto simp: active_membership_def dest!: sorted_head split: list.splits)

lemma active_membership_None:
  "active_membership acc db = None \<Longrightarrow> filter (open_membership acc) (memberships db) = []"
  by (auto simp: active_membership_def sorted_empty split: list.splits)

definition close_current :: "datetime \<Rightarrow> string \<Rightarrow> 'z account_db_scheme \<Rightarrow> membership_row list" where
  "close_current now acc db =
     (case active_membership acc db of
        None \<Rightarrow> memberships db
      | Some m \<Rightarrow> tbl_put mb_id (m\<lparr>mb_status := ''replaced'', mb_updated_at := now\<rparr>) (memberships db))"

lemma close_current_open:
  assumes "one_open (memberships db)"
  shows "filter (open_membership acc) (close_current now acc db) = []"
    and "length (filter (open_membership b) (close_current now acc db)) \<le> length (filter (open_membership b) (memberships db))"
proof -
  have closed: "\<not> open_membership c (m\<lparr>mb_status := ''replaced'', mb_updated_at := now\<rparr>)" for c m
    by (simp add: open_membership_def)
  show "filter (open_membership acc) (close_current now acc db) = []"
  proof (cases "active_membership acc db")
    case (Some m)
    note m = active_membership_Some [OF Some]
    let ?m = "m\<lparr>mb_status := ''replaced'', mb_updated_at := now\<rparr>"
    have "\<not> open_membership acc y" if "y \<in> set (tbl_put mb_id ?m (memberships db))" for y
    proof
      assume "open_membership acc y"
      with that closed have "y \<in> set (memberships db)" "mb_id y \<noteq> mb_id m" by (auto simp: tbl_put_def)
      with m single_filter [of "open_membership acc" "memberships db" y m] \<open>open_membership acc y\<close> assms
      show False by (auto simp: one_open_def)
    qed
    then show ?thesis using Some by (simp add: close_current_def filter_empty_conv)
  qed (simp add: close_current_def active_membership_None)
  show "length (filter (open_membership b) (close_current now acc db)) \<le> length (filter (open_membership b) (memberships db))"
    by (auto simp: close_current_def closed intro: tbl_put_filter_le split: option.splits)
qed

lemma one_open_add:
  assumes "one_open (memberships db)" and "mb_account_id m = acc"
  shows "one_open (close_current now acc db @ [m])"
proof -
  have "length (filter (open_membership b) (close_current now acc db @ [m])) \<le> 1" for b
  proof (cases "b = acc")
    case False
    then have "\<not> open_membership b m" using assms(2) by (simp add: open_membership_def)
    then show ?thesis using close_current_open(2) [OF assms(1), of b now acc] assms(1)
      by (simp add: one_open_def) (meson le_trans)
  qed (simp add: close_current_open(1) [OF assms(1)])
  then show ?thesis by (simp add: one_open_def)
qed

lemma users_save_account_tables [simp]:
  "plans (users_save u db) = plans db" "memberships (users_save u db) = memberships db"
  "tags (users_save u db) = tags db" "assignments (users_save u db) = assignments db"
  by (simp_all add: users_save_def)

lemma assign_plan_memberships:
  assumes "assign_plan clk mid acc pid d a db = (Inr r, db')"
  shows "plans db' = plans db \<and> tags db' = tags db \<and> assignments db' = assignments db \<and>
    (memberships db' = memberships db \<or>
     (\<exists>m. mb_account_id m = acc \<and> memberships db' = close_current (now_utc clk) acc db @ [m]))"
proof (cases "accounts_get acc db")
  case (Some account)
  show ?thesis
  proof (cases "get_plan pid db")
    case (Some plan)
    with \<open>accounts_get acc db = Some account\<close> show ?thesis
      using assms
      by (cases "active_membership acc db"; cases "users_get_for_update (acc_legacy_tg account) db")
         (force simp: assign_plan_def Let_def commit_with_Inr bind_attempt_Inr_iff add_membership_def
           save_membership_def close_current_def users_get_for_update_def split: if_splits)+
  qed (use assms Some in \<open>auto simp: assign_plan_def Let_def commit_with_Inr\<close>)
qed (use assms in \<open>auto simp: assign_plan_def Let_def commit_with_Inr\<close>)

lemma assign_plan_one_open:
  assumes "one_open (memberships db)"
  shows "one_open (memberships (snd (assign_plan clk mid acc pid d a db)))"
proof (cases "fst (assign_plan clk mid acc pid d a db)")
  case (Inl e)
  then have "snd (assign_plan clk mid acc pid d a db) = db"
    unfolding assign_plan_def Let_def by (rule commit.atomic)
  then show ?thesis using assms by simp
next
  case (Inr r)
  then show ?thesis
    using assign_plan_memberships [of clk mid acc pid d a db r "snd (assign_plan clk mid acc pid d a db)"] assms
    by (auto simp: prod_eq_iff intro: one_open_add [OF assms])
qed

lemma assign_plan_tables:
  "plans (snd (assign_plan clk mid acc pid d a db)) = plans db \<and>
   tags (snd (assign_plan clk mid acc pid d a db)) = tags db \<and>
   assignments (snd (assign_plan clk mid acc pid d a db)) = assignments db"
proof (cases "fst (assign_plan clk mid acc pid d a db)")
  case (Inl e)
  then have "snd (assign_plan clk mid acc pid d a db) = db"
    unfolding assign_plan_def Let_def by (rule commit.atomic)
  then show ?thesis by simp
next
  case (Inr r)
  then show ?thesis
    using assign_plan_memberships [of clk mid acc pid d a db r "snd (assign_plan clk mid acc pid d a db)"]
    by (simp add: prod_eq_iff)
qed

subsection \<open>Tags in use exist\<close>

definition tags_known :: "'z account_db_scheme \<Rightarrow> bool" where
  "tags_known db = (asg_tag_id ` set (rows (assignments db)) \<subseteq> tg_id ` set (rows (tags db)))"

lemma remove_tags_sub:
  "remove_tags acc ts (n, db) = (n', db') \<Longrightarrow>
     tags db' = tags db \<and> plans db' = plans db \<and> memberships db' = memberships db \<and> accounts db' = accounts db \<and>
     set (rows (assignments db')) \<subseteq> set (rows (assignments db))"
proof (induction ts arbitrary: n db)
  case (Cons i ts)
  obtain k d where r: "remove_assignment acc i db = (k, d)" by fastforce
  have "tags d = tags db \<and> plans d = plans db \<and> memberships d = memberships db \<and> accounts d = accounts db \<and>
      set (rows (assignments d)) \<subseteq> set (rows (assignments db))"
    using r by (auto simp: remove_assignment_def tbl_del_def)
  with Cons.IH [of "n + k" d] Cons.prems r show ?case by auto
qed simp

lemma add_tags_sub:
  "add_tags clk a acc ts (n, db) = (n', db') \<Longrightarrow>
     tags db' = tags db \<and> plans db' = plans db \<and> memberships db' = memberships db \<and> accounts db' = accounts db \<and>
     asg_tag_id ` set (rows (assignments db')) \<subseteq> asg_tag_id ` set (rows (assignments db)) \<union> set ts"
proof (induction ts arbitrary: n db)
  case (Cons i ts)
  show ?case
  proof (cases "get_assignment acc i db")
    case None
    then show ?thesis using Cons.prems
      by (auto simp: add_assignment_def dest!: Cons.IH) blast+
  next
    case (Some x)
    then show ?thesis using Cons.prems by (auto dest!: Cons.IH)
  qed
qed simp

lemma assign_accounts_sub:
  "assign_accounts clk a mode valid ids (n, db) = (n', db') \<Longrightarrow>
     tags db' = tags db \<and> plans db' = plans db \<and> memberships db' = memberships db \<and>
     asg_tag_id ` set (rows (assignments db')) \<subseteq> asg_tag_id ` set (rows (assignments db)) \<union> set valid"
proof (induction ids arbitrary: n db)
  case (Cons acc ids)
  show ?case
  proof (cases "accounts_get acc db")
    case None
    then show ?thesis using Cons.prems Cons.IH [of n db] by simp
  next
    case (Some account)
    obtain n1 d1 where r: "remove_tags acc (if mode = ''replace'' then map tg_id (tags_for_account acc db)
        else if mode = ''remove'' then valid else []) (n, db) = (n1, d1)" by fastforce
    obtain n2 d2 where d2: "add_tags clk a acc (if mode \<in> {''add'', ''replace''} then valid else []) (n1, d1) = (n2, d2)"
      by fastforce
    have "assign_accounts clk a mode valid ids (n2, d2) = (n', db')"
      using Cons.prems Some r d2 by (simp add: Let_def)
    note Cons.IH [OF this] remove_tags_sub [OF r] add_tags_sub [OF d2]
    then show ?thesis by (auto split: if_splits) blast+
  qed
qed simp

definition tags_kept :: "'z account_db_scheme \<Rightarrow> 'z account_db_scheme \<Rightarrow> bool" where
  "tags_kept db d = (tags_known d \<and> plans d = plans db \<and> memberships d = memberships db)"

lemma tags_kept_audit [simp]:
  "tags_kept db (audit clk ac an rt rid oc dt rq d) = tags_kept db d"
  "tags_kept db (event clk et rt rid p d) = tags_kept db d"
  by (simp_all add: tags_kept_def tags_known_def)

lemma assign_tags_tables:
  assumes "tags_known db"
  shows "tags_kept db (snd (assign_tags clk ids ts m a db))"
proof -
  let ?valid = "sort (filter (\<lambda>i. i \<in> set ts) (map tg_id (accounts_list_tags db)))"
  have old: "tags_kept db db" using assms by (simp add: tags_kept_def)
  obtain n d where r: "assign_accounts clk a m ?valid (dedupe ids) (0, db) = (n, d)" by fastforce
  note sub = assign_accounts_sub [OF r]
  have valid: "set ?valid \<subseteq> tg_id ` set (rows (tags db))" by (auto simp: accounts_list_tags_def)
  have "asg_tag_id ` set (rows (assignments d)) \<subseteq> tg_id ` set (rows (tags db))"
    using conjunct2 [OF conjunct2 [OF conjunct2 [OF sub]]] Un_least [OF assms [unfolded tags_known_def] valid]
    by (rule order_trans)
  then have "tags_kept db d" using sub by (simp add: tags_kept_def tags_known_def)
  then show ?thesis
    using old r unfolding assign_tags_def Let_def
    by (auto intro!: commit_with_snd [where P = "tags_kept db"])
qed

lemma create_tag_tables:
  assumes "tags_known db"
  shows "tags_kept db (snd (create_tag clk n c d a db))"
proof -
  have "tags_kept db (add_tag mk db)" for mk using assms by (auto simp: tags_kept_def tags_known_def add_tag_def)
  moreover have "tags_kept db db" using assms by (simp add: tags_kept_def)
  ultimately show ?thesis unfolding create_tag_def Let_def
    by (auto intro!: commit_with_snd [where P = "tags_kept db"] split: if_splits)
qed

lemma delete_tag_tables:
  assumes "tags_known db"
  shows "tags_kept db (snd (delete_tag clk i a db))"
proof -
  have "tags_kept db (accounts_delete_tag i db)"
    using assms by (auto simp: tags_kept_def tags_known_def accounts_delete_tag_def tbl_del_def image_subset_iff)
  moreover have "tags_kept db db" using assms by (simp add: tags_kept_def)
  ultimately show ?thesis unfolding delete_tag_def
    by (auto intro!: commit_with_snd [where P = "tags_kept db"] split: option.splits)
qed

subsection \<open>The invariant\<close>

definition account_consistent :: "'z account_db_scheme \<Rightarrow> bool" where
  "account_consistent db =
     (one_default (rows (plans db)) \<and> one_open (memberships db) \<and> tags_known db)"

lemma account_consistent_same:
  "same_account_tables db db' \<Longrightarrow> account_consistent db \<Longrightarrow> account_consistent db'"
  by (simp add: same_account_tables_def account_consistent_def tags_known_def)

lemma account_consistent_kept:
  "tags_kept db db' \<Longrightarrow> account_consistent db \<Longrightarrow> account_consistent db'"
  by (simp add: tags_kept_def account_consistent_def)

lemma account_consistent_plans:
  assumes "memberships db' = memberships db \<and> tags db' = tags db \<and> assignments db' = assignments db"
    and "one_default (rows (plans db'))" and "account_consistent db"
  shows "account_consistent db'"
  using assms by (simp add: account_consistent_def tags_known_def)

lemma plan_calls_tables:
  "memberships (snd (create_plan clk f a db)) = memberships db \<and> tags (snd (create_plan clk f a db)) = tags db \<and>
   assignments (snd (create_plan clk f a db)) = assignments db"
  "memberships (snd (update_plan clk i pt a db)) = memberships db \<and> tags (snd (update_plan clk i pt a db)) = tags db \<and>
   assignments (snd (update_plan clk i pt a db)) = assignments db"
proof -
  let ?P = "\<lambda>d. memberships d = memberships db \<and> tags d = tags db \<and> assignments d = assignments db"
  have "?P (snd (create_plan clk f a db))" unfolding create_plan_def Let_def
    by (rule commit_with_snd [where P = ?P]) (auto simp: add_plan_def clear_defaults_def split: if_splits)
  moreover have "?P (snd (update_plan clk i pt a db))" unfolding update_plan_def Let_def
    by (rule commit_with_snd [where P = ?P])
       (auto simp: save_plan_def clear_defaults_def split: if_splits option.splits)
  ultimately show "?P (snd (create_plan clk f a db))" "?P (snd (update_plan clk i pt a db))" by simp_all
qed

lemma account_consistent_assign:
  "account_consistent db \<Longrightarrow> account_consistent (snd (assign_plan clk mid acc pid d a db))"
  using assign_plan_tables [of clk mid acc pid d a db] assign_plan_one_open [of db]
  by (simp add: account_consistent_def tags_known_def)

lemma account_consistent_after:
  assumes "account_integrity db" and ok: "account_consistent db"
  shows "account_consistent (account_after c db)"
proof -
  have known: "tags_known db" using ok by (simp add: account_consistent_def)
  show ?thesis
proof (cases c)
  case (CreatePlan clk f a)
  show ?thesis unfolding CreatePlan account_after.simps
    by (rule account_consistent_plans [OF plan_calls_tables(1) one_default_create ok])
       (use ok in \<open>simp add: account_consistent_def\<close>)
next
  case (UpdatePlan clk i pt a)
  show ?thesis unfolding UpdatePlan account_after.simps
    by (rule account_consistent_plans [OF plan_calls_tables(2) one_default_update [OF assms(1)] ok])
       (use ok in \<open>simp add: account_consistent_def\<close>)
next
  case (AssignDefaultPlan clk m i d a)
  then show ?thesis using ok
    by (auto simp: assign_default_plan_def account_consistent_assign split: option.splits)
next
  case (AssignPlan clk m i p d a)
  then show ?thesis using ok by (simp add: account_consistent_assign)
next
  case (CreateTag clk n col d a)
  then show ?thesis using account_consistent_kept [OF create_tag_tables ok] known by simp
next
  case (DeleteTag clk i a)
  then show ?thesis using account_consistent_kept [OF delete_tag_tables ok] known by simp
next
  case (AssignTags clk ids ts m a)
  then show ?thesis using account_consistent_kept [OF assign_tags_tables ok] known by simp
qed (simp_all add: account_consistent_same [OF account_calls_tables(1) ok] account_consistent_same [OF account_calls_tables(2) ok]
       account_consistent_same [OF account_calls_tables(3) ok] account_consistent_same [OF account_calls_tables(4) ok]
       account_consistent_same [OF bootstrap_tables ok])
qed

text \<open>C23: Plans, memberships and tags stay consistent. From a database where it holds, every sequence of
  calls of the account service keeps at most one default plan, which is enabled, at most one open
  membership of each account, and no assignment of a tag that does not exist.\<close>

theorem accounts_stay_consistent:
  assumes "account_integrity db" and "account_consistent db"
  shows "account_consistent (account_run calls db) \<and> account_integrity (account_run calls db)"
  unfolding account_run_def using assms
  by (induction calls arbitrary: db) (simp_all add: account_after_integrity account_consistent_after)

definition account_sample :: account_db where
  "account_sample =
     \<lparr>embys = [sample_user], codes = [], partition_codes = [], partition_grants = empty_table,
      accounts = [sample_account], identities = [], wallets = empty_table, ledger = empty_table,
      idempotency = empty_table, audits = empty_table, points = empty_table,
      events = empty_table, securities = empty_table, tasks = [], jobs = empty_table,
      heartbeats = [], settings = [], revisions = empty_table,
      login_requests = [], sessions = [], roles = empty_table, role_members = empty_table,
      plans = empty_table, memberships = [], tags = empty_table, assignments = empty_table\<rparr>"

lemma account_sample_ok: "account_integrity account_sample" "account_consistent account_sample"
  by (simp_all add: account_integrity_def auth_integrity_def integrity_def account_consistent_def one_default_def
      one_open_def tags_known_def account_sample_def sample_user_def sample_account_def new_emby_def)

definition sample_form :: plan_form where
  "sample_form = \<lparr>pf_code = ''basic'', pf_name = ''Basic'', pf_description = None, pf_duration_days = None,
     pf_legacy_level = None, pf_entitlements = None, pf_enabled = Some False, pf_is_default = Some True,
     pf_sort_order = None\<rparr>"

lemma accounts_stay_consistent_witness:
  "account_consistent (account_run [CreatePlan sample_clock sample_form sample_actor,
     AssignPlan sample_clock ''m1'' ''a7'' 1 None sample_actor,
     AssignPlan sample_clock ''m2'' ''a7'' 1 (Some 5) sample_actor] account_sample)"
  using accounts_stay_consistent [OF account_sample_ok] by blast

end
