(* ===== verification/Community_Schema.thy ===== *)
theory Community_Schema
  imports Account_Service
begin

section \<open>Reviews, reactions, reports and notifications: the tables\<close>

text \<open>
  The tables of \<open>bot/sql_helper/sql_community.py\<close>, added to the database, and \<open>CommunityRepository\<close>
  of \<open>bot/repositories/community.py\<close>. A review is unique per user and media key, a reaction and a
  report per review and user, a preference per user and category.
\<close>

record review_row =
  rv_id :: string
  rv_tg :: int
  rv_media_key :: string
  rv_media_title :: string
  rv_media_year :: "int option"
  rv_rating :: int
  rv_content :: string
  rv_spoiler :: bool
  rv_status :: string
  rv_like_count :: int
  rv_report_count :: int
  rv_admin_note :: "string option"
  rv_moderated_by :: "int option"
  rv_moderated_at :: "datetime option"
  rv_created_at :: datetime
  rv_updated_at :: datetime

record reaction_row =
  rx_id :: int
  rx_review_id :: string
  rx_tg :: int
  rx_created_at :: datetime

record report_row =
  rp_id :: int
  rp_review_id :: string
  rp_tg :: int
  rp_reason :: string
  rp_detail :: "string option"
  rp_created_at :: datetime

record notification_row =
  nt_id :: string
  nt_tg :: int
  nt_category :: string
  nt_title :: string
  nt_body :: string
  nt_severity :: string
  nt_action_url :: "string option"
  nt_metadata :: "jval option"
  nt_read_at :: "datetime option"
  nt_created_at :: datetime

record preference_row =
  pref_id :: int
  pref_tg :: int
  pref_category :: string
  pref_web_enabled :: bool
  pref_telegram_enabled :: bool
  pref_updated_at :: datetime

record community_db = account_db +
  reviews :: "review_row list"
  reactions :: "reaction_row auto_table"
  reports :: "report_row auto_table"
  notifications :: "notification_row list"
  preferences :: "preference_row auto_table"

definition review_media :: "review_row \<Rightarrow> int \<times> string" where
  "review_media r = (rv_tg r, rv_media_key r)"

definition reaction_key :: "reaction_row \<Rightarrow> string \<times> int" where
  "reaction_key x = (rx_review_id x, rx_tg x)"

definition report_key :: "report_row \<Rightarrow> string \<times> int" where
  "report_key x = (rp_review_id x, rp_tg x)"

definition pref_key :: "preference_row \<Rightarrow> int \<times> string" where
  "pref_key p = (pref_tg p, pref_category p)"

definition community_integrity :: "'z community_db_scheme \<Rightarrow> bool" where
  "community_integrity db =
     (account_integrity db \<and>
      distinct (map rv_id (reviews db)) \<and> distinct (map review_media (reviews db)) \<and>
      distinct (map reaction_key (rows (reactions db))) \<and>
      distinct (map report_key (rows (reports db))) \<and>
      distinct (map nt_id (notifications db)) \<and>
      distinct (map pref_key (rows (preferences db))))"

abbreviation community_uow ::
  "('z community_db_scheme \<Rightarrow> ('a \<times> 'z community_db_scheme) attempt) \<Rightarrow> 'z community_db_scheme \<Rightarrow>
   ('a, 'z community_db_scheme) outcome" where
  "community_uow \<equiv> commit_with community_integrity"

subsection \<open>Searches that also match a Telegram id\<close>

definition py_isdigit :: "string \<Rightarrow> bool" where
  \<comment> \<open>\<open>str.isdigit\<close>, of the ASCII digits\<close>
  "py_isdigit s = (s \<noteq> [] \<and> list_all (\<lambda>c. let n = of_char c :: nat in 48 \<le> n \<and> n \<le> 57) s)"

definition int_error :: "string \<Rightarrow> exn" where
  "int_error s = ValueError (''invalid literal for int() with base 10: '' @ s)"

fun int_of_json :: "jval \<Rightarrow> int attempt" where
  \<comment> \<open>\<open>int(x)\<close>\<close>
  "int_of_json (JInt n) = Inr n"
| "int_of_json (JBool b) = Inr (if b then 1 else 0)"
| "int_of_json (JStr s) = (case py_int s of None \<Rightarrow> Inl (int_error s) | Some n \<Rightarrow> Inr n)"
| "int_of_json _ = Inl TypeError"

definition search_tg :: "string option \<Rightarrow> int option attempt" where
  \<comment> \<open>the id a search asks for, if it is a number\<close>
  "search_tg search =
     (case search of
        None \<Rightarrow> Inr None
      | Some s \<Rightarrow>
          if \<not> py_isdigit (py_strip s) then Inr None
          else (case py_int s of None \<Rightarrow> Inl (int_error s) | Some n \<Rightarrow> Inr (Some n)))"

definition search_pattern :: "string \<Rightarrow> string" where
  "search_pattern s = ''%'' @ py_strip s @ ''%''"

definition opt_eq :: "'a option \<Rightarrow> 'a \<Rightarrow> bool" where
  \<comment> \<open>a filter that is left out holds of every row\<close>
  "opt_eq f x = (case f of None \<Rightarrow> True | Some y \<Rightarrow> x = y)"

definition text_eq :: "string option \<Rightarrow> string \<Rightarrow> bool" where
  \<comment> \<open>so does an empty text\<close>
  "text_eq f x = (truthy_str f \<longrightarrow> Some x = f)"

definition newest :: "('r \<Rightarrow> datetime) \<Rightarrow> int \<Rightarrow> int \<Rightarrow> 'r list \<Rightarrow> 'r list \<times> int" where
  \<comment> \<open>the count, and the page of the rows with the latest first\<close>
  "newest time lim off hits = (sql_page off lim (sort_key (\<lambda>r. - time r) hits), int (length hits))"

lemma set_newest: "set (fst (newest t lim off hits)) \<subseteq> set hits"
  using set_sql_page by (fastforce simp: newest_def)

lemma length_newest: "length (fst (newest t lim off hits)) \<le> nat lim"
  by (simp add: newest_def length_sql_page)

subsection \<open>Reviews\<close>

definition add_review :: "review_row \<Rightarrow> 'z community_db_scheme \<Rightarrow> 'z community_db_scheme" where
  [op_defs]: "add_review r db = db\<lparr>reviews := reviews db @ [r]\<rparr>"

definition save_review :: "review_row \<Rightarrow> 'z community_db_scheme \<Rightarrow> 'z community_db_scheme" where
  [op_defs]: "save_review r db = db\<lparr>reviews := tbl_put rv_id r (reviews db)\<rparr>"

definition delete_review :: "string \<Rightarrow> 'z community_db_scheme \<Rightarrow> 'z community_db_scheme" where
  [op_defs]: "delete_review i db =
     db\<lparr>reviews := tbl_del rv_id i (reviews db),
        reactions := (reactions db)\<lparr>rows := tbl_del rx_review_id i (rows (reactions db))\<rparr>,
        reports := (reports db)\<lparr>rows := tbl_del rp_review_id i (rows (reports db))\<rparr>\<rparr>"

definition get_review :: "string \<Rightarrow> 'z community_db_scheme \<Rightarrow> review_row option" where
  [op_defs]: "get_review i db = tbl_get rv_id i (reviews db)"

definition get_own_review :: "string \<Rightarrow> int \<Rightarrow> 'z community_db_scheme \<Rightarrow> review_row option" where
  \<comment> \<open>\<open>get_review\<close> with the author as a second filter\<close>
  "get_own_review i tg db = tbl_get (\<lambda>r. (rv_id r, rv_tg r)) (i, tg) (reviews db)"

interpretation review_repo: growing_store get_review save_review rv_id add_review delete_review
  by unfold_locales
    (auto simp: op_defs tbl_get_put_same tbl_get_put_other tbl_put_absent tbl_get_append tbl_get_del
       dest: tbl_get_key split: option.splits)

definition review_by_user_media :: "int \<Rightarrow> string \<Rightarrow> 'z community_db_scheme \<Rightarrow> review_row option" where
  "review_by_user_media tg key db = tbl_get review_media (tg, key) (reviews db)"

definition review_match ::
  "int option \<Rightarrow> string option \<Rightarrow> string option \<Rightarrow> int option \<Rightarrow> int option \<Rightarrow> review_row \<Rightarrow> bool" where
  "review_match tg status search found minimum r =
     (opt_eq tg (rv_tg r) \<and> text_eq status (rv_status r) \<and>
      (truthy_str search \<longrightarrow>
         (let p = search_pattern (the search)
          in sql_like p (rv_media_title r) \<or> sql_like p (rv_content r) \<or> sql_like p (rv_media_key r) \<or>
             found = Some (rv_tg r))) \<and>
      (case minimum of None \<Rightarrow> True | Some n \<Rightarrow> n \<le> rv_rating r))"

definition list_reviews ::
  "int option \<Rightarrow> string option \<Rightarrow> string option \<Rightarrow> int option \<Rightarrow> int \<Rightarrow> int \<Rightarrow> 'z community_db_scheme \<Rightarrow>
   (review_row list \<times> int) attempt" where
  "list_reviews tg status search minimum lim off db =
     bind_attempt (search_tg search) (\<lambda>found.
       Inr (newest rv_created_at lim off (filter (review_match tg status search found minimum) (reviews db))))"

subsection \<open>Reactions and reports\<close>

definition get_reaction :: "string \<Rightarrow> int \<Rightarrow> 'z community_db_scheme \<Rightarrow> reaction_row option" where
  "get_reaction i tg db = tbl_get reaction_key (i, tg) (rows (reactions db))"

definition add_reaction :: "clock \<Rightarrow> string \<Rightarrow> int \<Rightarrow> 'z community_db_scheme \<Rightarrow> 'z community_db_scheme" where
  "add_reaction clk i tg db =
     db\<lparr>reactions := insert_auto
       (\<lambda>k. \<lparr>rx_id = k, rx_review_id = i, rx_tg = tg, rx_created_at = now_utc clk\<rparr>) (reactions db)\<rparr>"

definition remove_reaction :: "string \<Rightarrow> int \<Rightarrow> 'z community_db_scheme \<Rightarrow> 'z community_db_scheme" where
  "remove_reaction i tg db =
     db\<lparr>reactions := (reactions db)\<lparr>rows := tbl_del reaction_key (i, tg) (rows (reactions db))\<rparr>\<rparr>"

definition get_report :: "string \<Rightarrow> int \<Rightarrow> 'z community_db_scheme \<Rightarrow> report_row option" where
  "get_report i tg db = tbl_get report_key (i, tg) (rows (reports db))"

definition add_report :: "(int \<Rightarrow> report_row) \<Rightarrow> 'z community_db_scheme \<Rightarrow> 'z community_db_scheme" where
  "add_report mk db = db\<lparr>reports := insert_auto mk (reports db)\<rparr>"

definition review_reports :: "string \<Rightarrow> 'z community_db_scheme \<Rightarrow> report_row list" where
  "review_reports i db =
     sort_key (\<lambda>x. - rp_created_at x) (filter (\<lambda>x. rp_review_id x = i) (rows (reports db)))"

subsection \<open>Notifications and preferences\<close>

definition insert_notification :: "notification_row \<Rightarrow> 'z community_db_scheme \<Rightarrow> 'z community_db_scheme" where
  "insert_notification n db = db\<lparr>notifications := notifications db @ [n]\<rparr>"

definition get_notification :: "string \<Rightarrow> int \<Rightarrow> 'z community_db_scheme \<Rightarrow> notification_row option" where
  "get_notification i tg db = tbl_get (\<lambda>n. (nt_id n, nt_tg n)) (i, tg) (notifications db)"

definition save_notification :: "notification_row \<Rightarrow> 'z community_db_scheme \<Rightarrow> 'z community_db_scheme" where
  "save_notification n db = db\<lparr>notifications := tbl_put nt_id n (notifications db)\<rparr>"

definition list_notifications ::
  "int option \<Rightarrow> string option \<Rightarrow> bool \<Rightarrow> int \<Rightarrow> int \<Rightarrow> 'z community_db_scheme \<Rightarrow>
   notification_row list \<times> int" where
  "list_notifications tg category unread_only lim off db =
     newest nt_created_at lim off
       (filter (\<lambda>n. opt_eq tg (nt_tg n) \<and> text_eq category (nt_category n) \<and>
                    (unread_only \<longrightarrow> nt_read_at n = None)) (notifications db))"

definition unread :: "int \<Rightarrow> notification_row \<Rightarrow> bool" where
  "unread tg n = (nt_tg n = tg \<and> nt_read_at n = None)"

definition community_unread_count :: "int \<Rightarrow> 'z community_db_scheme \<Rightarrow> int" where
  "community_unread_count tg db = int (length (filter (unread tg) (notifications db)))"

definition community_mark_all_read ::
  "int \<Rightarrow> datetime \<Rightarrow> 'z community_db_scheme \<Rightarrow> int \<times> 'z community_db_scheme" where
  "community_mark_all_read tg t db =
     (community_unread_count tg db,
      db\<lparr>notifications := map (\<lambda>n. if unread tg n then n\<lparr>nt_read_at := Some t\<rparr> else n) (notifications db)\<rparr>)"

definition list_preferences :: "int \<Rightarrow> 'z community_db_scheme \<Rightarrow> preference_row list" where
  "list_preferences tg db = filter (\<lambda>p. pref_tg p = tg) (rows (preferences db))"

definition get_preference :: "int \<Rightarrow> string \<Rightarrow> 'z community_db_scheme \<Rightarrow> preference_row option" where
  "get_preference tg category db = tbl_get pref_key (tg, category) (rows (preferences db))"

definition add_preference :: "(int \<Rightarrow> preference_row) \<Rightarrow> 'z community_db_scheme \<Rightarrow> 'z community_db_scheme" where
  "add_preference mk db = db\<lparr>preferences := insert_auto mk (preferences db)\<rparr>"

definition save_preference :: "preference_row \<Rightarrow> 'z community_db_scheme \<Rightarrow> 'z community_db_scheme" where
  "save_preference p db =
     db\<lparr>preferences := (preferences db)\<lparr>rows := tbl_put pref_key p (rows (preferences db))\<rparr>\<rparr>"

datatype channel = Web | Telegram

definition notification_enabled :: "int \<Rightarrow> string \<Rightarrow> channel \<Rightarrow> 'z community_db_scheme \<Rightarrow> bool" where
  "notification_enabled tg category ch db =
     (case get_preference tg category db of
        None \<Rightarrow> True
      | Some p \<Rightarrow> (case ch of Web \<Rightarrow> pref_web_enabled p | Telegram \<Rightarrow> pref_telegram_enabled p))"

definition user_ids :: "'z core_db_scheme \<Rightarrow> int list" where
  "user_ids db = map emby_tg (embys db)"

end
