(* ===== verification/Notifications.thy ===== *)
theory Notifications
  imports Community_Schema
begin

section \<open>Notifications: the function every service notifies users with\<close>

text \<open>
  \<open>add_notification\<close> of \<open>bot/application/community_service.py\<close> and the views of its rows. A user is
  notified in the application, by Telegram, or both, as the settings and the preferences of the user
  allow; a Telegram message is an operation task. The two ids drawn with \<open>uuid4\<close> are an argument.
\<close>

definition NOTIFICATION_CATEGORIES :: "(string \<times> string) list" where
  "NOTIFICATION_CATEGORIES =
     [(''system'', text_of [0x7CFB, 0x7EDF, 0x516C, 0x544A]),
      (''billing'', text_of [0x5145, 0x503C, 0x4E0E, 0x8D26, 0x5355]),
      (''ticket'', text_of [0x670D, 0x52A1, 0x5DE5, 0x5355]),
      (''request'', text_of [0x6C42, 0x7247, 0x8FDB, 0x5EA6]),
      (''review'', text_of [0x5F71, 0x8BC4, 0x72B6, 0x6001])]"

definition notification_category_names :: "string list" where
  "notification_category_names = [''system'', ''billing'', ''ticket'', ''request'', ''review'']"

lemma category_names: "map fst NOTIFICATION_CATEGORIES = notification_category_names"
  by (simp add: NOTIFICATION_CATEGORIES_def notification_category_names_def)

definition notification_severities :: "string list" where
  "notification_severities = [''info'', ''success'', ''warning'', ''danger'']"

definition unknown_category_message :: string where
  "unknown_category_message = text_of [0x672A, 0x77E5, 0x901A, 0x77E5, 0x5206, 0x7C7B]"

definition unknown_severity_message :: string where
  "unknown_severity_message = text_of [0x672A, 0x77E5, 0x901A, 0x77E5, 0x7EA7, 0x522B]"

definition empty_notification_message :: string where
  "empty_notification_message = text_of [0x901A, 0x77E5, 0x6807, 0x9898, 0x548C, 0x6B63, 0x6587, 0x4E0D, 0x80FD, 0x4E3A, 0x7A7A]"

definition setting_enabled :: "string \<Rightarrow> 'z core_db_scheme \<Rightarrow> bool" where
  \<comment> \<open>\<open>_setting_enabled\<close> with its default: only a stored boolean counts\<close>
  "setting_enabled key db =
     (case get_dynamic_setting key db of
        None \<Rightarrow> True
      | Some row \<Rightarrow> (case set_value row of JBool b \<Rightarrow> b | _ \<Rightarrow> True))"

definition serialize_notification :: "notification_row \<Rightarrow> jdict" where
  "serialize_notification n =
     [(''id'', JStr (nt_id n)), (''tg'', JInt (nt_tg n)), (''category'', JStr (nt_category n)),
      (''title'', JStr (nt_title n)), (''body'', JStr (nt_body n)), (''severity'', JStr (nt_severity n)),
      (''action_url'', jopt_str (nt_action_url n)), (''metadata'', jopt (nt_metadata n)),
      (''read_at'', jopt_time (nt_read_at n)), (''created_at'', JTime (nt_created_at n))]"

definition safe_action_url :: "string option \<Rightarrow> string option" where
  \<comment> \<open>only a path of the application itself\<close>
  "safe_action_url url =
     (case url of
        None \<Rightarrow> None
      | Some u \<Rightarrow> if prefix ''/'' u \<and> \<not> prefix ''//'' u then Some u else None)"

definition notification_row_of ::
  "clock \<Rightarrow> string \<Rightarrow> int \<Rightarrow> string \<Rightarrow> string \<Rightarrow> string \<Rightarrow> string \<Rightarrow> string option \<Rightarrow> jval option \<Rightarrow>
   notification_row" where
  "notification_row_of clk new_id tg category title body severity url metadata =
     \<lparr>nt_id = new_id, nt_tg = tg, nt_category = category, nt_title = py_take 200 title,
      nt_body = py_take 2000 body, nt_severity = severity, nt_action_url = url,
      nt_metadata = map_option json_dumps metadata, nt_read_at = None, nt_created_at = now_utc clk\<rparr>"

definition telegram_task ::
  "clock \<Rightarrow> string \<Rightarrow> string \<Rightarrow> int \<Rightarrow> string \<Rightarrow> string \<Rightarrow> string \<Rightarrow> string \<Rightarrow> string option \<Rightarrow> task_row" where
  "telegram_task clk new_id key_id tg category title body severity url =
     \<lparr>task_id = new_id, task_type = ''notification.telegram'', task_status = ''pending'', task_progress = 0,
      task_owner_kind = ''system'', task_owner_id = ''notification-service'',
      task_idempotency_key = Some (''notification:'' @ key_id @ '':telegram''),
      task_input = Some (json_dumps (JDict
        [(''tg'', JInt tg), (''category'', JStr category), (''title'', JStr (py_take 200 title)),
         (''body'', JStr (py_take 2000 body)), (''severity'', JStr severity), (''action_url'', jopt_str url)])),
      task_result = None, task_error_message = None, task_retry_count = 0, task_max_retries = 3,
      task_next_run_at = now_utc clk, task_locked_by = None, task_lease_expires_at = None,
      task_last_heartbeat_at = None, task_cancel_requested = False, task_created_at = now_utc clk,
      task_started_at = None, task_finished_at = None, task_updated_at = now_utc clk\<rparr>"

definition user_event ::
  "clock \<Rightarrow> string \<Rightarrow> int \<Rightarrow> string \<Rightarrow> string \<Rightarrow> jdict \<Rightarrow> 'z core_db_scheme \<Rightarrow> 'z core_db_scheme" where
  \<comment> \<open>the events whose aggregate is a user: the payload names the resource, the user and what is added\<close>
  "user_event clk etype tg resource_type resource_id extra db =
     event clk etype ''user'' (Some (show_int tg))
       (Some (JDict ([(''resource_type'', JStr resource_type), (''resource_id'', JStr resource_id),
                      (''tg'', JInt tg)] @ extra))) db"

definition web_wanted :: "int \<Rightarrow> string \<Rightarrow> 'z community_db_scheme \<Rightarrow> bool" where
  "web_wanted tg category db =
     (setting_enabled ''notifications.web_enabled'' db \<and> notification_enabled tg category Web db)"

definition telegram_wanted :: "int \<Rightarrow> string \<Rightarrow> 'z community_db_scheme \<Rightarrow> bool" where
  \<comment> \<open>a negative id is the key of an account without Telegram\<close>
  "telegram_wanted tg category db =
     (setting_enabled ''notifications.telegram_enabled'' db \<and> tg > 0 \<and>
      notification_enabled tg category Telegram db)"

record notice =
  \<comment> \<open>what a caller wants to tell a user\<close>
  no_tg :: int
  no_category :: string
  no_title :: string
  no_body :: string
  no_severity :: string
  no_action_url :: "string option"
  no_metadata :: "jval option"

type_synonym notice_ids = "string \<times> string"
  \<comment> \<open>the id of the row and the id of the task\<close>

definition put_notification ::
  "clock \<Rightarrow> notice_ids \<Rightarrow> notice \<Rightarrow> 'z community_db_scheme \<Rightarrow>
   notification_row option \<times> 'z community_db_scheme" where
  "put_notification clk ids n db =
     (let tg = no_tg n; title = py_strip (no_title n); body = py_strip (no_body n);
          url = safe_action_url (no_action_url n);
          web = web_wanted tg (no_category n) db;
          row = notification_row_of clk (fst ids) tg (no_category n) title body (no_severity n) url (no_metadata n);
          db1 = (if web then user_event clk ''notification.created'' tg ''notification'' (fst ids) []
                              (insert_notification row db) else db);
          db2 = (if telegram_wanted tg (no_category n) db then
                   user_event clk ''notification.telegram.queued'' tg ''operation_task'' (snd ids) []
                     (add_task (telegram_task clk (snd ids) (if web then fst ids else snd ids) tg (no_category n)
                        title body (no_severity n) url) db1) else db1)
      in (if web then Some row else None, db2))"

definition add_notification ::
  "clock \<Rightarrow> notice_ids \<Rightarrow> notice \<Rightarrow> 'z community_db_scheme \<Rightarrow>
   (notification_row option \<times> 'z community_db_scheme) attempt" where
  "add_notification clk ids n db =
     (if no_category n \<notin> set notification_category_names then Inl (RuntimeError unknown_category_message)
      else if no_severity n \<notin> set notification_severities then Inl (RuntimeError unknown_severity_message)
      else if py_strip (no_title n) = [] \<or> py_strip (no_body n) = [] then
        Inl (RuntimeError empty_notification_message)
      else if \<not> web_wanted (no_tg n) (no_category n) db \<and> \<not> telegram_wanted (no_tg n) (no_category n) db then
        Inr (None, db)
      else Inr (put_notification clk ids n db))"

subsection \<open>What a notification adds\<close>

definition notified_rows :: "clock \<Rightarrow> notice_ids \<Rightarrow> notice \<Rightarrow> 'z community_db_scheme \<Rightarrow> notification_row list" where
  "notified_rows clk ids n db =
     (if web_wanted (no_tg n) (no_category n) db then
        [notification_row_of clk (fst ids) (no_tg n) (no_category n) (py_strip (no_title n)) (py_strip (no_body n))
           (no_severity n) (safe_action_url (no_action_url n)) (no_metadata n)] else [])"

definition queued_tasks :: "clock \<Rightarrow> notice_ids \<Rightarrow> notice \<Rightarrow> 'z community_db_scheme \<Rightarrow> task_row list" where
  "queued_tasks clk ids n db =
     (if telegram_wanted (no_tg n) (no_category n) db then
        [telegram_task clk (snd ids) (if web_wanted (no_tg n) (no_category n) db then fst ids else snd ids)
           (no_tg n) (no_category n) (py_strip (no_title n)) (py_strip (no_body n)) (no_severity n)
           (safe_action_url (no_action_url n))] else [])"

lemma self_events: "\<exists>es. db = db\<lparr>events := es\<rparr>"
  by (rule exI [where x = "events db"]) simp

lemma put_notification_adds:
  "\<exists>es. put_notification clk ids n db =
     (if web_wanted (no_tg n) (no_category n) db then Some (hd (notified_rows clk ids n db)) else None,
      db\<lparr>notifications := notifications db @ notified_rows clk ids n db,
         tasks := tasks db @ queued_tasks clk ids n db, events := es\<rparr>)"
  by (cases "web_wanted (no_tg n) (no_category n) db"; cases "telegram_wanted (no_tg n) (no_category n) db")
     (auto simp: put_notification_def Let_def notified_rows_def queued_tasks_def user_event_def event_def
        insert_notification_def add_task_def intro: self_events)

lemma add_notification_alt:
  "add_notification clk ids n db =
     (if no_category n \<notin> set notification_category_names then Inl (RuntimeError unknown_category_message)
      else if no_severity n \<notin> set notification_severities then Inl (RuntimeError unknown_severity_message)
      else if py_strip (no_title n) = [] \<or> py_strip (no_body n) = [] then
        Inl (RuntimeError empty_notification_message)
      else Inr (put_notification clk ids n db))"
  by (simp add: add_notification_def put_notification_def)

definition well_formed :: "notice \<Rightarrow> bool" where
  "well_formed n =
     (no_category n \<in> set notification_category_names \<and> no_severity n \<in> set notification_severities \<and>
      py_strip (no_title n) \<noteq> [] \<and> py_strip (no_body n) \<noteq> [])"

lemma add_notification_Inr:
  "add_notification clk ids n db = Inr r \<longleftrightarrow> well_formed n \<and> r = put_notification clk ids n db"
  by (auto simp: add_notification_alt well_formed_def)

lemma add_notification_adds:
  assumes "add_notification clk ids n db = Inr (r, db')"
  shows "well_formed n \<and> (r \<noteq> None \<longleftrightarrow> web_wanted (no_tg n) (no_category n) db) \<and>
    (\<exists>es. db' = db\<lparr>notifications := notifications db @ notified_rows clk ids n db,
                   tasks := tasks db @ queued_tasks clk ids n db, events := es\<rparr>)"
proof -
  have "well_formed n" and r: "(r, db') = put_notification clk ids n db"
    using assms by (simp_all add: add_notification_Inr)
  with put_notification_adds [of clk ids n db] show ?thesis by (auto split: if_splits)
qed

end
