(* ===== verification/Review_Service.thy ===== *)
theory Review_Service
  imports Notifications
begin

section \<open>The review service\<close>

text \<open>
  \<open>ReviewService\<close> of \<open>bot/application/community_service.py\<close>: reviews are written and edited by users,
  published by moderators, liked and reported by others. The ids drawn with \<open>uuid4\<close> are arguments.
\<close>

definition review_report_reasons :: "string list" where
  "review_report_reasons = [''spam'', ''abuse'', ''spoiler'', ''irrelevant'', ''other'']"

definition review_moderation_statuses :: "string list" where
  "review_moderation_statuses = [''published'', ''rejected'', ''hidden'']"

definition editable_statuses :: "string list" where
  "editable_statuses = [''pending'', ''rejected'']"

subsection \<open>Views and texts\<close>

definition serialize_review :: "review_row \<Rightarrow> bool \<Rightarrow> jdict" where
  "serialize_review r liked =
     [(''id'', JStr (rv_id r)), (''tg'', JInt (rv_tg r)), (''media_key'', JStr (rv_media_key r)),
      (''media_title'', JStr (rv_media_title r)), (''media_year'', jopt_int (rv_media_year r)),
      (''rating'', JInt (rv_rating r)), (''content'', JStr (rv_content r)),
      (''spoiler'', JBool (rv_spoiler r)), (''status'', JStr (rv_status r)),
      (''like_count'', JInt (rv_like_count r)), (''report_count'', JInt (rv_report_count r)),
      (''liked'', JBool liked), (''admin_note'', jopt_str (rv_admin_note r)),
      (''moderated_by'', jopt_int (rv_moderated_by r)), (''moderated_at'', jopt_time (rv_moderated_at r)),
      (''created_at'', JTime (rv_created_at r)), (''updated_at'', JTime (rv_updated_at r))]"

definition serialize_report :: "report_row \<Rightarrow> jdict" where
  "serialize_report x =
     [(''id'', JInt (rp_id x)), (''review_id'', JStr (rp_review_id x)), (''tg'', JInt (rp_tg x)),
      (''reason'', JStr (rp_reason x)), (''detail'', jopt_str (rp_detail x)),
      (''created_at'', JTime (rp_created_at x))]"

definition page_view :: "(jdict list \<times> int) \<Rightarrow> int \<Rightarrow> int \<Rightarrow> jdict" where
  "page_view p lim off =
     [(''items'', JList (map JDict (fst p))), (''total'', JInt (snd p)), (''limit'', JInt lim),
      (''offset'', JInt off)]"

definition incomplete_review_message :: string where
  "incomplete_review_message = text_of [0x4F5C, 0x54C1, 0x4FE1, 0x606F, 0x6216, 0x5F71, 0x8BC4, 0x5185, 0x5BB9, 0x4E0D,
     0x5B8C, 0x6574]"

definition reviewed_message :: string where
  "reviewed_message = text_of [0x4F60, 0x5DF2, 0x7ECF, 0x8BC4, 0x4EF7, 0x8FC7, 0x8FD9, 0x90E8, 0x4F5C, 0x54C1]"

definition not_editable_message :: string where
  "not_editable_message = text_of [0x5F53, 0x524D, 0x5BA1, 0x6838, 0x72B6, 0x6001, 0x4E0D, 0x80FD, 0x4FEE, 0x6539]"

definition empty_field_message :: string where
  "empty_field_message = text_of [0x5F71, 0x8BC4, 0x5B57, 0x6BB5, 0x4E0D, 0x80FD, 0x8BBE, 0x7F6E, 0x4E3A, 0x7A7A]"

definition rating_message :: string where
  "rating_message = text_of [0x8BC4, 0x5206, 0x5FC5, 0x987B, 0x5728, 0x20, 0x31, 0x20, 0x5230, 0x20, 0x31, 0x30,
     0x20, 0x4E4B, 0x95F4]"

definition content_message :: string where
  "content_message = text_of [0x5F71, 0x8BC4, 0x5185, 0x5BB9, 0x9700, 0x8981, 0x20, 0x31, 0x30, 0x20, 0x5230, 0x20,
     0x35, 0x30, 0x30, 0x30, 0x20, 0x4E2A, 0x5B57, 0x7B26]"

definition unknown_reason_message :: string where
  "unknown_reason_message = text_of [0x672A, 0x77E5, 0x4E3E, 0x62A5, 0x539F, 0x56E0]"

definition own_review_message :: string where
  "own_review_message = text_of [0x4E0D, 0x80FD, 0x4E3E, 0x62A5, 0x81EA, 0x5DF1, 0x7684, 0x5F71, 0x8BC4]"

definition reported_message :: string where
  "reported_message = text_of [0x4F60, 0x5DF2, 0x7ECF, 0x4E3E, 0x62A5, 0x8FC7, 0x8FD9, 0x6761, 0x5F71, 0x8BC4]"

definition unknown_moderation_message :: string where
  "unknown_moderation_message = text_of [0x672A, 0x77E5, 0x5BA1, 0x6838, 0x72B6, 0x6001]"

definition moderation_label :: "string \<Rightarrow> string" where
  "moderation_label status =
     (if status = ''published'' then text_of [0x5DF2, 0x901A, 0x8FC7]
      else if status = ''rejected'' then text_of [0x672A, 0x901A, 0x8FC7]
      else if status = ''hidden'' then text_of [0x5DF2, 0x9690, 0x85CF]
      else text_of [0x5DF2, 0x66F4, 0x65B0])"

definition note_suffix :: "string option \<Rightarrow> string" where
  \<comment> \<open>the note of the administrator, where there is one\<close>
  "note_suffix note =
     (if truthy_str note then text_of [0x20, 0x5907, 0x6CE8, 0xFF1A] @ the note else [])"

definition moderation_notice :: "review_row \<Rightarrow> notice" where
  "moderation_notice r =
     \<lparr>no_tg = rv_tg r, no_category = ''review'',
      no_title = text_of [0x5F71, 0x8BC4, 0x5BA1, 0x6838] @ moderation_label (rv_status r),
      no_body = text_of [0x300A] @ rv_media_title r @ text_of [0x300B, 0x7684, 0x5F71, 0x8BC4, 0x72B6, 0x6001, 0x5DF2, 0x66F4, 0x65B0, 0x3002] @
        note_suffix (rv_admin_note r),
      no_severity = (if rv_status r = ''published'' then ''success'' else ''warning''),
      no_action_url = Some ''/reviews'',
      no_metadata = Some (JDict [(''review_id'', JStr (rv_id r)), (''status'', JStr (rv_status r))])\<rparr>"

definition actor_number :: "actor \<Rightarrow> int option" where
  \<comment> \<open>\<open>int(actor.identifier) if actor.identifier.isdigit() else None\<close>\<close>
  "actor_number actor =
     (if py_isdigit (actor_identifier actor) then py_int (actor_identifier actor) else None)"

subsection \<open>Writing and reading reviews\<close>

definition review_input_ok :: "string \<Rightarrow> string \<Rightarrow> int option \<Rightarrow> int \<Rightarrow> string \<Rightarrow> bool" where
  \<comment> \<open>of the stripped texts\<close>
  "review_input_ok key title year rating content =
     (key \<noteq> [] \<and> py_len key \<le> 255 \<and> title \<noteq> [] \<and> py_len title \<le> 255 \<and> 1 \<le> rating \<and> rating \<le> 10 \<and>
      (case year of None \<Rightarrow> True | Some y \<Rightarrow> 1888 \<le> y \<and> y \<le> 2200) \<and>
      10 \<le> py_len content \<and> py_len content \<le> 5000)"

definition create_review ::
  "clock \<Rightarrow> string \<Rightarrow> int \<Rightarrow> string \<Rightarrow> string \<Rightarrow> int option \<Rightarrow> int \<Rightarrow> string \<Rightarrow> bool \<Rightarrow> actor \<Rightarrow>
   'z community_db_scheme \<Rightarrow> (jdict, 'z community_db_scheme) outcome" where
  "create_review clk new_id tg media_key media_title media_year rating content spoiler actor db0 =
     (let key = py_lower (py_strip media_key); title = py_strip media_title; text = py_strip content in
      if \<not> review_input_ok key title media_year rating text then
        (Inl (RuntimeError incomplete_review_message), db0)
      else
        (case community_uow (\<lambda>db.
            if review_by_user_media tg key db \<noteq> None then Inl (RuntimeError reviewed_message)
            else
              let row = \<lparr>rv_id = new_id, rv_tg = tg, rv_media_key = key, rv_media_title = title,
                         rv_media_year = media_year, rv_rating = rating, rv_content = text,
                         rv_spoiler = spoiler, rv_status = ''pending'', rv_like_count = 0,
                         rv_report_count = 0, rv_admin_note = None, rv_moderated_by = None,
                         rv_moderated_at = None, rv_created_at = now_utc clk, rv_updated_at = now_utc clk\<rparr>
              in Inr (serialize_review row False,
                   user_event clk ''review.created'' tg ''media_review'' new_id []
                     (audit_success clk actor ''review.create'' ''media_review'' (Some new_id)
                       (Some (JDict [(''media_key'', JStr key), (''rating'', JInt rating)]))
                       (add_review row db)))) db0 of
           (Inl IntegrityError, d) \<Rightarrow> (Inl (RuntimeError reviewed_message), d)
         | res \<Rightarrow> res))"

definition review_page ::
  "(review_row \<Rightarrow> 'z community_db_scheme \<Rightarrow> bool) \<Rightarrow> (review_row list \<times> int) attempt \<Rightarrow> int \<Rightarrow> int \<Rightarrow>
   'z community_db_scheme \<Rightarrow> (jdict \<times> 'z community_db_scheme) attempt" where
  "review_page liked found lim off db =
     bind_attempt found (\<lambda>(rs, total).
       Inr (page_view (map (\<lambda>r. serialize_review r (liked r db)) rs, total) lim off, db))"

definition list_published ::
  "int \<Rightarrow> string option \<Rightarrow> int option \<Rightarrow> int \<Rightarrow> int \<Rightarrow> 'z community_db_scheme \<Rightarrow>
   (jdict, 'z community_db_scheme) outcome" where
  "list_published viewer search minimum lim off db0 =
     community_uow (\<lambda>db. review_page (\<lambda>r d. get_reaction (rv_id r) viewer d \<noteq> None)
       (list_reviews None (Some ''published'') search minimum lim off db) lim off db) db0"

definition list_mine :: "int \<Rightarrow> int \<Rightarrow> int \<Rightarrow> 'z community_db_scheme \<Rightarrow> (jdict, 'z community_db_scheme) outcome" where
  "list_mine tg lim off db0 =
     community_uow (\<lambda>db. review_page (\<lambda>r d. False) (list_reviews (Some tg) None None None lim off db) lim off db) db0"

definition list_admin ::
  "string option \<Rightarrow> string option \<Rightarrow> int option \<Rightarrow> int \<Rightarrow> int \<Rightarrow> 'z community_db_scheme \<Rightarrow>
   (jdict, 'z community_db_scheme) outcome" where
  "list_admin status search minimum lim off db0 =
     community_uow (\<lambda>db. review_page (\<lambda>r d. False) (list_reviews None status search minimum lim off db) lim off db) db0"

definition detail_admin ::
  "string \<Rightarrow> 'z community_db_scheme \<Rightarrow> (jdict option, 'z community_db_scheme) outcome" where
  "detail_admin i db0 =
     community_uow (\<lambda>db.
       case get_review i db of
         None \<Rightarrow> Inr (None, db)
       | Some r \<Rightarrow> Inr (Some (serialize_review r False @
            [(''reports'', JList (map (JDict \<circ> serialize_report) (review_reports i db)))]), db)) db0"

subsection \<open>Editing and deleting one's own review\<close>

record review_patch =
  \<comment> \<open>the dictionary of \<open>update_mine\<close>; None where a key is missing, Some None for a null\<close>
  rpa_rating :: "int option option"
  rpa_content :: "string option option"
  rpa_spoiler :: "bool option option"

definition review_patch_dict :: "review_patch \<Rightarrow> jdict" where
  "review_patch_dict pt =
     concat [case rpa_rating pt of None \<Rightarrow> [] | Some x \<Rightarrow> [(''rating'', jopt_int x)],
       case rpa_content pt of None \<Rightarrow> [] | Some x \<Rightarrow> [(''content'', jopt_str x)],
       case rpa_spoiler pt of None \<Rightarrow> [] | Some x \<Rightarrow> [(''spoiler'', jopt (map_option JBool x))]]"

definition patch_rating :: "review_patch \<Rightarrow> review_row \<Rightarrow> review_row attempt" where
  "patch_rating pt r =
     (case rpa_rating pt of
        None \<Rightarrow> Inr r
      | Some None \<Rightarrow> Inl (RuntimeError empty_field_message)
      | Some (Some n) \<Rightarrow> if 1 \<le> n \<and> n \<le> 10 then Inr (r\<lparr>rv_rating := n\<rparr>) else Inl (RuntimeError rating_message))"

definition patch_content :: "review_patch \<Rightarrow> review_row \<Rightarrow> review_row attempt" where
  "patch_content pt r =
     (case rpa_content pt of
        None \<Rightarrow> Inr r
      | Some None \<Rightarrow> Inl (RuntimeError empty_field_message)
      | Some (Some s) \<Rightarrow>
          (let t = py_strip s
           in if 10 \<le> py_len t \<and> py_len t \<le> 5000 then Inr (r\<lparr>rv_content := t\<rparr>)
              else Inl (RuntimeError content_message)))"

definition patch_spoiler :: "review_patch \<Rightarrow> review_row \<Rightarrow> review_row attempt" where
  "patch_spoiler pt r =
     (case rpa_spoiler pt of
        None \<Rightarrow> Inr r
      | Some None \<Rightarrow> Inl (RuntimeError empty_field_message)
      | Some (Some b) \<Rightarrow> Inr (r\<lparr>rv_spoiler := b\<rparr>))"

definition patch_review :: "review_patch \<Rightarrow> review_row \<Rightarrow> review_row attempt" where
  "patch_review pt r =
     bind_attempt (patch_rating pt r) (\<lambda>r1. bind_attempt (patch_content pt r1) (patch_spoiler pt))"

definition update_mine ::
  "clock \<Rightarrow> string \<Rightarrow> int \<Rightarrow> review_patch \<Rightarrow> actor \<Rightarrow> 'z community_db_scheme \<Rightarrow>
   (jdict option, 'z community_db_scheme) outcome" where
  "update_mine clk i tg pt actor db0 =
     community_uow (\<lambda>db.
       case get_own_review i tg db of
         None \<Rightarrow> Inr (None, db)
       | Some row \<Rightarrow>
           if rv_status row \<notin> set editable_statuses then Inl (RuntimeError not_editable_message)
           else bind_attempt (patch_review pt row) (\<lambda>r.
             let r' = r\<lparr>rv_status := ''pending'', rv_admin_note := None, rv_moderated_at := None,
                        rv_moderated_by := None, rv_updated_at := now_utc clk\<rparr>
             in Inr (Some (serialize_review r' False),
                  user_event clk ''review.updated'' tg ''media_review'' i [(''status'', JStr ''pending'')]
                    (audit_success clk actor ''review.update'' ''media_review'' (Some i)
                      (Some (JDict (review_patch_dict pt))) (save_review r' db))))) db0"

definition delete_mine ::
  "clock \<Rightarrow> string \<Rightarrow> int \<Rightarrow> actor \<Rightarrow> 'z community_db_scheme \<Rightarrow> (bool, 'z community_db_scheme) outcome" where
  "delete_mine clk i tg actor db0 =
     community_uow (\<lambda>db.
       case get_own_review i tg db of
         None \<Rightarrow> Inr (False, db)
       | Some row \<Rightarrow>
           Inr (True, user_event clk ''review.deleted'' tg ''media_review'' i []
             (audit_success clk actor ''review.delete'' ''media_review'' (Some i) None (delete_review i db)))) db0"

subsection \<open>Likes, reports and moderation\<close>

definition react ::
  "clock \<Rightarrow> string \<Rightarrow> int \<Rightarrow> bool \<Rightarrow> 'z community_db_scheme \<Rightarrow> (jdict option, 'z community_db_scheme) outcome" where
  "react clk i tg enabled db0 =
     community_uow (\<lambda>db.
       case get_review i db of
         None \<Rightarrow> Inr (None, db)
       | Some row \<Rightarrow>
           if rv_status row \<noteq> ''published'' then Inr (None, db)
           else
             let found = (get_reaction i tg db \<noteq> None);
                 likes = (if enabled \<and> \<not> found then rv_like_count row + 1
                          else if \<not> enabled \<and> found then max 0 (rv_like_count row - 1)
                          else rv_like_count row);
                 db1 = (if enabled \<and> \<not> found then add_reaction clk i tg db
                        else if \<not> enabled \<and> found then remove_reaction i tg db else db);
                 row' = row\<lparr>rv_like_count := likes, rv_updated_at := now_utc clk\<rparr>
             in Inr (Some (serialize_review row' enabled), save_review row' db1)) db0"

definition report_review ::
  "clock \<Rightarrow> string \<Rightarrow> int \<Rightarrow> string \<Rightarrow> string option \<Rightarrow> actor \<Rightarrow> 'z community_db_scheme \<Rightarrow>
   (jdict option, 'z community_db_scheme) outcome" where
  "report_review clk i tg reason detail actor db0 =
     (if reason \<notin> set review_report_reasons then (Inl (RuntimeError unknown_reason_message), db0)
      else community_uow (\<lambda>db.
        case get_review i db of
          None \<Rightarrow> Inr (None, db)
        | Some row \<Rightarrow>
            if rv_status row \<noteq> ''published'' then Inr (None, db)
            else if rv_tg row = tg then Inl (RuntimeError own_review_message)
            else if get_report i tg db \<noteq> None then Inl (RuntimeError reported_message)
            else
              let db1 = add_report (\<lambda>k. \<lparr>rp_id = k, rp_review_id = i, rp_tg = tg, rp_reason = reason,
                    rp_detail = strip_or_none detail, rp_created_at = now_utc clk\<rparr>) db;
                  row' = row\<lparr>rv_report_count := rv_report_count row + 1, rv_updated_at := now_utc clk\<rparr>
              in Inr (Some (serialize_review row' False),
                   event clk ''review.reported'' ''media_review'' (Some i)
                     (Some (JDict [(''report_count'', JInt (rv_report_count row'))]))
                     (audit_success clk actor ''review.report'' ''media_review'' (Some i)
                       (Some (JDict [(''reason'', JStr reason)])) (save_review row' db1)))) db0)"

definition moderate ::
  "clock \<Rightarrow> notice_ids \<Rightarrow> string \<Rightarrow> string \<Rightarrow> string option \<Rightarrow> actor \<Rightarrow> 'z community_db_scheme \<Rightarrow>
   (jdict option, 'z community_db_scheme) outcome" where
  "moderate clk ids i status admin_note actor db0 =
     (if status \<notin> set review_moderation_statuses then (Inl (RuntimeError unknown_moderation_message), db0)
      else community_uow (\<lambda>db.
        case get_review i db of
          None \<Rightarrow> Inr (None, db)
        | Some row \<Rightarrow>
            let row' = row\<lparr>rv_status := status, rv_admin_note := strip_or_none admin_note,
                  rv_moderated_by := actor_number actor, rv_moderated_at := Some (now_utc clk),
                  rv_updated_at := now_utc clk\<rparr>
            in bind_attempt (add_notification clk ids (moderation_notice row') (save_review row' db)) (\<lambda>(_, db1).
              Inr (Some (serialize_review row' False),
                user_event clk ''review.updated'' (rv_tg row) ''media_review'' i [(''status'', JStr status)]
                  (audit_success clk actor ''review.moderate'' ''media_review'' (Some i)
                    (Some (JDict [(''status'', JStr status), (''admin_note'', jopt_str (rv_admin_note row'))]))
                    db1)))) db0)"

end
