(* ===== verification/Notification_Service.thy ===== *)
theory Notification_Service
  imports Review_Service
begin

section \<open>The notification service\<close>

text \<open>
  \<open>NotificationService\<close> of \<open>bot/application/community_service.py\<close>: reading notifications, the
  preferences of a user, and broadcasts by an administrator. The ids of the k-th notification of a
  broadcast are the k-th element of an argument.
\<close>

definition no_target_message :: string where
  "no_target_message = text_of [0x76EE, 0x6807, 0x7528, 0x6237, 0x4E0D, 0x5B58, 0x5728]"

definition service_list_notifications ::
  "int option \<Rightarrow> string option \<Rightarrow> bool \<Rightarrow> int \<Rightarrow> int \<Rightarrow> 'z community_db_scheme \<Rightarrow>
   (jdict, 'z community_db_scheme) outcome" where
  "service_list_notifications tg category unread_only lim off db0 =
     community_uow (\<lambda>db.
       let (rs, total) = list_notifications tg category unread_only lim off db
       in Inr (page_view (map serialize_notification rs, total) lim off, db)) db0"

definition unread_count :: "int \<Rightarrow> 'z community_db_scheme \<Rightarrow> (int, 'z community_db_scheme) outcome" where
  "unread_count tg db0 = community_uow (\<lambda>db. Inr (community_unread_count tg db, db)) db0"

definition mark_read ::
  "clock \<Rightarrow> string \<Rightarrow> int \<Rightarrow> 'z community_db_scheme \<Rightarrow> (jdict option, 'z community_db_scheme) outcome" where
  "mark_read clk i tg db0 =
     community_uow (\<lambda>db.
       case get_notification i tg db of
         None \<Rightarrow> Inr (None, db)
       | Some n \<Rightarrow>
           let n' = n\<lparr>nt_read_at := (case nt_read_at n of None \<Rightarrow> Some (now_utc clk) | Some t \<Rightarrow> Some t)\<rparr>
           in Inr (Some (serialize_notification n'), save_notification n' db)) db0"

definition mark_all_read ::
  "clock \<Rightarrow> int \<Rightarrow> 'z community_db_scheme \<Rightarrow> (int, 'z community_db_scheme) outcome" where
  "mark_all_read clk tg db0 = community_uow (\<lambda>db. Inr (community_mark_all_read tg (now_utc clk) db)) db0"

definition saved_preference :: "string \<Rightarrow> preference_row list \<Rightarrow> preference_row option" where
  \<comment> \<open>the last row of a category wins in the dictionary\<close>
  "saved_preference category ps = find (\<lambda>p. pref_category p = category) (rev ps)"

definition preferences_view ::
  "int \<Rightarrow> 'z community_db_scheme \<Rightarrow> (jdict list, 'z community_db_scheme) outcome" where
  "preferences_view tg db0 =
     community_uow (\<lambda>db.
       let saved = list_preferences tg db
       in Inr (map (\<lambda>(category, label).
            let p = saved_preference category saved
            in [(''category'', JStr category), (''label'', JStr label),
                (''web_enabled'', JBool (case p of None \<Rightarrow> True | Some r \<Rightarrow> pref_web_enabled r)),
                (''telegram_enabled'', JBool (case p of None \<Rightarrow> True | Some r \<Rightarrow> pref_telegram_enabled r))])
          NOTIFICATION_CATEGORIES, db)) db0"

definition update_preference ::
  "clock \<Rightarrow> int \<Rightarrow> string \<Rightarrow> bool \<Rightarrow> bool option \<Rightarrow> 'z community_db_scheme \<Rightarrow>
   (jdict, 'z community_db_scheme) outcome" where
  "update_preference clk tg category web_enabled telegram_enabled db0 =
     (if category \<notin> set notification_category_names then (Inl (RuntimeError unknown_category_message), db0)
      else community_uow (\<lambda>db.
        let old = get_preference tg category db;
            telegram = opt_or telegram_enabled (case old of None \<Rightarrow> True | Some p \<Rightarrow> pref_telegram_enabled p);
            db1 = (case old of
                None \<Rightarrow> add_preference (\<lambda>k. \<lparr>pref_id = k, pref_tg = tg, pref_category = category,
                  pref_web_enabled = web_enabled, pref_telegram_enabled = telegram,
                  pref_updated_at = now_utc clk\<rparr>) db
              | Some p \<Rightarrow> save_preference (p\<lparr>pref_web_enabled := web_enabled,
                  pref_telegram_enabled := telegram, pref_updated_at := now_utc clk\<rparr>) db)
        in Inr ([(''category'', JStr category), (''web_enabled'', JBool web_enabled),
                 (''telegram_enabled'', JBool telegram)], db1)) db0)"

fun notify_all ::
  "clock \<Rightarrow> (nat \<Rightarrow> notice_ids) \<Rightarrow> (int \<Rightarrow> notice) \<Rightarrow> nat \<Rightarrow> int list \<Rightarrow> int \<times> 'z community_db_scheme \<Rightarrow>
   (int \<times> 'z community_db_scheme) attempt" where
  \<comment> \<open>the loop of \<open>broadcast\<close> over its recipients, with the counter of the rows it created\<close>
  "notify_all clk ids mk k [] (created, db) = Inr (created, db)"
| "notify_all clk ids mk k (tg # tgs) (created, db) =
     bind_attempt (add_notification clk (ids k) (mk tg) db) (\<lambda>(r, db').
       notify_all clk ids mk (Suc k) tgs (if r = None then created else created + 1, db'))"

definition broadcast_notice ::
  "string \<Rightarrow> string \<Rightarrow> string \<Rightarrow> string \<Rightarrow> string option \<Rightarrow> int \<Rightarrow> notice" where
  "broadcast_notice category title body severity action_url tg =
     \<lparr>no_tg = tg, no_category = category, no_title = title, no_body = body, no_severity = severity,
      no_action_url = action_url, no_metadata = Some (JDict [(''broadcast'', JBool True)])\<rparr>"

definition broadcast ::
  "clock \<Rightarrow> (nat \<Rightarrow> notice_ids) \<Rightarrow> int option \<Rightarrow> string \<Rightarrow> string \<Rightarrow> string \<Rightarrow> string \<Rightarrow> string option \<Rightarrow> actor \<Rightarrow>
   'z community_db_scheme \<Rightarrow> (jdict, 'z community_db_scheme) outcome" where
  "broadcast clk ids target category title body severity action_url actor db0 =
     (if category \<notin> set notification_category_names then (Inl (RuntimeError unknown_category_message), db0)
      else if severity \<notin> set notification_severities then (Inl (RuntimeError unknown_severity_message), db0)
      else community_uow (\<lambda>db.
        if target \<noteq> None \<and> users_get_for_update (the target) db = None then
          Inl (RuntimeError no_target_message)
        else
          let recipients = (case target of None \<Rightarrow> user_ids db | Some tg \<Rightarrow> [tg])
          in bind_attempt (notify_all clk ids (broadcast_notice category title body severity action_url) 0
                             recipients (0, db)) (\<lambda>(created, db').
               Inr ([(''created'', JInt created), (''recipients'', JInt (int (length recipients)))],
                 audit_success clk actor ''notification.broadcast'' ''notification'' None
                   (Some (JDict [(''target_tg'', jopt_int target), (''category'', JStr category),
                                 (''created'', JInt created)])) db'))) db0)"

end
