(* ===== verification/Community_Properties.thy ===== *)
theory Community_Properties
  imports Notification_Service Samples
begin

section \<open>Properties of reviews and notifications\<close>

text \<open>
  Who is notified and how, the types of the rows every sequence of calls leaves behind, the counters
  of a review, and the likes of a review as the set of the users who like it.
\<close>

subsection \<open>Frames\<close>

lemma bookkeeping_community [simp]:
  "reviews (audit clk ac an rt rid oc dt rq db) = reviews db"
  "reactions (audit clk ac an rt rid oc dt rq db) = reactions db"
  "reports (audit clk ac an rt rid oc dt rq db) = reports db"
  "notifications (audit clk ac an rt rid oc dt rq db) = notifications db"
  "reviews (event clk et rt rid p db) = reviews db"
  "reactions (event clk et rt rid p db) = reactions db"
  "reports (event clk et rt rid p db) = reports db"
  "notifications (event clk et rt rid p db) = notifications db"
  "reviews (user_event clk et tg rt i ex db) = reviews db"
  "reactions (user_event clk et tg rt i ex db) = reactions db"
  "reports (user_event clk et tg rt i ex db) = reports db"
  "notifications (user_event clk et tg rt i ex db) = notifications db"
  by (simp_all add: audit_def event_def user_event_def)

lemma save_review_frame [simp]:
  "reactions (save_review r db) = reactions db" "reports (save_review r db) = reports db"
  "notifications (save_review r db) = notifications db" "reviews (save_review r db) = tbl_put rv_id r (reviews db)"
  by (simp_all add: save_review_def)

lemma wanted_frame [simp]:
  "web_wanted tg c (db\<lparr>notifications := ns, tasks := ts, events := es\<rparr>) = web_wanted tg c db"
  "telegram_wanted tg c (db\<lparr>notifications := ns, tasks := ts, events := es\<rparr>) = telegram_wanted tg c db"
  by (simp_all add: web_wanted_def telegram_wanted_def setting_enabled_def get_dynamic_setting_def
      notification_enabled_def get_preference_def)

lemma add_notification_keeps:
  assumes "add_notification clk ids n db = Inr (r, db')"
  shows "reviews db' = reviews db \<and> reactions db' = reactions db \<and> reports db' = reports db \<and>
    notifications db' = notifications db @ notified_rows clk ids n db \<and>
    tasks db' = tasks db @ queued_tasks clk ids n db"
  using add_notification_adds [OF assms] by auto

subsection \<open>Broadcasts\<close>

definition broadcast_rows ::
  "clock \<Rightarrow> (nat \<Rightarrow> notice_ids) \<Rightarrow> (int \<Rightarrow> notice) \<Rightarrow> nat \<Rightarrow> int list \<Rightarrow> 'z community_db_scheme \<Rightarrow>
   notification_row list" where
  "broadcast_rows clk ids mk k tgs db =
     concat (map (\<lambda>(j, tg). notified_rows clk (ids j) (mk tg) db) (enumerate k tgs))"

definition broadcast_tasks ::
  "clock \<Rightarrow> (nat \<Rightarrow> notice_ids) \<Rightarrow> (int \<Rightarrow> notice) \<Rightarrow> nat \<Rightarrow> int list \<Rightarrow> 'z community_db_scheme \<Rightarrow> task_row list" where
  "broadcast_tasks clk ids mk k tgs db =
     concat (map (\<lambda>(j, tg). queued_tasks clk (ids j) (mk tg) db) (enumerate k tgs))"

lemma notified_frame [simp]:
  "notified_rows clk i n (db\<lparr>notifications := ns, tasks := ts, events := es\<rparr>) = notified_rows clk i n db"
  "queued_tasks clk i n (db\<lparr>notifications := ns, tasks := ts, events := es\<rparr>) = queued_tasks clk i n db"
  by (simp_all add: notified_rows_def queued_tasks_def)

lemma broadcast_rows_frame [simp]:
  "broadcast_rows clk ids mk k tgs (db\<lparr>notifications := ns, tasks := ts, events := es\<rparr>) = broadcast_rows clk ids mk k tgs db"
  "broadcast_tasks clk ids mk k tgs (db\<lparr>notifications := ns, tasks := ts, events := es\<rparr>) = broadcast_tasks clk ids mk k tgs db"
  by (simp_all add: broadcast_rows_def broadcast_tasks_def)

lemma broadcast_rows_Cons [simp]:
  "broadcast_rows clk ids mk k (tg # tgs) db =
     notified_rows clk (ids k) (mk tg) db @ broadcast_rows clk ids mk (Suc k) tgs db"
  "broadcast_tasks clk ids mk k (tg # tgs) db =
     queued_tasks clk (ids k) (mk tg) db @ broadcast_tasks clk ids mk (Suc k) tgs db"
  "broadcast_rows clk ids mk k [] db = []" "broadcast_tasks clk ids mk k [] db = []"
  by (simp_all add: broadcast_rows_def broadcast_tasks_def)

lemma notify_all_adds:
  "notify_all clk ids mk k tgs (c, db) = Inr (c', db') \<Longrightarrow>
     c' = c + int (length (broadcast_rows clk ids mk k tgs db)) \<and> (\<forall>tg \<in> set tgs. well_formed (mk tg)) \<and>
     (\<exists>es. db' = db\<lparr>notifications := notifications db @ broadcast_rows clk ids mk k tgs db,
                    tasks := tasks db @ broadcast_tasks clk ids mk k tgs db, events := es\<rparr>)"
proof (induction tgs arbitrary: k c db)
  case Nil
  then show ?case by (auto intro: self_events)
next
  case (Cons tg tgs)
  from Cons.prems obtain r d where add: "add_notification clk (ids k) (mk tg) db = Inr (r, d)"
    and rest: "notify_all clk ids mk (Suc k) tgs (if r = None then c else c + 1, d) = Inr (c', db')"
    by (auto simp: bind_attempt_Inr_iff)
  from add_notification_adds [OF add] obtain es where wf: "well_formed (mk tg)"
    and r: "r \<noteq> None \<longleftrightarrow> web_wanted (no_tg (mk tg)) (no_category (mk tg)) db"
    and d: "d = db\<lparr>notifications := notifications db @ notified_rows clk (ids k) (mk tg) db,
                   tasks := tasks db @ queued_tasks clk (ids k) (mk tg) db, events := es\<rparr>" by blast
  have len: "int (length (notified_rows clk (ids k) (mk tg) db)) = (if r = None then 0 else 1)"
    using r by (auto simp: notified_rows_def)
  show ?case using Cons.IH [OF rest] wf len unfolding d by (auto split: if_splits)
qed

lemma notify_all_error:
  "(\<And>tg. well_formed (mk tg)) \<Longrightarrow> \<exists>x. notify_all clk ids mk k tgs s = Inr x"
proof (induction tgs arbitrary: k s)
  case Nil
  then show ?case by (cases s) simp
next
  case (Cons tg tgs)
  obtain c db where s: "s = (c, db)" by fastforce
  have add: "add_notification clk (ids k) (mk tg) db = Inr (put_notification clk (ids k) (mk tg) db)"
    using Cons.prems by (simp add: add_notification_Inr)
  show ?case unfolding s notify_all.simps add bind_attempt_simps split_def by (rule Cons.IH [OF Cons.prems])
qed

lemma queued_tasks_positive: "t \<in> set (queued_tasks clk ids n db) \<Longrightarrow> 0 < no_tg n"
  by (simp add: queued_tasks_def telegram_wanted_def split: if_splits)

definition recipients_of :: "int option \<Rightarrow> 'z core_db_scheme \<Rightarrow> int list" where
  "recipients_of target db = (case target of None \<Rightarrow> user_ids db | Some tg \<Rightarrow> [tg])"

lemma broadcast_Inr:
  assumes "broadcast clk ids target c t b sv u a db = (Inr v, db')"
  shows "v = [(''created'', JInt (int (length (broadcast_rows clk ids (broadcast_notice c t b sv u) 0 (recipients_of target db) db)))),
          (''recipients'', JInt (int (length (recipients_of target db))))] \<and>
     notifications db' = notifications db @ broadcast_rows clk ids (broadcast_notice c t b sv u) 0 (recipients_of target db) db \<and>
     tasks db' = tasks db @ broadcast_tasks clk ids (broadcast_notice c t b sv u) 0 (recipients_of target db) db \<and>
     reviews db' = reviews db \<and> reactions db' = reactions db \<and> reports db' = reports db"
  using assms
  by (auto simp: broadcast_def commit_with_Inr bind_attempt_Inr_iff Let_def recipients_of_def [symmetric]
      split: if_splits dest!: notify_all_adds)

definition task_target :: "task_row \<Rightarrow> jval option" where
  "task_target t = (case task_input t of None \<Rightarrow> None | Some v \<Rightarrow> jget ''tg'' v)"

lemma broadcast_rows_to:
  "(\<And>tg. no_tg (mk tg) = tg \<and> no_category (mk tg) = c) \<Longrightarrow>
   map nt_tg (broadcast_rows clk ids mk k tgs db) = filter (\<lambda>tg. web_wanted tg c db) tgs"
  by (induction tgs arbitrary: k) (simp_all add: notified_rows_def notification_row_of_def)

lemma broadcast_tasks_to:
  "(\<And>tg. no_tg (mk tg) = tg \<and> no_category (mk tg) = c) \<Longrightarrow>
   map task_target (broadcast_tasks clk ids mk k tgs db) =
     map (\<lambda>tg. Some (JInt tg)) (filter (\<lambda>tg. telegram_wanted tg c db) tgs)"
  by (induction tgs arbitrary: k) (simp_all add: queued_tasks_def telegram_task_def task_target_def)

text \<open>A broadcast reaches each recipient once and by the channels he has left on. It adds one row for
  every recipient whom settings and preferences allow to be notified in the application, in the order
  of the recipients, and answers their number; it queues one Telegram message for every recipient with
  a positive id whom they allow to be messaged, and no other.\<close>

theorem broadcast_reaches_recipients:
  assumes "broadcast clk ids target c t b sv u a db = (Inr v, db')"
  shows "(\<exists>ns ts. notifications db' = notifications db @ ns \<and> tasks db' = tasks db @ ts \<and>
      map nt_tg ns = filter (\<lambda>tg. web_wanted tg c db) (recipients_of target db) \<and>
      map task_target ts =
        map (\<lambda>tg. Some (JInt tg)) (filter (\<lambda>tg. telegram_wanted tg c db) (recipients_of target db)) \<and>
      list_all (\<lambda>tg. 0 < tg) (filter (\<lambda>tg. telegram_wanted tg c db) (recipients_of target db)) \<and>
      v = [(''created'', JInt (int (length ns))),
           (''recipients'', JInt (int (length (recipients_of target db))))])"
proof -
  let ?mk = "broadcast_notice c t b sv u" and ?tgs = "recipients_of target db"
  have mk: "no_tg (?mk tg) = tg \<and> no_category (?mk tg) = c" for tg by (simp add: broadcast_notice_def)
  note broadcast_Inr [OF assms]
  then show ?thesis
    using broadcast_rows_to [OF mk] broadcast_tasks_to [OF mk]
    by (auto simp: list_all_iff telegram_wanted_def)
qed

definition community_sample :: community_db where
  "community_sample =
     \<lparr>embys = [sample_user, new_emby (- 1)], codes = [], partition_codes = [], partition_grants = empty_table,
      accounts = [sample_account], identities = [], wallets = empty_table, ledger = empty_table,
      idempotency = empty_table, audits = empty_table, points = empty_table,
      events = empty_table, securities = empty_table, tasks = [], jobs = empty_table,
      heartbeats = [], settings = [], revisions = empty_table,
      login_requests = [], sessions = [], roles = empty_table, role_members = empty_table,
      plans = empty_table, memberships = [], tags = empty_table, assignments = empty_table,
      reviews = [], reactions = empty_table, reports = empty_table, notifications = [],
      preferences = empty_table\<rparr>"

lemmas community_sample_defs = community_integrity_def account_integrity_def auth_integrity_def
  integrity_def community_sample_def sample_user_def sample_account_def new_emby_def

definition sample_ids :: "nat \<Rightarrow> notice_ids" where
  "sample_ids k = (''n'' @ show_nat k, ''t'' @ show_nat k)"


lemma community_sample_ok: "community_integrity community_sample"
  by (simp add: community_sample_defs)

lemma broadcast_sample:
  "fst (broadcast sample_clock sample_ids None ''system'' ''Hi'' ''Hello'' ''info'' None sample_actor community_sample) =
     Inr [(''created'', JInt 2), (''recipients'', JInt 2)]"
  by code_simp

lemma broadcast_sample_telegram:
  "filter (\<lambda>tg. telegram_wanted tg ''system'' community_sample) (recipients_of None community_sample) = [7]"
  "tasks community_sample = []"
  by code_simp+

lemma broadcast_reaches_recipients_witness:
  "map task_target (tasks (snd (broadcast sample_clock sample_ids None ''system'' ''Hi'' ''Hello'' ''info'' None
     sample_actor community_sample))) = [Some (JInt 7)]"
proof -
  let ?x = "broadcast sample_clock sample_ids None ''system'' ''Hi'' ''Hello'' ''info'' None sample_actor community_sample"
  have "?x = (Inr [(''created'', JInt 2), (''recipients'', JInt 2)], snd ?x)"
    using broadcast_sample by (simp add: prod_eq_iff)
  from broadcast_reaches_recipients [OF this] show ?thesis unfolding broadcast_sample_telegram by auto
qed

subsection \<open>Sequences of calls\<close>

datatype community_call =
    CreateReview clock string int string string "int option" int string bool actor
  | ListPublished int "string option" "int option" int int
  | ListMine int int int
  | ListAdmin "string option" "string option" "int option" int int
  | DetailAdmin string
  | UpdateMine clock string int review_patch actor
  | DeleteMine clock string int actor
  | React clock string int bool
  | ReportReview clock string int string "string option" actor
  | Moderate clock notice_ids string string "string option" actor
  | ListNotifications "int option" "string option" bool int int
  | UnreadCount int
  | MarkRead clock string int
  | MarkAllRead clock int
  | Preferences int
  | UpdatePreference clock int string bool "bool option"
  | Broadcast clock "nat \<Rightarrow> notice_ids" "int option" string string string string "string option" actor

fun community_after :: "community_call \<Rightarrow> 'z community_db_scheme \<Rightarrow> 'z community_db_scheme" where
  "community_after (CreateReview clk i tg k t y rt c sp a) db = snd (create_review clk i tg k t y rt c sp a db)"
| "community_after (ListPublished v s m lim off) db = snd (list_published v s m lim off db)"
| "community_after (ListMine tg lim off) db = snd (list_mine tg lim off db)"
| "community_after (ListAdmin st s m lim off) db = snd (list_admin st s m lim off db)"
| "community_after (DetailAdmin i) db = snd (detail_admin i db)"
| "community_after (UpdateMine clk i tg pt a) db = snd (update_mine clk i tg pt a db)"
| "community_after (DeleteMine clk i tg a) db = snd (delete_mine clk i tg a db)"
| "community_after (React clk i tg e) db = snd (react clk i tg e db)"
| "community_after (ReportReview clk i tg r d a) db = snd (report_review clk i tg r d a db)"
| "community_after (Moderate clk ids i st n a) db = snd (moderate clk ids i st n a db)"
| "community_after (ListNotifications tg c u lim off) db = snd (service_list_notifications tg c u lim off db)"
| "community_after (UnreadCount tg) db = snd (unread_count tg db)"
| "community_after (MarkRead clk i tg) db = snd (mark_read clk i tg db)"
| "community_after (MarkAllRead clk tg) db = snd (mark_all_read clk tg db)"
| "community_after (Preferences tg) db = snd (preferences_view tg db)"
| "community_after (UpdatePreference clk tg c w te) db = snd (update_preference clk tg c w te db)"
| "community_after (Broadcast clk ids target c t b sv u a) db = snd (broadcast clk ids target c t b sv u a db)"

definition community_run :: "community_call list \<Rightarrow> 'z community_db_scheme \<Rightarrow> 'z community_db_scheme" where
  "community_run calls db = fold community_after calls db"

subsection \<open>Types of the rows\<close>

text \<open>What the columns of a review and of a notification hold.\<close>

definition review_typed :: "review_row \<Rightarrow> bool" where
  "review_typed r =
     (rv_media_key r \<noteq> [] \<and> py_len (rv_media_key r) \<le> 255 \<and> rv_media_title r \<noteq> [] \<and>
      py_len (rv_media_title r) \<le> 255 \<and> 1 \<le> rv_rating r \<and> rv_rating r \<le> 10 \<and>
      10 \<le> py_len (rv_content r) \<and> py_len (rv_content r) \<le> 5000 \<and>
      rv_status r \<in> insert ''pending'' (set review_moderation_statuses) \<and>
      (rv_status r = ''pending'' \<longleftrightarrow> rv_moderated_at r = None))"

definition notification_typed :: "notification_row \<Rightarrow> bool" where
  "notification_typed n =
     (nt_category n \<in> set notification_category_names \<and> nt_severity n \<in> set notification_severities \<and>
      nt_title n \<noteq> [] \<and> py_len (nt_title n) \<le> 200 \<and> nt_body n \<noteq> [] \<and> py_len (nt_body n) \<le> 2000 \<and>
      (case nt_action_url n of None \<Rightarrow> True | Some u \<Rightarrow> prefix ''/'' u \<and> \<not> prefix ''//'' u))"

definition community_typed :: "'z community_db_scheme \<Rightarrow> bool" where
  "community_typed db =
     (list_all review_typed (reviews db) \<and> list_all notification_typed (notifications db))"

lemma py_take_nonempty: "0 < n \<Longrightarrow> s \<noteq> [] \<Longrightarrow> py_take n s \<noteq> []"
  by (cases s) (auto split: nat.splits)

lemma notified_typed:
  "well_formed n \<Longrightarrow> list_all notification_typed (notified_rows clk ids n db)"
  by (auto simp: notified_rows_def notification_row_of_def notification_typed_def well_formed_def
      py_len_py_take py_take_nonempty safe_action_url_def split: option.splits)

lemma list_all_tbl_put: "list_all P rs \<Longrightarrow> P r \<Longrightarrow> list_all P (tbl_put key r rs)"
  using set_tbl_put [of key r rs] by (auto simp: list_all_iff)

lemma community_typed_bookkeeping [simp]:
  "community_typed (audit clk ac an rt rid oc dt rq db) = community_typed db"
  "community_typed (event clk et rt rid p db) = community_typed db"
  "community_typed (user_event clk et tg rt i ex db) = community_typed db"
  by (simp_all add: community_typed_def)

lemma community_typed_save_review:
  "community_typed db \<Longrightarrow> review_typed r \<Longrightarrow> community_typed (save_review r db)"
  by (simp add: community_typed_def list_all_tbl_put)

lemma community_typed_get:
  "community_typed db \<Longrightarrow> get_review i db = Some r \<Longrightarrow> review_typed r"
  "community_typed db \<Longrightarrow> get_own_review i tg db = Some r \<Longrightarrow> review_typed r"
  by (auto simp: community_typed_def get_review_def get_own_review_def list_all_iff dest: tbl_get_mem)

lemma community_typed_notified:
  "community_typed db \<Longrightarrow> add_notification clk ids n db = Inr (r, db') \<Longrightarrow> community_typed db'"
  using add_notification_keeps [of clk ids n db r db']
  by (auto simp: community_typed_def add_notification_Inr notified_typed)

text \<open>A patch keeps the identity, the status and the counters of the review.\<close>

definition patched_from :: "review_row \<Rightarrow> review_row \<Rightarrow> bool" where
  "patched_from r r' =
     (review_typed r' \<and> rv_id r' = rv_id r \<and> rv_status r' = rv_status r \<and>
      rv_like_count r' = rv_like_count r \<and> rv_report_count r' = rv_report_count r)"

lemma patch_stage:
  "patch_rating pt r = Inr r' \<Longrightarrow> review_typed r \<Longrightarrow> patched_from r r'"
  "patch_content pt r = Inr r' \<Longrightarrow> review_typed r \<Longrightarrow> patched_from r r'"
  "patch_spoiler pt r = Inr r' \<Longrightarrow> review_typed r \<Longrightarrow> patched_from r r'"
  by (simp_all add: patch_rating_def patch_content_def patch_spoiler_def patched_from_def Let_def
        split: option.splits if_splits)
     (auto simp: review_typed_def)

lemma patched_from_trans: "patched_from a b \<Longrightarrow> patched_from b c \<Longrightarrow> patched_from a c"
  by (simp add: patched_from_def)

lemma patched_from_typed: "patched_from a b \<Longrightarrow> review_typed b"
  by (simp add: patched_from_def)

lemma patch_review_from:
  assumes "patch_review pt r = Inr r'" and "review_typed r"
  shows "patched_from r r'"
proof -
  from assms(1) obtain a b where "patch_rating pt r = Inr a" "patch_content pt a = Inr b" "patch_spoiler pt b = Inr r'"
    unfolding patch_review_def bind_attempt_Inr_iff by blast
  with assms(2) show ?thesis by (meson patch_stage patched_from_trans patched_from_typed)
qed

lemma commit_read_only:
  assumes "\<And>x d. body db = Inr (x, d) \<Longrightarrow> d = db"
  shows "snd (commit_with good body db) = db"
  using assms by (auto simp: commit_with_def split: sum.splits)

lemma read_calls:
  "snd (list_published v s m lim off db) = db"
  "snd (list_mine tg lim off db) = db"
  "snd (list_admin st s m lim off db) = db"
  "snd (detail_admin i db) = db"
  "snd (service_list_notifications tgo c u lim off db) = db"
  "snd (unread_count tg db) = db"
  "snd (preferences_view tg db) = db"
  unfolding list_published_def list_mine_def list_admin_def detail_admin_def review_page_def
    service_list_notifications_def unread_count_def preferences_view_def
  by (rule commit_read_only, auto simp: bind_attempt_Inr_iff Let_def split: option.splits prod.splits)+

lemma create_review_after:
  "snd (create_review clk i tg k t y rt c sp a db) = db \<or>
   (review_input_ok (py_lower (py_strip k)) (py_strip t) y rt (py_strip c) \<and>
    (let row = \<lparr>rv_id = i, rv_tg = tg, rv_media_key = py_lower (py_strip k), rv_media_title = py_strip t,
                rv_media_year = y, rv_rating = rt, rv_content = py_strip c, rv_spoiler = sp,
                rv_status = ''pending'', rv_like_count = 0, rv_report_count = 0, rv_admin_note = None,
                rv_moderated_by = None, rv_moderated_at = None, rv_created_at = now_utc clk,
                rv_updated_at = now_utc clk\<rparr>;
         db' = user_event clk ''review.created'' tg ''media_review'' i []
                 (audit_success clk a ''review.create'' ''media_review'' (Some i)
                   (Some (JDict [(''media_key'', JStr (rv_media_key row)), (''rating'', JInt rt)])) (add_review row db))
     in snd (create_review clk i tg k t y rt c sp a db) = db' \<and> community_integrity db'))"
  by (auto simp: create_review_def Let_def commit_with_def split: sum.split)

lemma typed_create:
  assumes "community_typed db"
  shows "community_typed (snd (create_review clk i tg k t y rt c sp a db))"
  using create_review_after [of clk i tg k t y rt c sp a db] assms
  by (elim disjE) (auto simp: community_typed_def add_review_def review_typed_def review_input_ok_def Let_def)

lemma typed_update_mine:
  assumes "community_typed db"
  shows "community_typed (snd (update_mine clk i tg pt a db))"
  unfolding update_mine_def
proof (rule commit_with_snd [where P = community_typed, OF assms])
  fix x d
  assume "(case get_own_review i tg db of
       None \<Rightarrow> Inr (None, db)
     | Some row \<Rightarrow>
         if rv_status row \<notin> set editable_statuses then Inl (RuntimeError not_editable_message)
         else bind_attempt (patch_review pt row) (\<lambda>r.
           let r' = r\<lparr>rv_status := ''pending'', rv_admin_note := None, rv_moderated_at := None,
                      rv_moderated_by := None, rv_updated_at := now_utc clk\<rparr>
           in Inr (Some (serialize_review r' False),
                user_event clk ''review.updated'' tg ''media_review'' i [(''status'', JStr ''pending'')]
                  (audit_success clk a ''review.update'' ''media_review'' (Some i)
                    (Some (JDict (review_patch_dict pt))) (save_review r' db))))) = Inr (x, d)"
  then show "community_typed d"
    using assms community_typed_get(2) [OF assms, of i tg]
    by (auto simp: bind_attempt_Inr_iff Let_def split: option.splits if_splits
        dest!: patch_review_from patched_from_typed intro!: community_typed_save_review)
       (simp add: review_typed_def)
qed

lemma typed_updates [simp]:
  "review_typed (r\<lparr>rv_like_count := k\<rparr>) = review_typed r"
  "review_typed (r\<lparr>rv_report_count := k\<rparr>) = review_typed r"
  "review_typed (r\<lparr>rv_updated_at := t\<rparr>) = review_typed r"
  "notification_typed (n\<lparr>nt_read_at := x\<rparr>) = notification_typed n"
  by (simp_all add: review_typed_def notification_typed_def)

lemma moderated_row_typed: "review_typed r \<Longrightarrow> st \<in> set review_moderation_statuses \<Longrightarrow>
    review_typed (r\<lparr>rv_status := st, rv_admin_note := n, rv_moderated_by := m, rv_moderated_at := Some t,
                    rv_updated_at := t\<rparr>)"
  by (auto simp: review_typed_def review_moderation_statuses_def)

lemma typed_tables [simp]:
  "community_typed (add_reaction clk i tg db) = community_typed db"
  "community_typed (remove_reaction i tg db) = community_typed db"
  "community_typed (add_report mk db) = community_typed db"
  "community_typed (add_preference mp db) = community_typed db"
  "community_typed (save_preference p db) = community_typed db"
  by (simp_all add: community_typed_def add_reaction_def remove_reaction_def add_report_def
      add_preference_def save_preference_def)

lemma typed_delete_mine:
  assumes "community_typed db"
  shows "community_typed (snd (delete_mine clk i tg a db))"
  unfolding delete_mine_def
  by (rule commit_with_snd [where P = community_typed, OF assms])
     (use assms in \<open>auto simp: community_typed_def delete_review_def tbl_del_def list_all_iff split: option.splits\<close>)

lemma typed_react:
  assumes "community_typed db"
  shows "community_typed (snd (react clk i tg e db))"
  unfolding react_def Let_def
  by (rule commit_with_snd [where P = community_typed, OF assms])
     (use assms community_typed_get(1) [OF assms, of i] in
       \<open>auto split: option.splits if_splits intro!: community_typed_save_review\<close>)

lemma typed_report:
  assumes "community_typed db"
  shows "community_typed (snd (report_review clk i tg r dt a db))"
proof (cases "r \<in> set review_report_reasons")
  case True
  then show ?thesis unfolding report_review_def Let_def
    by (simp, intro commit_with_snd [where P = community_typed, OF assms])
       (use assms community_typed_get(1) [OF assms, of i] in
         \<open>auto split: option.splits if_splits intro!: community_typed_save_review\<close>)
qed (simp add: report_review_def assms)

lemma typed_moderate:
  assumes "community_typed db"
  shows "community_typed (snd (moderate clk ids i st n a db))"
proof (cases "st \<in> set review_moderation_statuses")
  case True
  then show ?thesis unfolding moderate_def Let_def
    by (simp, intro commit_with_snd [where P = community_typed, OF assms])
       (use assms community_typed_get(1) [OF assms, of i] in
         \<open>auto simp: bind_attempt_Inr_iff split: option.splits
            intro!: community_typed_save_review moderated_row_typed elim!: community_typed_notified [rotated]\<close>)
qed (simp add: moderate_def assms)

lemma typed_mark_read:
  assumes "community_typed db"
  shows "community_typed (snd (mark_read clk i tg db))"
  unfolding mark_read_def Let_def
  by (rule commit_with_snd [where P = community_typed, OF assms])
     (use assms in \<open>auto simp: community_typed_def save_notification_def get_notification_def
        intro!: list_all_tbl_put dest!: tbl_get_mem split: option.splits, auto simp: list_all_iff\<close>)

lemma typed_mark_all_read:
  assumes "community_typed db"
  shows "community_typed (snd (mark_all_read clk tg db))"
  unfolding mark_all_read_def
  by (rule commit_with_snd [where P = community_typed, OF assms])
     (use assms in \<open>auto simp: community_typed_def community_mark_all_read_def list_all_iff split: if_splits\<close>)

lemma typed_update_preference:
  assumes "community_typed db"
  shows "community_typed (snd (update_preference clk tg c w te db))"
proof (cases "c \<in> set notification_category_names")
  case True
  then show ?thesis unfolding update_preference_def Let_def
    by (simp, intro commit_with_snd [where P = community_typed, OF assms])
       (use assms in \<open>auto split: option.splits\<close>)
qed (simp add: update_preference_def assms)

lemma typed_broadcast_rows:
  "\<forall>tg \<in> set tgs. well_formed (mk tg) \<Longrightarrow> list_all notification_typed (broadcast_rows clk ids mk k tgs db)"
  by (induction tgs arbitrary: k) (simp_all add: notified_typed)

lemma typed_broadcast:
  assumes "community_typed db"
  shows "community_typed (snd (broadcast clk ids target c t b sv u a db))"
proof (cases "c \<in> set notification_category_names \<and> sv \<in> set notification_severities")
  case True
  then show ?thesis unfolding broadcast_def Let_def
    by (simp, intro commit_with_snd [where P = community_typed, OF assms])
       (use assms in \<open>auto simp: bind_attempt_Inr_iff community_typed_def typed_broadcast_rows
          split: if_splits dest!: notify_all_adds\<close>)
qed (auto simp: broadcast_def assms)

lemma community_typed_after: "community_typed db \<Longrightarrow> community_typed (community_after c db)"
  by (cases c) (simp_all add: read_calls typed_create typed_update_mine typed_delete_mine typed_react typed_report
      typed_moderate typed_mark_read typed_mark_all_read typed_update_preference typed_broadcast)

text \<open>Whatever calls of the review and notification services follow each other, every review keeps a
  rating from 1 to 10, texts within their lengths, a known status, and a moderation time exactly once
  it has left the pending state; every notification keeps a known category and severity, a title and a
  body that are not empty and fit their columns, and no link out of the application.\<close>

theorem community_stays_typed:
  assumes "community_typed db"
  shows "community_typed (community_run calls db)"
  unfolding community_run_def using assms
  by (induction calls arbitrary: db) (simp_all add: community_typed_after)

definition sample_review_call :: community_call where
  "sample_review_call = CreateReview sample_clock ''r1'' 7 ''tmdb:1'' ''Film'' None 8 ''A good film.'' False sample_actor"

lemma community_stays_typed_witness:
  "community_typed (community_run [sample_review_call,
     Moderate sample_clock (''n1'', ''t1'') ''r1'' ''published'' None sample_actor,
     React sample_clock ''r1'' 8 True] community_sample)"
  by (rule community_stays_typed) (simp add: community_typed_def community_sample_def)

subsection \<open>The counters of a review\<close>

definition likes_of :: "string \<Rightarrow> 'z community_db_scheme \<Rightarrow> int" where
  "likes_of i db = int (length (filter (\<lambda>x. rx_review_id x = i) (rows (reactions db))))"

definition reports_of :: "string \<Rightarrow> 'z community_db_scheme \<Rightarrow> int" where
  "reports_of i db = int (length (filter (\<lambda>x. rp_review_id x = i) (rows (reports db))))"

definition counts_exact :: "'z community_db_scheme \<Rightarrow> bool" where
  "counts_exact db =
     ((\<forall>r \<in> set (reviews db). rv_like_count r = likes_of (rv_id r) db \<and> rv_report_count r = reports_of (rv_id r) db) \<and>
      rx_review_id ` set (rows (reactions db)) \<union> rp_review_id ` set (rows (reports db)) \<subseteq> rv_id ` set (reviews db))"

lemma counts_cong:
  "reviews db' = reviews db \<Longrightarrow> reactions db' = reactions db \<Longrightarrow> reports db' = reports db \<Longrightarrow>
   counts_exact db' = counts_exact db"
  by (simp add: counts_exact_def likes_of_def reports_of_def)

lemma counts_bookkeeping [simp]:
  "counts_exact (audit clk ac an rt rid oc dt rq db) = counts_exact db"
  "counts_exact (event clk et rt rid p db) = counts_exact db"
  "counts_exact (user_event clk et tg rt i ex db) = counts_exact db"
  by (rule counts_cong; simp)+

lemma counts_notified:
  "add_notification clk ids n db = Inr (r, db') \<Longrightarrow> counts_exact db' = counts_exact db"
  using add_notification_keeps [of clk ids n db r db'] by (intro counts_cong) auto

lemma in_tbl_put: "x \<in> set (tbl_put key r rs) \<Longrightarrow> x = r \<or> x \<in> set rs \<and> key x \<noteq> key r"
  by (auto simp: tbl_put_def split: if_splits)

lemma counts_save:
  assumes "counts_exact db" and old: "get_review i db = Some r0"
    and ids: "rx_review_id ` set (rows (reactions d)) \<subseteq> insert i (rx_review_id ` set (rows (reactions db)))"
      "rp_review_id ` set (rows (reports d)) \<subseteq> insert i (rp_review_id ` set (rows (reports db)))"
    and same: "\<And>j. j \<noteq> i \<Longrightarrow> likes_of j d = likes_of j db \<and> reports_of j d = reports_of j db"
    and rv: "reviews d = reviews db"
    and r: "rv_id r = i" "rv_like_count r = likes_of i d" "rv_report_count r = reports_of i d"
  shows "counts_exact (save_review r d)"
proof -
  have i: "i \<in> rv_id ` set (reviews db)"
    using old by (auto simp: get_review_def dest: tbl_get_mem tbl_get_key)
  have ids': "rv_id ` set (tbl_put rv_id r (reviews db)) = rv_id ` set (reviews db)"
    using map_key_tbl_put [of rv_id r "reviews db"] by (metis list.set_map)
  have cnt: "likes_of j (save_review r d) = likes_of j d" "reports_of j (save_review r d) = reports_of j d" for j
    by (simp_all add: likes_of_def reports_of_def)
  have known: "rx_review_id ` set (rows (reactions db)) \<subseteq> rv_id ` set (reviews db)"
    "rp_review_id ` set (rows (reports db)) \<subseteq> rv_id ` set (reviews db)"
    using assms(1) by (simp_all add: counts_exact_def)
  have "rx_review_id ` set (rows (reactions d)) \<subseteq> rv_id ` set (reviews db)"
    using ids(1) known(1) i by (meson insert_subset order_trans subset_insertI)
  moreover have "rp_review_id ` set (rows (reports d)) \<subseteq> rv_id ` set (reviews db)"
    using ids(2) known(2) i by (meson insert_subset order_trans subset_insertI)
  moreover have "rv_like_count x = likes_of (rv_id x) d \<and> rv_report_count x = reports_of (rv_id x) d"
    if "x \<in> set (tbl_put rv_id r (reviews db))" for x
    using in_tbl_put [OF that] assms(1) same [of "rv_id x"] r by (auto simp: counts_exact_def)
  ultimately show ?thesis unfolding counts_exact_def cnt by (simp add: rv ids')
qed

lemma likes_add:
  "likes_of j (add_reaction clk i tg db) = likes_of j db + (if j = i then 1 else 0)"
  "reports_of j (add_reaction clk i tg db) = reports_of j db"
  by (simp_all add: likes_of_def reports_of_def add_reaction_def)

lemma reports_add:
  "(\<And>k. rp_review_id (mk k) = i) \<Longrightarrow> reports_of j (add_report mk db) = reports_of j db + (if j = i then 1 else 0)"
  "likes_of j (add_report mk db) = likes_of j db"
  by (simp_all add: likes_of_def reports_of_def add_report_def)

lemma length_filter_del:
  "distinct (map key rs) \<Longrightarrow> tbl_get key k rs = Some r \<Longrightarrow>
   int (length (filter P (tbl_del key k rs))) = int (length (filter P rs)) - (if P r then 1 else 0)"
proof (induction rs)
  case (Cons x rs)
  show ?case
  proof (cases "key x = k")
    case True
    then have "tbl_get key k rs = None" using Cons.prems(1) by (simp add: tbl_get_None)
    then have "tbl_del key k rs = rs" by (auto simp: tbl_del_def tbl_get_None filter_id_conv)
    with True Cons.prems(2) show ?thesis by (simp add: tbl_del_def)
  qed (use Cons in \<open>simp add: tbl_del_def split: if_splits\<close>)
qed simp

lemma likes_remove:
  assumes "community_integrity db" and "get_reaction i tg db \<noteq> None"
  shows "likes_of j (remove_reaction i tg db) = likes_of j db - (if j = i then 1 else 0)"
    and "reports_of j (remove_reaction i tg db) = reports_of j db"
proof -
  from assms(2) obtain x where x: "tbl_get reaction_key (i, tg) (rows (reactions db)) = Some x"
    by (auto simp: get_reaction_def)
  then have "rx_review_id x = i" by (auto simp: reaction_key_def dest: tbl_get_key)
  moreover have "distinct (map reaction_key (rows (reactions db)))"
    using assms(1) by (simp add: community_integrity_def)
  ultimately show "likes_of j (remove_reaction i tg db) = likes_of j db - (if j = i then 1 else 0)"
    using length_filter_del [OF _ x, of "\<lambda>x. rx_review_id x = j"] by (simp add: likes_of_def remove_reaction_def)
  show "reports_of j (remove_reaction i tg db) = reports_of j db"
    by (simp add: reports_of_def remove_reaction_def)
qed

lemma counts_row_only:
  assumes "counts_exact db" and "get_review i db = Some r0" and "rv_id r = i"
    and "rv_like_count r = rv_like_count r0" and "rv_report_count r = rv_report_count r0"
  shows "counts_exact (save_review r db)"
proof (rule counts_save [OF assms(1,2)])
  have "r0 \<in> set (reviews db)" "rv_id r0 = i"
    using assms(2) by (auto simp: get_review_def dest: tbl_get_mem tbl_get_key)
  then have "rv_like_count r0 = likes_of i db \<and> rv_report_count r0 = reports_of i db"
    using assms(1) by (auto simp: counts_exact_def)
  then show "rv_like_count r = likes_of i db" "rv_report_count r = reports_of i db" using assms(4,5) by simp_all
qed (use assms(3) in auto)

lemma count_of_row:
  assumes "counts_exact db" and "get_review i db = Some r"
  shows "rv_id r = i" "rv_like_count r = likes_of i db" "rv_report_count r = reports_of i db"
proof -
  have "r \<in> set (reviews db)" and i: "rv_id r = i"
    using assms(2) by (auto simp: get_review_def dest: tbl_get_mem tbl_get_key)
  then show "rv_id r = i" "rv_like_count r = likes_of i db" "rv_report_count r = reports_of i db"
    using assms(1) by (auto simp: counts_exact_def)
qed

lemma get_own_review_get:
  assumes "community_integrity db" and "get_own_review i tg db = Some r"
  shows "get_review i db = Some r"
proof -
  from assms(2) have "r \<in> set (reviews db)" "rv_id r = i"
    by (auto simp: get_own_review_def dest: tbl_get_mem tbl_get_key)
  moreover have "distinct (map rv_id (reviews db))" using assms(1) by (simp add: community_integrity_def)
  ultimately show ?thesis by (auto simp: get_review_def dest: tbl_get_distinct)
qed

lemma likes_of_nonneg: "get_reaction i tg db \<noteq> None \<Longrightarrow> 1 \<le> likes_of i db"
proof -
  assume "get_reaction i tg db \<noteq> None"
  then obtain x where x: "tbl_get reaction_key (i, tg) (rows (reactions db)) = Some x"
    by (auto simp: get_reaction_def)
  then have "x \<in> set (rows (reactions db))" "rx_review_id x = i"
    using tbl_get_key [OF x] by (auto simp: reaction_key_def dest: tbl_get_mem)
  then have "filter (\<lambda>x. rx_review_id x = i) (rows (reactions db)) \<noteq> []" by (auto simp: filter_empty_conv)
  then show ?thesis by (simp add: likes_of_def Suc_leI flip: of_nat_Suc)
qed

lemma reaction_tables [simp]:
  "reviews (add_reaction clk i tg db) = reviews db" "reviews (remove_reaction i tg db) = reviews db"
  "reviews (add_report mk db) = reviews db" "rows (reports (add_reaction clk i tg db)) = rows (reports db)"
  "rows (reports (remove_reaction i tg db)) = rows (reports db)" "reactions (add_report mk db) = reactions db"
  "rows (reports (add_report mk db)) = rows (reports db) @ [mk (next_id (reports db))]"
  "rx_review_id ` set (rows (reactions (add_reaction clk i tg db))) = insert i (rx_review_id ` set (rows (reactions db)))"
  by (simp_all add: add_reaction_def remove_reaction_def add_report_def)

lemma removed_ids: "rx_review_id ` set (rows (reactions (remove_reaction i tg db))) \<subseteq> rx_review_id ` set (rows (reactions db))"
  by (auto simp: remove_reaction_def tbl_del_def)

definition reacted_row :: "clock \<Rightarrow> bool \<Rightarrow> bool \<Rightarrow> review_row \<Rightarrow> review_row" where
  "reacted_row clk enabled found r =
     r\<lparr>rv_like_count := (if enabled \<and> \<not> found then rv_like_count r + 1
          else if \<not> enabled \<and> found then max 0 (rv_like_count r - 1) else rv_like_count r),
       rv_updated_at := now_utc clk\<rparr>"

definition reacted_db :: "clock \<Rightarrow> string \<Rightarrow> int \<Rightarrow> bool \<Rightarrow> 'z community_db_scheme \<Rightarrow> 'z community_db_scheme" where
  "reacted_db clk i tg enabled db =
     (let found = (get_reaction i tg db \<noteq> None)
      in if enabled \<and> \<not> found then add_reaction clk i tg db
         else if \<not> enabled \<and> found then remove_reaction i tg db else db)"

lemma react_body:
  "react clk i tg e db0 = community_uow (\<lambda>db.
     case get_review i db of
       None \<Rightarrow> Inr (None, db)
     | Some row \<Rightarrow>
         if rv_status row \<noteq> ''published'' then Inr (None, db)
         else let r = reacted_row clk e (get_reaction i tg db \<noteq> None) row
              in Inr (Some (serialize_review r e), save_review r (reacted_db clk i tg e db))) db0"
  unfolding react_def reacted_row_def reacted_db_def Let_def ..

lemma counts_reacted:
  assumes ok: "community_integrity db" "counts_exact db" and row: "get_review i db = Some r"
  shows "counts_exact (save_review (reacted_row clk e (get_reaction i tg db \<noteq> None) r) (reacted_db clk i tg e db))"
proof (rule counts_save [OF ok(2) row])
  note row' = count_of_row [OF ok(2) row]
  show "rv_id (reacted_row clk e (get_reaction i tg db \<noteq> None) r) = i" by (simp add: reacted_row_def row')
  show "rv_like_count (reacted_row clk e (get_reaction i tg db \<noteq> None) r) = likes_of i (reacted_db clk i tg e db)"
    using likes_of_nonneg [of i tg db]
    by (auto simp: reacted_row_def reacted_db_def Let_def row' likes_add likes_remove [OF ok(1)])
  show "rv_report_count (reacted_row clk e (get_reaction i tg db \<noteq> None) r) = reports_of i (reacted_db clk i tg e db)"
    by (auto simp: reacted_row_def reacted_db_def Let_def row' likes_add likes_remove [OF ok(1)])
  show "rx_review_id ` set (rows (reactions (reacted_db clk i tg e db))) \<subseteq> insert i (rx_review_id ` set (rows (reactions db)))"
    using removed_ids [of i tg db] by (simp add: reacted_db_def Let_def subset_insertI2 subset_insertI)
qed (auto simp: reacted_db_def Let_def likes_add likes_remove [OF ok(1)])

lemma counts_react:
  assumes "community_integrity db" and "counts_exact db"
  shows "counts_exact (snd (react clk i tg e db))"
  unfolding react_body Let_def
  by (rule commit_with_snd [where P = counts_exact, OF assms(2)])
     (use assms counts_reacted [OF assms] in \<open>auto split: option.splits if_splits\<close>)

lemma counts_create:
  assumes "counts_exact db"
  shows "counts_exact (snd (create_review clk i tg k t y rt c sp a db))"
proof -
  have new: "counts_exact (add_review r db)"
    if "rv_like_count r = 0" "rv_report_count r = 0" "distinct (map rv_id (reviews (add_review r db)))" for r
  proof -
    from that(3) have "rv_id r \<notin> rv_id ` set (reviews db)" by (simp add: add_review_def)
    then have "rv_id r \<notin> rx_review_id ` set (rows (reactions db))" "rv_id r \<notin> rp_review_id ` set (rows (reports db))"
      using assms by (auto simp: counts_exact_def)
    then have "filter (\<lambda>x. rx_review_id x = rv_id r) (rows (reactions db)) = []"
      "filter (\<lambda>x. rp_review_id x = rv_id r) (rows (reports db)) = []"
      by (force simp: filter_empty_conv)+
    then show ?thesis using assms that(1,2)
      by (auto simp: counts_exact_def add_review_def likes_of_def reports_of_def)
  qed
  show ?thesis
    using create_review_after [of clk i tg k t y rt c sp a db] assms
    by (elim disjE) (auto simp: Let_def community_integrity_def intro!: new)
qed

lemma counts_update_mine:
  assumes "community_integrity db" and "community_typed db" and "counts_exact db"
  shows "counts_exact (snd (update_mine clk i tg pt a db))"
proof -
  have "counts_exact (save_review (r\<lparr>rv_status := s, rv_admin_note := n, rv_moderated_at := m,
      rv_moderated_by := b, rv_updated_at := u\<rparr>) db)"
    if "get_own_review i tg db = Some r0" "patch_review pt r0 = Inr r" for r0 r s n m b u
  proof -
    have "patched_from r0 r"
      using patch_review_from that(2) community_typed_get(2) [OF assms(2) that(1)] by blast
    moreover note get = get_own_review_get [OF assms(1) that(1)]
    ultimately show ?thesis
      using count_of_row(1) [OF assms(3) get] by (intro counts_row_only [OF assms(3) get]) (auto simp: patched_from_def)
  qed
  then show ?thesis unfolding update_mine_def Let_def
    by (intro commit_with_snd [where P = counts_exact, OF assms(3)])
       (auto simp: bind_attempt_Inr_iff split: option.splits if_splits intro: assms(3))
qed

lemma filter_del_other: "k \<noteq> j \<Longrightarrow> filter (\<lambda>x. f x = j) (tbl_del f k xs) = filter (\<lambda>x. f x = j) xs"
  by (induction xs) (auto simp: tbl_del_def)

lemma counts_delete_mine:
  assumes "counts_exact db"
  shows "counts_exact (snd (delete_mine clk i tg a db))"
proof -
  have "likes_of j (delete_review i db) = likes_of j db" "reports_of j (delete_review i db) = reports_of j db"
    if "j \<noteq> i" for j
    using that by (simp_all add: likes_of_def reports_of_def delete_review_def filter_del_other [OF not_sym])
  then have "counts_exact (delete_review i db)"
    using assms by (auto simp: counts_exact_def) (auto simp: delete_review_def tbl_del_def)
  then show ?thesis unfolding delete_mine_def
    by (intro commit_with_snd [where P = counts_exact, OF assms]) (auto split: option.splits intro: assms)
qed

lemma counts_report:
  assumes "community_integrity db" and "counts_exact db"
  shows "counts_exact (snd (report_review clk i tg r dt a db))"
proof (cases "r \<in> set review_report_reasons")
  case True
  have "counts_exact (save_review (row\<lparr>rv_report_count := rv_report_count row + 1, rv_updated_at := u\<rparr>) (add_report mk db))"
    if "get_review i db = Some row" "\<And>k. rp_review_id (mk k) = i" for row u mk
    by (rule counts_save [OF assms(2) that(1)])
       (use count_of_row [OF assms(2) that(1)] that(2) in \<open>auto simp: reports_add\<close>)
  with True show ?thesis unfolding report_review_def Let_def
    by (simp, intro commit_with_snd [where P = counts_exact, OF assms(2)])
       (auto split: option.splits if_splits intro: assms(2))
qed (simp add: report_review_def assms)

lemma counts_moderate:
  assumes "counts_exact db"
  shows "counts_exact (snd (moderate clk ids i st n a db))"
proof (cases "st \<in> set review_moderation_statuses")
  case True
  have "counts_exact (save_review (row\<lparr>rv_status := s, rv_admin_note := nt, rv_moderated_by := m,
      rv_moderated_at := w, rv_updated_at := u\<rparr>) db)"
    if "get_review i db = Some row" for row s nt m w u
    by (rule counts_row_only [OF assms that]) (use count_of_row [OF assms that] in auto)
  with True show ?thesis unfolding moderate_def Let_def
    by (simp, intro commit_with_snd [where P = counts_exact, OF assms])
       (auto simp: bind_attempt_Inr_iff counts_notified split: option.splits intro: assms)
qed (simp add: moderate_def assms)

definition same_reviews :: "'z community_db_scheme \<Rightarrow> 'z community_db_scheme \<Rightarrow> bool" where
  "same_reviews db d = (reviews d = reviews db \<and> reactions d = reactions db \<and> reports d = reports db)"

lemma notification_calls_reviews:
  "same_reviews db (snd (mark_read clk i tg db))"
  "same_reviews db (snd (mark_all_read clk tg db))"
  "same_reviews db (snd (update_preference clk tg c w te db))"
  "same_reviews db (snd (broadcast clk ids target c t b sv u a db))"
proof -
  have refl: "same_reviews db db" by (simp add: same_reviews_def)
  show "same_reviews db (snd (mark_read clk i tg db))" unfolding mark_read_def Let_def
    by (rule commit_with_snd [where P = "same_reviews db", OF refl])
       (auto simp: same_reviews_def save_notification_def split: option.splits)
  show "same_reviews db (snd (mark_all_read clk tg db))" unfolding mark_all_read_def
    by (rule commit_with_snd [where P = "same_reviews db", OF refl])
       (auto simp: same_reviews_def community_mark_all_read_def)
  show "same_reviews db (snd (update_preference clk tg c w te db))"
    by (simp add: update_preference_def Let_def refl, intro impI commit_with_snd [where P = "same_reviews db", OF refl])
       (auto simp: same_reviews_def add_preference_def save_preference_def split: option.splits)
  show "same_reviews db (snd (broadcast clk ids target c t b sv u a db))"
  proof (cases "fst (broadcast clk ids target c t b sv u a db)")
    case (Inl e)
    then have "snd (broadcast clk ids target c t b sv u a db) = db"
      by (auto simp: broadcast_def intro: commit.atomic split: if_splits)
    then show ?thesis by (simp add: refl)
  next
    case (Inr v)
    then have "broadcast clk ids target c t b sv u a db = (Inr v, snd (broadcast clk ids target c t b sv u a db))"
      by (simp add: prod_eq_iff)
    from broadcast_Inr [OF this] show ?thesis by (simp add: same_reviews_def)
  qed
qed

lemma counts_same: "same_reviews db d \<Longrightarrow> counts_exact db \<Longrightarrow> counts_exact d"
  using counts_cong [of d db] by (simp add: same_reviews_def)

lemma counts_exact_after:
  assumes "community_integrity db" and "community_typed db" and "counts_exact db"
  shows "counts_exact (community_after c db)"
  using assms
  by (cases c) (simp_all add: read_calls counts_create counts_update_mine counts_delete_mine counts_react counts_report
      counts_moderate counts_same [OF notification_calls_reviews(1)] counts_same [OF notification_calls_reviews(2)]
      counts_same [OF notification_calls_reviews(3)] counts_same [OF notification_calls_reviews(4)])

lemma community_integrity_after:
  assumes "community_integrity db"
  shows "community_integrity (community_after c db)"
proof (cases c)
  case (CreateReview clk i tg k t y rt cc sp a)
  then show ?thesis
    using create_review_after [of clk i tg k t y rt cc sp a db] assms by (auto simp: Let_def)
qed (simp_all add: assms read_calls update_mine_def delete_mine_def react_def report_review_def moderate_def
       mark_read_def mark_all_read_def update_preference_def broadcast_def commit.keeps)

text \<open>C30: The counters of a review are exact. From a database where they are, every sequence of calls
  keeps the like counter of each review equal to the number of reactions to it and the report counter
  equal to the number of reports, and no reaction or report outlives its review.\<close>

theorem review_counters_exact:
  assumes "community_integrity db" and "community_typed db" and "counts_exact db"
  shows "counts_exact (community_run calls db) \<and> community_integrity (community_run calls db)"
  unfolding community_run_def using assms
  by (induction calls arbitrary: db)
     (simp_all add: community_integrity_after community_typed_after counts_exact_after)

lemma review_counters_exact_witness:
  "counts_exact (community_run [sample_review_call,
     Moderate sample_clock (''n1'', ''t1'') ''r1'' ''published'' None sample_actor,
     React sample_clock ''r1'' 8 True, ReportReview sample_clock ''r1'' 9 ''spam'' None sample_actor,
     React sample_clock ''r1'' 8 False] community_sample)"
proof -
  have "community_typed community_sample" "counts_exact community_sample"
    by (simp_all add: community_typed_def counts_exact_def community_sample_def)
  from review_counters_exact [OF community_sample_ok this] show ?thesis by blast
qed

subsection \<open>Likes as a set\<close>

text \<open>What a reaction promises: the pairs of a review and a user who likes it are a set, to which a
  call adds a pair or from which it takes one.\<close>

definition likes_abs :: "'z community_db_scheme \<Rightarrow> (string \<times> int) set" where
  "likes_abs db = reaction_key ` set (rows (reactions db))"

definition like_spec :: "string \<Rightarrow> int \<Rightarrow> bool \<Rightarrow> (string \<times> int) set \<Rightarrow> (string \<times> int) set" where
  "like_spec i tg enabled L = (if enabled then insert (i, tg) L else L - {(i, tg)})"

definition published :: "string \<Rightarrow> 'z community_db_scheme \<Rightarrow> bool" where
  "published i db = (case get_review i db of None \<Rightarrow> False | Some r \<Rightarrow> rv_status r = ''published'')"

lemma likes_card:
  assumes "community_integrity db"
  shows "likes_of i db = int (card {u. (i, u) \<in> likes_abs db})"
proof -
  let ?rs = "filter (\<lambda>x. rx_review_id x = i) (rows (reactions db))"
  have "distinct (map reaction_key ?rs)"
    using assms by (simp add: community_integrity_def distinct_map_filter)
  moreover have "map reaction_key ?rs = map (Pair i) (map rx_tg ?rs)"
    by (simp add: reaction_key_def)
  ultimately have "distinct (map rx_tg ?rs)" by (metis distinct_map)
  then have "card (set (map rx_tg ?rs)) = length ?rs" by (metis distinct_card length_map)
  moreover have "set (map rx_tg ?rs) = {u. (i, u) \<in> likes_abs db}"
    by (auto simp: likes_abs_def reaction_key_def image_iff)
  ultimately show ?thesis by (simp add: likes_of_def)
qed

lemma reacted_integrity:
  assumes "community_integrity db"
  shows "community_integrity (save_review (reacted_row clk e f r) (reacted_db clk i tg e db)) \<longleftrightarrow>
    distinct (map review_media (tbl_put rv_id (reacted_row clk e f r) (reviews db)))"
  using assms
  by (auto simp: community_integrity_def account_integrity_def auth_integrity_def integrity_def save_review_def
      reacted_db_def Let_def add_reaction_def remove_reaction_def distinct_tbl_del get_reaction_def tbl_get_None
      reaction_key_def)

lemma reacted_media:
  assumes "community_integrity db" and "get_review i db = Some r"
  shows "distinct (map review_media (tbl_put rv_id (reacted_row clk e f r) (reviews db)))"
proof -
  have i: "rv_id r = i" using assms(2) by (auto simp: get_review_def dest: tbl_get_key)
  have "map review_media (tbl_put rv_id (reacted_row clk e f r) (reviews db)) = map review_media (reviews db)"
    using assms i
    by (intro map_tbl_put [where ?r0.0 = r])
       (auto simp: community_integrity_def get_review_def reacted_row_def review_media_def)
  then show ?thesis using assms(1) by (simp add: community_integrity_def)
qed

lemma keys_tbl_del: "key ` set (tbl_del key k rs) = key ` set rs - {k}"
  by (auto simp: tbl_del_def)

lemma likes_reacted:
  "likes_abs (save_review r (reacted_db clk i tg e db)) = like_spec i tg e (likes_abs db)"
proof (cases "get_reaction i tg db")
  case None
  then have "(i, tg) \<notin> reaction_key ` set (rows (reactions db))" by (simp add: get_reaction_def tbl_get_None)
  with None show ?thesis
    by (auto simp: likes_abs_def like_spec_def reacted_db_def add_reaction_def reaction_key_def)
next
  case (Some x)
  then have "(i, tg) \<in> reaction_key ` set (rows (reactions db))"
    using tbl_get_None [of reaction_key "(i, tg)" "rows (reactions db)"] by (simp add: get_reaction_def)
  with Some show ?thesis
    by (simp add: likes_abs_def like_spec_def reacted_db_def remove_reaction_def keys_tbl_del insert_absorb)
qed

text \<open>C29: Reactions refine a set of likes. On a published review \<open>react\<close> succeeds, the likes become the
  old ones with the user added or taken out, whatever they were before, and the answer shows the number
  of users in the set; on any other review it answers nothing and the likes stay.\<close>

theorem react_refines_likes:
  assumes "community_integrity db" and "counts_exact db"
  shows "likes_abs (snd (react clk i tg e db)) =
      (if published i db then like_spec i tg e (likes_abs db) else likes_abs db) \<and>
    (case fst (react clk i tg e db) of
       Inl _ \<Rightarrow> False
     | Inr None \<Rightarrow> \<not> published i db
     | Inr (Some view) \<Rightarrow> published i db \<and> map_of view ''liked'' = Some (JBool e) \<and>
         map_of view ''like_count'' =
           Some (JInt (int (card {u. (i, u) \<in> like_spec i tg e (likes_abs db)}))))"
proof (cases "published i db")
  case True
  then obtain r where r: "get_review i db = Some r" and pub: "rv_status r = ''published''"
    by (auto simp: published_def split: option.splits)
  let ?r = "reacted_row clk e (get_reaction i tg db \<noteq> None) r"
  let ?d = "save_review ?r (reacted_db clk i tg e db)"
  have good: "community_integrity ?d"
    using reacted_integrity [OF assms(1)] reacted_media [OF assms(1) r] by blast
  have react: "react clk i tg e db = (Inr (Some (serialize_review ?r e)), ?d)"
    using r pub good by (simp add: react_body commit_with_def Let_def)
  have i: "rv_id ?r = i" using count_of_row(1) [OF assms(2) r] by (simp add: reacted_row_def)
  have "get_review i ?d = Some ?r"
  proof -
    have "get_review i (reacted_db clk i tg e db) = Some r"
      using r by (simp add: get_review_def reacted_db_def Let_def)
    then show ?thesis using i by (rule review_repo.get_modified)
  qed
  then have "rv_like_count ?r = likes_of i ?d"
    using count_of_row(2) counts_reacted [OF assms r] by blast
  then show ?thesis
    using True likes_card [OF good, of i] by (simp add: react likes_reacted serialize_review_def)
next
  case False
  then have "react clk i tg e db = (Inr None, db)"
    using assms(1) by (auto simp: react_body commit_with_def published_def split: option.splits)
  with False show ?thesis by simp
qed

definition published_sample :: community_db where
  "published_sample = community_sample\<lparr>
     reviews := [\<lparr>rv_id = ''r1'', rv_tg = 7, rv_media_key = ''tmdb:1'', rv_media_title = ''Film'',
       rv_media_year = None, rv_rating = 8, rv_content = ''A good film.'', rv_spoiler = False,
       rv_status = ''published'', rv_like_count = 1, rv_report_count = 0, rv_admin_note = None,
       rv_moderated_by = None, rv_moderated_at = Some 0, rv_created_at = 0, rv_updated_at = 0\<rparr>],
     reactions := \<lparr>rows = [\<lparr>rx_id = 1, rx_review_id = ''r1'', rx_tg = 8, rx_created_at = 0\<rparr>], next_id = 2\<rparr>\<rparr>"

lemma published_sample_ok: "community_integrity published_sample" "counts_exact published_sample"
  "published ''r1'' published_sample \<and> likes_abs published_sample = {(''r1'', 8)}"
  by (simp_all add: published_sample_def community_sample_defs counts_exact_def likes_of_def reports_of_def
      published_def get_review_def likes_abs_def reaction_key_def)

lemma react_refines_likes_witness:
  "likes_abs (snd (react sample_clock ''r1'' 9 True published_sample)) = {(''r1'', 9), (''r1'', 8)}"
  using react_refines_likes [OF published_sample_ok(1,2), of sample_clock "''r1''" 9 True] published_sample_ok(3)
  by (simp add: like_spec_def)

end
