(* ===== verification/Commerce_Schema.thy ===== *)
theory Commerce_Schema
  imports Notifications
begin

section \<open>Orders, tickets and media requests: the tables\<close>

text \<open>
  The tables of \<open>bot/sql_helper/sql_commerce.py\<close>, added to the database, and \<open>CommerceRepository\<close> of
  \<open>bot/repositories/commerce.py\<close>.
\<close>

record product_row =
  pr_id :: int
  pr_name :: string
  pr_description :: "string option"
  pr_amount_cents :: int
  pr_coins :: int
  pr_bonus_coins :: int
  pr_enabled :: bool
  pr_sort_order :: int
  pr_revision :: int
  pr_created_at :: datetime
  pr_updated_at :: datetime

record order_row =
  or_id :: string
  or_order_no :: string
  or_tg :: int
  or_product_id :: "int option"
  or_product_name :: string
  or_amount_cents :: int
  or_coins :: int
  or_bonus_coins :: int
  or_payment_method :: string
  or_payment_reference :: "string option"
  or_status :: string
  or_user_note :: "string option"
  or_admin_note :: "string option"
  or_created_at :: datetime
  or_paid_at :: "datetime option"
  or_credited_at :: "datetime option"
  or_canceled_at :: "datetime option"
  or_updated_at :: datetime

record billing_row =
  bl_id :: int
  bl_order_id :: "string option"
  bl_tg :: int
  bl_entry_type :: string
  bl_amount_cents :: "int option"
  bl_coins :: "int option"
  bl_description :: string
  bl_actor_kind :: string
  bl_actor_id :: string
  bl_metadata :: "jval option"
  bl_created_at :: datetime

record ticket_row =
  tk_id :: string
  tk_ticket_no :: string
  tk_tg :: int
  tk_subject :: string
  tk_category :: string
  tk_priority :: string
  tk_status :: string
  tk_assignee_tg :: "int option"
  tk_last_reply_kind :: string
  tk_last_reply_at :: datetime
  tk_resolved_at :: "datetime option"
  tk_closed_at :: "datetime option"
  tk_created_at :: datetime
  tk_updated_at :: datetime

record message_row =
  ms_id :: int
  ms_ticket_id :: string
  ms_sender_kind :: string
  ms_sender_tg :: "int option"
  ms_body :: string
  ms_internal :: bool
  ms_created_at :: datetime

record request_row =
  rq_id :: string
  rq_request_no :: string
  rq_tg :: int
  rq_title :: string
  rq_year :: "int option"
  rq_media_type :: string
  rq_description :: "string option"
  rq_status :: string
  rq_priority :: string
  rq_source :: string
  rq_external_ref :: "string option"
  rq_download_id :: "string option"
  rq_cost_coins :: int
  rq_progress :: int
  rq_admin_note :: "string option"
  rq_reviewed_by :: "int option"
  rq_reviewed_at :: "datetime option"
  rq_completed_at :: "datetime option"
  rq_canceled_at :: "datetime option"
  rq_created_at :: datetime
  rq_updated_at :: datetime

record commerce_db = community_db +
  products :: "product_row auto_table"
  orders :: "order_row list"
  billing :: "billing_row auto_table"
  tickets :: "ticket_row list"
  messages :: "message_row auto_table"
  requests :: "request_row list"

definition commerce_integrity :: "'z commerce_db_scheme \<Rightarrow> bool" where
  "commerce_integrity db =
     (community_integrity db \<and>
      distinct (map pr_id (rows (products db))) \<and>
      distinct (map or_id (orders db)) \<and> distinct (map or_order_no (orders db)) \<and>
      distinct (map tk_id (tickets db)) \<and> distinct (map tk_ticket_no (tickets db)) \<and>
      distinct (map rq_id (requests db)) \<and> distinct (map rq_request_no (requests db)) \<and>
      unique_some rq_download_id (requests db))"

abbreviation commerce_uow ::
  "('z commerce_db_scheme \<Rightarrow> ('a \<times> 'z commerce_db_scheme) attempt) \<Rightarrow> 'z commerce_db_scheme \<Rightarrow>
   ('a, 'z commerce_db_scheme) outcome" where
  "commerce_uow \<equiv> commit_with commerce_integrity"

subsection \<open>Products\<close>

definition get_product :: "int \<Rightarrow> 'z commerce_db_scheme \<Rightarrow> product_row option" where
  [op_defs]: "get_product i db = tbl_get pr_id i (rows (products db))"

definition save_product :: "product_row \<Rightarrow> 'z commerce_db_scheme \<Rightarrow> 'z commerce_db_scheme" where
  [op_defs]: "save_product p db = db\<lparr>products := (products db)\<lparr>rows := tbl_put pr_id p (rows (products db))\<rparr>\<rparr>"

definition add_product :: "(int \<Rightarrow> product_row) \<Rightarrow> 'z commerce_db_scheme \<Rightarrow> 'z commerce_db_scheme" where
  "add_product mk db = db\<lparr>products := insert_auto mk (products db)\<rparr>"

definition repo_list_products :: "bool \<Rightarrow> 'z commerce_db_scheme \<Rightarrow> product_row list" where
  "repo_list_products enabled_only db =
     sort_key pr_sort_order (sort_key pr_id
       (if enabled_only then filter pr_enabled (rows (products db)) else rows (products db)))"

interpretation product_repo: keyed_store get_product save_product pr_id
  by unfold_locales
    (auto simp: op_defs tbl_get_put_same tbl_get_put_other tbl_put_absent dest: tbl_get_key)

subsection \<open>Orders and billing entries\<close>

definition get_order :: "string \<Rightarrow> 'z commerce_db_scheme \<Rightarrow> order_row option" where
  [op_defs]: "get_order i db = tbl_get or_id i (orders db)"

definition save_order :: "order_row \<Rightarrow> 'z commerce_db_scheme \<Rightarrow> 'z commerce_db_scheme" where
  [op_defs]: "save_order r db = db\<lparr>orders := tbl_put or_id r (orders db)\<rparr>"

definition add_order :: "order_row \<Rightarrow> 'z commerce_db_scheme \<Rightarrow> 'z commerce_db_scheme" where
  "add_order r db = db\<lparr>orders := orders db @ [r]\<rparr>"

interpretation order_repo: keyed_store get_order save_order or_id
  by unfold_locales
    (auto simp: op_defs tbl_get_put_same tbl_get_put_other tbl_put_absent dest: tbl_get_key)

definition order_match ::
  "int option \<Rightarrow> string option \<Rightarrow> string option \<Rightarrow> int option \<Rightarrow> order_row \<Rightarrow> bool" where
  "order_match tg status search found r =
     (opt_eq tg (or_tg r) \<and> text_eq status (or_status r) \<and>
      (truthy_str search \<longrightarrow>
         (let p = search_pattern (the search)
          in sql_like p (or_order_no r) \<or> sql_like p (or_product_name r) \<or>
             like_null p (or_payment_reference r) \<or> found = Some (or_tg r))))"

definition repo_list_orders ::
  "int option \<Rightarrow> string option \<Rightarrow> string option \<Rightarrow> int \<Rightarrow> int \<Rightarrow> 'z commerce_db_scheme \<Rightarrow>
   (order_row list \<times> int) attempt" where
  "repo_list_orders tg status search lim off db =
     bind_attempt (search_tg search) (\<lambda>found.
       Inr (newest or_created_at lim off (filter (order_match tg status search found) (orders db))))"

definition add_billing_entry :: "(int \<Rightarrow> billing_row) \<Rightarrow> 'z commerce_db_scheme \<Rightarrow> 'z commerce_db_scheme" where
  "add_billing_entry mk db = db\<lparr>billing := insert_auto mk (billing db)\<rparr>"

definition list_billing_entries ::
  "int option \<Rightarrow> string option \<Rightarrow> int \<Rightarrow> int \<Rightarrow> 'z commerce_db_scheme \<Rightarrow> billing_row list \<times> int" where
  "list_billing_entries tg entry_type lim off db =
     newest bl_created_at lim off
       (filter (\<lambda>b. opt_eq tg (bl_tg b) \<and> text_eq entry_type (bl_entry_type b)) (rows (billing db)))"

subsection \<open>Tickets and their messages\<close>

definition add_ticket :: "ticket_row \<Rightarrow> 'z commerce_db_scheme \<Rightarrow> 'z commerce_db_scheme" where
  "add_ticket r db = db\<lparr>tickets := tickets db @ [r]\<rparr>"

definition save_ticket :: "ticket_row \<Rightarrow> 'z commerce_db_scheme \<Rightarrow> 'z commerce_db_scheme" where
  "save_ticket r db = db\<lparr>tickets := tbl_put tk_id r (tickets db)\<rparr>"

definition get_ticket :: "string \<Rightarrow> int option \<Rightarrow> 'z commerce_db_scheme \<Rightarrow> ticket_row option" where
  "get_ticket i tg db = find (\<lambda>r. tk_id r = i \<and> opt_eq tg (tk_tg r)) (tickets db)"

definition ticket_match ::
  "int option \<Rightarrow> string option \<Rightarrow> int option \<Rightarrow> string option \<Rightarrow> int option \<Rightarrow> ticket_row \<Rightarrow> bool" where
  "ticket_match tg status assignee search found r =
     (opt_eq tg (tk_tg r) \<and> text_eq status (tk_status r) \<and>
      (case assignee of None \<Rightarrow> True | Some a \<Rightarrow> tk_assignee_tg r = Some a) \<and>
      (truthy_str search \<longrightarrow>
         (let p = search_pattern (the search)
          in sql_like p (tk_ticket_no r) \<or> sql_like p (tk_subject r) \<or> found = Some (tk_tg r))))"

definition repo_list_tickets ::
  "int option \<Rightarrow> string option \<Rightarrow> int option \<Rightarrow> string option \<Rightarrow> int \<Rightarrow> int \<Rightarrow> 'z commerce_db_scheme \<Rightarrow>
   (ticket_row list \<times> int) attempt" where
  "repo_list_tickets tg status assignee search lim off db =
     bind_attempt (search_tg search) (\<lambda>found.
       Inr (newest tk_updated_at lim off (filter (ticket_match tg status assignee search found) (tickets db))))"

definition add_ticket_message :: "(int \<Rightarrow> message_row) \<Rightarrow> 'z commerce_db_scheme \<Rightarrow> 'z commerce_db_scheme" where
  "add_ticket_message mk db = db\<lparr>messages := insert_auto mk (messages db)\<rparr>"

definition ticket_messages :: "string \<Rightarrow> bool \<Rightarrow> 'z commerce_db_scheme \<Rightarrow> message_row list" where
  "ticket_messages i include_internal db =
     sort_key ms_created_at (sort_key ms_id
       (filter (\<lambda>m. ms_ticket_id m = i \<and> (include_internal \<or> \<not> ms_internal m)) (rows (messages db))))"

subsection \<open>Media requests\<close>

definition add_media_request :: "request_row \<Rightarrow> 'z commerce_db_scheme \<Rightarrow> 'z commerce_db_scheme" where
  "add_media_request r db = db\<lparr>requests := requests db @ [r]\<rparr>"

definition save_media_request :: "request_row \<Rightarrow> 'z commerce_db_scheme \<Rightarrow> 'z commerce_db_scheme" where
  "save_media_request r db = db\<lparr>requests := tbl_put rq_id r (requests db)\<rparr>"

definition get_media_request :: "string \<Rightarrow> int option \<Rightarrow> 'z commerce_db_scheme \<Rightarrow> request_row option" where
  "get_media_request i tg db = find (\<lambda>r. rq_id r = i \<and> opt_eq tg (rq_tg r)) (requests db)"

definition media_request_by_download_id :: "string \<Rightarrow> 'z commerce_db_scheme \<Rightarrow> request_row option" where
  "media_request_by_download_id d db = find (\<lambda>r. rq_download_id r = Some d) (requests db)"

definition list_transfer_candidates :: "int \<Rightarrow> 'z commerce_db_scheme \<Rightarrow> request_row list" where
  "list_transfer_candidates lim db =
     take (nat lim) (sort_key rq_updated_at
       (filter (\<lambda>r. rq_download_id r \<noteq> None \<and> rq_status r \<in> {''approved'', ''searching'', ''downloading''})
         (requests db)))"

definition request_match ::
  "int option \<Rightarrow> string option \<Rightarrow> string option \<Rightarrow> int option \<Rightarrow> request_row \<Rightarrow> bool" where
  "request_match tg status search found r =
     (opt_eq tg (rq_tg r) \<and> text_eq status (rq_status r) \<and>
      (truthy_str search \<longrightarrow>
         (let p = search_pattern (the search)
          in sql_like p (rq_request_no r) \<or> sql_like p (rq_title r) \<or>
             like_null p (rq_download_id r) \<or> found = Some (rq_tg r))))"

definition list_media_requests ::
  "int option \<Rightarrow> string option \<Rightarrow> string option \<Rightarrow> int \<Rightarrow> int \<Rightarrow> 'z commerce_db_scheme \<Rightarrow>
   (request_row list \<times> int) attempt" where
  "list_media_requests tg status search lim off db =
     bind_attempt (search_tg search) (\<lambda>found.
       Inr (newest rq_updated_at lim off (filter (request_match tg status search found) (requests db))))"

end
