(* ===== verification/Commerce_Service.thy ===== *)
theory Commerce_Service
  imports Commerce_Schema Review_Service Balances
begin

section \<open>The commerce service: products, recharge orders and their ledger\<close>

text \<open>
  \<open>CommerceService\<close> of \<open>bot/application/commerce_service.py\<close>. An order is created pending, approved or
  rejected by an administrator or canceled by its user, and a credited one may be refunded. Approval
  and refund move the balance of the user with a booked transaction and a billing entry. The ids drawn
  with \<open>uuid4\<close> are arguments.
\<close>

definition commerce_max_int :: int where
  "commerce_max_int = 2147483647"

subsection \<open>Views\<close>

definition serialize_product :: "product_row \<Rightarrow> jdict" where
  "serialize_product p =
     [(''id'', JInt (pr_id p)), (''name'', JStr (pr_name p)), (''description'', jopt_str (pr_description p)),
      (''amount_cents'', JInt (pr_amount_cents p)), (''coins'', JInt (pr_coins p)),
      (''bonus_coins'', JInt (pr_bonus_coins p)), (''enabled'', JBool (pr_enabled p)),
      (''sort_order'', JInt (pr_sort_order p)), (''revision'', JInt (pr_revision p)),
      (''created_at'', JTime (pr_created_at p)), (''updated_at'', JTime (pr_updated_at p))]"

definition serialize_order :: "order_row \<Rightarrow> jdict" where
  "serialize_order r =
     [(''id'', JStr (or_id r)), (''order_no'', JStr (or_order_no r)), (''tg'', JInt (or_tg r)),
      (''product_id'', jopt_int (or_product_id r)), (''product_name'', JStr (or_product_name r)),
      (''amount_cents'', JInt (or_amount_cents r)), (''coins'', JInt (or_coins r)),
      (''bonus_coins'', JInt (or_bonus_coins r)), (''payment_method'', JStr (or_payment_method r)),
      (''payment_reference'', jopt_str (or_payment_reference r)), (''status'', JStr (or_status r)),
      (''user_note'', jopt_str (or_user_note r)), (''admin_note'', jopt_str (or_admin_note r)),
      (''created_at'', JTime (or_created_at r)), (''paid_at'', jopt_time (or_paid_at r)),
      (''credited_at'', jopt_time (or_credited_at r)), (''canceled_at'', jopt_time (or_canceled_at r)),
      (''updated_at'', JTime (or_updated_at r))]"

definition serialize_billing :: "billing_row \<Rightarrow> jdict" where
  "serialize_billing b =
     [(''id'', JInt (bl_id b)), (''order_id'', jopt_str (bl_order_id b)), (''tg'', JInt (bl_tg b)),
      (''entry_type'', JStr (bl_entry_type b)), (''amount_cents'', jopt_int (bl_amount_cents b)),
      (''coins'', jopt_int (bl_coins b)), (''description'', JStr (bl_description b)),
      (''actor_kind'', JStr (bl_actor_kind b)), (''actor_id'', JStr (bl_actor_id b)),
      (''metadata'', jopt (bl_metadata b)), (''created_at'', JTime (bl_created_at b))]"

subsection \<open>Numbers of orders, tickets and requests\<close>

definition date_stamp :: "datetime \<Rightarrow> string" where
  \<comment> \<open>\<open>strftime("%y%m%d")\<close>\<close>
  "date_stamp t = (let (y, m, d) = civil (t div day) in pad 2 (y mod 100) @ pad 2 m @ pad 2 d)"

definition minute_stamp :: "datetime \<Rightarrow> string" where
  \<comment> \<open>\<open>strftime("%H%M")\<close>\<close>
  "minute_stamp t = (let s = t mod day div second in pad 2 (s div 3600) @ pad 2 (s div 60 mod 60))"

definition upper_char :: "char \<Rightarrow> char" where
  "upper_char c = (let n = of_char c :: nat in if 97 \<le> n \<and> n \<le> 122 then char_of (n - 32) else c)"

definition id_head :: "string \<Rightarrow> string" where
  \<comment> \<open>the first six hexadecimal digits of a generated id, in upper case\<close>
  "id_head i = map upper_char (take 6 i)"

subsection \<open>Texts\<close>

definition stale_product_message :: string where
  "stale_product_message = text_of [0x5546, 0x54C1, 0x5DF2, 0x88AB, 0x5176, 0x4ED6, 0x7BA1, 0x7406, 0x5458, 0x4FEE,
     0x6539, 0xFF0C, 0x8BF7, 0x5237, 0x65B0, 0x540E, 0x91CD, 0x8BD5]"

definition not_reviewable_message :: string where
  "not_reviewable_message = text_of [0x8BA2, 0x5355, 0x5F53, 0x524D, 0x72B6, 0x6001, 0x4E0D, 0x5141, 0x8BB8, 0x5BA1, 0x6838]"

definition no_order_user_message :: string where
  "no_order_user_message = text_of [0x8BA2, 0x5355, 0x7528, 0x6237, 0x4E0D, 0x5B58, 0x5728]"

definition not_cancelable_message :: string where
  "not_cancelable_message = text_of [0x53EA, 0x6709, 0x5F85, 0x5904, 0x7406, 0x8BA2, 0x5355, 0x53EF, 0x4EE5, 0x53D6, 0x6D88]"

definition short_reason_message :: string where
  "short_reason_message = text_of [0x9000, 0x6B3E, 0x539F, 0x56E0, 0x81F3, 0x5C11, 0x9700, 0x8981, 0x20, 0x33, 0x20,
     0x4E2A, 0x5B57, 0x7B26]"

definition not_refundable_message :: string where
  "not_refundable_message = text_of [0x53EA, 0x6709, 0x5DF2, 0x5165, 0x8D26, 0x8BA2, 0x5355, 0x53EF, 0x4EE5, 0x9000, 0x6B3E]"

definition low_balance_message :: string where
  "low_balance_message = text_of [0x7528, 0x6237, 0x5F53, 0x524D, 0x79EF, 0x5206, 0x4E0D, 0x8DB3, 0xFF0C, 0x65E0,
     0x6CD5, 0x81EA, 0x52A8, 0x51B2, 0x6B63, 0xFF1B, 0x8BF7, 0x5148, 0x6838, 0x5BF9, 0x5176,
     0x4ED6, 0x6D88, 0x8D39, 0x6D41, 0x6C34]"

definition created_text :: "string \<Rightarrow> string" where
  "created_text order_no = text_of [0x521B, 0x5EFA, 0x5145, 0x503C, 0x8BA2, 0x5355, 0x20] @ order_no"

definition rejected_text :: "string \<Rightarrow> string" where
  "rejected_text order_no = text_of [0x5145, 0x503C, 0x8BA2, 0x5355, 0x20] @ order_no @ text_of [0x20, 0x672A, 0x901A, 0x8FC7]"

definition credited_text :: "string \<Rightarrow> string" where
  "credited_text order_no = text_of [0x5145, 0x503C, 0x8BA2, 0x5355, 0x20] @ order_no @ text_of [0x20, 0x5DF2, 0x786E, 0x8BA4, 0x5E76, 0x5165, 0x8D26]"

definition canceled_text :: "string \<Rightarrow> string" where
  "canceled_text order_no = text_of [0x7528, 0x6237, 0x53D6, 0x6D88, 0x5145, 0x503C, 0x8BA2, 0x5355, 0x20] @ order_no"

definition refunded_text :: "string \<Rightarrow> string" where
  "refunded_text order_no = text_of [0x5145, 0x503C, 0x8BA2, 0x5355, 0x20] @ order_no @ text_of [0x20, 0x5DF2, 0x9000, 0x6B3E, 0x51B2, 0x6B63]"

definition order_metadata :: "order_row \<Rightarrow> jval" where
  "order_metadata r = JDict [(''order_id'', JStr (or_id r)), (''status'', JStr (or_status r))]"

definition decision_notice :: "order_row \<Rightarrow> bool \<Rightarrow> notice" where
  "decision_notice r approve =
     \<lparr>no_tg = or_tg r, no_category = ''billing'',
      no_title = (if approve then text_of [0x5145, 0x503C, 0x5DF2, 0x5165, 0x8D26] else text_of [0x5145, 0x503C, 0x8BA2, 0x5355, 0x672A, 0x901A, 0x8FC7]),
      no_body = (if approve then
          text_of [0x8BA2, 0x5355, 0x20] @ or_order_no r @ text_of [0x20, 0x5DF2, 0x786E, 0x8BA4, 0xFF0C] @ show_int (or_coins r + or_bonus_coins r) @
          text_of [0x20, 0x79EF, 0x5206, 0x5DF2, 0x5230, 0x8D26, 0x3002]
        else text_of [0x8BA2, 0x5355, 0x20] @ or_order_no r @ text_of [0x20, 0x672A, 0x901A, 0x8FC7, 0x5BA1, 0x6838, 0x3002] @ note_suffix (or_admin_note r)),
      no_severity = (if approve then ''success'' else ''warning''), no_action_url = Some ''/billing'',
      no_metadata = Some (order_metadata r)\<rparr>"

definition refund_notice :: "order_row \<Rightarrow> int \<Rightarrow> string \<Rightarrow> notice" where
  "refund_notice r credit reason =
     \<lparr>no_tg = or_tg r, no_category = ''billing'', no_title = text_of [0x5145, 0x503C, 0x8BA2, 0x5355, 0x5DF2, 0x9000, 0x6B3E],
      no_body = text_of [0x8BA2, 0x5355, 0x20] @ or_order_no r @ text_of [0x20, 0x5DF2, 0x9000, 0x6B3E, 0x5E76, 0x51B2, 0x6B63, 0x20] @ show_int credit @
        text_of [0x20, 0x79EF, 0x5206, 0x3002, 0x539F, 0x56E0, 0xFF1A] @ reason,
      no_severity = ''warning'', no_action_url = Some ''/billing'', no_metadata = Some (order_metadata r)\<rparr>"

subsection \<open>Products\<close>

definition list_products :: "bool \<Rightarrow> 'z commerce_db_scheme \<Rightarrow> (jdict, 'z commerce_db_scheme) outcome" where
  "list_products enabled_only db0 =
     commerce_uow (\<lambda>db.
       let rs = repo_list_products enabled_only db
       in Inr ([(''items'', JList (map (JDict \<circ> serialize_product) rs)), (''total'', JInt (int (length rs)))],
               db)) db0"

record product_form =
  \<comment> \<open>the dictionary of \<open>create_product\<close>; the columns with a default may be left out\<close>
  pf_product_name :: string
  pf_product_description :: "string option"
  pf_amount_cents :: int
  pf_coins :: int
  pf_bonus_coins :: "int option"
  pf_product_enabled :: "bool option"
  pf_product_sort_order :: "int option"

definition new_product :: "clock \<Rightarrow> product_form \<Rightarrow> int \<Rightarrow> product_row" where
  "new_product clk f i =
     \<lparr>pr_id = i, pr_name = pf_product_name f, pr_description = pf_product_description f,
      pr_amount_cents = pf_amount_cents f, pr_coins = pf_coins f,
      pr_bonus_coins = opt_or (pf_bonus_coins f) 0, pr_enabled = opt_or (pf_product_enabled f) True,
      pr_sort_order = opt_or (pf_product_sort_order f) 0, pr_revision = 1,
      pr_created_at = now_utc clk, pr_updated_at = now_utc clk\<rparr>"

definition create_product ::
  "clock \<Rightarrow> product_form \<Rightarrow> actor \<Rightarrow> 'z commerce_db_scheme \<Rightarrow> (jdict, 'z commerce_db_scheme) outcome" where
  "create_product clk f actor db0 =
     commerce_uow (\<lambda>db.
       let row = new_product clk f (next_id (products db)); rid = Some (show_int (pr_id row));
           db1 = audit_success clk actor ''billing.product.create'' ''recharge_product'' rid
                   (Some (JDict [(''name'', JStr (pr_name row)), (''amount_cents'', JInt (pr_amount_cents row)),
                                 (''coins'', JInt (pr_coins row))])) (add_product (new_product clk f) db)
       in Inr (serialize_product row,
               event clk ''billing.product.created'' ''recharge_product'' rid
                 (Some (JDict [(''name'', JStr (pr_name row))])) db1)) db0"

record product_patch =
  \<comment> \<open>the dictionary of \<open>update_product\<close>; None where a key is missing, Some None for a null\<close>
  pu_revision :: "int option"
  pu_name :: "string option option"
  pu_description :: "string option option"
  pu_amount_cents :: "int option option"
  pu_coins :: "int option option"
  pu_bonus_coins :: "int option option"
  pu_enabled :: "bool option option"
  pu_sort_order :: "int option option"

definition entry :: "string \<Rightarrow> ('a \<Rightarrow> jval) \<Rightarrow> 'a option option \<Rightarrow> jdict" where
  "entry k f x = (case x of None \<Rightarrow> [] | Some y \<Rightarrow> [(k, jopt (map_option f y))])"

definition set_field :: "'a option option \<Rightarrow> 'a \<Rightarrow> 'a" where
  \<comment> \<open>a supplied value replaces the old one\<close>
  "set_field x old = (case x of Some (Some v) \<Rightarrow> v | _ \<Rightarrow> old)"

definition product_patch_dict :: "product_patch \<Rightarrow> jdict" where
  "product_patch_dict pt =
     concat [entry ''name'' JStr (pu_name pt), entry ''description'' JStr (pu_description pt),
       entry ''amount_cents'' JInt (pu_amount_cents pt), entry ''coins'' JInt (pu_coins pt),
       entry ''bonus_coins'' JInt (pu_bonus_coins pt), entry ''enabled'' JBool (pu_enabled pt),
       entry ''sort_order'' JInt (pu_sort_order pt)]"

definition product_nulls :: "product_patch \<Rightarrow> bool" where
  \<comment> \<open>a null for a column that must not be null, which the flush refuses\<close>
  "product_nulls pt =
     (pu_name pt = Some None \<or> pu_amount_cents pt = Some None \<or> pu_coins pt = Some None \<or>
      pu_bonus_coins pt = Some None \<or> pu_enabled pt = Some None \<or> pu_sort_order pt = Some None)"

definition patch_product :: "clock \<Rightarrow> product_patch \<Rightarrow> product_row \<Rightarrow> product_row" where
  "patch_product clk pt p =
     p\<lparr>pr_name := set_field (pu_name pt) (pr_name p),
       pr_description := opt_or (pu_description pt) (pr_description p),
       pr_amount_cents := set_field (pu_amount_cents pt) (pr_amount_cents p),
       pr_coins := set_field (pu_coins pt) (pr_coins p),
       pr_bonus_coins := set_field (pu_bonus_coins pt) (pr_bonus_coins p),
       pr_enabled := set_field (pu_enabled pt) (pr_enabled p),
       pr_sort_order := set_field (pu_sort_order pt) (pr_sort_order p),
       pr_revision := pr_revision p + 1, pr_updated_at := now_utc clk\<rparr>"

definition update_product ::
  "clock \<Rightarrow> int \<Rightarrow> product_patch \<Rightarrow> actor \<Rightarrow> 'z commerce_db_scheme \<Rightarrow>
   (jdict option, 'z commerce_db_scheme) outcome" where
  "update_product clk i pt actor db0 =
     commerce_uow (\<lambda>db.
       case get_product i db of
         None \<Rightarrow> Inr (None, db)
       | Some row \<Rightarrow>
           if pu_revision pt \<noteq> None \<and> pu_revision pt \<noteq> Some (pr_revision row) then
             Inl (RuntimeError stale_product_message)
           else if product_nulls pt then Inl IntegrityError
           else
             let row' = patch_product clk pt row; data = JDict (product_patch_dict pt)
             in Inr (Some (serialize_product row'),
                  event clk ''billing.product.updated'' ''recharge_product'' (Some (show_int i)) (Some data)
                    (audit_success clk actor ''billing.product.update'' ''recharge_product'' (Some (show_int i))
                      (Some data) (save_product row' db)))) db0"

subsection \<open>Orders\<close>

definition billing_entry ::
  "clock \<Rightarrow> order_row \<Rightarrow> string \<Rightarrow> int \<Rightarrow> int \<Rightarrow> string \<Rightarrow> actor \<Rightarrow> jval option \<Rightarrow>
   'z commerce_db_scheme \<Rightarrow> 'z commerce_db_scheme" where
  "billing_entry clk r entry_type cents coins description actor metadata db =
     add_billing_entry (\<lambda>k. \<lparr>bl_id = k, bl_order_id = Some (or_id r), bl_tg = or_tg r,
       bl_entry_type = entry_type, bl_amount_cents = Some cents, bl_coins = Some coins,
       bl_description = description, bl_actor_kind = actor_kind actor, bl_actor_id = actor_identifier actor,
       bl_metadata = map_option json_dumps metadata, bl_created_at = now_utc clk\<rparr>) db"

definition new_order :: "clock \<Rightarrow> string \<Rightarrow> int \<Rightarrow> product_row \<Rightarrow> string option \<Rightarrow> order_row" where
  "new_order clk new_id tg p user_note =
     \<lparr>or_id = new_id, or_order_no = ''RC'' @ date_stamp (now_utc clk) @ minute_stamp (now_utc clk) @ id_head new_id,
      or_tg = tg, or_product_id = Some (pr_id p), or_product_name = pr_name p,
      or_amount_cents = pr_amount_cents p, or_coins = pr_coins p, or_bonus_coins = pr_bonus_coins p,
      or_payment_method = ''manual'', or_payment_reference = None, or_status = ''pending'',
      or_user_note = strip_or_none user_note, or_admin_note = None, or_created_at = now_utc clk,
      or_paid_at = None, or_credited_at = None, or_canceled_at = None, or_updated_at = now_utc clk\<rparr>"

definition order_event :: "clock \<Rightarrow> order_row \<Rightarrow> 'z commerce_db_scheme \<Rightarrow> 'z commerce_db_scheme" where
  "order_event clk r db =
     user_event clk ''billing.order.updated'' (or_tg r) ''recharge_order'' (or_id r)
       [(''status'', JStr (or_status r))] db"

definition create_order ::
  "clock \<Rightarrow> string \<Rightarrow> int \<Rightarrow> int \<Rightarrow> string option \<Rightarrow> actor \<Rightarrow> string option \<Rightarrow> 'z commerce_db_scheme \<Rightarrow>
   (jval option, 'z commerce_db_scheme) outcome" where
  "create_order clk new_id tg product_id user_note actor key db0 =
     commerce_uow (\<lambda>db.
       let replay = get_idempotent_result ''billing.order.create'' key db in
       if replay \<noteq> None \<and> jtruthy (the replay) then Inr (replay, db)
       else
         (case get_product product_id db of
            None \<Rightarrow> Inr (None, db)
          | Some p \<Rightarrow>
              if \<not> pr_enabled p then Inr (None, db)
              else
                let row = new_order clk new_id tg p user_note;
                    db1 = billing_entry clk row ''order_created'' (or_amount_cents row)
                            (or_coins row + or_bonus_coins row) (created_text (or_order_no row)) actor None
                            (add_order row db);
                    db2 = audit_success clk actor ''billing.order.create'' ''recharge_order'' (Some new_id)
                            (Some (JDict [(''order_no'', JStr (or_order_no row)),
                                          (''amount_cents'', JInt (or_amount_cents row))])) db1;
                    db3 = user_event clk ''billing.order.created'' tg ''recharge_order'' new_id
                            [(''order_no'', JStr (or_order_no row))] db2;
                    view = JDict (serialize_order row)
                in Inr (Some view, save_idempotent_result clk ''billing.order.create'' key view db3))) db0"

definition list_orders ::
  "int option \<Rightarrow> string option \<Rightarrow> string option \<Rightarrow> int \<Rightarrow> int \<Rightarrow> 'z commerce_db_scheme \<Rightarrow>
   (jdict, 'z commerce_db_scheme) outcome" where
  "list_orders tg status search lim off db0 =
     commerce_uow (\<lambda>db. bind_attempt (repo_list_orders tg status search lim off db) (\<lambda>(rs, total).
       Inr (page_view (map serialize_order rs, total) lim off, db))) db0"

definition order_credit :: "order_row \<Rightarrow> int" where
  "order_credit r = or_coins r + or_bonus_coins r"

definition move_coins ::
  "clock \<Rightarrow> order_row \<Rightarrow> emby_row \<Rightarrow> int \<Rightarrow> string \<Rightarrow> jdict \<Rightarrow> actor \<Rightarrow> 'z commerce_db_scheme \<Rightarrow>
   'z commerce_db_scheme" where
  \<comment> \<open>the new balance of the user and the transaction that explains it\<close>
  "move_coins clk r user amount kind extra actor db =
     (let balance = get_balance IV user + amount
      in point_transaction clk (or_tg r) ''coins'' amount balance (kind @ '':'' @ or_order_no r) actor
           (Some (kind @ '':'' @ or_id r))
           (Some (JDict ([(''order_id'', JStr (or_id r)), (''amount_cents'', JInt (or_amount_cents r))] @ extra)))
           (users_save (set_balance IV balance user) db))"

definition finish_decision ::
  "clock \<Rightarrow> notice_ids \<Rightarrow> order_row \<Rightarrow> bool \<Rightarrow> actor \<Rightarrow> 'z commerce_db_scheme \<Rightarrow>
   (jdict option \<times> 'z commerce_db_scheme) attempt" where
  \<comment> \<open>what follows in \<open>decide_order\<close> once the order has been decided\<close>
  "finish_decision clk ids r approve actor db =
     (let db1 = billing_entry clk r (if approve then ''order_credited'' else ''order_rejected'')
                  (or_amount_cents r) (if approve then order_credit r else 0)
                  (if approve then credited_text (or_order_no r) else rejected_text (or_order_no r)) actor
                  (Some (JDict [(''payment_reference'', jopt_str (or_payment_reference r)),
                                (''admin_note'', jopt_str (or_admin_note r))])) db
      in bind_attempt (add_notification clk ids (decision_notice r approve) db1) (\<lambda>(_, db2).
           Inr (Some (serialize_order r), order_event clk r
             (audit_success clk actor (if approve then ''billing.order.approve'' else ''billing.order.reject'')
               ''recharge_order'' (Some (or_id r))
               (Some (JDict [(''order_no'', JStr (or_order_no r)), (''tg'', JInt (or_tg r))])) db2))))"

definition rejected_order :: "clock \<Rightarrow> string option \<Rightarrow> order_row \<Rightarrow> order_row" where
  "rejected_order clk admin_note r =
     r\<lparr>or_admin_note := strip_or_none admin_note, or_status := ''canceled'',
       or_canceled_at := Some (now_utc clk), or_updated_at := now_utc clk\<rparr>"

definition credited_order :: "clock \<Rightarrow> string option \<Rightarrow> string option \<Rightarrow> order_row \<Rightarrow> order_row" where
  "credited_order clk payment_reference admin_note r =
     r\<lparr>or_admin_note := strip_or_none admin_note, or_status := ''credited'',
       or_payment_reference := strip_or_none payment_reference, or_paid_at := Some (now_utc clk),
       or_credited_at := Some (now_utc clk), or_updated_at := now_utc clk\<rparr>"

definition decide_order ::
  "clock \<Rightarrow> notice_ids \<Rightarrow> string \<Rightarrow> bool \<Rightarrow> string option \<Rightarrow> string option \<Rightarrow> actor \<Rightarrow>
   'z commerce_db_scheme \<Rightarrow> (jdict option, 'z commerce_db_scheme) outcome" where
  "decide_order clk ids i approve payment_reference admin_note actor db0 =
     commerce_uow (\<lambda>db.
       case get_order i db of
         None \<Rightarrow> Inr (None, db)
       | Some row \<Rightarrow>
           if or_status row = ''credited'' then Inr (Some (serialize_order row), db)
           else if or_status row \<noteq> ''pending'' then Inl (RuntimeError not_reviewable_message)
           else if \<not> approve then
             let r = rejected_order clk admin_note row
             in finish_decision clk ids r False actor (save_order r db)
           else
             (case users_get_for_update (or_tg row) db of
                None \<Rightarrow> Inl (ValueError no_order_user_message)
              | Some user \<Rightarrow>
                  if get_balance IV user + order_credit row > commerce_max_int then Inl OverflowError
                  else
                    let r = credited_order clk payment_reference admin_note row
                    in finish_decision clk ids r True actor
                         (move_coins clk r user (order_credit r) ''recharge'' [] actor (save_order r db)))) db0"

definition cancel_order ::
  "clock \<Rightarrow> string \<Rightarrow> int \<Rightarrow> actor \<Rightarrow> 'z commerce_db_scheme \<Rightarrow> (jdict option, 'z commerce_db_scheme) outcome" where
  "cancel_order clk i tg actor db0 =
     commerce_uow (\<lambda>db.
       case get_order i db of
         None \<Rightarrow> Inr (None, db)
       | Some row \<Rightarrow>
           if or_tg row \<noteq> tg then Inr (None, db)
           else if or_status row \<noteq> ''pending'' then Inl (RuntimeError not_cancelable_message)
           else
             let r = row\<lparr>or_status := ''canceled'', or_canceled_at := Some (now_utc clk),
                         or_updated_at := now_utc clk\<rparr>;
                 db1 = billing_entry clk r ''order_canceled'' (or_amount_cents r) 0
                         (canceled_text (or_order_no r)) actor None (save_order r db)
             in Inr (Some (serialize_order r), order_event clk r
                  (audit_success clk actor ''billing.order.cancel'' ''recharge_order'' (Some (or_id r)) None db1))) db0"

definition refunded_order :: "clock \<Rightarrow> string \<Rightarrow> order_row \<Rightarrow> order_row" where
  "refunded_order clk reason r =
     r\<lparr>or_status := ''refunded'', or_admin_note := Some (py_take 500 reason),
       or_canceled_at := Some (now_utc clk), or_updated_at := now_utc clk\<rparr>"

definition refunded_db ::
  "clock \<Rightarrow> order_row \<Rightarrow> emby_row \<Rightarrow> int \<Rightarrow> string \<Rightarrow> actor \<Rightarrow> 'z commerce_db_scheme \<Rightarrow> 'z commerce_db_scheme" where
  \<comment> \<open>the reversed balance, the order and the billing entry of a refund\<close>
  "refunded_db clk r user credit reason actor db =
     billing_entry clk r ''order_refunded'' (- or_amount_cents r) (- credit) (refunded_text (or_order_no r)) actor
       (Some (JDict [(''reason'', JStr reason)]))
       (move_coins clk r user (- credit) ''refund'' [(''reason'', JStr reason)] actor (save_order r db))"

definition finish_refund ::
  "clock \<Rightarrow> notice_ids \<Rightarrow> order_row \<Rightarrow> int \<Rightarrow> string \<Rightarrow> actor \<Rightarrow> 'z commerce_db_scheme \<Rightarrow>
   (jdict option \<times> 'z commerce_db_scheme) attempt" where
  \<comment> \<open>the notification, the audit row and the event of a refund\<close>
  "finish_refund clk ids r credit reason actor db =
     bind_attempt (add_notification clk ids (refund_notice r credit reason) db) (\<lambda>(_, db1).
       Inr (Some (serialize_order r), order_event clk r
         (audit_success clk actor ''billing.order.refund'' ''recharge_order'' (Some (or_id r))
           (Some (JDict [(''order_no'', JStr (or_order_no r)), (''tg'', JInt (or_tg r)),
                         (''coins'', JInt credit), (''reason'', JStr reason)])) db1)))"

definition refund_order ::
  "clock \<Rightarrow> notice_ids \<Rightarrow> string \<Rightarrow> string \<Rightarrow> actor \<Rightarrow> 'z commerce_db_scheme \<Rightarrow>
   (jdict option, 'z commerce_db_scheme) outcome" where
  "refund_order clk ids i reason0 actor db0 =
     (let reason = py_strip reason0 in
      if py_len reason < 3 then (Inl (ValueError short_reason_message), db0)
      else commerce_uow (\<lambda>db.
        case get_order i db of
          None \<Rightarrow> Inr (None, db)
        | Some row \<Rightarrow>
            if or_status row = ''refunded'' then Inr (Some (serialize_order row), db)
            else if or_status row \<noteq> ''credited'' then Inl (RuntimeError not_refundable_message)
            else
              (case users_get_for_update (or_tg row) db of
                 None \<Rightarrow> Inl (ValueError no_order_user_message)
               | Some user \<Rightarrow>
                   if get_balance IV user < order_credit row then Inl (RuntimeError low_balance_message)
                   else
                     let r = refunded_order clk reason row
                     in finish_refund clk ids r (order_credit row) reason actor
                          (refunded_db clk r user (order_credit row) reason actor db))) db0)"

subsection \<open>Reconciliation and the ledger\<close>

definition credit_entries :: "'z commerce_db_scheme \<Rightarrow> string list" where
  \<comment> \<open>the orders the \<open>order_credited\<close> entries name\<close>
  "credit_entries db =
     map (the \<circ> bl_order_id)
       (filter (\<lambda>b. bl_entry_type b = ''order_credited'' \<and> bl_order_id b \<noteq> None) (rows (billing db)))"

definition credited_ids :: "'z commerce_db_scheme \<Rightarrow> string list" where
  "credited_ids db = map or_id (filter (\<lambda>r. or_status r = ''credited'') (orders db))"

definition missing_credits :: "'z commerce_db_scheme \<Rightarrow> string list" where
  "missing_credits db = sort (remdups (filter (\<lambda>i. i \<notin> set (credit_entries db)) (credited_ids db)))"

definition duplicate_credits :: "'z commerce_db_scheme \<Rightarrow> int" where
  "duplicate_credits db =
     int (length (filter (\<lambda>i. 1 < length (filter ((=) i) (credit_entries db))) (remdups (credit_entries db))))"

definition stale_pending :: "clock \<Rightarrow> 'z commerce_db_scheme \<Rightarrow> int" where
  "stale_pending clk db =
     int (length (filter (\<lambda>r. or_status r = ''pending'' \<and> or_created_at r < now_utc clk - day) (orders db)))"

definition status_counts :: "'z commerce_db_scheme \<Rightarrow> jdict" where
  "status_counts db =
     map (\<lambda>s. (s, JInt (int (length (filter (\<lambda>r. or_status r = s) (orders db))))))
       (remdups (map or_status (orders db)))"

definition reconciliation_summary ::
  "clock \<Rightarrow> 'z commerce_db_scheme \<Rightarrow> (jdict, 'z commerce_db_scheme) outcome" where
  "reconciliation_summary clk db0 =
     commerce_uow (\<lambda>db.
       let stale = stale_pending clk db; missing = missing_credits db; dup = duplicate_credits db
       in Inr ([(''status'', JStr (if stale = 0 \<and> missing = [] \<and> dup = 0 then ''healthy'' else ''attention'')),
                (''status_counts'', JDict (status_counts db)), (''stale_pending'', JInt stale),
                (''credited_without_ledger'', JInt (int (length missing))),
                (''credited_without_ledger_ids'', JList (map JStr (take 20 missing))),
                (''duplicate_credit_entries'', JInt dup), (''checked_at'', JTime (now_utc clk))], db)) db0"

definition billing_ledger ::
  "int option \<Rightarrow> string option \<Rightarrow> int \<Rightarrow> int \<Rightarrow> 'z commerce_db_scheme \<Rightarrow>
   (jdict, 'z commerce_db_scheme) outcome" where
  "billing_ledger tg entry_type lim off db0 =
     commerce_uow (\<lambda>db.
       let (rs, total) = list_billing_entries tg entry_type lim off db
       in Inr (page_view (map serialize_billing rs, total) lim off, db)) db0"

end
