(* ===== verification/Ticket_Service.thy ===== *)
theory Ticket_Service
  imports Commerce_Service
begin

section \<open>The ticket service and the media request service\<close>

text \<open>
  \<open>TicketService\<close> and \<open>MediaRequestService\<close> of \<open>bot/application/commerce_service.py\<close>. A ticket passes
  between its user and the staff; a request for a film or series is reviewed and then follows the state
  of its download. The ids drawn with \<open>uuid4\<close> are arguments.
\<close>

subsection \<open>Tickets\<close>

definition serialize_ticket :: "ticket_row \<Rightarrow> jdict" where
  "serialize_ticket r =
     [(''id'', JStr (tk_id r)), (''ticket_no'', JStr (tk_ticket_no r)), (''tg'', JInt (tk_tg r)),
      (''subject'', JStr (tk_subject r)), (''category'', JStr (tk_category r)),
      (''priority'', JStr (tk_priority r)), (''status'', JStr (tk_status r)),
      (''assignee_tg'', jopt_int (tk_assignee_tg r)), (''last_reply_kind'', JStr (tk_last_reply_kind r)),
      (''last_reply_at'', JTime (tk_last_reply_at r)), (''resolved_at'', jopt_time (tk_resolved_at r)),
      (''closed_at'', jopt_time (tk_closed_at r)), (''created_at'', JTime (tk_created_at r)),
      (''updated_at'', JTime (tk_updated_at r))]"

definition serialize_message :: "message_row \<Rightarrow> jdict" where
  "serialize_message m =
     [(''id'', JInt (ms_id m)), (''ticket_id'', JStr (ms_ticket_id m)),
      (''sender_kind'', JStr (ms_sender_kind m)), (''sender_tg'', jopt_int (ms_sender_tg m)),
      (''body'', JStr (ms_body m)), (''internal'', JBool (ms_internal m)),
      (''created_at'', JTime (ms_created_at m))]"

definition ticket_closed_message :: string where
  "ticket_closed_message = text_of [0x5DF2, 0x5173, 0x95ED, 0x5DE5, 0x5355, 0x4E0D, 0x80FD, 0x7EE7, 0x7EED, 0x56DE, 0x590D]"

definition reply_notice :: "ticket_row \<Rightarrow> string \<Rightarrow> notice" where
  "reply_notice r body =
     \<lparr>no_tg = tk_tg r, no_category = ''ticket'',
      no_title = text_of [0x5DE5, 0x5355, 0x20] @ tk_ticket_no r @ text_of [0x20, 0x6536, 0x5230, 0x56DE, 0x590D], no_body = body, no_severity = ''info'',
      no_action_url = Some ''/tickets'', no_metadata = Some (JDict [(''ticket_id'', JStr (tk_id r))])\<rparr>"

definition ticket_message ::
  "clock \<Rightarrow> string \<Rightarrow> string \<Rightarrow> int option \<Rightarrow> string \<Rightarrow> bool \<Rightarrow> int \<Rightarrow> message_row" where
  "ticket_message clk ticket sender_kind sender_tg body internal k =
     \<lparr>ms_id = k, ms_ticket_id = ticket, ms_sender_kind = sender_kind, ms_sender_tg = sender_tg,
      ms_body = body, ms_internal = internal, ms_created_at = now_utc clk\<rparr>"

definition ticket_create ::
  "clock \<Rightarrow> string \<Rightarrow> int \<Rightarrow> string \<Rightarrow> string \<Rightarrow> string \<Rightarrow> string \<Rightarrow> actor \<Rightarrow> 'z commerce_db_scheme \<Rightarrow>
   (jdict, 'z commerce_db_scheme) outcome" where
  "ticket_create clk new_id tg subject category priority body actor db0 =
     commerce_uow (\<lambda>db.
       let row = \<lparr>tk_id = new_id, tk_ticket_no = ''TK'' @ date_stamp (now_utc clk) @ id_head new_id, tk_tg = tg,
             tk_subject = py_strip subject, tk_category = category, tk_priority = priority,
             tk_status = ''open'', tk_assignee_tg = None, tk_last_reply_kind = ''user'',
             tk_last_reply_at = now_utc clk, tk_resolved_at = None, tk_closed_at = None,
             tk_created_at = now_utc clk, tk_updated_at = now_utc clk\<rparr>;
           db1 = add_ticket_message (ticket_message clk new_id ''user'' (Some tg) (py_strip body) False)
                   (add_ticket row db);
           db2 = audit_success clk actor ''ticket.create'' ''ticket'' (Some new_id)
                   (Some (JDict [(''ticket_no'', JStr (tk_ticket_no row))])) db1
       in Inr (serialize_ticket row, user_event clk ''ticket.created'' tg ''ticket'' new_id
                 [(''ticket_no'', JStr (tk_ticket_no row))] db2)) db0"

definition ticket_list ::
  "int option \<Rightarrow> string option \<Rightarrow> int option \<Rightarrow> string option \<Rightarrow> int \<Rightarrow> int \<Rightarrow> 'z commerce_db_scheme \<Rightarrow>
   (jdict, 'z commerce_db_scheme) outcome" where
  "ticket_list tg status assignee search lim off db0 =
     commerce_uow (\<lambda>db. bind_attempt (repo_list_tickets tg status assignee search lim off db) (\<lambda>(rs, total).
       Inr (page_view (map serialize_ticket rs, total) lim off, db))) db0"

definition ticket_detail ::
  "string \<Rightarrow> int option \<Rightarrow> bool \<Rightarrow> 'z commerce_db_scheme \<Rightarrow> (jdict option, 'z commerce_db_scheme) outcome" where
  "ticket_detail i tg include_internal db0 =
     commerce_uow (\<lambda>db.
       case get_ticket i tg db of
         None \<Rightarrow> Inr (None, db)
       | Some row \<Rightarrow> Inr (Some (serialize_ticket row @ [(''messages'',
            JList (map (JDict \<circ> serialize_message) (ticket_messages i include_internal db)))]), db)) db0"

definition replied_ticket :: "clock \<Rightarrow> bool \<Rightarrow> bool \<Rightarrow> ticket_row \<Rightarrow> ticket_row" where
  "replied_ticket clk is_user internal r =
     (let r1 = r\<lparr>tk_last_reply_kind := (if is_user then ''user'' else ''admin''),
                tk_last_reply_at := now_utc clk, tk_updated_at := now_utc clk\<rparr>
      in if internal then r1
         else r1\<lparr>tk_status := (if is_user then ''pending_staff'' else ''pending_user''), tk_resolved_at := None\<rparr>)"

definition ticket_reply ::
  "clock \<Rightarrow> notice_ids \<Rightarrow> string \<Rightarrow> string \<Rightarrow> actor \<Rightarrow> int option \<Rightarrow> bool \<Rightarrow> 'z commerce_db_scheme \<Rightarrow>
   (jdict option, 'z commerce_db_scheme) outcome" where
  "ticket_reply clk ids i body actor tg_scope internal db0 =
     commerce_uow (\<lambda>db.
       case get_ticket i tg_scope db of
         None \<Rightarrow> Inr (None, db)
       | Some row \<Rightarrow>
           if tk_status row = ''closed'' then Inl (RuntimeError ticket_closed_message)
           else
             let is_user = (tg_scope \<noteq> None); hidden = (internal \<and> \<not> is_user);
                 row' = replied_ticket clk is_user internal row;
                 db1 = save_ticket row' (add_ticket_message (ticket_message clk i
                         (if is_user then ''user'' else ''admin'') (actor_number actor) (py_strip body) hidden) db)
             in bind_attempt
                  (if \<not> is_user \<and> \<not> internal
                   then add_notification clk ids (reply_notice row' (py_strip body)) db1 else Inr (None, db1))
                  (\<lambda>(_, db2). Inr (Some (serialize_ticket row'),
                    user_event clk ''ticket.updated'' (tk_tg row) ''ticket'' i
                      [(''status'', JStr (tk_status row'))]
                      (audit_success clk actor ''ticket.reply'' ''ticket'' (Some i)
                        (Some (JDict [(''internal'', JBool hidden)])) db2)))) db0"

definition updated_ticket ::
  "clock \<Rightarrow> string option \<Rightarrow> string option \<Rightarrow> int option \<Rightarrow> bool \<Rightarrow> ticket_row \<Rightarrow> ticket_row" where
  "updated_ticket clk status priority assignee assignee_supplied r =
     (let r1 = (case status of
            None \<Rightarrow> r
          | Some s \<Rightarrow> r\<lparr>tk_status := s,
              tk_resolved_at := (if s = ''resolved'' then Some (now_utc clk) else None),
              tk_closed_at := (if s = ''closed'' then Some (now_utc clk) else None)\<rparr>);
          r2 = r1\<lparr>tk_priority := opt_or priority (tk_priority r1)\<rparr>;
          r3 = (if assignee_supplied then r2\<lparr>tk_assignee_tg := assignee\<rparr> else r2)
      in r3\<lparr>tk_updated_at := now_utc clk\<rparr>)"

definition ticket_update ::
  "clock \<Rightarrow> string \<Rightarrow> string option \<Rightarrow> string option \<Rightarrow> int option \<Rightarrow> bool \<Rightarrow> actor \<Rightarrow> 'z commerce_db_scheme \<Rightarrow>
   (jdict option, 'z commerce_db_scheme) outcome" where
  "ticket_update clk i status priority assignee assignee_supplied actor db0 =
     commerce_uow (\<lambda>db.
       case get_ticket i None db of
         None \<Rightarrow> Inr (None, db)
       | Some row \<Rightarrow>
           let row' = updated_ticket clk status priority assignee assignee_supplied row;
               changes = concat [case status of None \<Rightarrow> [] | Some s \<Rightarrow> [(''status'', JStr s)],
                 case priority of None \<Rightarrow> [] | Some p \<Rightarrow> [(''priority'', JStr p)],
                 if assignee_supplied then [(''assignee_tg'', jopt_int assignee)] else []]
           in Inr (Some (serialize_ticket row'),
                user_event clk ''ticket.updated'' (tk_tg row) ''ticket'' i changes
                  (audit_success clk actor ''ticket.update'' ''ticket'' (Some i) (Some (JDict changes))
                    (save_ticket row' db)))) db0"

subsection \<open>Media requests: views and texts\<close>

definition serialize_media_request :: "request_row \<Rightarrow> jdict" where
  "serialize_media_request r =
     [(''id'', JStr (rq_id r)), (''request_no'', JStr (rq_request_no r)), (''tg'', JInt (rq_tg r)),
      (''title'', JStr (rq_title r)), (''year'', jopt_int (rq_year r)),
      (''media_type'', JStr (rq_media_type r)), (''description'', jopt_str (rq_description r)),
      (''status'', JStr (rq_status r)), (''priority'', JStr (rq_priority r)), (''source'', JStr (rq_source r)),
      (''external_ref'', jopt_str (rq_external_ref r)), (''download_id'', jopt_str (rq_download_id r)),
      (''cost_coins'', JInt (rq_cost_coins r)), (''progress'', JInt (rq_progress r)),
      (''admin_note'', jopt_str (rq_admin_note r)), (''reviewed_by'', jopt_int (rq_reviewed_by r)),
      (''reviewed_at'', jopt_time (rq_reviewed_at r)), (''completed_at'', jopt_time (rq_completed_at r)),
      (''canceled_at'', jopt_time (rq_canceled_at r)), (''created_at'', JTime (rq_created_at r)),
      (''updated_at'', JTime (rq_updated_at r))]"

definition not_cancelable_request_message :: string where
  "not_cancelable_request_message = text_of [0x5F53, 0x524D, 0x6C42, 0x7247, 0x72B6, 0x6001, 0x4E0D, 0x80FD, 0x53D6, 0x6D88]"

definition bound_download_message :: string where
  "bound_download_message = text_of [0x8BE5, 0x4E0B, 0x8F7D, 0x20, 0x49, 0x44, 0x20, 0x5DF2, 0x7ED1, 0x5B9A, 0x5176,
     0x4ED6, 0x6C42, 0x7247, 0x8BB0, 0x5F55]"

definition request_title :: "request_row \<Rightarrow> string" where
  "request_title r = text_of [0x6C42, 0x7247, 0x300A] @ rq_title r @ text_of [0x300B, 0x72B6, 0x6001, 0x5DF2, 0x66F4, 0x65B0]"

definition request_severity :: "string \<Rightarrow> string" where
  "request_severity status =
     (if status = ''completed'' then ''success'' else if status = ''rejected'' then ''warning'' else ''info'')"

definition request_notice :: "request_row \<Rightarrow> string \<Rightarrow> jdict \<Rightarrow> notice" where
  "request_notice r body extra =
     \<lparr>no_tg = rq_tg r, no_category = ''request'', no_title = request_title r, no_body = body,
      no_severity = request_severity (rq_status r), no_action_url = Some ''/requests'',
      no_metadata = Some (JDict ([(''request_id'', JStr (rq_id r)), (''status'', JStr (rq_status r))] @ extra))\<rparr>"

definition update_body :: "request_row \<Rightarrow> string" where
  "update_body r = text_of [0x5F53, 0x524D, 0x72B6, 0x6001, 0xFF1A] @ rq_status r @ text_of [0x3002] @ note_suffix (rq_admin_note r)"

definition sync_body :: "request_row \<Rightarrow> string" where
  "sync_body r = text_of [0x5F53, 0x524D, 0x72B6, 0x6001, 0xFF1A] @ rq_status r @ text_of [0xFF0C, 0x8FDB, 0x5EA6, 0x20] @ show_int (rq_progress r) @ text_of [0x25, 0x3002]"

definition request_event :: "clock \<Rightarrow> request_row \<Rightarrow> jdict \<Rightarrow> 'z commerce_db_scheme \<Rightarrow> 'z commerce_db_scheme" where
  "request_event clk r extra db =
     user_event clk ''request.updated'' (rq_tg r) ''media_request'' (rq_id r)
       ((''status'', JStr (rq_status r)) # extra) db"

subsection \<open>Media requests: operations\<close>

definition insert_request ::
  "clock \<Rightarrow> request_row \<Rightarrow> string \<Rightarrow> jdict \<Rightarrow> actor \<Rightarrow> 'z commerce_db_scheme \<Rightarrow> jdict \<times> 'z commerce_db_scheme" where
  \<comment> \<open>the common end of \<open>create\<close> and \<open>import_download\<close>\<close>
  "insert_request clk row action detail actor db =
     (serialize_media_request row,
      user_event clk ''request.created'' (rq_tg row) ''media_request'' (rq_id row)
        [(''request_no'', JStr (rq_request_no row))]
        (audit_success clk actor action ''media_request'' (Some (rq_id row)) (Some (JDict detail))
          (add_media_request row db)))"

definition request_create ::
  "clock \<Rightarrow> string \<Rightarrow> int \<Rightarrow> string \<Rightarrow> int option \<Rightarrow> string \<Rightarrow> string option \<Rightarrow> string option \<Rightarrow> actor \<Rightarrow>
   'z commerce_db_scheme \<Rightarrow> (jdict, 'z commerce_db_scheme) outcome" where
  "request_create clk new_id tg title year media_type description external_ref actor db0 =
     commerce_uow (\<lambda>db.
       let row = \<lparr>rq_id = new_id, rq_request_no = ''RQ'' @ date_stamp (now_utc clk) @ id_head new_id, rq_tg = tg,
             rq_title = py_strip title, rq_year = year, rq_media_type = media_type,
             rq_description = strip_or_none description, rq_status = ''submitted'', rq_priority = ''normal'',
             rq_source = ''web'', rq_external_ref = strip_or_none external_ref, rq_download_id = None,
             rq_cost_coins = 0, rq_progress = 0, rq_admin_note = None, rq_reviewed_by = None,
             rq_reviewed_at = None, rq_completed_at = None, rq_canceled_at = None,
             rq_created_at = now_utc clk, rq_updated_at = now_utc clk\<rparr>
       in Inr (insert_request clk row ''request.create'' [(''title'', JStr (rq_title row))] actor db)) db0"

definition request_get ::
  "string \<Rightarrow> int option \<Rightarrow> 'z commerce_db_scheme \<Rightarrow> (jdict option, 'z commerce_db_scheme) outcome" where
  "request_get i tg db0 =
     commerce_uow (\<lambda>db. Inr (map_option serialize_media_request (get_media_request i tg db), db)) db0"

definition request_list ::
  "int option \<Rightarrow> string option \<Rightarrow> string option \<Rightarrow> int \<Rightarrow> int \<Rightarrow> 'z commerce_db_scheme \<Rightarrow>
   (jdict, 'z commerce_db_scheme) outcome" where
  "request_list tg status search lim off db0 =
     commerce_uow (\<lambda>db. bind_attempt (list_media_requests tg status search lim off db) (\<lambda>(rs, total).
       Inr (page_view (map serialize_media_request rs, total) lim off, db))) db0"

definition transfer_candidates ::
  "int \<Rightarrow> 'z commerce_db_scheme \<Rightarrow> (jdict list, 'z commerce_db_scheme) outcome" where
  "transfer_candidates lim db0 =
     commerce_uow (\<lambda>db. Inr (map serialize_media_request (list_transfer_candidates lim db), db)) db0"

definition request_cancel ::
  "clock \<Rightarrow> string \<Rightarrow> int \<Rightarrow> actor \<Rightarrow> 'z commerce_db_scheme \<Rightarrow> (jdict option, 'z commerce_db_scheme) outcome" where
  "request_cancel clk i tg actor db0 =
     commerce_uow (\<lambda>db.
       case get_media_request i (Some tg) db of
         None \<Rightarrow> Inr (None, db)
       | Some row \<Rightarrow>
           if rq_status row \<notin> {''submitted'', ''reviewing''} then Inl (RuntimeError not_cancelable_request_message)
           else
             let r = row\<lparr>rq_status := ''canceled'', rq_canceled_at := Some (now_utc clk),
                         rq_updated_at := now_utc clk\<rparr>
             in Inr (Some (serialize_media_request r), request_event clk r []
                  (audit_success clk actor ''request.cancel'' ''media_request'' (Some i) None
                    (save_media_request r db)))) db0"

record request_patch =
  \<comment> \<open>the dictionary of \<open>update\<close>; None where a key is missing, Some None for a null\<close>
  ru_status :: "string option option"
  ru_priority :: "string option option"
  ru_external_ref :: "string option option"
  ru_download_id :: "string option option"
  ru_cost_coins :: "int option option"
  ru_progress :: "int option option"
  ru_admin_note :: "string option option"

definition request_patch_dict :: "request_patch \<Rightarrow> jdict" where
  "request_patch_dict pt =
     concat [entry ''status'' JStr (ru_status pt), entry ''priority'' JStr (ru_priority pt),
       entry ''external_ref'' JStr (ru_external_ref pt), entry ''download_id'' JStr (ru_download_id pt),
       entry ''cost_coins'' JInt (ru_cost_coins pt), entry ''progress'' JInt (ru_progress pt),
       entry ''admin_note'' JStr (ru_admin_note pt)]"

definition patch_request :: "clock \<Rightarrow> request_patch \<Rightarrow> actor \<Rightarrow> request_row \<Rightarrow> request_row" where
  "patch_request clk pt actor r =
     (let r1 = r\<lparr>rq_status := set_field (ru_status pt) (rq_status r),
              rq_priority := set_field (ru_priority pt) (rq_priority r),
              rq_external_ref := opt_or (ru_external_ref pt) (rq_external_ref r),
              rq_download_id := opt_or (ru_download_id pt) (rq_download_id r),
              rq_cost_coins := set_field (ru_cost_coins pt) (rq_cost_coins r),
              rq_progress := set_field (ru_progress pt) (rq_progress r),
              rq_admin_note := opt_or (ru_admin_note pt) (rq_admin_note r),
              rq_reviewed_by := actor_number actor, rq_reviewed_at := Some (now_utc clk),
              rq_updated_at := now_utc clk\<rparr>;
          keep = (\<lambda>x. case x of None \<Rightarrow> Some (now_utc clk) | Some t \<Rightarrow> Some t);
          r2 = (if rq_status r1 = ''completed''
                then r1\<lparr>rq_completed_at := keep (rq_completed_at r1), rq_progress := 100\<rparr>
                else r1\<lparr>rq_completed_at := None\<rparr>)
      in r2\<lparr>rq_canceled_at := (if rq_status r2 = ''canceled'' then keep (rq_canceled_at r2) else None)\<rparr>)"

definition request_nulls :: "request_patch \<Rightarrow> request_row \<Rightarrow> bool" where
  \<comment> \<open>a null left in a column that must not be null; completion overwrites a null progress\<close>
  "request_nulls pt r' =
     (ru_status pt = Some None \<or> ru_priority pt = Some None \<or> ru_cost_coins pt = Some None \<or>
      (ru_progress pt = Some None \<and> rq_status r' \<noteq> ''completed''))"

definition download_taken :: "string option option \<Rightarrow> request_row \<Rightarrow> 'z commerce_db_scheme \<Rightarrow> bool" where
  "download_taken d row db =
     (case d of
        Some (Some x) \<Rightarrow> x \<noteq> [] \<and>
          (case media_request_by_download_id x db of None \<Rightarrow> False | Some other \<Rightarrow> rq_id other \<noteq> rq_id row)
      | _ \<Rightarrow> False)"

definition request_update ::
  "clock \<Rightarrow> notice_ids \<Rightarrow> string \<Rightarrow> request_patch \<Rightarrow> actor \<Rightarrow> 'z commerce_db_scheme \<Rightarrow>
   (jdict option, 'z commerce_db_scheme) outcome" where
  "request_update clk ids i pt actor db0 =
     commerce_uow (\<lambda>db.
       case get_media_request i None db of
         None \<Rightarrow> Inr (None, db)
       | Some row \<Rightarrow>
           if download_taken (ru_download_id pt) row db then Inl (RuntimeError bound_download_message)
           else
             let r = patch_request clk pt actor row; db1 = save_media_request r db in
             if request_nulls pt r then Inl IntegrityError
             else bind_attempt
                 (if rq_status r \<noteq> rq_status row
                  then add_notification clk ids (request_notice r (update_body r) []) db1 else Inr (None, db1))
                 (\<lambda>(_, db2). Inr (Some (serialize_media_request r), request_event clk r []
                   (audit_success clk actor ''request.update'' ''media_request'' (Some i)
                     (Some (JDict (request_patch_dict pt))) db2)))) db0"

definition import_download ::
  "clock \<Rightarrow> string \<Rightarrow> int \<Rightarrow> string \<Rightarrow> string \<Rightarrow> string option \<Rightarrow> int \<Rightarrow> actor \<Rightarrow> 'z commerce_db_scheme \<Rightarrow>
   (jdict, 'z commerce_db_scheme) outcome" where
  "import_download clk new_id tg download_id title description cost_coins actor db0 =
     commerce_uow (\<lambda>db.
       case media_request_by_download_id download_id db of
         Some old \<Rightarrow> Inr (serialize_media_request old, db)
       | None \<Rightarrow>
           let row = \<lparr>rq_id = new_id, rq_request_no = ''MP'' @ date_stamp (now_utc clk) @ id_head new_id,
                 rq_tg = tg, rq_title = py_take 255 title, rq_year = None, rq_media_type = ''other'',
                 rq_description = description, rq_status = ''approved'', rq_priority = ''normal'',
                 rq_source = ''telegram'', rq_external_ref = None, rq_download_id = Some download_id,
                 rq_cost_coins = cost_coins, rq_progress = 0, rq_admin_note = None, rq_reviewed_by = None,
                 rq_reviewed_at = None, rq_completed_at = None, rq_canceled_at = None,
                 rq_created_at = now_utc clk, rq_updated_at = now_utc clk\<rparr>
           in Inr (insert_request clk row ''request.import'' [(''download_id'', JStr download_id)] actor db)) db0"

text \<open>A floating point number is a dyadic fraction or one of the special values.\<close>

datatype py_float = Dyadic int int | Infinite bool | NotANumber

definition float_to_int :: "py_float \<Rightarrow> int attempt" where
  \<comment> \<open>\<open>int(x)\<close>: towards zero\<close>
  "float_to_int x =
     (case x of
        Dyadic m e \<Rightarrow> Inr (if 0 \<le> e then m * 2 ^ nat e else sgn m * (abs m div 2 ^ nat (- e)))
      | Infinite _ \<Rightarrow> Inl OverflowError
      | NotANumber \<Rightarrow> Inl (ValueError ''cannot convert float NaN to integer''))"

datatype transfer_state = TNone | TBool bool | TInt int | TText string

definition transfer_text :: "transfer_state \<Rightarrow> string" where
  \<comment> \<open>\<open>str(x).lower()\<close>, and the empty text for None\<close>
  "transfer_text x =
     (case x of TNone \<Rightarrow> [] | TBool b \<Rightarrow> (if b then ''true'' else ''false'') | TInt n \<Rightarrow> show_int n
      | TText s \<Rightarrow> py_lower s)"

definition synced_status ::
  "clock \<Rightarrow> string option \<Rightarrow> transfer_state \<Rightarrow> request_row \<Rightarrow> request_row" where
  "synced_status clk download_state transfer r =
     (if transfer_text transfer \<in> {''true'', ''1'', ''success'', ''completed''} then
        r\<lparr>rq_status := ''completed'', rq_progress := 100,
          rq_completed_at := (case rq_completed_at r of None \<Rightarrow> Some (now_utc clk) | Some t \<Rightarrow> Some t)\<rparr>
      else if transfer \<noteq> TNone \<and> transfer_text transfer \<in> {''false'', ''0'', ''failed'', ''error''} then
        r\<lparr>rq_status := ''rejected''\<rparr>
      else if download_state = Some ''downloading'' then r\<lparr>rq_status := ''downloading''\<rparr>
      else if download_state = Some ''failed'' then r\<lparr>rq_status := ''rejected''\<rparr>
      else if download_state = Some ''completed'' then r\<lparr>rq_status := ''downloading''\<rparr>
      else r)"

definition synced_progress :: "py_float option \<Rightarrow> request_row \<Rightarrow> request_row attempt" where
  "synced_progress progress r =
     (case progress of
        None \<Rightarrow> Inr r
      | Some x \<Rightarrow>
          if rq_status r = ''completed'' then Inr r
          else bind_attempt (float_to_int x) (\<lambda>n. Inr (r\<lparr>rq_progress := max 0 (min 100 n)\<rparr>)))"

definition sync_download ::
  "clock \<Rightarrow> notice_ids \<Rightarrow> string \<Rightarrow> string option \<Rightarrow> transfer_state \<Rightarrow> py_float option \<Rightarrow>
   'z commerce_db_scheme \<Rightarrow> (jdict option, 'z commerce_db_scheme) outcome" where
  "sync_download clk ids download_id download_state transfer progress db0 =
     commerce_uow (\<lambda>db.
       case media_request_by_download_id download_id db of
         None \<Rightarrow> Inr (None, db)
       | Some row \<Rightarrow>
           bind_attempt (synced_progress progress (synced_status clk download_state transfer row)) (\<lambda>r.
             if rq_status r = rq_status row \<and> rq_progress r = rq_progress row \<and>
                rq_completed_at r = rq_completed_at row
             then Inr (Some (serialize_media_request r), db)
             else
               let r' = r\<lparr>rq_updated_at := now_utc clk\<rparr>; db1 = save_media_request r' db;
                   extra = [(''progress'', JInt (rq_progress r'))]
               in bind_attempt
                    (if rq_status r' \<noteq> rq_status row
                     then add_notification clk ids (request_notice r' (sync_body r') extra) db1 else Inr (None, db1))
                    (\<lambda>(_, db2). Inr (Some (serialize_media_request r'), request_event clk r' extra db2)))) db0"

end
