(* ===== verification/Order_Protocol.thy ===== *)
theory Order_Protocol
  imports Ticket_Service Samples
begin

section \<open>The protocol of recharge orders\<close>

text \<open>
  What an order promises, as a step relation over the users, the orders and the kinds of the billing
  entries: an order is created pending, is closed or credited once, and only a credited one is refunded.
  The invariants of the relation: coins move with the orders, and the ledger has one credit entry
  for every order that was credited.
\<close>

type_synonym order_state = "emby_row list \<times> order_row list \<times> (string option \<times> string) list"

definition same_order :: "order_row \<Rightarrow> order_row \<Rightarrow> bool" where
  "same_order r r' =
     (or_id r' = or_id r \<and> or_order_no r' = or_order_no r \<and> or_tg r' = or_tg r \<and> or_coins r' = or_coins r \<and>
      or_bonus_coins r' = or_bonus_coins r \<and> or_amount_cents r' = or_amount_cents r)"

inductive order_step :: "order_state \<Rightarrow> order_state \<Rightarrow> bool" where
  step_same: "order_step s s"
| step_new: "or_id r \<notin> or_id ` set os \<Longrightarrow> or_status r = ''pending'' \<Longrightarrow>
    order_step (us, os, es) (us, os @ [r], es @ [(Some (or_id r), ''order_created'')])"
| step_close: "tbl_get or_id i os = Some r \<Longrightarrow> or_status r = ''pending'' \<Longrightarrow> same_order r r' \<Longrightarrow>
    or_status r' = ''canceled'' \<Longrightarrow> k \<in> {''order_rejected'', ''order_canceled''} \<Longrightarrow>
    order_step (us, os, es) (us, tbl_put or_id r' os, es @ [(Some i, k)])"
| step_credit: "tbl_get or_id i os = Some r \<Longrightarrow> or_status r = ''pending'' \<Longrightarrow> same_order r r' \<Longrightarrow>
    or_status r' = ''credited'' \<Longrightarrow> tbl_get emby_tg (or_tg r) us = Some u \<Longrightarrow>
    get_balance IV u + order_credit r \<le> commerce_max_int \<Longrightarrow>
    order_step (us, os, es)
      (tbl_put emby_tg (set_balance IV (get_balance IV u + order_credit r) u) us, tbl_put or_id r' os,
       es @ [(Some i, ''order_credited'')])"
| step_refund: "tbl_get or_id i os = Some r \<Longrightarrow> or_status r = ''credited'' \<Longrightarrow> same_order r r' \<Longrightarrow>
    or_status r' = ''refunded'' \<Longrightarrow> tbl_get emby_tg (or_tg r) us = Some u \<Longrightarrow>
    order_credit r \<le> get_balance IV u \<Longrightarrow>
    order_step (us, os, es)
      (tbl_put emby_tg (set_balance IV (get_balance IV u - order_credit r) u) us, tbl_put or_id r' os,
       es @ [(Some i, ''order_refunded'')])"

inductive_cases order_stepE: "order_step s t"

subsection \<open>Keys\<close>

fun keys_ok :: "order_state \<Rightarrow> bool" where
  "keys_ok (us, os, es) = (distinct (map emby_tg us) \<and> distinct (map or_id os))"

lemma keys_step: "order_step s t \<Longrightarrow> keys_ok s \<Longrightarrow> keys_ok t"
  by (induction rule: order_step.induct) auto

subsection \<open>Coins move with the orders\<close>

definition credit_of :: "int \<Rightarrow> order_row \<Rightarrow> int" where
  "credit_of tg r = (if or_tg r = tg \<and> or_status r = ''credited'' then order_credit r else 0)"

definition coins_in :: "int \<Rightarrow> emby_row list \<Rightarrow> int" where
  "coins_in tg us = (case tbl_get emby_tg tg us of None \<Rightarrow> 0 | Some u \<Rightarrow> get_balance IV u)"

fun uncredited :: "int \<Rightarrow> order_state \<Rightarrow> int" where
  \<comment> \<open>the coins of a user that no credited order explains\<close>
  "uncredited tg (us, os, es) = coins_in tg us - sum_list (map (credit_of tg) os)"

lemma sum_tbl_put:
  fixes f :: "'r \<Rightarrow> int"
  shows "distinct (map key rs) \<Longrightarrow> tbl_get key (key r) rs = Some r0 \<Longrightarrow>
    sum_list (map f (tbl_put key r rs)) = sum_list (map f rs) - f r0 + f r"
proof (induction rs)
  case (Cons x rs)
  show ?case
  proof (cases "key x = key r")
    case True
    then have "tbl_get key (key r) rs = None" using Cons.prems(1) by (simp add: tbl_get_None)
    then have "tbl_put key r rs = rs" by (rule tbl_put_absent)
    with True Cons.prems(2) show ?thesis by simp
  qed (use Cons in simp)
qed simp

lemma coins_put:
  "tbl_get emby_tg k us = Some u \<Longrightarrow>
   coins_in tg (tbl_put emby_tg (set_balance IV n u) us) = (if tg = k then n else coins_in tg us)"
proof -
  assume u: "tbl_get emby_tg k us = Some u"
  then have k: "emby_tg (set_balance IV n u) = k" using tbl_get_key [OF u] by simp
  show ?thesis
  proof (cases "tg = k")
    case True
    have "tbl_get emby_tg k (tbl_put emby_tg (set_balance IV n u) us) = Some (set_balance IV n u)"
      using tbl_get_put_same [of emby_tg "set_balance IV n u" us] u k by simp
    with True show ?thesis by (simp add: coins_in_def)
  next
    case False
    then show ?thesis using tbl_get_put_other [of tg emby_tg "set_balance IV n u" us] k by (simp add: coins_in_def)
  qed
qed

lemma coins_in_Some: "tbl_get emby_tg k us = Some u \<Longrightarrow> coins_in k us = get_balance IV u"
  by (simp add: coins_in_def)

lemma same_order_id: "tbl_get or_id i os = Some r \<Longrightarrow> same_order r r' \<Longrightarrow> or_id r' = i"
  using tbl_get_key by (fastforce simp: same_order_def)

lemma sum_order_put:
  "distinct (map or_id os) \<Longrightarrow> tbl_get or_id i os = Some r \<Longrightarrow> same_order r r' \<Longrightarrow>
   sum_list (map (credit_of tg) (tbl_put or_id r' os)) = sum_list (map (credit_of tg) os) - credit_of tg r + credit_of tg r'"
  using sum_tbl_put [of or_id os r' r "credit_of tg"] same_order_id [of i os r r'] by simp

lemma uncredited_step: "order_step s t \<Longrightarrow> keys_ok s \<Longrightarrow> uncredited tg t = uncredited tg s"
proof (induction rule: order_step.induct)
  case (step_new r os us es)
  then show ?case by (simp add: credit_of_def)
next
  case (step_close i os r r' k us es)
  then show ?case by (simp add: sum_order_put) (simp add: credit_of_def)
next
  case (step_credit i os r r' us u es)
  then have "credit_of tg r = 0" "credit_of tg r' = (if tg = or_tg r then order_credit r else 0)"
    by (auto simp: credit_of_def order_credit_def same_order_def)
  with step_credit show ?case
    by (simp add: sum_order_put coins_put coins_in_Some del: get_balance.simps set_balance.simps)
next
  case (step_refund i os r r' us u es)
  then have "credit_of tg r' = 0" "credit_of tg r = (if tg = or_tg r then order_credit r else 0)"
    by (auto simp: credit_of_def)
  with step_refund show ?case
    by (simp add: sum_order_put coins_put coins_in_Some del: get_balance.simps set_balance.simps)
qed simp

subsection \<open>The ledger explains the orders\<close>

definition entries_of :: "string \<Rightarrow> string \<Rightarrow> (string option \<times> string) list \<Rightarrow> nat" where
  "entries_of kind i es = length (filter (\<lambda>e. e = (Some i, kind)) es)"

fun ledger_ok :: "order_state \<Rightarrow> bool" where
  "ledger_ok (us, os, es) =
     ((\<forall>r \<in> set os.
         or_status r \<in> {''pending'', ''canceled'', ''credited'', ''refunded''} \<and>
         entries_of ''order_created'' (or_id r) es = 1 \<and>
         entries_of ''order_credited'' (or_id r) es = (if or_status r \<in> {''credited'', ''refunded''} then 1 else 0) \<and>
         entries_of ''order_refunded'' (or_id r) es = (if or_status r = ''refunded'' then 1 else 0)) \<and>
      fst ` set es \<subseteq> Some ` or_id ` set os)"

lemma entries_of_append:
  "entries_of k i (es @ [e]) = entries_of k i es + (if e = (Some i, k) then 1 else 0)"
  by (simp add: entries_of_def)

lemma entries_of_new: "Some i \<notin> fst ` set es \<Longrightarrow> entries_of k i es = 0"
  by (force simp: entries_of_def filter_empty_conv)

lemma ids_order_put: "or_id ` set (tbl_put or_id r' os) = or_id ` set os"
  using map_key_tbl_put [of or_id r' os] by (metis list.set_map)

lemma in_order_put:
  "x \<in> set (tbl_put or_id r' os) \<Longrightarrow> x = r' \<or> x \<in> set os \<and> or_id x \<noteq> or_id r'"
  by (auto simp: tbl_put_def split: if_splits)

definition order_ok :: "(string option \<times> string) list \<Rightarrow> order_row \<Rightarrow> bool" where
  "order_ok es r =
     (or_status r \<in> {''pending'', ''canceled'', ''credited'', ''refunded''} \<and>
      entries_of ''order_created'' (or_id r) es = 1 \<and>
      entries_of ''order_credited'' (or_id r) es = (if or_status r \<in> {''credited'', ''refunded''} then 1 else 0) \<and>
      entries_of ''order_refunded'' (or_id r) es = (if or_status r = ''refunded'' then 1 else 0))"

lemma ledger_ok_alt:
  "ledger_ok (us, os, es) \<longleftrightarrow> (\<forall>r \<in> set os. order_ok es r) \<and> fst ` set es \<subseteq> Some ` or_id ` set os"
  by (simp add: order_ok_def)

lemma order_ok_other: "i \<noteq> or_id r \<Longrightarrow> order_ok (es @ [(Some i, k)]) r = order_ok es r"
  by (simp add: order_ok_def entries_of_append)

lemma ledger_put:
  assumes "ledger_ok (us, os, es)" and "tbl_get or_id i os = Some r" and "same_order r r'"
    and "order_ok (es @ [(Some i, k)]) r'"
  shows "ledger_ok (us', tbl_put or_id r' os, es @ [(Some i, k)])"
proof -
  have i: "or_id r' = i" by (rule same_order_id [OF assms(2,3)])
  have "order_ok (es @ [(Some i, k)]) x" if "x \<in> set (tbl_put or_id r' os)" for x
    using in_order_put [OF that] assms(1,4) i by (auto simp: ledger_ok_alt order_ok_other simp del: ledger_ok.simps)
  moreover have "i \<in> or_id ` set os" using assms(2) by (auto dest: tbl_get_mem tbl_get_key)
  ultimately show ?thesis using assms(1) by (auto simp: ledger_ok_alt ids_order_put simp del: ledger_ok.simps)
qed

lemma ledger_row: "ledger_ok (us, os, es) \<Longrightarrow> tbl_get or_id i os = Some r \<Longrightarrow> order_ok es r \<and> or_id r = i"
  by (auto simp: ledger_ok_alt dest: tbl_get_mem tbl_get_key simp del: ledger_ok.simps)

lemma order_ok_moves:
  "order_ok es r \<Longrightarrow> or_id r = i \<Longrightarrow> or_id r' = i \<Longrightarrow> or_status r = ''pending'' \<Longrightarrow> or_status r' = ''canceled'' \<Longrightarrow>
     order_ok (es @ [(Some i, ''order_rejected'')]) r' \<and> order_ok (es @ [(Some i, ''order_canceled'')]) r'"
  "order_ok es r \<Longrightarrow> or_id r = i \<Longrightarrow> or_id r' = i \<Longrightarrow> or_status r = ''pending'' \<Longrightarrow> or_status r' = ''credited'' \<Longrightarrow>
     order_ok (es @ [(Some i, ''order_credited'')]) r'"
  "order_ok es r \<Longrightarrow> or_id r = i \<Longrightarrow> or_id r' = i \<Longrightarrow> or_status r = ''credited'' \<Longrightarrow> or_status r' = ''refunded'' \<Longrightarrow>
     order_ok (es @ [(Some i, ''order_refunded'')]) r'"
  by (simp_all add: order_ok_def entries_of_append)

lemma ledger_step: "order_step s t \<Longrightarrow> ledger_ok s \<Longrightarrow> ledger_ok t"
proof (induction rule: order_step.induct)
  case (step_new r os us es)
  let ?es = "es @ [(Some (or_id r), ''order_created'')]"
  have old: "\<forall>r \<in> set os. order_ok es r" and sub: "fst ` set es \<subseteq> Some ` or_id ` set os"
    using step_new(3) unfolding ledger_ok_alt by blast+
  have new: "Some (or_id r) \<notin> fst ` set es" using sub step_new(1) by blast
  have "order_ok ?es r"
    using step_new(2) by (simp add: order_ok_def entries_of_append entries_of_new [OF new])
  moreover have "order_ok ?es x" if "x \<in> set os" for x
  proof -
    have "or_id r \<noteq> or_id x" using step_new(1) that by (metis imageI)
    then show ?thesis using old that by (simp add: order_ok_other)
  qed
  ultimately have "\<forall>x \<in> set (os @ [r]). order_ok ?es x" by simp
  moreover have "fst ` set ?es \<subseteq> Some ` or_id ` set (os @ [r])" using sub by auto
  ultimately show ?case unfolding ledger_ok_alt by (rule conjI)
next
  case (step_close i os r r' k us es)
  note row = ledger_row [OF step_close(6,1)]
  have "order_ok (es @ [(Some i, k)]) r'"
    using order_ok_moves(1) [OF conjunct1 [OF row] conjunct2 [OF row] same_order_id [OF step_close(1,3)] step_close(2,4)]
      step_close(5) by blast
  then show ?case by (rule ledger_put [OF step_close(6,1,3)])
next
  case (step_credit i os r r' us u es)
  note row = ledger_row [OF step_credit(7,1)]
  show ?case
    by (rule ledger_put [OF step_credit(7,1,3) order_ok_moves(2) [OF conjunct1 [OF row] conjunct2 [OF row]
          same_order_id [OF step_credit(1,3)] step_credit(2,4)]])
next
  case (step_refund i os r r' us u es)
  note row = ledger_row [OF step_refund(7,1)]
  show ?case
    by (rule ledger_put [OF step_refund(7,1,3) order_ok_moves(3) [OF conjunct1 [OF row] conjunct2 [OF row]
          same_order_id [OF step_refund(1,3)] step_refund(2,4)]])
qed

end
