(* ===== verification/Commerce_Properties.thy ===== *)
theory Commerce_Properties
  imports Order_Protocol
begin

section \<open>Properties of orders, tickets and media requests\<close>

text \<open>
  Every call of the three services takes the users, the orders and the billing entries by one step of
  the order protocol, so its invariants hold of every database the calls lead to.
\<close>

definition order_view :: "'z commerce_db_scheme \<Rightarrow> order_state" where
  "order_view db = (embys db, orders db, map (\<lambda>b. (bl_order_id b, bl_entry_type b)) (rows (billing db)))"

lemma order_view_frame [simp]:
  "order_view (audit clk ac an rt rid oc dt rq db) = order_view db"
  "order_view (event clk et rt rid p db) = order_view db"
  "order_view (user_event clk et tg rt i ex db) = order_view db"
  "order_view (save_idempotent_result clk sc key v db) = order_view db"
  "order_view (order_event clk r db) = order_view db"
  "order_view (request_event clk rr ex db) = order_view db"
  "order_view (add_product mk db) = order_view db"
  "order_view (save_product pp db) = order_view db"
  "order_view (add_ticket t db) = order_view db"
  "order_view (save_ticket t db) = order_view db"
  "order_view (add_ticket_message mm db) = order_view db"
  "order_view (add_media_request q db) = order_view db"
  "order_view (save_media_request q db) = order_view db"
  by (simp_all add: order_view_def audit_def event_def user_event_def save_idempotent_result_def order_event_def
      request_event_def add_product_def save_product_def add_ticket_def save_ticket_def add_ticket_message_def
      add_media_request_def save_media_request_def)

lemma order_view_point_transaction [simp]:
  "order_view (point_transaction clk tg bt am bal re ac key md db) = order_view db"
  by (simp add: order_view_def point_transaction_def Let_def accounts_add_ledger_def accounts_add_wallet_def
      accounts_save_wallet_def split: option.split)

lemma order_view_notified:
  "add_notification clk ids n db = Inr (r, db') \<Longrightarrow> order_view db' = order_view db"
  using add_notification_adds [of clk ids n db r db'] by (auto simp: order_view_def)

lemma order_view_writes:
  "order_view (billing_entry clk r k c co ds ac md db) =
     (let (us, os, es) = order_view db in (us, os, es @ [(Some (or_id r), k)]))"
  "order_view (save_order r db) = (let (us, os, es) = order_view db in (us, tbl_put or_id r os, es))"
  "order_view (add_order r db) = (let (us, os, es) = order_view db in (us, os @ [r], es))"
  "order_view (users_save u db) = (let (us, os, es) = order_view db in (tbl_put emby_tg u us, os, es))"
  by (simp_all add: order_view_def billing_entry_def add_billing_entry_def save_order_def add_order_def users_save_def)

lemma order_view_simp:
  "order_view db = (us, os, es) \<longleftrightarrow>
     us = embys db \<and> os = orders db \<and> es = map (\<lambda>b. (bl_order_id b, bl_entry_type b)) (rows (billing db))"
  by (auto simp: order_view_def)

subsection \<open>The calls\<close>

datatype commerce_call =
    ListProducts bool
  | CreateProduct clock product_form actor
  | UpdateProduct clock int product_patch actor
  | CreateOrder clock string int int "string option" actor "string option"
  | ListOrders "int option" "string option" "string option" int int
  | DecideOrder clock notice_ids string bool "string option" "string option" actor
  | CancelOrder clock string int actor
  | RefundOrder clock notice_ids string string actor
  | Reconcile clock
  | BillingLedger "int option" "string option" int int
  | TicketCreate clock string int string string string string actor
  | TicketList "int option" "string option" "int option" "string option" int int
  | TicketDetail string "int option" bool
  | TicketReply clock notice_ids string string actor "int option" bool
  | TicketUpdate clock string "string option" "string option" "int option" bool actor
  | RequestCreate clock string int string "int option" string "string option" "string option" actor
  | RequestGet string "int option"
  | RequestList "int option" "string option" "string option" int int
  | TransferCandidates int
  | RequestCancel clock string int actor
  | RequestUpdate clock notice_ids string request_patch actor
  | ImportDownload clock string int string string "string option" int actor
  | SyncDownload clock notice_ids string "string option" transfer_state "py_float option"

fun commerce_after :: "commerce_call \<Rightarrow> 'z commerce_db_scheme \<Rightarrow> 'z commerce_db_scheme" where
  "commerce_after (ListProducts e) db = snd (list_products e db)"
| "commerce_after (CreateProduct clk f a) db = snd (create_product clk f a db)"
| "commerce_after (UpdateProduct clk i pt a) db = snd (update_product clk i pt a db)"
| "commerce_after (CreateOrder clk i tg p n a k) db = snd (create_order clk i tg p n a k db)"
| "commerce_after (ListOrders tg st s lim off) db = snd (list_orders tg st s lim off db)"
| "commerce_after (DecideOrder clk ids i ap pr n a) db = snd (decide_order clk ids i ap pr n a db)"
| "commerce_after (CancelOrder clk i tg a) db = snd (cancel_order clk i tg a db)"
| "commerce_after (RefundOrder clk ids i re a) db = snd (refund_order clk ids i re a db)"
| "commerce_after (Reconcile clk) db = snd (reconciliation_summary clk db)"
| "commerce_after (BillingLedger tg et lim off) db = snd (billing_ledger tg et lim off db)"
| "commerce_after (TicketCreate clk i tg s c p b a) db = snd (ticket_create clk i tg s c p b a db)"
| "commerce_after (TicketList tg st asg s lim off) db = snd (ticket_list tg st asg s lim off db)"
| "commerce_after (TicketDetail i tg inc) db = snd (ticket_detail i tg inc db)"
| "commerce_after (TicketReply clk ids i b a tg hid) db = snd (ticket_reply clk ids i b a tg hid db)"
| "commerce_after (TicketUpdate clk i st p asg given a) db = snd (ticket_update clk i st p asg given a db)"
| "commerce_after (RequestCreate clk i tg t y mt d er a) db = snd (request_create clk i tg t y mt d er a db)"
| "commerce_after (RequestGet i tg) db = snd (request_get i tg db)"
| "commerce_after (RequestList tg st s lim off) db = snd (request_list tg st s lim off db)"
| "commerce_after (TransferCandidates lim) db = snd (transfer_candidates lim db)"
| "commerce_after (RequestCancel clk i tg a) db = snd (request_cancel clk i tg a db)"
| "commerce_after (RequestUpdate clk ids i pt a) db = snd (request_update clk ids i pt a db)"
| "commerce_after (ImportDownload clk i tg d t ds c a) db = snd (import_download clk i tg d t ds c a db)"
| "commerce_after (SyncDownload clk ids d st tr p) db = snd (sync_download clk ids d st tr p db)"

definition commerce_run :: "commerce_call list \<Rightarrow> 'z commerce_db_scheme \<Rightarrow> 'z commerce_db_scheme" where
  "commerce_run calls db = fold commerce_after calls db"

lemma commerce_integrity_after:
  assumes "commerce_integrity db"
  shows "commerce_integrity (commerce_after c db)"
  by (cases c) (simp_all add: assms list_products_def create_product_def update_product_def create_order_def
      list_orders_def decide_order_def cancel_order_def refund_order_def reconciliation_summary_def billing_ledger_def
      ticket_create_def ticket_list_def ticket_detail_def ticket_reply_def ticket_update_def request_create_def
      request_get_def request_list_def transfer_candidates_def request_cancel_def request_update_def
      import_download_def sync_download_def Let_def commit.keeps)

subsection \<open>Every call is a step of the protocol\<close>

definition steps_from :: "'z commerce_db_scheme \<Rightarrow> 'z commerce_db_scheme \<Rightarrow> bool" where
  "steps_from db d = order_step (order_view db) (order_view d)"

lemma steps_from_view: "order_view d = order_view db \<Longrightarrow> steps_from db d"
  by (simp add: steps_from_def step_same)

lemma commit_steps:
  assumes "\<And>x d. body db = Inr (x, d) \<Longrightarrow> commerce_integrity d \<Longrightarrow> steps_from db d"
  shows "steps_from db (snd (commerce_uow body db))"
proof (rule commit_with_snd [where P = "steps_from db"])
  show "steps_from db db" by (rule steps_from_view [OF refl])
qed (rule assms)

lemma finish_decision_view:
  assumes "finish_decision clk ids r ap a db = Inr (x, d)"
  shows "order_view d = order_view (billing_entry clk r (if ap then ''order_credited'' else ''order_rejected'') 0 0 [] a None db)"
proof -
  have view: "order_view (billing_entry clk r k c co ds a md db) = order_view (billing_entry clk r k 0 0 [] a None db)"
    for k c co ds md by (simp add: order_view_writes)
  from assms obtain n d' where "add_notification clk ids (decision_notice r ap)
      (billing_entry clk r (if ap then ''order_credited'' else ''order_rejected'') (or_amount_cents r)
        (if ap then order_credit r else 0)
        (if ap then credited_text (or_order_no r) else rejected_text (or_order_no r)) a
        (Some (JDict [(''payment_reference'', jopt_str (or_payment_reference r)),
                      (''admin_note'', jopt_str (or_admin_note r))])) db) = Inr (n, d')"
    and "order_view d = order_view d'"
    by (auto simp: finish_decision_def Let_def bind_attempt_Inr_iff)
  with order_view_notified view show ?thesis by metis
qed

lemma other_calls_view:
  "order_view (snd (list_products e db)) = order_view db"
  "order_view (snd (create_product clk f a db)) = order_view db"
  "order_view (snd (update_product clk n pt a db)) = order_view db"
  "order_view (snd (list_orders tg st s lim off db)) = order_view db"
  "order_view (snd (reconciliation_summary clk db)) = order_view db"
  "order_view (snd (billing_ledger tg et lim off db)) = order_view db"
proof -
  let ?P = "\<lambda>d. order_view d = order_view db"
  show "?P (snd (list_products e db))" unfolding list_products_def Let_def
    by (rule commit_with_snd [where P = ?P]) auto
  show "?P (snd (create_product clk f a db))" unfolding create_product_def Let_def
    by (rule commit_with_snd [where P = ?P]) auto
  show "?P (snd (update_product clk n pt a db))" unfolding update_product_def Let_def
    by (rule commit_with_snd [where P = ?P]) (auto split: option.splits if_splits)
  show "?P (snd (list_orders tg st s lim off db))" unfolding list_orders_def
    by (rule commit_with_snd [where P = ?P]) (auto simp: bind_attempt_Inr_iff)
  show "?P (snd (reconciliation_summary clk db))" unfolding reconciliation_summary_def Let_def
    by (rule commit_with_snd [where P = ?P]) auto
  show "?P (snd (billing_ledger tg et lim off db))" unfolding billing_ledger_def Let_def
    by (rule commit_with_snd [where P = ?P]) (auto split: prod.splits)
qed

lemma ticket_calls_view:
  "order_view (snd (ticket_create clk i n s c p b a db)) = order_view db"
  "order_view (snd (ticket_list tg st asg srch lim off db)) = order_view db"
  "order_view (snd (ticket_detail i tg inc db)) = order_view db"
  "order_view (snd (ticket_reply clk ids i b a tg hid db)) = order_view db"
  "order_view (snd (ticket_update clk i st pr asg given a db)) = order_view db"
proof -
  let ?P = "\<lambda>d. order_view d = order_view db"
  show "?P (snd (ticket_create clk i n s c p b a db))" unfolding ticket_create_def Let_def
    by (rule commit_with_snd [where P = ?P]) auto
  show "?P (snd (ticket_list tg st asg srch lim off db))" unfolding ticket_list_def
    by (rule commit_with_snd [where P = ?P]) (auto simp: bind_attempt_Inr_iff)
  show "?P (snd (ticket_detail i tg inc db))" unfolding ticket_detail_def
    by (rule commit_with_snd [where P = ?P]) (auto split: option.splits)
  show "?P (snd (ticket_reply clk ids i b a tg hid db))" unfolding ticket_reply_def Let_def
    by (rule commit_with_snd [where P = ?P])
       (auto simp: bind_attempt_Inr_iff order_view_notified split: option.splits if_splits)
  show "?P (snd (ticket_update clk i st pr asg given a db))" unfolding ticket_update_def Let_def
    by (rule commit_with_snd [where P = ?P]) (auto split: option.splits)
qed

lemma request_calls_view:
  "order_view (snd (request_create clk i n t y mt ds er a db)) = order_view db"
  "order_view (snd (request_get i tg db)) = order_view db"
  "order_view (snd (request_list tg st s lim off db)) = order_view db"
  "order_view (snd (transfer_candidates lim db)) = order_view db"
  "order_view (snd (request_cancel clk i n a db)) = order_view db"
  "order_view (snd (request_update clk ids i pt a db)) = order_view db"
  "order_view (snd (import_download clk i n d t ds c a db)) = order_view db"
  "order_view (snd (sync_download clk ids d st tr p db)) = order_view db"
proof -
  let ?P = "\<lambda>d. order_view d = order_view db"
  show "?P (snd (request_create clk i n t y mt ds er a db))" unfolding request_create_def Let_def insert_request_def
    by (rule commit_with_snd [where P = ?P]) auto
  show "?P (snd (request_get i tg db))" unfolding request_get_def
    by (rule commit_with_snd [where P = ?P]) auto
  show "?P (snd (request_list tg st s lim off db))" unfolding request_list_def
    by (rule commit_with_snd [where P = ?P]) (auto simp: bind_attempt_Inr_iff)
  show "?P (snd (transfer_candidates lim db))" unfolding transfer_candidates_def
    by (rule commit_with_snd [where P = ?P]) auto
  show "?P (snd (request_cancel clk i n a db))" unfolding request_cancel_def Let_def
    by (rule commit_with_snd [where P = ?P]) (auto split: option.splits if_splits)
  show "?P (snd (request_update clk ids i pt a db))" unfolding request_update_def Let_def
    by (rule commit_with_snd [where P = ?P])
       (auto simp: bind_attempt_Inr_iff order_view_notified split: option.splits if_splits)
  show "?P (snd (import_download clk i n d t ds c a db))" unfolding import_download_def Let_def insert_request_def
    by (rule commit_with_snd [where P = ?P]) (auto split: option.splits)
  show "?P (snd (sync_download clk ids d st tr p db))" unfolding sync_download_def Let_def
    by (rule commit_with_snd [where P = ?P])
       (auto simp: bind_attempt_Inr_iff order_view_notified split: option.splits if_splits)
qed

lemma steps_create_order: "steps_from db (snd (create_order clk i tg p n a k db))"
  unfolding create_order_def Let_def
proof (rule commit_steps, goal_cases)
  case (1 x d)
  have "steps_from db d" if "order_view d = order_view (billing_entry clk r kd c co ds a md (add_order r db))"
    "or_status r = ''pending''" "kd = ''order_created''" for r kd c co ds md
  proof -
    obtain us os es where v: "order_view db = (us, os, es)" by (cases "order_view db")
    have d: "order_view d = (us, os @ [r], es @ [(Some (or_id r), ''order_created'')])"
      using that(1,3) v by (simp add: order_view_writes)
    then have "distinct (map or_id (os @ [r]))"
      using 1(2) by (simp add: order_view_simp commerce_integrity_def)
    then have "or_id r \<notin> or_id ` set os" by simp
    from step_new [OF this that(2), of us es] show ?thesis by (simp add: steps_from_def v d)
  qed
  then show ?case using 1(1)
    by (auto simp: new_order_def steps_from_view split: if_splits option.splits)
qed

lemma same_orders:
  "same_order r (rejected_order clk n r)" "same_order r (credited_order clk pr n r)" "same_order r (refunded_order clk re r)"
  "same_order r (r\<lparr>or_status := s, or_canceled_at := c, or_updated_at := u\<rparr>)"
  "or_status (rejected_order clk n r) = ''canceled''" "or_status (credited_order clk pr n r) = ''credited''"
  "or_status (refunded_order clk re r) = ''refunded''" "order_credit (credited_order clk pr n r) = order_credit r"
  "order_credit (refunded_order clk re r) = order_credit r"
  by (simp_all add: same_order_def rejected_order_def credited_order_def refunded_order_def order_credit_def)

lemma view_close:
  assumes "get_order i db = Some r" and "or_status r = ''pending''" and "same_order r r'" and "or_status r' = ''canceled''"
    and "order_view d = order_view (billing_entry clk r' k c co ds a md (save_order r' db))"
    and "k \<in> {''order_rejected'', ''order_canceled''}"
  shows "steps_from db d"
proof -
  obtain us os es where v: "order_view db = (us, os, es)" by (cases "order_view db")
  have r: "tbl_get or_id i os = Some r" using assms(1) v by (simp add: get_order_def order_view_simp)
  have d: "order_view d = (us, tbl_put or_id r' os, es @ [(Some i, k)])"
    using assms(5) v same_order_id [OF r assms(3)] by (simp add: order_view_writes)
  from step_close [OF r assms(2-4,6), of us es] show ?thesis by (simp add: steps_from_def v d)
qed

lemma move_coins_view:
  "order_view (move_coins clk r u amount kind extra a db) =
     order_view (users_save (set_balance IV (get_balance IV u + amount) u) db)"
  by (simp add: move_coins_def Let_def del: get_balance.simps set_balance.simps)

lemma billing_view_cong:
  "order_view d = order_view d' \<Longrightarrow>
   order_view (billing_entry clk r k c co ds a md d) = order_view (billing_entry clk' r k c' co' ds' a' md' d')"
  by (simp add: order_view_writes)

lemma view_credit:
  assumes "get_order i db = Some r" and "or_status r = ''pending''" and "same_order r r'" and "or_status r' = ''credited''"
    and "users_get_for_update (or_tg r) db = Some u" and "get_balance IV u + order_credit r \<le> commerce_max_int"
    and "order_view d = order_view (billing_entry clk r' ''order_credited'' c co ds a md
        (users_save (set_balance IV (get_balance IV u + order_credit r) u) (save_order r' db)))"
  shows "steps_from db d"
proof -
  obtain us os es where v: "order_view db = (us, os, es)" by (cases "order_view db")
  have r: "tbl_get or_id i os = Some r" using assms(1) v by (simp add: get_order_def order_view_simp)
  have u: "tbl_get emby_tg (or_tg r) us = Some u"
    using assms(5) v by (simp add: users_get_for_update_def order_view_simp)
  have d: "order_view d = (tbl_put emby_tg (set_balance IV (get_balance IV u + order_credit r) u) us,
      tbl_put or_id r' os, es @ [(Some i, ''order_credited'')])"
    using assms(7) v same_order_id [OF r assms(3)]
    by (simp add: order_view_writes del: get_balance.simps set_balance.simps)
  from step_credit [OF r assms(2-4) u assms(6), of es] show ?thesis by (simp add: steps_from_def v d)
qed

lemma view_refund:
  assumes "get_order i db = Some r" and "or_status r = ''credited''" and "same_order r r'" and "or_status r' = ''refunded''"
    and "users_get_for_update (or_tg r) db = Some u" and "order_credit r \<le> get_balance IV u"
    and "order_view d = order_view (billing_entry clk r' ''order_refunded'' c co ds a md
        (users_save (set_balance IV (get_balance IV u - order_credit r) u) (save_order r' db)))"
  shows "steps_from db d"
proof -
  obtain us os es where v: "order_view db = (us, os, es)" by (cases "order_view db")
  have r: "tbl_get or_id i os = Some r" using assms(1) v by (simp add: get_order_def order_view_simp)
  have u: "tbl_get emby_tg (or_tg r) us = Some u"
    using assms(5) v by (simp add: users_get_for_update_def order_view_simp)
  have d: "order_view d = (tbl_put emby_tg (set_balance IV (get_balance IV u - order_credit r) u) us,
      tbl_put or_id r' os, es @ [(Some i, ''order_refunded'')])"
    using assms(7) v same_order_id [OF r assms(3)]
    by (simp add: order_view_writes del: get_balance.simps set_balance.simps)
  from step_refund [OF r assms(2-4) u assms(6), of es] show ?thesis by (simp add: steps_from_def v d)
qed

lemma steps_cancel_order: "steps_from db (snd (cancel_order clk i tg a db))"
  unfolding cancel_order_def Let_def
proof (rule commit_steps, goal_cases)
  case (1 x d)
  show ?case
  proof (cases "get_order i db")
    case None
    then show ?thesis using 1(1) by (simp add: steps_from_view)
  next
    case (Some r)
    then show ?thesis using 1(1)
      by (auto simp: steps_from_view split: if_splits intro!: view_close [OF Some _ same_orders(4)])
  qed
qed

lemma steps_decide_order: "steps_from db (snd (decide_order clk ids i ap pr n a db))"
  unfolding decide_order_def Let_def
proof (rule commit_steps, goal_cases)
  case (1 x d)
  show ?case
  proof (cases "get_order i db")
    case None
    then show ?thesis using 1(1) by (simp add: steps_from_view)
  next
    case (Some r)
    consider "d = db" | "or_status r = ''pending''"
        "finish_decision clk ids (rejected_order clk n r) False a (save_order (rejected_order clk n r) db) = Inr (x, d)"
      | u where "or_status r = ''pending''" "users_get_for_update (or_tg r) db = Some u"
        "get_balance IV u + order_credit r \<le> commerce_max_int"
        "finish_decision clk ids (credited_order clk pr n r) True a
           (move_coins clk (credited_order clk pr n r) u (order_credit (credited_order clk pr n r)) ''recharge'' [] a
             (save_order (credited_order clk pr n r) db)) = Inr (x, d)"
      using 1(1) Some by (simp split: if_splits option.splits del: get_balance.simps)
    then show ?thesis
    proof cases
      case 1
      then show ?thesis by (simp add: steps_from_view)
    next
      case 2
      show ?thesis
        by (rule view_close [OF Some 2(1) same_orders(1,5) finish_decision_view [OF 2(2), simplified]]) simp
    next
      case 3
      show ?thesis
        by (rule view_credit [OF Some 3(1) same_orders(2,6) 3(2,3)
              trans [OF finish_decision_view [OF 3(4), simplified] billing_view_cong]])
           (simp add: move_coins_view same_orders del: get_balance.simps set_balance.simps)
    qed
  qed
qed


lemma finish_refund_view:
  assumes "finish_refund clk ids r c re a db = Inr (x, d)"
  shows "order_view d = order_view db"
proof -
  from assms obtain n d' where "add_notification clk ids (refund_notice r c re) db = Inr (n, d')"
    and "order_view d = order_view d'"
    by (auto simp: finish_refund_def bind_attempt_Inr_iff)
  with order_view_notified show ?thesis by metis
qed

lemma refunded_db_view:
  "order_view (refunded_db clk r u c re a db) =
     order_view (billing_entry clk r ''order_refunded'' 0 0 [] a None
       (users_save (set_balance IV (get_balance IV u - c) u) (save_order r db)))"
  unfolding refunded_db_def
  by (rule billing_view_cong) (simp add: move_coins_view del: get_balance.simps set_balance.simps)

lemma steps_refund_order: "steps_from db (snd (refund_order clk ids i re a db))"
proof (cases "py_len (py_strip re) < 3")
  case True
  then show ?thesis by (simp add: refund_order_def steps_from_view)
next
  case False
  show ?thesis unfolding refund_order_def Let_def if_not_P [OF False]
  proof (rule commit_steps, goal_cases)
    case (1 x d)
    show ?case
    proof (cases "get_order i db")
      case None
      then show ?thesis using 1(1) by (simp add: steps_from_view)
    next
      case (Some r)
      let ?r = "refunded_order clk (py_strip re) r"
      consider "d = db" | u where "or_status r = ''credited''" "users_get_for_update (or_tg r) db = Some u"
          "order_credit r \<le> get_balance IV u"
          "finish_refund clk ids ?r (order_credit r) (py_strip re) a
             (refunded_db clk ?r u (order_credit r) (py_strip re) a db) = Inr (x, d)"
        using 1(1) Some by (simp split: if_splits option.splits del: get_balance.simps)
      then show ?thesis
      proof cases
        case 1
        then show ?thesis by (simp add: steps_from_view)
      next
        case 2
        show ?thesis
          by (rule view_refund [OF Some 2(1) same_orders(3,7) 2(2,3) trans [OF finish_refund_view [OF 2(4)] refunded_db_view]])
      qed
    qed
  qed
qed

lemma steps_after: "steps_from db (commerce_after c db)"
  by (cases c) (simp_all add: steps_create_order steps_decide_order steps_cancel_order steps_refund_order
      steps_from_view other_calls_view ticket_calls_view request_calls_view)

lemma steps_run: "order_step\<^sup>*\<^sup>* (order_view db) (order_view (commerce_run calls db))"
proof (induction calls arbitrary: db)
  case (Cons c calls)
  have "order_step (order_view db) (order_view (commerce_after c db))"
    using steps_after by (simp add: steps_from_def)
  then show ?case using Cons.IH [of "commerce_after c db"]
    by (simp add: commerce_run_def converse_rtranclp_into_rtranclp)
qed (simp add: commerce_run_def)

lemma commerce_run_integrity: "commerce_integrity db \<Longrightarrow> commerce_integrity (commerce_run calls db)"
  unfolding commerce_run_def
  by (induction calls arbitrary: db) (simp_all add: commerce_integrity_after)

text \<open>C25: The commerce services refine the order protocol: whatever calls follow each other, and whatever
  they answer, the users, orders and billing entries go through steps of the protocol only.\<close>

theorem commerce_refines_protocol:
  "order_step\<^sup>*\<^sup>* (order_view db) (order_view (commerce_run calls db)) \<and>
   (commerce_integrity db \<longrightarrow> commerce_integrity (commerce_run calls db))"
  using steps_run commerce_run_integrity by blast

definition commerce_sample :: commerce_db where
  "commerce_sample =
     \<lparr>embys = [sample_user], codes = [], partition_codes = [], partition_grants = empty_table,
      accounts = [sample_account], identities = [], wallets = empty_table, ledger = empty_table,
      idempotency = empty_table, audits = empty_table, points = empty_table,
      events = empty_table, securities = empty_table, tasks = [], jobs = empty_table,
      heartbeats = [], settings = [], revisions = empty_table,
      login_requests = [], sessions = [], roles = empty_table, role_members = empty_table,
      plans = empty_table, memberships = [], tags = empty_table, assignments = empty_table,
      reviews = [], reactions = empty_table, reports = empty_table, notifications = [],
      preferences = empty_table, products = empty_table, orders = [], billing = empty_table,
      tickets = [], messages = empty_table, requests = []\<rparr>"

lemma commerce_sample_ok: "commerce_integrity commerce_sample" "ledger_ok (order_view commerce_sample)"
  by (simp_all add: commerce_sample_def commerce_integrity_def community_integrity_def account_integrity_def
      auth_integrity_def integrity_def sample_user_def sample_account_def new_emby_def order_view_def)

definition sample_product :: product_form where
  "sample_product = \<lparr>pf_product_name = ''Hundred'', pf_product_description = None, pf_amount_cents = 1000,
     pf_coins = 100, pf_bonus_coins = Some 5, pf_product_enabled = None, pf_product_sort_order = None\<rparr>"

definition sample_order_calls :: "commerce_call list" where
  "sample_order_calls =
     [CreateProduct sample_clock sample_product sample_actor,
      CreateOrder sample_clock ''o1'' 7 1 None sample_actor (Some ''k1''),
      DecideOrder sample_clock (''n1'', ''t1'') ''o1'' True None None sample_actor,
      RefundOrder sample_clock (''n2'', ''t2'') ''o1'' ''mistake'' sample_actor]"

lemma commerce_refines_protocol_witness:
  "order_step\<^sup>*\<^sup>* (order_view commerce_sample) (order_view (commerce_run sample_order_calls commerce_sample)) \<and>
   commerce_integrity (commerce_run sample_order_calls commerce_sample)"
  using commerce_refines_protocol [of commerce_sample sample_order_calls] commerce_sample_ok(1) by blast

subsection \<open>Coins and ledger\<close>

definition credited_coins :: "int \<Rightarrow> 'z commerce_db_scheme \<Rightarrow> int" where
  "credited_coins tg db =
     sum_list (map order_credit (filter (\<lambda>r. or_tg r = tg \<and> or_status r = ''credited'') (orders db)))"

lemma sum_credit_of:
  "sum_list (map (credit_of tg) os) = sum_list (map order_credit (filter (\<lambda>r. or_tg r = tg \<and> or_status r = ''credited'') os))"
  by (induction os) (simp_all add: credit_of_def)

lemma uncredited_view: "uncredited tg (order_view db) = balance_of tg ''coins'' db - credited_coins tg db"
  by (simp add: order_view_def credited_coins_def sum_credit_of balance_of_def coins_in_def users_get_for_update_def)

lemma protocol_invariants:
  assumes "order_step\<^sup>*\<^sup>* s t" and "keys_ok s"
  shows "keys_ok t" and "uncredited tg t = uncredited tg s" and "ledger_ok s \<Longrightarrow> ledger_ok t"
proof -
  have "keys_ok t \<and> uncredited tg t = uncredited tg s \<and> (ledger_ok s \<longrightarrow> ledger_ok t)"
    using assms by (induction rule: rtranclp_induct) (auto simp: keys_step uncredited_step ledger_step)
  then show "keys_ok t" "uncredited tg t = uncredited tg s" "ledger_ok s \<Longrightarrow> ledger_ok t" by blast+
qed

lemma keys_view: "commerce_integrity db \<Longrightarrow> keys_ok (order_view db)"
  by (simp add: order_view_def commerce_integrity_def community_integrity_def account_integrity_def
      auth_integrity_def integrity_def)

text \<open>C24: Coins follow the orders. Whatever calls of the commerce services follow each other, the balance of
  every user changes by exactly the coins of the orders that became credited less those of the orders
  that stopped being so: nobody is credited twice, a refund takes back what was credited, and no other
  call moves coins.\<close>

theorem coins_follow_orders:
  assumes "commerce_integrity db"
  shows "balance_of tg ''coins'' (commerce_run calls db) - balance_of tg ''coins'' db =
    credited_coins tg (commerce_run calls db) - credited_coins tg db"
  using protocol_invariants(2) [OF steps_run keys_view [OF assms], of tg calls] by (simp add: uncredited_view)

lemma coins_follow_orders_witness:
  "balance_of 7 ''coins'' (commerce_run sample_order_calls commerce_sample) =
     10 + credited_coins 7 (commerce_run sample_order_calls commerce_sample)"
  using coins_follow_orders [OF commerce_sample_ok(1), of 7 sample_order_calls]
  by (simp add: commerce_sample_def sample_user_def new_emby_def balance_of_def users_get_for_update_def
      credited_coins_def)

lemma credit_entries_view:
  "order_view db = (us, os, es) \<Longrightarrow>
     length (filter ((=) i) (credit_entries db)) = entries_of ''order_credited'' i es"
proof -
  assume "order_view db = (us, os, es)"
  then have es: "es = map (\<lambda>b. (bl_order_id b, bl_entry_type b)) (rows (billing db))" by (simp add: order_view_def)
  show ?thesis unfolding es credit_entries_def entries_of_def
    by (simp add: filter_map o_def) (rule arg_cong [where f = length], rule filter_cong, auto)
qed

lemma credit_entries_mem:
  "i \<in> set (credit_entries db) \<longleftrightarrow> 0 < length (filter ((=) i) (credit_entries db))"
  by (auto simp: filter_empty_conv)

lemma order_ok_credits:
  "order_ok es r \<Longrightarrow> entries_of ''order_credited'' (or_id r) es \<le> 1"
  "order_ok es r \<Longrightarrow> or_status r = ''credited'' \<Longrightarrow> entries_of ''order_credited'' (or_id r) es = 1"
  by (simp_all add: order_ok_def)

lemma ledger_no_missing:
  assumes "ledger_ok (order_view db)"
  shows "missing_credits db = []" and "duplicate_credits db = 0"
proof -
  obtain us os es where v: "order_view db = (us, os, es)" by (cases "order_view db")
  note count = credit_entries_view [OF v]
  have ok: "\<forall>r \<in> set os. order_ok es r" and sub: "fst ` set es \<subseteq> Some ` or_id ` set os"
    using assms unfolding v ledger_ok_alt by blast+
  have os: "os = orders db" using v by (simp add: order_view_simp)
  have "i \<in> set (credit_entries db)" if "i \<in> set (credited_ids db)" for i
  proof -
    from that obtain r where r: "r \<in> set os" "or_id r = i" "or_status r = ''credited''"
      by (auto simp: credited_ids_def os)
    then have "entries_of ''order_credited'' i es = 1" using ok order_ok_credits(2) by blast
    then have "0 < entries_of ''order_credited'' i es" by simp
    then show ?thesis unfolding credit_entries_mem count .
  qed
  then have "filter (\<lambda>i. i \<notin> set (credit_entries db)) (credited_ids db) = []" by (simp add: filter_empty_conv)
  then show "missing_credits db = []" by (simp add: missing_credits_def)
  have "\<not> 1 < entries_of ''order_credited'' i es" if i: "i \<in> set (credit_entries db)" for i
  proof -
    have "0 < entries_of ''order_credited'' i es" using i unfolding credit_entries_mem count .
    then have "filter (\<lambda>e. e = (Some i, ''order_credited'')) es \<noteq> []" unfolding entries_of_def by simp
    then have mem: "(Some i, ''order_credited'') \<in> set es" unfolding filter_empty_conv by simp
    have "Some i \<in> Some ` or_id ` set os" using subsetD [OF sub imageI [OF mem, of fst]] by simp
    then obtain r where "r \<in> set os" "or_id r = i" by blast
    then show ?thesis using ok order_ok_credits(1) by (meson not_le)
  qed
  then have "filter (\<lambda>i. 1 < length (filter ((=) i) (credit_entries db))) (remdups (credit_entries db)) = []"
    unfolding count filter_empty_conv by simp
  then show "duplicate_credits db = 0" by (simp add: duplicate_credits_def)
qed

text \<open>C26: The ledger always reconciles. From a database whose billing entries explain its orders, no sequence
  of calls makes the reconciliation report a credited order without an entry or an order with two credit
  entries: it is healthy exactly when no pending order has gone stale.\<close>

theorem ledger_reconciles:
  assumes "commerce_integrity db" and "ledger_ok (order_view db)"
  shows "case fst (reconciliation_summary clk (commerce_run calls db)) of
      Inl _ \<Rightarrow> False
    | Inr v \<Rightarrow>
        map_of v ''status'' =
          Some (JStr (if stale_pending clk (commerce_run calls db) = 0 then ''healthy'' else ''attention'')) \<and>
        map_of v ''credited_without_ledger'' = Some (JInt 0) \<and> map_of v ''duplicate_credit_entries'' = Some (JInt 0)"
proof -
  note ok = ledger_no_missing [OF protocol_invariants(3) [OF steps_run keys_view [OF assms(1)] assms(2)]]
  show ?thesis
    using commerce_run_integrity [OF assms(1), of calls]
    by (simp add: reconciliation_summary_def commit_with_def Let_def ok)
qed

lemma ledger_reconciles_witness:
  "(case fst (reconciliation_summary sample_clock (commerce_run sample_order_calls commerce_sample)) of
      Inl _ \<Rightarrow> False | Inr v \<Rightarrow> map_of v ''duplicate_credit_entries'' = Some (JInt 0))"
  using ledger_reconciles [OF commerce_sample_ok, of sample_clock sample_order_calls]
  by (simp split: sum.splits)

end
