(* ===== verification/Request_Properties.thy ===== *)
theory Request_Properties
  imports Commerce_Properties
begin

section \<open>Properties of media requests and tickets\<close>

text \<open>
  The states of a media request under every sequence of calls, what its download can do to it, and who
  reads the messages of a ticket.
\<close>

subsection \<open>Which calls touch the requests\<close>

lemma requests_frame [simp]:
  "requests (audit clk ac an rt rid oc dt rq db) = requests db"
  "requests (event clk et rt rid p db) = requests db"
  "requests (user_event clk et tg rt i ex db) = requests db"
  "requests (save_idempotent_result clk sc key v db) = requests db"
  "requests (order_event clk r db) = requests db"
  "requests (request_event clk rr ex db) = requests db"
  "requests (add_product mk db) = requests db"
  "requests (save_product pp db) = requests db"
  "requests (add_ticket t db) = requests db"
  "requests (save_ticket t db) = requests db"
  "requests (add_ticket_message mm db) = requests db"
  "requests (billing_entry clk r k c co ds ac md db) = requests db"
  "requests (save_order r db) = requests db"
  "requests (add_order r db) = requests db"
  "requests (users_save u db) = requests db"
  by (simp_all add: audit_def event_def user_event_def save_idempotent_result_def order_event_def
      request_event_def add_product_def save_product_def add_ticket_def save_ticket_def add_ticket_message_def
      billing_entry_def add_billing_entry_def save_order_def add_order_def users_save_def)

lemma requests_point_transaction [simp]:
  "requests (point_transaction clk tg bt am bal re ac key md db) = requests db"
  by (simp add: point_transaction_def Let_def accounts_add_ledger_def accounts_add_wallet_def
      accounts_save_wallet_def split: option.split)

lemma requests_notified:
  "add_notification clk ids n db = Inr (r, db') \<Longrightarrow> requests db' = requests db"
  using add_notification_adds [of clk ids n db r db'] by auto

lemma requests_moved [simp]: "requests (move_coins clk r u am k ex a db) = requests db"
  by (simp add: move_coins_def Let_def)

lemma requests_finished:
  "finish_decision clk ids r ap a db = Inr (x, d) \<Longrightarrow> requests d = requests db"
  "finish_refund clk ids r c re a db = Inr (x, d) \<Longrightarrow> requests d = requests db"
  by (auto simp: finish_decision_def finish_refund_def Let_def bind_attempt_Inr_iff requests_notified)

definition same_requests :: "'z commerce_db_scheme \<Rightarrow> 'z commerce_db_scheme \<Rightarrow> bool" where
  "same_requests db d = (requests d = requests db)"

lemma commit_same_requests:
  assumes "\<And>x d. body db = Inr (x, d) \<Longrightarrow> requests d = requests db"
  shows "same_requests db (snd (commerce_uow body db))"
proof (rule commit_with_snd [where P = "same_requests db"])
  show "same_requests db db" by (simp add: same_requests_def)
qed (simp add: assms same_requests_def)

lemma order_calls_requests:
  "same_requests db (snd (list_products e db))"
  "same_requests db (snd (create_product clk f a db))"
  "same_requests db (snd (update_product clk n pt a db))"
  "same_requests db (snd (create_order clk i tg n un a k db))"
  "same_requests db (snd (list_orders tgo st s lim off db))"
  "same_requests db (snd (cancel_order clk i tg a db))"
  "same_requests db (snd (reconciliation_summary clk db))"
  "same_requests db (snd (billing_ledger tgo et lim off db))"
  unfolding list_products_def create_product_def update_product_def create_order_def list_orders_def
    cancel_order_def reconciliation_summary_def billing_ledger_def Let_def
  by (rule commit_same_requests, auto simp: bind_attempt_Inr_iff split: option.splits if_splits prod.splits)+

lemma decision_calls_requests:
  "same_requests db (snd (decide_order clk ids i ap pr n a db))"
  "same_requests db (snd (refund_order clk ids i re a db))"
proof -
  show "same_requests db (snd (decide_order clk ids i ap pr n a db))" unfolding decide_order_def Let_def
    by (rule commit_same_requests)
       (auto simp del: get_balance.simps split: option.splits if_splits dest!: requests_finished)
  show "same_requests db (snd (refund_order clk ids i re a db))"
  proof (cases "py_len (py_strip re) < 3")
    case True
    then show ?thesis by (simp add: refund_order_def same_requests_def)
  next
    case False
    show ?thesis unfolding refund_order_def Let_def if_not_P [OF False]
      by (rule commit_same_requests)
         (auto simp del: get_balance.simps simp: refunded_db_def split: option.splits if_splits dest!: requests_finished)
  qed
qed

lemma ticket_calls_requests:
  "same_requests db (snd (ticket_create clk i n s c p b a db))"
  "same_requests db (snd (ticket_list tg st asg srch lim off db))"
  "same_requests db (snd (ticket_detail i tg inc db))"
  "same_requests db (snd (ticket_reply clk ids i b a tg hid db))"
  "same_requests db (snd (ticket_update clk i st pr asg given a db))"
  unfolding ticket_create_def ticket_list_def ticket_detail_def ticket_reply_def ticket_update_def Let_def
  by (rule commit_same_requests,
      auto simp: bind_attempt_Inr_iff requests_notified split: option.splits if_splits)+

lemma read_calls_requests:
  "same_requests db (snd (request_get i tg db))"
  "same_requests db (snd (request_list tg st s lim off db))"
  "same_requests db (snd (transfer_candidates lim db))"
  unfolding request_get_def request_list_def transfer_candidates_def
  by (rule commit_same_requests, auto simp: bind_attempt_Inr_iff)+

subsection \<open>The states of a request\<close>

definition request_statuses :: "string list" where
  "request_statuses =
     [''submitted'', ''reviewing'', ''approved'', ''searching'', ''downloading'', ''completed'', ''rejected'', ''canceled'']"

definition request_ok :: "request_row \<Rightarrow> bool" where
  "request_ok r =
     (rq_status r \<in> set request_statuses \<and> 0 \<le> rq_progress r \<and> rq_progress r \<le> 100 \<and>
      (rq_status r = ''completed'' \<longrightarrow> rq_progress r = 100 \<and> rq_completed_at r \<noteq> None) \<and>
      (rq_status r = ''canceled'' \<longrightarrow> rq_canceled_at r \<noteq> None))"

fun valid_call :: "commerce_call \<Rightarrow> bool" where
  \<comment> \<open>what the web API checks of an update before it calls the service\<close>
  "valid_call (RequestUpdate clk ids i pt a) =
     ((case ru_status pt of Some (Some s) \<Rightarrow> s \<in> set request_statuses | _ \<Rightarrow> True) \<and>
      (case ru_progress pt of Some (Some n) \<Rightarrow> 0 \<le> n \<and> n \<le> 100 | _ \<Rightarrow> True))"
| "valid_call _ = True"

lemma requests_writes [simp]:
  "requests (save_media_request r db) = tbl_put rq_id r (requests db)"
  "requests (add_media_request r db) = requests db @ [r]"
  by (simp_all add: save_media_request_def add_media_request_def)

lemma patch_request_ok:
  assumes "request_ok r" and "valid_call (RequestUpdate clk0 ids i pt a0)"
  shows "request_ok (patch_request clk pt a r)"
proof -
  have s: "set_field (ru_status pt) (rq_status r) \<in> set request_statuses"
    and p: "0 \<le> set_field (ru_progress pt) (rq_progress r) \<and> set_field (ru_progress pt) (rq_progress r) \<le> 100"
    using assms by (auto simp: set_field_def request_ok_def split: option.splits)
  have "''completed'' \<in> set request_statuses" by (simp add: request_statuses_def)
  with s p show ?thesis
    by (simp add: patch_request_def Let_def request_ok_def split: option.split)
qed

lemma synced_status_ok: "request_ok r \<Longrightarrow> request_ok (synced_status clk st tr r)"
  by (simp add: synced_status_def request_ok_def request_statuses_def split: option.split)

lemma synced_progress_ok: "request_ok r \<Longrightarrow> synced_progress p r = Inr r' \<Longrightarrow> request_ok r'"
  by (auto simp: synced_progress_def request_ok_def bind_attempt_Inr_iff split: option.splits if_splits)

lemma get_request_mem: "get_media_request i tg db = Some r \<Longrightarrow> r \<in> set (requests db)"
  "media_request_by_download_id d db = Some r \<Longrightarrow> r \<in> set (requests db)"
  by (auto simp: get_media_request_def media_request_by_download_id_def find_Some_iff)

definition requests_ok :: "'z commerce_db_scheme \<Rightarrow> bool" where
  "requests_ok db = list_all request_ok (requests db)"

lemma requests_ok_mem: "requests_ok db \<Longrightarrow> r \<in> set (requests db) \<Longrightarrow> request_ok r"
  by (simp add: requests_ok_def list_all_iff)

lemma requests_ok_put:
  assumes "requests_ok db" and "request_ok r" and "requests d = tbl_put rq_id r (requests db)"
  shows "requests_ok d"
  using assms set_tbl_put [of rq_id r "requests db"] by (auto simp: requests_ok_def list_all_iff)

lemma requests_ok_same: "requests_ok db \<Longrightarrow> same_requests db d \<Longrightarrow> requests_ok d"
  by (simp add: requests_ok_def same_requests_def)

lemma new_request_ok:
  "rq_status r \<in> {''submitted'', ''approved''} \<Longrightarrow> rq_progress r = 0 \<Longrightarrow> request_ok r"
  by (auto simp: request_ok_def request_statuses_def)

lemma canceled_request_ok:
  "request_ok r \<Longrightarrow> request_ok (r\<lparr>rq_status := ''canceled'', rq_canceled_at := Some t, rq_updated_at := u\<rparr>)"
  by (simp add: request_ok_def request_statuses_def)

lemma touched_request_ok [simp]: "request_ok (r\<lparr>rq_updated_at := u\<rparr>) = request_ok r"
  by (simp add: request_ok_def)

lemma requests_ok_add: "requests_ok db \<Longrightarrow> request_ok r \<Longrightarrow> requests d = requests db @ [r] \<Longrightarrow> requests_ok d"
  by (simp add: requests_ok_def)

lemma requests_ok_create:
  assumes "requests_ok db"
  shows "requests_ok (snd (request_create clk i n t y mt ds er a db))"
  unfolding request_create_def Let_def insert_request_def
  by (rule commit_with_snd [where P = requests_ok, OF assms])
     (auto intro!: requests_ok_add [OF assms] new_request_ok)

lemma requests_ok_import:
  assumes "requests_ok db"
  shows "requests_ok (snd (import_download clk i n d t ds c a db))"
  unfolding import_download_def Let_def insert_request_def
  by (rule commit_with_snd [where P = requests_ok, OF assms])
     (use assms in \<open>auto intro!: requests_ok_add [OF assms] new_request_ok split: option.splits\<close>)

lemma requests_ok_cancel:
  assumes "requests_ok db"
  shows "requests_ok (snd (request_cancel clk i n a db))"
  unfolding request_cancel_def Let_def
proof (rule commit_with_snd [where P = requests_ok, OF assms], goal_cases)
  case (1 x d)
  show ?case
  proof (cases "get_media_request i (Some n) db")
    case None
    then show ?thesis using 1(1) assms by simp
  next
    case (Some r)
    have "request_ok r" using requests_ok_mem [OF assms get_request_mem(1) [OF Some]] .
    then show ?thesis using 1(1) Some
      by (auto split: if_splits intro!: canceled_request_ok requests_ok_put [OF assms, of
            "r\<lparr>rq_status := ''canceled'', rq_canceled_at := Some (now_utc clk), rq_updated_at := now_utc clk\<rparr>"])
  qed
qed

lemma requests_ok_update:
  assumes "requests_ok db" and "valid_call (RequestUpdate clk ids i pt a)"
  shows "requests_ok (snd (request_update clk ids i pt a db))"
  unfolding request_update_def Let_def
proof (rule commit_with_snd [where P = requests_ok, OF assms(1)], goal_cases)
  case (1 x d)
  show ?case
  proof (cases "get_media_request i None db")
    case None
    then show ?thesis using 1(1) assms(1) by simp
  next
    case (Some r)
    have "request_ok (patch_request clk pt a r)"
      using patch_request_ok [OF requests_ok_mem [OF assms(1) get_request_mem(1) [OF Some]] assms(2)] .
    then show ?thesis using 1(1) Some
      by (auto simp: bind_attempt_Inr_iff requests_notified split: if_splits
          intro!: requests_ok_put [OF assms(1), of "patch_request clk pt a r"])
  qed
qed

lemma requests_ok_sync:
  assumes "requests_ok db"
  shows "requests_ok (snd (sync_download clk ids d st tr p db))"
  unfolding sync_download_def Let_def
proof (rule commit_with_snd [where P = requests_ok, OF assms], goal_cases)
  case (1 x e)
  show ?case
  proof (cases "media_request_by_download_id d db")
    case None
    then show ?thesis using 1(1) assms by simp
  next
    case (Some r)
    then obtain r' where r': "synced_progress p (synced_status clk st tr r) = Inr r'"
      using 1(1) by (auto simp: bind_attempt_Inr_iff)
    have "request_ok r'"
      using synced_progress_ok [OF synced_status_ok [OF requests_ok_mem [OF assms get_request_mem(2) [OF Some]]] r'] .
    then show ?thesis using 1(1) Some r' assms
      by (auto simp: bind_attempt_Inr_iff requests_notified split: if_splits
          intro!: requests_ok_put [OF assms, of "r'\<lparr>rq_updated_at := now_utc clk\<rparr>"])
  qed
qed

lemma requests_ok_after:
  assumes "requests_ok db" and "valid_call c"
  shows "requests_ok (commerce_after c db)"
proof (cases c)
  case (RequestUpdate clk ids i pt a)
  then show ?thesis using requests_ok_update [OF assms(1)] assms(2) by simp
qed (simp_all add: requests_ok_create requests_ok_import requests_ok_cancel requests_ok_sync assms(1)
       requests_ok_same [OF assms(1) order_calls_requests(1)] requests_ok_same [OF assms(1) order_calls_requests(2)]
       requests_ok_same [OF assms(1) order_calls_requests(3)] requests_ok_same [OF assms(1) order_calls_requests(4)]
       requests_ok_same [OF assms(1) order_calls_requests(5)] requests_ok_same [OF assms(1) order_calls_requests(6)]
       requests_ok_same [OF assms(1) order_calls_requests(7)] requests_ok_same [OF assms(1) order_calls_requests(8)]
       requests_ok_same [OF assms(1) decision_calls_requests(1)] requests_ok_same [OF assms(1) decision_calls_requests(2)]
       requests_ok_same [OF assms(1) ticket_calls_requests(1)] requests_ok_same [OF assms(1) ticket_calls_requests(2)]
       requests_ok_same [OF assms(1) ticket_calls_requests(3)] requests_ok_same [OF assms(1) ticket_calls_requests(4)]
       requests_ok_same [OF assms(1) ticket_calls_requests(5)] requests_ok_same [OF assms(1) read_calls_requests(1)]
       requests_ok_same [OF assms(1) read_calls_requests(2)] requests_ok_same [OF assms(1) read_calls_requests(3)])

text \<open>C27: Media requests stay well formed. As long as administrators only set the states and percentages the
  web API lets through, every request keeps a known state and a progress from 0 to 100 whatever the
  download client reports, a completed request is at 100 with its completion time, and a canceled one
  has its cancellation time.\<close>

theorem requests_stay_well_formed:
  assumes "requests_ok db" and "list_all valid_call calls"
  shows "requests_ok (commerce_run calls db)"
  unfolding commerce_run_def using assms
  by (induction calls arbitrary: db) (simp_all add: requests_ok_after)

lemma requests_stay_well_formed_witness:
  "requests_ok (commerce_run [ImportDownload sample_clock ''q1'' 7 ''d1'' ''Film'' None 3 sample_actor,
     SyncDownload sample_clock (''n1'', ''t1'') ''d1'' (Some ''downloading'') TNone (Some (Dyadic 1001 (- 3))),
     SyncDownload sample_clock (''n2'', ''t2'') ''d1'' None (TBool True) None] commerce_sample)"
  by (rule requests_stay_well_formed) (simp_all add: requests_ok_def commerce_sample_def)

text \<open>A download that goes on after its request was canceled brings the request back, with the
  cancellation time still set.\<close>

lemma sync_revives_canceled:
  assumes "rq_status r = ''canceled''"
  shows "rq_status (synced_status clk (Some ''downloading'') TNone r) = ''downloading'' \<and>
    rq_canceled_at (synced_status clk (Some ''downloading'') TNone r) = rq_canceled_at r"
  by (simp add: synced_status_def transfer_text_def)

subsection \<open>Who reads a ticket\<close>

lemma get_ticket_own: "get_ticket i (Some tg) db = Some r \<Longrightarrow> tk_id r = i \<and> tk_tg r = tg"
  by (auto simp: get_ticket_def find_Some_iff opt_eq_def)

lemma ticket_messages_mem:
  "m \<in> set (ticket_messages i inc db) \<longleftrightarrow>
     m \<in> set (rows (messages db)) \<and> ms_ticket_id m = i \<and> (inc \<or> \<not> ms_internal m)"
  by (auto simp: ticket_messages_def)

text \<open>C28: Internal notes stay with the staff. What a user sees of a ticket is his own ticket with exactly its
  messages that are not internal, and a reply of a user is never internal and is found among them.\<close>

theorem ticket_privacy:
  "(case fst (ticket_detail i (Some tg) False db) of
      Inl _ \<Rightarrow> True
    | Inr None \<Rightarrow> get_ticket i (Some tg) db = None
    | Inr (Some v) \<Rightarrow> \<exists>r ms. get_ticket i (Some tg) db = Some r \<and> tk_tg r = tg \<and>
        v = serialize_ticket r @ [(''messages'', JList (map (JDict \<circ> serialize_message) ms))] \<and>
        set ms = {m \<in> set (rows (messages db)). ms_ticket_id m = i \<and> \<not> ms_internal m}) \<and>
   (case ticket_reply clk ids i body a (Some tg) hid db of
      (Inr (Some v), d) \<Rightarrow> \<exists>m. rows (messages d) = rows (messages db) @ [m] \<and> ms_ticket_id m = i \<and>
         \<not> ms_internal m \<and> ms_sender_kind m = ''user''
    | (_, d) \<Rightarrow> d = db)"
proof -
  have "case fst (ticket_detail i (Some tg) False db) of
      Inl _ \<Rightarrow> True
    | Inr None \<Rightarrow> get_ticket i (Some tg) db = None
    | Inr (Some v) \<Rightarrow> \<exists>r ms. get_ticket i (Some tg) db = Some r \<and> tk_tg r = tg \<and>
        v = serialize_ticket r @ [(''messages'', JList (map (JDict \<circ> serialize_message) ms))] \<and>
        set ms = {m \<in> set (rows (messages db)). ms_ticket_id m = i \<and> \<not> ms_internal m}"
  proof (cases "get_ticket i (Some tg) db")
    case None
    then show ?thesis by (simp add: ticket_detail_def commit_with_def)
  next
    case (Some r)
    then show ?thesis
      using get_ticket_own [OF Some]
      by (auto simp: ticket_detail_def commit_with_def ticket_messages_mem
          intro!: exI [of _ "ticket_messages i False db"])
  qed
  moreover have "case ticket_reply clk ids i body a (Some tg) hid db of
      (Inr (Some v), d) \<Rightarrow> \<exists>m. rows (messages d) = rows (messages db) @ [m] \<and> ms_ticket_id m = i \<and>
         \<not> ms_internal m \<and> ms_sender_kind m = ''user''
    | (_, d) \<Rightarrow> d = db"
    by (auto simp: ticket_reply_def commit_with_def Let_def ticket_message_def add_ticket_message_def save_ticket_def
        user_event_def event_def audit_def split: option.split sum.split)
  ultimately show ?thesis by blast
qed

end
