(* ===== verification/Setting_Definitions.thy ===== *)
theory Setting_Definitions
  imports Json
begin

section \<open>The registry of dynamic settings\<close>

text \<open>
  \<open>SettingDefinition\<close> and \<open>SETTING_DEFINITIONS\<close> of \<open>bot/application/governance_service.py\<close>: the key, the
  texts, the type and default of every setting, the attribute of the running process it is kept in (a
  path below the module \<open>bot\<close>, empty for settings that only live in the database), bounds and options.
\<close>

record setting_definition =
  sd_key :: string
  sd_group :: string
  sd_label :: string
  sd_description :: string
  sd_value_type :: string
  sd_default :: jval
  sd_runtime_path :: "string list"
  sd_minimum :: "int option"
  sd_maximum :: "int option"
  sd_options :: "string list"
  sd_restart_required :: bool

definition setting ::
  "string \<Rightarrow> string \<Rightarrow> string \<Rightarrow> string \<Rightarrow> string \<Rightarrow> jval \<Rightarrow> string list \<Rightarrow> setting_definition" where
  \<comment> \<open>the defaults of the class: no bounds, no options, no restart\<close>
  "setting key grp label description value_type initial path =
     \<lparr>sd_key = key, sd_group = grp, sd_label = label, sd_description = description,
      sd_value_type = value_type, sd_default = initial, sd_runtime_path = path, sd_minimum = None,
      sd_maximum = None, sd_options = [], sd_restart_required = False\<rparr>"

definition between :: "int \<Rightarrow> int \<Rightarrow> setting_definition \<Rightarrow> setting_definition" where
  "between minimum maximum d = d\<lparr>sd_minimum := Some minimum, sd_maximum := Some maximum\<rparr>"

definition choice :: "string list \<Rightarrow> setting_definition \<Rightarrow> setting_definition" where
  "choice options d = d\<lparr>sd_options := options\<rparr>"

definition after_restart :: "setting_definition \<Rightarrow> setting_definition" where
  "after_restart d = d\<lparr>sd_restart_required := True\<rparr>"

lemmas setting_builders = setting_def between_def choice_def after_restart_def

lemma setting_fields:
  "sd_key (setting k g l s vt v p) = k"
  "sd_group (setting k g l s vt v p) = g"
  "sd_label (setting k g l s vt v p) = l"
  "sd_description (setting k g l s vt v p) = s"
  "sd_value_type (setting k g l s vt v p) = vt"
  "sd_default (setting k g l s vt v p) = v"
  "sd_runtime_path (setting k g l s vt v p) = p"
  "sd_minimum (setting k g l s vt v p) = None"
  "sd_maximum (setting k g l s vt v p) = None"
  "sd_options (setting k g l s vt v p) = []"
  "sd_restart_required (setting k g l s vt v p) = False"
  "sd_key (between lo hi d) = sd_key d"
  "sd_group (between lo hi d) = sd_group d"
  "sd_label (between lo hi d) = sd_label d"
  "sd_description (between lo hi d) = sd_description d"
  "sd_value_type (between lo hi d) = sd_value_type d"
  "sd_default (between lo hi d) = sd_default d"
  "sd_runtime_path (between lo hi d) = sd_runtime_path d"
  "sd_minimum (between lo hi d) = Some lo"
  "sd_maximum (between lo hi d) = Some hi"
  "sd_options (between lo hi d) = sd_options d"
  "sd_restart_required (between lo hi d) = sd_restart_required d"
  "sd_key (choice os d) = sd_key d"
  "sd_group (choice os d) = sd_group d"
  "sd_label (choice os d) = sd_label d"
  "sd_description (choice os d) = sd_description d"
  "sd_value_type (choice os d) = sd_value_type d"
  "sd_default (choice os d) = sd_default d"
  "sd_runtime_path (choice os d) = sd_runtime_path d"
  "sd_minimum (choice os d) = sd_minimum d"
  "sd_maximum (choice os d) = sd_maximum d"
  "sd_options (choice os d) = os"
  "sd_restart_required (choice os d) = sd_restart_required d"
  "sd_key (after_restart d) = sd_key d"
  "sd_group (after_restart d) = sd_group d"
  "sd_label (after_restart d) = sd_label d"
  "sd_description (after_restart d) = sd_description d"
  "sd_value_type (after_restart d) = sd_value_type d"
  "sd_default (after_restart d) = sd_default d"
  "sd_runtime_path (after_restart d) = sd_runtime_path d"
  "sd_minimum (after_restart d) = sd_minimum d"
  "sd_maximum (after_restart d) = sd_maximum d"
  "sd_options (after_restart d) = sd_options d"
  "sd_restart_required (after_restart d) = True"
  by (simp_all add: setting_builders)

subsection \<open>The definitions\<close>

definition site_group :: string where "site_group = text_of [0x7AD9, 0x70B9, 0x4E0E, 0x54C1, 0x724C]"
definition registration_group :: string where "registration_group = text_of [0x6CE8, 0x518C, 0x4E0E, 0x5BB9, 0x91CF]"
definition economy_group :: string where "economy_group = text_of [0x79EF, 0x5206, 0x4E0E, 0x6743, 0x76CA]"
definition lifecycle_group :: string where "lifecycle_group = text_of [0x8D26, 0x53F7, 0x751F, 0x547D, 0x5468, 0x671F]"
definition playback_group :: string where "playback_group = text_of [0x64AD, 0x653E, 0x7B56, 0x7565]"
definition media_group :: string where "media_group = text_of [0x5F71, 0x7247, 0x4E0E, 0x6C42, 0x7247]"
definition notification_group :: string where "notification_group = text_of [0x901A, 0x77E5, 0x4E0E, 0x6D88, 0x606F]"
definition scheduler_group :: string where "scheduler_group = text_of [0x5B9A, 0x65F6, 0x4EFB, 0x52A1]"
definition retention_group :: string where "retention_group = text_of [0x6570, 0x636E, 0x4FDD, 0x7559]"
definition web_group :: string where "web_group = text_of [0x57, 0x65, 0x62, 0x20, 0x4E0E, 0x20, 0x41, 0x50, 0x49]"
definition integration_group :: string where "integration_group = text_of [0x5916, 0x90E8, 0x96C6, 0x6210]"

definition SETTING_DEFINITIONS :: "setting_definition list" where
  "SETTING_DEFINITIONS =
    [setting ''site.name'' site_group
       (text_of [0x7AD9, 0x70B9, 0x540D, 0x79F0])
       (text_of [0x57, 0x65, 0x62, 0x3001, 0x901A, 0x77E5, 0x548C, 0x9875, 0x9762, 0x6807, 0x9898,
     0x4F7F, 0x7528, 0x7684, 0x7AD9, 0x70B9, 0x540D, 0x79F0, 0x3002])
       ''string'' (JStr (''Sakura'')) [],
     setting ''site.logo'' site_group
       (text_of [0x7AD9, 0x70B9, 0x6807, 0x8BC6])
       (text_of [0x9080, 0x8BF7, 0x7801, 0x524D, 0x7F00, 0x548C, 0x9875, 0x9762, 0x54C1, 0x724C,
     0x77ED, 0x540D, 0x79F0, 0x3002])
       ''string'' (JStr (''SAKURA'')) [''ranks'', ''logo''],
     setting ''site.currency_name'' site_group
       (text_of [0x79EF, 0x5206, 0x540D, 0x79F0])
       (text_of [0x7528, 0x6237, 0x754C, 0x9762, 0x663E, 0x793A, 0x7684, 0x79EF, 0x5206, 0x5355,
     0x4F4D, 0x540D, 0x79F0, 0x3002])
       ''string'' (JStr (text_of [0x79EF, 0x5206])) [''sakura_b''],
     setting ''site.announcement'' site_group
       (text_of [0x5168, 0x7AD9, 0x516C, 0x544A])
       (text_of [0x7528, 0x6237, 0x4E2D, 0x5FC3, 0x9996, 0x9875, 0x663E, 0x793A, 0x7684, 0x516C,
     0x544A, 0xFF0C, 0x7559, 0x7A7A, 0x8868, 0x793A, 0x9690, 0x85CF, 0x3002])
       ''string'' (JStr ('''')) [],
     setting ''registration.enabled'' registration_group
       (text_of [0x5F00, 0x653E, 0x6CE8, 0x518C])
       (text_of [0x63A7, 0x5236, 0x7528, 0x6237, 0x662F, 0x5426, 0x53EF, 0x4EE5, 0x521B, 0x5EFA,
     0x65B0, 0x7684, 0x20, 0x45, 0x6D, 0x62, 0x79, 0x20, 0x8D26, 0x53F7, 0x3002])
       ''boolean'' (JBool False) [''_open'', ''stat''],
     setting ''registration.local_account_enabled'' registration_group
       (text_of [0x5F00, 0x653E, 0x20, 0x57, 0x65, 0x62, 0x20, 0x672C, 0x5730, 0x8D26, 0x53F7])
       (text_of [0x5141, 0x8BB8, 0x7528, 0x6237, 0x4E0D, 0x4F9D, 0x8D56, 0x20, 0x54, 0x65, 0x6C, 0x65,
     0x67, 0x72, 0x61, 0x6D, 0x20, 0x521B, 0x5EFA, 0x20, 0x53, 0x61, 0x6B, 0x75, 0x72, 0x61,
     0x20, 0x767B, 0x5F55, 0x8D26, 0x53F7, 0x3002])
       ''boolean'' (JBool True) [],
     between 1 100 (setting ''registration.local_account_hourly_limit'' registration_group
       (text_of [0x5355, 0x20, 0x49, 0x50, 0x20, 0x6BCF, 0x5C0F, 0x65F6, 0x521B, 0x5EFA, 0x4E0A, 0x9650])
       (text_of [0x9650, 0x5236, 0x540C, 0x4E00, 0x6765, 0x6E90, 0x6BCF, 0x5C0F, 0x65F6, 0x521B,
     0x5EFA, 0x20, 0x57, 0x65, 0x62, 0x20, 0x767B, 0x5F55, 0x8D26, 0x53F7, 0x7684, 0x6570,
     0x91CF, 0x3002])
       ''integer'' (JInt 5) []),
     between 1 3650 (setting ''registration.open_days'' registration_group
       (text_of [0x5F00, 0x653E, 0x6CE8, 0x518C, 0x6709, 0x6548, 0x5929, 0x6570])
       (text_of [0x5F00, 0x653E, 0x6CE8, 0x518C, 0x65F6, 0x521B, 0x5EFA, 0x7684, 0x20, 0x45, 0x6D,
     0x62, 0x79, 0x20, 0x8D26, 0x53F7, 0x9ED8, 0x8BA4, 0x6709, 0x6548, 0x5929, 0x6570, 0x3002])
       ''integer'' (JInt 30) [''_open'', ''open_us'']),
     setting ''registration.invite_required'' registration_group
       (text_of [0x5F00, 0x653E, 0x6CE8, 0x518C, 0x4E5F, 0x8981, 0x6C42, 0x9080, 0x8BF7, 0x7801])
       (text_of [0x542F, 0x7528, 0x540E, 0x5373, 0x4F7F, 0x6CE8, 0x518C, 0x603B, 0x5F00, 0x5173,
     0x5F00, 0x653E, 0xFF0C, 0x7528, 0x6237, 0x4ECD, 0x9700, 0x4F7F, 0x7528, 0x6709, 0x6548,
     0x9080, 0x8BF7, 0x7801, 0x3002])
       ''boolean'' (JBool False) [],
     between 1 3650 (setting ''registration.invite_expiry_days'' registration_group
       (text_of [0x9080, 0x8BF7, 0x7801, 0x9ED8, 0x8BA4, 0x8FC7, 0x671F, 0x5929, 0x6570])
       (text_of [0x7BA1, 0x7406, 0x5458, 0x751F, 0x6210, 0x9080, 0x8BF7, 0x7801, 0x65F6, 0x9ED8,
     0x8BA4, 0x7684, 0x81EA, 0x8EAB, 0x6709, 0x6548, 0x671F, 0x3002])
       ''integer'' (JInt 30) []),
     between 1 500 (setting ''registration.batch_limit'' registration_group
       (text_of [0x9080, 0x8BF7, 0x7801, 0x5355, 0x6B21, 0x751F, 0x6210, 0x4E0A, 0x9650])
       (text_of [0x7BA1, 0x7406, 0x5458, 0x5355, 0x6B21, 0x5141, 0x8BB8, 0x751F, 0x6210, 0x7684,
     0x9080, 0x8BF7, 0x7801, 0x6570, 0x91CF, 0x3002])
       ''integer'' (JInt 100) []),
     between 1 100000 (setting ''registration.user_limit'' registration_group
       (text_of [0x8D26, 0x53F7, 0x5BB9, 0x91CF, 0x4E0A, 0x9650])
       (text_of [0x8FBE, 0x5230, 0x4E0A, 0x9650, 0x540E, 0x505C, 0x6B62, 0x63A5, 0x53D7, 0x65B0,
     0x7684, 0x6CE8, 0x518C, 0x4EFB, 0x52A1, 0x3002])
       ''integer'' (JInt 1000) [''_open'', ''all_user'']),
     after_restart (between 1 50 (setting ''registration.worker_count'' registration_group
       (text_of [0x6CE8, 0x518C, 0x5E76, 0x53D1, 0x6570])
       (text_of [0x540C, 0x65F6, 0x5904, 0x7406, 0x6CE8, 0x518C, 0x4EFB, 0x52A1, 0x7684, 0x20, 0x57,
     0x6F, 0x72, 0x6B, 0x65, 0x72, 0x20, 0x6570, 0x91CF, 0x3002])
       ''integer'' (JInt 5) [''_open'', ''register_worker_count''])),
     between 1 10000 (setting ''registration.queue_limit'' registration_group
       (text_of [0x6CE8, 0x518C, 0x961F, 0x5217, 0x957F, 0x5EA6])
       (text_of [0x5141, 0x8BB8, 0x7B49, 0x5F85, 0x5904, 0x7406, 0x7684, 0x6CE8, 0x518C, 0x4EFB,
     0x52A1, 0x6570, 0x91CF, 0x3002])
       ''integer'' (JInt 100) [''_open'', ''register_queue_limit'']),
     setting ''economy.checkin_enabled'' economy_group
       (text_of [0x5F00, 0x653E, 0x7B7E, 0x5230])
       (text_of [0x5141, 0x8BB8, 0x7528, 0x6237, 0x901A, 0x8FC7, 0x7B7E, 0x5230, 0x83B7, 0x5F97,
     0x79EF, 0x5206, 0x3002])
       ''boolean'' (JBool True) [''_open'', ''checkin''],
     between 0 100000 (setting ''economy.checkin_reward_min'' economy_group
       (text_of [0x7B7E, 0x5230, 0x6700, 0x4F4E, 0x5956, 0x52B1])
       (text_of [0x6BCF, 0x65E5, 0x7B7E, 0x5230, 0x968F, 0x673A, 0x5956, 0x52B1, 0x4E0B, 0x9650, 0x3002])
       ''integer'' (JInt 1) []),
     between 0 100000 (setting ''economy.checkin_reward_max'' economy_group
       (text_of [0x7B7E, 0x5230, 0x6700, 0x9AD8, 0x5956, 0x52B1])
       (text_of [0x6BCF, 0x65E5, 0x7B7E, 0x5230, 0x968F, 0x673A, 0x5956, 0x52B1, 0x4E0A, 0x9650, 0x3002])
       ''integer'' (JInt 10) []),
     setting ''economy.exchange_enabled'' economy_group
       (text_of [0x5F00, 0x653E, 0x5151, 0x6362])
       (text_of [0x5141, 0x8BB8, 0x7528, 0x6237, 0x6D88, 0x8017, 0x79EF, 0x5206, 0x5151, 0x6362,
     0x6CE8, 0x518C, 0x8D44, 0x683C, 0x3002])
       ''boolean'' (JBool True) [''_open'', ''exchange''],
     between 0 100000000 (setting ''economy.exchange_cost'' economy_group
       (text_of [0x6CE8, 0x518C, 0x7801, 0x5151, 0x6362, 0x6210, 0x672C])
       (text_of [0x5151, 0x6362, 0x4E00, 0x6B21, 0x6CE8, 0x518C, 0x8D44, 0x683C, 0x9700, 0x8981,
     0x7684, 0x79EF, 0x5206, 0x3002])
       ''integer'' (JInt 300) [''_open'', ''exchange_cost'']),
     between 0 100000000 (setting ''economy.whitelist_cost'' economy_group
       (text_of [0x767D, 0x540D, 0x5355, 0x5151, 0x6362, 0x6210, 0x672C])
       (text_of [0x5151, 0x6362, 0x767D, 0x540D, 0x5355, 0x8D44, 0x683C, 0x9700, 0x8981, 0x7684,
     0x79EF, 0x5206, 0x3002])
       ''integer'' (JInt 9999) [''_open'', ''whitelist_cost'']),
     setting ''economy.invite_enabled'' economy_group
       (text_of [0x5F00, 0x653E, 0x9080, 0x8BF7, 0x7801])
       (text_of [0x5141, 0x8BB8, 0x7528, 0x6237, 0x5151, 0x6362, 0x9080, 0x8BF7, 0x7801, 0x3002])
       ''boolean'' (JBool False) [''_open'', ''invite''],
     between 0 100000000 (setting ''economy.invite_cost'' economy_group
       (text_of [0x9080, 0x8BF7, 0x7801, 0x6210, 0x672C])
       (text_of [0x5151, 0x6362, 0x9080, 0x8BF7, 0x7801, 0x9700, 0x8981, 0x7684, 0x79EF, 0x5206, 0x3002])
       ''integer'' (JInt 1000) [''_open'', ''invite_cost'']),
     between 0 365 (setting ''lifecycle.expiry_notice_days'' lifecycle_group
       (text_of [0x5230, 0x671F, 0x63D0, 0x524D, 0x901A, 0x77E5])
       (text_of [0x8D26, 0x53F7, 0x5230, 0x671F, 0x524D, 0x591A, 0x5C11, 0x5929, 0x53D1, 0x9001,
     0x901A, 0x77E5, 0x3002])
       ''integer'' (JInt 3) []),
     between 0 3650 (setting ''lifecycle.freeze_days'' lifecycle_group
       (text_of [0x51BB, 0x7ED3, 0x4FDD, 0x7559, 0x5929, 0x6570])
       (text_of [0x5230, 0x671F, 0x51BB, 0x7ED3, 0x540E, 0x4FDD, 0x7559, 0x591A, 0x5C11, 0x5929,
     0x518D, 0x6E05, 0x7406, 0x8D26, 0x53F7, 0x3002])
       ''integer'' (JInt 5) [''config'', ''freeze_days'']),
     between 1 3650 (setting ''lifecycle.activity_check_days'' lifecycle_group
       (text_of [0x4F4E, 0x6D3B, 0x8DC3, 0x5224, 0x5B9A, 0x5929, 0x6570])
       (text_of [0x8FDE, 0x7EED, 0x591A, 0x5C11, 0x5929, 0x672A, 0x64AD, 0x653E, 0x89C6, 0x4E3A,
     0x4F4E, 0x6D3B, 0x8DC3, 0x8D26, 0x53F7, 0x3002])
       ''integer'' (JInt 21) [''config'', ''activity_check_days'']),
     choice [''none'', ''freeze'', ''delete''] (setting ''lifecycle.leave_group_action'' lifecycle_group
       (text_of [0x79BB, 0x7FA4, 0x5904, 0x7406, 0x65B9, 0x5F0F])
       (text_of [0x7528, 0x6237, 0x79BB, 0x5F00, 0x20, 0x54, 0x65, 0x6C, 0x65, 0x67, 0x72, 0x61, 0x6D,
     0x20, 0x7FA4, 0x7EC4, 0x540E, 0x7684, 0x5904, 0x7406, 0x65B9, 0x5F0F, 0x3002])
       ''string'' (JStr (''none'')) []),
     setting ''lifecycle.auto_delete_enabled'' lifecycle_group
       (text_of [0x81EA, 0x52A8, 0x6E05, 0x7406, 0x8FC7, 0x671F, 0x8D26, 0x53F7])
       (text_of [0x8D85, 0x8FC7, 0x51BB, 0x7ED3, 0x4FDD, 0x7559, 0x671F, 0x540E, 0x81EA, 0x52A8,
     0x5220, 0x9664, 0x20, 0x45, 0x6D, 0x62, 0x79, 0x20, 0x8D26, 0x53F7, 0x3002])
       ''boolean'' (JBool False) [],
     setting ''playback.client_filter_enabled'' playback_group
       (text_of [0x542F, 0x7528, 0x5BA2, 0x6237, 0x7AEF, 0x8FC7, 0x6EE4])
       (text_of [0x6309, 0x5BA2, 0x6237, 0x7AEF, 0x89C4, 0x5219, 0x68C0, 0x6D4B, 0x548C, 0x5904,
     0x7406, 0x64AD, 0x653E, 0x4F1A, 0x8BDD, 0x3002])
       ''boolean'' (JBool False) [''config'', ''client_filter_enabled''],
     choice [''blacklist'', ''whitelist''] (setting ''playback.client_filter_mode'' playback_group
       (text_of [0x5BA2, 0x6237, 0x7AEF, 0x8FC7, 0x6EE4, 0x6A21, 0x5F0F])
       (text_of [0x9ED1, 0x540D, 0x5355, 0x547D, 0x4E2D, 0x65F6, 0x62E6, 0x622A, 0xFF0C, 0x767D,
     0x540D, 0x5355, 0x672A, 0x547D, 0x4E2D, 0x65F6, 0x62E6, 0x622A, 0x3002])
       ''string'' (JStr (''blacklist'')) [''config'', ''client_filter_mode'']),
     setting ''playback.terminate_blocked_client'' playback_group
       (text_of [0x7EC8, 0x6B62, 0x8FDD, 0x89C4, 0x5BA2, 0x6237, 0x7AEF])
       (text_of [0x68C0, 0x6D4B, 0x5230, 0x8FDD, 0x89C4, 0x5BA2, 0x6237, 0x7AEF, 0x65F6, 0x7ACB,
     0x5373, 0x7EC8, 0x6B62, 0x4F1A, 0x8BDD, 0x3002])
       ''boolean'' (JBool True) [''config'', ''client_filter_terminate_session''],
     setting ''playback.block_user_for_client'' playback_group
       (text_of [0x5C01, 0x7981, 0x8FDD, 0x89C4, 0x5BA2, 0x6237, 0x7AEF, 0x7528, 0x6237])
       (text_of [0x68C0, 0x6D4B, 0x5230, 0x8FDD, 0x89C4, 0x5BA2, 0x6237, 0x7AEF, 0x65F6, 0x540C,
     0x6B65, 0x5C01, 0x7981, 0x7528, 0x6237, 0x3002])
       ''boolean'' (JBool False) [''config'', ''client_filter_block_user''],
     setting ''playback.terminate_line_violation'' playback_group
       (text_of [0x7EC8, 0x6B62, 0x7EBF, 0x8DEF, 0x8FDD, 0x89C4])
       (text_of [0x68C0, 0x6D4B, 0x5230, 0x7EBF, 0x8DEF, 0x6743, 0x9650, 0x8FDD, 0x89C4, 0x65F6,
     0x7EC8, 0x6B62, 0x4F1A, 0x8BDD, 0x3002])
       ''boolean'' (JBool True) [''config'', ''line_filter_terminate_session''],
     setting ''playback.block_user_for_line'' playback_group
       (text_of [0x5C01, 0x7981, 0x7EBF, 0x8DEF, 0x8FDD, 0x89C4, 0x7528, 0x6237])
       (text_of [0x68C0, 0x6D4B, 0x5230, 0x7EBF, 0x8DEF, 0x6743, 0x9650, 0x8FDD, 0x89C4, 0x65F6,
     0x540C, 0x6B65, 0x5C01, 0x7981, 0x7528, 0x6237, 0x3002])
       ''boolean'' (JBool False) [''config'', ''line_filter_block_user''],
     between 0 1000 (setting ''playback.max_devices_default'' playback_group
       (text_of [0x9ED8, 0x8BA4, 0x6700, 0x5927, 0x8BBE, 0x5907, 0x6570])
       (text_of [0x6CA1, 0x6709, 0x4F1A, 0x5458, 0x65B9, 0x6848, 0x8986, 0x76D6, 0x65F6, 0x5141,
     0x8BB8, 0x7684, 0x6700, 0x5927, 0x8BBE, 0x5907, 0x6570, 0x91CF, 0xFF0C, 0x30, 0x20,
     0x8868, 0x793A, 0x4E0D, 0x9650, 0x3002])
       ''integer'' (JInt 0) []),
     between 0 100 (setting ''playback.max_concurrent_streams'' playback_group
       (text_of [0x9ED8, 0x8BA4, 0x6700, 0x5927, 0x5E76, 0x53D1, 0x64AD, 0x653E])
       (text_of [0x6CA1, 0x6709, 0x4F1A, 0x5458, 0x65B9, 0x6848, 0x8986, 0x76D6, 0x65F6, 0x5141,
     0x8BB8, 0x7684, 0x5E76, 0x53D1, 0x64AD, 0x653E, 0x6570, 0x91CF, 0xFF0C, 0x30, 0x20,
     0x8868, 0x793A, 0x4E0D, 0x9650, 0x3002])
       ''integer'' (JInt 0) []),
     between 1 100 (setting ''playback.client_strike_limit'' playback_group
       (text_of [0x5BA2, 0x6237, 0x7AEF, 0x8FDD, 0x89C4, 0x51BB, 0x7ED3, 0x9608, 0x503C])
       (text_of [0x547D, 0x4E2D, 0x9ED1, 0x540D, 0x5355, 0x591A, 0x5C11, 0x6B21, 0x540E, 0x81EA,
     0x52A8, 0x51BB, 0x7ED3, 0x8D26, 0x53F7, 0x3002])
       ''integer'' (JInt 2) []),
     setting ''requests.enabled'' media_group
       (text_of [0x5F00, 0x653E, 0x6C42, 0x7247])
       (text_of [0x5141, 0x8BB8, 0x7528, 0x6237, 0x4ECE, 0x20, 0x57, 0x65, 0x62, 0x20, 0x6216, 0x20,
     0x42, 0x6F, 0x74, 0x20, 0x63D0, 0x4EA4, 0x6C42, 0x7247, 0x3002])
       ''boolean'' (JBool True) [],
     between 0 1000 (setting ''requests.daily_limit'' media_group
       (text_of [0x6BCF, 0x65E5, 0x6C42, 0x7247, 0x4E0A, 0x9650])
       (text_of [0x6BCF, 0x4E2A, 0x8D26, 0x53F7, 0x6BCF, 0x5929, 0x5141, 0x8BB8, 0x63D0, 0x4EA4,
     0x7684, 0x6C42, 0x7247, 0x6570, 0x91CF, 0xFF0C, 0x30, 0x20, 0x8868, 0x793A, 0x4E0D,
     0x9650, 0x3002])
       ''integer'' (JInt 0) []),
     between 0 1000000 (setting ''requests.default_cost'' media_group
       (text_of [0x9ED8, 0x8BA4, 0x6C42, 0x7247, 0x79EF, 0x5206])
       (text_of [0x63D0, 0x4EA4, 0x666E, 0x901A, 0x6C42, 0x7247, 0x9ED8, 0x8BA4, 0x6263, 0x9664,
     0x7684, 0x79EF, 0x5206, 0x3002])
       ''integer'' (JInt 0) []),
     setting ''tmdb.enabled'' media_group
       (text_of [0x542F, 0x7528, 0x20, 0x54, 0x4D, 0x44, 0x42])
       (text_of [0x4E3A, 0x5F71, 0x7247, 0x4E2D, 0x5FC3, 0x3001, 0x6C42, 0x7247, 0x548C, 0x5F71,
     0x8BC4, 0x63D0, 0x4F9B, 0x7EDF, 0x4E00, 0x5A92, 0x4F53, 0x8D44, 0x6599, 0x3002])
       ''boolean'' (JBool False) [],
     setting ''tmdb.language'' media_group
       (text_of [0x54, 0x4D, 0x44, 0x42, 0x20, 0x9ED8, 0x8BA4, 0x8BED, 0x8A00])
       (text_of [0x641C, 0x7D22, 0x548C, 0x8BE6, 0x60C5, 0x4F7F, 0x7528, 0x7684, 0x20, 0x54, 0x4D,
     0x44, 0x42, 0x20, 0x8BED, 0x8A00, 0x3002])
       ''string'' (JStr (''zh-CN'')) [],
     setting ''tmdb.region'' media_group
       (text_of [0x54, 0x4D, 0x44, 0x42, 0x20, 0x5730, 0x533A])
       (text_of [0x4E0A, 0x6620, 0x4FE1, 0x606F, 0x548C, 0x8D8B, 0x52BF, 0x5185, 0x5BB9, 0x4F7F,
     0x7528, 0x7684, 0x5730, 0x533A, 0x3002])
       ''string'' (JStr (''CN'')) [],
     setting ''tmdb.include_adult'' media_group
       (text_of [0x663E, 0x793A, 0x6210, 0x4EBA, 0x5185, 0x5BB9])
       (text_of [0x662F, 0x5426, 0x5141, 0x8BB8, 0x20, 0x54, 0x4D, 0x44, 0x42, 0x20, 0x8FD4, 0x56DE,
     0x6210, 0x4EBA, 0x5185, 0x5BB9, 0x3002])
       ''boolean'' (JBool False) [],
     between 1 10080 (setting ''tmdb.cache_minutes'' media_group
       (text_of [0x54, 0x4D, 0x44, 0x42, 0x20, 0x7F13, 0x5B58, 0x5206, 0x949F])
       (text_of [0x641C, 0x7D22, 0x548C, 0x8BE6, 0x60C5, 0x6570, 0x636E, 0x7684, 0x672C, 0x5730,
     0x7F13, 0x5B58, 0x65F6, 0x95F4, 0x3002])
       ''integer'' (JInt 60) []),
     setting ''notifications.telegram_enabled'' notification_group
       (text_of [0x54, 0x65, 0x6C, 0x65, 0x67, 0x72, 0x61, 0x6D, 0x20, 0x901A, 0x77E5])
       (text_of [0x5411, 0x5DF2, 0x7ED1, 0x5B9A, 0x20, 0x54, 0x65, 0x6C, 0x65, 0x67, 0x72, 0x61, 0x6D,
     0x20, 0x7684, 0x8D26, 0x53F7, 0x53D1, 0x9001, 0x4E1A, 0x52A1, 0x901A, 0x77E5, 0x3002])
       ''boolean'' (JBool True) [],
     setting ''notifications.web_enabled'' notification_group
       (text_of [0x7AD9, 0x5185, 0x901A, 0x77E5])
       (text_of [0x5728, 0x20, 0x57, 0x65, 0x62, 0x20, 0x7528, 0x6237, 0x4E2D, 0x5FC3, 0x4FDD, 0x5B58,
     0x5E76, 0x5C55, 0x793A, 0x4E1A, 0x52A1, 0x901A, 0x77E5, 0x3002])
       ''boolean'' (JBool True) [],
     setting ''notifications.quiet_start'' notification_group
       (text_of [0x5B89, 0x9759, 0x65F6, 0x6BB5, 0x5F00, 0x59CB])
       (text_of [0x4E0D, 0x53D1, 0x9001, 0x975E, 0x7D27, 0x6025, 0x63A8, 0x9001, 0x7684, 0x5F00,
     0x59CB, 0x65F6, 0x95F4, 0xFF0C, 0x4F8B, 0x5982, 0x20, 0x32, 0x33, 0x3A, 0x30, 0x30, 0x3002])
       ''string'' (JStr (''23:00'')) [],
     setting ''notifications.quiet_end'' notification_group
       (text_of [0x5B89, 0x9759, 0x65F6, 0x6BB5, 0x7ED3, 0x675F])
       (text_of [0x4E0D, 0x53D1, 0x9001, 0x975E, 0x7D27, 0x6025, 0x63A8, 0x9001, 0x7684, 0x7ED3,
     0x675F, 0x65F6, 0x95F4, 0xFF0C, 0x4F8B, 0x5982, 0x20, 0x30, 0x38, 0x3A, 0x30, 0x30, 0x3002])
       ''string'' (JStr (''08:00'')) [],
     after_restart (setting ''scheduler.expiry_check'' scheduler_group
       (text_of [0x5230, 0x671F, 0x68C0, 0x67E5])
       (text_of [0x5B9A, 0x65F6, 0x68C0, 0x67E5, 0x5E76, 0x5904, 0x7406, 0x5230, 0x671F, 0x8D26,
     0x53F7, 0x3002])
       ''boolean'' (JBool True) [''schedall'', ''check_ex'']),
     after_restart (setting ''scheduler.partition_check'' scheduler_group
       (text_of [0x5206, 0x533A, 0x6743, 0x9650, 0x68C0, 0x67E5])
       (text_of [0x5B9A, 0x65F6, 0x540C, 0x6B65, 0x7528, 0x6237, 0x5A92, 0x4F53, 0x5206, 0x533A,
     0x6743, 0x9650, 0x3002])
       ''boolean'' (JBool True) [''schedall'', ''partition_check'']),
     after_restart (setting ''scheduler.low_activity_check'' scheduler_group
       (text_of [0x4F4E, 0x6D3B, 0x8DC3, 0x68C0, 0x67E5])
       (text_of [0x5B9A, 0x671F, 0x5904, 0x7406, 0x957F, 0x671F, 0x6CA1, 0x6709, 0x64AD, 0x653E,
     0x8BB0, 0x5F55, 0x7684, 0x8D26, 0x53F7, 0x3002])
       ''boolean'' (JBool False) [''schedall'', ''low_activity'']),
     after_restart (setting ''scheduler.database_backup'' scheduler_group
       (text_of [0x81EA, 0x52A8, 0x6570, 0x636E, 0x5E93, 0x5907, 0x4EFD])
       (text_of [0x5141, 0x8BB8, 0x8BA1, 0x5212, 0x4EFB, 0x52A1, 0x81EA, 0x52A8, 0x5907, 0x4EFD,
     0x6570, 0x636E, 0x5E93, 0x3002])
       ''boolean'' (JBool True) [''schedall'', ''backup_db'']),
     between 30 3650 (setting ''retention.audit_days'' retention_group
       (text_of [0x5BA1, 0x8BA1, 0x65E5, 0x5FD7, 0x4FDD, 0x7559, 0x5929, 0x6570])
       (text_of [0x81EA, 0x52A8, 0x6E05, 0x7406, 0x8D85, 0x8FC7, 0x671F, 0x9650, 0x7684, 0x666E,
     0x901A, 0x5BA1, 0x8BA1, 0x8BB0, 0x5F55, 0x3002])
       ''integer'' (JInt 365) []),
     between 7 3650 (setting ''retention.playback_days'' retention_group
       (text_of [0x64AD, 0x653E, 0x5386, 0x53F2, 0x4FDD, 0x7559, 0x5929, 0x6570])
       (text_of [0x64AD, 0x653E, 0x5386, 0x53F2, 0x548C, 0x4F1A, 0x8BDD, 0x660E, 0x7EC6, 0x7684,
     0x4FDD, 0x5B58, 0x65F6, 0x95F4, 0x3002])
       ''integer'' (JInt 180) []),
     between 7 3650 (setting ''retention.task_days'' retention_group
       (text_of [0x4EFB, 0x52A1, 0x8BB0, 0x5F55, 0x4FDD, 0x7559, 0x5929, 0x6570])
       (text_of [0x5DF2, 0x5B8C, 0x6210, 0x548C, 0x53D6, 0x6D88, 0x7684, 0x540E, 0x53F0, 0x4EFB,
     0x52A1, 0x4FDD, 0x5B58, 0x65F6, 0x95F4, 0x3002])
       ''integer'' (JInt 90) []),
     between 1 8760 (setting ''web.session_ttl_hours'' web_group
       (text_of [0x767B, 0x5F55, 0x4F1A, 0x8BDD, 0x5C0F, 0x65F6])
       (text_of [0x666E, 0x901A, 0x20, 0x57, 0x65, 0x62, 0x20, 0x767B, 0x5F55, 0x4F1A, 0x8BDD, 0x7684,
     0x6709, 0x6548, 0x65F6, 0x95F4, 0x3002])
       ''integer'' (JInt 168) []),
     setting ''web.docs_enabled'' web_group
       (text_of [0x41, 0x50, 0x49, 0x20, 0x6587, 0x6863])
       (text_of [0x662F, 0x5426, 0x5F00, 0x653E, 0x20, 0x46, 0x61, 0x73, 0x74, 0x41, 0x50, 0x49, 0x20,
     0x41, 0x50, 0x49, 0x20, 0x6587, 0x6863, 0x9875, 0x9762, 0x3002])
       ''boolean'' (JBool False) [],
     between 10 200 (setting ''web.default_page_size'' web_group
       (text_of [0x9ED8, 0x8BA4, 0x5206, 0x9875, 0x6570, 0x91CF])
       (text_of [0x540E, 0x53F0, 0x8868, 0x683C, 0x9996, 0x6B21, 0x52A0, 0x8F7D, 0x7684, 0x8BB0,
     0x5F55, 0x6570, 0x91CF, 0x3002])
       ''integer'' (JInt 50) []),
     after_restart (setting ''integrations.moviepilot_enabled'' integration_group
       (text_of [0x542F, 0x7528, 0x20, 0x4D, 0x6F, 0x76, 0x69, 0x65, 0x50, 0x69, 0x6C, 0x6F, 0x74])
       (text_of [0x540C, 0x6B65, 0x20, 0x4D, 0x6F, 0x76, 0x69, 0x65, 0x50, 0x69, 0x6C, 0x6F, 0x74,
     0x20, 0x4E0B, 0x8F7D, 0x4EFB, 0x52A1, 0x548C, 0x6C42, 0x7247, 0x8FDB, 0x5EA6, 0x3002])
       ''boolean'' (JBool False) [''moviepilot'', ''status'']),
     between 0 100000 (setting ''integrations.moviepilot_price'' integration_group
       (text_of [0x4D, 0x6F, 0x76, 0x69, 0x65, 0x50, 0x69, 0x6C, 0x6F, 0x74, 0x20, 0x5355, 0x4EF7])
       (text_of [0x6C42, 0x7247, 0x4E0B, 0x8F7D, 0x4F7F, 0x7528, 0x7684, 0x79EF, 0x5206, 0x5355,
     0x4EF7, 0x3002])
       ''integer'' (JInt 1) [''moviepilot'', ''price'']),
     setting ''scheduler.automation_enabled'' scheduler_group
       (text_of [0x542F, 0x7528, 0x81EA, 0x52A8, 0x5316, 0x5F15, 0x64CE])
       (text_of [0x7531, 0x72EC, 0x7ACB, 0x20, 0x57, 0x6F, 0x72, 0x6B, 0x65, 0x72, 0x20, 0x6D88,
     0x8D39, 0x7CFB, 0x7EDF, 0x4E8B, 0x4EF6, 0x5E76, 0x6267, 0x884C, 0x5DF2, 0x542F, 0x7528,
     0x7684, 0x81EA, 0x52A8, 0x5316, 0x89C4, 0x5219, 0x3002])
       ''boolean'' (JBool True) [],
     between 5 3600 (setting ''scheduler.automation_seconds'' scheduler_group
       (text_of [0x81EA, 0x52A8, 0x5316, 0x626B, 0x63CF, 0x79D2, 0x6570])
       (text_of [0x72EC, 0x7ACB, 0x20, 0x57, 0x6F, 0x72, 0x6B, 0x65, 0x72, 0x20, 0x626B, 0x63CF,
     0x81EA, 0x52A8, 0x5316, 0x89C4, 0x5219, 0x548C, 0x65B0, 0x4E8B, 0x4EF6, 0x7684, 0x95F4,
     0x9694, 0x3002])
       ''integer'' (JInt 15) []),
     between 1 1440 (setting ''scheduler.diagnostics_minutes'' scheduler_group
       (text_of [0x8BCA, 0x65AD, 0x95F4, 0x9694, 0x5206, 0x949F])
       (text_of [0x72EC, 0x7ACB, 0x20, 0x57, 0x6F, 0x72, 0x6B, 0x65, 0x72, 0x20, 0x81EA, 0x52A8,
     0x6267, 0x884C, 0x5916, 0x90E8, 0x670D, 0x52A1, 0x4E0E, 0x591A, 0x20, 0x45, 0x6D, 0x62,
     0x79, 0x20, 0x63A2, 0x6D4B, 0x7684, 0x95F4, 0x9694, 0x3002])
       ''integer'' (JInt 5) []),
     between 0 23 (setting ''scheduler.backup_hour'' scheduler_group
       (text_of [0x6BCF, 0x65E5, 0x5907, 0x4EFD, 0x5C0F, 0x65F6])
       (text_of [0x72EC, 0x7ACB, 0x20, 0x57, 0x6F, 0x72, 0x6B, 0x65, 0x72, 0x20, 0x6BCF, 0x65E5,
     0x81EA, 0x52A8, 0x521B, 0x5EFA, 0x6570, 0x636E, 0x5E93, 0x5907, 0x4EFD, 0x7684, 0x672C,
     0x5730, 0x5C0F, 0x65F6, 0x3002])
       ''integer'' (JInt 2) []),
     setting ''integrations.moviepilot_url'' integration_group
       (text_of [0x4D, 0x6F, 0x76, 0x69, 0x65, 0x50, 0x69, 0x6C, 0x6F, 0x74, 0x20, 0x5730, 0x5740])
       (text_of [0x4D, 0x6F, 0x76, 0x69, 0x65, 0x50, 0x69, 0x6C, 0x6F, 0x74, 0x20, 0x41, 0x50, 0x49,
     0x20, 0x57FA, 0x7840, 0x5730, 0x5740, 0xFF1B, 0x8BBF, 0x95EE, 0x4EE4, 0x724C, 0x5B58,
     0x5165, 0x51ED, 0x636E, 0x4E2D, 0x5FC3, 0x3002])
       ''string'' (JStr ('''')) [],
     setting ''integrations.open_api_enabled'' integration_group
       (text_of [0x542F, 0x7528, 0x5F00, 0x653E, 0x20, 0x41, 0x50, 0x49])
       (text_of [0x5141, 0x8BB8, 0x20, 0x41, 0x50, 0x49, 0x20, 0x4B, 0x65, 0x79, 0x20, 0x8BBF, 0x95EE,
     0x20, 0x2F, 0x61, 0x70, 0x69, 0x2F, 0x6F, 0x70, 0x65, 0x6E, 0x2F, 0x76, 0x31, 0x3002])
       ''boolean'' (JBool False) [],
     setting ''integrations.multi_emby_enabled'' integration_group
       (text_of [0x542F, 0x7528, 0x591A, 0x20, 0x45, 0x6D, 0x62, 0x79])
       (text_of [0x4F18, 0x5148, 0x4F7F, 0x7528, 0x6570, 0x636E, 0x5E93, 0x4E2D, 0x7684, 0x9ED8,
     0x8BA4, 0x20, 0x45, 0x6D, 0x62, 0x79, 0x20, 0x5B9E, 0x4F8B, 0xFF0C, 0x672A, 0x914D,
     0x7F6E, 0x65F6, 0x56DE, 0x9000, 0x20, 0x63, 0x6F, 0x6E, 0x66, 0x69, 0x67, 0x2E, 0x6A,
     0x73, 0x6F, 0x6E, 0x3002])
       ''boolean'' (JBool True) []]"


text \<open>The keys are distinct, so the dictionary built from the definitions is a search by key.\<close>

definition SETTING_REGISTRY :: "string \<Rightarrow> setting_definition option" where
  "SETTING_REGISTRY key = tbl_get sd_key key SETTING_DEFINITIONS"

subsection \<open>Validation\<close>

definition not_boolean_message :: string where
  "not_boolean_message = text_of [0x8BBE, 0x7F6E, 0x503C, 0x5FC5, 0x987B, 0x662F, 0x5E03, 0x5C14, 0x503C]"

definition not_integer_message :: string where
  "not_integer_message = text_of [0x8BBE, 0x7F6E, 0x503C, 0x5FC5, 0x987B, 0x662F, 0x6574, 0x6570]"

definition too_small_message :: string where
  "too_small_message = text_of [0x8BBE, 0x7F6E, 0x503C, 0x4E0D, 0x80FD, 0x5C0F, 0x4E8E, 0x20]"

definition too_large_message :: string where
  "too_large_message = text_of [0x8BBE, 0x7F6E, 0x503C, 0x4E0D, 0x80FD, 0x5927, 0x4E8E, 0x20]"

definition not_string_message :: string where
  "not_string_message = text_of [0x8BBE, 0x7F6E, 0x503C, 0x5FC5, 0x987B, 0x662F, 0x5B57, 0x7B26, 0x4E32]"

definition not_option_message :: string where
  "not_option_message = text_of [0x8BBE, 0x7F6E, 0x503C, 0x4E0D, 0x5728, 0x5141, 0x8BB8, 0x8303, 0x56F4, 0x5185]"

definition validate_setting :: "setting_definition \<Rightarrow> jval \<Rightarrow> jval attempt" where
  "validate_setting d v =
     (if sd_value_type d = ''boolean'' then
        (case v of JBool b \<Rightarrow> Inr v | _ \<Rightarrow> Inl (ValueError not_boolean_message))
      else if sd_value_type d = ''integer'' then
        (case v of
           JInt n \<Rightarrow>
             (case sd_minimum d of
                Some m \<Rightarrow>
                  if n < m then Inl (ValueError (too_small_message @ show_int m))
                  else (case sd_maximum d of
                     Some k \<Rightarrow> if k < n then Inl (ValueError (too_large_message @ show_int k)) else Inr v
                   | None \<Rightarrow> Inr v)
              | None \<Rightarrow>
                  (case sd_maximum d of
                     Some k \<Rightarrow> if k < n then Inl (ValueError (too_large_message @ show_int k)) else Inr v
                   | None \<Rightarrow> Inr v))
         | _ \<Rightarrow> Inl (ValueError not_integer_message))
      else if sd_value_type d = ''string'' then
        (case v of
           JStr s \<Rightarrow>
             if sd_options d \<noteq> [] \<and> s \<notin> set (sd_options d) then Inl (ValueError not_option_message)
             else Inr v
         | _ \<Rightarrow> Inl (ValueError not_string_message))
      else Inr v)"

text \<open>What a value has to be, without the order in which the code asks.\<close>

definition setting_value_ok :: "setting_definition \<Rightarrow> jval \<Rightarrow> bool" where
  "setting_value_ok d v =
     (case v of
        JBool b \<Rightarrow> sd_value_type d = ''boolean''
      | JInt n \<Rightarrow> sd_value_type d = ''integer'' \<and>
          (case sd_minimum d of None \<Rightarrow> True | Some m \<Rightarrow> m \<le> n) \<and>
          (case sd_maximum d of None \<Rightarrow> True | Some m \<Rightarrow> n \<le> m)
      | JStr s \<Rightarrow> sd_value_type d = ''string'' \<and> (sd_options d = [] \<or> s \<in> set (sd_options d))
      | _ \<Rightarrow> False)"

definition known_type :: "setting_definition \<Rightarrow> bool" where
  "known_type d = (sd_value_type d \<in> {''boolean'', ''integer'', ''string''})"

lemma validate_setting_Inr:
  assumes "known_type d"
  shows "validate_setting d v = Inr w \<longleftrightarrow> setting_value_ok d v \<and> w = v"
  using assms
  by (cases v) (auto simp: validate_setting_def setting_value_ok_def known_type_def split: option.splits)

lemma validate_setting_error: "validate_setting d v = Inl e \<Longrightarrow> \<exists>m. e = ValueError m"
  by (cases v) (auto simp: validate_setting_def split: option.splits if_splits)

lemma setting_value_dumps: "setting_value_ok d v \<Longrightarrow> json_dumps v = v"
  by (cases v) (auto simp: setting_value_ok_def)

lemma definition_keys_distinct: "distinct (map sd_key SETTING_DEFINITIONS)"
  by (simp add: SETTING_DEFINITIONS_def setting_fields)

lemma definitions_sound:
  "list_all (\<lambda>d. known_type d \<and> setting_value_ok d (sd_default d)) SETTING_DEFINITIONS"
  by (simp add: SETTING_DEFINITIONS_def setting_fields known_type_def setting_value_ok_def)

text \<open>What the checks need of the registry, without the texts.\<close>

definition setting_summary :: "setting_definition \<Rightarrow> string \<times> string \<times> jval \<times> int option \<times> int option" where
  "setting_summary d = (sd_key d, sd_value_type d, sd_default d, sd_minimum d, sd_maximum d)"

lemma setting_summaries:
  "map setting_summary SETTING_DEFINITIONS =
    [(''site.name'', ''string'', JStr ''Sakura'', None, None),
     (''site.logo'', ''string'', JStr ''SAKURA'', None, None),
     (''site.currency_name'', ''string'', JStr (text_of [0x79EF, 0x5206]), None, None),
     (''site.announcement'', ''string'', JStr '''', None, None),
     (''registration.enabled'', ''boolean'', JBool False, None, None),
     (''registration.local_account_enabled'', ''boolean'', JBool True, None, None),
     (''registration.local_account_hourly_limit'', ''integer'', JInt 5, Some 1, Some 100),
     (''registration.open_days'', ''integer'', JInt 30, Some 1, Some 3650),
     (''registration.invite_required'', ''boolean'', JBool False, None, None),
     (''registration.invite_expiry_days'', ''integer'', JInt 30, Some 1, Some 3650),
     (''registration.batch_limit'', ''integer'', JInt 100, Some 1, Some 500),
     (''registration.user_limit'', ''integer'', JInt 1000, Some 1, Some 100000),
     (''registration.worker_count'', ''integer'', JInt 5, Some 1, Some 50),
     (''registration.queue_limit'', ''integer'', JInt 100, Some 1, Some 10000),
     (''economy.checkin_enabled'', ''boolean'', JBool True, None, None),
     (''economy.checkin_reward_min'', ''integer'', JInt 1, Some 0, Some 100000),
     (''economy.checkin_reward_max'', ''integer'', JInt 10, Some 0, Some 100000),
     (''economy.exchange_enabled'', ''boolean'', JBool True, None, None),
     (''economy.exchange_cost'', ''integer'', JInt 300, Some 0, Some 100000000),
     (''economy.whitelist_cost'', ''integer'', JInt 9999, Some 0, Some 100000000),
     (''economy.invite_enabled'', ''boolean'', JBool False, None, None),
     (''economy.invite_cost'', ''integer'', JInt 1000, Some 0, Some 100000000),
     (''lifecycle.expiry_notice_days'', ''integer'', JInt 3, Some 0, Some 365),
     (''lifecycle.freeze_days'', ''integer'', JInt 5, Some 0, Some 3650),
     (''lifecycle.activity_check_days'', ''integer'', JInt 21, Some 1, Some 3650),
     (''lifecycle.leave_group_action'', ''string'', JStr ''none'', None, None),
     (''lifecycle.auto_delete_enabled'', ''boolean'', JBool False, None, None),
     (''playback.client_filter_enabled'', ''boolean'', JBool False, None, None),
     (''playback.client_filter_mode'', ''string'', JStr ''blacklist'', None, None),
     (''playback.terminate_blocked_client'', ''boolean'', JBool True, None, None),
     (''playback.block_user_for_client'', ''boolean'', JBool False, None, None),
     (''playback.terminate_line_violation'', ''boolean'', JBool True, None, None),
     (''playback.block_user_for_line'', ''boolean'', JBool False, None, None),
     (''playback.max_devices_default'', ''integer'', JInt 0, Some 0, Some 1000),
     (''playback.max_concurrent_streams'', ''integer'', JInt 0, Some 0, Some 100),
     (''playback.client_strike_limit'', ''integer'', JInt 2, Some 1, Some 100),
     (''requests.enabled'', ''boolean'', JBool True, None, None),
     (''requests.daily_limit'', ''integer'', JInt 0, Some 0, Some 1000),
     (''requests.default_cost'', ''integer'', JInt 0, Some 0, Some 1000000),
     (''tmdb.enabled'', ''boolean'', JBool False, None, None),
     (''tmdb.language'', ''string'', JStr ''zh-CN'', None, None),
     (''tmdb.region'', ''string'', JStr ''CN'', None, None),
     (''tmdb.include_adult'', ''boolean'', JBool False, None, None),
     (''tmdb.cache_minutes'', ''integer'', JInt 60, Some 1, Some 10080),
     (''notifications.telegram_enabled'', ''boolean'', JBool True, None, None),
     (''notifications.web_enabled'', ''boolean'', JBool True, None, None),
     (''notifications.quiet_start'', ''string'', JStr ''23:00'', None, None),
     (''notifications.quiet_end'', ''string'', JStr ''08:00'', None, None),
     (''scheduler.expiry_check'', ''boolean'', JBool True, None, None),
     (''scheduler.partition_check'', ''boolean'', JBool True, None, None),
     (''scheduler.low_activity_check'', ''boolean'', JBool False, None, None),
     (''scheduler.database_backup'', ''boolean'', JBool True, None, None),
     (''retention.audit_days'', ''integer'', JInt 365, Some 30, Some 3650),
     (''retention.playback_days'', ''integer'', JInt 180, Some 7, Some 3650),
     (''retention.task_days'', ''integer'', JInt 90, Some 7, Some 3650),
     (''web.session_ttl_hours'', ''integer'', JInt 168, Some 1, Some 8760),
     (''web.docs_enabled'', ''boolean'', JBool False, None, None),
     (''web.default_page_size'', ''integer'', JInt 50, Some 10, Some 200),
     (''integrations.moviepilot_enabled'', ''boolean'', JBool False, None, None),
     (''integrations.moviepilot_price'', ''integer'', JInt 1, Some 0, Some 100000),
     (''scheduler.automation_enabled'', ''boolean'', JBool True, None, None),
     (''scheduler.automation_seconds'', ''integer'', JInt 15, Some 5, Some 3600),
     (''scheduler.diagnostics_minutes'', ''integer'', JInt 5, Some 1, Some 1440),
     (''scheduler.backup_hour'', ''integer'', JInt 2, Some 0, Some 23),
     (''integrations.moviepilot_url'', ''string'', JStr '''', None, None),
     (''integrations.open_api_enabled'', ''boolean'', JBool False, None, None),
     (''integrations.multi_emby_enabled'', ''boolean'', JBool True, None, None)]"
  by (simp add: SETTING_DEFINITIONS_def setting_summary_def setting_fields)

lemma registry_at:
  assumes "map setting_summary SETTING_DEFINITIONS ! i = (k, vt, v, mn, mx)" "i < length (map setting_summary SETTING_DEFINITIONS)"
  shows "SETTING_REGISTRY k = Some (SETTING_DEFINITIONS ! i)" "sd_value_type (SETTING_DEFINITIONS ! i) = vt"
    "sd_default (SETTING_DEFINITIONS ! i) = v" "sd_minimum (SETTING_DEFINITIONS ! i) = mn" "sd_maximum (SETTING_DEFINITIONS ! i) = mx"
  using assms tbl_get_distinct [OF definition_keys_distinct, of "SETTING_DEFINITIONS ! i"]
  by (auto simp: setting_summary_def SETTING_REGISTRY_def)

lemma registry_sound:
  assumes "SETTING_REGISTRY key = Some d"
  shows "known_type d" "setting_value_ok d (sd_default d)" "sd_key d = key" "d \<in> set SETTING_DEFINITIONS"
  using assms definitions_sound tbl_get_mem [of sd_key key SETTING_DEFINITIONS d]
    tbl_get_key [of sd_key key SETTING_DEFINITIONS d]
  by (auto simp: SETTING_REGISTRY_def list_all_iff)

lemma registry_members: "\<forall>d \<in> set SETTING_DEFINITIONS. SETTING_REGISTRY (sd_key d) = Some d"
  using definition_keys_distinct by (auto simp: SETTING_REGISTRY_def intro: tbl_get_distinct)

end
