(* ===== verification/Risk_Events.thy ===== *)
theory Risk_Events
  imports Review_Service
begin

section \<open>Security events and their handling\<close>

text \<open>
  \<open>RiskEventService\<close> of \<open>bot/application/governance_service.py\<close> with \<open>list_security_events\<close> of the
  operation repository. The search looks into the JSON text of the detail, so the compact text
  \<open>json.dumps\<close> writes is given here by \<open>json_text\<close>.
\<close>

subsection \<open>The text of a JSON value\<close>

definition hex_digit :: "nat \<Rightarrow> char" where
  "hex_digit n = char_of (if n < 10 then 48 + n else 87 + n)"

fun json_escape :: "char \<Rightarrow> string" where
  \<comment> \<open>with \<open>ensure_ascii=False\<close> only quotes, backslashes and control characters are escaped\<close>
  "json_escape c =
     (let n = of_char c :: nat; bs = CHR 0x5C
      in if n = 34 then [bs, c] else if n = 92 then [bs, c]
         else if n = 8 then bs # ''b'' else if n = 9 then bs # ''t'' else if n = 10 then bs # ''n''
         else if n = 12 then bs # ''f'' else if n = 13 then bs # ''r''
         else if n < 32 then bs # ''u00'' @ [hex_digit (n div 16), hex_digit (n mod 16)]
         else [c])"

definition json_string :: "string \<Rightarrow> string" where
  "json_string s = [CHR 0x22] @ concat (map json_escape s) @ [CHR 0x22]"

fun comma_join :: "string list \<Rightarrow> string" where
  "comma_join [] = []"
| "comma_join [x] = x"
| "comma_join (x # xs) = x @ '','' @ comma_join xs"

definition json_member :: "string \<times> string \<Rightarrow> string" where
  "json_member kv = json_string (fst kv) @ '':'' @ snd kv"

primrec json_text :: "jval \<Rightarrow> string" where
  \<comment> \<open>\<open>json.dumps(value, ensure_ascii=False, separators=(",", ":"), default=str)\<close>\<close>
  "json_text JNull = ''null''"
| "json_text (JBool b) = (if b then ''true'' else ''false'')"
| "json_text (JInt n) = show_int n"
| "json_text (JStr s) = json_string s"
| "json_text (JTime t) = json_string (dt_str t)"
| "json_text (JList xs) = ''['' @ comma_join (map json_text xs) @ '']''"
| "json_text (JDict kvs) = ''{'' @ comma_join (map json_member (map (map_prod id json_text) kvs)) @ ''}''"

lemma json_text_dumps: "json_text (json_dumps v) = json_text v"
proof (induction v)
  case (JDict kvs)
  then have same: "\<forall>kv \<in> set kvs. json_text (json_dumps (snd kv)) = json_text (snd kv)" by fastforce
  then show ?case by (auto simp: map_prod_def o_def split_def intro!: arg_cong [where f = comma_join] map_cong)
qed (simp_all add: o_def cong: map_cong)

subsection \<open>The repository query\<close>

definition risk_search :: "string \<Rightarrow> security_row \<Rightarrow> bool" where
  "risk_search pattern r =
     (sql_like pattern (sec_event_type r) \<or> like_null pattern (sec_subject_kind r) \<or>
      like_null pattern (sec_subject_id r) \<or> like_null pattern (sec_ip_address r) \<or>
      like_null pattern (map_option json_text (sec_detail r)))"

definition risk_match ::
  "string option \<Rightarrow> string option \<Rightarrow> string option \<Rightarrow> string option \<Rightarrow> security_row \<Rightarrow> bool" where
  "risk_match search severity status event_type r =
     ((truthy_str search \<longrightarrow> risk_search (''%'' @ the search @ ''%'') r) \<and>
      text_eq severity (sec_severity r) \<and> text_eq status (sec_status r) \<and>
      text_eq event_type (sec_event_type r))"

definition list_security_events ::
  "string option \<Rightarrow> string option \<Rightarrow> string option \<Rightarrow> string option \<Rightarrow> int \<Rightarrow> int \<Rightarrow>
   'z core_db_scheme \<Rightarrow> security_row list \<times> int" where
  "list_security_events search severity status event_type lim off db =
     newest sec_created_at lim off
       (sort_key (\<lambda>r. - sec_id r)
         (filter (risk_match search severity status event_type) (rows (securities db))))"

definition save_security_event :: "security_row \<Rightarrow> 'z core_db_scheme \<Rightarrow> 'z core_db_scheme" where
  [op_defs]: "save_security_event r db =
     db\<lparr>securities := (securities db)\<lparr>rows := tbl_put sec_id r (rows (securities db))\<rparr>\<rparr>"

interpretation risk_repo: keyed_store get_security_event save_security_event sec_id
  by unfold_locales
    (auto simp: op_defs tbl_get_put_same tbl_get_put_other tbl_put_absent dest: tbl_get_key)

subsection \<open>The service\<close>

definition RISK_STATUSES :: "string list" where
  "RISK_STATUSES = [''open'', ''acknowledged'', ''resolved'', ''ignored'']"

definition RISK_SEVERITIES :: "string list" where
  "RISK_SEVERITIES = [''info'', ''warning'', ''danger'']"

definition unknown_risk_severity_message :: string where
  "unknown_risk_severity_message = text_of [0x672A, 0x77E5, 0x98CE, 0x9669, 0x7EA7, 0x522B]"

definition unknown_risk_status_message :: string where
  "unknown_risk_status_message = text_of [0x672A, 0x77E5, 0x98CE, 0x9669, 0x72B6, 0x6001]"

definition risk_note_message :: string where
  "risk_note_message = text_of [0x5904, 0x7406, 0x8BF4, 0x660E, 0x4E0D, 0x80FD, 0x8D85, 0x8FC7, 0x20, 0x31, 0x30,
     0x30, 0x30, 0x20, 0x4E2A, 0x5B57, 0x7B26]"

definition serialize_risk_event :: "security_row \<Rightarrow> jdict" where
  "serialize_risk_event r =
     [(''id'', JInt (sec_id r)), (''event_type'', JStr (sec_event_type r)),
      (''severity'', JStr (sec_severity r)), (''subject_kind'', jopt_str (sec_subject_kind r)),
      (''subject_id'', jopt_str (sec_subject_id r)), (''ip_address'', jopt_str (sec_ip_address r)),
      (''detail'', jopt (sec_detail r)), (''status'', JStr (sec_status r)),
      (''assigned_to'', jopt_int (sec_assigned_to r)),
      (''resolution_note'', jopt_str (sec_resolution_note r)),
      (''resolved_by'', jopt_int (sec_resolved_by r)),
      (''resolved_at'', jopt_time (sec_resolved_at r)),
      (''created_at'', JTime (sec_created_at r)), (''updated_at'', JTime (sec_updated_at r))]"

definition risk_list ::
  "string option \<Rightarrow> string option \<Rightarrow> string option \<Rightarrow> string option \<Rightarrow> int \<Rightarrow> int \<Rightarrow>
   'z core_db_scheme \<Rightarrow> (jdict, 'z core_db_scheme) outcome" where
  "risk_list search severity status event_type lim off db0 =
     (if truthy_str severity \<and> the severity \<notin> set RISK_SEVERITIES then
        (Inl (ValueError unknown_risk_severity_message), db0)
      else if truthy_str status \<and> the status \<notin> set RISK_STATUSES then
        (Inl (ValueError unknown_risk_status_message), db0)
      else run_uow (\<lambda>db.
        let (rs, total) = list_security_events search severity status event_type lim off db
        in Inr (page_view (map serialize_risk_event rs, total) lim off, db)) db0)"

definition risk_get :: "int \<Rightarrow> 'z core_db_scheme \<Rightarrow> (jdict option, 'z core_db_scheme) outcome" where
  "risk_get i = run_uow (\<lambda>db. Inr (map_option serialize_risk_event (get_security_event i db), db))"

definition count_security :: "(security_row \<Rightarrow> bool) \<Rightarrow> 'z core_db_scheme \<Rightarrow> int" where
  "count_security P db = int (length (filter P (rows (securities db))))"

definition severity_counts :: "'z core_db_scheme \<Rightarrow> (string \<times> int) list" where
  "severity_counts db =
     map (\<lambda>s. (s, count_security
       (\<lambda>r. sec_status r \<in> {''open'', ''acknowledged''} \<and> sec_severity r = s) db)) RISK_SEVERITIES"

definition status_counts :: "'z core_db_scheme \<Rightarrow> (string \<times> int) list" where
  "status_counts db = map (\<lambda>s. (s, count_security (\<lambda>r. sec_status r = s) db)) RISK_STATUSES"

definition top_types :: "datetime \<Rightarrow> 'z core_db_scheme \<Rightarrow> (string \<times> int) list" where
  \<comment> \<open>types with equal counts come in the order of their first event; the database may choose\<close>
  "top_types now db =
     (let recent = filter (\<lambda>r. now - 7 * day \<le> sec_created_at r) (rows (securities db));
          types = rev (remdups (rev (map sec_event_type recent)))
      in take 8 (sort_key (\<lambda>tc. - snd tc)
           (map (\<lambda>t. (t, int (length (filter (\<lambda>r. sec_event_type r = t) recent)))) types)))"

definition count_dict :: "(string \<times> int) list \<Rightarrow> jval" where
  "count_dict kvs = JDict (map (\<lambda>(k, n). (k, JInt n)) kvs)"

definition risk_summary :: "clock \<Rightarrow> 'z core_db_scheme \<Rightarrow> (jdict, 'z core_db_scheme) outcome" where
  "risk_summary clk = run_uow (\<lambda>db.
     let now = now_utc clk
     in Inr ([(''open_total'', JInt (sum_list (map snd (severity_counts db)))),
              (''severity_counts'', count_dict (severity_counts db)),
              (''status_counts'', count_dict (status_counts db)),
              (''recent_24h'', JInt (count_security (\<lambda>r. now - day \<le> sec_created_at r) db)),
              (''top_types'', JList (map (\<lambda>(t, n). JDict [(''event_type'', JStr t), (''count'', JInt n)])
                 (top_types now db))),
              (''checked_at'', JTime now)], db))"

definition risk_state :: "string \<Rightarrow> int option \<Rightarrow> string option \<Rightarrow> jval" where
  "risk_state status assigned_to note =
     JDict [(''status'', JStr status), (''assigned_to'', jopt_int assigned_to),
            (''resolution_note'', jopt_str note)]"

definition handled_event ::
  "clock \<Rightarrow> string \<Rightarrow> int option \<Rightarrow> string option \<Rightarrow> actor \<Rightarrow> security_row \<Rightarrow> security_row" where
  "handled_event clk status assigned_to note actor row =
     row\<lparr>sec_status := status, sec_assigned_to := assigned_to, sec_resolution_note := note,
         sec_updated_at := now_utc clk,
         sec_resolved_by := (if status \<in> {''resolved'', ''ignored''} then actor_number actor else None),
         sec_resolved_at := (if status \<in> {''resolved'', ''ignored''} then Some (now_utc clk) else None)\<rparr>"

definition risk_update ::
  "clock \<Rightarrow> int \<Rightarrow> string \<Rightarrow> int option \<Rightarrow> string option \<Rightarrow> actor \<Rightarrow> 'z core_db_scheme \<Rightarrow>
   (jdict option, 'z core_db_scheme) outcome" where
  "risk_update clk i status assigned_to resolution_note actor db0 =
     (let note = strip_or_none resolution_note
      in if status \<notin> set RISK_STATUSES then (Inl (ValueError unknown_risk_status_message), db0)
         else if note \<noteq> None \<and> 1000 < py_len (the note) then (Inl (ValueError risk_note_message), db0)
         else run_uow (\<lambda>db.
           case get_security_event i db of
             None \<Rightarrow> Inr (None, db)
           | Some row \<Rightarrow>
               let row' = handled_event clk status assigned_to note actor row
               in Inr (Some (serialize_risk_event row'),
                    event clk ''security.updated'' ''security'' (Some (show_int i))
                      (Some (JDict [(''resource_type'', JStr ''security_event''),
                        (''resource_id'', JStr (show_int i)), (''status'', JStr status),
                        (''severity'', JStr (sec_severity row))]))
                      (audit_success clk actor ''security.event.update'' ''security_event''
                        (Some (show_int i))
                        (Some (JDict
                          [(''before'', risk_state (sec_status row) (sec_assigned_to row) (sec_resolution_note row)),
                           (''after'', risk_state status assigned_to note)]))
                        (save_security_event row' db)))) db0)"

end
