(* ===== verification/Settings_Service.thy ===== *)
theory Settings_Service
  imports Setting_Definitions Risk_Events
begin

section \<open>The dynamic settings service\<close>

text \<open>
  \<open>DynamicSettingsService\<close> of \<open>bot/application/governance_service.py\<close>. A setting lives in a row of the
  database with a revision and in the running process, where the other parts read it; each change
  adds a row to the history. The state of a call is the database with the values of the process,
  which are written once the transaction has been committed.
\<close>

subsection \<open>The values of the running process\<close>

datatype runtime =
    Values "string \<Rightarrow> jval option"        \<comment> \<open>the dictionary given to the service\<close>
  | Attributes "string list \<Rightarrow> jval"     \<comment> \<open>the attributes below the module \<open>bot\<close>\<close>

fun runtime_value :: "runtime \<Rightarrow> setting_definition \<Rightarrow> jval" where
  "runtime_value (Values vs) d = (case vs (sd_key d) of None \<Rightarrow> sd_default d | Some v \<Rightarrow> v)"
| "runtime_value (Attributes ats) d = (if sd_runtime_path d = [] then sd_default d else ats (sd_runtime_path d))"

fun write_runtime_value :: "setting_definition \<Rightarrow> jval \<Rightarrow> runtime \<Rightarrow> runtime" where
  "write_runtime_value d v (Values vs) = Values (vs(sd_key d \<mapsto> v))"
| "write_runtime_value d v (Attributes ats) =
     (if sd_runtime_path d = [] then Attributes ats else Attributes (ats(sd_runtime_path d := v)))"

type_synonym 'z governed = "'z core_db_scheme \<times> runtime"

definition save_dynamic_setting :: "setting_row \<Rightarrow> 'z core_db_scheme \<Rightarrow> 'z core_db_scheme" where
  [op_defs]: "save_dynamic_setting r db = db\<lparr>settings := tbl_put set_key r (settings db)\<rparr>"

interpretation setting_repo: keyed_store get_dynamic_setting save_dynamic_setting set_key
  by unfold_locales
    (auto simp: op_defs tbl_get_put_same tbl_get_put_other tbl_put_absent dest: tbl_get_key)

subsection \<open>Reading\<close>

definition serialize_setting :: "runtime \<Rightarrow> setting_definition \<Rightarrow> setting_row option \<Rightarrow> jdict" where
  "serialize_setting rt d row =
     [(''key'', JStr (sd_key d)), (''group'', JStr (sd_group d)), (''label'', JStr (sd_label d)),
      (''description'', JStr (sd_description d)),
      (''value'', case row of None \<Rightarrow> runtime_value rt d | Some r \<Rightarrow> set_value r),
      (''value_type'', JStr (sd_value_type d)),
      (''source'', JStr (if row = None then ''config'' else ''database'')),
      (''revision'', JInt (case row of None \<Rightarrow> 0 | Some r \<Rightarrow> set_revision r)),
      (''minimum'', jopt_int (sd_minimum d)), (''maximum'', jopt_int (sd_maximum d)),
      (''options'', JList (map JStr (sd_options d))),
      (''restart_required'', JBool (sd_restart_required d)),
      (''updated_by'', case row of None \<Rightarrow> JNull
         | Some r \<Rightarrow> JStr (set_updated_by_kind r @ '':'' @ set_updated_by_id r)),
      (''updated_at'', case row of None \<Rightarrow> JNull | Some r \<Rightarrow> JTime (set_updated_at r))]"

definition settings_list :: "'z governed \<Rightarrow> (jdict, 'z governed) outcome" where
  "settings_list s =
     (let (r, db) = run_uow (\<lambda>db. Inr
        ([(''items'', JList (map (\<lambda>d. JDict (serialize_setting (snd s) d (get_dynamic_setting (sd_key d) db)))
            SETTING_DEFINITIONS))], db)) (fst s)
      in (r, (db, snd s)))"

definition settings_get :: "string \<Rightarrow> 'z governed \<Rightarrow> (jdict, 'z governed) outcome" where
  "settings_get key s =
     (case SETTING_REGISTRY key of
        None \<Rightarrow> (Inl KeyError, s)
      | Some d \<Rightarrow>
          (let (r, db) = run_uow (\<lambda>db. Inr
             (serialize_setting (snd s) d (get_dynamic_setting key db), db)) (fst s)
           in (r, (db, snd s))))"

definition serialize_revision :: "revision_row \<Rightarrow> jdict" where
  "serialize_revision r =
     [(''id'', JInt (rev_id r)), (''setting_key'', JStr (rev_setting_key r)),
      (''revision'', JInt (rev_revision r)), (''old_value'', jopt (rev_old_value r)),
      (''new_value'', rev_new_value r), (''actor_kind'', JStr (rev_actor_kind r)),
      (''actor_id'', JStr (rev_actor_id r)), (''created_at'', JTime (rev_created_at r))]"

definition settings_history :: "string \<Rightarrow> int \<Rightarrow> 'z governed \<Rightarrow> (jdict, 'z governed) outcome" where
  "settings_history key lim s =
     (case SETTING_REGISTRY key of
        None \<Rightarrow> (Inl KeyError, s)
      | Some d \<Rightarrow>
          (let (r, db) = run_uow (\<lambda>db. Inr
             ([(''items'', JList (map (\<lambda>r. JDict (serialize_revision r)) (list_config_revisions key lim db)))], db))
             (fst s)
           in (r, (db, snd s))))"

subsection \<open>Changing a setting\<close>

definition setting_conflict_message :: string where
  "setting_conflict_message = text_of [0x8BBE, 0x7F6E, 0x5DF2, 0x88AB, 0x5176, 0x4ED6, 0x7BA1, 0x7406, 0x5458, 0x4FEE,
     0x6539, 0xFF0C, 0x8BF7, 0x5237, 0x65B0, 0x540E, 0x91CD, 0x8BD5]"

definition latest_conflict_message :: string where
  "latest_conflict_message = text_of [0x8BBE, 0x7F6E, 0x66F4, 0x65B0, 0x51B2, 0x7A81]"

definition new_setting_row :: "clock \<Rightarrow> setting_definition \<Rightarrow> jval \<Rightarrow> int \<Rightarrow> string \<Rightarrow> string \<Rightarrow> setting_row" where
  "new_setting_row clk d v revision kind identifier =
     \<lparr>set_key = sd_key d, set_value = json_dumps v, set_value_type = sd_value_type d,
      set_is_secret = False, set_revision = revision, set_updated_by_kind = kind,
      set_updated_by_id = identifier, set_created_at = now_utc clk, set_updated_at = now_utc clk\<rparr>"

definition changed_setting_row :: "clock \<Rightarrow> setting_definition \<Rightarrow> jval \<Rightarrow> int \<Rightarrow> actor \<Rightarrow> setting_row \<Rightarrow> setting_row" where
  "changed_setting_row clk d v revision actor row =
     row\<lparr>set_value := json_dumps v, set_value_type := sd_value_type d, set_revision := revision,
         set_updated_by_kind := actor_kind actor, set_updated_by_id := actor_identifier actor,
         set_updated_at := now_utc clk\<rparr>"

definition put_setting ::
  "clock \<Rightarrow> setting_definition \<Rightarrow> jval \<Rightarrow> actor \<Rightarrow> string \<Rightarrow> setting_row option \<Rightarrow> jval \<Rightarrow>
   'z core_db_scheme \<Rightarrow> setting_row \<times> 'z core_db_scheme" where
  \<comment> \<open>the writes of \<open>update\<close>, with the row found and the value it replaces\<close>
  "put_setting clk d v actor action row old_value db =
     (let key = sd_key d;
          revision = (case row of None \<Rightarrow> 0 | Some r \<Rightarrow> set_revision r) + 1;
          row' = (case row of
              None \<Rightarrow> new_setting_row clk d v revision (actor_kind actor) (actor_identifier actor)
            | Some r \<Rightarrow> changed_setting_row clk d v revision actor r);
          db1 = (if row = None then add_dynamic_setting row' db else save_dynamic_setting row' db);
          db2 = add_config_revision
            (\<lambda>i. \<lparr>rev_id = i, rev_setting_key = key, rev_revision = revision,
                  rev_old_value = Some (json_dumps old_value), rev_new_value = json_dumps v,
                  rev_actor_kind = actor_kind actor, rev_actor_id = actor_identifier actor,
                  rev_created_at = now_utc clk\<rparr>) db1;
          db3 = audit_success clk actor action ''dynamic_setting'' (Some key)
            (Some (JDict [(''revision'', JInt revision), (''restart_required'', JBool (sd_restart_required d)),
                          (''old_value'', old_value), (''new_value'', v)])) db2
      in (row', event clk ''setting.updated'' ''setting'' (Some key)
            (Some (JDict [(''resource_type'', JStr ''dynamic_setting''), (''resource_id'', JStr key),
                          (''revision'', JInt revision),
                          (''restart_required'', JBool (sd_restart_required d))])) db3))"

definition setting_update ::
  "clock \<Rightarrow> string \<Rightarrow> jval \<Rightarrow> int \<Rightarrow> actor \<Rightarrow> string \<Rightarrow> 'z governed \<Rightarrow> (jdict, 'z governed) outcome" where
  "setting_update clk key value0 expected_revision actor action s =
     (case SETTING_REGISTRY key of
        None \<Rightarrow> (Inl KeyError, s)
      | Some d \<Rightarrow>
          (case validate_setting d value0 of
             Inl e \<Rightarrow> (Inl e, s)
           | Inr v \<Rightarrow>
               (case run_uow (\<lambda>db.
                  let row = get_dynamic_setting key db;
                      current = (case row of None \<Rightarrow> 0 | Some r \<Rightarrow> set_revision r)
                  in if expected_revision \<noteq> current then Inl (RuntimeError setting_conflict_message)
                     else
                       let old_value = (case row of None \<Rightarrow> runtime_value (snd s) d | Some r \<Rightarrow> set_value r);
                           (row', db') = put_setting clk d v actor action row old_value db
                       in if integrity db' then Inr (serialize_setting (snd s) d (Some row'), db')
                          else Inl (RuntimeError setting_conflict_message)) (fst s) of
                  (Inl e, db) \<Rightarrow> (Inl e, (db, snd s))
                | (Inr res, db) \<Rightarrow> (Inr res, (db, write_runtime_value d v (snd s))))))"

definition setting_rollback ::
  "clock \<Rightarrow> string \<Rightarrow> int \<Rightarrow> int \<Rightarrow> actor \<Rightarrow> 'z governed \<Rightarrow> (jdict, 'z governed) outcome" where
  "setting_rollback clk key target_revision expected_revision actor s =
     (case SETTING_REGISTRY key of
        None \<Rightarrow> (Inl KeyError, s)
      | Some d \<Rightarrow>
          (case run_uow (\<lambda>db. case get_config_revision key target_revision db of
                    None \<Rightarrow> Inl KeyError
                  | Some target \<Rightarrow> Inr (rev_new_value target, db)) (fst s) of
             (Inl e, db) \<Rightarrow> (Inl e, (db, snd s))
           | (Inr v, db) \<Rightarrow> setting_update clk key v expected_revision actor ''setting.rollback'' (db, snd s)))"

subsection \<open>Changing a setting whatever its revision\<close>

text \<open>
  \<open>update_latest\<close> reads the revision in one transaction and writes in the next, again if someone else
  was faster. What the others do before an attempt and between its two transactions is an argument.
\<close>

definition revision_of :: "jdict \<Rightarrow> int" where
  "revision_of view = (case map_of view ''revision'' of Some (JInt n) \<Rightarrow> n | _ \<Rightarrow> 0)"

fun update_attempts ::
  "(nat \<Rightarrow> clock) \<Rightarrow> (nat \<Rightarrow> 'z governed \<Rightarrow> 'z governed) \<Rightarrow> (nat \<Rightarrow> 'z governed \<Rightarrow> 'z governed) \<Rightarrow>
   string \<Rightarrow> jval \<Rightarrow> actor \<Rightarrow> string \<Rightarrow> int \<Rightarrow> nat list \<Rightarrow> 'z governed \<Rightarrow> (jdict, 'z governed) outcome" where
  "update_attempts clk before amid key v actor action retries [] s =
     (Inl (RuntimeError latest_conflict_message), s)"
| "update_attempts clk before amid key v actor action retries (k # ks) s =
     (case settings_get key (before k s) of
        (Inl e, s1) \<Rightarrow> (Inl e, s1)
      | (Inr current, s1) \<Rightarrow>
          (case setting_update (clk k) key v (revision_of current) actor action (amid k s1) of
             (Inl (RuntimeError m), s2) \<Rightarrow>
               if retries \<le> int k then (Inl (RuntimeError m), s2)
               else update_attempts clk before amid key v actor action retries ks s2
           | other \<Rightarrow> other))"

definition update_latest ::
  "(nat \<Rightarrow> clock) \<Rightarrow> (nat \<Rightarrow> 'z governed \<Rightarrow> 'z governed) \<Rightarrow> (nat \<Rightarrow> 'z governed \<Rightarrow> 'z governed) \<Rightarrow>
   string \<Rightarrow> jval \<Rightarrow> actor \<Rightarrow> string \<Rightarrow> int \<Rightarrow> 'z governed \<Rightarrow> (jdict, 'z governed) outcome" where
  "update_latest clk before amid key v actor action retries s =
     update_attempts clk before amid key v actor action retries [0..<nat (max 0 retries) + 1] s"

subsection \<open>Start of a process\<close>

fun materialize_missing ::
  "clock \<Rightarrow> runtime \<Rightarrow> string set \<Rightarrow> setting_definition list \<Rightarrow> string list \<times> 'z core_db_scheme \<Rightarrow>
   (string list \<times> 'z core_db_scheme) attempt" where
  "materialize_missing clk rt saved [] acc = Inr acc"
| "materialize_missing clk rt saved (d # ds) (created, db) =
     (if sd_key d \<in> saved then materialize_missing clk rt saved ds (created, db)
      else bind_attempt (validate_setting d (runtime_value rt d)) (\<lambda>v.
        let db' = add_dynamic_setting (new_setting_row clk d v 1 ''system'' ''config-import'') db
        in \<comment> \<open>a savepoint: the key may have come from another process\<close>
           if integrity db' then materialize_missing clk rt saved ds (created @ [sd_key d], db')
           else materialize_missing clk rt saved ds (created, db)))"

definition materialize_defaults :: "clock \<Rightarrow> 'z governed \<Rightarrow> (string list, 'z governed) outcome" where
  "materialize_defaults clk s =
     (let (r, db) = run_uow (\<lambda>db.
        bind_attempt (materialize_missing clk (snd s) (set_key ` set (settings db)) SETTING_DEFINITIONS ([], db))
          (\<lambda>(created, db1).
            Inr (created,
              if created = [] then db1
              else audit_success clk (actor_system ''config-import'') ''settings.materialize'' ''dynamic_setting''
                None (Some (JDict [(''count'', JInt (int (length created)))])) db1))) (fst s)
      in (r, (db, snd s)))"

text \<open>The overrides are written one by one: those in front of a row that is not valid stay.\<close>

fun apply_rows :: "setting_row list \<Rightarrow> string list \<Rightarrow> runtime \<Rightarrow> string list attempt \<times> runtime" where
  "apply_rows [] applied rt = (Inr applied, rt)"
| "apply_rows (r # rs) applied rt =
     (case SETTING_REGISTRY (set_key r) of
        None \<Rightarrow> apply_rows rs applied rt
      | Some d \<Rightarrow>
          (case validate_setting d (set_value r) of
             Inl e \<Rightarrow> (Inl e, rt)
           | Inr v \<Rightarrow> apply_rows rs (applied @ [set_key r]) (write_runtime_value d v rt)))"

definition apply_runtime_overrides :: "'z governed \<Rightarrow> (string list, 'z governed) outcome" where
  "apply_runtime_overrides s =
     (let (applied, rt) = apply_rows (list_dynamic_settings (fst s)) [] (snd s);
          (r, db) = run_uow (\<lambda>db. bind_attempt applied (\<lambda>keys. Inr (keys, db))) (fst s)
      in (r, (db, rt)))"

end
