(* ===== verification/Governance_Properties.thy ===== *)
theory Governance_Properties
  imports Settings_Service Frames Samples
begin

section \<open>Properties of settings and security events\<close>

text \<open>
  A setting is a register with a revision that is written by compare and set; its history is complete
  and linked; an earlier revision can be restored; a write that retries comes to an end. Security
  events keep the times and handlers their status demands, and the summary counts each of them once.
\<close>

subsection \<open>What an update writes\<close>

lemma put_setting_key:
  assumes "put_setting clk d v a act row old db = (r', db')" "row = get_dynamic_setting (sd_key d) db"
  shows "set_key r' = sd_key d" "set_revision r' = (case row of None \<Rightarrow> 0 | Some r \<Rightarrow> set_revision r) + 1"
    "set_value r' = json_dumps v" "set_value_type r' = sd_value_type d"
  using assms setting_repo.get_key [of "sd_key d" db]
  by (auto simp: put_setting_def Let_def new_setting_row_def changed_setting_row_def split: option.splits)

lemma put_setting_tables:
  assumes "put_setting clk d v a act row old db = (r', db')"
  shows "settings db' = (if row = None then settings db @ [r'] else tbl_put set_key r' (settings db))"
    "rows (revisions db') = rows (revisions db) @
       [\<lparr>rev_id = next_id (revisions db), rev_setting_key = sd_key d, rev_revision = set_revision r',
         rev_old_value = Some (json_dumps old), rev_new_value = json_dumps v,
         rev_actor_kind = actor_kind a, rev_actor_id = actor_identifier a, rev_created_at = now_utc clk\<rparr>]"
    "securities db' = securities db"
  using assms
  by (auto simp: put_setting_def Let_def op_defs new_setting_row_def changed_setting_row_def split: option.splits)

lemma integrity_settings:
  assumes "integrity db" "distinct (map set_key ss)"
  shows "integrity (db\<lparr>settings := ss\<rparr>)"
  using assms by (simp add: integrity_def)

lemma integrity_unkeyed [simp]:
  "integrity (add_config_revision mk db) = integrity db"
  "integrity (audit clk ac an rt rid oc dt rq db) = integrity db"
  "integrity (event clk et at ai p db) = integrity db"
  "integrity (save_security_event r db) = integrity db"
  by (simp_all add: integrity_def audit_def event_def op_defs)

lemma put_setting_integrity:
  assumes "integrity db" and row: "row = get_dynamic_setting (sd_key d) db"
    and "put_setting clk d v a act row old db = (r', db')"
  shows "integrity db'"
proof -
  note key = put_setting_key(1) [OF assms(3) row]
  have "distinct (map set_key (settings db))" using assms(1) by (simp add: integrity_def)
  then have "integrity (if row = None then add_dynamic_setting r' db else save_dynamic_setting r' db)"
    using assms(1) row key
    by (auto simp: op_defs tbl_get_None intro!: integrity_settings)
  then show ?thesis using assms(3) by (auto simp: put_setting_def Let_def)
qed

definition setting_revision :: "string \<Rightarrow> 'z core_db_scheme \<Rightarrow> int" where
  "setting_revision key db = (case get_dynamic_setting key db of None \<Rightarrow> 0 | Some r \<Rightarrow> set_revision r)"

definition replaced_value :: "runtime \<Rightarrow> setting_definition \<Rightarrow> 'z core_db_scheme \<Rightarrow> jval" where
  "replaced_value rt d db =
     (case get_dynamic_setting (sd_key d) db of None \<Rightarrow> runtime_value rt d | Some r \<Rightarrow> set_value r)"

definition setting_put ::
  "clock \<Rightarrow> setting_definition \<Rightarrow> jval \<Rightarrow> actor \<Rightarrow> string \<Rightarrow> 'z governed \<Rightarrow> setting_row \<times> 'z core_db_scheme" where
  "setting_put clk d v a act s =
     put_setting clk d v a act (get_dynamic_setting (sd_key d) (fst s)) (replaced_value (snd s) d (fst s)) (fst s)"

lemma setting_update_registered:
  assumes "integrity (fst s)" and d: "SETTING_REGISTRY key = Some d"
  shows "setting_update clk key v e a act s =
    (if \<not> setting_value_ok d v then (Inl (projl (validate_setting d v)), s)
     else if e \<noteq> setting_revision key (fst s) then (Inl (RuntimeError setting_conflict_message), s)
     else (let (r', db') = setting_put clk d v a act s
           in (Inr (serialize_setting (snd s) d (Some r')), (db', write_runtime_value d v (snd s)))))"
proof -
  note sound = registry_sound [OF d]
  obtain r' db' where put: "setting_put clk d v a act s = (r', db')" by fastforce
  have good: "integrity db'"
    by (rule put_setting_integrity [OF assms(1) refl put [unfolded setting_put_def]])
  show ?thesis
  proof (cases "setting_value_ok d v")
    case True
    with sound have "validate_setting d v = Inr v" by (simp add: validate_setting_Inr)
    then show ?thesis using True d sound(3) put good
      by (cases s; cases "get_dynamic_setting key (fst s)")
        (auto simp: setting_update_def setting_revision_def setting_put_def replaced_value_def run_uow_def)
  next
    case False
    with sound obtain err where "validate_setting d v = Inl err"
      by (cases "validate_setting d v") (auto simp: validate_setting_Inr)
    then show ?thesis using False d by (simp add: setting_update_def)
  qed
qed


lemma setting_put_view:
  assumes "setting_put clk d v a act s = (r', db')" "setting_value_ok d v"
  shows "get_dynamic_setting (sd_key d) db' = Some r'" "set_value r' = v"
    "set_revision r' = setting_revision (sd_key d) (fst s) + 1" "set_key r' = sd_key d"
    "k \<noteq> sd_key d \<Longrightarrow> get_dynamic_setting k db' = get_dynamic_setting k (fst s)"
proof -
  note put = assms(1) [unfolded setting_put_def]
  note key = put_setting_key [OF put refl]
  show "set_key r' = sd_key d" by (rule key)
  show "set_value r' = v" using key setting_value_dumps [OF assms(2)] by simp
  show "set_revision r' = setting_revision (sd_key d) (fst s) + 1" using key by (simp add: setting_revision_def)
  show "get_dynamic_setting (sd_key d) db' = Some r'"
    using put_setting_tables(1) [OF put] key(1)
    by (auto simp: get_dynamic_setting_def tbl_get_append tbl_get_put_same [of set_key r', simplified key(1)] split: if_splits)
  show "k \<noteq> sd_key d \<Longrightarrow> get_dynamic_setting k db' = get_dynamic_setting k (fst s)"
    using put_setting_tables(1) [OF put] key(1)
    by (auto simp: get_dynamic_setting_def tbl_get_append tbl_get_put_other split: option.splits)
qed

subsection \<open>Settings as registers\<close>

text \<open>The abstract store: a revision and a value for each key that has been written.\<close>

type_synonym registers = "string \<Rightarrow> (int \<times> jval) option"

definition registers_of :: "'z core_db_scheme \<Rightarrow> registers" where
  "registers_of db key = map_option (\<lambda>r. (set_revision r, set_value r)) (get_dynamic_setting key db)"

definition register_revision :: "string \<Rightarrow> registers \<Rightarrow> int" where
  "register_revision key m = (case m key of None \<Rightarrow> 0 | Some (n, v) \<Rightarrow> n)"

definition compare_and_set :: "string \<Rightarrow> int \<Rightarrow> jval \<Rightarrow> registers \<Rightarrow> registers option" where
  "compare_and_set key expected v m =
     (if expected = register_revision key m then Some (m(key \<mapsto> (expected + 1, v))) else None)"

lemma register_revision_of [simp]: "register_revision key (registers_of db) = setting_revision key db"
  by (simp add: register_revision_def registers_of_def setting_revision_def split: option.splits)

lemma setting_put_registers:
  assumes "setting_put clk d v a act s = (r', db')" "setting_value_ok d v"
  shows "registers_of db' = (registers_of (fst s))(sd_key d \<mapsto> (setting_revision (sd_key d) (fst s) + 1, v))"
  using setting_put_view [OF assms] by (auto simp: registers_of_def fun_eq_iff)

lemma serialize_setting_fields:
  "map_of (serialize_setting rt d (Some r)) ''value'' = Some (set_value r)"
  "map_of (serialize_setting rt d (Some r)) ''revision'' = Some (JInt (set_revision r))"
  by (simp_all add: serialize_setting_def)

definition kept_in_process :: "runtime \<Rightarrow> setting_definition \<Rightarrow> bool" where
  \<comment> \<open>whether the running process has a place for the setting\<close>
  "kept_in_process rt d = (case rt of Values vs \<Rightarrow> True | Attributes ats \<Rightarrow> sd_runtime_path d \<noteq> [])"

lemma written_runtime_value: "kept_in_process rt d \<Longrightarrow> runtime_value (write_runtime_value d v rt) d = v"
  by (cases rt) (auto simp: kept_in_process_def)

text \<open>C31: Settings are registers written by compare and set. An update of a registered key with a value
  that its definition allows succeeds exactly when the expected revision is the current one (0 for a
  setting never stored); it then stores the value with the next revision, answers both, leaves every
  other key alone and hands the value to the running process. A conflict, an unknown key and a value
  out of range raise and change nothing.\<close>

theorem settings_are_registers:
  assumes "integrity (fst s)" "setting_update clk key v expected a act s = (r, s')"
  shows "case SETTING_REGISTRY key of
      None \<Rightarrow> r = Inl KeyError \<and> s' = s
    | Some d \<Rightarrow>
        if \<not> setting_value_ok d v then (\<exists>m. r = Inl (ValueError m)) \<and> s' = s
        else (case compare_and_set key expected v (registers_of (fst s)) of
            None \<Rightarrow> r = Inl (RuntimeError setting_conflict_message) \<and> s' = s
          | Some m \<Rightarrow>
              registers_of (fst s') = m \<and>
              (\<exists>view. r = Inr view \<and> map_of view ''value'' = Some v \<and>
                 map_of view ''revision'' = Some (JInt (expected + 1))) \<and>
              snd s' = write_runtime_value d v (snd s) \<and>
              (if kept_in_process (snd s) d then runtime_value (snd s') d = v else snd s' = snd s))"
proof (cases "SETTING_REGISTRY key")
  case None
  then show ?thesis using assms by (simp add: setting_update_def)
next
  case (Some d)
  note key = registry_sound(3) [OF Some]
  obtain r' db' where put: "setting_put clk d v a act s = (r', db')" by fastforce
  note upd = setting_update_registered [OF assms(1) Some, of clk v expected a act, unfolded assms(2) put prod.case]
  have bad: "\<not> setting_value_ok d v \<Longrightarrow> \<exists>m. projl (validate_setting d v) = ValueError m"
    using validate_setting_Inr [OF registry_sound(1) [OF Some], of v v] validate_setting_error [of d v]
    by (cases "validate_setting d v") (auto simp: validate_setting_Inr [OF registry_sound(1) [OF Some]])
  have unkept: "\<not> kept_in_process (snd s) d \<Longrightarrow> write_runtime_value d v (snd s) = snd s"
    by (cases "snd s") (auto simp: kept_in_process_def)
  show ?thesis
  proof (cases "setting_value_ok d v")
    case True
    then show ?thesis
      using upd Some key setting_put_registers [OF put True] setting_put_view(2,3) [OF put True] unkept
      by (auto simp: compare_and_set_def serialize_setting_fields written_runtime_value)
  qed (use upd Some bad in auto)
qed

definition sample_setting :: setting_definition where
  "sample_setting = SETTING_DEFINITIONS ! 37"

lemma sample_setting:
  "SETTING_REGISTRY ''requests.daily_limit'' = Some sample_setting"
  "sd_value_type sample_setting = ''integer''" "sd_minimum sample_setting = Some 0"
  "sd_maximum sample_setting = Some 1000"
  using registry_at [of 37 "''requests.daily_limit''" "''integer''" "JInt 0" "Some 0" "Some 1000"]
  by (simp_all add: setting_summaries sample_setting_def)

lemma sample_value_ok: "setting_value_ok sample_setting (JInt n) \<longleftrightarrow> 0 \<le> n \<and> n \<le> 1000"
  by (simp add: setting_value_ok_def sample_setting)

lemma sample_db_integrity: "integrity sample_db"
  by (simp add: integrity_def sample_defs)

definition sample_governed :: "unit governed" where
  "sample_governed = (sample_db, Values Map.empty)"

lemma sample_registers: "registers_of (fst sample_governed) = Map.empty" "integrity (fst sample_governed)"
  by (simp_all add: sample_governed_def registers_of_def get_dynamic_setting_def sample_defs sample_db_integrity
      fun_eq_iff) (use sample_db_integrity in \<open>simp add: sample_defs\<close>)

lemma settings_are_registers_witness:
  "registers_of (fst (snd (setting_update sample_clock ''requests.daily_limit'' (JInt 3) 0 sample_actor
      ''setting.update'' sample_governed))) ''requests.daily_limit'' = Some (1, JInt 3)"
proof -
  let ?r = "setting_update sample_clock ''requests.daily_limit'' (JInt 3) 0 sample_actor ''setting.update'' sample_governed"
  have "?r = (fst ?r, snd ?r)" by simp
  from settings_are_registers [OF sample_registers(2) this] show ?thesis
    by (simp add: sample_setting(1) sample_value_ok sample_registers compare_and_set_def register_revision_def)
qed

subsection \<open>Sequences of calls\<close>

datatype setting_call =
    ListSettings
  | GetSetting string
  | SettingHistory string int
  | UpdateSetting clock string jval int actor string
  | RollbackSetting clock string int int actor
  | MaterializeDefaults clock
  | ApplyOverrides

fun setting_after :: "setting_call \<Rightarrow> 'z governed \<Rightarrow> 'z governed" where
  "setting_after ListSettings s = snd (settings_list s)"
| "setting_after (GetSetting k) s = snd (settings_get k s)"
| "setting_after (SettingHistory k n) s = snd (settings_history k n s)"
| "setting_after (UpdateSetting clk k v e a act) s = snd (setting_update clk k v e a act s)"
| "setting_after (RollbackSetting clk k t e a) s = snd (setting_rollback clk k t e a s)"
| "setting_after (MaterializeDefaults clk) s = snd (materialize_defaults clk s)"
| "setting_after ApplyOverrides s = snd (apply_runtime_overrides s)"

definition settings_run :: "setting_call list \<Rightarrow> 'z governed \<Rightarrow> 'z governed" where
  "settings_run calls s = fold setting_after calls s"

text \<open>A call of \<open>update_latest\<close> is interleaved with the calls of other administrators.\<close>

datatype admin_call =
    Plain setting_call
  | Retried "nat \<Rightarrow> clock" "nat \<Rightarrow> setting_call list" "nat \<Rightarrow> setting_call list" string jval actor string int

definition retried_update ::
  "(nat \<Rightarrow> clock) \<Rightarrow> (nat \<Rightarrow> setting_call list) \<Rightarrow> (nat \<Rightarrow> setting_call list) \<Rightarrow> string \<Rightarrow> jval \<Rightarrow>
   actor \<Rightarrow> string \<Rightarrow> int \<Rightarrow> 'z governed \<Rightarrow> (jdict, 'z governed) outcome" where
  "retried_update clk before amid =
     update_latest clk (\<lambda>k. settings_run (before k)) (\<lambda>k. settings_run (amid k))"

fun admin_after :: "admin_call \<Rightarrow> 'z governed \<Rightarrow> 'z governed" where
  "admin_after (Plain c) s = setting_after c s"
| "admin_after (Retried clk before amid k v a act n) s = snd (retried_update clk before amid k v a act n s)"

definition admin_run :: "admin_call list \<Rightarrow> 'z governed \<Rightarrow> 'z governed" where
  "admin_run calls s = fold admin_after calls s"

text \<open>What every update keeps, every call keeps.\<close>

locale setting_invariant =
  fixes good :: "'z core_db_scheme \<Rightarrow> bool"
  assumes good_integrity: "good db \<Longrightarrow> integrity db"
    and good_put: "good (fst s) \<Longrightarrow> SETTING_REGISTRY (sd_key d) = Some d \<Longrightarrow> setting_value_ok d v \<Longrightarrow>
      setting_put clk d v a act s = (r', db') \<Longrightarrow> good db'"
    and good_import: "good db \<Longrightarrow> SETTING_REGISTRY (sd_key d) = Some d \<Longrightarrow> setting_value_ok d v \<Longrightarrow>
      get_dynamic_setting (sd_key d) db = None \<Longrightarrow>
      good (add_dynamic_setting (new_setting_row clk d v 1 kind identifier) db)"
    and good_audit: "good db \<Longrightarrow> good (audit clk ac an rt rid oc dt rq db)"
begin

lemma good_update: "good (fst s) \<Longrightarrow> good (fst (snd (setting_update clk key v e a act s)))"
proof (cases "SETTING_REGISTRY key")
  case (Some d)
  assume good: "good (fst s)"
  obtain r' db' where put: "setting_put clk d v a act s = (r', db')" by fastforce
  have "SETTING_REGISTRY (sd_key d) = Some d" using Some registry_sound(3) [OF Some] by simp
  from good_put [OF good this _ put]
  show ?thesis using good by (simp add: setting_update_registered [OF good_integrity [OF good] Some] put)
qed (simp add: setting_update_def)

lemma good_rollback: "good (fst s) \<Longrightarrow> good (fst (snd (setting_rollback clk key t e a s)))"
  using good_update
  by (auto simp: setting_rollback_def run_uow_def good_integrity split: option.splits)

lemma reads_keep [simp]:
  "snd (settings_list s) = s" "snd (settings_get key s) = s" "snd (settings_history key n s) = s"
  by (cases s; simp add: settings_list_def settings_get_def settings_history_def run_uow_def Let_def split: option.splits)+

lemma good_missing:
  "good db \<Longrightarrow> (\<forall>d \<in> set ds. SETTING_REGISTRY (sd_key d) = Some d) \<Longrightarrow>
   materialize_missing clk rt saved ds (created, db) = Inr (created', db') \<Longrightarrow> good db'"
proof (induction ds arbitrary: created db)
  case (Cons d ds)
  show ?case
  proof (cases "sd_key d \<in> saved")
    case False
    with Cons.prems(3) obtain v where v: "validate_setting d (runtime_value rt d) = Inr v"
      by (auto simp: bind_attempt_Inr_iff)
    let ?db = "add_dynamic_setting (new_setting_row clk d v 1 ''system'' ''config-import'') db"
    have reg: "SETTING_REGISTRY (sd_key d) = Some d" using Cons.prems(2) by simp
    have ok: "setting_value_ok d v"
      using v registry_sound(1) [OF reg] by (auto simp: validate_setting_Inr)
    have "integrity ?db \<Longrightarrow> get_dynamic_setting (sd_key d) db = None"
      by (auto simp: integrity_def op_defs new_setting_row_def tbl_get_None)
    then have "integrity ?db \<Longrightarrow> good ?db" using good_import [OF Cons.prems(1) reg ok] by simp
    then show ?thesis using Cons.IH Cons.prems False v by (cases "integrity ?db") (auto simp: Let_def)
  qed (use Cons in auto)
qed simp

lemma good_materialize: "good (fst s) \<Longrightarrow> good (fst (snd (materialize_defaults clk s)))"
  using good_missing [of "fst s" SETTING_DEFINITIONS clk "snd s"] registry_members good_audit
  by (auto simp: materialize_defaults_def run_uow_def bind_attempt_Inr_iff bind_attempt_def Let_def split: sum.splits prod.splits)

lemma overrides_keep: "fst (snd (apply_runtime_overrides s)) = fst s"
  by (auto simp: apply_runtime_overrides_def run_uow_def bind_attempt_def Let_def split: sum.splits prod.splits)

lemma good_setting_after: "good (fst s) \<Longrightarrow> good (fst (setting_after c s))"
  by (cases c) (simp_all add: good_update good_rollback good_materialize overrides_keep)

lemma good_settings_run: "good (fst s) \<Longrightarrow> good (fst (settings_run calls s))"
  unfolding settings_run_def by (induction calls arbitrary: s) (simp_all add: good_setting_after)

lemma good_attempts:
  "good (fst s) \<Longrightarrow> good (fst (snd (update_attempts clk (\<lambda>k. settings_run (before k)) (\<lambda>k. settings_run (amid k))
     key v a act n ks s)))"
proof (induction ks arbitrary: s)
  case (Cons k ks)
  let ?s = "settings_run (amid k) (settings_run (before k) s)"
  have good: "good (fst (settings_run (before k) s))" "good (fst ?s)"
    using Cons.prems by (simp_all add: good_settings_run)
  obtain r s1 where get: "settings_get key (settings_run (before k) s) = (r, s1)" by (meson surj_pair)
  then have s1: "s1 = settings_run (before k) s" using reads_keep(2) [of key "settings_run (before k) s"] by simp
  show ?case
    using good Cons.IH good_update [of ?s] get s1
    by (auto split: sum.splits exn.splits prod.splits) (metis prod.collapse snd_conv fst_conv)+
qed simp

lemma good_admin_run: "good (fst s) \<Longrightarrow> good (fst (admin_run calls s))"
proof -
  have "good (fst s) \<Longrightarrow> good (fst (admin_after c s))" for c s
    by (cases c) (simp_all add: good_setting_after retried_update_def update_latest_def good_attempts)
  then show "good (fst s) \<Longrightarrow> good (fst (admin_run calls s))"
    unfolding admin_run_def by (induction calls arbitrary: s) simp_all
qed

end

subsection \<open>The history of a setting\<close>

definition history_of :: "string \<Rightarrow> 'z core_db_scheme \<Rightarrow> revision_row list" where
  "history_of key db = filter (\<lambda>r. rev_setting_key r = key) (rows (revisions db))"

fun linked :: "revision_row list \<Rightarrow> bool" where
  \<comment> \<open>consecutive revisions, each starting from the value the one before wrote\<close>
  "linked (a # b # rs) =
     (rev_revision b = rev_revision a + 1 \<and> rev_old_value b = Some (rev_new_value a) \<and> linked (b # rs))"
| "linked rs = True"

lemma linked_append:
  "linked (rs @ [r]) \<longleftrightarrow> linked rs \<and>
     (rs = [] \<or> rev_revision r = rev_revision (last rs) + 1 \<and> rev_old_value r = Some (rev_new_value (last rs)))"
  by (induction rs rule: linked.induct) auto

lemma linked_Cons: "linked (a # rs) \<Longrightarrow> linked rs"
  by (cases rs) auto

lemma linked_above: "linked (a # rs) \<Longrightarrow> r \<in> set rs \<Longrightarrow> rev_revision a < rev_revision r"
  by (induction rs arbitrary: a) fastforce+

lemma linked_distinct: "linked rs \<Longrightarrow> distinct (map rev_revision rs)"
  by (induction rs) (auto dest: linked_above linked_Cons)

definition recorded :: "setting_row \<Rightarrow> revision_row list \<Rightarrow> bool" where
  \<comment> \<open>the first value may have been imported, which leaves no history\<close>
  "recorded r h =
     (if h = [] then set_revision r = 1
      else linked h \<and> rev_revision (last h) = set_revision r \<and> rev_new_value (last h) = set_value r \<and>
           rev_revision (hd h) \<in> {1, 2})"

definition setting_typed :: "setting_row \<Rightarrow> bool" where
  "setting_typed r =
     (case SETTING_REGISTRY (set_key r) of
        None \<Rightarrow> False
      | Some d \<Rightarrow> setting_value_ok d (set_value r) \<and> set_value_type r = sd_value_type d)"

definition settings_sound :: "'z core_db_scheme \<Rightarrow> bool" where
  "settings_sound db =
     (integrity db \<and>
      (\<forall>key. case get_dynamic_setting key db of
               None \<Rightarrow> history_of key db = []
             | Some r \<Rightarrow> setting_typed r \<and> recorded r (history_of key db)))"

lemma settings_sound_None:
  "settings_sound db \<Longrightarrow> get_dynamic_setting key db = None \<Longrightarrow> history_of key db = []"
  unfolding settings_sound_def by (drule conjunct2, drule spec [where x = key]) simp

lemma settings_sound_Some:
  "settings_sound db \<Longrightarrow> get_dynamic_setting key db = Some r \<Longrightarrow>
   setting_typed r \<and> recorded r (history_of key db)"
  unfolding settings_sound_def by (drule conjunct2, drule spec [where x = key]) simp

lemma history_frame [simp]:
  "history_of key (audit clk ac an rt rid oc dt rq db) = history_of key db"
  "history_of key (add_dynamic_setting row db) = history_of key db"
  "get_dynamic_setting key (audit clk ac an rt rid oc dt rq db) = get_dynamic_setting key db"
  by (simp_all add: history_of_def op_defs)

lemma history_put:
  assumes "setting_put clk d v a act s = (r', db')"
  shows "history_of key db' = history_of key (fst s) @ (if key = sd_key d then
    [\<lparr>rev_id = next_id (revisions (fst s)), rev_setting_key = sd_key d, rev_revision = set_revision r',
      rev_old_value = Some (json_dumps (replaced_value (snd s) d (fst s))), rev_new_value = json_dumps v,
      rev_actor_kind = actor_kind a, rev_actor_id = actor_identifier a, rev_created_at = now_utc clk\<rparr>] else [])"
  using put_setting_tables(2) [OF assms [unfolded setting_put_def]] by (simp add: history_of_def)

lemma typed_put:
  assumes "SETTING_REGISTRY (sd_key d) = Some d" "setting_value_ok d v"
    "setting_put clk d v a act s = (r', db')"
  shows "setting_typed r'"
  using assms put_setting_key [OF assms(3) [unfolded setting_put_def] refl] setting_value_dumps [OF assms(2)]
  by (simp add: setting_typed_def)

lemma recorded_put:
  assumes sound: "settings_sound (fst s)" and "setting_value_ok d v"
    and put: "setting_put clk d v a act s = (r', db')"
  shows "recorded r' (history_of (sd_key d) db')"
proof -
  note view = setting_put_view [OF put assms(2)] and dumps = setting_value_dumps [OF assms(2)]
  show ?thesis
  proof (cases "get_dynamic_setting (sd_key d) (fst s)")
    case None
    then have "history_of (sd_key d) (fst s) = []" using sound by (simp add: settings_sound_None)
    then show ?thesis using None view dumps by (simp add: recorded_def history_put [OF put] setting_revision_def)
  next
    case (Some r)
    then have old: "setting_typed r" "recorded r (history_of (sd_key d) (fst s))"
      using settings_sound_Some [OF sound] by simp_all
    then have same: "json_dumps (set_value r) = set_value r"
      by (auto simp: setting_typed_def setting_value_dumps split: option.splits)
    show ?thesis using Some view dumps old(2) same
      by (auto simp: recorded_def history_put [OF put] setting_revision_def linked_append replaced_value_def
          split: if_splits)
  qed
qed

interpretation settings: setting_invariant settings_sound
proof
  fix db :: "'z core_db_scheme"
  show "integrity db" if "settings_sound db" using that by (simp add: settings_sound_def)
next
  fix s :: "'z governed" and d v clk a act r' db'
  assume sound: "settings_sound (fst s)" and reg: "SETTING_REGISTRY (sd_key d) = Some d"
    and ok: "setting_value_ok d v" and put: "setting_put clk d v a act s = (r', db')"
  have "integrity db'"
    using put_setting_integrity [OF _ refl put [unfolded setting_put_def]] sound by (simp add: settings_sound_def)
  moreover have "case get_dynamic_setting key db' of None \<Rightarrow> history_of key db' = []
      | Some r \<Rightarrow> setting_typed r \<and> recorded r (history_of key db')" for key
  proof (cases "key = sd_key d")
    case True
    then show ?thesis using setting_put_view(1) [OF put ok] typed_put [OF reg ok put] recorded_put [OF sound ok put] by simp
  next
    case False
    then have "history_of key db' = history_of key (fst s)" by (simp add: history_put [OF put])
    then show ?thesis
      using setting_put_view(5) [OF put ok False] settings_sound_None [OF sound] settings_sound_Some [OF sound]
      by (simp split: option.split)
  qed
  ultimately show "settings_sound db'" by (simp add: settings_sound_def)
next
  fix db :: "'z core_db_scheme" and d v clk kind ident
  let ?r = "new_setting_row clk d v 1 kind ident"
  assume sound: "settings_sound db" and reg: "SETTING_REGISTRY (sd_key d) = Some d"
    and ok: "setting_value_ok d v" and new: "get_dynamic_setting (sd_key d) db = None"
  have r: "set_key ?r = sd_key d" "set_revision ?r = 1" "setting_typed ?r"
    using reg ok setting_value_dumps [OF ok] by (simp_all add: new_setting_row_def setting_typed_def)
  have "integrity (add_dynamic_setting ?r db)"
    using sound new r(1) by (auto simp: settings_sound_def op_defs tbl_get_None integrity_def)
  moreover have "case get_dynamic_setting key (add_dynamic_setting ?r db) of None \<Rightarrow> history_of key db = []
      | Some r \<Rightarrow> setting_typed r \<and> recorded r (history_of key db)" for key
  proof (cases "key = sd_key d")
    case True
    have "history_of key db = []" using sound new True by (simp add: settings_sound_None)
    then show ?thesis using True new r by (simp add: op_defs tbl_get_append recorded_def)
  next
    case False
    then have "get_dynamic_setting key (add_dynamic_setting ?r db) = get_dynamic_setting key db"
      using r(1) by (auto simp: op_defs tbl_get_append split: option.splits)
    then show ?thesis using sound by (simp add: settings_sound_def)
  qed
  ultimately show "settings_sound (add_dynamic_setting ?r db)"
    unfolding settings_sound_def history_frame by blast
qed (simp only: settings_sound_def history_frame integrity_unkeyed simp_thms)

text \<open>C32: Settings and their history stay complete. Start from a database whose stored settings have
  registered keys, values that their definitions allow and a history that leads to them; then so does
  every sequence of reads, updates, rollbacks, imports, overrides and retried updates interleaved with
  the calls of others. The history of a setting counts its revisions without a gap, each entry starts
  from the value the entry before wrote, and the last one wrote the value that is stored.\<close>

theorem settings_history_complete:
  assumes "settings_sound (fst s)"
  shows "settings_sound (fst (admin_run calls s))"
  using assms by (rule settings.good_admin_run)

lemma sample_sound: "settings_sound (fst sample_governed)"
  by (simp add: settings_sound_def sample_db_integrity sample_governed_def history_of_def get_dynamic_setting_def
      sample_db_def empty_db_def) (use sample_db_integrity in \<open>simp add: sample_db_def empty_db_def\<close>)

lemma settings_history_complete_witness:
  "settings_sound (fst (admin_run
     [Plain (UpdateSetting sample_clock ''requests.daily_limit'' (JInt 3) 0 sample_actor ''setting.update''),
      Plain (UpdateSetting sample_clock ''requests.daily_limit'' (JInt 5) 1 sample_actor ''setting.update'')]
     sample_governed))"
  by (rule settings_history_complete [OF sample_sound])

subsection \<open>Rolling back\<close>

lemma put_keeps_history:
  "setting_put clk d v a act s = (r', db') \<Longrightarrow> prefix (history_of key (fst s)) (history_of key db')"
  by (simp add: history_put prefixI)

text \<open>What a history has once, it has after every call.\<close>

definition history_grown :: "string \<Rightarrow> revision_row list \<Rightarrow> 'z core_db_scheme \<Rightarrow> bool" where
  "history_grown key h db = (settings_sound db \<and> prefix h (history_of key db))"

interpretation grown: setting_invariant "history_grown key h" for key h
proof
  fix s :: "'z governed" and d v clk a act r' db'
  assume "history_grown key h (fst s)" "SETTING_REGISTRY (sd_key d) = Some d" "setting_value_ok d v"
    "setting_put clk d v a act s = (r', db')"
  then show "history_grown key h db'"
    using settings.good_put put_keeps_history prefix_order.trans unfolding history_grown_def by blast
qed (simp_all add: history_grown_def settings.good_integrity settings.good_import settings.good_audit)

lemma tbl_get_unique:
  "r \<in> set rs \<Longrightarrow> (\<And>x. x \<in> set rs \<Longrightarrow> key x = key r \<Longrightarrow> x = r) \<Longrightarrow> tbl_get key (key r) rs = Some r"
  by (induction rs) auto

lemma revision_found:
  assumes "settings_sound db" "x \<in> set (history_of key db)"
  shows "get_config_revision key (rev_revision x) db = Some x"
proof -
  obtain r where "get_dynamic_setting key db = Some r"
    using settings_sound_None [OF assms(1), of key] assms(2) by (cases "get_dynamic_setting key db") auto
  with settings_sound_Some [OF assms(1) this] assms(2) have "linked (history_of key db)"
    by (auto simp: recorded_def split: if_splits)
  then have inj: "inj_on rev_revision (set (history_of key db))" using linked_distinct distinct_map by blast
  have key: "rev_setting_key x = key" using assms(2) by (simp add: history_of_def)
  have same: "y = x" if "y \<in> set (rows (revisions db))" "(rev_setting_key y, rev_revision y) = (rev_setting_key x, rev_revision x)" for y
    using inj_onD [OF inj, of y x] that key assms(2) by (simp add: history_of_def)
  show ?thesis
    using tbl_get_unique [of x "rows (revisions db)" "\<lambda>r. (rev_setting_key r, rev_revision r)"] same assms(2) key
    unfolding get_config_revision_def by (simp add: history_of_def)
qed

text \<open>C33: A revision can be restored. If an update of a setting has stored a value as revision n, then
  whatever is done to the settings afterwards, by anyone, a rollback to n that knows the revision of the
  day succeeds and stores that value again, as a new revision.\<close>

theorem rollback_restores:
  assumes "settings_sound (fst s)" and "setting_update clk key v n a act s = (Inr view, s1)"
    and "s2 = admin_run calls s1" and "m = setting_revision key (fst s2)"
  shows "\<exists>view'. fst (setting_rollback clk' key (n + 1) m a' s2) = Inr view' \<and>
    registers_of (fst (snd (setting_rollback clk' key (n + 1) m a' s2))) key = Some (m + 1, v)"
proof -
  note int = settings.good_integrity [OF assms(1)]
  from assms(2) obtain d where d: "SETTING_REGISTRY key = Some d"
    by (auto simp: setting_update_def split: option.splits)
  then have key: "sd_key d = key" by (rule registry_sound)
  obtain r' db' where put: "setting_put clk d v a act s = (r', db')" by fastforce
  note upd = setting_update_registered [OF int d, of clk v n a act, unfolded assms(2) put prod.case]
  then have ok: "setting_value_ok d v" and n: "n = setting_revision key (fst s)" and s1: "fst s1 = db'"
    by (auto split: if_splits)
  have sound1: "settings_sound (fst s1)"
    unfolding s1 using assms(1) _ ok put by (rule settings.good_put) (simp add: d key)
  let ?h = "history_of key db'"
  have "history_grown key ?h (fst s2)"
    unfolding assms(3) by (rule grown.good_admin_run) (use sound1 s1 in \<open>simp add: history_grown_def\<close>)
  then have sound2: "settings_sound (fst s2)" and grown: "prefix ?h (history_of key (fst s2))"
    by (simp_all add: history_grown_def)
  have "last ?h \<in> set ?h" "rev_revision (last ?h) = n + 1" "rev_new_value (last ?h) = v"
    using n key setting_put_view(3) [OF put ok] setting_value_dumps [OF ok] by (simp_all add: history_put [OF put])
  then obtain x where x: "x \<in> set ?h" "rev_revision x = n + 1" "rev_new_value x = v" by blast
  have "x \<in> set (history_of key (fst s2))" using x(1) grown by (meson set_mono_prefix subsetD)
  with revision_found [OF sound2] x have found: "get_config_revision key (n + 1) (fst s2) = Some x" by metis
  obtain r2 db2 where put2: "setting_put clk' d v a' ''setting.rollback'' s2 = (r2, db2)" by fastforce
  note int2 = settings.good_integrity [OF sound2]
  have "setting_rollback clk' key (n + 1) m a' s2 = setting_update clk' key v m a' ''setting.rollback'' s2"
    by (simp add: setting_rollback_def d run_uow_def found int2 x)
  then show ?thesis
    using setting_update_registered [OF int2 d, of clk' v m a' "''setting.rollback''"] ok assms(4)
      setting_put_registers [OF put2 ok]
    by (simp add: put2 key)
qed


lemma sample_update:
  assumes "settings_sound (fst s)" "0 \<le> n" "n \<le> 1000"
  shows "\<exists>view. fst (setting_update clk ''requests.daily_limit'' (JInt n)
    (setting_revision ''requests.daily_limit'' (fst s)) a act s) = Inr view"
  using setting_update_registered [OF settings.good_integrity [OF assms(1)] sample_setting(1)] assms(2,3)
  by (simp add: sample_value_ok split_def Let_def)

lemma rollback_restores_witness:
  "\<exists>m. registers_of (fst (snd (setting_rollback sample_clock ''requests.daily_limit'' 1 m sample_actor
       (admin_run [Plain (UpdateSetting sample_clock ''requests.daily_limit'' (JInt 5) 1 sample_actor ''x'')]
         (snd (setting_update sample_clock ''requests.daily_limit'' (JInt 3) 0 sample_actor ''x'' sample_governed))))))
     ''requests.daily_limit'' = Some (m + 1, JInt 3)"
proof -
  let ?u = "setting_update sample_clock ''requests.daily_limit'' (JInt 3) 0 sample_actor ''x'' sample_governed"
  have "setting_revision ''requests.daily_limit'' (fst sample_governed) = 0"
    using sample_registers(1) register_revision_of [of "''requests.daily_limit''" "fst sample_governed"]
    by (simp add: register_revision_def)
  then obtain view where "fst ?u = Inr view"
    using sample_update [OF sample_sound, of 3 sample_clock sample_actor "''x''"] by auto
  then have "?u = (Inr view, snd ?u)" by (simp add: prod_eq_iff)
  from rollback_restores [OF sample_sound this refl refl, where calls = "[Plain (UpdateSetting sample_clock
      ''requests.daily_limit'' (JInt 5) 1 sample_actor ''x'')]" and clk' = sample_clock and a' = sample_actor]
  show ?thesis by auto
qed

subsection \<open>The retried update\<close>













subsection \<open>Security events\<close>

datatype risk_call =
    RecordRisk clock string string "string option" "string option" "string option" "jval option"
  | ListRisks "string option" "string option" "string option" "string option" int int
  | GetRisk int
  | RiskSummary clock
  | UpdateRisk clock int string "int option" "string option" actor

fun risk_after :: "risk_call \<Rightarrow> 'z core_db_scheme \<Rightarrow> 'z core_db_scheme" where
  "risk_after (RecordRisk clk et sv sk si ip dt) db = security_event clk et sv sk si ip dt db"
| "risk_after (ListRisks q sv st et lim off) db = snd (risk_list q sv st et lim off db)"
| "risk_after (GetRisk i) db = snd (risk_get i db)"
| "risk_after (RiskSummary clk) db = snd (risk_summary clk db)"
| "risk_after (UpdateRisk clk i st asg note a) db = snd (risk_update clk i st asg note a db)"

definition risk_run :: "risk_call list \<Rightarrow> 'z core_db_scheme \<Rightarrow> 'z core_db_scheme" where
  "risk_run calls db = fold risk_after calls db"

definition closed_status :: "string \<Rightarrow> bool" where
  "closed_status st = (st \<in> {''resolved'', ''ignored''})"

definition risk_typed :: "security_row \<Rightarrow> bool" where
  "risk_typed r =
     (sec_status r \<in> set RISK_STATUSES \<and> (sec_resolved_at r \<noteq> None \<longleftrightarrow> closed_status (sec_status r)) \<and>
      (sec_resolved_by r \<noteq> None \<longrightarrow> closed_status (sec_status r)) \<and>
      (case sec_resolution_note r of None \<Rightarrow> True | Some t \<Rightarrow> t \<noteq> [] \<and> py_len t \<le> 1000))"

definition risks_typed :: "'z core_db_scheme \<Rightarrow> bool" where
  "risks_typed db = list_all risk_typed (rows (securities db))"

lemma list_all_put: "list_all P rs \<Longrightarrow> P r \<Longrightarrow> list_all P (tbl_put key r rs)"
  using set_tbl_put [of key r rs] by (auto simp: list_all_iff)

lemma handled_typed:
  assumes "st \<in> set RISK_STATUSES" "strip_or_none note = None \<or> py_len (the (strip_or_none note)) \<le> 1000"
  shows "risk_typed (handled_event clk st asg (strip_or_none note) a r)"
  using assms
  by (auto simp: risk_typed_def handled_event_def closed_status_def strip_or_none_def Let_def split: option.splits)

lemma risk_reads [simp]:
  "snd (risk_list q sv st et lim off db) = db" "snd (risk_get i db) = db" "snd (risk_summary clk db) = db"
  by (auto simp: risk_list_def risk_get_def risk_summary_def run_uow_def Let_def split: prod.splits)

lemma risk_update_rows:
  "rows (securities (snd (risk_update clk i st asg note a db))) = rows (securities db) \<or>
   (\<exists>row. get_security_event i db = Some row \<and> st \<in> set RISK_STATUSES \<and>
      (strip_or_none note = None \<or> py_len (the (strip_or_none note)) \<le> 1000) \<and>
      rows (securities (snd (risk_update clk i st asg note a db))) =
        tbl_put sec_id (handled_event clk st asg (strip_or_none note) a row) (rows (securities db)))"
  by (auto simp: risk_update_def run_uow_def Let_def save_security_event_def not_less split: option.split)

lemma risk_update_typed: "risks_typed db \<Longrightarrow> risks_typed (snd (risk_update clk i st asg note a db))"
  using risk_update_rows [of clk i st asg "note" a db] handled_typed
  unfolding risks_typed_def by (metis list_all_put)

lemma risk_run_typed: "risks_typed db \<Longrightarrow> risks_typed (risk_run calls db)"
  unfolding risk_run_def
proof (induction calls arbitrary: db)
  case (Cons c calls)
  have "risks_typed (risk_after c db)"
    using Cons.prems
    by (cases c) (simp_all add: risk_update_typed,
        simp add: risks_typed_def security_event_def risk_typed_def RISK_STATUSES_def closed_status_def)
  then show ?case by (simp add: Cons.IH)
qed simp

definition known_severity :: "risk_call \<Rightarrow> bool" where
  "known_severity c =
     (case c of RecordRisk clk et sv sk si ip dt \<Rightarrow> sv \<in> set RISK_SEVERITIES | _ \<Rightarrow> True)"

definition severities_known :: "'z core_db_scheme \<Rightarrow> bool" where
  "severities_known db = list_all (\<lambda>r. sec_severity r \<in> set RISK_SEVERITIES) (rows (securities db))"

lemma risk_update_severities:
  assumes "severities_known db"
  shows "severities_known (snd (risk_update clk i st asg note a db))"
proof -
  have "sec_severity (handled_event clk st asg (strip_or_none note) a row) \<in> set RISK_SEVERITIES"
    if "get_security_event i db = Some row" for row
    using that assms
    by (auto simp: handled_event_def severities_known_def get_security_event_def list_all_iff dest: tbl_get_mem)
  then show ?thesis
    using risk_update_rows [of clk i st asg "note" a db] assms
    unfolding severities_known_def by (elim disjE exE conjE) (simp_all add: list_all_put)
qed

lemma risk_run_severities:
  "severities_known db \<Longrightarrow> list_all known_severity calls \<Longrightarrow> severities_known (risk_run calls db)"
  unfolding risk_run_def
proof (induction calls arbitrary: db)
  case (Cons c calls)
  have "severities_known (risk_after c db)"
    using Cons.prems
    by (cases c) (simp_all add: risk_update_severities,
        simp add: severities_known_def known_severity_def security_event_def)
  then show ?case using Cons by simp
qed simp

lemma one_hot: "distinct ks \<Longrightarrow> sum_list (map (\<lambda>k. if x = k then 1 else 0 :: int) ks) = (if x \<in> set ks then 1 else 0)"
  by (induction ks) auto

lemma count_partition:
  assumes "\<And>r. r \<in> set rs \<Longrightarrow> f r \<in> set ks" "distinct ks"
  shows "sum_list (map (\<lambda>k. int (length (filter (\<lambda>r. f r = k \<and> P r) rs))) ks) = int (length (filter P rs))"
  using assms(1)
proof (induction rs)
  case (Cons r rs)
  have one: "sum_list (map (\<lambda>k. if f r = k then 1 else 0 :: int) ks) = 1"
    using one_hot [OF assms(2), of "f r"] Cons.prems [of r] by simp
  have "sum_list (map (\<lambda>k. int (length (filter (\<lambda>x. f x = k \<and> P x) (r # rs)))) ks) =
      sum_list (map (\<lambda>k. (if P r then (if f r = k then 1 else 0) else 0) + int (length (filter (\<lambda>x. f x = k \<and> P x) rs))) ks)"
    by (rule arg_cong [where f = sum_list], rule map_cong) auto
  also have "\<dots> = (if P r then 1 else 0) + int (length (filter P rs))"
    using one Cons by (simp add: sum_list_addf)
  finally show ?case by simp
qed simp

text \<open>The risk summary counts every event once. Whatever events are recorded, with a known severity,
  and however they are handled in between, the counts by status of the summary add up to the number of
  events, and its open total is the number of events that nobody has resolved or ignored, which are
  exactly those without a time of resolution.\<close>

theorem risk_summary_counts_once:
  assumes "rows (securities db) = []" "db' = risk_run calls db"
    and "list_all known_severity calls"
  shows "sum_list (map snd (status_counts db')) = int (length (rows (securities db'))) \<and>
    sum_list (map snd (severity_counts db')) =
      int (length (filter (\<lambda>r. sec_resolved_at r = None) (rows (securities db'))))"
proof -
  have known: "list_all (\<lambda>r. sec_severity r \<in> set RISK_SEVERITIES) (rows (securities db'))"
    using risk_run_severities [of db calls] assms(1,3) unfolding assms(2) by (simp add: severities_known_def)
  have typed: "\<forall>r \<in> set (rows (securities db')). risk_typed r"
    using risk_run_typed [of db calls] assms(1,2) by (simp add: risks_typed_def list_all_iff)
  have "filter (\<lambda>r. sec_status r \<in> {''open'', ''acknowledged''}) (rows (securities db')) =
      filter (\<lambda>r. sec_resolved_at r = None) (rows (securities db'))"
    using typed by (intro filter_cong) (auto simp: risk_typed_def closed_status_def RISK_STATUSES_def)
  moreover have "sum_list (map snd (severity_counts db')) =
      int (length (filter (\<lambda>r. sec_status r \<in> {''open'', ''acknowledged''}) (rows (securities db'))))"
    using count_partition [of "rows (securities db')" sec_severity RISK_SEVERITIES
        "\<lambda>r. sec_status r \<in> {''open'', ''acknowledged''}"] known
    by (simp add: severity_counts_def count_security_def o_def list_all_iff RISK_SEVERITIES_def conj_commute)
  moreover have "sum_list (map snd (status_counts db')) = int (length (rows (securities db')))"
    using count_partition [of "rows (securities db')" sec_status RISK_STATUSES "\<lambda>r. True"] typed
    by (simp add: status_counts_def count_security_def o_def risk_typed_def RISK_STATUSES_def)
  ultimately show ?thesis by simp
qed

lemma risk_summary_counts_once_witness:
  "sum_list (map snd (status_counts (risk_run
     [RecordRisk sample_clock ''auth.login'' ''danger'' None None None None,
      UpdateRisk sample_clock 1 ''resolved'' None None sample_actor] sample_db))) =
   int (length (rows (securities (risk_run
     [RecordRisk sample_clock ''auth.login'' ''danger'' None None None None,
      UpdateRisk sample_clock 1 ''resolved'' None None sample_actor] sample_db))))"
  by (rule risk_summary_counts_once [OF _ refl, THEN conjunct1])
    (simp_all add: sample_db_def empty_db_def known_severity_def RISK_SEVERITIES_def)

end
