(* ===== verification/Registration_Service.thy ===== *)
theory Registration_Service
  imports Settings_Service Task_Service Code_Service User_Service Account_Service
begin

section \<open>The registration service\<close>

text \<open>
  \<open>RegistrationService\<close> of \<open>bot/application/registration_service.py\<close>: the web and the bot reserve a place
  with a task, a worker creates the media account and binds it to the user. The table
  \<open>registration_state\<close> holds one row, which submissions lock; here it is the time of that row. The id of
  the task, what another session has committed when an insert fails, what happens while the media server
  works and what it answers are arguments.
\<close>

record registration_db = account_db +
  registration_state :: "datetime option"

subsection \<open>Inputs\<close>

definition ascii_digit :: "string \<Rightarrow> bool" where
  "ascii_digit c = (length c = 1 \<and> (let n = of_char (hd c) :: nat in 48 \<le> n \<and> n \<le> 57))"

definition decimal_zeros :: "nat list" where
  \<comment> \<open>the zeros of the other scripts: each is followed by its nine digits\<close>
  "decimal_zeros =
     [0x660, 0x6F0, 0x7C0, 0x966, 0x9E6, 0xA66, 0xAE6, 0xB66, 0xBE6, 0xC66, 0xCE6, 0xD66,
      0xDE6, 0xE50, 0xED0, 0xF20, 0x1040, 0x1090, 0x17E0, 0x1810, 0x1946, 0x19D0, 0x1A80,
      0x1A90, 0x1B50, 0x1BB0, 0x1C40, 0x1C50, 0xA620, 0xA8D0, 0xA900, 0xA9D0, 0xA9F0, 0xAA50,
      0xABF0, 0xFF10, 0x104A0, 0x10D30, 0x11066, 0x110F0, 0x11136, 0x111D0, 0x112F0, 0x11450,
      0x114D0, 0x11650, 0x116C0, 0x11730, 0x118E0, 0x11950, 0x11C50, 0x11D50, 0x11DA0, 0x16A60,
      0x16AC0, 0x16B50, 0x1D7CE, 0x1D7D8, 0x1D7E2, 0x1D7EC, 0x1D7F6, 0x1E140, 0x1E2F0, 0x1E950,
      0x1FBF0]"

definition other_digits :: "string list" where
  "other_digits = concat (map (\<lambda>z. map (\<lambda>i. text_of [z + i]) [0..<10]) decimal_zeros)"

definition decimal_char :: "string \<Rightarrow> bool" where
  \<comment> \<open>a digit of any script, as in the class of digits of Python's \<open>re\<close>\<close>
  "decimal_char c = (ascii_digit c \<or> c \<in> set other_digits)"

definition username_char :: "string \<Rightarrow> bool" where
  \<comment> \<open>no white space, slash, backslash or angle bracket\<close>
  "username_char c = (c \<notin> set spaces \<and> c \<notin> {''/'', [CHR 0x5C], ''<'', ''>''})"

definition username_matches :: "string \<Rightarrow> bool" where
  "username_matches s = (let cs = chars_of s in 2 \<le> length cs \<and> length cs \<le> 32 \<and> list_all username_char cs)"

definition safety_code_matches :: "string \<Rightarrow> bool" where
  "safety_code_matches s = (let cs = chars_of s in 4 \<le> length cs \<and> length cs \<le> 6 \<and> list_all decimal_char cs)"

definition username_message :: string where
  "username_message = text_of [0x7528, 0x6237, 0x540D, 0x9700, 0x4E3A, 0x20, 0x32, 0x2D, 0x33, 0x32, 0x20, 0x4E2A,
     0x5B57, 0x7B26, 0xFF0C, 0x4E0D, 0x80FD, 0x5305, 0x542B, 0x7A7A, 0x683C, 0x3001, 0x659C,
     0x6760, 0x6216, 0x5C16, 0x62EC, 0x53F7]"

definition safety_code_message :: string where
  "safety_code_message = text_of [0x5B89, 0x5168, 0x7801, 0x5FC5, 0x987B, 0x662F, 0x20, 0x34, 0x2D, 0x36, 0x20, 0x4F4D,
     0x6570, 0x5B57]"

definition validate_username :: "string \<Rightarrow> string attempt" where
  "validate_username v =
     (let username = py_strip v
      in if username_matches username then Inr username else Inl (ValueError username_message))"

definition validate_safety_code :: "string \<Rightarrow> string attempt" where
  "validate_safety_code v =
     (let code = py_strip v
      in if safety_code_matches code then Inr code else Inl (ValueError safety_code_message))"

subsection \<open>Settings of the registration\<close>

record registration_settings =
  rs_enabled :: bool
  rs_invite_required :: bool
  rs_open_days :: int
  rs_user_limit :: int
  rs_queue_limit :: int

definition setting_value_of :: "string \<Rightarrow> 'z governed \<Rightarrow> jval attempt" where
  "setting_value_of key s =
     bind_attempt (fst (settings_get key s)) (\<lambda>view.
       case map_of view ''value'' of None \<Rightarrow> Inl KeyError | Some v \<Rightarrow> Inr v)"

definition registration_settings_of :: "'z governed \<Rightarrow> registration_settings attempt" where
  "registration_settings_of s =
     bind_attempt (setting_value_of ''registration.enabled'' s) (\<lambda>enabled.
     bind_attempt (setting_value_of ''registration.invite_required'' s) (\<lambda>invite_required.
     bind_attempt (bind_attempt (setting_value_of ''registration.open_days'' s) int_of_json) (\<lambda>open_days.
     bind_attempt (bind_attempt (setting_value_of ''registration.user_limit'' s) int_of_json) (\<lambda>user_limit.
     bind_attempt (bind_attempt (setting_value_of ''registration.queue_limit'' s) int_of_json) (\<lambda>queue_limit.
       Inr \<lparr>rs_enabled = jtruthy enabled, rs_invite_required = jtruthy invite_required,
            rs_open_days = open_days, rs_user_limit = user_limit, rs_queue_limit = queue_limit\<rparr>)))))"

definition requires_invite :: "registration_settings \<Rightarrow> bool" where
  "requires_invite rs = (\<not> rs_enabled rs \<or> rs_invite_required rs)"

subsection \<open>Queries\<close>

definition REGISTRATION_TASK_TYPE :: string where
  "REGISTRATION_TASK_TYPE = ''registration.account''"

definition ACTIVE_TASK_STATUSES :: "string list" where
  "ACTIVE_TASK_STATUSES = [''pending'', ''retrying'', ''running'']"

definition active_registration :: "task_row \<Rightarrow> bool" where
  "active_registration t =
     (task_type t = REGISTRATION_TASK_TYPE \<and> task_status t \<in> set ACTIVE_TASK_STATUSES)"

definition registered_count :: "'z core_db_scheme \<Rightarrow> int" where
  "registered_count db = int (length (filter (\<lambda>u. emby_embyid u \<noteq> None) (embys db)))"

definition active_count :: "'z core_db_scheme \<Rightarrow> int" where
  "active_count db = int (length (filter active_registration (tasks db)))"

definition waiting_count :: "'z core_db_scheme \<Rightarrow> int" where
  "waiting_count db =
     int (length (filter (\<lambda>t. task_type t = REGISTRATION_TASK_TYPE \<and>
       task_status t \<in> {''pending'', ''retrying''}) (tasks db)))"

definition active_task :: "int \<Rightarrow> 'z core_db_scheme \<Rightarrow> task_row option" where
  "active_task tg db =
     first_of (sort_key (\<lambda>t. - task_created_at t)
       (filter (\<lambda>t. active_registration t \<and> task_owner_id t = show_int tg) (tasks db)))"

definition public_task :: "bool \<Rightarrow> task_row \<Rightarrow> jdict" where
  "public_task include_credentials row =
     (let t = serialize_task include_credentials row
      in case map_of t ''input'' of
           Some (JDict inp) \<Rightarrow>
             map (\<lambda>(k, v). if k = ''input'' then (k, JDict (filter (\<lambda>kv. fst kv \<noteq> ''safety_code'') inp)) else (k, v)) t
             @ [(''username'', jopt (map_of inp ''username''))]
         | _ \<Rightarrow> t)"

definition lock_registration_state :: "datetime \<Rightarrow> 'z registration_db_scheme \<Rightarrow> 'z registration_db_scheme" where
  "lock_registration_state now db = db\<lparr>registration_state := Some now\<rparr>"

definition registration_status ::
  "clock \<Rightarrow> runtime \<Rightarrow> int option \<Rightarrow> 'z core_db_scheme \<Rightarrow> (jdict, 'z core_db_scheme) outcome" where
  "registration_status clk rt tg db0 =
     (case registration_settings_of (db0, rt) of
        Inl e \<Rightarrow> (Inl e, db0)
      | Inr rs \<Rightarrow> run_uow (\<lambda>db.
          let known = int_or_0 tg \<noteq> 0;
              user = (if known then users_get_for_update (the tg) db else None);
              current = (if known then active_task (the tg) db else None);
              capacity = max 0 (rs_user_limit rs - registered_count db - active_count db);
              days = (case user of None \<Rightarrow> 0 | Some u \<Rightarrow> int_or_0 (emby_us u));
              bound = (case user of None \<Rightarrow> False | Some u \<Rightarrow> truthy_str (emby_embyid u))
          in Inr
            ([(''enabled'', JBool (rs_enabled rs)), (''invite_required'', JBool (rs_invite_required rs)),
              (''requires_invite'', JBool (requires_invite rs)),
              (''open_registration_days'', JInt (rs_open_days rs)), (''user_limit'', JInt (rs_user_limit rs)),
              (''registered'', JInt (registered_count db)), (''reserved'', JInt (active_count db)),
              (''remaining'', JInt capacity), (''queue_waiting'', JInt (waiting_count db)),
              (''queue_limit'', JInt (rs_queue_limit rs)), (''has_account'', JBool bound),
              (''qualification_days'', JInt days),
              (''can_register'', JBool (user \<noteq> None \<and> \<not> bound \<and> capacity > 0 \<and> (\<not> requires_invite rs \<or> days > 0))),
              (''active_task'', case current of None \<Rightarrow> JNull | Some t \<Rightarrow> JDict (public_task False t)),
              (''checked_at'', JTime (now_utc clk))], db)) db0)"

subsection \<open>Redeeming a code on the way\<close>

definition redeem_code ::
  "clock \<Rightarrow> emby_row \<Rightarrow> string option \<Rightarrow> string \<Rightarrow> string \<Rightarrow> actor \<Rightarrow> 'z core_db_scheme \<Rightarrow>
   string \<times> 'z core_db_scheme" where
  "redeem_code clk user given logo legacy_logo actor db =
     (if \<not> truthy_str given then (''registration_code_required'', db)
      else let value = the given in
        case codes_get_for_update value db of
          None \<Rightarrow> (''invalid_code'', db)
        | Some code \<Rightarrow>
            if code_used code \<noteq> None then (''used_code'', db)
            else if code_status code \<notin> {None, Some ''active''} then (''invalid_code'', db)
            else if (case code_expires_at code of None \<Rightarrow> False | Some t \<Rightarrow> t \<le> now_utc clk) then
              (''invalid_code'', codes_save (code\<lparr>code_status := Some ''expired''\<rparr>) db)
            else if code_prefix value \<notin> {logo, legacy_logo, show_int (emby_tg user)} then (''forbidden_code'', db)
            else
              let tg = emby_tg user; fingerprint = secret_fingerprint value;
                  days = int_or_0 (code_us code);
                  user' = user\<lparr>emby_us := Some (int_or_0 (emby_us user) + days)\<rparr>;
                  db1 = users_save user' db;
                  db2 = point_transaction clk tg ''registration_days'' days (int_or_0 (emby_us user'))
                          ''redeem_registration_code'' actor (Some (''registration-code:'' @ fingerprint))
                          (Some (JDict [(''code'', JStr fingerprint)])) db1;
                  db3 = codes_save (code\<lparr>code_used := Some tg, code_usedtime := Some (now_utc clk),
                          code_used_by_account_id := map_option acc_id (accounts_by_legacy_tg tg db2),
                          code_status := Some ''used''\<rparr>) db2;
                  db4 = audit_success clk actor ''code.redeem.registration'' ''registration_code'' (Some fingerprint)
                          (Some (JDict [(''tg'', JInt tg), (''issuer_tg'', jopt_int (code_tg code))])) db3
              in (''ok'', event clk ''code.redeemed'' ''registration_code'' (Some fingerprint)
                   (Some (JDict [(''tg'', JInt tg), (''kind'', JStr ''registration'')])) db4))"

definition dynamic_logo :: "string \<Rightarrow> 'z core_db_scheme \<Rightarrow> string" where
  "dynamic_logo legacy_logo db =
     (case get_dynamic_setting ''site.logo'' db of
        None \<Rightarrow> legacy_logo
      | Some r \<Rightarrow> (case set_value r of
            JStr s \<Rightarrow> if py_strip s \<noteq> [] then py_strip s else legacy_logo
          | _ \<Rightarrow> legacy_logo))"

subsection \<open>Submitting\<close>

record submission =
  \<comment> \<open>the arguments of \<open>submit\<close>\<close>
  sb_tg :: int
  sb_username :: string
  sb_safety_code :: string
  sb_code :: "string option"
  sb_actor :: actor
  sb_key :: string
  sb_channel :: string
  sb_chat_id :: "int option"
  sb_message_id :: "int option"

definition submission_payload :: "submission \<Rightarrow> registration_settings \<Rightarrow> int \<Rightarrow> string option \<Rightarrow> jval" where
  "submission_payload sb rs days account_id =
     JDict [(''account_id'', jopt_str account_id), (''tg'', JInt (sb_tg sb)),
            (''username'', JStr (sb_username sb)), (''safety_code'', JStr (sb_safety_code sb)),
            (''days'', JInt days), (''consume_qualification'', JBool (requires_invite rs)),
            (''channel'', JStr (sb_channel sb)), (''notification_chat_id'', jopt_int (sb_chat_id sb)),
            (''notification_message_id'', jopt_int (sb_message_id sb))]"

definition registration_task :: "clock \<Rightarrow> string \<Rightarrow> submission \<Rightarrow> jval \<Rightarrow> task_row" where
  "registration_task clk new_id sb payload =
     \<lparr>task_id = new_id, task_type = REGISTRATION_TASK_TYPE, task_status = ''pending'', task_progress = 0,
      task_owner_kind = actor_kind (sb_actor sb), task_owner_id = show_int (sb_tg sb),
      task_idempotency_key = Some (sb_key sb), task_input = Some (json_dumps payload),
      task_result = None, task_error_message = None, task_retry_count = 0, task_max_retries = 0,
      task_next_run_at = now_utc clk, task_locked_by = None, task_lease_expires_at = None,
      task_last_heartbeat_at = None, task_cancel_requested = False, task_created_at = now_utc clk,
      task_started_at = None, task_finished_at = None, task_updated_at = now_utc clk\<rparr>"

definition reserve_place ::
  "clock \<Rightarrow> string \<Rightarrow> submission \<Rightarrow> registration_settings \<Rightarrow> int \<Rightarrow> 'z core_db_scheme \<Rightarrow>
   service_result \<times> 'z core_db_scheme" where
  \<comment> \<open>the last part of \<open>submit\<close>: the task with its audit row and events\<close>
  "reserve_place clk new_id sb rs position db =
     (let user = users_get_for_update (sb_tg sb) db;
          days = (if requires_invite rs then (case user of None \<Rightarrow> 0 | Some u \<Rightarrow> int_or_0 (emby_us u))
                  else rs_open_days rs)
      in if days \<le> 0 then (result ''no_qualification'' [], db)
         else
           let task = registration_task clk new_id sb
                 (submission_payload sb rs days (map_option acc_id (accounts_by_legacy_tg (sb_tg sb) db)));
               db1 = add_task task db;
               db2 = audit_success clk (sb_actor sb) ''registration.submit'' ''operation_task'' (Some new_id)
                       (Some (JDict [(''username'', JStr (sb_username sb)), (''days'', JInt days),
                                     (''channel'', JStr (sb_channel sb))])) db1;
               db3 = event clk ''registration.submitted'' ''user'' (Some (show_int (sb_tg sb)))
                       (Some (JDict [(''task_id'', JStr new_id), (''username'', JStr (sb_username sb)),
                                     (''status'', JStr ''pending'')])) db2;
               db4 = event clk ''task.created'' ''operation_task'' (Some new_id)
                       (Some (JDict [(''task_id'', JStr new_id), (''task_type'', JStr REGISTRATION_TASK_TYPE),
                                     (''status'', JStr ''pending'')])) db3
           in (result ''ok'' (public_task False task @ [(''position'', JInt position)]), db4))"

definition submit_locked ::
  "clock \<Rightarrow> string \<Rightarrow> string \<Rightarrow> submission \<Rightarrow> registration_settings \<Rightarrow> emby_row \<Rightarrow> 'z core_db_scheme \<Rightarrow>
   service_result \<times> 'z core_db_scheme" where
  \<comment> \<open>what follows under the lock\<close>
  "submit_locked clk new_id ranks_logo sb rs user db =
     (if list_ex (\<lambda>u. map_option py_lower (emby_name u) = Some (py_lower (sb_username sb))) (embys db) then
        (result ''username_taken'' [], db)
      else if rs_user_limit rs \<le> registered_count db + active_count db then (result ''slot_full'' [], db)
      else if max 1 (rs_queue_limit rs) \<le> waiting_count db then (result ''queue_full'' [], db)
      else
        let (redeemed, db2) =
              (if requires_invite rs \<and> int_or_0 (emby_us user) \<le> 0 then
                 redeem_code clk user (sb_code sb) (dynamic_logo ranks_logo db) ranks_logo (sb_actor sb) db
               else (''ok'', db))
        in if redeemed \<noteq> ''ok'' then (result redeemed [], db2)
           else reserve_place clk new_id sb rs (active_count db + 1) db2)"

definition submit_body ::
  "clock \<Rightarrow> string \<Rightarrow> string \<Rightarrow> submission \<Rightarrow> registration_settings \<Rightarrow> 'z registration_db_scheme \<Rightarrow>
   service_result \<times> 'z registration_db_scheme" where
  "submit_body clk new_id ranks_logo sb rs db =
     (case get_task_by_idempotency_key (Some (sb_key sb)) db of
        Some replay \<Rightarrow> (result ''ok'' (public_task False replay), db)
      | None \<Rightarrow>
     (case users_get_for_update (sb_tg sb) db of
        None \<Rightarrow> (result ''user_not_found'' [], db)
      | Some user \<Rightarrow>
        if truthy_str (emby_embyid user) then (result ''account_already_bound'' [], db)
        else (case active_task (sb_tg sb) db of
          Some t \<Rightarrow> (result ''duplicate'' (public_task False t), db)
        | None \<Rightarrow>
            submit_locked clk new_id ranks_logo sb rs user (lock_registration_state (now_utc clk) db))))"

definition submit ::
  "clock \<Rightarrow> string \<Rightarrow> runtime \<Rightarrow> string \<Rightarrow> ('z registration_db_scheme \<Rightarrow> 'z registration_db_scheme) \<Rightarrow>
   submission \<Rightarrow> 'z registration_db_scheme \<Rightarrow> (service_result, 'z registration_db_scheme) outcome" where
  "submit clk new_id rt ranks_logo meanwhile sb0 db0 =
     (case bind_attempt (validate_username (sb_username sb0)) (\<lambda>username.
            bind_attempt (validate_safety_code (sb_safety_code sb0)) (\<lambda>safety_code.
              bind_attempt (registration_settings_of (db0, rt)) (\<lambda>rs. Inr
                (sb0\<lparr>sb_username := username, sb_safety_code := safety_code,
                     sb_code := strip_or_none (sb_code sb0)\<rparr>, rs)))) of
        Inl e \<Rightarrow> (Inl e, db0)
      | Inr (sb, rs) \<Rightarrow>
          (case run_uow (\<lambda>db. Inr (submit_body clk new_id ranks_logo sb rs db)) db0 of
             (Inl IntegrityError, db1) \<Rightarrow>
               (let db2 = meanwhile db1 in
                case get_task_by_idempotency_key (Some (sb_key sb)) db2 of
                  Some replay \<Rightarrow> (Inr (result ''ok'' (public_task False replay)), db2)
                | None \<Rightarrow> (case active_task (sb_tg sb) db2 of
                    Some t \<Rightarrow> (Inr (result ''duplicate'' (public_task False t)), db2)
                  | None \<Rightarrow> (Inl IntegrityError, db2)))
           | outcome \<Rightarrow> outcome))"

subsection \<open>Looking at a task and cancelling it\<close>

definition own_registration :: "int \<Rightarrow> task_row \<Rightarrow> bool" where
  "own_registration tg t = (task_type t = REGISTRATION_TASK_TYPE \<and> task_owner_id t = show_int tg)"

definition registration_view ::
  "string \<Rightarrow> int \<Rightarrow> 'z core_db_scheme \<Rightarrow> (jdict option, 'z core_db_scheme) outcome" where
  "registration_view tid tg = run_uow (\<lambda>db.
     Inr (case get_task tid db of
            None \<Rightarrow> None
          | Some t \<Rightarrow> if own_registration tg t then Some (public_task True t) else None, db))"

definition canceled_row :: "datetime \<Rightarrow> task_row \<Rightarrow> task_row" where
  "canceled_row now t =
     t\<lparr>task_status := ''canceled'', task_cancel_requested := True, task_progress := 100,
       task_finished_at := Some now, task_updated_at := now\<rparr>"

definition registration_cancel ::
  "clock \<Rightarrow> string \<Rightarrow> int \<Rightarrow> actor \<Rightarrow> 'z core_db_scheme \<Rightarrow> (service_result, 'z core_db_scheme) outcome" where
  "registration_cancel clk tid tg actor = run_uow (\<lambda>db.
     case get_task tid db of
       None \<Rightarrow> Inr (result ''not_found'' [], db)
     | Some t \<Rightarrow>
         if \<not> own_registration tg t then Inr (result ''not_found'' [], db)
         else if task_status t \<notin> {''pending'', ''retrying''} then
           Inr (result ''not_cancelable'' (public_task False t), db)
         else
           let t' = canceled_row (now_utc clk) t;
               db1 = save_task t' db;
               db2 = audit_success clk actor ''registration.cancel'' ''operation_task'' (Some tid) None db1;
               db3 = event clk ''registration.updated'' ''user'' (Some (show_int tg))
                       (Some (JDict [(''task_id'', JStr tid), (''status'', JStr ''canceled'')])) db2
           in Inr (result ''ok'' (public_task False t'),
                event clk ''task.updated'' ''operation_task'' (Some tid)
                  (Some (JDict [(''task_id'', JStr tid), (''task_type'', JStr REGISTRATION_TASK_TYPE),
                                (''status'', JStr ''canceled'')])) db3))"

subsection \<open>Executing\<close>

record registration_job =
  jb_tg :: int
  jb_username :: string
  jb_safety_code :: string
  jb_days :: int
  jb_consume :: bool
  jb_account_id :: "string option"

definition payload_field :: "string \<Rightarrow> jval \<Rightarrow> jval attempt" where
  "payload_field k p = (case jget k p of None \<Rightarrow> Inl KeyError | Some v \<Rightarrow> Inr v)"

fun text_or_empty :: "jval \<Rightarrow> string attempt" where
  \<comment> \<open>\<open>value or ""\<close> of a text; a number has no \<open>strip\<close>\<close>
  "text_or_empty (JStr s) = Inr s"
| "text_or_empty v = (if jtruthy v then Inl TypeError else Inr [])"

definition registration_job_of :: "jval \<Rightarrow> registration_job attempt" where
  "registration_job_of p =
     bind_attempt (bind_attempt (payload_field ''tg'' p) int_of_json) (\<lambda>tg.
     bind_attempt (bind_attempt (bind_attempt (payload_field ''username'' p) text_or_empty) validate_username) (\<lambda>username.
     bind_attempt (bind_attempt (bind_attempt (payload_field ''safety_code'' p) text_or_empty) validate_safety_code) (\<lambda>safety_code.
     bind_attempt (bind_attempt (payload_field ''days'' p) int_of_json) (\<lambda>days.
       Inr \<lparr>jb_tg = tg, jb_username = username, jb_safety_code = safety_code, jb_days = days,
            jb_consume = jtruthy (jopt (jget ''consume_qualification'' p)),
            jb_account_id = (case jget ''account_id'' p of
                Some (JStr s) \<Rightarrow> if s = [] then None else Some s | _ \<Rightarrow> None)\<rparr>))))"

definition user_missing_message :: string where
  "user_missing_message = text_of [0x7528, 0x6237, 0x8BB0, 0x5F55, 0x4E0D, 0x5B58, 0x5728]"

definition already_bound_message :: string where
  "already_bound_message = text_of [0x5F53, 0x524D, 0x20, 0x54, 0x65, 0x6C, 0x65, 0x67, 0x72, 0x61, 0x6D, 0x20, 0x5DF2,
     0x7ECF, 0x7ED1, 0x5B9A, 0x20, 0x45, 0x6D, 0x62, 0x79, 0x20, 0x8D26, 0x53F7]"

definition create_failed_message :: string where
  "create_failed_message = text_of [0x7528, 0x6237, 0x540D, 0x5DF2, 0x5B58, 0x5728, 0x6216, 0x20, 0x45, 0x6D, 0x62, 0x79,
     0x20, 0x670D, 0x52A1, 0x6682, 0x65F6, 0x4E0D, 0x53EF, 0x7528]"

definition rolled_back_message :: string where
  "rolled_back_message = text_of [0x8D26, 0x53F7, 0x72B6, 0x6001, 0x5DF2, 0x53D8, 0x5316, 0xFF0C, 0x672C, 0x6B21,
     0x521B, 0x5EFA, 0x5DF2, 0x56DE, 0x6EDA]"

definition registration_failure ::
  "clock \<Rightarrow> int \<Rightarrow> string \<Rightarrow> string \<Rightarrow> 'z core_db_scheme \<Rightarrow> (jdict, 'z core_db_scheme) outcome" where
  "registration_failure clk tg code message = run_uow (\<lambda>db. Inr
     ([(''ok'', JBool False), (''code'', JStr code), (''message'', JStr message), (''tg'', JInt tg)],
      event clk ''registration.failed'' ''user'' (Some (show_int tg))
        (Some (JDict [(''code'', JStr code), (''message'', JStr message), (''status'', JStr ''failed'')])) db))"

record created_account =
  \<comment> \<open>what a media server answers: the instance is set when one of several servers is used\<close>
  ca_emby_id :: string
  ca_password :: string
  ca_expires_at :: datetime
  ca_instance :: "int option"

type_synonym 'z executed = "jdict attempt \<times> string list \<times> 'z account_db_scheme"
  \<comment> \<open>the answer, the media accounts whose deletion was asked for, the database\<close>

definition bind_created ::
  "clock \<Rightarrow> string \<Rightarrow> registration_job \<Rightarrow> string \<Rightarrow> created_account \<Rightarrow> 'z account_db_scheme \<Rightarrow> 'z executed" where
  "bind_created clk membership_id j account_id ca db =
     (case complete_registration clk (jb_tg j) (ca_emby_id ca) (jb_username j) (ca_password ca)
             (jb_safety_code j) (ca_expires_at ca) (jb_consume j) (actor_system ''registration-worker'') db of
        (Inl e, db1) \<Rightarrow> (Inl e, [ca_emby_id ca], db1)
      | (Inr completed, db1) \<Rightarrow>
          if \<not> res_ok completed then
            (let (r, db2) = registration_failure clk (jb_tg j) (res_status completed) rolled_back_message db1
             in (r, [ca_emby_id ca], db2))
          else
            let db2 = (if account_id = [] then db1
                  else snd (assign_default_plan clk membership_id account_id (Some (jb_days j))
                         (actor_system ''registration-worker'') db1));
                (r, db3) = run_uow (\<lambda>db. Inr
                  ([(''ok'', JBool True), (''code'', JStr ''registered''), (''tg'', JInt (jb_tg j)),
                    (''username'', JStr (jb_username j)), (''emby_id'', JStr (ca_emby_id ca)),
                    (''emby_password'', JStr (ca_password ca)), (''expires_at'', JTime (ca_expires_at ca)),
                    (''emby_instance_id'', jopt_int (ca_instance ca))],
                   event clk ''registration.completed'' ''user'' (Some (show_int (jb_tg j)))
                     (Some (JDict [(''username'', JStr (jb_username j)), (''emby_id'', JStr (ca_emby_id ca)),
                                   (''status'', JStr ''succeeded'')])) db)) db2
            in (r, [], db3))"

definition execute ::
  "clock \<Rightarrow> string \<Rightarrow> created_account option \<Rightarrow> ('z account_db_scheme \<Rightarrow> 'z account_db_scheme) \<Rightarrow> jval \<Rightarrow>
   'z account_db_scheme \<Rightarrow> 'z executed" where
  "execute clk membership_id answer while_creating payload db =
     (case registration_job_of payload of
        Inl e \<Rightarrow> (Inl e, [], db)
      | Inr j \<Rightarrow>
          let tg = jb_tg j;
              failure = (\<lambda>code message db. let (r, db') = registration_failure clk tg code message db in (r, [], db'))
          in case users_get_for_update tg db of
               None \<Rightarrow> failure ''user_not_found'' user_missing_message db
             | Some user \<Rightarrow>
                 if truthy_str (emby_embyid user) then failure ''account_already_bound'' already_bound_message db
                 else
                   let account_id = (case jb_account_id j of
                           Some a \<Rightarrow> a
                         | None \<Rightarrow> (case accounts_by_legacy_tg tg db of None \<Rightarrow> [] | Some a \<Rightarrow> acc_id a));
                       db1 = while_creating db
                   in case answer of
                        None \<Rightarrow> failure ''emby_create_failed'' create_failed_message db1
                      | Some ca \<Rightarrow> bind_created clk membership_id j account_id ca db1)"

end
