(* ===== verification/Registration_Properties.thy ===== *)
theory Registration_Properties
  imports Registration_Service Task_Properties Governance_Properties
begin

section \<open>Properties of the registration service\<close>

text \<open>
  The places of the server are never given away twice, from the submission of a registration to the
  binding of the media account, however submissions, cancellations and workers interleave; an execution
  either binds the account it created or asks for its deletion; what a redemption on the way uses up.
\<close>

subsection \<open>Seats\<close>

text \<open>Who has an account: the Telegram ids with their media accounts.\<close>

definition seats :: "'z core_db_scheme \<Rightarrow> (int \<times> string option) list" where
  "seats db = map (\<lambda>u. (emby_tg u, emby_embyid u)) (embys db)"



lemma seats_get: "map_of (seats db) tg = map_option emby_embyid (users_get_for_update tg db)"
proof -
  have "map_of (map (\<lambda>u. (emby_tg u, emby_embyid u)) us) tg = map_option emby_embyid (tbl_get emby_tg tg us)" for us
    by (induction us) auto
  then show ?thesis by (simp add: seats_def users_get_for_update_def)
qed

lemma seats_embys: "embys db' = embys db \<Longrightarrow> seats db' = seats db"
  by (simp add: seats_def)

lemma map_put_same:
  "tbl_get key (key r) rs = Some r0 \<Longrightarrow> distinct (map key rs) \<Longrightarrow> f r = f r0 \<Longrightarrow>
   map (\<lambda>u. (key u, f u)) (tbl_put key r rs) = map (\<lambda>u. (key u, f u)) rs"
  by (induction rs) (auto simp: tbl_put_absent tbl_get_None split: if_splits)

lemma seats_save_same:
  assumes "integrity db" "users_get_for_update tg db = Some u" "emby_tg u' = tg" "emby_embyid u' = emby_embyid u"
  shows "seats (users_save u' db) = seats db"
  using assms map_put_same [of emby_tg u' "embys db" u emby_embyid]
  by (simp add: seats_def users_save_def users_get_for_update_def integrity_def)

definition seat :: "int \<Rightarrow> string \<Rightarrow> int \<times> string option \<Rightarrow> int \<times> string option" where
  "seat tg e s = (if fst s = tg then (tg, Some e) else s)"

lemma seats_save_bound:
  assumes "emby_tg u' = tg" "emby_embyid u' = Some e"
  shows "seats (users_save u' db) = map (seat tg e) (seats db)"
  using assms by (simp add: seats_def users_save_def tbl_put_def seat_def o_def)

lemma seats_frame [simp]:
  "seats (audit clk ac an rt rid oc dt rq db) = seats db"
  "seats (event clk et at ai p db) = seats db"
  "seats (point_transaction clk tg bt am ba re ac k m db) = seats db"
  "seats (codes_save c db) = seats db"
  "seats (add_task t db) = seats db"
  "seats (save_task t db) = seats db"
  by (rule seats_embys, simp)+

subsection \<open>The places that are taken\<close>







text \<open>What a change of the queue may do to the rows: it keeps what a task is and activates none.\<close>

definition calmer :: "task_row \<Rightarrow> task_row \<Rightarrow> bool" where
  "calmer t t' = (task_id t' = task_id t \<and> task_type t' = task_type t \<and> task_owner_id t' = task_owner_id t \<and>
     task_input t' = task_input t \<and> (active_registration t' \<longrightarrow> active_registration t))"

lemma calmer_refl [simp]: "calmer t t"
  by (simp add: calmer_def)

definition calmed :: "task_row list \<Rightarrow> task_row list \<Rightarrow> bool" where
  "calmed ts ts' = list_all2 calmer ts ts'"

lemma calmed_refl [simp]: "calmed ts ts"
  by (simp add: calmed_def list_all2_refl)










subsection \<open>Calls that take no place\<close>

definition quiet :: "'z core_db_scheme \<Rightarrow> 'z core_db_scheme \<Rightarrow> bool" where
  "quiet db db' =
     (settings db' = settings db \<and> seats db' = seats db \<and> calmed (tasks db) (tasks db'))"

lemma quiet_refl [simp]: "quiet db db"
  by (simp add: quiet_def)



lemma quiet_bookkeeping [simp]:
  "quiet db (audit clk ac an rt rid oc dt rq d) = quiet db d"
  "quiet db (event clk et at ai p d) = quiet db d"
  "quiet db (task_event clk et i q d) = quiet db d"
  "quiet db (point_transaction clk tg bt am ba re ac k m d) = quiet db d"
  "quiet db (codes_save c d) = quiet db d"
  by (simp_all add: quiet_def task_event_def)











subsection \<open>Submissions\<close>










lemma lock_quiet:
  "quiet db (lock_registration_state n db)" "tasks (lock_registration_state n db) = tasks db"
  "integrity (lock_registration_state n db) = integrity db"
  "users_get_for_update tg (lock_registration_state n db) = users_get_for_update tg db"
  by (simp_all add: quiet_def lock_registration_state_def seats_def integrity_def users_get_for_update_def)




subsection \<open>Taking the seat\<close>

definition settles :: "int \<Rightarrow> string \<Rightarrow> 'z core_db_scheme \<Rightarrow> 'z core_db_scheme \<Rightarrow> bool" where
  "settles tg e db db' =
     (settings db' = settings db \<and> tasks db' = tasks db \<and> seats db' = map (seat tg e) (seats db))"






lemma complete_registration_cases:
  assumes "integrity db" "complete_registration clk tg e name pwd pwd2 ex cq a db = (x, db')"
  shows "(\<exists>r u. x = Inr r \<and> res_ok r \<and> users_get_for_update tg db = Some u \<and> \<not> truthy_str (emby_embyid u) \<and>
      settles tg e db db' \<and> integrity db') \<or>
    (db' = db \<and> (\<forall>r. x = Inr r \<longrightarrow> \<not> res_ok r))"
proof -
  have bound: "settles tg e db (users_save u' db)" if "emby_tg u' = tg" "emby_embyid u' = Some e" for u'
    using seats_save_bound [OF that] by (simp add: settles_def)
  have keep: "settles tg e db (audit clk ac an rt rid oc dt rq d) = settles tg e db d"
    "settles tg e db (event clk et at ai p d) = settles tg e db d"
    "settles tg e db (point_transaction clk tg' bt am ba re ac k m d) = settles tg e db d"
    for ac an rt rid oc dt rq et at ai p tg' bt am ba re k m d
    by (simp_all add: settles_def)
  show ?thesis
  proof (cases "users_get_for_update tg db")
    case None
    then show ?thesis using assms by (auto simp: complete_registration_def run_uow_def res_ok_def)
  next
    case (Some u)
    have tg: "emby_tg u = tg" using user_repo.get_key [OF Some] .
    let ?b = "u\<lparr>emby_embyid := Some e, emby_name := Some name, emby_pwd := Some pwd, emby_pwd2 := Some pwd2,
        emby_lv := Some ''b'', emby_cr := Some (now_local clk), emby_ex := Some ex\<rparr>"
    have b: "settles tg e db (users_save ?b db)" "settles tg e db (users_save (?b\<lparr>emby_us := Some 0\<rparr>) db)"
      by (rule bound; simp add: tg)+
    show ?thesis
    proof (cases "truthy_str (emby_embyid u) \<or> (cq \<and> int_or_0 (emby_us u) \<le> 0)")
      case True
      have "\<exists>st. st \<noteq> ''ok'' \<and> complete_registration clk tg e name pwd pwd2 ex cq a db = (Inr (result st []), db)"
      proof (cases "truthy_str (emby_embyid u)")
        case True
        then show ?thesis using assms(1) Some by (simp add: complete_registration_def run_uow_def)
      next
        case False
        then show ?thesis using assms(1) Some \<open>_ \<or> _\<close> by (simp add: complete_registration_def run_uow_def)
      qed
      then show ?thesis using assms(2) by (auto simp: res_ok_def)
    next
      case False
      then show ?thesis
        using assms(2) Some b
        by (cases cq; simp add: complete_registration_def run_uow_def Let_def res_ok_def keep split: if_splits)
          (elim conjE; hypsubst; simp add: keep)+
    qed
  qed
qed

definition still :: "'z core_db_scheme \<Rightarrow> 'z core_db_scheme \<Rightarrow> bool" where
  "still db db' = (settings db' = settings db \<and> tasks db' = tasks db \<and> seats db' = seats db)"


lemma still_keep [simp]:
  "still db db" "still db (audit clk ac an rt rid oc dt rq d) = still db d"
  "still db (event clk et at ai p d) = still db d"
  by (simp_all add: still_def)

lemma membership_tables:
  "embys (save_membership m db) = embys db" "integrity (save_membership m db) = integrity db"
  "still db (save_membership m d) = still db d"
  "embys (add_membership m db) = embys db" "integrity (add_membership m db) = integrity db"
  "still db (add_membership m d) = still db d"
  by (simp_all add: save_membership_def add_membership_def integrity_def still_def seats_def)

lemma still_users_save:
  assumes "integrity d" "still db d" "users_get_for_update tg d = Some u" "emby_tg u' = tg" "emby_embyid u' = emby_embyid u"
  shows "still db (users_save u' d)"
  using assms seats_save_same [OF assms(1,3-5)] by (simp add: still_def)

lemma relevel_still:
  assumes "integrity d" "still db d"
  shows "still db (case users_get_for_update tg d of None \<Rightarrow> d
    | Some u \<Rightarrow> users_save (u\<lparr>emby_lv := lv, emby_ex := ex\<rparr>) d)"
  using still_users_save [OF assms] user_repo.get_key [of tg d] assms(2) by (auto split: option.split)

lemma account_integrity_core: "account_integrity db \<Longrightarrow> integrity db"
  by (simp add: account_integrity_def auth_integrity_def)

lemma assign_plan_still:
  assumes "integrity db"
  shows "still db (snd (assign_plan clk mid aid pid days a db)) \<and> integrity (snd (assign_plan clk mid aid pid days a db))"
proof (cases "fst (assign_plan clk mid aid pid days a db)")
  case (Inl e)
  then have "snd (assign_plan clk mid aid pid days a db) = db"
    unfolding assign_plan_def Let_def by (rule commit.atomic)
  then show ?thesis using assms by simp
next
  case (Inr r)
  then obtain db' where r: "assign_plan clk mid aid pid days a db = (Inr r, db')" by (metis prod.collapse)
  then have "integrity db'" by (auto simp: assign_plan_def Let_def commit_with_Inr account_integrity_core)
  moreover have "still db db'"
  proof (cases "accounts_get aid db = None \<or> get_plan pid db = None \<or> \<not> pl_enabled (the (get_plan pid db))")
    case True
    then have "db' = db"
      using r unfolding assign_plan_def Let_def commit_with_Inr
      by (cases "accounts_get aid db"; cases "get_plan pid db") (simp_all split: if_splits)
    then show ?thesis by simp
  next
    case False
    then obtain acc plan where found: "accounts_get aid db = Some acc" "get_plan pid db = Some plan" "pl_enabled plan" by auto
    let ?db1 = "case active_membership aid db of None \<Rightarrow> db
      | Some current \<Rightarrow> save_membership (current\<lparr>mb_status := ''replaced'', mb_updated_at := now_utc clk\<rparr>) db"
    have db1: "integrity (add_membership m ?db1)" "still db (add_membership m ?db1)" for m
      using assms by (simp_all add: membership_tables split: option.split)
    from r obtain m ex d3 where "db' = d3" and "still db d3 = still db
        (case users_get_for_update (acc_legacy_tg acc) (add_membership m ?db1) of None \<Rightarrow> add_membership m ?db1
         | Some u \<Rightarrow> users_save (u\<lparr>emby_lv := Some (pl_legacy_level plan), emby_ex := ex\<rparr>) (add_membership m ?db1))"
      unfolding assign_plan_def Let_def commit_with_Inr found option.case prod.case
      using found(3) by (simp add: bind_attempt_Inr_iff) (metis still_keep(2,3))
    then show ?thesis using relevel_still [OF db1] by simp
  qed
  ultimately show ?thesis by (simp add: r)
qed

lemma assign_default_still:
  "integrity db \<Longrightarrow> still db (snd (assign_default_plan clk mid aid days a db)) \<and>
    integrity (snd (assign_default_plan clk mid aid days a db))"
  by (simp add: assign_default_plan_def assign_plan_still split: option.split)

subsection \<open>Executions\<close>



text \<open>What binding a created account does: it takes the seat, or asks for the deletion of the account
  and changes no seat.\<close>

lemma bind_created_cases:
  assumes "integrity db" "bind_created clk mid j aid ca db = (r, del, db')"
  shows "integrity db' \<and>
    ((\<exists>view u d. r = Inr view \<and> map_of view ''ok'' = Some (JBool True) \<and> del = [] \<and>
        users_get_for_update (jb_tg j) db = Some u \<and> \<not> truthy_str (emby_embyid u) \<and>
        settles (jb_tg j) (ca_emby_id ca) db d \<and> integrity d \<and> still d db') \<or>
     (del = [ca_emby_id ca] \<and> still db db' \<and> (\<forall>view. r = Inr view \<longrightarrow> map_of view ''ok'' = Some (JBool False))))"
proof -
  obtain x d1 where run: "complete_registration clk (jb_tg j) (ca_emby_id ca) (jb_username j) (ca_password ca)
      (jb_safety_code j) (ca_expires_at ca) (jb_consume j) (actor_system ''registration-worker'') db = (x, d1)"
    by fastforce
  from complete_registration_cases [OF assms(1) run] show ?thesis
  proof (elim disjE exE conjE)
    fix c u
    assume x: "x = Inr c" "res_ok c" and u: "users_get_for_update (jb_tg j) db = Some u" "\<not> truthy_str (emby_embyid u)"
      and d1: "settles (jb_tg j) (ca_emby_id ca) db d1" "integrity d1"
    define d2 where "d2 = (if aid = [] then d1
        else snd (assign_default_plan clk mid aid (Some (jb_days j)) (actor_system ''registration-worker'') d1))"
    have d2: "still d1 d2" "integrity d2" using assign_default_still [OF d1(2)] d1(2) by (simp_all add: d2_def)
    have "still d1 db' \<and> integrity db' \<and> (\<exists>view. r = Inr view \<and> map_of view ''ok'' = Some (JBool True)) \<and> del = []"
      using assms(2) run x d2
      by (auto simp: bind_created_def Let_def d2_def [symmetric] run_uow_def)
    then show ?thesis using u d1 by blast
  next
    assume d1: "d1 = db" and no: "\<forall>c. x = Inr c \<longrightarrow> \<not> res_ok c"
    show ?thesis
    proof (cases x)
      case (Inl e)
      then show ?thesis using assms run d1 by (auto simp: bind_created_def)
    next
      case (Inr c)
      then show ?thesis
        using assms run d1 no
        by (auto simp: bind_created_def Let_def registration_failure_def run_uow_def)
    qed
  qed
qed



subsection \<open>Interleaved registrations\<close>

















definition registration_sample :: registration_db where
  "registration_sample =
     \<lparr>embys = [sample_user], codes = [new_code ''S-Whitelist_x'' 1 0], partition_codes = [], partition_grants = empty_table,
      accounts = [], identities = [], wallets = empty_table, ledger = empty_table,
      idempotency = empty_table, audits = empty_table, points = empty_table,
      events = empty_table, securities = empty_table, tasks = [], jobs = empty_table,
      heartbeats = [], settings = [], revisions = empty_table,
      login_requests = [], sessions = [], roles = empty_table, role_members = empty_table,
      plans = empty_table, memberships = [], tags = empty_table, assignments = empty_table,
      registration_state = None\<rparr>"

lemma registration_sample_integrity: "integrity registration_sample"
  by (simp add: registration_sample_def integrity_def sample_user_def new_emby_def)

lemma default_setting:
  assumes "integrity db" "settings db = []" "SETTING_REGISTRY key = Some d"
  shows "setting_value_of key (db, Values Map.empty) = Inr (sd_default d)"
  using assms by (simp add: setting_value_of_def settings_get_def run_uow_def get_dynamic_setting_def
      serialize_setting_def)

definition default_settings :: registration_settings where
  "default_settings = \<lparr>rs_enabled = False, rs_invite_required = False, rs_open_days = 30, rs_user_limit = 1000,
     rs_queue_limit = 100\<rparr>"

lemma registration_defaults:
  "\<exists>d. SETTING_REGISTRY ''registration.enabled'' = Some d \<and> sd_default d = JBool False"
  "\<exists>d. SETTING_REGISTRY ''registration.invite_required'' = Some d \<and> sd_default d = JBool False"
  "\<exists>d. SETTING_REGISTRY ''registration.open_days'' = Some d \<and> sd_default d = JInt 30"
  "\<exists>d. SETTING_REGISTRY ''registration.user_limit'' = Some d \<and> sd_default d = JInt 1000"
  "\<exists>d. SETTING_REGISTRY ''registration.queue_limit'' = Some d \<and> sd_default d = JInt 100"
  using registry_at [of 4 "''registration.enabled''"] registry_at [of 8 "''registration.invite_required''"]
    registry_at [of 7 "''registration.open_days''"] registry_at [of 11 "''registration.user_limit''"]
    registry_at [of 13 "''registration.queue_limit''"]
  by (simp_all add: setting_summaries)

lemma sample_settings:
  assumes "integrity db" "settings db = []"
  shows "registration_settings_of (db, Values Map.empty) = Inr default_settings"
  using registration_defaults default_setting [OF assms]
  by (auto simp: registration_settings_of_def default_settings_def)


definition sample_submission :: submission where
  "sample_submission =
     \<lparr>sb_tg = 7, sb_username = ''sakura'', sb_safety_code = ''1234'', sb_code = Some ''S-Whitelist_x'',
      sb_actor = sample_actor, sb_key = ''k'', sb_channel = ''web'', sb_chat_id = None, sb_message_id = None\<rparr>"


subsection \<open>Executions leave no orphan\<close>

text \<open>C36: An execution that has created a media account either binds it or asks for its deletion. Let the
  worker execute a valid job for a user without an account, and let anything happen while the media
  server works that keeps the database consistent. Then either the answer is ok, the user held no
  account when the binding began, holds the created one at the end, and nothing is deleted; or the
  created account, and no other, is deleted, no user's account has changed since, and the answer is an
  exception or says that it failed.\<close>

theorem execution_leaves_no_orphan:
  assumes "integrity (while_creating db)" "registration_job_of p = Inr j"
    and "users_get_for_update (jb_tg j) db = Some u" "\<not> truthy_str (emby_embyid u)"
    and "execute clk mid (Some ca) while_creating p db = (r, deleted, db')"
  shows "if deleted = []
    then (\<exists>view v. r = Inr view \<and> map_of view ''ok'' = Some (JBool True) \<and>
        users_get_for_update (jb_tg j) (while_creating db) = Some v \<and> \<not> truthy_str (emby_embyid v) \<and>
        seats db' = map (seat (jb_tg j) (ca_emby_id ca)) (seats (while_creating db)))
    else deleted = [ca_emby_id ca] \<and> seats db' = seats (while_creating db) \<and>
      (case r of Inl e \<Rightarrow> True | Inr view \<Rightarrow> map_of view ''ok'' = Some (JBool False))"
proof -
  obtain aid where "bind_created clk mid j aid ca (while_creating db) = (r, deleted, db')"
    using assms(2-5) by (auto simp: execute_def Let_def)
  from bind_created_cases [OF assms(1) this] show ?thesis
    by (auto simp: still_def settles_def split: sum.split)
qed

definition sample_job :: jval where
  "sample_job = JDict [(''tg'', JInt 7), (''username'', JStr ''sakura''), (''safety_code'', JStr ''1234''), (''days'', JInt 30)]"

lemma sample_job_of: "registration_job_of sample_job =
    Inr \<lparr>jb_tg = 7, jb_username = ''sakura'', jb_safety_code = ''1234'', jb_days = 30, jb_consume = False, jb_account_id = None\<rparr>"
  by code_simp

lemma sample_user_found: "users_get_for_update 7 registration_sample = Some sample_user" "\<not> truthy_str (emby_embyid sample_user)"
  by (simp_all add: registration_sample_def users_get_for_update_def sample_user_def new_emby_def)

definition sample_created :: created_account where
  "sample_created = \<lparr>ca_emby_id = ''e'', ca_password = ''p'', ca_expires_at = 0, ca_instance = None\<rparr>"

lemma execution_leaves_no_orphan_witness:
  "let (r, deleted, db') = execute sample_clock ''m'' (Some sample_created) id sample_job registration_sample
   in deleted = [] \<or> (deleted = [''e''] \<and> seats db' = seats registration_sample)"
proof -
  obtain r del db' where run: "execute sample_clock ''m'' (Some sample_created) id sample_job registration_sample = (r, del, db')"
    by (metis prod_cases3)
  have "integrity (id registration_sample)" by (simp add: registration_sample_integrity)
  from execution_leaves_no_orphan [OF this sample_job_of _ sample_user_found(2) run] sample_user_found(1) show ?thesis
    unfolding run by (auto simp: sample_created_def split: if_splits)
qed

subsection \<open>A code that is used up for nothing\<close>

lemma reserve_no_days:
  assumes "users_get_for_update (sb_tg sb) db = Some u" "int_or_0 (emby_us u) \<le> 0" "requires_invite rs"
  shows "reserve_place clk new_id sb rs n db = (result ''no_qualification'' [], db)"
  using assms by (simp add: reserve_place_def)

definition spendable :: "clock \<Rightarrow> string \<Rightarrow> int \<Rightarrow> code_row \<Rightarrow> bool" where
  "spendable clk logo tg c =
     (code_used c = None \<and> code_status c \<in> {None, Some ''active''} \<and>
      (case code_expires_at c of None \<Rightarrow> True | Some t \<Rightarrow> now_utc clk < t) \<and>
      code_prefix (code_code c) \<in> {logo, show_int tg})"

lemma redeem_zero:
  assumes user: "users_get_for_update tg db = Some u" and code: "codes_get_for_update cv db = Some c"
    and "spendable clk legacy tg c" "cv \<noteq> []" "int_or_0 (code_us c) \<le> 0" "int_or_0 (emby_us u) \<le> 0"
  shows "\<exists>d. redeem_code clk u (Some cv) logo legacy a db = (''ok'', d) \<and>
    (\<exists>v. users_get_for_update tg d = Some v \<and> int_or_0 (emby_us v) \<le> 0) \<and>
    (\<exists>c'. codes_get_for_update cv d = Some c' \<and> code_used c' = Some tg)"
proof -
  have tg: "emby_tg u = tg" using user_repo.get_key [OF user] .
  have cv: "code_code c = cv" using code_repo.get_key [OF code] .
  have free: "\<not> (case code_expires_at c of None \<Rightarrow> False | Some t \<Rightarrow> t \<le> now_utc clk)"
    "code_prefix cv \<in> {logo, legacy, show_int tg}"
    using assms(3) cv by (auto simp: spendable_def split: option.splits)
  let ?v = "u\<lparr>emby_us := Some (int_or_0 (emby_us u) + int_or_0 (code_us c))\<rparr>"
  have saved: "users_get_for_update tg (users_save ?v db) = Some ?v"
    using user tg by (intro user_repo.get_modified) simp_all
  have got: "codes_get_for_update cv d = Some c \<Longrightarrow> code_code c' = cv \<Longrightarrow> codes_get_for_update cv (codes_save c' d) = Some c'"
    for c' and d :: "'a core_db_scheme" by (rule code_repo.get_modified)
  show ?thesis
    using assms free tg cv saved
    by (auto simp: redeem_code_def Let_def spendable_def got)
qed

definition free_to_register :: "submission \<Rightarrow> string \<Rightarrow> registration_settings \<Rightarrow> 'z core_db_scheme \<Rightarrow> bool" where
  \<comment> \<open>nothing but the qualification stands in the way\<close>
  "free_to_register sb name rs db =
     (get_task_by_idempotency_key (Some (sb_key sb)) db = None \<and> active_task (sb_tg sb) db = None \<and>
      \<not> list_ex (\<lambda>u. map_option py_lower (emby_name u) = Some (py_lower name)) (embys db) \<and>
      registered_count db + active_count db < rs_user_limit rs \<and> waiting_count db < max 1 (rs_queue_limit rs))"

lemma lock_tables:
  "embys (lock_registration_state n db) = embys db" "codes_get_for_update cv (lock_registration_state n db) = codes_get_for_update cv db"
  "registered_count (lock_registration_state n db) = registered_count db"
  "active_count (lock_registration_state n db) = active_count db"
  "waiting_count (lock_registration_state n db) = waiting_count db"
  by (simp_all add: lock_registration_state_def codes_get_for_update_def registered_count_def active_count_def
      waiting_count_def)

text \<open>C37: A code without days is used up for nothing. If a registration requires a qualification, nothing else
  stands in the way, and the user without days hands in an unused code of his server whose days are
  zero, as every whitelist code is, then the answer that he is not qualified comes after the code has
  been spent on him.\<close>

theorem worthless_code_is_spent:
  assumes "submit clk new_id rt logo id sb db = (Inr r, db')"
    and rs: "registration_settings_of (db, rt) = Inr rs" "requires_invite rs"
    and valid: "validate_username (sb_username sb) = Inr name" "validate_safety_code (sb_safety_code sb) = Inr sc"
    and free: "free_to_register sb name rs db"
    and user: "users_get_for_update (sb_tg sb) db = Some u" "\<not> truthy_str (emby_embyid u)" "int_or_0 (emby_us u) \<le> 0"
    and code: "strip_or_none (sb_code sb) = Some cv" "codes_get_for_update cv db = Some c"
      "spendable clk logo (sb_tg sb) c" "int_or_0 (code_us c) \<le> 0"
  shows "r = result ''no_qualification'' [] \<and>
    (\<exists>c'. codes_get_for_update cv db' = Some c' \<and> code_used c' = Some (sb_tg sb))"
proof -
  let ?sb = "sb\<lparr>sb_username := name, sb_safety_code := sc, sb_code := Some cv\<rparr>"
  let ?l = "lock_registration_state (now_utc clk) db"
  have cv: "cv \<noteq> []" using code(1) by (auto simp: strip_or_none_def Let_def split: if_splits)
  have "users_get_for_update (sb_tg sb) ?l = Some u" "codes_get_for_update cv ?l = Some c"
    using user(1) code(2) by (simp_all add: lock_quiet lock_tables)
  from redeem_zero [OF this code(3) cv code(4) user(3), of "dynamic_logo logo ?l" "sb_actor sb"] obtain d v c' where
    red: "redeem_code clk u (Some cv) (dynamic_logo logo ?l) logo (sb_actor sb) ?l = (''ok'', d)"
    and v: "users_get_for_update (sb_tg sb) d = Some v" "int_or_0 (emby_us v) \<le> 0"
    and c': "codes_get_for_update cv d = Some c'" "code_used c' = Some (sb_tg sb)" by blast
  have "submit_locked clk new_id logo ?sb rs u ?l = (result ''no_qualification'' [], d)"
    using free rs(2) user(3) red reserve_no_days [of ?sb d v rs] v
    by (auto simp: submit_locked_def free_to_register_def lock_tables)
  then have body: "submit_body clk new_id logo ?sb rs db = (result ''no_qualification'' [], d)"
    using free user by (simp add: submit_body_def free_to_register_def)
  have "(r, db') = (result ''no_qualification'' [], d)"
    using assms(1) free rs(1) valid code(1)
    by (auto simp: submit_def run_uow_def body free_to_register_def split: if_splits)
  then show ?thesis using c' by simp
qed

lemma sample_valid: "validate_username ''sakura'' = Inr ''sakura''" "validate_safety_code ''1234'' = Inr ''1234''"
  "strip_or_none (Some ''S-Whitelist_x'') = Some ''S-Whitelist_x''" "code_prefix ''S-Whitelist_x'' = ''S''"
  by code_simp+

lemma worthless_code_is_spent_witness:
  "let (answer, db) = submit sample_clock ''t'' (Values Map.empty) ''S'' id sample_submission registration_sample
   in answer = Inr (result ''no_qualification'' []) \<and>
      (\<exists>c. codes_get_for_update ''S-Whitelist_x'' db = Some c \<and> code_used c = Some 7)"
proof -
  have rs: "registration_settings_of (registration_sample, Values Map.empty) = Inr default_settings"
    by (rule sample_settings [OF registration_sample_integrity]) (simp add: registration_sample_def)
  have free: "free_to_register sample_submission ''sakura'' default_settings registration_sample"
    by (simp add: free_to_register_def registration_sample_def sample_submission_def default_settings_def
        get_task_by_idempotency_key_def active_task_def first_of_def registered_count_def active_count_def
        waiting_count_def sample_user_def new_emby_def)
  have code: "codes_get_for_update ''S-Whitelist_x'' registration_sample = Some (new_code ''S-Whitelist_x'' 1 0)"
    by (simp add: registration_sample_def codes_get_for_update_def new_code_def)
  have spend: "spendable sample_clock ''S'' 7 (new_code ''S-Whitelist_x'' 1 0)"
    by (simp add: spendable_def new_code_def sample_valid)
  obtain r d where body: "submit_body sample_clock ''t'' ''S'' sample_submission default_settings registration_sample = (r, d)"
      "integrity d"
    by (simp add: submit_body_def sample_submission_def sample_valid
        get_task_by_idempotency_key_def active_task_def first_of_def submit_locked_def registered_count_def
        active_count_def waiting_count_def redeem_code_def reserve_place_def Let_def op_defs sample_clock_def
        registration_sample_def sample_user_def new_emby_def new_code_def requires_invite_def default_settings_def
        lock_registration_state_def dynamic_logo_def get_dynamic_setting_def integrity_def point_transaction_def)
  have "sample_submission\<lparr>sb_username := ''sakura'', sb_safety_code := ''1234'', sb_code := Some ''S-Whitelist_x''\<rparr> = sample_submission"
    by (simp add: sample_submission_def)
  moreover have "validate_username (sb_username sample_submission) = Inr ''sakura''"
      "validate_safety_code (sb_safety_code sample_submission) = Inr ''1234''"
      "strip_or_none (sb_code sample_submission) = Some ''S-Whitelist_x''"
    by (simp_all add: sample_submission_def sample_valid)
  ultimately have run: "submit sample_clock ''t'' (Values Map.empty) ''S'' id sample_submission registration_sample = (Inr r, d)"
    by (simp add: submit_def rs run_uow_def body)
  have fields: "sb_tg sample_submission = 7" "requires_invite default_settings" "int_or_0 (emby_us sample_user) \<le> 0"
      "int_or_0 (code_us (new_code ''S-Whitelist_x'' 1 0)) \<le> 0"
      "validate_username (sb_username sample_submission) = Inr ''sakura''"
      "validate_safety_code (sb_safety_code sample_submission) = Inr ''1234''"
      "strip_or_none (sb_code sample_submission) = Some ''S-Whitelist_x''"
    by (simp_all add: sample_submission_def sample_valid default_settings_def requires_invite_def sample_user_def new_emby_def
        new_code_def)
  have "users_get_for_update (sb_tg sample_submission) registration_sample = Some sample_user"
      "spendable sample_clock ''S'' (sb_tg sample_submission) (new_code ''S-Whitelist_x'' 1 0)"
    using sample_user_found spend by (simp_all add: fields)
  from worthless_code_is_spent [OF run rs fields(2,5,6) free this(1) sample_user_found(2) fields(3,7) code this(2) fields(4)]
  show ?thesis by (simp add: run fields)
qed

end
