(* ===== verification/Platform_Schema.thy ===== *)
theory Platform_Schema
  imports Community_Schema Settings_Service Task_Service
begin

section \<open>Automations and their runs: the tables\<close>

text \<open>
  The tables \<open>automation_rules\<close> and \<open>automation_runs\<close> of \<open>bot/sql_helper/sql_platform.py\<close>, added to the
  database, with the queries \<open>AutomationService\<close> makes on them. The conditions and actions of a rule are
  held as the values their JSON text denotes; the service checks on saving that they are a dict and a list
  of dicts.
\<close>

record automation_row =
  au_id :: string
  au_name :: string
  au_description :: "string option"
  au_trigger_type :: string
  au_trigger_value :: string
  au_conditions :: jdict
  au_actions :: "jdict list"
  au_enabled :: bool
  au_cooldown_seconds :: int
  au_last_cursor :: int
  au_last_run_at :: "datetime option"
  au_revision :: int
  au_created_at :: datetime
  au_updated_at :: datetime

record run_row =
  ar_id :: string
  ar_rule_id :: string
  ar_event_id :: "int option"
  ar_status :: string
  ar_action_results :: "jval option"
  ar_error_message :: "string option"
  ar_started_at :: datetime
  ar_finished_at :: "datetime option"
  ar_created_at :: datetime

record platform_db = community_db +
  automations :: "automation_row list"
  automation_runs :: "run_row list"

definition run_key :: "run_row \<Rightarrow> (string \<times> int) option" where
  "run_key r = map_option (Pair (ar_rule_id r)) (ar_event_id r)"

definition platform_keys :: "'z platform_db_scheme \<Rightarrow> bool" where
  \<comment> \<open>the primary keys and unique constraints of these tables\<close>
  "platform_keys db =
     (distinct (map au_id (automations db)) \<and>
      distinct (map ar_id (automation_runs db)) \<and> unique_some run_key (automation_runs db))"

definition platform_integrity :: "'z platform_db_scheme \<Rightarrow> bool" where
  "platform_integrity db = (community_integrity db \<and> platform_keys db)"

abbreviation platform_uow ::
  "('z platform_db_scheme \<Rightarrow> ('a \<times> 'z platform_db_scheme) attempt) \<Rightarrow> 'z platform_db_scheme \<Rightarrow>
   ('a, 'z platform_db_scheme) outcome" where
  "platform_uow \<equiv> commit_with platform_integrity"

subsection \<open>Rows by their id\<close>

definition get_automation :: "string \<Rightarrow> 'z platform_db_scheme \<Rightarrow> automation_row option" where
  [op_defs]: "get_automation i db = tbl_get au_id i (automations db)"

definition save_automation :: "automation_row \<Rightarrow> 'z platform_db_scheme \<Rightarrow> 'z platform_db_scheme" where
  [op_defs]: "save_automation r db = db\<lparr>automations := tbl_put au_id r (automations db)\<rparr>"

definition add_automation :: "automation_row \<Rightarrow> 'z platform_db_scheme \<Rightarrow> 'z platform_db_scheme" where
  [op_defs]: "add_automation r db = db\<lparr>automations := automations db @ [r]\<rparr>"

definition delete_automation :: "string \<Rightarrow> 'z platform_db_scheme \<Rightarrow> 'z platform_db_scheme" where
  [op_defs]: "delete_automation i db = db\<lparr>automations := tbl_del au_id i (automations db)\<rparr>"

interpretation automation_repo: growing_store get_automation save_automation au_id add_automation delete_automation
  by unfold_locales
    (auto simp: op_defs tbl_get_put_same tbl_get_put_other tbl_put_absent tbl_get_append tbl_get_del
       dest: tbl_get_key split: option.splits)

definition get_run :: "string \<Rightarrow> 'z platform_db_scheme \<Rightarrow> run_row option" where
  [op_defs]: "get_run i db = tbl_get ar_id i (automation_runs db)"

definition save_run :: "run_row \<Rightarrow> 'z platform_db_scheme \<Rightarrow> 'z platform_db_scheme" where
  [op_defs]: "save_run r db = db\<lparr>automation_runs := tbl_put ar_id r (automation_runs db)\<rparr>"

definition add_run :: "run_row \<Rightarrow> 'z platform_db_scheme \<Rightarrow> 'z platform_db_scheme" where
  [op_defs]: "add_run r db = db\<lparr>automation_runs := automation_runs db @ [r]\<rparr>"

interpretation run_repo: keyed_store get_run save_run ar_id
  by unfold_locales
    (auto simp: op_defs tbl_get_put_same tbl_get_put_other tbl_put_absent dest: tbl_get_key)

subsection \<open>Text of a JSON value\<close>

fun py_str :: "(jval \<Rightarrow> string) \<Rightarrow> jval \<Rightarrow> string" where
  \<comment> \<open>\<open>str(value)\<close>; the text of a list or a dict is the argument\<close>
  "py_str shown JNull = ''None''"
| "py_str shown (JBool b) = (if b then ''True'' else ''False'')"
| "py_str shown (JInt n) = show_int n"
| "py_str shown (JStr s) = s"
| "py_str shown (JTime t) = dt_str t"
| "py_str shown v = shown v"

definition field_or :: "string \<Rightarrow> jval \<Rightarrow> jdict \<Rightarrow> jval" where
  \<comment> \<open>\<open>d.get(k) or default\<close>\<close>
  "field_or k dflt d = (case map_of d k of None \<Rightarrow> dflt | Some v \<Rightarrow> if jtruthy v then v else dflt)"

fun dict_put :: "string \<Rightarrow> jval \<Rightarrow> jdict \<Rightarrow> jdict" where
  \<comment> \<open>a key that is there keeps its place\<close>
  "dict_put k v [] = [(k, v)]"
| "dict_put k v (kv # d) = (if fst kv = k then (k, v) # d else kv # dict_put k v d)"

definition dict_merge :: "jdict \<Rightarrow> jdict \<Rightarrow> jdict" where
  \<comment> \<open>\<open>{**a, **b}\<close>\<close>
  "dict_merge a b = fold (\<lambda>(k, v). dict_put k v) b a"

end
