(* ===== verification/Patterns.thy ===== *)
theory Patterns
  imports Prelude
begin

section \<open>File name patterns\<close>

text \<open>
  \<open>fnmatch.fnmatch\<close> of Python's library, with which automations select events and rules select the
  clients of devices: a star stands for any text, a question mark for one character, brackets for a set of
  characters with ranges, an exclamation mark negates the set. The pattern is read into tokens the way
  \<open>fnmatch.translate\<close> builds its regular expression, empty ranges being dropped; the tokens are then
  matched against the code points of the text.
\<close>

datatype glob_token =
    AnyText
  | AnyChar
  | OneOf bool "string list list"  \<comment> \<open>negated; the parts between the hyphens of the ranges\<close>
  | Exactly string

subsection \<open>Reading a pattern\<close>

definition set_body :: "string list \<Rightarrow> (string list \<times> string list) option" where
  \<comment> \<open>what is between the brackets, and what follows; \<open>None\<close> without a closing bracket\<close>
  "set_body cs =
     (let n0 = (if take 1 cs = [''!''] then 1 else 0);
          n1 = (if take 1 (drop n0 cs) = ['']''] then n0 + 1 else n0);
          rest = drop n1 cs
      in case dropWhile (\<lambda>c. c \<noteq> '']'') rest of
           [] \<Rightarrow> None
         | _ # after \<Rightarrow> Some (take n1 cs @ takeWhile (\<lambda>c. c \<noteq> '']'') rest, after))"

function hyphen_parts :: "nat \<Rightarrow> string list \<Rightarrow> string list list" where
  \<comment> \<open>cut at the hyphens that make ranges: not among the first \<open>k\<close> characters, and not at the end\<close>
  "hyphen_parts k cs =
     (let m = k + length (takeWhile (\<lambda>c. c \<noteq> ''-'') (drop k cs))
      in if length cs \<le> m + 1 then [cs] else take m cs # hyphen_parts 2 (drop (m + 1) cs))"
  by pat_completeness auto

termination by (relation "measure (\<lambda>(k, cs). length cs)") auto

declare hyphen_parts.simps [simp del]

fun drop_empty_ranges :: "string list list \<Rightarrow> string list list" where
  \<comment> \<open>from the right: a range whose first character is above its last disappears with its ends\<close>
  "drop_empty_ranges (c # d # ds) =
     (case drop_empty_ranges (d # ds) of
        [] \<Rightarrow> [c]
      | e # es \<Rightarrow> if hd e < last c then (butlast c @ tl e) # es else c # e # es)"
| "drop_empty_ranges cs = cs"

definition set_token :: "string list \<Rightarrow> glob_token" where
  "set_token body =
     (let parts = drop_empty_ranges (hyphen_parts (if take 1 body = [''!''] then 2 else 1) body)
      in case parts of
           (c # cs) # ds \<Rightarrow> if c = ''!'' then OneOf True (cs # ds) else OneOf False parts
         | _ \<Rightarrow> OneOf False parts)"

lemma set_body_shorter: "set_body cs = Some (b, after) \<Longrightarrow> length after < length cs"
proof -
  assume read: "set_body cs = Some (b, after)"
  then obtain n x where n: "dropWhile (\<lambda>c. c \<noteq> '']'') (drop n cs) = x # after"
    by (auto simp: set_body_def Let_def split: list.splits if_splits)
  have "length (x # after) \<le> length (drop n cs)" unfolding n [symmetric] by (rule length_dropWhile_le)
  then show ?thesis by simp
qed

function glob_tokens :: "string list \<Rightarrow> glob_token list" where
  "glob_tokens [] = []"
| "glob_tokens (c # cs) =
     (if c = ''*'' then AnyText # glob_tokens cs
      else if c = ''?'' then AnyChar # glob_tokens cs
      else if c = ''['' then
        (case set_body cs of
           None \<Rightarrow> Exactly c # glob_tokens cs
         | Some (body, rest) \<Rightarrow> set_token body # glob_tokens rest)
      else Exactly c # glob_tokens cs)"
  by pat_completeness auto

termination by (relation "measure length") (auto dest: set_body_shorter)

subsection \<open>Matching\<close>

fun in_ranges :: "string \<Rightarrow> string list list \<Rightarrow> bool" where
  "in_ranges x (c # d # ds) = ((last c \<le> x \<and> x \<le> hd d) \<or> in_ranges x (d # ds))"
| "in_ranges x cs = False"

fun token_ok :: "glob_token \<Rightarrow> string \<Rightarrow> bool" where
  "token_ok AnyText x = False"
| "token_ok AnyChar x = True"
| "token_ok (OneOf negated parts) x = (negated \<noteq> (x \<in> set (concat parts) \<or> in_ranges x parts))"
| "token_ok (Exactly c) x = (x = c)"

fun glob_run :: "glob_token list \<Rightarrow> string list \<Rightarrow> bool" where
  "glob_run [] s = (s = [])"
| "glob_run (t # ts) s =
     (if t = AnyText then glob_run ts s \<or> (case s of [] \<Rightarrow> False | _ # s' \<Rightarrow> glob_run (t # ts) s')
      else (case s of [] \<Rightarrow> False | c # s' \<Rightarrow> token_ok t c \<and> glob_run ts s'))"

declare glob_run.simps [simp del]

definition fnmatch :: "string \<Rightarrow> string \<Rightarrow> bool" where
  "fnmatch name pat = glob_run (glob_tokens (chars_of pat)) (chars_of name)"

subsection \<open>Matching is cutting the text into pieces\<close>

definition piece_ok :: "glob_token \<Rightarrow> string list \<Rightarrow> bool" where
  \<comment> \<open>what a token may stand for: a star for any piece, the others for one character\<close>
  "piece_ok t p = (t = AnyText \<or> (\<exists>c. p = [c] \<and> token_ok t c))"

lemma glob_star: "glob_run (AnyText # ts) s \<longleftrightarrow> (\<exists>p q. s = p @ q \<and> glob_run ts q)"
proof (induction s)
  case Nil
  then show ?case by (simp add: glob_run.simps(2))
next
  case (Cons c s)
  have "(\<exists>p q. c # s = p @ q \<and> glob_run ts q) \<longleftrightarrow> glob_run ts (c # s) \<or> (\<exists>p q. s = p @ q \<and> glob_run ts q)"
    by (auto simp: Cons_eq_append_conv)
  then show ?case using Cons by (simp add: glob_run.simps(2) [of AnyText ts "c # s"])
qed

lemma glob_run_pieces: "glob_run ts s \<longleftrightarrow> (\<exists>ps. s = concat ps \<and> list_all2 piece_ok ts ps)"
proof (induction ts arbitrary: s)
  case Nil
  then show ?case by (simp add: glob_run.simps(1))
next
  case (Cons t ts)
  have step: "glob_run (t # ts) s \<longleftrightarrow> (\<exists>p q. s = p @ q \<and> piece_ok t p \<and> glob_run ts q)"
  proof (cases "t = AnyText")
    case True
    then show ?thesis by (simp add: glob_star piece_ok_def)
  next
    case False
    have "glob_run (t # ts) s \<longleftrightarrow> (\<exists>c q. s = c # q \<and> token_ok t c \<and> glob_run ts q)"
      using False by (cases s) (simp_all add: glob_run.simps(2))
    also have "... \<longleftrightarrow> (\<exists>p q. s = p @ q \<and> piece_ok t p \<and> glob_run ts q)"
      unfolding piece_ok_def using False by (metis append_Cons append_Nil)
    finally show ?thesis .
  qed
  show ?case
  proof -
    have "(\<exists>p q. s = p @ q \<and> piece_ok t p \<and> (\<exists>ps. q = concat ps \<and> list_all2 piece_ok ts ps)) \<longleftrightarrow>
        (\<exists>ps. s = concat ps \<and> list_all2 piece_ok (t # ts) ps)"
      unfolding list_all2_Cons1 by (metis concat.simps(2))
    then show ?thesis unfolding step Cons.IH .
  qed
qed

lemma fnmatch_pieces:
  "fnmatch name pat \<longleftrightarrow>
     (\<exists>ps. chars_of name = concat ps \<and> list_all2 piece_ok (glob_tokens (chars_of pat)) ps)"
  by (simp add: fnmatch_def glob_run_pieces)

end
