(* ===== verification/Automation_Service.thy ===== *)
theory Automation_Service
  imports Platform_Schema Patterns
begin

section \<open>Automations\<close>

text \<open>
  \<open>AutomationService\<close> of \<open>bot/application/platform_service.py\<close>: rules that are triggered by the events of
  the system or by an interval, and their runs. An evaluation takes for every enabled rule the events after
  the cursor of the rule, runs the actions for those that match and moves the cursor; every run, every
  action and every cursor is a unit of work of its own. Generated ids, the alert recipients of the
  environment, the text Python gives a list, a dict or an exception, and the digest are arguments.
\<close>

record automation_env =
  ae_run_id :: "nat \<Rightarrow> string"
  ae_task_id :: "nat \<Rightarrow> nat \<Rightarrow> nat \<Rightarrow> string"  \<comment> \<open>of a run, an action and a recipient\<close>
  ae_recipients :: string  \<comment> \<open>\<open>SAKURA_ALERT_TELEGRAM_IDS\<close>\<close>
  ae_shown :: "jval \<Rightarrow> string"
  ae_error_text :: "exn \<Rightarrow> string"

definition ALLOWED_ACTIONS :: "string list" where
  "ALLOWED_ACTIONS = [''enqueue_task'', ''telegram_alert'', ''create_risk_event'']"

definition automation_public :: "automation_row \<Rightarrow> jdict" where
  "automation_public r =
     [(''id'', JStr (au_id r)), (''name'', JStr (au_name r)), (''description'', jopt_str (au_description r)),
      (''trigger_type'', JStr (au_trigger_type r)), (''trigger_value'', JStr (au_trigger_value r)),
      (''conditions'', JDict (au_conditions r)), (''actions'', JList (map JDict (au_actions r))),
      (''enabled'', JBool (au_enabled r)), (''cooldown_seconds'', JInt (au_cooldown_seconds r)),
      (''last_cursor'', JInt (au_last_cursor r)), (''last_run_at'', jopt_time (au_last_run_at r)),
      (''revision'', JInt (au_revision r)), (''created_at'', JTime (au_created_at r)),
      (''updated_at'', JTime (au_updated_at r))]"

definition run_public :: "run_row \<Rightarrow> jdict" where
  "run_public r =
     [(''id'', JStr (ar_id r)), (''rule_id'', JStr (ar_rule_id r)), (''event_id'', jopt_int (ar_event_id r)),
      (''status'', JStr (ar_status r)),
      (''action_results'', case ar_action_results r of None \<Rightarrow> JList [] | Some v \<Rightarrow> v),
      (''error_message'', jopt_str (ar_error_message r)), (''started_at'', JTime (ar_started_at r)),
      (''finished_at'', jopt_time (ar_finished_at r)), (''created_at'', JTime (ar_created_at r))]"

definition automation_list :: "'z platform_db_scheme \<Rightarrow> (jdict, 'z platform_db_scheme) outcome" where
  "automation_list = platform_uow (\<lambda>db. Inr
     ([(''items'', JList (map (JDict \<circ> automation_public) (sort_key (\<lambda>r. - au_created_at r) (automations db)))),
       (''runs'', JList (map (JDict \<circ> run_public)
          (take 100 (sort_key (\<lambda>r. - ar_created_at r) (automation_runs db)))))], db))"

subsection \<open>Saving and deleting rules\<close>

record automation_input =
  \<comment> \<open>the dictionary \<open>data\<close>, a missing key or a null being \<open>None\<close>\<close>
  ai_name :: "string option"
  ai_description :: "string option"
  ai_trigger_type :: "string option"
  ai_trigger_value :: "string option"
  ai_conditions :: "jdict option"
  ai_actions :: "jval option"
  ai_enabled :: "bool option"
  ai_cooldown_seconds :: "int option"
  ai_revision :: "int option"

definition no_action_message :: string where
  "no_action_message = text_of [0x81EA, 0x52A8, 0x5316, 0x81F3, 0x5C11, 0x9700, 0x8981, 0x4E00, 0x4E2A, 0x52A8, 0x4F5C]"

definition bad_action_message :: string where
  "bad_action_message = text_of [0x81EA, 0x52A8, 0x5316, 0x5305, 0x542B, 0x4E0D, 0x53D7, 0x652F, 0x6301, 0x7684,
     0x52A8, 0x4F5C]"

definition bad_trigger_message :: string where
  "bad_trigger_message = text_of [0x89E6, 0x53D1, 0x65B9, 0x5F0F, 0x4EC5, 0x652F, 0x6301, 0x20, 0x65, 0x76, 0x65, 0x6E,
     0x74, 0x20, 0x6216, 0x20, 0x69, 0x6E, 0x74, 0x65, 0x72, 0x76, 0x61, 0x6C]"

definition no_automation_message :: string where
  "no_automation_message = text_of [0x81EA, 0x52A8, 0x5316, 0x89C4, 0x5219, 0x4E0D, 0x5B58, 0x5728]"

definition automation_conflict_message :: string where
  "automation_conflict_message = text_of [0x81EA, 0x52A8, 0x5316, 0x89C4, 0x5219, 0x5DF2, 0x88AB, 0x5176, 0x4ED6, 0x7BA1,
     0x7406, 0x5458, 0x4FEE, 0x6539, 0xFF0C, 0x8BF7, 0x5237, 0x65B0, 0x540E, 0x91CD, 0x8BD5]"

definition unnamed_automation :: string where
  "unnamed_automation = text_of [0x672A, 0x547D, 0x540D, 0x81EA, 0x52A8, 0x5316]"

definition text_or :: "string option \<Rightarrow> string \<Rightarrow> string" where
  \<comment> \<open>\<open>str(x or default)\<close>\<close>
  "text_or s dflt = (case s of None \<Rightarrow> dflt | Some t \<Rightarrow> if t = [] then dflt else t)"

definition text_or_none :: "string \<Rightarrow> string option" where
  "text_or_none s = (if s = [] then None else Some s)"

fun actions_checked :: "jval list \<Rightarrow> unit attempt" where
  \<comment> \<open>in the order of the list; a list or a dict cannot be looked up in a set\<close>
  "actions_checked [] = Inr ()"
| "actions_checked (JDict a # xs) =
     (case map_of a ''type'' of
        Some (JStr s) \<Rightarrow>
          if s \<in> set ALLOWED_ACTIONS then actions_checked xs else Inl (ValueError bad_action_message)
      | Some (JList _) \<Rightarrow> Inl TypeError
      | Some (JDict _) \<Rightarrow> Inl TypeError
      | _ \<Rightarrow> Inl (ValueError bad_action_message))"
| "actions_checked _ = Inl (ValueError bad_action_message)"

fun dict_of :: "jval \<Rightarrow> jdict" where
  "dict_of (JDict d) = d"
| "dict_of _ = []"

definition automation_actions :: "jval option \<Rightarrow> jdict list attempt" where
  "automation_actions given =
     (case given of
        Some (JList (x # xs)) \<Rightarrow>
          bind_attempt (actions_checked (x # xs)) (\<lambda>_. Inr (map dict_of (x # xs)))
      | _ \<Rightarrow> Inl (ValueError no_action_message))"

definition stored_dict :: "jdict \<Rightarrow> jdict" where
  "stored_dict d = map (map_prod id json_dumps) d"

definition automation_written ::
  "datetime \<Rightarrow> automation_input \<Rightarrow> jdict list \<Rightarrow> string \<Rightarrow> bool \<Rightarrow> automation_row \<Rightarrow> automation_row" where
  \<comment> \<open>the assignments of \<open>save\<close>\<close>
  "automation_written now d actions trigger old r =
     r\<lparr>au_name := py_take 120 (py_strip (text_or (ai_name d) unnamed_automation)),
       au_description := text_or_none (py_take 500 (py_strip (text_or (ai_description d) []))),
       au_trigger_type := trigger,
       au_trigger_value := py_take 255 (py_strip (text_or (ai_trigger_value d) ''*'')),
       au_conditions := stored_dict (case ai_conditions d of None \<Rightarrow> [] | Some c \<Rightarrow> c),
       au_actions := map stored_dict actions,
       au_enabled := (case ai_enabled d of None \<Rightarrow> True | Some b \<Rightarrow> b),
       au_cooldown_seconds := max 0 (min (int_or_0 (ai_cooldown_seconds d)) 604800),
       au_revision := (if au_revision r = 0 then 1 else au_revision r) + (if old then 1 else 0),
       au_updated_at := now\<rparr>"

definition new_automation :: "datetime \<Rightarrow> string \<Rightarrow> automation_row" where
  \<comment> \<open>the revision of a row that is not flushed yet is null, here 0\<close>
  "new_automation now i =
     \<lparr>au_id = i, au_name = [], au_description = None, au_trigger_type = ''event'', au_trigger_value = [],
      au_conditions = [], au_actions = [], au_enabled = True, au_cooldown_seconds = 0, au_last_cursor = 0,
      au_last_run_at = None, au_revision = 0, au_created_at = now, au_updated_at = now\<rparr>"

definition automation_save ::
  "clock \<Rightarrow> string \<Rightarrow> automation_input \<Rightarrow> actor \<Rightarrow> string option \<Rightarrow> 'z platform_db_scheme \<Rightarrow>
   (jdict, 'z platform_db_scheme) outcome" where
  "automation_save clk new_id d actor rule_id db0 =
     (case automation_actions (ai_actions d) of
        Inl e \<Rightarrow> (Inl e, db0)
      | Inr actions \<Rightarrow>
     (let trigger = text_or (ai_trigger_type d) ''event'';
          given = truthy_str rule_id
      in if trigger \<notin> {''event'', ''interval''} then (Inl (ValueError bad_trigger_message), db0)
         else platform_uow (\<lambda>db.
           let found = (if given then get_automation (the rule_id) db else None)
           in if given \<and> found = None then Inl (LookupError no_automation_message)
              else if found \<noteq> None \<and> ai_revision d \<noteq> None \<and> ai_revision d \<noteq> map_option au_revision found then
                Inl (RuntimeError automation_conflict_message)
              else
                let row = automation_written (now_utc clk) d actions trigger given
                      (case found of None \<Rightarrow> new_automation (now_utc clk) new_id | Some r \<Rightarrow> r);
                    db1 = (if found = None then add_automation row db else save_automation row db)
                in Inr (automation_public row,
                     audit_success clk actor (if given then ''automation.update'' else ''automation.create'')
                       ''automation_rule'' (Some (au_id row))
                       (Some (JDict [(''trigger_type'', JStr trigger),
                                     (''trigger_value'', JStr (au_trigger_value row))])) db1)) db0))"

definition automation_delete ::
  "clock \<Rightarrow> string \<Rightarrow> actor \<Rightarrow> 'z platform_db_scheme \<Rightarrow> (bool, 'z platform_db_scheme) outcome" where
  "automation_delete clk rule_id actor = platform_uow (\<lambda>db.
     case get_automation rule_id db of
       None \<Rightarrow> Inr (False, db)
     | Some r \<Rightarrow> Inr (True, delete_automation rule_id
         (audit_success clk actor ''automation.delete'' ''automation_rule'' (Some rule_id) None db)))"

subsection \<open>Which events trigger a rule\<close>

definition event_matches :: "string \<Rightarrow> string \<Rightarrow> bool" where
  "event_matches pattern event_type = fnmatch event_type pattern"

fun py_eq :: "jval \<Rightarrow> jval \<Rightarrow> bool" where
  \<comment> \<open>Python's \<open>==\<close>: a truth value equals its number, dicts do not look at the order of their keys\<close>
  "py_eq JNull w = (w = JNull)"
| "py_eq (JStr s) w = (w = JStr s)"
| "py_eq (JTime t) w = (w = JTime t)"
| "py_eq (JInt n) w = (case w of JInt m \<Rightarrow> n = m | JBool b \<Rightarrow> n = (if b then 1 else 0) | _ \<Rightarrow> False)"
| "py_eq (JBool a) w = (case w of JBool b \<Rightarrow> a = b | JInt m \<Rightarrow> m = (if a then 1 else 0) | _ \<Rightarrow> False)"
| "py_eq (JList xs) w = (case w of JList ys \<Rightarrow> list_all2 py_eq xs ys | _ \<Rightarrow> False)"
| "py_eq (JDict d) w =
     (case w of
        JDict e \<Rightarrow> length d = length e \<and>
          list_all (\<lambda>kv. case map_of e (fst kv) of None \<Rightarrow> False | Some v \<Rightarrow> py_eq (snd kv) v) d
      | _ \<Rightarrow> False)"

definition condition_ok :: "event_row \<Rightarrow> jdict \<Rightarrow> string \<times> jval \<Rightarrow> bool" where
  "condition_ok ev payload kv =
     (let key = fst kv; expected = snd kv;
          actual = (if key = ''aggregate_type'' then JStr (ev_aggregate_type ev)
                    else if key = ''aggregate_id'' then jopt_str (ev_aggregate_id ev)
                    else jopt (map_of payload key))
      in case expected of
           JList xs \<Rightarrow> list_ex (py_eq actual) xs
         | _ \<Rightarrow> py_eq actual expected)"

definition event_payload :: "event_row \<Rightarrow> jval" where
  \<comment> \<open>\<open>_load_json(event.payload_json, {})\<close>\<close>
  "event_payload ev = (case ev_payload ev of None \<Rightarrow> JDict [] | Some v \<Rightarrow> v)"

definition conditions_match :: "jdict \<Rightarrow> event_row \<Rightarrow> bool" where
  \<comment> \<open>the payload of an event is a dict\<close>
  "conditions_match conditions ev = list_all (condition_ok ev (dict_of (event_payload ev))) conditions"

definition triggers :: "automation_row \<Rightarrow> event_row \<Rightarrow> bool" where
  "triggers rule ev =
     (event_matches (au_trigger_value rule) (ev_type ev) \<and> conditions_match (au_conditions rule) ev)"

definition rule_key :: "jdict \<Rightarrow> string" where
  "rule_key action = take 12 (sha256_hex (json_text (JDict action)))"

subsection \<open>Actions\<close>

definition minute_text :: "datetime \<Rightarrow> string" where
  \<comment> \<open>\<open>strftime('%Y%m%d%H%M')\<close>\<close>
  "minute_text t =
     (let (y, m, d) = civil (t div day); secs = t mod day div second
      in pad 4 y @ pad 2 m @ pad 2 d @ pad 2 (secs div 3600) @ pad 2 (secs div 60 mod 60))"

definition alert_title :: string where
  "alert_title = text_of [0x81EA, 0x52A8, 0x5316, 0x544A, 0x8B66]"

definition alert_body :: string where
  "alert_body = text_of [0x7CFB, 0x7EDF, 0x4E8B, 0x4EF6, 0x89E6, 0x53D1]"

definition enqueue_failed_message :: "string \<Rightarrow> string" where
  "enqueue_failed_message status = text_of [0x4EFB, 0x52A1, 0x5165, 0x961F, 0x5931, 0x8D25, 0xFF1A] @ status"

definition unsupported_action_message :: string where
  "unsupported_action_message = text_of [0x4E0D, 0x53D7, 0x652F, 0x6301, 0x7684, 0x81EA, 0x52A8, 0x5316, 0x52A8, 0x4F5C]"

abbreviation automation_actor :: actor where
  "automation_actor \<equiv> actor_system ''automation''"

definition enqueued_id :: "service_result \<Rightarrow> jval" where
  "enqueued_id r = jopt (map_of (res_data r) ''id'')"

fun merged_dict :: "jdict \<Rightarrow> jval \<Rightarrow> jdict attempt" where
  \<comment> \<open>\<open>{**a, **v}\<close>\<close>
  "merged_dict a (JDict d) = Inr (dict_merge a d)"
| "merged_dict a _ = Inl TypeError"

definition enqueue_action ::
  "clock \<Rightarrow> automation_env \<Rightarrow> string \<Rightarrow> jdict \<Rightarrow> event_row option \<Rightarrow> 'z platform_db_scheme \<Rightarrow>
   (jval, 'z platform_db_scheme) outcome" where
  "enqueue_action clk env tid action ev db =
     (let tt = py_str (ae_shown env) (field_or ''task_type'' (JStr []) action);
          source = (case ev of None \<Rightarrow> JNull | Some e \<Rightarrow> JInt (ev_id e));
          key = ''automation:'' @ py_str (ae_shown env) (case map_of action ''id'' of None \<Rightarrow> JStr tt | Some v \<Rightarrow> v)
                  @ '':'' @ (case ev of None \<Rightarrow> minute_text (now_utc clk) | Some e \<Rightarrow> show_int (ev_id e))
      in case merged_dict [] (field_or ''payload'' (JDict []) action) of
           Inl e \<Rightarrow> (Inl e, db)
         | Inr payload \<Rightarrow>
             (case enqueue clk tid tt (Some (dict_put ''source_event_id'' source payload)) automation_actor (Some key) id db of
                (Inl e, db') \<Rightarrow> (Inl e, db')
              | (Inr r, db') \<Rightarrow>
                  if \<not> res_ok r then (Inl (RuntimeError (enqueue_failed_message (res_status r))), db')
                  else (Inr (JDict [(''type'', JStr ''enqueue_task''), (''task_id'', enqueued_id r)]), db')))"

fun py_items :: "jval \<Rightarrow> jval list attempt" where
  \<comment> \<open>what a loop over the value sees\<close>
  "py_items (JList xs) = Inr xs"
| "py_items (JStr s) = Inr (map JStr (chars_of s))"
| "py_items (JDict d) = Inr (map (JStr \<circ> fst) d)"
| "py_items _ = Inl TypeError"

definition env_recipients :: "string \<Rightarrow> jval list" where
  "env_recipients text = map JStr (filter (\<lambda>s. py_strip s \<noteq> []) (py_split (CHR '','') text))"

fun alert_recipients ::
  "clock \<Rightarrow> automation_env \<Rightarrow> (nat \<Rightarrow> string) \<Rightarrow> jdict \<Rightarrow> string \<Rightarrow> string \<Rightarrow> string \<Rightarrow> nat \<Rightarrow> jval list \<Rightarrow> jval list \<Rightarrow>
   'z platform_db_scheme \<Rightarrow> (jval list, 'z platform_db_scheme) outcome" where
  "alert_recipients clk env tids action title body source k [] ids db = (Inr ids, db)"
| "alert_recipients clk env tids action title body source k (recipient # rest) ids db =
     (case int_of_json recipient of
        Inl e \<Rightarrow> (Inl e, db)
      | Inr tg \<Rightarrow>
          (case enqueue clk (tids k) ''notification.telegram''
                  (Some [(''tg'', JInt tg), (''title'', JStr title), (''body'', JStr body)]) automation_actor
                  (Some (''automation-alert:'' @ rule_key action @ '':'' @ source @ '':'' @ py_str (ae_shown env) recipient))
                  id db of
             (Inl e, db') \<Rightarrow> (Inl e, db')
           | (Inr r, db') \<Rightarrow>
               alert_recipients clk env tids action title body source (Suc k) rest
                 (if res_ok r then ids @ [enqueued_id r] else ids) db'))"

definition alert_action ::
  "clock \<Rightarrow> automation_env \<Rightarrow> (nat \<Rightarrow> string) \<Rightarrow> jdict \<Rightarrow> event_row option \<Rightarrow> 'z platform_db_scheme \<Rightarrow>
   (jval, 'z platform_db_scheme) outcome" where
  "alert_action clk env tids action ev db =
     (let payload = (case ev of None \<Rightarrow> JDict [] | Some e \<Rightarrow> event_payload e);
          title = py_str (ae_shown env) (field_or ''title'' (JStr alert_title) action);
          body = py_str (ae_shown env)
            (field_or ''body'' (if jtruthy payload then payload else JStr alert_body) action);
          source = (case ev of None \<Rightarrow> ''interval'' | Some e \<Rightarrow> show_int (ev_id e))
      in case py_items (field_or ''recipients'' (JList (env_recipients (ae_recipients env))) action) of
           Inl e \<Rightarrow> (Inl e, db)
         | Inr recipients \<Rightarrow>
             (case alert_recipients clk env tids action title body source 0 recipients [] db of
                (Inl e, db') \<Rightarrow> (Inl e, db')
              | (Inr ids, db') \<Rightarrow>
                  (Inr (JDict [(''type'', JStr ''telegram_alert''), (''task_ids'', JList ids)]), db')))"

definition risk_action ::
  "clock \<Rightarrow> automation_env \<Rightarrow> jdict \<Rightarrow> event_row option \<Rightarrow> 'z platform_db_scheme \<Rightarrow>
   (jval, 'z platform_db_scheme) outcome" where
  "risk_action clk env action ev = platform_uow (\<lambda>db.
     bind_attempt
       (merged_dict [(''automation'', JBool True), (''source_event'', case ev of None \<Rightarrow> JNull | Some e \<Rightarrow> JStr (ev_type e))]
          (case ev of None \<Rightarrow> JDict [] | Some e \<Rightarrow> event_payload e)) (\<lambda>detail.
       Inr (JDict [(''type'', JStr ''create_risk_event''), (''event_id'', JInt (next_id (securities db)))],
            security_event clk
              (py_str (ae_shown env) (field_or ''event_type'' (JStr ''automation.risk'') action))
              (py_str (ae_shown env) (field_or ''severity'' (JStr ''warning'') action))
              (map_option ev_aggregate_type ev)
              (case ev of None \<Rightarrow> None | Some e \<Rightarrow> ev_aggregate_id e) None (Some (JDict detail)) db)))"

definition execute_action ::
  "clock \<Rightarrow> automation_env \<Rightarrow> (nat \<Rightarrow> string) \<Rightarrow> jdict \<Rightarrow> event_row option \<Rightarrow> 'z platform_db_scheme \<Rightarrow>
   (jval, 'z platform_db_scheme) outcome" where
  "execute_action clk env tids action ev db =
     (case map_of action ''type'' of
        None \<Rightarrow> (Inl KeyError, db)
      | Some t \<Rightarrow>
          if t = JStr ''enqueue_task'' then enqueue_action clk env (tids 0) action ev db
          else if t = JStr ''telegram_alert'' then alert_action clk env tids action ev db
          else if t = JStr ''create_risk_event'' then risk_action clk env action ev db
          else (Inl (ValueError unsupported_action_message), db))"

subsection \<open>Runs\<close>

fun execute_actions ::
  "clock \<Rightarrow> automation_env \<Rightarrow> (nat \<Rightarrow> nat \<Rightarrow> string) \<Rightarrow> nat \<Rightarrow> jdict list \<Rightarrow> event_row option \<Rightarrow> jval list \<Rightarrow>
   'z platform_db_scheme \<Rightarrow> jval list \<times> exn option \<times> 'z platform_db_scheme" where
  \<comment> \<open>the results up to the first action that fails\<close>
  "execute_actions clk env tids j [] ev results db = (results, None, db)"
| "execute_actions clk env tids j (a # actions) ev results db =
     (case execute_action clk env (tids j) a ev db of
        (Inl e, db') \<Rightarrow> (results, Some e, db')
      | (Inr r, db') \<Rightarrow> execute_actions clk env tids (Suc j) actions ev (results @ [r]) db')"

definition new_run :: "datetime \<Rightarrow> string \<Rightarrow> automation_row \<Rightarrow> event_row option \<Rightarrow> run_row" where
  "new_run now i rule ev =
     \<lparr>ar_id = i, ar_rule_id = au_id rule, ar_event_id = map_option ev_id ev, ar_status = ''running'',
      ar_action_results = None, ar_error_message = None, ar_started_at = now, ar_finished_at = None,
      ar_created_at = now\<rparr>"

definition finished_run ::
  "datetime \<Rightarrow> automation_env \<Rightarrow> jval list \<Rightarrow> exn option \<Rightarrow> run_row \<Rightarrow> run_row" where
  "finished_run now env results failure r =
     r\<lparr>ar_status := (case failure of None \<Rightarrow> ''succeeded'' | Some e \<Rightarrow> ''failed''),
       ar_action_results := Some (json_dumps (JList results)),
       ar_error_message := (case failure of None \<Rightarrow> None | Some e \<Rightarrow> Some (py_take 1000 (ae_error_text env e))),
       ar_finished_at := Some now\<rparr>"

definition has_run :: "automation_row \<Rightarrow> event_row option \<Rightarrow> 'z platform_db_scheme \<Rightarrow> bool" where
  "has_run rule ev db =
     (case ev of None \<Rightarrow> False
      | Some e \<Rightarrow> list_ex (\<lambda>r. ar_rule_id r = au_id rule \<and> ar_event_id r = Some (ev_id e)) (automation_runs db))"

definition reserve_run ::
  "clock \<Rightarrow> string \<Rightarrow> automation_row \<Rightarrow> event_row option \<Rightarrow> 'z platform_db_scheme \<Rightarrow>
   (bool, 'z platform_db_scheme) outcome" where
  "reserve_run clk i rule ev = platform_uow (\<lambda>db.
     Inr (if has_run rule ev db then (False, db) else (True, add_run (new_run (now_utc clk) i rule ev) db)))"

definition finish_run ::
  "clock \<Rightarrow> automation_env \<Rightarrow> string \<Rightarrow> automation_row \<Rightarrow> jval list \<Rightarrow> exn option \<Rightarrow> 'z platform_db_scheme \<Rightarrow>
   (bool, 'z platform_db_scheme) outcome" where
  \<comment> \<open>a rule that is gone fails with an attribute error, here \<open>TypeError\<close>\<close>
  "finish_run clk env i rule results failure = platform_uow (\<lambda>db.
     case get_run i db of
       None \<Rightarrow> Inr (False, db)
     | Some r \<Rightarrow>
         (case get_automation (au_id rule) db of
            None \<Rightarrow> Inl TypeError
          | Some row \<Rightarrow> Inr (True,
              save_automation (row\<lparr>au_last_run_at := Some (now_utc clk), au_updated_at := now_utc clk\<rparr>)
                (save_run (finished_run (now_utc clk) env results failure r) db))))"

definition run_automation ::
  "clock \<Rightarrow> automation_env \<Rightarrow> nat \<Rightarrow> automation_row \<Rightarrow> event_row option \<Rightarrow> 'z platform_db_scheme \<Rightarrow>
   (bool, 'z platform_db_scheme) outcome" where
  \<comment> \<open>\<open>_run\<close>, the \<open>n\<close>-th of the evaluation\<close>
  "run_automation clk env n rule ev db =
     (case reserve_run clk (ae_run_id env n) rule ev db of
        (Inl IntegrityError, db1) \<Rightarrow> (Inr False, db1)
      | (Inl e, db1) \<Rightarrow> (Inl e, db1)
      | (Inr False, db1) \<Rightarrow> (Inr False, db1)
      | (Inr True, db1) \<Rightarrow>
          (let (results, failure, db2) = execute_actions clk env (ae_task_id env n) 0 (au_actions rule) ev [] db1
           in finish_run clk env (ae_run_id env n) rule results failure db2))"

subsection \<open>Evaluations\<close>

type_synonym progress = "nat \<times> nat"
  \<comment> \<open>the events looked at and the runs made; each call of \<open>_run\<close> has the number of the event\<close>

definition recently :: "clock \<Rightarrow> int \<Rightarrow> datetime option \<Rightarrow> bool" where
  "recently clk seconds t = (case t of None \<Rightarrow> False | Some u \<Rightarrow> now_utc clk - seconds * second < u)"

definition cooling :: "clock \<Rightarrow> automation_row \<Rightarrow> bool" where
  "cooling clk rule =
     (au_cooldown_seconds rule \<noteq> 0 \<and> recently clk (au_cooldown_seconds rule) (au_last_run_at rule))"

definition wants :: "clock \<Rightarrow> automation_row \<Rightarrow> event_row option \<Rightarrow> bool" where
  \<comment> \<open>the two checks before a run\<close>
  "wants clk rule ev =
     ((case ev of None \<Rightarrow> True | Some e \<Rightarrow> triggers rule e) \<and> \<not> cooling clk rule)"

fun handle_events ::
  "clock \<Rightarrow> automation_env \<Rightarrow> automation_row \<Rightarrow> event_row option list \<Rightarrow> progress \<Rightarrow> 'z platform_db_scheme \<Rightarrow>
   (progress, 'z platform_db_scheme) outcome" where
  "handle_events clk env rule [] (processed, created) db = (Inr (processed, created), db)"
| "handle_events clk env rule (ev # evs) (processed, created) db =
     (if \<not> wants clk rule ev then handle_events clk env rule evs (Suc processed, created) db
      else
        (case run_automation clk env processed rule ev db of
           (Inl e, db') \<Rightarrow> (Inl e, db')
         | (Inr made, db') \<Rightarrow>
             handle_events clk env rule evs (Suc processed, if made then Suc created else created) db'))"

definition move_cursor ::
  "clock \<Rightarrow> automation_row \<Rightarrow> event_row option list \<Rightarrow> 'z platform_db_scheme \<Rightarrow>
   (unit, 'z platform_db_scheme) outcome" where
  "move_cursor clk rule evs = platform_uow (\<lambda>db. Inr ((),
     case (get_automation (au_id rule) db, evs) of
       (Some row, e # es) \<Rightarrow>
         (case last evs of
            None \<Rightarrow> db
          | Some ev \<Rightarrow> save_automation (row\<lparr>au_last_cursor := max (au_last_cursor row) (ev_id ev),
              au_updated_at := now_utc clk\<rparr>) db)
     | _ \<Rightarrow> db))"

definition pending_events :: "automation_row \<Rightarrow> 'z core_db_scheme \<Rightarrow> event_row list" where
  "pending_events rule db =
     take 500 (sort_key ev_id (filter (\<lambda>e. au_last_cursor rule < ev_id e) (rows (events db))))"

definition rule_events ::
  "clock \<Rightarrow> automation_row \<Rightarrow> 'z core_db_scheme \<Rightarrow> event_row option list option attempt" where
  \<comment> \<open>\<open>None\<close> for an interval that has not passed\<close>
  "rule_events clk rule db =
     (if au_trigger_type rule = ''interval'' then
        bind_attempt
          (if au_trigger_value rule = [] then Inr 60
           else case py_int (au_trigger_value rule) of
                  None \<Rightarrow> Inl (int_error (au_trigger_value rule)) | Some n \<Rightarrow> Inr n) (\<lambda>seconds.
          Inr (if recently clk (max 60 seconds) (au_last_run_at rule) then None else Some [None]))
      else Inr (Some (map Some (pending_events rule db))))"

definition evaluate_rule ::
  "clock \<Rightarrow> automation_env \<Rightarrow> automation_row \<Rightarrow> progress \<Rightarrow> 'z platform_db_scheme \<Rightarrow>
   (progress, 'z platform_db_scheme) outcome" where
  "evaluate_rule clk env rule p db =
     (case rule_events clk rule db of
        Inl e \<Rightarrow> (Inl e, db)
      | Inr None \<Rightarrow> (Inr p, db)
      | Inr (Some evs) \<Rightarrow>
          (case handle_events clk env rule evs p db of
             (Inl e, db') \<Rightarrow> (Inl e, db')
           | (Inr p', db') \<Rightarrow>
               (case move_cursor clk rule evs db' of
                  (Inl e, db2) \<Rightarrow> (Inl e, db2)
                | (Inr _, db2) \<Rightarrow> (Inr p', db2))))"

fun evaluate_rules ::
  "clock \<Rightarrow> automation_env \<Rightarrow> automation_row list \<Rightarrow> progress \<Rightarrow> 'z platform_db_scheme \<Rightarrow>
   (progress, 'z platform_db_scheme) outcome" where
  "evaluate_rules clk env [] p db = (Inr p, db)"
| "evaluate_rules clk env (rule # rules) p db =
     (case evaluate_rule clk env rule p db of
        (Inl e, db') \<Rightarrow> (Inl e, db')
      | (Inr p', db') \<Rightarrow> evaluate_rules clk env rules p' db')"

definition automation_evaluate ::
  "clock \<Rightarrow> automation_env \<Rightarrow> 'z platform_db_scheme \<Rightarrow> (jdict, 'z platform_db_scheme) outcome" where
  "automation_evaluate clk env db =
     (case evaluate_rules clk env (filter au_enabled (automations db)) (0, 0) db of
        (Inl e, db') \<Rightarrow> (Inl e, db')
      | (Inr (processed, created), db') \<Rightarrow>
          (Inr [(''processed'', JInt (int processed)), (''runs_created'', JInt (int created))], db'))"

end
