(* ===== verification/Automation_Properties.thy ===== *)
theory Automation_Properties
  imports Automation_Service
begin

section \<open>Automations: what an evaluation does\<close>

text \<open>
  The actions of an automation change only tables that are not its own, so the runs and the cursor of a
  rule are those its evaluation writes: one finished run for each event that triggers the rule, and the
  cursor behind the last event looked at.
\<close>

subsection \<open>Operations on the shared tables keep the others\<close>

lemma more_tables:
  assumes "core_db.more d = core_db.more (e :: 'z platform_db_scheme)"
  shows "automation_runs d = automation_runs e" "automations d = automations e" "platform_keys d = platform_keys e"
  using assms by (cases d; cases e; simp add: platform_keys_def)+

lemma more_integrity:
  assumes "core_db.more d = core_db.more (e :: 'z platform_db_scheme)" "integrity d" "platform_integrity e"
  shows "platform_integrity d"
  using assms by (cases d; cases e; simp add: platform_integrity_def community_integrity_def account_integrity_def
      auth_integrity_def platform_keys_def)

definition aside :: "'z core_db_scheme \<Rightarrow> 'z core_db_scheme \<Rightarrow> bool" where
  \<comment> \<open>from a consistent database to a consistent one, with the tables of the extension untouched\<close>
  "aside db db' \<longleftrightarrow> (integrity db \<longrightarrow> integrity db') \<and> core_db.more db' = core_db.more db"

lemma aside_refl [simp]: "aside db db"
  by (simp add: aside_def)

lemma aside_trans: "aside a b \<Longrightarrow> aside b c \<Longrightarrow> aside a c"
  by (simp add: aside_def)

lemma aside_platform:
  assumes "aside e d" "platform_integrity e"
  shows "platform_integrity d" "automation_runs d = automation_runs e" "automations d = automations e"
proof -
  have "integrity e" using assms(2)
    by (simp add: platform_integrity_def community_integrity_def account_integrity_def auth_integrity_def)
  then show "platform_integrity d" "automation_runs d = automation_runs e" "automations d = automations e"
    using assms more_integrity more_tables unfolding aside_def by blast+
qed

lemma more_bookkeeping [simp]:
  "core_db.more (audit clk ac an rt rid oc dt rq d) = core_db.more d"
  "core_db.more (event clk et at ai p d) = core_db.more d"
  "core_db.more (task_event clk et i q d) = core_db.more d"
  "core_db.more (add_task t d) = core_db.more d"
  "core_db.more (security_event clk et sv sk si ip dt d) = core_db.more d"
  by (simp_all add: audit_def event_def task_event_def add_task_def security_event_def)

lemma aside_run: "(\<And>x d. body db = Inr (x, d) \<Longrightarrow> core_db.more d = core_db.more db) \<Longrightarrow> aside db (snd (run_uow body db))"
  by (auto simp: run_uow_def aside_def split: sum.split)

lemma aside_enqueue: "aside db (snd (enqueue clk i tt payload actor key id db))"
proof -
  have "aside db (snd (run_uow (insert_task clk t actor) db))" for t
    by (rule aside_run) (auto simp: insert_task_def Let_def)
  then have "aside db d" if "run_uow (insert_task clk t actor) db = (r, d)" for t r d
    using that by (metis snd_conv)
  then show ?thesis
    by (auto simp: enqueue_def split: option.split prod.split sum.split exn.split)
qed

lemma aside_enqueued: "enqueue clk i tt payload actor key id db = (r, d) \<Longrightarrow> aside db d"
  using aside_enqueue by (metis snd_conv)

lemma aside_recipients: "alert_recipients clk env tids action title body source k rs ids db = (r, d) \<Longrightarrow> aside db d"
proof (induction rs arbitrary: k ids db)
  case (Cons x rs)
  show ?case
    using Cons.prems by (auto split: sum.splits prod.splits intro: aside_enqueued aside_trans [OF aside_enqueued Cons.IH])
qed simp

lemma aside_action:
  assumes run: "execute_action clk env tids a ev db = (r, d)"
    and good: "platform_integrity db"
  shows "platform_integrity d" "automation_runs d = automation_runs db" "automations d = automations db"
proof -
  have "aside db d \<or> (\<exists>x. risk_action clk env a ev db = (x, d))"
    using run by (auto simp: execute_action_def enqueue_action_def alert_action_def Let_def
        split: option.splits if_splits sum.splits prod.splits intro: aside_enqueued aside_recipients)
  then have "platform_integrity d \<and> automation_runs d = automation_runs db \<and> automations d = automations db"
  proof
    assume "\<exists>x. risk_action clk env a ev db = (x, d)"
    then show ?thesis
      using good by (auto simp: risk_action_def commit_with_def security_event_def event_def split: sum.splits if_splits
          simp: bind_attempt_def)
  qed (use aside_platform [OF _ good] in blast)
  then show "platform_integrity d" "automation_runs d = automation_runs db" "automations d = automations db" by simp_all
qed

lemma aside_actions:
  assumes "execute_actions clk env tids j as ev results db = (results', failure, d)" "platform_integrity db"
  shows "platform_integrity d \<and> automation_runs d = automation_runs db \<and> automations d = automations db"
  using assms
proof (induction as arbitrary: j results db)
  case (Cons a as)
  obtain r d1 where run: "execute_action clk env (tids j) a ev db = (r, d1)" by fastforce
  show ?case
    using Cons.IH [of "Suc j" _ d1] Cons.prems aside_action [OF run Cons.prems(2)]
    by (auto simp: run split: sum.splits)
qed simp

subsection \<open>A run\<close>

definition run_of :: "automation_row \<Rightarrow> event_row option \<Rightarrow> datetime \<Rightarrow> run_row \<Rightarrow> bool" where
  \<comment> \<open>a finished run of the rule for the event\<close>
  "run_of rule ev now r \<longleftrightarrow>
     ar_rule_id r = au_id rule \<and> ar_event_id r = map_option ev_id ev \<and>
     ar_status r \<in> {''succeeded'', ''failed''} \<and> ar_finished_at r = Some now"

definition stamped :: "datetime \<Rightarrow> automation_row \<Rightarrow> automation_row" where
  "stamped now row = row\<lparr>au_last_run_at := Some now, au_updated_at := now\<rparr>"

lemma stamped_fields [simp]: "au_id (stamped now row) = au_id row" "au_last_cursor (stamped now row) = au_last_cursor row"
  by (simp_all add: stamped_def)

lemma has_run_cong: "automation_runs d = automation_runs e \<Longrightarrow> has_run rule ev d = has_run rule ev e"
  by (simp add: has_run_def split: option.split)

lemma add_run_integrity:
  assumes "platform_integrity db" "\<not> has_run rule ev db" "i \<notin> ar_id ` set (automation_runs db)"
  shows "platform_integrity (add_run (new_run now i rule ev) db)"
proof -
  have "run_key (new_run now i rule ev) = None \<or> run_key (new_run now i rule ev) \<notin> run_key ` set (automation_runs db)"
  proof (cases ev)
    case (Some e)
    have "run_key r \<noteq> Some (au_id rule, ev_id e)" if "r \<in> set (automation_runs db)" for r
      using that assms(2) Some by (auto simp: has_run_def run_key_def list_ex_iff)
    then show ?thesis using Some by (force simp: run_key_def new_run_def)
  qed (simp add: run_key_def new_run_def)
  then show ?thesis
    using assms by (simp add: platform_integrity_def platform_keys_def add_run_def unique_some_append new_run_def
        community_integrity_def account_integrity_def auth_integrity_def integrity_def)
qed

lemma platform_saved:
  assumes "platform_integrity db"
  shows "platform_integrity (save_automation row db)"
    and "get_run (ar_id r) db = Some r0 \<Longrightarrow> run_key r = run_key r0 \<Longrightarrow> platform_integrity (save_run r db)"
proof -
  show "platform_integrity (save_automation row db)"
    using assms by (simp add: platform_integrity_def platform_keys_def save_automation_def
        community_integrity_def account_integrity_def auth_integrity_def integrity_def)
  assume "get_run (ar_id r) db = Some r0" "run_key r = run_key r0"
  then have "map run_key (tbl_put ar_id r (automation_runs db)) = map run_key (automation_runs db)"
    using assms by (auto intro!: map_tbl_put simp: platform_integrity_def platform_keys_def get_run_def)
  then show "platform_integrity (save_run r db)"
    using assms unique_some_cong [of run_key "tbl_put ar_id r (automation_runs db)" "automation_runs db"]
    by (simp add: platform_integrity_def platform_keys_def save_run_def
        community_integrity_def account_integrity_def auth_integrity_def integrity_def)
qed

lemma run_skipped:
  "platform_integrity db \<Longrightarrow> has_run rule ev db \<Longrightarrow> run_automation clk env n rule ev db = (Inr False, db)"
  by (simp add: run_automation_def reserve_run_def commit_with_def)

lemma tbl_put_last: "ar_id r = ar_id x \<Longrightarrow> ar_id x \<notin> ar_id ` set xs \<Longrightarrow> tbl_put ar_id r (xs @ [x]) = xs @ [r]"
  by (induction xs) auto

lemma run_made:
  assumes good: "platform_integrity db" and row: "get_automation (au_id rule) db = Some row"
    and fresh: "ae_run_id env n \<notin> ar_id ` set (automation_runs db)" and new: "\<not> has_run rule ev db"
  shows "\<exists>r d. run_automation clk env n rule ev db = (Inr True, d) \<and> platform_integrity d \<and>
    automation_runs d = automation_runs db @ [r] \<and> ar_id r = ae_run_id env n \<and> run_of rule ev (now_utc clk) r \<and>
    automations d = tbl_put au_id (stamped (now_utc clk) row) (automations db)"
proof -
  let ?r = "new_run (now_utc clk) (ae_run_id env n) rule ev"
  let ?d1 = "add_run ?r db"
  have d1: "platform_integrity ?d1" using add_run_integrity [OF good new fresh] .
  obtain results failure d2 where acts: "execute_actions clk env (ae_task_id env n) 0 (au_actions rule) ev [] ?d1 = (results, failure, d2)"
    using prod_cases3 by blast
  have d2: "platform_integrity d2" "automation_runs d2 = automation_runs db @ [?r]" "automations d2 = automations db"
    using aside_actions [OF acts d1] by (simp_all add: add_run_def)
  let ?f = "finished_run (now_utc clk) env results failure ?r"
  have id: "ar_id ?r = ae_run_id env n" by (simp add: new_run_def)
  have got: "get_run (ae_run_id env n) d2 = Some ?r"
    using fresh [folded tbl_get_None] id d2(2) by (simp add: get_run_def tbl_get_append)
  have fin: "ar_id ?f = ae_run_id env n" "run_key ?f = run_key ?r" "run_of rule ev (now_utc clk) ?f"
    by (simp_all add: finished_run_def new_run_def run_key_def run_of_def split: option.split)
  have row2: "get_automation (au_id rule) d2 = Some row" using row d2(3) by (simp add: get_automation_def)
  let ?d = "save_automation (stamped (now_utc clk) row) (save_run ?f d2)"
  have "platform_integrity ?d"
    using platform_saved(1) [OF platform_saved(2) [OF d2(1)]] got fin by simp
  moreover have "automation_runs ?d = automation_runs db @ [?f]"
    using d2(2) fin(1) id fresh tbl_put_last [of ?f ?r] by (simp add: save_automation_def save_run_def)
  moreover have "automations ?d = tbl_put au_id (stamped (now_utc clk) row) (automations db)"
    using d2(3) by (simp add: save_automation_def save_run_def)
  ultimately show ?thesis
    using fin d1 new got row2
    by (intro exI [of _ ?f] exI [of _ ?d])
      (simp add: run_automation_def reserve_run_def commit_with_def acts finish_run_def stamped_def)
qed

subsection \<open>A batch of events\<close>

lemma tbl_put_twice: "key r = key s \<Longrightarrow> tbl_put key r (tbl_put key s rs) = tbl_put key r rs"
  by (induction rs) auto

lemma tbl_put_found: "distinct (map key rs) \<Longrightarrow> tbl_get key (key r) rs = Some r \<Longrightarrow> tbl_put key r rs = rs"
  by (induction rs) (auto simp: tbl_put_absent tbl_get_None split: if_splits)

definition chosen :: "clock \<Rightarrow> automation_row \<Rightarrow> 'z platform_db_scheme \<Rightarrow> event_row list \<Rightarrow> event_row list" where
  \<comment> \<open>the events of a batch that get a run\<close>
  "chosen clk rule db es = filter (\<lambda>e. wants clk rule (Some e) \<and> \<not> has_run rule (Some e) db) es"

definition fresh_runs :: "automation_env \<Rightarrow> nat \<Rightarrow> 'z platform_db_scheme \<Rightarrow> bool" where
  "fresh_runs env n db \<longleftrightarrow> inj (ae_run_id env) \<and> ae_run_id env ` {n..} \<inter> ar_id ` set (automation_runs db) = {}"

lemma has_run_other:
  assumes "automation_runs d = automation_runs db @ [r]" "run_of rule (Some e) now r" "ev_id e' \<noteq> ev_id e"
  shows "has_run rule (Some e') d = has_run rule (Some e') db"
  using assms by (auto simp: has_run_def run_of_def)

lemma handle_events_outcome:
  assumes "platform_integrity db" "get_automation (au_id rule) db = Some row" "distinct (map ev_id es)" "fresh_runs env n db"
  shows "\<exists>rs d. handle_events clk env rule (map Some es) (n, c) db = (Inr (n + length es, c + length rs), d) \<and>
    platform_integrity d \<and> automation_runs d = automation_runs db @ rs \<and>
    list_all2 (\<lambda>e. run_of rule (Some e) (now_utc clk)) (chosen clk rule db es) rs \<and>
    automations d = tbl_put au_id (if rs = [] then row else stamped (now_utc clk) row) (automations db)"
  using assms
proof (induction es arbitrary: n c db row)
  case Nil
  have "tbl_put au_id row (automations db) = automations db"
    using Nil(1,2) automation_repo.get_key [OF Nil(2)]
    by (intro tbl_put_found) (simp_all add: get_automation_def platform_integrity_def platform_keys_def)
  then show ?case
    using Nil by (intro exI [of _ "[]"] exI [of _ db]) (simp add: chosen_def)
next
  case (Cons e es)
  have later: "fresh_runs env (Suc n) db"
    using Cons.prems(4) image_mono [of "{Suc n..}" "{n..}" "ae_run_id env"] by (auto simp: fresh_runs_def)
  consider "\<not> wants clk rule (Some e)" | "wants clk rule (Some e)" "has_run rule (Some e) db"
    | "wants clk rule (Some e)" "\<not> has_run rule (Some e) db" by blast
  then show ?case
  proof cases
    case 3
    have "ae_run_id env n \<notin> ar_id ` set (automation_runs db)" using Cons.prems(4) by (auto simp: fresh_runs_def)
    from run_made [OF Cons.prems(1,2) this 3(2), of clk] obtain r d where
      run: "run_automation clk env n rule (Some e) db = (Inr True, d)" and d: "platform_integrity d"
      and rd: "automation_runs d = automation_runs db @ [r]" "ar_id r = ae_run_id env n"
        "run_of rule (Some e) (now_utc clk) r"
      and ad: "automations d = tbl_put au_id (stamped (now_utc clk) row) (automations db)" by blast
    have id: "au_id row = au_id rule" using automation_repo.get_key [OF Cons.prems(2)] .
    have row: "get_automation (au_id rule) d = Some (stamped (now_utc clk) row)"
      using Cons.prems(2) id tbl_get_put_same [of au_id "stamped (now_utc clk) row" "automations db"]
      by (simp add: get_automation_def ad)
    have fresh: "fresh_runs env (Suc n) d"
      using later rd Cons.prems(4) by (auto simp: fresh_runs_def dest: injD)
    have "ev_id e' \<noteq> ev_id e" if "e' \<in> set es" for e'
      using that Cons.prems(3) by (metis distinct.simps(2) image_eqI list.set_map list.simps(9))
    then have "has_run rule (Some e') d = has_run rule (Some e') db" if "e' \<in> set es" for e'
      using that by (intro has_run_other [OF rd(1,3)]) blast
    then have same: "chosen clk rule d es = chosen clk rule db es"
      unfolding chosen_def by (intro filter_cong) auto
    obtain rs d2 where IH: "handle_events clk env rule (map Some es) (Suc n, Suc c) d = (Inr (Suc n + length es, Suc c + length rs), d2)"
      "platform_integrity d2" "automation_runs d2 = automation_runs d @ rs"
      "list_all2 (\<lambda>e. run_of rule (Some e) (now_utc clk)) (chosen clk rule d es) rs"
      "automations d2 = tbl_put au_id (if rs = [] then stamped (now_utc clk) row else stamped (now_utc clk) (stamped (now_utc clk) row)) (automations d)"
      using Cons.IH [OF d row _ fresh, of "Suc c"] Cons.prems(3) by auto
    have "stamped (now_utc clk) (stamped (now_utc clk) row) = stamped (now_utc clk) row" by (simp add: stamped_def)
    then have "automations d2 = tbl_put au_id (stamped (now_utc clk) row) (automations db)"
      using IH(5) by (simp add: ad tbl_put_twice split: if_splits)
    then show ?thesis
      using 3 IH rd same
      by (intro exI [of _ "r # rs"] exI [of _ d2]) (simp add: run chosen_def)
  qed (use Cons.IH [OF Cons.prems(1,2) _ later, of c] Cons.prems(1,3) in \<open>simp_all add: run_skipped chosen_def\<close>)
qed

lemma pending_sorted:
  assumes "ids_below ev_id (events db)"
  shows "distinct (map ev_id (pending_events rule db))" "sorted (map ev_id (pending_events rule db))"
    "e \<in> set (pending_events rule db) \<Longrightarrow> au_last_cursor rule < ev_id e"
proof -
  let ?hits = "filter (\<lambda>e. au_last_cursor rule < ev_id e) (rows (events db))"
  have "distinct (map ev_id (rows (events db)))" using assms by (simp add: ids_below_def)
  then have "distinct (map ev_id ?hits)" by (simp add: distinct_map_filter)
  then have "distinct (map ev_id (sort_key ev_id ?hits))"
    by (simp add: distinct_map distinct_sort)
  then show "distinct (map ev_id (pending_events rule db))"
    unfolding pending_events_def by (simp add: take_map [symmetric] distinct_take)
  show "sorted (map ev_id (pending_events rule db))"
    unfolding pending_events_def take_map [symmetric] by (intro sorted_wrt_take sorted_sort_key)
  show "e \<in> set (pending_events rule db) \<Longrightarrow> au_last_cursor rule < ev_id e"
    unfolding pending_events_def by (auto dest: in_set_takeD)
qed

lemma sorted_last: "sorted (map f es) \<Longrightarrow> e \<in> set es \<Longrightarrow> f e \<le> (f (last es) :: int)"
  by (induction es) (auto simp: last_ConsR split: if_splits)

lemma move_cursor_last:
  assumes "platform_integrity d" "get_automation (au_id rule) d = Some row" "es \<noteq> []" "au_last_cursor row \<le> ev_id (last es)"
  shows "move_cursor clk rule (map Some es) d =
    (Inr (), save_automation (row\<lparr>au_last_cursor := ev_id (last es), au_updated_at := now_utc clk\<rparr>) d)"
proof -
  obtain e es' where es: "es = e # es'" using assms(3) by (cases es) auto
  have "max (au_last_cursor row) (ev_id (last es)) = ev_id (last es)" using assms(4) by simp
  moreover have "last (map Some es) = Some (last es)" using assms(3) by (rule last_map)
  ultimately show ?thesis
    using assms(2) platform_saved(1) [OF assms(1)] es by (simp add: move_cursor_def commit_with_def)
qed

text \<open>C38: A batch of events gets its runs, and the cursor moves behind it. Evaluating an enabled event rule
  looks at the first five hundred events after its cursor, in the order of their ids. The runs that are
  added are finished, one for each of these events that triggers the rule and has none yet, unless
  the rule was cooling down when the evaluation began: the cooldown is not looked at again between the
  events of a batch. No other run is touched. Afterwards the cursor stands on the last event of the batch, so
  none of them is ever looked at again for this rule, whatever happens to the database.\<close>

theorem automation_batch:
  assumes "platform_integrity db" "get_automation (au_id rule) db = Some rule" "au_trigger_type rule = ''event''"
    and "ids_below ev_id (events db)" "fresh_runs env n db"
  shows "let es = pending_events rule db in
    \<exists>rs d row. evaluate_rule clk env rule (n, c) db = (Inr (n + length es, c + length rs), d) \<and>
      automation_runs d = automation_runs db @ rs \<and>
      list_all2 (\<lambda>e. run_of rule (Some e) (now_utc clk)) (chosen clk rule db es) rs \<and>
      get_automation (au_id rule) d = Some row \<and>
      au_last_cursor row = (if es = [] then au_last_cursor rule else ev_id (last es)) \<and>
      (\<forall>later. set es \<inter> set (pending_events row later) = {})"
proof -
  let ?es = "pending_events rule db"
  note sorted = pending_sorted [OF assms(4)]
  obtain rs d where batch: "handle_events clk env rule (map Some ?es) (n, c) db = (Inr (n + length ?es, c + length rs), d)"
    "platform_integrity d" "automation_runs d = automation_runs db @ rs"
    "list_all2 (\<lambda>e. run_of rule (Some e) (now_utc clk)) (chosen clk rule db ?es) rs"
    "automations d = tbl_put au_id (if rs = [] then rule else stamped (now_utc clk) rule) (automations db)"
    using handle_events_outcome [OF assms(1,2) sorted(1) assms(5)] by blast
  define row where "row = (if rs = [] then rule else stamped (now_utc clk) rule)"
  have row: "au_id row = au_id rule" "au_last_cursor row = au_last_cursor rule" by (simp_all add: row_def)
  have got: "get_automation (au_id rule) d = Some row"
    using assms(2) batch(5) row tbl_get_put_same [of au_id row "automations db"] by (simp add: get_automation_def row_def)
  define moved where "moved = row\<lparr>au_last_cursor := ev_id (last ?es), au_updated_at := now_utc clk\<rparr>"
  define row' where "row' = (if ?es = [] then row else moved)"
  define d' where "d' = (if ?es = [] then d else save_automation moved d)"
  have above: "au_last_cursor rule \<le> ev_id (last ?es)" if "?es \<noteq> []" using sorted(3) [OF last_in_set [OF that]] by simp
  have move: "move_cursor clk rule (map Some ?es) d = (Inr (), d')"
  proof (cases "?es = []")
    case True
    then show ?thesis using batch(2) by (simp add: move_cursor_def commit_with_def d'_def split: option.split)
  next
    case False
    then show ?thesis
      using move_cursor_last [OF batch(2) got False] above row by (simp add: d'_def moved_def)
  qed
  have eval: "evaluate_rule clk env rule (n, c) db = (Inr (n + length ?es, c + length rs), d')"
    using assms(3) by (simp add: evaluate_rule_def rule_events_def batch(1) move)
  have runs: "automation_runs d' = automation_runs db @ rs" using batch(3) by (simp add: d'_def save_automation_def)
  have got': "get_automation (au_id rule) d' = Some row'"
    using automation_repo.get_modified [OF got, of moved] got row by (simp add: d'_def row'_def moved_def)
  have cursor: "au_last_cursor row' = (if ?es = [] then au_last_cursor rule else ev_id (last ?es))"
    by (simp add: row'_def moved_def row)
  have "ev_id e \<le> au_last_cursor row'" if "e \<in> set ?es" for e
    using that cursor sorted_last [OF sorted(2) that] by (auto split: if_splits)
  then have "set ?es \<inter> set (pending_events row' later) = {}" for later :: "'c core_db_scheme"
    by (fastforce simp: pending_events_def dest: in_set_takeD)
  then show ?thesis
    unfolding Let_def using eval runs batch(4) got' cursor by blast
qed

subsection \<open>A rule that blocks the others\<close>

lemma evaluate_rules_append:
  "evaluate_rules clk env (xs @ ys) p db =
     (case evaluate_rules clk env xs p db of
        (Inl e, d) \<Rightarrow> (Inl e, d)
      | (Inr q, d) \<Rightarrow> evaluate_rules clk env ys q d)"
  by (induction xs arbitrary: p db) (auto split: prod.split sum.split)

definition bad_interval :: "automation_row \<Rightarrow> bool" where
  \<comment> \<open>an interval that is not a number, which the service saves without a word\<close>
  "bad_interval rule \<longleftrightarrow>
     au_trigger_type rule = ''interval'' \<and> au_trigger_value rule \<noteq> [] \<and> py_int (au_trigger_value rule) = None"

text \<open>C39: One rule with a bad interval stops every evaluation at its place. If among the enabled rules there
  is an interval rule whose value is not a number, every evaluation, at any time, ends with an exception,
  and the database it leaves is the one the evaluation of the rules before it leaves: the rules after it
  are never evaluated. A new rule with such a value is saved without complaint.\<close>

theorem bad_interval_blocks:
  fixes db :: "'z platform_db_scheme"
  assumes "filter au_enabled (automations db) = before @ rule # after" "bad_interval rule"
  shows "(\<exists>e. fst (automation_evaluate clk env db) = Inl e) \<and>
    snd (automation_evaluate clk env db) = snd (evaluate_rules clk env before (0, 0) db)"
proof -
  have "evaluate_rules clk env (rule # after) p s = (Inl (int_error (au_trigger_value rule)), s)"
    for p and s :: "'z platform_db_scheme"
    using assms(2) by (simp add: evaluate_rule_def rule_events_def bad_interval_def)
  then show ?thesis
    by (cases "evaluate_rules clk env before (0, 0) db"; cases "fst (evaluate_rules clk env before (0, 0) db)")
      (simp_all add: automation_evaluate_def assms(1) evaluate_rules_append del: evaluate_rules.simps)
qed

lemma any_interval_saved:
  assumes "platform_integrity db" "i \<notin> au_id ` set (automations db)"
    and "automation_actions (ai_actions d) = Inr actions" "ai_trigger_type d = Some ''interval''"
  shows "\<exists>view s. automation_save clk i d actor None db = (Inr view, s)"
  using assms
  by (simp add: automation_save_def Let_def text_or_def commit_with_def add_automation_def automation_written_def
      new_automation_def platform_integrity_def platform_keys_def audit_def community_integrity_def
      account_integrity_def auth_integrity_def integrity_def)

subsection \<open>Patterns of events\<close>


subsection \<open>Concrete evaluations\<close>

definition sample_event :: "int \<Rightarrow> string \<Rightarrow> event_row" where
  "sample_event i t =
     \<lparr>ev_id = i, ev_type = t, ev_aggregate_type = ''operation_task'', ev_aggregate_id = None,
      ev_payload = Some (JDict [(''status'', JStr ''failed'')]), ev_created_at = 0, ev_published_at = None\<rparr>"

definition sample_rule :: automation_row where
  "sample_rule =
     \<lparr>au_id = ''r'', au_name = ''failed tasks'', au_description = None, au_trigger_type = ''event'',
      au_trigger_value = ''task.*'', au_conditions = [(''status'', JStr ''failed'')],
      au_actions = [[(''type'', JStr ''create_risk_event'')]], au_enabled = True, au_cooldown_seconds = 60,
      au_last_cursor = 0, au_last_run_at = None, au_revision = 1, au_created_at = 0, au_updated_at = 0\<rparr>"

definition automation_sample :: platform_db where
  "automation_sample =
     \<lparr>embys = [], codes = [], partition_codes = [], partition_grants = empty_table,
      accounts = [], identities = [], wallets = empty_table, ledger = empty_table,
      idempotency = empty_table, audits = empty_table, points = empty_table,
      events = \<lparr>rows = [sample_event 1 ''task.updated'', sample_event 2 ''user.created'', sample_event 3 ''task.updated''],
                next_id = 4\<rparr>,
      securities = empty_table, tasks = [], jobs = empty_table,
      heartbeats = [], settings = [], revisions = empty_table,
      login_requests = [], sessions = [], roles = empty_table, role_members = empty_table,
      plans = empty_table, memberships = [], tags = empty_table, assignments = empty_table,
      reviews = [], reactions = empty_table, reports = empty_table, notifications = [],
      preferences = empty_table, automations = [sample_rule], automation_runs = []\<rparr>"

definition sample_automation_env :: automation_env where
  "sample_automation_env =
     \<lparr>ae_run_id = (\<lambda>n. replicate n (CHR ''x'')), ae_task_id = (\<lambda>n j k. ''t''), ae_recipients = [],
      ae_shown = json_text, ae_error_text = (\<lambda>e. [])\<rparr>"

lemma automation_sample_ok:
  "platform_integrity automation_sample" "get_automation ''r'' automation_sample = Some sample_rule"
  "ids_below ev_id (events automation_sample)" "fresh_runs sample_automation_env 0 automation_sample"
  by (simp_all add: platform_integrity_def platform_keys_def community_integrity_def account_integrity_def
      auth_integrity_def integrity_def automation_sample_def sample_rule_def get_automation_def ids_below_def
      sample_event_def fresh_runs_def sample_automation_env_def inj_def)

lemma automation_sample_chosen:
  "pending_events sample_rule automation_sample = [sample_event 1 ''task.updated'', sample_event 2 ''user.created'', sample_event 3 ''task.updated'']"
  "chosen sample_clock sample_rule automation_sample
       [sample_event 1 ''task.updated'', sample_event 2 ''user.created'', sample_event 3 ''task.updated''] =
     [sample_event 1 ''task.updated'', sample_event 3 ''task.updated'']"
  by code_simp+

lemma sample_event_id [simp]: "ev_id (sample_event i t) = i"
  by (simp add: sample_event_def)

lemma automation_batch_witness:
  "\<exists>d. evaluate_rule sample_clock sample_automation_env sample_rule (0, 0) automation_sample = (Inr (3, 2), d) \<and>
     map ar_event_id (automation_runs d) = [Some 1, Some 3] \<and>
     map_option au_last_cursor (get_automation ''r'' d) = Some 3"
proof -
  have id: "au_id sample_rule = ''r''" "au_trigger_type sample_rule = ''event''" by (simp_all add: sample_rule_def)
  have "automation_runs automation_sample = []" by (simp add: automation_sample_def)
  with automation_batch [of automation_sample sample_rule sample_automation_env 0 sample_clock 0]
  show ?thesis
    using automation_sample_ok id
    by (auto simp: automation_sample_chosen Let_def list_all2_Cons1 run_of_def)
qed

definition blocking_rule :: automation_row where
  "blocking_rule = sample_rule\<lparr>au_id := ''b'', au_trigger_type := ''interval'', au_trigger_value := ''*''\<rparr>"

definition blocked_sample :: platform_db where
  "blocked_sample = automation_sample\<lparr>automations := [blocking_rule, sample_rule]\<rparr>"

lemma bad_interval_blocks_witness:
  "(\<exists>e. fst (automation_evaluate sample_clock sample_automation_env blocked_sample) = Inl e) \<and>
   automation_runs (snd (automation_evaluate sample_clock sample_automation_env blocked_sample)) = []"
proof -
  have "filter au_enabled (automations blocked_sample) = [] @ blocking_rule # [sample_rule]"
    by (simp add: blocked_sample_def blocking_rule_def sample_rule_def)
  moreover have "bad_interval blocking_rule" by code_simp
  moreover have "automation_runs blocked_sample = []" by (simp add: blocked_sample_def automation_sample_def)
  ultimately show ?thesis
    using bad_interval_blocks [of blocked_sample "[]" blocking_rule "[sample_rule]" sample_clock sample_automation_env] by simp
qed

end
