(* ===== verification/Spec2Isabelle.thy ===== *)
theory Spec2Isabelle
  imports Point_Properties Code_Lifecycle User_Properties Partition_Properties
    Task_Properties Reliability_Properties Register_Properties Legacy_Codes
    Auth_Access Account_Properties Community_Properties Request_Properties Governance_Properties Registration_Properties Automation_Properties
begin

text \<open>
  \<^bold>\<open>The program.\<close> Sakura Embyboss, version 2 (\<open>legacy/v2\<close>), runs a Telegram bot, a web API and
  background workers over one MySQL database and a remote Emby media server. Its core is the shared
  business layer of \<open>bot/application\<close>: services that open one unit of work per business operation,
  lock rows through the repositories of \<open>bot/repositories\<close>, check their guards, write balances,
  codes, grants or tasks, and leave a transaction, an audit row, an event and a replayable answer in
  the same transaction. Beside it are the registration queue of the bot process
  (\<open>bot/func_helper/register_queue.py\<close>), the older table helpers of \<open>bot/sql_helper\<close>, and the event
  stream of \<open>backend/api/tasks.py\<close>.

  \<^bold>\<open>The model.\<close> The database is the record \<open>core_db\<close> of \<open>Schema\<close>, one field per table, each a list
  of rows (with a counter where the key is generated); \<open>integrity\<close> holds of a database that meets the
  primary keys and unique constraints. An operation is a function from its arguments and a database
  to an exception or a result and the database after it. The clock, random tokens, generated ids and
  the answers of remote servers are arguments. Nullable columns are options, JSON columns the values
  they denote (\<open>Json\<close>), texts UTF-8 bytes, datetimes microseconds since year 1.

  \<^bold>\<open>The theories.\<close>
  \<^item> \<open>Prelude\<close>: exceptions, truthiness, Python text, datetimes, tables, and the locales \<open>keyed_store\<close>
    and \<open>growing_store\<close> that every repository interprets. \<open>Json\<close>, \<open>Sha256\<close>, \<open>Uuid\<close>: what the source
    takes from the standard library (SHA-256 and SHA-1 on 32-bit words). \<open>Domain\<close>: actors, service
    results and fingerprints. \<open>Samples\<close>: the data of the witnesses.
  \<^item> \<open>Unit_Of_Work\<close>: commit and rollback; the locale \<open>transactional\<close>. \<open>Repositories\<close>,
    \<open>Operations_Repo\<close>: the queries and writes of the repositories. \<open>Frames\<close>: what each write leaves
    alone and how it keeps \<open>integrity\<close>. \<open>Contracts\<close>: the locales \<open>idempotent_service\<close> (a keyed call
    replays its answer) and \<open>booked_service\<close> (balances move with booked transactions).
  \<^item> \<open>Balances\<close>, \<open>Wallet_Mirror\<close>: the balances, the common shape of a service's write, and the
    invariant that wallets mirror the balances. \<open>Point_Service\<close>, \<open>Code_Service\<close>, \<open>User_Service\<close>,
    \<open>Partition_Service\<close> and \<open>Task_Service\<close> (with \<open>Task_Definitions\<close>): one definition per method, in
    the order of the source, then what each does on every branch; the interpretations of the
    contracts. \<open>Task_Lifecycle\<close>: the states of a task as a step relation and its invariant.
    \<open>Point_Properties\<close>, \<open>Code_Lifecycle\<close>, \<open>User_Properties\<close>, \<open>Partition_Properties\<close> and
    \<open>Task_Properties\<close>: exactly-once execution, outcomes on every branch, single use of codes,
    exclusion of reservations, fencing of leases, the order of the queue, retries and bounds.
  \<^item> \<open>Reliability_Service\<close>, \<open>Event_Stream\<close>, \<open>Reliability_Properties\<close>: the outbox, its relay and the
    client's cursor as runs of interleaved steps; each event is delivered once and in order; status
    and cleanup.
  \<^item> \<open>Register_Queue\<close>, \<open>Register_Properties\<close>: the registration queue as a step relation whose steps are
    the blocks under its lock; slots are never oversold, counters are exact, the queue drains, a job
    leaves no orphaned remote account.
  \<^item> \<open>Legacy_Partition\<close>, \<open>Legacy_Users\<close>, \<open>Legacy_Codes\<close>: every function of the three older helper
    modules; the one-transaction redemption agrees with the two-phase service.

  \<^item> \<open>Auth_Schema\<close> extends the database by login requests, sessions and roles. \<open>Auth_Permissions\<close>,
    \<open>Hmac\<close>, \<open>Password_Hasher\<close>: the permission catalogue, the keyed token hash and stored passwords.
    \<open>Auth_Service\<close>: every method of \<open>WebAuthService\<close>. \<open>Auth_Calls\<close>: its calls as a datatype and the
    protocol of a login request as step relations, of which every call is a step.
    \<open>Auth_Properties\<close>, \<open>Auth_Access\<close>: a request gives one session, to its approver, and ten in ten
    minutes; sessions authenticate exactly while they live; only the owner has every permission.

  \<^item> \<open>Account_Schema\<close>, \<open>Account_Service\<close>, \<open>Account_Properties\<close>: every method of \<open>AccountService\<close>; one
    default plan, one open membership of an account, no assignment of a missing tag.
  \<^item> \<open>Community_Schema\<close>, \<open>Notifications\<close>, \<open>Review_Service\<close>, \<open>Notification_Service\<close>: the tables and every
    method of \<open>community_service.py\<close>; \<open>Notifications\<close> is the function the other services notify users
    with. \<open>Community_Properties\<close>: whom a broadcast reaches, the types of the rows, exact counters, and
    reactions as a set of likes.
  \<^item> \<open>Commerce_Schema\<close>, \<open>Commerce_Service\<close>, \<open>Ticket_Service\<close>: the tables and every method of
    \<open>commerce_service.py\<close>. \<open>Order_Protocol\<close>: what a recharge order promises, as a step relation with its
    invariants. \<open>Commerce_Properties\<close>: every call is a step of it, so coins follow the orders and the
    ledger reconciles. \<open>Request_Properties\<close>: the states of media requests and the privacy of tickets.

  \<^item> \<open>Setting_Definitions\<close>, \<open>Settings_Service\<close>, \<open>Risk_Events\<close>: the registry of dynamic settings and
    every method of \<open>governance_service.py\<close>; the values of the running process are a state beside the
    database. \<open>Governance_Properties\<close>: settings implement registers with compare and set, their history
    is complete, a rollback restores, the retried update ends, the risk summary counts.
  \<^item> \<open>Registration_Service\<close>: every method of \<open>registration_service.py\<close>; what the media server answers and
    what others do while it works are arguments. \<open>Registration_Properties\<close>: places are never oversold
    along any interleaving of submissions and workers, an execution leaves no orphan, and a code without
    days is spent for nothing.
  \<^item> \<open>Patterns\<close>: \<open>fnmatch\<close>, as a parser of patterns and a matcher, and its declarative reading.
    \<open>Platform_Schema\<close>, \<open>Automation_Service\<close>: the tables and every method of \<open>AutomationService\<close> of
    \<open>platform_service.py\<close>. \<open>Automation_Properties\<close>: the runs and the cursor after a batch of events, the
    rule that blocks the others, the meaning of patterns.

  \<^bold>\<open>Bounds.\<close> Python integers are unbounded and so are those of the model; the two constants of the
  point service bound a balance to 32 bits. A datetime out of range raises, as in the source. No
  definition needs fuel: queues and candidate lists are consumed structurally.

  \<^bold>\<open>Not modelled.\<close> Isolation levels: operations run one after the other, which is what the row locks
  are for; so ids are assumed to become visible in the order they are drawn. Two exceptions are
  modelled as interleavings, the insert race of \<open>TaskService.enqueue\<close> and the registration queue.
  Rendering and Telegram traffic (\<open>bot/modules\<close>), HTTP clients (\<open>func_helper/emby.py\<close>,
  \<open>moviepilot.py\<close>), image generation (\<open>ranks_helper\<close>), database migrations, the web front end, the
  scripts and version 3 (Go) carry no logic of this layer. The password
  hash \<open>scrypt\<close> and the tables behind \<open>str.casefold\<close> are arguments. Of \<open>platform_service.py\<close> the
  credentials (authenticated encryption of a third-party package), the media instances, the media
  catalogue and the MoviePilot gateway (calls to remote servers), the device rules (regular expressions of
  the user), API clients and backups are left out, and so are \<open>operations_center_service.py\<close>,
  \<open>core_operations_service.py\<close> (probes and reports of remote servers) and the read-only queries of
  \<open>admin_service.py\<close>; no modelled operation depends on them.
\<close>

end
